(* ===== verification/Prelude.thy ===== *)
theory Prelude
  imports Main "HOL-Library.Word" "HOL-Library.AList"
begin

text \<open>
  Shared vocabulary of the development: the exceptions of the JavaScript code, results that
  are either an exception or a value, sequencing of steps that may throw, and the small
  lemmas on them that every component uses.

  A throwing expression of type \<open>'a\<close> is modelled by a value of \<open>'a res\<close>:
  \<open>Inl e\<close> when it throws \<open>e\<close> and \<open>Inr x\<close> when it evaluates to \<open>x\<close>. A function that
  mutates an object and may throw takes the object's state and returns the new state as
  such a result; after a throw the state is gone, as no caller in this code base reads it
  again.
\<close>

section \<open>Exceptions and results\<close>

text \<open>
  \<open>Diverge\<close> is not an exception of the code: it is the value of a loop or recursion whose
  fuel ran out. Theorems state that it is never the result.
\<close>

datatype js_error =
    TypeError string
  | RangeError string
  | SyntaxError string
  | Error string
  | AuthError string
  | Diverge

type_synonym 'a res = "js_error + 'a"

type_synonym bytes = "8 word list"
type_synonym u32 = "32 word"

named_theorems res_simps "evaluation of results and statement sequences"
named_theorems wire_writes "what an encoder statement appends"
named_theorems wire_reads "what a run of fields does to the message being decoded"

definition rbind :: "'a res \<Rightarrow> ('a \<Rightarrow> 'b res) \<Rightarrow> 'b res" where
  "rbind m f = (case m of Inl e \<Rightarrow> Inl e | Inr x \<Rightarrow> f x)"

lemma rbind_simps [simp, res_simps]:
  "rbind (Inl e) f = Inl e"
  "rbind (Inr x) f = f x"
  by (simp_all add: rbind_def)

lemma rbind_eq_Inr: "rbind m f = Inr y \<longleftrightarrow> (\<exists>x. m = Inr x \<and> f x = Inr y)"
  by (cases m) auto

lemma rbind_eq_Inl: "rbind m f = Inl e \<longleftrightarrow> m = Inl e \<or> (\<exists>x. m = Inr x \<and> f x = Inl e)"
  by (cases m) auto

lemma rbind_assoc: "rbind (rbind m f) g = rbind m (\<lambda>x. rbind (f x) g)"
  by (cases m) auto

lemma rbind_cong [fundef_cong]:
  "m = m' \<Longrightarrow> (\<And>x. m' = Inr x \<Longrightarrow> f x = f' x) \<Longrightarrow> rbind m f = rbind m' f'"
  by (cases m') auto

section \<open>Statements over a mutable object\<close>

text \<open>
  A statement is a function from the object's state to its next state or a throw. A block is
  a list of statements run in order, \<open>only_if\<close> is an \<^verbatim>\<open>if\<close> without \<^verbatim>\<open>else\<close>, \<open>if_set x c\<close>
  is \<^verbatim>\<open>if (x !== undefined) c(x)\<close>, and a
  \<^verbatim>\<open>for ... of\<close> loop is the block of its body's instances.
\<close>

type_synonym 's stmt = "'s \<Rightarrow> 's res"

fun run :: "'s stmt list \<Rightarrow> 's stmt" where
  "run [] s = Inr s"
| "run (c # cs) s = rbind (c s) (run cs)"

declare run.simps [res_simps]

definition only_if :: "bool \<Rightarrow> 's stmt \<Rightarrow> 's stmt" where
  "only_if b c s = (if b then c s else Inr s)"

definition if_set :: "'a option \<Rightarrow> ('a \<Rightarrow> 's stmt) \<Rightarrow> 's stmt" where
  "if_set x c s = (case x of None \<Rightarrow> Inr s | Some v \<Rightarrow> c v s)"

text \<open>\<^verbatim>\<open>if (x !== undefined && x !== d) c(x)\<close>\<close>

definition if_other :: "'a option \<Rightarrow> 'a \<Rightarrow> ('a \<Rightarrow> 's stmt) \<Rightarrow> 's stmt" where
  "if_other x d c s = (case x of None \<Rightarrow> Inr s | Some v \<Rightarrow> if v \<noteq> d then c v s else Inr s)"

definition for_each :: "'a list \<Rightarrow> ('a \<Rightarrow> 's stmt) \<Rightarrow> 's stmt" where
  "for_each xs body = run (map body xs)"

lemma for_each_cong [fundef_cong]:
  "xs = xs' \<Longrightarrow> (\<And>x. x \<in> set xs' \<Longrightarrow> f x = g x) \<Longrightarrow> for_each xs f = for_each xs' g"
  by (auto simp: for_each_def intro: arg_cong [of _ _ run])

lemma only_if_simps [simp, res_simps]:
  "only_if True c s = c s"
  "only_if False c s = Inr s"
  by (simp_all add: only_if_def)

lemma if_set_simps [simp, res_simps]:
  "if_set None c s = Inr s"
  "if_set (Some v) c s = c v s"
  by (simp_all add: if_set_def)

lemma run_append: "run (cs @ ds) s = rbind (run cs s) (run ds)"
  by (induction cs arbitrary: s) (auto simp: rbind_assoc intro!: rbind_cong)

section \<open>Mapping a throwing function over an array\<close>

fun map_res :: "('a \<Rightarrow> 'b res) \<Rightarrow> 'a list \<Rightarrow> 'b list res" where
  "map_res f [] = Inr []"
| "map_res f (x # xs) = rbind (f x) (\<lambda>y. rbind (map_res f xs) (\<lambda>ys. Inr (y # ys)))"

lemma map_res_cong [fundef_cong]:
  "xs = xs' \<Longrightarrow> (\<And>x. x \<in> set xs' \<Longrightarrow> f x = f' x) \<Longrightarrow> map_res f xs = map_res f' xs'"
proof (induction xs arbitrary: xs')
  case Nil
  then show ?case by simp
next
  case (Cons x xs)
  then show ?case by (cases xs') (auto intro!: rbind_cong)
qed

lemma map_res_map_Inr:
  "(\<And>x. x \<in> set xs \<Longrightarrow> f (g x) = Inr (h x)) \<Longrightarrow> map_res f (map g xs) = Inr (map h xs)"
  by (induction xs) simp_all

lemma map_res_Inr: "map_res (\<lambda>x. Inr (h x)) xs = Inr (map h xs)"
  by (induction xs) simp_all

lemma map_res_length: "map_res f xs = Inr ys \<Longrightarrow> length ys = length xs"
  by (induction xs arbitrary: ys) (auto simp: rbind_eq_Inr)

lemma map_res_first_error:
  assumes "map_res f xs = Inr ys" and "f x = Inl e"
  shows "map_res f (xs @ x # zs) = Inl e"
  using assms by (induction xs arbitrary: ys) (auto simp: rbind_eq_Inr)

end
