(* ===== verification/JS_Value.thy ===== *)
theory JS_Value
  imports Prelude
begin

text \<open>
  The part of JavaScript the client code uses on dynamically typed values: the values that
  \<^verbatim>\<open>JSON.parse\<close> and \<^verbatim>\<open>await res.json()\<close> produce, \<^verbatim>\<open>undefined\<close>, property reads,
  conversion to string, boolean and number, and \<^verbatim>\<open>JSON.stringify\<close>.

  Strings are HOL strings, so the characters of the model are U+0000 to U+00FF. Numbers are
  integers, decimal fractions, \<^verbatim>\<open>NaN\<close> and the infinities. \<open>NDec m e\<close> is \<open>m / 10 ^ e\<close>, with \<open>0 < e\<close>
  and \<open>m\<close> not divisible by ten. An integer stands for itself while it is a safe integer (of
  magnitude below \<open>2 ^ 53\<close>), a decimal fraction while it has at most fifteen digits; rounding to
  binary beyond that is not modelled, nor is the sign of zero. Objects are association lists
  in insertion order.
\<close>

section \<open>Values\<close>

datatype jsnum = NInt int | NDec int nat | NaN | PosInf | NegInf

datatype jsval =
    JUndefined
  | JNull
  | JBool bool
  | JNum jsnum
  | JStr string
  | JArr "jsval list"
  | JObj "(string \<times> jsval) list"

text \<open>\<^verbatim>\<open>isSet\<close> of the generated files: neither \<^verbatim>\<open>null\<close> nor \<^verbatim>\<open>undefined\<close>.\<close>

definition isSet :: "jsval \<Rightarrow> bool" where
  "isSet value \<longleftrightarrow> value \<noteq> JNull \<and> value \<noteq> JUndefined"

text \<open>
  Reading a property: a throw on \<^verbatim>\<open>null\<close> and \<^verbatim>\<open>undefined\<close>, \<^verbatim>\<open>undefined\<close> for a
  property that is absent. None of the names the code reads is a property of the prototypes
  of strings, numbers, booleans, arrays or objects.
\<close>

fun js_get :: "jsval \<Rightarrow> string \<Rightarrow> jsval res" where
  "js_get JUndefined k = Inl (TypeError ''Cannot read properties of undefined'')"
| "js_get JNull k = Inl (TypeError ''Cannot read properties of null'')"
| "js_get (JObj kvs) k = Inr (case map_of kvs k of Some v \<Rightarrow> v | None \<Rightarrow> JUndefined)"
| "js_get _ k = Inr JUndefined"

text \<open>\<^verbatim>\<open>object?.k\<close>: \<^verbatim>\<open>undefined\<close> instead of the throw.\<close>

definition js_opt_get :: "jsval \<Rightarrow> string \<Rightarrow> jsval" where
  "js_opt_get v k = (case js_get v k of Inl _ \<Rightarrow> JUndefined | Inr x \<Rightarrow> x)"

text \<open>\<^verbatim>\<open>obj.k = v\<close> on an object under construction.\<close>

definition js_set :: "string \<Rightarrow> jsval \<Rightarrow> (string \<times> jsval) list \<Rightarrow> (string \<times> jsval) list" where
  "js_set k v obj = AList.update k v obj"

text \<open>
  The body of \<^verbatim>\<open>toJSON\<close>: starting from \<^verbatim>\<open>{}\<close>, one conditional assignment per field, in
  order. An entry with \<open>None\<close> is an assignment whose condition is false.
\<close>

definition json_object :: "(string \<times> jsval option) list \<Rightarrow> jsval" where
  "json_object entries =
     JObj (fold (\<lambda>(k, v) obj. case v of None \<Rightarrow> obj | Some x \<Rightarrow> js_set k x obj) entries [])"

definition put_if :: "bool \<Rightarrow> jsval \<Rightarrow> jsval option" where
  "put_if b v = (if b then Some v else None)"

text \<open>\<^verbatim>\<open>if (x !== undefined && x !== d) obj.k = f(x)\<close>\<close>

definition put_other :: "'a option \<Rightarrow> 'a \<Rightarrow> ('a \<Rightarrow> jsval) \<Rightarrow> jsval option" where
  "put_other x d f = (case x of None \<Rightarrow> None | Some v \<Rightarrow> if v \<noteq> d then Some (f v) else None)"

text \<open>\<^verbatim>\<open>a ?? d\<close> for a typed \<open>a\<close> that may be absent.\<close>

definition nullish :: "'a option \<Rightarrow> 'a \<Rightarrow> 'a" where
  "nullish a d = (case a of Some x \<Rightarrow> x | None \<Rightarrow> d)"

section \<open>Conversions\<close>

fun nat_to_string :: "nat \<Rightarrow> string" where
  "nat_to_string n =
     (if n < 10 then [char_of (48 + n)]
      else nat_to_string (n div 10) @ [char_of (48 + n mod 10)])"

declare nat_to_string.simps [simp del]

text \<open>
  \<^verbatim>\<open>Number.prototype.toString\<close>: a fraction below \<open>10 ^ -6\<close> is written with an exponent.
\<close>

definition dec_to_string :: "nat \<Rightarrow> nat \<Rightarrow> string" where
  "dec_to_string m e =
     (let ds = nat_to_string m; k = length ds in
      if e < k then take (k - e) ds @ ''.'' @ drop (k - e) ds
      else if e \<le> k + 5 then ''0.'' @ replicate (e - k) (CHR ''0'') @ ds
      else (if k = 1 then ds else take 1 ds @ ''.'' @ drop 1 ds) @ ''e-'' @ nat_to_string (e - k + 1))"

fun num_to_string :: "jsnum \<Rightarrow> string" where
  "num_to_string (NInt i) =
     (if i < 0 then CHR ''-'' # nat_to_string (nat (- i)) else nat_to_string (nat i))"
| "num_to_string (NDec m e) =
     (if m < 0 then CHR ''-'' # dec_to_string (nat (- m)) e else dec_to_string (nat m) e)"
| "num_to_string NaN = ''NaN''"
| "num_to_string PosInf = ''Infinity''"
| "num_to_string NegInf = ''-Infinity''"

fun join :: "string \<Rightarrow> string list \<Rightarrow> string" where
  "join sep [] = []"
| "join sep [s] = s"
| "join sep (s # t # ts) = s @ sep @ join sep (t # ts)"

text \<open>
  \<^verbatim>\<open>globalThis.String(v)\<close>. An array is the comma-separated join of its elements, with
  \<^verbatim>\<open>null\<close> and \<^verbatim>\<open>undefined\<close> empty. A parsed object that has an own \<^verbatim>\<open>toString\<close> property
  hides the inherited function with a value that is not callable, and the conversion throws.
\<close>

fun js_String :: "jsval \<Rightarrow> string res" where
  "js_String JUndefined = Inr ''undefined''"
| "js_String JNull = Inr ''null''"
| "js_String (JBool b) = Inr (if b then ''true'' else ''false'')"
| "js_String (JNum n) = Inr (num_to_string n)"
| "js_String (JStr s) = Inr s"
| "js_String (JArr vs) =
     rbind (map_res (\<lambda>v. if isSet v then js_String v else Inr []) vs) (\<lambda>ss. Inr (join '','' ss))"
| "js_String (JObj kvs) =
     (if map_of kvs ''toString'' \<noteq> None
      then Inl (TypeError ''Cannot convert object to primitive value'')
      else Inr ''[object Object]'')"

text \<open>\<^verbatim>\<open>globalThis.Boolean(v)\<close>, and the condition of an \<^verbatim>\<open>if\<close>.\<close>

fun js_Boolean :: "jsval \<Rightarrow> bool" where
  "js_Boolean JUndefined = False"
| "js_Boolean JNull = False"
| "js_Boolean (JBool b) = b"
| "js_Boolean (JNum n) = (n \<noteq> NInt 0 \<and> n \<noteq> NaN)"
| "js_Boolean (JStr s) = (s \<noteq> [])"
| "js_Boolean (JArr vs) = True"
| "js_Boolean (JObj kvs) = True"

text \<open>\<^verbatim>\<open>String.prototype.trim\<close>: the white space of U+0000 to U+00FF.\<close>

definition js_space :: "char \<Rightarrow> bool" where
  "js_space c \<longleftrightarrow> (of_char c :: nat) \<in> {9, 10, 11, 12, 13, 32, 160}"

definition trim :: "string \<Rightarrow> string" where
  "trim s = rev (dropWhile js_space (rev (dropWhile js_space s)))"

text \<open>
  \<^verbatim>\<open>globalThis.Number(v)\<close>. A string is a decimal literal, a hexadecimal, octal or binary
  integer, an infinity, or blank; anything else is \<^verbatim>\<open>NaN\<close>. \<open>dec_num m e\<close> is \<open>m * 10 ^ e\<close>. Arrays and
  objects are converted to a string first.
\<close>

function dec_num :: "int \<Rightarrow> int \<Rightarrow> jsnum" where
  "dec_num m e =
     (if 0 \<le> e then NInt (m * 10 ^ nat e)
      else if m = 0 then NInt 0
      else if m mod 10 = 0 then dec_num (m div 10) (e + 1)
      else NDec m (nat (- e)))"
  by pat_completeness auto
termination
  by (relation "measure (\<lambda>(m, e). nat (- e))") auto

declare dec_num.simps [simp del]

definition digit_value :: "char \<Rightarrow> nat" where
  "digit_value c =
     (let n = (of_char c :: nat) in
      if 48 \<le> n \<and> n \<le> 57 then n - 48
      else if 65 \<le> n \<and> n \<le> 90 then n - 55
      else if 97 \<le> n \<and> n \<le> 122 then n - 87
      else 99)"

definition is_digit :: "nat \<Rightarrow> char \<Rightarrow> bool" where
  "is_digit b c \<longleftrightarrow> digit_value c < b"

definition digits_value :: "nat \<Rightarrow> string \<Rightarrow> int" where
  "digits_value b ds = foldl (\<lambda>n c. n * int b + int (digit_value c)) 0 ds"

definition radix_number :: "nat \<Rightarrow> string \<Rightarrow> jsnum" where
  "radix_number b ds = (if ds \<noteq> [] \<and> list_all (is_digit b) ds then NInt (digits_value b ds) else NaN)"

definition signed :: "string \<Rightarrow> int \<times> string" where
  "signed s =
     (case s of
        [] \<Rightarrow> (1, [])
      | c # cs \<Rightarrow> if c = CHR ''-'' then (- 1, cs) else if c = CHR ''+'' then (1, cs) else (1, s))"

definition exponent_part :: "string \<Rightarrow> int option" where
  "exponent_part s =
     (case s of
        [] \<Rightarrow> Some 0
      | c # cs \<Rightarrow>
          (let (sg, ds) = signed cs in
           if (c = CHR ''e'' \<or> c = CHR ''E'') \<and> ds \<noteq> [] \<and> list_all (is_digit 10) ds
           then Some (sg * digits_value 10 ds) else None))"

definition decimal_number :: "string \<Rightarrow> jsnum" where
  "decimal_number s =
     (let (sg, t) = signed s;
          whole = takeWhile (is_digit 10) t;
          after = dropWhile (is_digit 10) t;
          point = (after \<noteq> [] \<and> hd after = CHR ''.'');
          frac = (if point then takeWhile (is_digit 10) (tl after) else []);
          tail = (if point then dropWhile (is_digit 10) (tl after) else after)
      in if t = ''Infinity'' then (if sg < 0 then NegInf else PosInf)
         else if whole = [] \<and> frac = [] then NaN
         else case exponent_part tail of
                None \<Rightarrow> NaN
              | Some e \<Rightarrow> dec_num (sg * digits_value 10 (whole @ frac)) (e - int (length frac)))"

definition string_to_num :: "string \<Rightarrow> jsnum" where
  "string_to_num str =
     (let s = trim str; prefix = take 2 s; ds = drop 2 s in
      if s = [] then NInt 0
      else if prefix = ''0x'' \<or> prefix = ''0X'' then radix_number 16 ds
      else if prefix = ''0o'' \<or> prefix = ''0O'' then radix_number 8 ds
      else if prefix = ''0b'' \<or> prefix = ''0B'' then radix_number 2 ds
      else decimal_number s)"

fun js_Number :: "jsval \<Rightarrow> jsnum res" where
  "js_Number JUndefined = Inr NaN"
| "js_Number JNull = Inr (NInt 0)"
| "js_Number (JBool b) = Inr (NInt (if b then 1 else 0))"
| "js_Number (JNum n) = Inr n"
| "js_Number (JStr s) = Inr (string_to_num s)"
| "js_Number (JArr vs) = rbind (js_String (JArr vs)) (\<lambda>s. Inr (string_to_num s))"
| "js_Number (JObj kvs) = rbind (js_String (JObj kvs)) (\<lambda>s. Inr (string_to_num s))"

text \<open>\<^verbatim>\<open>Math.round\<close>: to the nearest integer, halves upwards.\<close>

fun js_round :: "jsnum \<Rightarrow> jsnum" where
  "js_round (NDec m e) = NInt ((2 * m + 10 ^ e) div (2 * 10 ^ e))"
| "js_round n = n"

lemma js_round_idem [simp]: "js_round (js_round n) = js_round n"
  by (cases n) simp_all

text \<open>\<^verbatim>\<open>a < b\<close> on numbers.\<close>

fun js_less :: "jsnum \<Rightarrow> jsnum \<Rightarrow> bool" where
  "js_less NaN b = False"
| "js_less a NaN = False"
| "js_less PosInf b = False"
| "js_less a NegInf = False"
| "js_less NegInf b = True"
| "js_less a PosInf = True"
| "js_less (NInt i) (NInt j) = (i < j)"
| "js_less (NInt i) (NDec m e) = (i * 10 ^ e < m)"
| "js_less (NDec m e) (NInt j) = (m < j * 10 ^ e)"
| "js_less (NDec m e) (NDec n f) = (m * 10 ^ f < n * 10 ^ e)"

text \<open>\<^verbatim>\<open>a || b\<close> on values.\<close>

definition js_or :: "jsval \<Rightarrow> jsval \<Rightarrow> jsval" where
  "js_or a b = (if js_Boolean a then a else b)"

section \<open>JSON text\<close>

definition hex_digit :: "nat \<Rightarrow> char" where
  "hex_digit d = (if d < 10 then char_of (48 + d) else char_of (87 + d))"

definition json_escape :: "char \<Rightarrow> string" where
  "json_escape c =
     (let n = (of_char c :: nat) in
      if n = 34 then [CHR 0x5C, CHR 0x22]
      else if n = 92 then [CHR 0x5C, CHR 0x5C]
      else if n = 8 then [CHR 0x5C, CHR ''b'']
      else if n = 9 then [CHR 0x5C, CHR ''t'']
      else if n = 10 then [CHR 0x5C, CHR ''n'']
      else if n = 12 then [CHR 0x5C, CHR ''f'']
      else if n = 13 then [CHR 0x5C, CHR ''r'']
      else if n < 32 then [CHR 0x5C, CHR ''u'', CHR ''0'', CHR ''0'', hex_digit (n div 16), hex_digit (n mod 16)]
      else [c])"

definition json_quote :: "string \<Rightarrow> string" where
  "json_quote s = CHR 0x22 # concat (map json_escape s) @ [CHR 0x22]"

text \<open>
  \<^verbatim>\<open>JSON.stringify(v)\<close>: \<^verbatim>\<open>undefined\<close> has no text, an object skips such members, an
  array writes \<^verbatim>\<open>null\<close> for them, and so it does for numbers that are not finite.
\<close>

fun json_stringify :: "jsval \<Rightarrow> string option" where
  "json_stringify JUndefined = None"
| "json_stringify JNull = Some ''null''"
| "json_stringify (JBool b) = Some (if b then ''true'' else ''false'')"
| "json_stringify (JNum n) =
     (case n of
        NInt i \<Rightarrow> Some (num_to_string n)
      | NDec m e \<Rightarrow> Some (num_to_string n)
      | _ \<Rightarrow> Some ''null'')"
| "json_stringify (JStr s) = Some (json_quote s)"
| "json_stringify (JArr vs) =
     Some (CHR ''['' # join '','' (map (\<lambda>v. case json_stringify v of Some t \<Rightarrow> t | None \<Rightarrow> ''null'') vs) @ '']'')"
| "json_stringify (JObj kvs) =
     Some (CHR ''{'' # join '','' (concat (map (\<lambda>kv. case json_stringify (snd kv) of
             Some t \<Rightarrow> [json_quote (fst kv) @ CHR '':'' # t] | None \<Rightarrow> []) kvs)) @ ''}'')"

section \<open>Field readers of \<^verbatim>\<open>fromJSON\<close>\<close>

text \<open>
  The generated \<^verbatim>\<open>fromJSON\<close> bodies consist of one expression per field, of four shapes.
  \<open>json_field\<close> is \<^verbatim>\<open>isSet(object.k) ? conv(object.k) : dflt\<close>, and \<open>json_field2\<close> tries a
  second spelling of the name before it falls back. \<open>json_array\<close> is
  \<^verbatim>\<open>Array.isArray(object?.k) ? object.k.map(conv) : dflt\<close>.
\<close>

definition json_field :: "jsval \<Rightarrow> string \<Rightarrow> (jsval \<Rightarrow> 'a res) \<Rightarrow> 'a res \<Rightarrow> 'a res" where
  "json_field object k conv dflt =
     rbind (js_get object k) (\<lambda>v. if isSet v then conv v else dflt)"

definition json_field2 :: "jsval \<Rightarrow> string \<Rightarrow> string \<Rightarrow> (jsval \<Rightarrow> 'a res) \<Rightarrow> 'a res \<Rightarrow> 'a res" where
  "json_field2 object k k2 conv dflt = json_field object k conv (json_field object k2 conv dflt)"

definition json_array :: "jsval \<Rightarrow> string \<Rightarrow> (jsval \<Rightarrow> 'a res) \<Rightarrow> 'a list res \<Rightarrow> 'a list res" where
  "json_array object k conv dflt =
     (case js_opt_get object k of JArr vs \<Rightarrow> map_res conv vs | _ \<Rightarrow> dflt)"

definition js_Boolean_res :: "jsval \<Rightarrow> bool res" where
  "js_Boolean_res v = Inr (js_Boolean v)"

definition some_res :: "(jsval \<Rightarrow> 'a res) \<Rightarrow> jsval \<Rightarrow> 'a option res" where
  "some_res conv v = rbind (conv v) (\<lambda>x. Inr (Some x))"

text \<open>
  \<^verbatim>\<open>eFromJSON(object.k)\<close> for an enum: the result is stored as a number. \<open>enum_json\<close> is what a
  number becomes on the way to JSON and back.
\<close>

definition enum_number :: "('e \<Rightarrow> int) \<Rightarrow> (jsval \<Rightarrow> 'e) \<Rightarrow> jsval \<Rightarrow> jsnum res" where
  "enum_number val fromJ v = Inr (NInt (val (fromJ v)))"

definition enum_json ::
  "jsnum \<Rightarrow> ('e \<Rightarrow> int) \<Rightarrow> (jsval \<Rightarrow> 'e) \<Rightarrow> (jsnum \<Rightarrow> string) \<Rightarrow> jsnum option \<Rightarrow> jsnum" where
  "enum_json d val fromJ toJ x =
     (case x of None \<Rightarrow> d | Some n \<Rightarrow> if n = d then d else NInt (val (fromJ (JStr (toJ n)))))"

section \<open>Lemmas\<close>

lemma nullish_Some: "nullish (Some v) d = v"
  by (simp add: nullish_def)

lemma isSet_simps [simp]:
  "\<not> isSet JUndefined" "\<not> isSet JNull"
  "isSet (JBool b)" "isSet (JNum n)" "isSet (JStr s)" "isSet (JArr vs)" "isSet (JObj kvs)"
  by (simp_all add: isSet_def)

lemma map_of_entries:
  assumes "distinct (map fst entries)"
  shows "map_of (fold (\<lambda>(k, v) obj. case v of None \<Rightarrow> obj | Some x \<Rightarrow> js_set k x obj) entries obj) k =
    (case map_of entries k of Some (Some v) \<Rightarrow> Some v | _ \<Rightarrow> map_of obj k)"
  using assms
proof (induction entries arbitrary: obj)
  case Nil
  then show ?case by simp
next
  case (Cons e entries)
  obtain j v where e: "e = (j, v)" by (cases e)
  from Cons.prems e have "map_of entries j = None" by (simp add: map_of_eq_None_iff)
  with Cons e show ?case
    by (auto simp: js_set_def update_conv' split: option.splits)
qed

text \<open>What a reader of \<^verbatim>\<open>fromJSON\<close> finds in an object that \<^verbatim>\<open>toJSON\<close> has built.\<close>

lemma js_get_json_object:
  assumes "distinct (map fst entries)"
  shows "js_get (json_object entries) k =
    Inr (case map_of entries k of Some (Some v) \<Rightarrow> v | _ \<Rightarrow> JUndefined)"
  by (simp add: json_object_def map_of_entries [OF assms] split: option.split)

lemma json_field_json_object:
  assumes "distinct (map fst entries)"
  shows "json_field (json_object entries) k conv dflt =
    (case map_of entries k of Some (Some v) \<Rightarrow> (if isSet v then conv v else dflt) | _ \<Rightarrow> dflt)"
  by (simp add: json_field_def js_get_json_object [OF assms] split: option.split)

lemma json_array_json_object:
  assumes "distinct (map fst entries)"
  shows "json_array (json_object entries) k conv dflt =
    (case map_of entries k of Some (Some (JArr vs)) \<Rightarrow> map_res conv vs | _ \<Rightarrow> dflt)"
  by (simp add: json_array_def js_opt_get_def js_get_json_object [OF assms] split: option.split jsval.split)

lemmas json_read_back = json_field_json_object json_array_json_object json_field2_def put_if_def

lemma isSet_json_object [simp]: "isSet (json_object entries)"
  by (simp add: json_object_def isSet_def)

lemma js_Boolean_res_simp [simp]: "js_Boolean_res (JBool b) = Inr b"
  by (simp add: js_Boolean_res_def)

lemma some_res_eq [simp]: "conv v = Inr x \<Longrightarrow> some_res conv v = Inr (Some x)"
  by (simp add: some_res_def)

lemma js_opt_get_simps [simp]:
  "js_opt_get (JObj kvs) k = (case map_of kvs k of Some v \<Rightarrow> v | None \<Rightarrow> JUndefined)"
  "js_opt_get JUndefined k = JUndefined" "js_opt_get JNull k = JUndefined"
  by (simp_all add: js_opt_get_def)

lemma json_field_obj:
  "json_field (JObj kvs) k conv dflt =
     (case map_of kvs k of Some v \<Rightarrow> (if isSet v then conv v else dflt) | None \<Rightarrow> dflt)"
  by (simp add: json_field_def split: option.split)

lemma json_field_unset:
  "js_get object k = Inr v \<Longrightarrow> \<not> isSet v \<Longrightarrow> json_field object k conv dflt = dflt"
  by (simp add: json_field_def)

lemma json_field_null [simp]:
  "\<not> isSet object \<Longrightarrow> \<exists>e. json_field object k conv dflt = Inl (TypeError e)"
  by (cases object) (simp_all add: json_field_def)

text \<open>A member is found among an element's smaller parts, so recursion into it ends.\<close>

lemma size_map_of: "map_of kvs k = Some v \<Longrightarrow> size v < Suc (size_list (size_prod (\<lambda>_. 0) size) kvs)"
proof (induction kvs)
  case Nil
  then show ?case by simp
next
  case (Cons kv kvs)
  then show ?case by (cases kv) (auto split: if_splits)
qed

lemma js_opt_get_size:
  assumes "js_opt_get object k = JArr vs" and "v \<in> set vs"
  shows "size v < size object"
proof -
  from assms(1) obtain kvs where o: "object = JObj kvs" and m: "map_of kvs k = Some (JArr vs)"
    by (cases object) (auto simp: js_opt_get_def split: option.splits)
  from assms(2) have "size v < size (JArr vs)"
    by (induction vs) auto
  also from size_map_of [OF m] have "size (JArr vs) < size object"
    by (simp add: o)
  finally show ?thesis .
qed

lemma json_array_cong [fundef_cong]:
  assumes "object = object'" and "k = k'" and "dflt = dflt'"
    and "\<And>vs v. js_opt_get object' k' = JArr vs \<Longrightarrow> v \<in> set vs \<Longrightarrow> conv v = conv' v"
  shows "json_array object k conv dflt = json_array object' k' conv' dflt'"
  using assms by (auto simp: json_array_def split: jsval.split intro: map_res_cong)

section \<open>Numbers and their text\<close>

text \<open>The text of an integer is read back as that integer.\<close>

lemma is_digit_char: "d < 10 \<Longrightarrow> is_digit 10 (char_of (48 + d)) \<and> digit_value (char_of (48 + d)) = d"
  by (simp add: is_digit_def digit_value_def Let_def of_char_of)

lemma digits_value_snoc: "digits_value b (ds @ [c]) = digits_value b ds * int b + int (digit_value c)"
  by (simp add: digits_value_def)

lemma nat_to_string_digits:
  "nat_to_string n \<noteq> [] \<and> list_all (is_digit 10) (nat_to_string n) \<and> digits_value 10 (nat_to_string n) = int n"
proof (induction n rule: nat_to_string.induct)
  case (1 n)
  show ?case
  proof (cases "n < 10")
    case True
    then show ?thesis
      by (simp add: nat_to_string.simps [of n] is_digit_char digits_value_def)
  next
    case False
    have "int (n div 10) * 10 + int (n mod 10) = int n"
      by (metis div_mult_mod_eq of_nat_add of_nat_mult of_nat_numeral)
    with 1 [OF False] False is_digit_char [of "n mod 10"] show ?thesis
      by (simp add: nat_to_string.simps [of n] digits_value_snoc)
  qed
qed

lemma digit_not_space:
  assumes "is_digit 10 c"
  shows "\<not> js_space c" and "c \<noteq> CHR ''-''" and "c \<noteq> CHR ''+''" and "c \<noteq> CHR ''I''"
    and "c \<noteq> CHR ''x''" "c \<noteq> CHR ''X''" "c \<noteq> CHR ''o''" "c \<noteq> CHR ''O''" "c \<noteq> CHR ''b''" "c \<noteq> CHR ''B''"
proof -
  have "48 \<le> (of_char c :: nat) \<and> (of_char c :: nat) \<le> 57"
    using assms by (auto simp: is_digit_def digit_value_def Let_def split: if_splits)
  then show "\<not> js_space c" and "c \<noteq> CHR ''-''" and "c \<noteq> CHR ''+''" and "c \<noteq> CHR ''I''"
    and "c \<noteq> CHR ''x''" "c \<noteq> CHR ''X''" "c \<noteq> CHR ''o''" "c \<noteq> CHR ''O''" "c \<noteq> CHR ''b''" "c \<noteq> CHR ''B''"
    by (auto simp: js_space_def)
qed

lemma trim_id:
  assumes "list_all (\<lambda>c. \<not> js_space c) s"
  shows "trim s = s"
proof -
  have "dropWhile js_space t = t" if "list_all (\<lambda>c. \<not> js_space c) t" for t
    using that by (cases t) simp_all
  from this [of s] this [of "rev s"] assms show ?thesis by (simp add: trim_def)
qed

text \<open>A decimal literal of digits is read as what it says.\<close>

lemma decimal_digits:
  assumes "ds \<noteq> []" and "list_all (is_digit 10) ds"
  shows "decimal_number ds = NInt (digits_value 10 ds)"
    and "decimal_number (CHR ''-'' # ds) = NInt (- digits_value 10 ds)"
proof -
  obtain d t where ds: "ds = d # t" using assms(1) by (cases ds) auto
  then have d: "is_digit 10 d" using assms(2) by simp
  have tw: "takeWhile (is_digit 10) ds = ds" "dropWhile (is_digit 10) ds = []"
    using assms(2) by (auto simp: list_all_iff takeWhile_eq_all_conv)
  have inf: "ds \<noteq> ''Infinity''" using digit_not_space(4) [OF d] ds by auto
  have sg: "signed ds = (1, ds)" using digit_not_space(2,3) [OF d] by (simp add: ds signed_def)
  show "decimal_number ds = NInt (digits_value 10 ds)"
    using assms by (simp add: decimal_number_def Let_def sg tw inf exponent_part_def dec_num.simps list_all_iff)
  show "decimal_number (CHR ''-'' # ds) = NInt (- digits_value 10 ds)"
    using assms by (simp add: decimal_number_def Let_def signed_def tw inf exponent_part_def dec_num.simps list_all_iff)
qed

lemma string_to_num_digits:
  assumes "ds \<noteq> []" and "list_all (is_digit 10) ds" and "s = ds \<or> s = CHR ''-'' # ds"
  shows "string_to_num s = decimal_number s"
proof -
  have sp: "list_all (\<lambda>c. \<not> js_space c) ds"
    using assms(2) digit_not_space(1) by (auto simp: list_all_iff)
  have minus: "\<not> js_space (CHR ''-'')" by (simp add: js_space_def)
  from sp minus assms(3) have trim: "trim s = s" by (intro trim_id) auto
  obtain d t where ds: "ds = d # t" using assms(1) by (cases ds) auto
  have "take 2 s \<noteq> [CHR ''0'', c]" if "c \<in> {CHR ''x'', CHR ''X'', CHR ''o'', CHR ''O'', CHR ''b'', CHR ''B''}" for c
    using that assms(2,3) digit_not_space(5-10) [of "hd t"] by (cases t) (auto simp: ds)
  then show ?thesis using trim assms(1,3) by (auto simp: string_to_num_def Let_def)
qed

lemma num_to_string_NInt: "string_to_num (num_to_string (NInt i)) = NInt i"
proof -
  let ?ds = "nat_to_string (nat \<bar>i\<bar>)"
  have ds: "?ds \<noteq> []" "list_all (is_digit 10) ?ds" "digits_value 10 ?ds = \<bar>i\<bar>"
    using nat_to_string_digits [of "nat \<bar>i\<bar>"] by simp_all
  show ?thesis
  proof (cases "i < 0")
    case True
    then show ?thesis
      using string_to_num_digits [OF ds(1,2)] decimal_digits(2) [OF ds(1,2)] ds(3) by simp
  next
    case False
    then show ?thesis
      using string_to_num_digits [OF ds(1,2)] decimal_digits(1) [OF ds(1,2)] ds(3) by simp
  qed
qed

section \<open>Reading members back\<close>

text \<open>
  The readers on an object built by \<^verbatim>\<open>toJSON\<close>, as functions of what the member was given.
\<close>

definition read_member :: "jsval option option \<Rightarrow> (jsval \<Rightarrow> 'a res) \<Rightarrow> 'a res \<Rightarrow> 'a res" where
  "read_member entry conv dflt =
     (case entry of Some (Some v) \<Rightarrow> (if isSet v then conv v else dflt) | _ \<Rightarrow> dflt)"

definition read_list :: "jsval option option \<Rightarrow> (jsval \<Rightarrow> 'a res) \<Rightarrow> 'a list res \<Rightarrow> 'a list res" where
  "read_list entry conv dflt = (case entry of Some (Some (JArr vs)) \<Rightarrow> map_res conv vs | _ \<Rightarrow> dflt)"

lemma json_field_member:
  "distinct (map fst entries) \<Longrightarrow> json_field (json_object entries) k conv dflt = read_member (map_of entries k) conv dflt"
  by (simp add: json_field_json_object read_member_def)

lemma json_array_member:
  "distinct (map fst entries) \<Longrightarrow> json_array (json_object entries) k conv dflt = read_list (map_of entries k) conv dflt"
  by (simp add: json_array_json_object read_list_def)

lemma read_absent: "read_member None conv dflt = dflt" "read_list None conv' dflt' = dflt'"
  by (simp_all add: read_member_def read_list_def)

lemma read_other:
  "read_member (Some (put_other s ds JStr)) (some_res js_String) (Inr (Some ds)) = Inr (Some (nullish s ds))"
  "read_member (Some (put_other b db JBool)) (some_res js_Boolean_res) (Inr (Some db)) = Inr (Some (nullish b db))"
  "js_round dn = dn \<Longrightarrow> read_member (Some (put_other n dn (\<lambda>n. JNum (js_round n)))) (some_res js_Number) (Inr (Some dn))
     = Inr (Some (js_round (nullish n dn)))"
  "read_member (Some (put_other e de (\<lambda>n. JStr (toJ n)))) (some_res (enum_number val fromJ)) (Inr (Some de))
     = Inr (Some (enum_json de val fromJ toJ e))"
  by (auto simp: read_member_def put_other_def nullish_def enum_json_def enum_number_def some_res_def split: option.split)

lemma read_other_number:
  "read_member (Some (put_other n dn JNum)) (some_res js_Number) (Inr (Some dn)) = Inr (Some (nullish n dn))"
  by (auto simp: read_member_def put_other_def nullish_def some_res_def split: option.split)

lemma read_plain:
  "read_member (Some (put_if (s \<noteq> []) (JStr s))) js_String (Inr []) = Inr s"
  "read_member (Some (put_if b (JBool b))) js_Boolean_res (Inr False) = Inr b"
  by (simp_all add: read_member_def put_if_def)

lemma read_lists:
  "read_list (Some (put_if (ss \<noteq> []) (JArr (map JStr ss)))) js_String (Inr []) = Inr ss"
  "read_list (Some (put_if (ns \<noteq> []) (JArr (map (\<lambda>e. JNum (js_round e)) ns)))) js_Number (Inr []) = Inr (map js_round ns)"
  using map_res_map_Inr [of ss js_String JStr "\<lambda>s. s"]
    map_res_map_Inr [of ns js_Number "\<lambda>e. JNum (js_round e)" js_round]
  by (simp_all add: read_list_def put_if_def)

lemma read_list_map:
  "(\<And>v. v \<in> set vs \<Longrightarrow> conv (f v) = Inr (g v)) \<Longrightarrow>
   read_list (Some (put_if (vs \<noteq> []) (JArr (map f vs)))) conv (Inr []) = Inr (map g vs)"
  by (simp add: read_list_def put_if_def map_res_map_Inr)

lemma read_enums:
  "read_list (Some (put_if (es \<noteq> []) (JArr (map (\<lambda>e. JStr (toJ e)) es)))) (enum_number val fromJ) (Inr [])
     = Inr (map (\<lambda>e. NInt (val (fromJ (JStr (toJ e))))) es)"
  using map_res_map_Inr [of es "enum_number val fromJ" "\<lambda>e. JStr (toJ e)" "\<lambda>e. NInt (val (fromJ (JStr (toJ e))))"]
  by (simp add: read_list_def put_if_def enum_number_def)

lemmas json_members = json_field_member json_array_member json_field2_def read_absent read_other read_other_number
  read_plain read_lists read_enums

section \<open>The contract of \<^verbatim>\<open>toJSON\<close> and \<^verbatim>\<open>fromJSON\<close>\<close>

text \<open>
  \<open>jnorm m\<close> is what reading the JSON form of \<open>m\<close> gives back: \<open>m\<close> itself for the messages
  whose fields are always present.
\<close>

locale json_codec =
  fixes toJSON :: "'m \<Rightarrow> jsval" and fromJSON :: "jsval \<Rightarrow> 'm res" and jnorm :: "'m \<Rightarrow> 'm"
  assumes json_roundtrip: "fromJSON (toJSON m) = Inr (jnorm m)"
    and json_set: "isSet (toJSON m)"
begin

lemma json_some: "some_res fromJSON (toJSON m) = Inr (Some (jnorm m))"
  by (simp add: json_roundtrip)

lemma json_list: "map_res fromJSON (map toJSON ms) = Inr (map jnorm ms)"
  by (rule map_res_map_Inr) (simp add: json_roundtrip)

lemma json_inject: "toJSON m = toJSON m' \<Longrightarrow> jnorm m = jnorm m'"
  by (metis json_roundtrip sum.inject(2))

lemmas json_nested = json_some json_list json_set

lemma read_opt: "read_member (Some (map_option toJSON x)) (some_res fromJSON) (Inr None) = Inr (map_option jnorm x)"
  by (cases x) (simp_all add: read_member_def json_some json_set)

lemma read_rep: "read_list (Some (put_if (ms \<noteq> []) (JArr (map toJSON ms)))) fromJSON (Inr []) = Inr (map jnorm ms)"
  by (simp add: read_list_def put_if_def json_list)

lemmas json_sub = read_opt read_rep

end

end
