(* ===== verification/Binary64.thy ===== *)
theory Binary64
  imports JS_Value
begin

text \<open>
  The eight bytes of a JavaScript number: IEEE 754 binary64, as the wire format writes the
  field type \<^verbatim>\<open>double\<close>. \<open>double_bits\<close> rounds a number of the model to the nearest double, ties
  to even, and gives its bit pattern; \<open>double_value\<close> names a pattern by the shortest decimal
  that rounds to it, which is how JavaScript prints it. \<open>double_ok\<close> are the numbers that are
  such a name, the finite and infinite doubles; \<^verbatim>\<open>NaN\<close> is left out, as its pattern is not
  specified.
\<close>

section \<open>From numbers to bit patterns\<close>

definition round_div :: "nat \<Rightarrow> nat \<Rightarrow> nat" where
  "round_div a b =
     (let q = a div b; r = a mod b in if 2 * r < b \<or> 2 * r = b \<and> even q then q else q + 1)"

text \<open>
  The pattern of the double nearest to \<open>a / b\<close>: \<open>e\<close> is the binary exponent, not below that
  of the subnormal numbers, and the significand counts units of \<open>2 ^ (e - 52)\<close>. A
  significand that rounds up to \<open>2 ^ 53\<close> carries into the exponent.
\<close>

fun bit_length :: "nat \<Rightarrow> nat" where
  "bit_length n = (if n = 0 then 0 else Suc (bit_length (n div 2)))"

declare bit_length.simps [simp del]

definition binary_exponent :: "nat \<Rightarrow> nat \<Rightarrow> int" where
  "binary_exponent a b =
     (let k = bit_length a; l = bit_length b in
      if b * 2 ^ k \<le> a * 2 ^ l then int k - int l else int k - int l - 1)"

definition magnitude_bits :: "nat \<Rightarrow> nat \<Rightarrow> nat" where
  "magnitude_bits a b =
     (if a = 0 then 0
      else let e = max (binary_exponent a b) (- 1022);
               m = round_div (a * 2 ^ nat (52 - e)) (b * 2 ^ nat (e - 52))
           in min (nat (e + 1022) * 2 ^ 52 + m) (2047 * 2 ^ 52))"

definition sign_bit :: "int \<Rightarrow> nat" where
  "sign_bit i = (if i < 0 then 2 ^ 63 else 0)"

fun double_bits :: "jsnum \<Rightarrow> nat" where
  "double_bits (NInt i) = sign_bit i + magnitude_bits (nat \<bar>i\<bar>) 1"
| "double_bits (NDec m e) = sign_bit m + magnitude_bits (nat \<bar>m\<bar>) (10 ^ e)"
| "double_bits NaN = 2047 * 2 ^ 52 + 2 ^ 51"
| "double_bits PosInf = 2047 * 2 ^ 52"
| "double_bits NegInf = 2 ^ 63 + 2047 * 2 ^ 52"

section \<open>From bit patterns to numbers\<close>

text \<open>
  The shortest decimal that rounds to the pattern \<open>p\<close> of \<open>a / 2 ^ k\<close>: of the two multiples
  of \<open>10 ^ -f\<close> around the value the nearer one, or else the other, for the least \<open>f\<close> for
  which one of them rounds to \<open>p\<close>. With \<open>f = k\<close> the decimal is exact.
\<close>

fun shortest_decimal :: "nat \<Rightarrow> nat \<Rightarrow> int \<Rightarrow> nat \<Rightarrow> nat \<Rightarrow> nat \<Rightarrow> jsnum" where
  "shortest_decimal 0 f sg a k p = dec_num (sg * int (a * 5 ^ k)) (- int k)"
| "shortest_decimal (Suc n) f sg a k p =
     (let lo = a * 10 ^ f div 2 ^ k; near = round_div (a * 10 ^ f) (2 ^ k);
          other = (if near = lo then lo + 1 else lo)
      in if magnitude_bits near (10 ^ f) = p then dec_num (sg * int near) (- int f)
         else if magnitude_bits other (10 ^ f) = p then dec_num (sg * int other) (- int f)
         else shortest_decimal n (Suc f) sg a k p)"

definition double_value :: "nat \<Rightarrow> jsnum" where
  "double_value p =
     (let sg = (if p div 2 ^ 63 mod 2 = 1 then - 1 else 1);
          ex = p div 2 ^ 52 mod 2048;
          fr = p mod 2 ^ 52;
          m = (if ex = 0 then fr else 2 ^ 52 + fr);
          k = 1075 - max ex 1
      in if ex = 2047 then (if fr \<noteq> 0 then NaN else if sg < 0 then NegInf else PosInf)
         else if 1075 < ex then NInt (sg * int (m * 2 ^ (ex - 1075)))
         else if m mod 2 ^ k = 0 then NInt (sg * int (m div 2 ^ k))
         else shortest_decimal k 1 sg m k (p mod 2 ^ 63))"

definition double_ok :: "jsnum \<Rightarrow> bool" where
  "double_ok x \<longleftrightarrow> x \<noteq> NaN \<and> double_value (double_bits x) = x"

text \<open>The eight bytes of a pattern, lowest first.\<close>

fun le_bytes :: "nat \<Rightarrow> nat \<Rightarrow> bytes" where
  "le_bytes 0 n = []"
| "le_bytes (Suc k) n = word_of_nat (n mod 256) # le_bytes k (n div 256)"

fun le_value :: "bytes \<Rightarrow> nat" where
  "le_value [] = 0"
| "le_value (b # bs) = unat b + 256 * le_value bs"

definition double_payload :: "jsnum \<Rightarrow> bytes" where
  "double_payload x = le_bytes 8 (double_bits x)"

section \<open>Lemmas\<close>

declare shortest_decimal.simps [simp del]

lemma le_bytes_length [simp]: "length (le_bytes k n) = k"
  by (induction k n rule: le_bytes.induct) simp_all

lemma le_value_bytes: "le_value (le_bytes k n) = n mod 256 ^ k"
proof (induction k n rule: le_bytes.induct)
  case (1 n)
  then show ?case by simp
next
  case (2 k n)
  have "n mod (256 * 256 ^ k) = 256 * (n div 256 mod 256 ^ k) + n mod 256"
    by (rule mod_mult2_eq)
  with 2 show ?case by (simp add: unat_of_nat)
qed

lemma magnitude_bits_bound: "magnitude_bits a b \<le> 2047 * 2 ^ 52"
  by (simp add: magnitude_bits_def Let_def)

lemma double_bits_bound: "double_bits x < 2 ^ 64"
proof -
  have "magnitude_bits a b < 2 ^ 63" for a b
    using magnitude_bits_bound [of a b] by simp
  then have "sign_bit i + magnitude_bits a b < 2 ^ 64" for i a b
    by (rule order_less_le_trans [OF add_strict_left_mono]) (simp add: sign_bit_def)
  then show ?thesis by (cases x) simp_all
qed

lemma double_payload_value: "le_value (double_payload x) = double_bits x"
  using double_bits_bound [of x] by (simp add: double_payload_def le_value_bytes)

lemma double_payload_length [simp]: "length (double_payload x) = 8"
  by (simp add: double_payload_def)

text \<open>The pattern of a safe integer: its leading bit is implicit, the rest is shifted to 52 bits.\<close>

lemma round_div_1 [simp]: "round_div a (Suc 0) = a"
  by (simp add: round_div_def)

lemma bit_length_bounds: "0 < n \<Longrightarrow> 0 < bit_length n \<and> 2 ^ (bit_length n - 1) \<le> n \<and> n < 2 ^ bit_length n"
proof (induction n rule: bit_length.induct)
  case (1 n)
  show ?case
  proof (cases "n = 1")
    case True
    then show ?thesis by (simp add: bit_length.simps)
  next
    case False
    with "1.prems" have "0 < n div 2" by simp
    with 1 have IH: "0 < bit_length (n div 2)" "2 ^ (bit_length (n div 2) - 1) \<le> n div 2" "n div 2 < 2 ^ bit_length (n div 2)"
      by simp_all
    then obtain k where k: "bit_length (n div 2) = Suc k" using gr0_implies_Suc by blast
    with IH "1.prems" show ?thesis by (simp add: bit_length.simps [of n]) linarith
  qed
qed

lemma magnitude_bits_int:
  assumes "0 < a" and "a < 2 ^ 53"
  obtains e where "e \<le> 52" and "2 ^ 52 \<le> a * 2 ^ (52 - e)" and "a * 2 ^ (52 - e) < 2 ^ 53"
    and "magnitude_bits a 1 = (e + 1022) * 2 ^ 52 + a * 2 ^ (52 - e)"
proof -
  define e where "e = bit_length a - 1"
  have pos: "0 < bit_length a" using bit_length_bounds assms(1) by simp
  have lo: "2 ^ e \<le> a" and hi: "a < 2 ^ Suc e"
    using bit_length_bounds [of a] assms(1) pos by (simp_all add: e_def)
  have le: "e \<le> 52"
    using power_less_imp_less_exp [of "2 :: nat" e 53] lo assms(2) by simp
  have one: "bit_length 1 = 1" by (simp add: bit_length.simps)
  have "2 ^ bit_length a \<le> a * 2" using lo pos by (cases "bit_length a") (simp_all add: e_def)
  then have exp: "binary_exponent a 1 = int e"
    using pos one by (simp add: binary_exponent_def e_def)
  have "nat (52 - int e) = 52 - e" "nat (int e - 52) = 0" using le by simp_all
  moreover have "2 ^ e * 2 ^ (52 - e) = (2 :: nat) ^ 52" "2 ^ Suc e * 2 ^ (52 - e) = (2 :: nat) ^ 53"
    using le by (simp_all flip: power_add)
  ultimately have low: "2 ^ 52 \<le> a * 2 ^ (52 - e)" and high: "a * 2 ^ (52 - e) < 2 ^ 53"
    using mult_le_mono1 [OF lo, of "2 ^ (52 - e)"] mult_less_mono1 [OF hi, of "2 ^ (52 - e)"]
    by (simp_all only: zero_less_power zero_less_numeral)
  have "magnitude_bits a 1 = min ((e + 1022) * 2 ^ 52 + a * 2 ^ (52 - e)) (2047 * 2 ^ 52)"
    using assms(1) exp le \<open>nat (52 - int e) = 52 - e\<close> \<open>nat (int e - 52) = 0\<close>
    by (simp add: magnitude_bits_def Let_def max_def nat_add_distrib)
  moreover have "(e + 1022) * 2 ^ 52 + a * 2 ^ (52 - e) \<le> 2047 * 2 ^ 52"
  proof -
    have "(e + 1022) * 2 ^ 52 \<le> 1074 * 2 ^ 52" using le by (intro mult_le_mono1) simp
    with high show ?thesis by simp
  qed
  ultimately show ?thesis using that le low high by simp
qed

text \<open>Every safe integer is a double.\<close>

lemma double_ok_int:
  assumes "\<bar>i\<bar> < 2 ^ 53"
  shows "double_ok (NInt i)"
proof (cases "i = 0")
  case True
  then show ?thesis by (simp add: double_ok_def double_value_def sign_bit_def magnitude_bits_def Let_def)
next
  case False
  let ?a = "nat \<bar>i\<bar>"
  from False assms have "0 < ?a" "?a < 2 ^ 53" by simp_all
  then obtain e where e: "e \<le> 52" and low: "2 ^ 52 \<le> ?a * 2 ^ (52 - e)" and high: "?a * 2 ^ (52 - e) < 2 ^ 53"
    and bits: "magnitude_bits ?a 1 = (e + 1022) * 2 ^ 52 + ?a * 2 ^ (52 - e)"
    by (rule magnitude_bits_int)
  obtain fr where fr: "fr < 2 ^ 52" and sum: "?a * 2 ^ (52 - e) = 2 ^ 52 + fr"
  proof
    have "x - 2 ^ 52 < 2 ^ 52 \<and> x = 2 ^ 52 + (x - 2 ^ 52)" if "2 ^ 52 \<le> x" "x < 2 ^ 53" for x :: nat
      using that by simp
    from this [OF low high] show "?a * 2 ^ (52 - e) - 2 ^ 52 < 2 ^ 52"
      and "?a * 2 ^ (52 - e) = 2 ^ 52 + (?a * 2 ^ (52 - e) - 2 ^ 52)" by blast+
  qed
  define s where "s = (if i < 0 then 1 else 0 :: nat)"
  have p: "double_bits (NInt i) = (s * 2048 + (e + 1023)) * 2 ^ 52 + fr"
    using bits by (simp add: sign_bit_def s_def sum)
  have ex: "double_bits (NInt i) div 2 ^ 52 = s * 2048 + (e + 1023)"
    and mod: "double_bits (NInt i) mod 2 ^ 52 = fr"
    unfolding p by (simp_all only: div_mult_self3 mod_mult_self3 div_less [OF fr] mod_less [OF fr]
        add_0_right power_not_zero zero_neq_numeral not_False_eq_True)
  have ex': "double_bits (NInt i) div 2 ^ 52 mod 2048 = e + 1023"
    unfolding ex using e by simp
  have "double_bits (NInt i) div 2 ^ 63 = double_bits (NInt i) div 2 ^ 52 div 2048"
    by (simp flip: div_mult2_eq)
  then have sg: "double_bits (NInt i) div 2 ^ 63 mod 2 = s"
    unfolding ex using e by (simp add: s_def)
  have m: "2 ^ 52 + fr = ?a * 2 ^ (52 - e)" by (simp only: sum)
  have k: "1075 - (e + 1023) = 52 - e" by simp
  have "double_value (double_bits (NInt i)) = NInt ((if s = 1 then - 1 else 1) * int ?a)"
    unfolding double_value_def Let_def ex' mod sg m
    using e k by (simp add: m max_def del: double_bits.simps)
  moreover have "(if s = 1 then - 1 else 1) * int ?a = i" by (simp add: s_def)
  ultimately show ?thesis by (simp add: double_ok_def del: double_bits.simps)
qed

end
