(* ===== verification/Wire_Format.thy ===== *)
theory Wire_Format
  imports JS_Value Binary64
begin

text \<open>
  The protocol-buffer wire format as the protocol-buffer documentation describes it: base-128
  varints, UTF-8 text, length-delimited payloads, and a message as the concatenation of its
  fields, each a varint tag (field number times eight plus wire type) and a payload. These
  are the abstract encodings that the generated encoders and decoders are compared with.
\<close>

section \<open>Primitive encodings\<close>

fun varint :: "nat \<Rightarrow> bytes" where
  "varint n = (if n < 128 then [word_of_nat n] else word_of_nat (n mod 128 + 128) # varint (n div 128))"

declare varint.simps [simp del]

text \<open>A negative number is written as its 64-bit two's complement.\<close>

definition varint_int :: "int \<Rightarrow> bytes" where
  "varint_int i = varint (nat (i mod 2 ^ 64))"

definition utf8_char :: "char \<Rightarrow> bytes" where
  "utf8_char c = (let n = (of_char c :: nat) in
     if n < 128 then [word_of_nat n] else [word_of_nat (192 + n div 64), word_of_nat (128 + n mod 64)])"

definition utf8 :: "string \<Rightarrow> bytes" where
  "utf8 s = concat (map utf8_char s)"

definition delimited :: "bytes \<Rightarrow> bytes" where
  "delimited b = varint (length b) @ b"

section \<open>Fields\<close>

definition tag_bytes :: "u32 \<Rightarrow> bytes" where
  "tag_bytes t = varint (unat t)"

definition str_bytes :: "u32 \<Rightarrow> string \<Rightarrow> bytes" where
  "str_bytes t s = tag_bytes t @ delimited (utf8 s)"

definition bool_bytes :: "u32 \<Rightarrow> bool \<Rightarrow> bytes" where
  "bool_bytes t b = tag_bytes t @ [if b then 1 else 0]"

definition int32_bytes :: "u32 \<Rightarrow> int \<Rightarrow> bytes" where
  "int32_bytes t i = tag_bytes t @ varint_int i"

definition msg_bytes :: "u32 \<Rightarrow> bytes \<Rightarrow> bytes" where
  "msg_bytes t b = tag_bytes t @ delimited b"

text \<open>
  A field with implicit presence is left out when it holds its default; a field with explicit
  presence is left out when it is absent; a repeated field is written once per element.
\<close>

definition str_field :: "u32 \<Rightarrow> string \<Rightarrow> bytes" where
  "str_field t s = (if s = [] then [] else str_bytes t s)"

definition bool_field :: "u32 \<Rightarrow> bool \<Rightarrow> bytes" where
  "bool_field t b = (if b then bool_bytes t b else [])"

definition opt_str_field :: "u32 \<Rightarrow> string option \<Rightarrow> bytes" where
  "opt_str_field t s = (case s of None \<Rightarrow> [] | Some x \<Rightarrow> str_bytes t x)"

definition opt_msg_field :: "u32 \<Rightarrow> ('m \<Rightarrow> bytes) \<Rightarrow> 'm option \<Rightarrow> bytes" where
  "opt_msg_field t body m = (case m of None \<Rightarrow> [] | Some x \<Rightarrow> msg_bytes t (body x))"

definition rep_msg_field :: "u32 \<Rightarrow> ('m \<Rightarrow> bytes) \<Rightarrow> 'm list \<Rightarrow> bytes" where
  "rep_msg_field t body ms = concat (map (\<lambda>m. msg_bytes t (body m)) ms)"

text \<open>
  The payloads of the primitive field types, and the fields of messages with explicit
  presence whose default is also left out: \<open>other_field t d payload x\<close>. A number has a payload
  when it is an integer of 32 bits.
\<close>

definition str_payload :: "string \<Rightarrow> bytes" where
  "str_payload s = delimited (utf8 s)"

definition bool_payload :: "bool \<Rightarrow> bytes" where
  "bool_payload b = [if b then 1 else 0]"

fun int_payload :: "jsnum \<Rightarrow> bytes" where
  "int_payload (NInt i) = varint_int i"
| "int_payload _ = []"

fun int32_ok :: "jsnum \<Rightarrow> bool" where
  "int32_ok (NInt i) \<longleftrightarrow> - (2 ^ 31) \<le> i \<and> i < 2 ^ 31"
| "int32_ok _ \<longleftrightarrow> False"

text \<open>The numbers the 64-bit and floating-point field types can carry without loss.\<close>

fun uint64_ok :: "jsnum \<Rightarrow> bool" where
  "uint64_ok (NInt i) \<longleftrightarrow> 0 \<le> i \<and> i < 2 ^ 53"
| "uint64_ok _ \<longleftrightarrow> False"

fun int64_ok :: "jsnum \<Rightarrow> bool" where
  "int64_ok (NInt i) \<longleftrightarrow> - (2 ^ 53) < i \<and> i < 2 ^ 53"
| "int64_ok _ \<longleftrightarrow> False"

definition other_field :: "u32 \<Rightarrow> 'a \<Rightarrow> ('a \<Rightarrow> bytes) \<Rightarrow> 'a option \<Rightarrow> bytes" where
  "other_field t d payload x = (case x of None \<Rightarrow> [] | Some v \<Rightarrow> if v = d then [] else tag_bytes t @ payload v)"

definition rep_str_field :: "u32 \<Rightarrow> string list \<Rightarrow> bytes" where
  "rep_str_field t xs = concat (map (str_bytes t) xs)"

text \<open>A packed list is written even when it is empty.\<close>

definition packed_field :: "u32 \<Rightarrow> jsnum list \<Rightarrow> bytes" where
  "packed_field t xs = msg_bytes t (concat (map int_payload xs))"

text \<open>The same list with a tag for every element.\<close>

definition unpacked_field :: "u32 \<Rightarrow> jsnum list \<Rightarrow> bytes" where
  "unpacked_field t xs = concat (map (\<lambda>x. tag_bytes t @ int_payload x) xs)"

lemma rep_msg_field_cong [fundef_cong]:
  "t = t' \<Longrightarrow> ms = ms' \<Longrightarrow> (\<And>m. m \<in> set ms' \<Longrightarrow> f m = g m) \<Longrightarrow> rep_msg_field t f ms = rep_msg_field t' g ms'"
  by (auto simp: rep_msg_field_def intro!: arg_cong [of _ _ concat])

text \<open>
  The payloads a reader can step over without knowing the field, by wire type: a varint,
  eight bytes, a delimited run of bytes, four bytes.
\<close>

definition skippable :: "u32 \<Rightarrow> bytes \<Rightarrow> bool" where
  "skippable wt p \<longleftrightarrow>
     wt = 0 \<and> (\<exists>n < 2 ^ 64. p = varint n)
   \<or> wt = 1 \<and> length p = 8
   \<or> wt = 2 \<and> (\<exists>b. length b < 2 ^ 32 \<and> p = delimited b)
   \<or> wt = 5 \<and> length p = 4"

section \<open>Lemmas\<close>

lemma varint_nonempty [simp]: "varint n \<noteq> []"
  by (simp add: varint.simps [of n])

lemma varint_length_pos: "0 < length (varint n)"
  by simp

lemma tag_bytes_nonempty [simp]: "tag_bytes t \<noteq> []"
  by (simp add: tag_bytes_def)

lemma length_le_delimited: "length b < length (delimited b)"
  by (simp add: delimited_def)

lemma utf8_Nil [simp]: "utf8 [] = []"
  by (simp add: utf8_def)

lemma utf8_length: "length s \<le> length (utf8 s)" "length (utf8 s) \<le> 2 * length s"
  by (induction s) (auto simp: utf8_def utf8_char_def Let_def)

text \<open>Generous upper bounds on lengths, enough to see that a message is far below 32 bits.\<close>

lemma length_varint: "length (varint n) \<le> Suc n"
proof (induction n rule: varint.induct)
  case (1 n)
  have "Suc (n div 128) \<le> n" if "\<not> n < 128" using that by simp
  with 1 show ?case
    by (cases "n < 128") (auto simp: varint.simps [of n] intro: le_trans)
qed

lemma length_delimited: "length (delimited b) \<le> 2 * length b + 1"
  using length_varint [of "length b"] by (simp add: delimited_def)

lemma length_str_field: "length (str_field t s) \<le> unat t + 4 * length s + 2"
  using length_varint [of "unat t"] length_delimited [of "utf8 s"] utf8_length [of s]
  by (simp add: str_field_def str_bytes_def tag_bytes_def)

lemma length_bool_field: "length (bool_field t b) \<le> unat t + 2"
  using length_varint [of "unat t"] by (simp add: bool_field_def bool_bytes_def tag_bytes_def)

lemma length_opt_str_field:
  "length (opt_str_field t s) \<le> unat t + 4 * (case s of None \<Rightarrow> 0 | Some x \<Rightarrow> length x) + 2"
  using length_varint [of "unat t"] length_delimited [of "utf8 (the s)"] utf8_length [of "the s"]
  by (auto simp: opt_str_field_def str_bytes_def tag_bytes_def split: option.split)

lemma length_msg_bytes: "length (msg_bytes t b) \<le> unat t + 2 * length b + 2"
  using length_varint [of "unat t"] length_delimited [of b] by (simp add: msg_bytes_def tag_bytes_def)

lemma length_opt_msg_field:
  "length (opt_msg_field t body x) \<le> unat t + 2 * (case x of None \<Rightarrow> 0 | Some v \<Rightarrow> length (body v)) + 2"
  using length_msg_bytes [of t] by (simp add: opt_msg_field_def split: option.split)

lemma length_rep_msg_field:
  "length (rep_msg_field t body xs) \<le> (\<Sum>v\<leftarrow>xs. unat t + 2 * length (body v) + 2)"
proof (induction xs)
  case Nil
  then show ?case by (simp add: rep_msg_field_def)
next
  case (Cons v xs)
  then show ?case
    using length_msg_bytes [of t "body v"] by (simp add: rep_msg_field_def)
qed

lemmas length_fields = length_str_field length_bool_field length_opt_str_field length_opt_msg_field
  length_rep_msg_field

end
