(* ===== verification/Wire.thy ===== *)
theory Wire
  imports JS_Value Wire_Format
begin

text \<open>
  The interface of \<^verbatim>\<open>@bufbuild/protobuf/wire\<close>, the library whose \<^verbatim>\<open>BinaryWriter\<close> and
  \<^verbatim>\<open>BinaryReader\<close> the generated code calls, and the two control structures that every
  generated message shares: the statement list of \<^verbatim>\<open>encode\<close> and the tag loop of
  \<^verbatim>\<open>decode\<close>. The library is not part of the repository, so its operations are the fields
  of a record \<open>wire\<close> that all encoders and decoders take as an argument, and what its
  documentation promises is the locale \<open>wire_laws\<close>.
\<close>

unbundle bit_operations_syntax

section \<open>The library's operations\<close>

text \<open>
  \<open>'w\<close> is the state of a \<^verbatim>\<open>BinaryWriter\<close>, \<open>'r\<close> that of a \<^verbatim>\<open>BinaryReader\<close>. A read
  returns the value and the reader after it. The 64-bit reads return an integer object, of
  which the code only uses the decimal text.
\<close>

record ('w, 'r) wire =
  newWriter :: 'w
  wUint32 :: "u32 \<Rightarrow> 'w stmt"
  wInt32 :: "jsnum \<Rightarrow> 'w stmt"
  wString :: "string \<Rightarrow> 'w stmt"
  wBool :: "bool \<Rightarrow> 'w stmt"
  wUint64 :: "jsnum \<Rightarrow> 'w stmt"
  wInt64 :: "jsnum \<Rightarrow> 'w stmt"
  wDouble :: "jsnum \<Rightarrow> 'w stmt"
  wBytes :: "bytes \<Rightarrow> 'w stmt"
  wFork :: "'w stmt"
  wJoin :: "'w stmt"
  wFinish :: "'w \<Rightarrow> bytes"
  newReader :: "bytes \<Rightarrow> 'r"
  rPos :: "'r \<Rightarrow> nat"
  rLen :: "'r \<Rightarrow> nat"
  rUint32 :: "'r \<Rightarrow> (u32 \<times> 'r) res"
  rInt32 :: "'r \<Rightarrow> (jsnum \<times> 'r) res"
  rString :: "'r \<Rightarrow> (string \<times> 'r) res"
  rBool :: "'r \<Rightarrow> (bool \<times> 'r) res"
  rUint64 :: "'r \<Rightarrow> (int \<times> 'r) res"
  rInt64 :: "'r \<Rightarrow> (int \<times> 'r) res"
  rDouble :: "'r \<Rightarrow> (jsnum \<times> 'r) res"
  rBytes :: "'r \<Rightarrow> (bytes \<times> 'r) res"
  rSkip :: "u32 \<Rightarrow> 'r \<Rightarrow> 'r res"

text \<open>The first parameter of \<^verbatim>\<open>decode\<close>: a reader, or bytes to make one from.\<close>

datatype 'r input = Reader 'r | Bytes bytes

section \<open>Shapes of generated code\<close>

text \<open>\<^verbatim>\<open>writer.uint32(t).f(...)\<close>\<close>

definition tagged :: "('w, 'r) wire \<Rightarrow> u32 \<Rightarrow> 'w stmt \<Rightarrow> 'w stmt" where
  "tagged W t f w = rbind (wUint32 W t w) f"

text \<open>\<^verbatim>\<open>M.encode(v, writer.uint32(t).fork()).join()\<close>\<close>

definition sub_message :: "('w, 'r) wire \<Rightarrow> u32 \<Rightarrow> 'w stmt \<Rightarrow> 'w stmt" where
  "sub_message W t enc = tagged W t (run [wFork W, enc, wJoin W])"

text \<open>
  A packed list of numbers: \<^verbatim>\<open>writer.uint32(t).fork()\<close>, the elements, \<^verbatim>\<open>writer.join()\<close>.
\<close>

definition packed_ints :: "('w, 'r) wire \<Rightarrow> u32 \<Rightarrow> jsnum list \<Rightarrow> 'w stmt" where
  "packed_ints W t xs = run [tagged W t (wFork W), for_each xs (wInt32 W), wJoin W]"

text \<open>\<^verbatim>\<open>M.decode(reader, reader.uint32())\<close>\<close>

definition read_message ::
  "('w, 'r) wire \<Rightarrow> ('r input \<Rightarrow> nat option \<Rightarrow> ('m \<times> 'r) res) \<Rightarrow> 'r \<Rightarrow> ('m \<times> 'r) res" where
  "read_message W dec r =
     rbind (rUint32 W r) (\<lambda>(n, r'). dec (Reader r') (Some (unat n)))"

text \<open>
  One \<^verbatim>\<open>case\<close> of a decoder's switch: \<^verbatim>\<open>if (tag !== t) break; update; continue;\<close>. \<open>None\<close>
  is leaving the switch, \<open>Some\<close> is \<^verbatim>\<open>continue\<close> with the new message and reader.
\<close>

definition case_read ::
  "u32 \<Rightarrow> u32 \<Rightarrow> ('r \<Rightarrow> ('v \<times> 'r) res) \<Rightarrow> ('v \<Rightarrow> 'm \<Rightarrow> 'm) \<Rightarrow> 'm \<Rightarrow> 'r \<Rightarrow> ('m \<times> 'r) option res" where
  "case_read tag t read upd m r =
     (if tag \<noteq> t then Inr None
      else rbind (read r) (\<lambda>(v, r'). Inr (Some (upd v m, r'))))"

text \<open>
  The three updates of a field \<open>f\<close> with functional \<open>U = f_update\<close>: \<^verbatim>\<open>message.f = v\<close> for a
  field that is always present, the same for a field that may be \<^verbatim>\<open>undefined\<close>, and
  \<^verbatim>\<open>message.f.push(v)\<close>.
\<close>

definition store :: "(('v \<Rightarrow> 'v) \<Rightarrow> 'm \<Rightarrow> 'm) \<Rightarrow> 'v \<Rightarrow> 'm \<Rightarrow> 'm" where
  "store U v m = U (\<lambda>_. v) m"

definition store_some :: "(('v option \<Rightarrow> 'v option) \<Rightarrow> 'm \<Rightarrow> 'm) \<Rightarrow> 'v \<Rightarrow> 'm \<Rightarrow> 'm" where
  "store_some U v m = U (\<lambda>_. Some v) m"

definition push :: "(('v list \<Rightarrow> 'v list) \<Rightarrow> 'm \<Rightarrow> 'm) \<Rightarrow> 'v \<Rightarrow> 'm \<Rightarrow> 'm" where
  "push U v m = U (\<lambda>vs. vs @ [v]) m"

type_synonym ('m, 'r) switch = "u32 \<Rightarrow> 'm \<Rightarrow> 'r \<Rightarrow> ('m \<times> 'r) option res"

text \<open>
  The loop of \<^verbatim>\<open>decode\<close>. Its fuel is the number of bytes left plus one: a tag takes at
  least one byte, and \<open>decode_loop_total\<close> below shows that the fuel never runs out.
\<close>

fun decode_loop ::
  "('w, 'r) wire \<Rightarrow> ('m, 'r) switch \<Rightarrow> nat \<Rightarrow> nat \<Rightarrow> 'm \<Rightarrow> 'r \<Rightarrow> ('m \<times> 'r) res" where
  "decode_loop W sw 0 stop m r = Inl Diverge"
| "decode_loop W sw (Suc fuel) stop m r =
     (if rPos W r < stop then
        rbind (rUint32 W r) (\<lambda>(tag, r1).
          rbind (sw tag m r1) (\<lambda>outcome.
            case outcome of
              Some (m', r') \<Rightarrow> decode_loop W sw fuel stop m' r'
            | None \<Rightarrow>
                if tag AND 7 = 4 \<or> tag = 0 then Inr (m, r1)
                else rbind (rSkip W (tag AND 7) r1) (\<lambda>r2. decode_loop W sw fuel stop m r2)))
      else Inr (m, r))"

declare decode_loop.simps [simp del]

definition bytes_left :: "('w, 'r) wire \<Rightarrow> 'r \<Rightarrow> nat" where
  "bytes_left W r = rLen W r - rPos W r"

text \<open>
  The case of a repeated number, which may be written one element per tag \<open>t\<close> or packed
  under the tag \<open>t2\<close>: \<^verbatim>\<open>const end2 = reader.uint32() + reader.pos\<close> and a loop of pushes. The fuel of the
  loop is again the number of bytes left plus one.
\<close>

fun packed_loop ::
  "('w, 'r) wire \<Rightarrow> ('r \<Rightarrow> ('v \<times> 'r) res) \<Rightarrow> ('v \<Rightarrow> 'm \<Rightarrow> 'm) \<Rightarrow> nat \<Rightarrow> nat \<Rightarrow> 'm \<Rightarrow> 'r \<Rightarrow> ('m \<times> 'r) res" where
  "packed_loop W read upd 0 stop m r = Inl Diverge"
| "packed_loop W read upd (Suc fuel) stop m r =
     (if rPos W r < stop
      then rbind (read r) (\<lambda>(v, r'). packed_loop W read upd fuel stop (upd v m) r')
      else Inr (m, r))"

declare packed_loop.simps [simp del]

definition case_packed ::
  "('w, 'r) wire \<Rightarrow> u32 \<Rightarrow> u32 \<Rightarrow> u32 \<Rightarrow> ('r \<Rightarrow> ('v \<times> 'r) res) \<Rightarrow> ('v \<Rightarrow> 'm \<Rightarrow> 'm) \<Rightarrow> 'm \<Rightarrow> 'r \<Rightarrow>
   ('m \<times> 'r) option res" where
  "case_packed W tag t t2 read upd m r =
     (if tag = t then rbind (read r) (\<lambda>(v, r'). Inr (Some (upd v m, r')))
      else if tag = t2 then
        rbind (rUint32 W r) (\<lambda>(n, r1).
          rbind (packed_loop W read upd (Suc (bytes_left W r1)) (unat n + rPos W r1) m r1) (\<lambda>(m', r2).
            Inr (Some (m', r2))))
      else Inr None)"

definition input_reader :: "('w, 'r) wire \<Rightarrow> 'r input \<Rightarrow> 'r" where
  "input_reader W input = (case input of Reader r \<Rightarrow> r | Bytes b \<Rightarrow> newReader W b)"

definition decode_end :: "('w, 'r) wire \<Rightarrow> 'r \<Rightarrow> nat option \<Rightarrow> nat" where
  "decode_end W reader len =
     (case len of None \<Rightarrow> rLen W reader | Some l \<Rightarrow> rPos W reader + l)"

definition decode_msg ::
  "('w, 'r) wire \<Rightarrow> ('m, 'r) switch \<Rightarrow> 'm \<Rightarrow> 'r input \<Rightarrow> nat option \<Rightarrow> ('m \<times> 'r) res" where
  "decode_msg W sw base input len =
     (let reader = input_reader W input
      in decode_loop W sw (Suc (bytes_left W reader)) (decode_end W reader len) base reader)"

text \<open>
  A message type that contains itself: \<open>sw dec\<close> is its switch with \<open>dec\<close> for the recursive
  call. The nesting is cut off at a depth no input reaches, the number of bytes left plus one:
  a nested message is read after at least one byte of its own. \<open>decode_rec_unfold\<close> in theory
  \<open>Codec\<close> shows that the cut-off is invisible, so that \<open>decode_rec\<close> satisfies the recursive
  equation of the code.
\<close>

fun decode_depth ::
  "('w, 'r) wire \<Rightarrow> (('r input \<Rightarrow> nat option \<Rightarrow> ('m \<times> 'r) res) \<Rightarrow> ('m, 'r) switch) \<Rightarrow> 'm \<Rightarrow> nat \<Rightarrow>
   'r input \<Rightarrow> nat option \<Rightarrow> ('m \<times> 'r) res" where
  "decode_depth W sw base 0 input len = Inl Diverge"
| "decode_depth W sw base (Suc d) input len = decode_msg W (sw (decode_depth W sw base d)) base input len"

definition decode_rec ::
  "('w, 'r) wire \<Rightarrow> (('r input \<Rightarrow> nat option \<Rightarrow> ('m \<times> 'r) res) \<Rightarrow> ('m, 'r) switch) \<Rightarrow> 'm \<Rightarrow>
   'r input \<Rightarrow> nat option \<Rightarrow> ('m \<times> 'r) res" where
  "decode_rec W sw base input len =
     decode_depth W sw base (Suc (bytes_left W (input_reader W input))) input len"

end
