(* ===== verification/Wire_Laws.thy ===== *)
theory Wire_Laws
  imports Wire
begin

text \<open>
  What the documentation of \<^verbatim>\<open>@bufbuild/protobuf/wire\<close> and of the wire format promise of
  the library, as the locale \<open>wire_laws\<close>, and what follows from it for the two shapes of
  generated code: a list of statements appends the concatenation of what its statements
  append, and the decoding loop run over a concatenation of fields applies the fields'
  updates in order. The locale \<open>message_codec\<close> is the contract of a generated message
  object, \<open>switch_codec\<close> the form of it that every non-recursive message satisfies.
\<close>

unbundle bit_operations_syntax

section \<open>Observations\<close>

text \<open>
  \<open>buf w\<close> are the open buffers of a writer, innermost first (\<^verbatim>\<open>fork\<close> opens one, \<^verbatim>\<open>join\<close>
  closes it); \<open>rest r\<close> are the bytes a reader has not read; \<open>valid r\<close> says that the
  reader's position is within its bytes.
\<close>

definition appends :: "('w \<Rightarrow> bytes list) \<Rightarrow> 'w stmt \<Rightarrow> bytes \<Rightarrow> bool" where
  "appends buf st b \<longleftrightarrow>
     (\<forall>w c cs. buf w = c # cs \<longrightarrow> (\<exists>w'. st w = Inr w' \<and> buf w' = (c @ b) # cs))"

definition forward :: "('w, 'r) wire \<Rightarrow> ('r \<Rightarrow> bool) \<Rightarrow> 'r \<Rightarrow> 'r \<Rightarrow> bool" where
  "forward W valid r r' \<longleftrightarrow> valid r' \<and> rLen W r' = rLen W r \<and> rPos W r \<le> rPos W r'"

definition safe_read :: "('w, 'r) wire \<Rightarrow> ('r \<Rightarrow> bool) \<Rightarrow> 'r \<Rightarrow> ('v \<times> 'r) res \<Rightarrow> bool" where
  "safe_read W valid r res \<longleftrightarrow>
     (case res of Inl e \<Rightarrow> e \<noteq> Diverge | Inr (v, r') \<Rightarrow> forward W valid r r')"

definition advances :: "('w, 'r) wire \<Rightarrow> ('r \<Rightarrow> bool) \<Rightarrow> ('r \<Rightarrow> bytes) \<Rightarrow> bytes \<Rightarrow> 'r \<Rightarrow> 'r \<Rightarrow> bool" where
  "advances W valid rest b r r' \<longleftrightarrow>
     valid r' \<and> rLen W r' = rLen W r \<and> rest r = b @ rest r'"

definition reads_as ::
  "('w, 'r) wire \<Rightarrow> ('r \<Rightarrow> bool) \<Rightarrow> ('r \<Rightarrow> bytes) \<Rightarrow> nat \<Rightarrow> ('r \<Rightarrow> ('v \<times> 'r) res) \<Rightarrow> bytes \<Rightarrow> 'v \<Rightarrow> bool" where
  "reads_as W valid rest k rd b v \<longleftrightarrow>
     (\<forall>r u. valid r \<longrightarrow> bytes_left W r < k \<longrightarrow> rest r = b @ u \<longrightarrow>
        (\<exists>r'. rd r = Inr (v, r') \<and> advances W valid rest b r r' \<and> rest r' = u))"

section \<open>The library's contract\<close>

locale wire_laws =
  fixes W :: "('w, 'r) wire"
    and buf :: "'w \<Rightarrow> bytes list"
    and valid :: "'r \<Rightarrow> bool"
    and rest :: "'r \<Rightarrow> bytes"
  assumes buf_new: "buf (newWriter W) = [[]]"
    and wUint32: "appends buf (wUint32 W n) (varint (unat n))"
    and wInt32: "- (2 ^ 31) \<le> i \<Longrightarrow> i < 2 ^ 31 \<Longrightarrow> appends buf (wInt32 W (NInt i)) (varint_int i)"
    and wString: "length (utf8 s) < 2 ^ 32 \<Longrightarrow> appends buf (wString W s) (delimited (utf8 s))"
    and wBool: "appends buf (wBool W y) [if y then 1 else 0]"
    and wUint64: "0 \<le> i \<Longrightarrow> i < 2 ^ 53 \<Longrightarrow> appends buf (wUint64 W (NInt i)) (varint_int i)"
    and wInt64: "- (2 ^ 53) < i \<Longrightarrow> i < 2 ^ 53 \<Longrightarrow> appends buf (wInt64 W (NInt i)) (varint_int i)"
    and wDouble: "double_ok x \<Longrightarrow> appends buf (wDouble W x) (double_payload x)"
    and wBytes: "length b < 2 ^ 32 \<Longrightarrow> appends buf (wBytes W b) (delimited b)"
    and wFork: "buf w \<noteq> [] \<Longrightarrow> \<exists>w'. wFork W w = Inr w' \<and> buf w' = [] # buf w"
    and wJoin: "buf w = b # c # cs \<Longrightarrow> length b < 2 ^ 32 \<Longrightarrow>
           \<exists>w'. wJoin W w = Inr w' \<and> buf w' = (c @ delimited b) # cs"
    and wFinish: "buf w = [b] \<Longrightarrow> wFinish W w = b"
    and new_valid: "valid (newReader W bs)"
    and new_rest: "rest (newReader W bs) = bs"
    and new_pos: "rPos W (newReader W bs) = 0"
    and pos_rest: "valid r \<Longrightarrow> rPos W r + length (rest r) = rLen W r"
    and rUint32_safe: "valid r \<Longrightarrow> safe_read W valid r (rUint32 W r)"
    and rUint32_progress: "valid r \<Longrightarrow> rUint32 W r = Inr (n, r') \<Longrightarrow> rPos W r < rPos W r'"
    and rInt32_safe: "valid r \<Longrightarrow> safe_read W valid r (rInt32 W r)"
    and rInt32_progress: "valid r \<Longrightarrow> rInt32 W r = Inr (x, r') \<Longrightarrow> rPos W r < rPos W r'"
    and rString_safe: "valid r \<Longrightarrow> safe_read W valid r (rString W r)"
    and rBool_safe: "valid r \<Longrightarrow> safe_read W valid r (rBool W r)"
    and rUint64_safe: "valid r \<Longrightarrow> safe_read W valid r (rUint64 W r)"
    and rInt64_safe: "valid r \<Longrightarrow> safe_read W valid r (rInt64 W r)"
    and rDouble_safe: "valid r \<Longrightarrow> safe_read W valid r (rDouble W r)"
    and rBytes_safe: "valid r \<Longrightarrow> safe_read W valid r (rBytes W r)"
    and rInt32_range: "valid r \<Longrightarrow> rInt32 W r = Inr (x, r') \<Longrightarrow> int32_ok x"
    and rUint64_range: "valid r \<Longrightarrow> rUint64 W r = Inr (i, r') \<Longrightarrow> 0 \<le> i \<and> i < 2 ^ 64"
    and rInt64_range: "valid r \<Longrightarrow> rInt64 W r = Inr (i, r') \<Longrightarrow> - (2 ^ 63) \<le> i \<and> i < 2 ^ 63"
    and rSkip_safe: "valid r \<Longrightarrow> safe_read W valid r (rbind (rSkip W wt r) (\<lambda>r'. Inr ((), r')))"
    and rUint32: "reads_as W valid rest k (rUint32 W) (varint (unat n)) n"
    and rInt32: "- (2 ^ 31) \<le> i \<Longrightarrow> i < 2 ^ 31 \<Longrightarrow>
           reads_as W valid rest k (rInt32 W) (varint_int i) (NInt i)"
    and rString: "length (utf8 s) < 2 ^ 32 \<Longrightarrow>
           reads_as W valid rest k (rString W) (delimited (utf8 s)) s"
    and rBool: "reads_as W valid rest k (rBool W) [if y then 1 else 0] y"
    and rUint64: "0 \<le> i \<Longrightarrow> i < 2 ^ 64 \<Longrightarrow> reads_as W valid rest k (rUint64 W) (varint_int i) i"
    and rInt64: "- (2 ^ 63) \<le> i \<Longrightarrow> i < 2 ^ 63 \<Longrightarrow> reads_as W valid rest k (rInt64 W) (varint_int i) i"
    and rDouble: "double_ok x \<Longrightarrow> reads_as W valid rest k (rDouble W) (double_payload x) x"
    and rBytes: "length b < 2 ^ 32 \<Longrightarrow> reads_as W valid rest k (rBytes W) (delimited b) b"
    and rSkip: "skippable wt p \<Longrightarrow>
           reads_as W valid rest k (\<lambda>r. rbind (rSkip W wt r) (\<lambda>r'. Inr ((), r'))) p ()"

section \<open>Statement lists\<close>

lemma appends_run_Nil [wire_writes]: "appends buf (run []) []"
  by (simp add: appends_def)

lemma appends_run_Cons [wire_writes]:
  assumes "appends buf c b" and "appends buf (run cs) bs"
  shows "appends buf (run (c # cs)) (b @ bs)"
  unfolding appends_def
proof (intro allI impI)
  fix w d ds
  assume "buf w = d # ds"
  with assms(1) obtain w1 where c: "c w = Inr w1" and w1: "buf w1 = (d @ b) # ds"
    unfolding appends_def by blast
  from assms(2) w1 obtain w2 where "run cs w1 = Inr w2" and "buf w2 = ((d @ b) @ bs) # ds"
    unfolding appends_def by blast
  with c show "\<exists>w'. run (c # cs) w = Inr w' \<and> buf w' = (d @ b @ bs) # ds" by simp
qed

lemma appends_only_if:
  "(P \<Longrightarrow> appends buf c b) \<Longrightarrow> appends buf (only_if P c) (if P then b else [])"
  by (cases P) (simp_all add: appends_def)

lemma appends_for_each:
  "(\<And>x. x \<in> set xs \<Longrightarrow> appends buf (body x) (b x)) \<Longrightarrow>
   appends buf (for_each xs body) (concat (map b xs))"
proof (induction xs)
  case Nil
  then show ?case by (simp add: for_each_def appends_def)
next
  case (Cons x xs)
  then have "appends buf (run (body x # map body xs)) (b x @ concat (map b xs))"
    by (intro appends_run_Cons) (simp_all add: for_each_def)
  then show ?case by (simp only: for_each_def list.map concat.simps)
qed

lemma appends_return: "appends buf st b \<Longrightarrow> buf w = [c] \<Longrightarrow> \<exists>w'. st w = Inr w' \<and> buf w' = [c @ b]"
  by (simp add: appends_def)

section \<open>Readers that go forward\<close>

lemma forward_refl: "valid r \<Longrightarrow> forward W valid r r"
  by (simp add: forward_def)

lemma forward_trans: "forward W valid r r' \<Longrightarrow> forward W valid r' r'' \<Longrightarrow> forward W valid r r''"
  by (auto simp: forward_def)

lemma forward_left: "forward W valid r r' \<Longrightarrow> bytes_left W r' \<le> bytes_left W r"
  by (auto simp: forward_def bytes_left_def)

lemma safe_read_Inr: "safe_read W valid r (Inr (v, r')) \<longleftrightarrow> forward W valid r r'"
  by (simp add: safe_read_def)

lemma safe_read_Inl: "safe_read W valid r (Inl e) \<longleftrightarrow> e \<noteq> Diverge"
  by (simp add: safe_read_def)

lemma safe_read_trans:
  "forward W valid r r' \<Longrightarrow> safe_read W valid r' x \<Longrightarrow> safe_read W valid r x"
  by (auto simp: safe_read_def split: sum.splits intro: forward_trans)

lemma safe_read_bind:
  assumes "safe_read W valid r m"
    and "\<And>v r'. m = Inr (v, r') \<Longrightarrow> forward W valid r r' \<Longrightarrow> safe_read W valid r' (f (v, r'))"
  shows "safe_read W valid r (rbind m f)"
proof (cases m)
  case (Inl e)
  with assms(1) show ?thesis by (simp add: safe_read_Inl)
next
  case (Inr x)
  obtain v r' where x: "x = (v, r')" by (cases x)
  with assms(1) Inr have fw: "forward W valid r r'" by (simp add: safe_read_Inr)
  with assms(2) Inr x have "safe_read W valid r' (f (v, r'))" by simp
  with fw show ?thesis
    by (auto simp: Inr x safe_read_def split: sum.splits intro: forward_trans)
qed

text \<open>
  A switch is good for \<open>k\<close> when it never diverges and never goes back on readers with
  fewer than \<open>k\<close> bytes left.
\<close>

definition good_step :: "('w, 'r) wire \<Rightarrow> ('r \<Rightarrow> bool) \<Rightarrow> 'r \<Rightarrow> ('m \<times> 'r) option res \<Rightarrow> bool" where
  "good_step W valid r res \<longleftrightarrow>
     (case res of Inl e \<Rightarrow> e \<noteq> Diverge | Inr None \<Rightarrow> True | Inr (Some (m', r')) \<Rightarrow> forward W valid r r')"

definition good_switch :: "('w, 'r) wire \<Rightarrow> ('r \<Rightarrow> bool) \<Rightarrow> nat \<Rightarrow> ('m, 'r) switch \<Rightarrow> bool" where
  "good_switch W valid k sw \<longleftrightarrow>
     (\<forall>tag m r. valid r \<longrightarrow> bytes_left W r < k \<longrightarrow> good_step W valid r (sw tag m r))"

lemma good_step_None [simp]: "good_step W valid r (Inr None)"
  by (simp add: good_step_def)

lemma good_step_case_read:
  "safe_read W valid r (rd r) \<Longrightarrow> good_step W valid r (case_read tag t rd upd m r)"
  by (auto simp: case_read_def good_step_def safe_read_def rbind_def split: sum.splits)

section \<open>Readers that consume an encoding\<close>

lemma advances_trans:
  "advances W valid rest a r r' \<Longrightarrow> advances W valid rest b r' r'' \<Longrightarrow>
   advances W valid rest (a @ b) r r''"
  by (simp add: advances_def)

text \<open>
  \<open>handles k sw t p f\<close>: on a tag \<open>t\<close> followed by the payload \<open>p\<close> the switch continues
  with \<open>f\<close> applied to the message. \<open>runs k sw b f\<close>: the loop, at the start of the
  bytes \<open>b\<close>, goes on as the loop after \<open>b\<close> with \<open>f\<close> applied to the message.
\<close>

definition handles ::
  "('w, 'r) wire \<Rightarrow> ('r \<Rightarrow> bool) \<Rightarrow> ('r \<Rightarrow> bytes) \<Rightarrow> nat \<Rightarrow> ('m, 'r) switch \<Rightarrow> u32 \<Rightarrow> bytes \<Rightarrow> ('m \<Rightarrow> 'm) \<Rightarrow> bool" where
  "handles W valid rest k sw t p f \<longleftrightarrow>
     (\<forall>m r u. valid r \<longrightarrow> bytes_left W r < k \<longrightarrow> rest r = p @ u \<longrightarrow>
        (\<exists>r'. sw t m r = Inr (Some (f m, r')) \<and> advances W valid rest p r r' \<and> rest r' = u))"

definition runs ::
  "('w, 'r) wire \<Rightarrow> ('r \<Rightarrow> bool) \<Rightarrow> ('r \<Rightarrow> bytes) \<Rightarrow> nat \<Rightarrow> ('m, 'r) switch \<Rightarrow> bytes \<Rightarrow> ('m \<Rightarrow> 'm) \<Rightarrow> bool" where
  "runs W valid rest k sw b f \<longleftrightarrow>
     (\<forall>m r u stop fuel. valid r \<longrightarrow> bytes_left W r \<le> k \<longrightarrow> bytes_left W r < fuel \<longrightarrow>
        rest r = b @ u \<longrightarrow> rPos W r + length b \<le> stop \<longrightarrow>
        (\<exists>r' fuel'. advances W valid rest b r r' \<and> rest r' = u \<and> bytes_left W r' < fuel' \<and>
           decode_loop W sw fuel stop m r = decode_loop W sw fuel' stop (f m) r'))"

definition switch_ignores :: "('m, 'r) switch \<Rightarrow> u32 \<Rightarrow> bool" where
  "switch_ignores sw t \<longleftrightarrow> (\<forall>m r. sw t m r = Inr None)"

lemma reads_asE:
  assumes "reads_as W valid rest k rd b v" and "valid r" and "bytes_left W r < k" and "rest r = b @ u"
  obtains r' where "rd r = Inr (v, r')" and "advances W valid rest b r r'" and "rest r' = u"
  using assms unfolding reads_as_def by blast

lemma runsE:
  assumes "runs W valid rest k sw b f"
    and "valid r" and "bytes_left W r \<le> k" and "bytes_left W r < fuel" and "rest r = b @ u"
    and "rPos W r + length b \<le> stop"
  obtains r' fuel' where "advances W valid rest b r r'" and "rest r' = u" and "bytes_left W r' < fuel'"
    and "decode_loop W sw fuel stop m r = decode_loop W sw fuel' stop (f m) r'"
  using assms unfolding runs_def by blast

definition switch_reads ::
  "('m, 'r) switch \<Rightarrow> u32 \<Rightarrow> ('r \<Rightarrow> ('v \<times> 'r) res) \<Rightarrow> ('v \<Rightarrow> 'm \<Rightarrow> 'm) \<Rightarrow> bool" where
  "switch_reads sw t rd upd \<longleftrightarrow> (\<forall>m r. sw t m r = case_read t t rd upd m r)"

lemma handles_case_read:
  assumes "switch_reads sw t rd upd" and "reads_as W valid rest k rd p v"
  shows "handles W valid rest k sw t p (upd v)"
  unfolding handles_def
proof (intro allI impI)
  fix m r u
  assume "valid r" and "bytes_left W r < k" and "rest r = p @ u"
  with assms(2) obtain r' where "rd r = Inr (v, r')" and "advances W valid rest p r r'" and "rest r' = u"
    by (rule reads_asE)
  with assms(1) show "\<exists>r'. sw t m r = Inr (Some (upd v m, r')) \<and> advances W valid rest p r r' \<and> rest r' = u"
    by (simp add: switch_reads_def case_read_def)
qed

definition switch_packs ::
  "('w, 'r) wire \<Rightarrow> ('m, 'r) switch \<Rightarrow> u32 \<Rightarrow> u32 \<Rightarrow> ('r \<Rightarrow> ('v \<times> 'r) res) \<Rightarrow> ('v \<Rightarrow> 'm \<Rightarrow> 'm) \<Rightarrow> bool" where
  "switch_packs W sw t t2 rd upd \<longleftrightarrow>
     (\<forall>tag m r. tag = t \<or> tag = t2 \<longrightarrow> sw tag m r = case_packed W tag t t2 rd upd m r)"

lemma runs_cong: "runs W valid rest k sw b f \<Longrightarrow> (\<And>m. f m = g m) \<Longrightarrow> runs W valid rest k sw b g"
  by (simp add: runs_def)

section \<open>Consequences of the contract for the decoding loop\<close>

text \<open>What a nested \<^verbatim>\<open>decode\<close> call must satisfy for its caller.\<close>

definition decodes ::
  "('w, 'r) wire \<Rightarrow> ('r \<Rightarrow> bool) \<Rightarrow> ('r \<Rightarrow> bytes) \<Rightarrow> nat \<Rightarrow> ('r input \<Rightarrow> nat option \<Rightarrow> ('m \<times> 'r) res) \<Rightarrow> bytes \<Rightarrow> 'm \<Rightarrow> bool" where
  "decodes W valid rest k dec b v \<longleftrightarrow>
     reads_as W valid rest k (\<lambda>r. dec (Reader r) (Some (length b))) b v"

definition safe_decoder ::
  "('w, 'r) wire \<Rightarrow> ('r \<Rightarrow> bool) \<Rightarrow> nat \<Rightarrow> ('r input \<Rightarrow> nat option \<Rightarrow> ('m \<times> 'r) res) \<Rightarrow> bool" where
  "safe_decoder W valid k dec \<longleftrightarrow>
     (\<forall>r len. valid r \<longrightarrow> bytes_left W r < k \<longrightarrow> safe_read W valid r (dec (Reader r) len))"

context wire_laws
begin

lemma left_rest: "valid r \<Longrightarrow> bytes_left W r = length (rest r)"
  using pos_rest [of r] by (simp add: bytes_left_def)

lemma advances_forward: "valid r \<Longrightarrow> advances W valid rest b r r' \<Longrightarrow> forward W valid r r'"
  using pos_rest [of r] pos_rest [of r'] by (auto simp: advances_def forward_def)

lemma advances_left:
  "valid r \<Longrightarrow> advances W valid rest b r r' \<Longrightarrow> bytes_left W r = length b + bytes_left W r'"
  by (auto simp: advances_def left_rest)

lemma advances_pos:
  "valid r \<Longrightarrow> advances W valid rest b r r' \<Longrightarrow> rPos W r' = rPos W r + length b"
  using pos_rest [of r] pos_rest [of r'] by (auto simp: advances_def)

lemma rUint32_forward:
  assumes "valid r" and "rUint32 W r = Inr (n, r')"
  shows "forward W valid r r'" and "bytes_left W r' < bytes_left W r"
proof -
  from rUint32_safe [OF assms(1)] show fw: "forward W valid r r'"
    by (simp add: assms(2) safe_read_Inr)
  from rUint32_progress [OF assms] pos_rest [of r'] fw
  show "bytes_left W r' < bytes_left W r" by (auto simp: forward_def bytes_left_def)
qed

lemma rSkip_forward: "valid r \<Longrightarrow> rSkip W wt r = Inr r' \<Longrightarrow> forward W valid r r'"
  using rSkip_safe [of r wt] by (simp add: safe_read_Inr)

lemma rSkip_no_Diverge: "valid r \<Longrightarrow> rSkip W wt r = Inl e \<Longrightarrow> e \<noteq> Diverge"
  using rSkip_safe [of r wt] by (simp add: safe_read_Inl)

text \<open>
  The loop ends: with more fuel than bytes left it returns a message or throws, and the
  reader it leaves is a valid one further on.
\<close>

lemma decode_loop_safe:
  assumes "good_switch W valid k sw" and "valid r"
    and "bytes_left W r \<le> k" and "bytes_left W r < fuel"
  shows "safe_read W valid r (decode_loop W sw fuel stop m r)"
  using assms(2-4)
proof (induction fuel arbitrary: m r)
  case 0
  then show ?case by simp
next
  case (Suc fuel)
  have rec: "safe_read W valid r2 (decode_loop W sw fuel stop m' r2)"
    if "forward W valid r1 r2" "bytes_left W r1 < bytes_left W r" for m' r1 r2
    using that Suc.prems forward_left [OF that(1)]
    by (intro Suc.IH) (auto simp: forward_def)
  have body: "safe_read W valid r1
      (rbind (sw tag m r1) (\<lambda>outcome. case outcome of
         Some (m', r') \<Rightarrow> decode_loop W sw fuel stop m' r'
       | None \<Rightarrow> if tag AND 7 = 4 \<or> tag = 0 then Inr (m, r1)
           else rbind (rSkip W (tag AND 7) r1) (\<lambda>r2. decode_loop W sw fuel stop m r2)))"
    if fw: "forward W valid r r1" and lt: "bytes_left W r1 < bytes_left W r" for tag r1
  proof -
    have v1: "valid r1" using fw by (simp add: forward_def)
    have good: "good_step W valid r1 (sw tag m r1)"
      using assms(1) v1 lt Suc.prems by (auto simp: good_switch_def)
    show ?thesis
    proof (cases "sw tag m r1")
      case (Inl e)
      with good show ?thesis by (simp add: good_step_def safe_read_Inl)
    next
      case sw: (Inr outcome)
      show ?thesis
      proof (cases outcome)
        case None
        have "safe_read W valid r1 (rbind (rSkip W (tag AND 7) r1) (\<lambda>r2. decode_loop W sw fuel stop m r2))"
        proof (cases "rSkip W (tag AND 7) r1")
          case (Inl e)
          then show ?thesis using rSkip_no_Diverge [OF v1 Inl] by (simp add: safe_read_Inl)
        next
          case (Inr r2)
          with v1 have fw2: "forward W valid r1 r2" by (rule rSkip_forward)
          from safe_read_trans [OF fw2 rec [OF fw2 lt]] show ?thesis by (simp add: Inr)
        qed
        with None sw v1 show ?thesis by (simp add: safe_read_Inr forward_refl)
      next
        case (Some x)
        obtain m' r2 where x: "x = (m', r2)" by (cases x)
        with good sw Some have fw2: "forward W valid r1 r2" by (simp add: good_step_def)
        from safe_read_trans [OF fw2 rec [OF fw2 lt]] show ?thesis by (simp add: sw Some x)
      qed
    qed
  qed
  show ?case
  proof (cases "rPos W r < stop")
    case True
    then show ?thesis
      using rUint32_safe [OF Suc.prems(1)]
      by (auto simp: decode_loop.simps intro!: safe_read_bind body dest: rUint32_forward [OF Suc.prems(1)])
  next
    case False
    with Suc.prems(1) show ?thesis by (simp add: decode_loop.simps safe_read_Inr forward_refl)
  qed
qed

lemma decode_msg_safe:
  assumes "good_switch W valid k sw"
  shows "safe_decoder W valid (Suc k) (decode_msg W sw base)"
  unfolding safe_decoder_def decode_msg_def input_reader_def Let_def
  by (auto intro!: decode_loop_safe [OF assms])

end

section \<open>Reading fields\<close>

context wire_laws
begin

lemma runs_Nil: "runs W valid rest k sw [] (\<lambda>m. m)"
  unfolding runs_def by (auto simp: advances_def)

lemma runs_append:
  assumes "runs W valid rest k sw a f" and "runs W valid rest k sw b g"
  shows "runs W valid rest k sw (a @ b) (\<lambda>m. g (f m))"
  unfolding runs_def
proof (intro allI impI)
  fix m r u stop fuel
  assume v: "valid r" and k: "bytes_left W r \<le> k" and fu: "bytes_left W r < fuel"
    and r: "rest r = (a @ b) @ u" and stop: "rPos W r + length (a @ b) \<le> stop"
  have ra: "rest r = a @ (b @ u)" and stopa: "rPos W r + length a \<le> stop"
    using r stop by simp_all
  obtain r1 fuel1
    where adv1: "advances W valid rest a r r1" and r1: "rest r1 = b @ u"
      and fu1: "bytes_left W r1 < fuel1"
      and eq1: "decode_loop W sw fuel stop m r = decode_loop W sw fuel1 stop (f m) r1"
    by (rule runsE [OF assms(1) v k fu ra stopa])
  have v1: "valid r1" and k1: "bytes_left W r1 \<le> k" and stopb: "rPos W r1 + length b \<le> stop"
    using adv1 advances_left [OF v adv1] advances_pos [OF v adv1] k stop
    by (auto simp: advances_def)
  obtain r2 fuel2
    where adv2: "advances W valid rest b r1 r2" and r2: "rest r2 = u"
      and fu2: "bytes_left W r2 < fuel2"
      and eq2: "decode_loop W sw fuel1 stop (f m) r1 = decode_loop W sw fuel2 stop (g (f m)) r2"
    by (rule runsE [OF assms(2) v1 k1 fu1 r1 stopb])
  from advances_trans [OF adv1 adv2] r2 fu2 eq1 eq2
  show "\<exists>r' fuel'. advances W valid rest (a @ b) r r' \<and> rest r' = u \<and> bytes_left W r' < fuel' \<and>
      decode_loop W sw fuel stop m r = decode_loop W sw fuel' stop (g (f m)) r'"
    by metis
qed

text \<open>The loop reads the tag and is then in the switch.\<close>

lemma loop_reads_tag:
  assumes v: "valid r" and k: "bytes_left W r \<le> k" and fu: "bytes_left W r < fuel"
    and r: "rest r = tag_bytes t @ u" and stop: "rPos W r + length (tag_bytes t) \<le> stop"
  obtains r1 fuel1 where "advances W valid rest (tag_bytes t) r r1" and "rest r1 = u"
    and "bytes_left W r1 < k" and "bytes_left W r1 < fuel1"
    and "decode_loop W sw fuel stop m r =
       rbind (sw t m r1) (\<lambda>outcome.
            case outcome of
              Some (m', r') \<Rightarrow> decode_loop W sw fuel1 stop m' r'
            | None \<Rightarrow>
                if t AND 7 = 4 \<or> t = 0 then Inr (m, r1)
                else rbind (rSkip W (t AND 7) r1) (\<lambda>r2. decode_loop W sw fuel1 stop m r2))"
proof -
  have k': "bytes_left W r < Suc k" using k by simp
  obtain r1 where n: "rUint32 W r = Inr (t, r1)" and adv: "advances W valid rest (tag_bytes t) r r1"
      and r1: "rest r1 = u"
    using reads_asE [OF rUint32 v k' r [unfolded tag_bytes_def]] unfolding tag_bytes_def by blast
  have pos: "0 < length (tag_bytes t)" by (simp add: tag_bytes_def)
  from fu obtain fuel1 where f: "fuel = Suc fuel1" by (cases fuel) auto
  have "rPos W r < stop" using stop pos by linarith
  moreover have "bytes_left W r1 < k" "bytes_left W r1 < fuel1"
    using advances_left [OF v adv] pos k fu f by linarith+
  ultimately show ?thesis using that [OF adv r1] n f by (simp add: decode_loop.simps)
qed

lemma runs_field:
  assumes "handles W valid rest k sw t p f"
  shows "runs W valid rest k sw (tag_bytes t @ p) f"
  unfolding runs_def
proof (intro allI impI)
  fix m r u stop fuel
  assume v: "valid r" and k: "bytes_left W r \<le> k" and fu: "bytes_left W r < fuel"
    and r: "rest r = (tag_bytes t @ p) @ u" and stop: "rPos W r + length (tag_bytes t @ p) \<le> stop"
  have r': "rest r = tag_bytes t @ (p @ u)" and stop': "rPos W r + length (tag_bytes t) \<le> stop"
    using r stop by simp_all
  obtain r1 fuel1 where adv1: "advances W valid rest (tag_bytes t) r r1" and r1: "rest r1 = p @ u"
    and l1: "bytes_left W r1 < k" and f1: "bytes_left W r1 < fuel1"
    and eq: "decode_loop W sw fuel stop m r =
       rbind (sw t m r1) (\<lambda>outcome. case outcome of
              Some (m', r') \<Rightarrow> decode_loop W sw fuel1 stop m' r'
            | None \<Rightarrow> if t AND 7 = 4 \<or> t = 0 then Inr (m, r1)
                else rbind (rSkip W (t AND 7) r1) (\<lambda>r2. decode_loop W sw fuel1 stop m r2))"
    by (rule loop_reads_tag [OF v k fu r' stop'])
  have v1: "valid r1" using adv1 by (simp add: advances_def)
  from assms v1 l1 r1 obtain r2
    where sw: "sw t m r1 = Inr (Some (f m, r2))" and adv2: "advances W valid rest p r1 r2"
      and r2: "rest r2 = u"
    unfolding handles_def by blast
  have "bytes_left W r2 < fuel1" using advances_left [OF v1 adv2] f1 by linarith
  moreover have "decode_loop W sw fuel stop m r = decode_loop W sw fuel1 stop (f m) r2"
    by (simp add: eq sw)
  ultimately show "\<exists>r' fuel'. advances W valid rest (tag_bytes t @ p) r r' \<and> rest r' = u \<and>
      bytes_left W r' < fuel' \<and> decode_loop W sw fuel stop m r = decode_loop W sw fuel' stop (f m) r'"
    using advances_trans [OF adv1 adv2] r2 by blast
qed

text \<open>A field the switch does not know is stepped over, whatever its payload.\<close>

lemma runs_unknown:
  assumes "switch_ignores sw t" and "skippable (t AND 7) p" and "t \<noteq> 0"
  shows "runs W valid rest k sw (tag_bytes t @ p) (\<lambda>m. m)"
  unfolding runs_def
proof (intro allI impI)
  fix m r u stop fuel
  assume v: "valid r" and k: "bytes_left W r \<le> k" and fu: "bytes_left W r < fuel"
    and r: "rest r = (tag_bytes t @ p) @ u" and stop: "rPos W r + length (tag_bytes t @ p) \<le> stop"
  have r': "rest r = tag_bytes t @ (p @ u)" and stop': "rPos W r + length (tag_bytes t) \<le> stop"
    using r stop by simp_all
  obtain r1 fuel1 where adv1: "advances W valid rest (tag_bytes t) r r1" and r1: "rest r1 = p @ u"
    and l1: "bytes_left W r1 < k" and f1: "bytes_left W r1 < fuel1"
    and eq: "decode_loop W sw fuel stop m r =
       rbind (sw t m r1) (\<lambda>outcome. case outcome of
              Some (m', r') \<Rightarrow> decode_loop W sw fuel1 stop m' r'
            | None \<Rightarrow> if t AND 7 = 4 \<or> t = 0 then Inr (m, r1)
                else rbind (rSkip W (t AND 7) r1) (\<lambda>r2. decode_loop W sw fuel1 stop m r2))"
    by (rule loop_reads_tag [OF v k fu r' stop'])
  have v1: "valid r1" using adv1 by (simp add: advances_def)
  have "t AND 7 \<noteq> 4" using assms(2) by (auto simp: skippable_def)
  moreover from rSkip [OF assms(2), of k] v1 l1 r1 obtain r2
    where "rSkip W (t AND 7) r1 = Inr r2" and adv2: "advances W valid rest p r1 r2"
      and r2: "rest r2 = u"
    unfolding reads_as_def by (auto simp: rbind_eq_Inr)
  ultimately have "decode_loop W sw fuel stop m r = decode_loop W sw fuel1 stop m r2"
    using assms(1,3) by (simp add: eq switch_ignores_def)
  moreover have "bytes_left W r2 < fuel1" using advances_left [OF v1 adv2] f1 by linarith
  ultimately show "\<exists>r' fuel'. advances W valid rest (tag_bytes t @ p) r r' \<and> rest r' = u \<and>
      bytes_left W r' < fuel' \<and> decode_loop W sw fuel stop m r = decode_loop W sw fuel' stop m r'"
    using advances_trans [OF adv1 adv2] r2 by blast
qed

text \<open>Run over exactly its bytes, the loop returns the updated base message.\<close>

lemma decode_msg_runs:
  assumes "runs W valid rest k sw b f"
  shows "decodes W valid rest (Suc k) (decode_msg W sw base) b (f base)"
  unfolding decodes_def reads_as_def
proof (intro allI impI)
  fix r u
  assume v: "valid r" and k: "bytes_left W r < Suc k" and r: "rest r = b @ u"
  let ?stop = "rPos W r + length b"
  have k': "bytes_left W r \<le> k" using k by simp
  obtain r' fuel
    where adv: "advances W valid rest b r r'" and r': "rest r' = u" and fu: "bytes_left W r' < fuel"
      and eq: "decode_loop W sw (Suc (bytes_left W r)) ?stop base r = decode_loop W sw fuel ?stop (f base) r'"
    by (rule runsE [OF assms v k' lessI r order_refl])
  have "decode_loop W sw fuel ?stop (f base) r' = Inr (f base, r')"
    using advances_pos [OF v adv] fu by (cases fuel) (simp_all add: decode_loop.simps)
  with eq have "decode_msg W sw base (Reader r) (Some (length b)) = Inr (f base, r')"
    by (simp add: decode_msg_def input_reader_def decode_end_def Let_def)
  with adv r' show "\<exists>r'. decode_msg W sw base (Reader r) (Some (length b)) = Inr (f base, r') \<and>
      advances W valid rest b r r' \<and> rest r' = u"
    by blast
qed

end

end
