(* ===== verification/Codec.thy ===== *)
theory Codec
  imports Wire_Laws
begin

text \<open>
  One rule per kind of field for encoders and decoders, and the contract of a generated
  message object as a locale. A message's proofs are instances of these rules.
\<close>

unbundle bit_operations_syntax

section \<open>Writing fields\<close>

context wire_laws
begin

lemma appends_tagged:
  assumes "appends buf st b"
  shows "appends buf (tagged W t st) (tag_bytes t @ b)"
  unfolding appends_def
proof (intro allI impI)
  fix w c cs
  assume "buf w = c # cs"
  with wUint32 [of t] obtain w1 where "wUint32 W t w = Inr w1" and w1: "buf w1 = (c @ tag_bytes t) # cs"
    unfolding appends_def tag_bytes_def by blast
  moreover from assms w1 obtain w2 where "st w1 = Inr w2" and "buf w2 = ((c @ tag_bytes t) @ b) # cs"
    unfolding appends_def by blast
  ultimately show "\<exists>w'. tagged W t st w = Inr w' \<and> buf w' = (c @ tag_bytes t @ b) # cs"
    by (simp add: tagged_def)
qed

lemma appends_forked:
  assumes "appends buf enc b" and "length b < 2 ^ 32"
  shows "appends buf (run [wFork W, enc, wJoin W]) (delimited b)"
  unfolding appends_def
proof (intro allI impI)
  fix w c cs
  assume w: "buf w = c # cs"
  with wFork [of w] obtain w1 where "wFork W w = Inr w1" and "buf w1 = [] # c # cs" by auto
  moreover with assms(1) obtain w2 where "enc w1 = Inr w2" and w2: "buf w2 = b # c # cs"
    unfolding appends_def by fastforce
  moreover from wJoin [OF w2 assms(2)] obtain w3
    where "wJoin W w2 = Inr w3" and "buf w3 = (c @ delimited b) # cs" by blast
  ultimately show "\<exists>w'. run [wFork W, enc, wJoin W] w = Inr w' \<and> buf w' = (c @ delimited b) # cs"
    by simp
qed

lemma appends_sub_message:
  "appends buf enc b \<Longrightarrow> length b < 2 ^ 32 \<Longrightarrow> appends buf (sub_message W t enc) (msg_bytes t b)"
  unfolding sub_message_def msg_bytes_def by (intro appends_tagged appends_forked)

lemma delimited_bound: "length (delimited b) < n \<Longrightarrow> length b < n"
  using length_le_delimited [of b] by simp

lemma enc_str_field [wire_writes]:
  assumes "length (str_field t s) < 2 ^ 32"
  shows "appends buf (only_if (s \<noteq> []) (tagged W t (wString W s))) (str_field t s)"
proof (cases "s = []")
  case True
  then show ?thesis by (simp add: str_field_def appends_def)
next
  case False
  with assms have "length (utf8 s) < 2 ^ 32"
    by - (rule delimited_bound, simp add: str_field_def str_bytes_def)
  from False appends_tagged [OF wString [OF this]] show ?thesis
    by (simp add: str_field_def str_bytes_def appends_def)
qed

lemma enc_opt_str_field [wire_writes]:
  assumes "length (opt_str_field t x) < 2 ^ 32"
  shows "appends buf (if_set x (\<lambda>s. tagged W t (wString W s))) (opt_str_field t x)"
proof (cases x)
  case None
  then show ?thesis by (simp add: opt_str_field_def appends_def)
next
  case (Some s)
  with assms have "length (utf8 s) < 2 ^ 32"
    by - (rule delimited_bound, simp add: opt_str_field_def str_bytes_def)
  from Some appends_tagged [OF wString [OF this]] show ?thesis
    by (simp add: opt_str_field_def str_bytes_def appends_def)
qed

lemma enc_bool_field [wire_writes]:
  "appends buf (only_if (y \<noteq> False) (tagged W t (wBool W y))) (bool_field t y)"
  using appends_tagged [OF wBool [of y], of t]
  by (cases y) (simp_all add: bool_field_def bool_bytes_def appends_def)

lemma enc_opt_msg_field [wire_writes]:
  assumes "\<And>v. x = Some v \<Longrightarrow> appends buf (enc v) (body v)"
    and "length (opt_msg_field t body x) < 2 ^ 32"
  shows "appends buf (if_set x (\<lambda>v. sub_message W t (enc v))) (opt_msg_field t body x)"
proof (cases x)
  case None
  then show ?thesis by (simp add: opt_msg_field_def appends_def)
next
  case (Some v)
  with assms(2) have "length (body v) < 2 ^ 32"
    by - (rule delimited_bound, simp add: opt_msg_field_def msg_bytes_def)
  from Some appends_sub_message [OF assms(1) [OF Some] this] show ?thesis
    by (simp add: opt_msg_field_def appends_def)
qed

lemma rep_msg_bound:
  assumes "length (rep_msg_field t body xs) < n" and "v \<in> set xs"
  shows "length (body v) < n"
proof (rule delimited_bound)
  from assms(2) obtain ys zs where xs: "xs = ys @ v # zs" by (auto dest: split_list)
  from assms(1) show "length (delimited (body v)) < n"
    by (simp add: xs rep_msg_field_def msg_bytes_def)
qed

lemma opt_msg_bound:
  "length (opt_msg_field t body x) < n \<Longrightarrow> x = Some v \<Longrightarrow> length (body v) < n"
  by (rule delimited_bound) (simp add: opt_msg_field_def msg_bytes_def)

lemma enc_rep_msg_field [wire_writes]:
  assumes "\<And>v. v \<in> set xs \<Longrightarrow> appends buf (enc v) (body v)"
    and "length (rep_msg_field t body xs) < 2 ^ 32"
  shows "appends buf (for_each xs (\<lambda>v. sub_message W t (enc v))) (rep_msg_field t body xs)"
  unfolding rep_msg_field_def
  by (intro appends_for_each appends_sub_message assms(1) rep_msg_bound [OF assms(2)])

lemma enc_other_field:
  assumes "\<And>v. x = Some v \<Longrightarrow> v \<noteq> d \<Longrightarrow> appends buf (wr v) (payload v)"
  shows "appends buf (if_other x d (\<lambda>v. tagged W t (wr v))) (other_field t d payload x)"
proof (cases "x = None \<or> x = Some d")
  case True
  then show ?thesis by (auto simp: other_field_def if_other_def appends_def)
next
  case False
  then obtain v where x: "x = Some v" "v \<noteq> d" by auto
  from appends_tagged [OF assms [OF this], of t] x show ?thesis
    by (simp add: other_field_def if_other_def appends_def)
qed

lemma enc_other_str [wire_writes]:
  assumes "length (other_field t d str_payload x) < 2 ^ 32"
  shows "appends buf (if_other x d (\<lambda>v. tagged W t (wString W v))) (other_field t d str_payload x)"
proof (rule enc_other_field)
  fix v
  assume "x = Some v" and "v \<noteq> d"
  with assms have "length (utf8 v) < 2 ^ 32"
    by - (rule delimited_bound, simp add: other_field_def str_payload_def)
  from wString [OF this] show "appends buf (wString W v) (str_payload v)"
    by (simp add: str_payload_def)
qed

lemma enc_other_bool [wire_writes]:
  "appends buf (if_other x d (\<lambda>v. tagged W t (wBool W v))) (other_field t d bool_payload x)"
  by (rule enc_other_field) (use wBool in \<open>simp add: bool_payload_def\<close>)

lemma appends_int: "int32_ok x \<Longrightarrow> appends buf (wInt32 W x) (int_payload x)"
  by (cases x) (simp_all add: wInt32)

lemma enc_other_int [wire_writes]:
  "pred_option int32_ok x \<Longrightarrow> appends buf (if_other x d (\<lambda>v. tagged W t (wInt32 W v))) (other_field t d int_payload x)"
  by (rule enc_other_field) (simp add: appends_int)

lemma enc_rep_str [wire_writes]:
  assumes "length (rep_str_field t xs) < 2 ^ 32"
  shows "appends buf (for_each xs (\<lambda>v. tagged W t (wString W v))) (rep_str_field t xs)"
  unfolding rep_str_field_def
proof (rule appends_for_each)
  fix s
  assume "s \<in> set xs"
  then obtain ys zs where "xs = ys @ s # zs" by (auto dest: split_list)
  with assms have "length (utf8 s) < 2 ^ 32"
    by - (rule delimited_bound, simp add: rep_str_field_def str_bytes_def)
  from appends_tagged [OF wString [OF this]] show "appends buf (tagged W t (wString W s)) (str_bytes t s)"
    by (simp add: str_bytes_def)
qed

lemma enc_unpacked [wire_writes]:
  "list_all int32_ok xs \<Longrightarrow> appends buf (for_each xs (\<lambda>v. tagged W t (wInt32 W v))) (unpacked_field t xs)"
  unfolding unpacked_field_def by (intro appends_for_each appends_tagged appends_int) (simp add: list_all_iff)

lemma packed_ints_eq: "packed_ints W t xs w = sub_message W t (for_each xs (wInt32 W)) w"
  by (cases "wUint32 W t w") (simp_all add: packed_ints_def sub_message_def tagged_def)

lemma enc_packed [wire_writes]:
  assumes "list_all int32_ok xs" and "length (packed_field t xs) < 2 ^ 32"
  shows "appends buf (packed_ints W t xs) (packed_field t xs)"
proof -
  have "length (concat (map int_payload xs)) < 2 ^ 32"
    using assms(2) by - (rule delimited_bound, simp add: packed_field_def msg_bytes_def)
  moreover have "appends buf (for_each xs (wInt32 W)) (concat (map int_payload xs))"
    using assms(1) by (intro appends_for_each appends_int) (simp add: list_all_iff)
  ultimately have "appends buf (sub_message W t (for_each xs (wInt32 W))) (packed_field t xs)"
    unfolding packed_field_def by (intro appends_sub_message)
  then show ?thesis by (simp add: appends_def packed_ints_eq)
qed

end

section \<open>Reading fields\<close>

text \<open>
  \<open>U\<close> is the update functional of the field: \<open>U (\<lambda>_. v) m\<close> stores \<open>v\<close> in it.
\<close>

context wire_laws
begin

lemma store_eq: "store U v = U (\<lambda>_. v)" "store_some U' v = U' (\<lambda>_. Some v)"
  by (simp_all add: fun_eq_iff store_def store_some_def)

lemma push_eq: "push U v = U (\<lambda>vs. vs @ [v])"
  by (simp add: fun_eq_iff push_def)

lemma runs_id: "(\<And>m. f m = m) \<Longrightarrow> runs W valid rest k sw [] f"
  using runs_Nil by (rule runs_cong) simp

lemma read_str_bytes:
  assumes "switch_reads sw t (rString W) upd"
    and "length (str_bytes t s) < 2 ^ 32"
  shows "runs W valid rest k sw (str_bytes t s) (upd s)"
  unfolding str_bytes_def
proof (intro runs_field handles_case_read [OF assms(1) rString])
  show "length (utf8 s) < 2 ^ 32"
    using assms(2) by - (rule delimited_bound, simp add: str_bytes_def)
qed

lemma read_str_field [wire_reads]:
  assumes "switch_reads sw t (rString W) (store U)"
    and "\<And>m. U (\<lambda>x. x) m = m" and "length (str_field t s) < 2 ^ 32"
  shows "runs W valid rest k sw (str_field t s) (U (\<lambda>x. if s = [] then x else s))"
  using read_str_bytes [OF assms(1), of s] assms(2,3)
  by (cases "s = []") (simp_all add: str_field_def runs_id store_eq)

lemma read_opt_str_field [wire_reads]:
  assumes "switch_reads sw t (rString W) (store_some U)"
    and "\<And>m. U (\<lambda>x. x) m = m" and "length (opt_str_field t s) < 2 ^ 32"
  shows "runs W valid rest k sw (opt_str_field t s) (U (\<lambda>x. case s of None \<Rightarrow> x | Some v \<Rightarrow> Some v))"
  using read_str_bytes [OF assms(1)] assms(2,3)
  by (cases s) (simp_all add: opt_str_field_def runs_id store_eq)

lemma read_bool_field [wire_reads]:
  assumes "switch_reads sw t (rBool W) (store U)"
    and "\<And>m. U (\<lambda>x. x) m = m"
  shows "runs W valid rest k sw (bool_field t y) (U (\<lambda>x. if y then y else x))"
proof (cases y)
  case True
  have "runs W valid rest k sw (tag_bytes t @ [if y then 1 else 0]) (U (\<lambda>_. y))"
    using runs_field [OF handles_case_read [OF assms(1) rBool]] by (simp only: store_eq)
  with True show ?thesis by (simp add: bool_field_def bool_bytes_def)
next
  case False
  then show ?thesis by (simp add: bool_field_def runs_id assms(2))
qed

lemma reads_message:
  assumes "decodes W valid rest k dec b v" and "length b < 2 ^ 32"
  shows "reads_as W valid rest k (read_message W dec) (delimited b) v"
  unfolding reads_as_def
proof (intro allI impI)
  fix r u
  assume vr: "valid r" and k: "bytes_left W r < k" and r: "rest r = delimited b @ u"
  let ?n = "word_of_nat (length b) :: u32"
  have n: "unat ?n = length b" using assms(2) by (simp add: unat_of_nat)
  from r have r': "rest r = varint (unat ?n) @ (b @ u)" by (simp add: delimited_def n)
  obtain r1 where 1: "rUint32 W r = Inr (?n, r1)" "advances W valid rest (varint (unat ?n)) r r1"
      "rest r1 = b @ u"
    by (rule reads_asE [OF rUint32 vr k r'])
  have "valid r1" and "bytes_left W r1 < k"
    using 1(2) advances_left [OF vr 1(2)] k by (auto simp: advances_def)
  then obtain r2 where "dec (Reader r1) (Some (length b)) = Inr (v, r2)" "advances W valid rest b r1 r2"
      "rest r2 = u"
    using reads_asE [OF assms(1) [unfolded decodes_def] _ _ 1(3)] by blast
  with 1 advances_trans [OF 1(2), of b r2]
  show "\<exists>r'. read_message W dec r = Inr (v, r') \<and> advances W valid rest (delimited b) r r' \<and> rest r' = u"
    by (auto simp: read_message_def n delimited_def)
qed

lemma read_msg_bytes:
  assumes "switch_reads sw t (read_message W dec) upd"
    and "decodes W valid rest k dec b v" and "length (msg_bytes t b) < 2 ^ 32"
  shows "runs W valid rest k sw (msg_bytes t b) (upd v)"
  unfolding msg_bytes_def
proof (intro runs_field handles_case_read [OF assms(1) reads_message [OF assms(2)]])
  show "length b < 2 ^ 32"
    using assms(3) by - (rule delimited_bound, simp add: msg_bytes_def)
qed

lemma read_opt_msg_field [wire_reads]:
  assumes "switch_reads sw t (read_message W dec) (store_some U)"
    and "\<And>m. U (\<lambda>x. x) m = m"
    and "\<And>v. x = Some v \<Longrightarrow> decodes W valid rest k dec (body v) (norm v)"
    and "length (opt_msg_field t body x) < 2 ^ 32"
  shows "runs W valid rest k sw (opt_msg_field t body x)
           (U (\<lambda>old. case x of None \<Rightarrow> old | Some v \<Rightarrow> Some (norm v)))"
  using read_msg_bytes [OF assms(1) assms(3)] assms(2,4)
  by (cases x) (simp_all add: opt_msg_field_def runs_id store_eq)

lemma read_rep_msg_field [wire_reads]:
  assumes "switch_reads sw t (read_message W dec) (push U)"
    and "\<And>m. U (\<lambda>x. x) m = m" and "\<And>f g m. U f (U g m) = U (\<lambda>x. f (g x)) m"
    and "\<And>v. v \<in> set xs \<Longrightarrow> decodes W valid rest k dec (body v) (norm v)"
    and "length (rep_msg_field t body xs) < 2 ^ 32"
  shows "runs W valid rest k sw (rep_msg_field t body xs) (U (\<lambda>old. old @ map norm xs))"
  using assms(4,5)
proof (induction xs)
  case Nil
  then show ?case by (simp add: rep_msg_field_def runs_id assms(2))
next
  case (Cons v xs)
  have "runs W valid rest k sw (msg_bytes t (body v)) (U (\<lambda>old. old @ [norm v]))"
    unfolding push_eq [symmetric]
    using Cons.prems by (intro read_msg_bytes [OF assms(1)]) (simp_all add: rep_msg_field_def)
  moreover have "runs W valid rest k sw (rep_msg_field t body xs) (U (\<lambda>old. old @ map norm xs))"
    using Cons.prems by (intro Cons.IH) (simp_all add: rep_msg_field_def)
  ultimately have "runs W valid rest k sw (msg_bytes t (body v) @ rep_msg_field t body xs)
      (\<lambda>m. U (\<lambda>old. old @ map norm xs) (U (\<lambda>old. old @ [norm v]) m))"
    by (rule runs_append)
  then show ?case by (simp add: rep_msg_field_def assms(3))
qed

lemma read_other_field:
  assumes "switch_reads sw t rd (store_some U)" and "\<And>m. U (\<lambda>x. x) m = m"
    and "\<And>v. x = Some v \<Longrightarrow> v \<noteq> d \<Longrightarrow> reads_as W valid rest k rd (payload v) v"
  shows "runs W valid rest k sw (other_field t d payload x) (U (\<lambda>old. if x = None \<or> x = Some d then old else x))"
proof (cases "x = None \<or> x = Some d")
  case True
  then show ?thesis by (auto simp: other_field_def runs_id assms(2))
next
  case False
  then obtain v where x: "x = Some v" "v \<noteq> d" by auto
  from runs_field [OF handles_case_read [OF assms(1) assms(3) [OF x]]] x show ?thesis
    by (simp add: other_field_def store_eq)
qed

lemma read_other_str [wire_reads]:
  assumes "switch_reads sw t (rString W) (store_some U)" and "\<And>m. U (\<lambda>x. x) m = m"
    and "length (other_field t d str_payload x) < 2 ^ 32"
  shows "runs W valid rest k sw (other_field t d str_payload x) (U (\<lambda>old. if x = None \<or> x = Some d then old else x))"
proof (rule read_other_field [OF assms(1,2)])
  fix v
  assume "x = Some v" and "v \<noteq> d"
  with assms(3) have "length (utf8 v) < 2 ^ 32"
    by - (rule delimited_bound, simp add: other_field_def str_payload_def)
  then show "reads_as W valid rest k (rString W) (str_payload v) v"
    unfolding str_payload_def by (rule rString)
qed

lemma read_other_bool [wire_reads]:
  assumes "switch_reads sw t (rBool W) (store_some U)" and "\<And>m. U (\<lambda>x. x) m = m"
  shows "runs W valid rest k sw (other_field t d bool_payload x) (U (\<lambda>old. if x = None \<or> x = Some d then old else x))"
  by (rule read_other_field [OF assms]) (simp add: bool_payload_def rBool)

lemma reads_int: "int32_ok x \<Longrightarrow> reads_as W valid rest k (rInt32 W) (int_payload x) x"
  by (cases x) (simp_all add: rInt32)

lemma read_other_int [wire_reads]:
  assumes "switch_reads sw t (rInt32 W) (store_some U)" and "\<And>m. U (\<lambda>x. x) m = m"
    and "pred_option int32_ok x"
  shows "runs W valid rest k sw (other_field t d int_payload x) (U (\<lambda>old. if x = None \<or> x = Some d then old else x))"
  by (rule read_other_field [OF assms(1,2)]) (use assms(3) in \<open>simp add: reads_int\<close>)

lemma runs_pushes:
  assumes "\<And>v. v \<in> set xs \<Longrightarrow> runs W valid rest k sw (piece v) (push U v)"
    and "\<And>m. U (\<lambda>x. x) m = m" and "\<And>f g m. U f (U g m) = U (\<lambda>x. f (g x)) m"
  shows "runs W valid rest k sw (concat (map piece xs)) (U (\<lambda>old. old @ xs))"
  using assms(1)
proof (induction xs)
  case Nil
  then show ?case by (simp add: runs_id assms(2))
next
  case (Cons v xs)
  then have "runs W valid rest k sw (piece v @ concat (map piece xs)) (\<lambda>m. U (\<lambda>old. old @ xs) (push U v m))"
    by (intro runs_append) simp_all
  then show ?case by (simp add: push_eq assms(3))
qed

lemma read_rep_str [wire_reads]:
  assumes "switch_reads sw t (rString W) (push U)"
    and "\<And>m. U (\<lambda>x. x) m = m" and "\<And>f g m. U f (U g m) = U (\<lambda>x. f (g x)) m"
    and "length (rep_str_field t xs) < 2 ^ 32"
  shows "runs W valid rest k sw (rep_str_field t xs) (U (\<lambda>old. old @ xs))"
  unfolding rep_str_field_def
proof (rule runs_pushes [where U = U, OF _ assms(2,3)])
  fix s
  assume "s \<in> set xs"
  then obtain ys zs where "xs = ys @ s # zs" by (auto dest: split_list)
  with assms(4) have "length (str_bytes t s) < 2 ^ 32" by (simp add: rep_str_field_def)
  with assms(1) show "runs W valid rest k sw (str_bytes t s) (push U s)" by (rule read_str_bytes)
qed

lemma switch_packs_reads: "switch_packs W sw t t2 rd upd \<Longrightarrow> switch_reads sw t rd upd"
  by (simp add: switch_packs_def switch_reads_def case_packed_def case_read_def)

lemma read_unpacked:
  assumes "switch_packs W sw t t2 (rInt32 W) (push U)"
    and "\<And>m. U (\<lambda>x. x) m = m" and "\<And>f g m. U f (U g m) = U (\<lambda>x. f (g x)) m"
    and "list_all int32_ok xs"
  shows "runs W valid rest k sw (unpacked_field t xs) (U (\<lambda>old. old @ xs))"
  unfolding unpacked_field_def
  by (rule runs_pushes [where U = U, OF _ assms(2,3)], rule runs_field,
      rule handles_case_read [OF switch_packs_reads [OF assms(1)] reads_int])
    (use assms(4) in \<open>simp add: list_all_iff\<close>)

text \<open>The loop over a packed list reads its elements and stops at its end.\<close>

lemma packed_loop_reads:
  assumes "list_all int32_ok xs" and "valid r" and "bytes_left W r < fuel"
    and "rest r = concat (map int_payload xs) @ u"
    and "stop = rPos W r + length (concat (map int_payload xs))"
  shows "\<exists>r'. packed_loop W (rInt32 W) upd fuel stop m r = Inr (fold upd xs m, r') \<and>
    advances W valid rest (concat (map int_payload xs)) r r' \<and> rest r' = u"
  using assms
proof (induction xs arbitrary: m r fuel)
  case Nil
  then show ?case by (cases fuel) (auto simp: packed_loop.simps advances_def)
next
  case (Cons x xs)
  let ?p = "concat (map int_payload xs)"
  have x: "int32_ok x" and xs: "list_all int32_ok xs" using Cons.prems(1) by simp_all
  have r: "rest r = int_payload x @ (?p @ u)" using Cons.prems(4) by simp
  obtain r1 where r1: "rInt32 W r = Inr (x, r1)" "advances W valid rest (int_payload x) r r1" "rest r1 = ?p @ u"
    by (rule reads_asE [OF reads_int [OF x] Cons.prems(2) Cons.prems(3) r])
  have pos: "0 < length (int_payload x)" using x by (cases x) (simp_all add: varint_int_def)
  obtain f where f: "fuel = Suc f" using Cons.prems(3) by (cases fuel) auto
  have v1: "valid r1" using r1(2) by (simp add: advances_def)
  have "bytes_left W r1 < f" using advances_left [OF Cons.prems(2) r1(2)] pos Cons.prems(3) f by linarith
  moreover have "stop = rPos W r1 + length ?p"
    using advances_pos [OF Cons.prems(2) r1(2)] Cons.prems(5) by simp
  ultimately obtain r2 where "packed_loop W (rInt32 W) upd f stop (upd x m) r1 = Inr (fold upd xs (upd x m), r2)"
      "advances W valid rest ?p r1 r2" "rest r2 = u"
    using Cons.IH [OF xs v1 _ r1(3), of f "upd x m"] by blast
  moreover have "rPos W r < stop" using Cons.prems(5) pos by simp
  ultimately show ?case
    using r1 advances_trans [OF r1(2)] by (auto simp: f packed_loop.simps)
qed

lemma read_packed [wire_reads]:
  assumes "switch_packs W sw t t2 (rInt32 W) (push U)" and "t \<noteq> t2"
    and "\<And>m. U (\<lambda>x. x) m = m" and "\<And>f g m. U f (U g m) = U (\<lambda>x. f (g x)) m"
    and "list_all int32_ok xs" and "length (packed_field t2 xs) < 2 ^ 32"
  shows "runs W valid rest k sw (packed_field t2 xs) (U (\<lambda>old. old @ xs))"
  unfolding packed_field_def msg_bytes_def
proof (rule runs_field)
  let ?p = "concat (map int_payload xs)"
  let ?n = "word_of_nat (length ?p) :: u32"
  have "length ?p < 2 ^ 32"
    using assms(6) by - (rule delimited_bound, simp add: packed_field_def msg_bytes_def)
  then have n: "unat ?n = length ?p" by (simp add: unat_of_nat)
  have fold: "fold (push U) xs m = U (\<lambda>old. old @ xs) m" for m
    by (induction xs arbitrary: m) (simp_all add: assms(3,4) push_eq)
  show "handles W valid rest k sw t2 (delimited ?p) (U (\<lambda>old. old @ xs))"
    unfolding handles_def
  proof (intro allI impI)
    fix m r u
    assume v: "valid r" and k: "bytes_left W r < k" and r: "rest r = delimited ?p @ u"
    from r have r': "rest r = varint (unat ?n) @ (?p @ u)" by (simp add: delimited_def n)
    obtain r1 where 1: "rUint32 W r = Inr (?n, r1)" "advances W valid rest (varint (unat ?n)) r r1"
        "rest r1 = ?p @ u"
      by (rule reads_asE [OF rUint32 v k r'])
    have v1: "valid r1" using 1(2) by (simp add: advances_def)
    obtain r2 where 2: "packed_loop W (rInt32 W) (push U) (Suc (bytes_left W r1)) (unat ?n + rPos W r1) m r1
          = Inr (fold (push U) xs m, r2)" "advances W valid rest ?p r1 r2" "rest r2 = u"
      using packed_loop_reads [OF assms(5) v1 lessI 1(3), where stop = "unat ?n + rPos W r1" and upd = "push U" and m = m] n
      by auto
    have "sw t2 m r = Inr (Some (U (\<lambda>old. old @ xs) m, r2))"
      using assms(1,2) 1(1) 2(1) by (simp add: switch_packs_def case_packed_def fold)
    with advances_trans [OF 1(2) 2(2)] 2(3) n
    show "\<exists>r'. sw t2 m r = Inr (Some (U (\<lambda>old. old @ xs) m, r')) \<and>
        advances W valid rest (delimited ?p) r r' \<and> rest r' = u"
      by (auto simp: delimited_def)
  qed
qed

lemma packed_loop_safe:
  "valid r \<Longrightarrow> bytes_left W r < fuel \<Longrightarrow> safe_read W valid r (packed_loop W (rInt32 W) upd fuel stop m r)"
proof (induction fuel arbitrary: m r)
  case 0
  then show ?case by simp
next
  case (Suc fuel)
  show ?case
  proof (cases "rPos W r < stop")
    case True
    have "safe_read W valid r (rbind (rInt32 W r) (\<lambda>(v, r'). packed_loop W (rInt32 W) upd fuel stop (upd v m) r'))"
    proof (rule safe_read_bind [OF rInt32_safe [OF Suc.prems(1)]])
      fix v r'
      assume read: "rInt32 W r = Inr (v, r')" and fw: "forward W valid r r'"
      then have v': "valid r'" by (simp add: forward_def)
      have "bytes_left W r' < bytes_left W r"
        using rInt32_progress [OF Suc.prems(1) read] fw pos_rest [OF v'] by (auto simp: forward_def bytes_left_def)
      then show "safe_read W valid r' (case (v, r') of (v, r') \<Rightarrow> packed_loop W (rInt32 W) upd fuel stop (upd v m) r')"
        using Suc.IH [OF v'] Suc.prems(2) by simp
    qed
    with True show ?thesis by (simp add: packed_loop.simps)
  next
    case False
    with Suc.prems(1) show ?thesis by (simp add: packed_loop.simps safe_read_Inr forward_refl)
  qed
qed

lemma good_step_case_packed:
  assumes "valid r"
  shows "good_step W valid r (case_packed W tag t t2 (rInt32 W) upd m r)"
proof -
  have one: "safe_read W valid r (rInt32 W r)" using assms by (rule rInt32_safe)
  have many: "safe_read W valid r (rbind (rUint32 W r) (\<lambda>(n, r1).
      packed_loop W (rInt32 W) upd (Suc (bytes_left W r1)) (unat n + rPos W r1) m r1))"
    by (rule safe_read_bind [OF rUint32_safe [OF assms]]) (auto simp: forward_def intro: packed_loop_safe)
  show ?thesis
  proof (cases "tag = t")
    case True
    with one show ?thesis
      by (cases "rInt32 W r") (auto simp: case_packed_def good_step_def safe_read_def)
  next
    case False
    with many show ?thesis
      by (cases "rUint32 W r")
        (auto simp: case_packed_def good_step_def safe_read_def rbind_def split: sum.splits prod.splits)
  qed
qed

lemma safe_read_message:
  assumes "safe_decoder W valid k dec" and "valid r" and "bytes_left W r < k"
  shows "safe_read W valid r (read_message W dec r)"
  unfolding read_message_def
proof (rule safe_read_bind [OF rUint32_safe [OF assms(2)]])
  fix n r'
  assume "rUint32 W r = Inr (n, r')" and fw: "forward W valid r r'"
  then have "bytes_left W r' < k" using forward_left [OF fw] assms(3) by simp
  with assms(1) fw show "safe_read W valid r' ((case (n, r') of (n, r') \<Rightarrow> dec (Reader r') (Some (unat n))))"
    by (simp add: safe_decoder_def forward_def)
qed

lemma read_message_cong:
  assumes "valid r"
    and "\<And>r' len. valid r' \<Longrightarrow> bytes_left W r' \<le> bytes_left W r \<Longrightarrow> dec (Reader r') len = dec' (Reader r') len"
  shows "read_message W dec r = read_message W dec' r"
  unfolding read_message_def
proof (rule rbind_cong [OF refl])
  fix x
  assume x: "rUint32 W r = Inr x"
  obtain n r' where "x = (n, r')" by (cases x)
  with x show "(case x of (n, r') \<Rightarrow> dec (Reader r') (Some (unat n))) = (case x of (n, r') \<Rightarrow> dec' (Reader r') (Some (unat n)))"
    using rUint32_forward [OF assms(1), of n r'] by (auto simp: forward_def intro!: assms(2))
qed

lemmas good_reads = rInt32_safe rString_safe rBool_safe safe_read_message

end

text \<open>A field read into the default message: a scalar has the default if absent.\<close>

lemma merge_default:
  "(if x = None \<or> x = Some d then Some d else x) = Some (nullish x d)"
  "(case y of None \<Rightarrow> None | Some v \<Rightarrow> Some (f v)) = map_option f y"
  by (auto simp: nullish_def split: option.split)

section \<open>The contract of a generated message object\<close>

text \<open>
  \<open>body m\<close> is the wire form of \<open>m\<close>, \<open>fits m\<close> says that the message can be written (no
  part is longer than a 32-bit length can say), and \<open>norm m\<close> is what reading the wire form
  gives back.
\<close>

locale message_codec = wire_laws W buf valid rest
  for W :: "('w, 'r) wire" and buf :: "'w \<Rightarrow> bytes list" and valid :: "'r \<Rightarrow> bool" and rest :: "'r \<Rightarrow> bytes" +
  fixes enc :: "'m \<Rightarrow> 'w stmt"
    and dec :: "'r input \<Rightarrow> nat option \<Rightarrow> ('m \<times> 'r) res"
    and body :: "'m \<Rightarrow> bytes"
    and fits :: "'m \<Rightarrow> bool"
    and norm :: "'m \<Rightarrow> 'm"
  assumes enc_body: "fits m \<Longrightarrow> appends buf (enc m) (body m)"
    and fits_length: "fits m \<Longrightarrow> length (body m) < 2 ^ 32"
    and dec_body: "fits m \<Longrightarrow> decodes W valid rest k dec (body m) (norm m)"
    and dec_safe: "safe_decoder W valid k dec"
    and dec_bytes: "dec (Bytes bs) len = dec (Reader (newReader W bs)) len"
    and dec_all: "valid r \<Longrightarrow> dec (Reader r) None = dec (Reader r) (Some (bytes_left W r))"
begin

lemma new_left: "bytes_left W (newReader W bs) = length bs"
  using left_rest [OF new_valid, of bs] by (simp add: new_rest)

lemma encode_new:
  assumes "fits m"
  shows "\<exists>w. enc m (newWriter W) = Inr w \<and> wFinish W w = body m"
  using appends_return [OF enc_body [OF assms] buf_new] wFinish by auto

lemma decode_new:
  assumes "\<And>k. decodes W valid rest k dec b v"
  shows "\<exists>r. dec (Bytes b) None = Inr (v, r)"
proof -
  have "rest (newReader W b) = b @ []" by (simp add: new_rest)
  with assms [of "Suc (length b)"] obtain r
    where "dec (Reader (newReader W b)) (Some (length b)) = Inr (v, r)"
    using new_valid new_left unfolding decodes_def reads_as_def by (metis lessI)
  then show ?thesis
    using dec_all [OF new_valid, of b] by (simp add: dec_bytes new_left)
qed

lemma roundtrip:
  assumes "fits m"
  shows "\<exists>w r. enc m (newWriter W) = Inr w \<and> wFinish W w = body m \<and>
           dec (Bytes (wFinish W w)) None = Inr (norm m, r)"
  using encode_new [OF assms] decode_new [OF dec_body [OF assms]] by metis

lemma decode_safe: "safe_read W valid (newReader W bs) (dec (Bytes bs) len)"
  using dec_safe [of "Suc (length bs)", unfolded safe_decoder_def, rule_format, OF new_valid]
  by (simp add: dec_bytes new_left)

lemma decode_total: "dec (Bytes bs) len \<noteq> Inl Diverge"
  using decode_safe [of bs len] by (auto simp: safe_read_Inl)

lemma decode_ends:
  assumes "dec (Bytes bs) len = Inr (m, r)"
  shows "rPos W r \<le> length bs"
proof -
  have "safe_read W valid (newReader W bs) (Inr (m, r))"
    using decode_safe [of bs len] by (simp add: assms)
  then have "valid r" and "rLen W r = rLen W (newReader W bs)"
    by (simp_all add: safe_read_Inr forward_def)
  then show ?thesis
    using pos_rest [of r] new_left [of bs] by (simp add: bytes_left_def new_pos)
qed

text \<open>A sub-message field of this message type, for the message that contains it.\<close>

lemma enc_opt_sub [wire_writes]:
  "(\<And>v. x = Some v \<Longrightarrow> fits v) \<Longrightarrow> length (opt_msg_field t body x) < 2 ^ 32 \<Longrightarrow>
   appends buf (if_set x (\<lambda>v. sub_message W t (enc v))) (opt_msg_field t body x)"
  by (rule enc_opt_msg_field) (simp_all add: enc_body)

lemma enc_rep_sub [wire_writes]:
  "(\<And>v. v \<in> set xs \<Longrightarrow> fits v) \<Longrightarrow> length (rep_msg_field t body xs) < 2 ^ 32 \<Longrightarrow>
   appends buf (for_each xs (\<lambda>v. sub_message W t (enc v))) (rep_msg_field t body xs)"
  by (rule enc_rep_msg_field) (simp_all add: enc_body)

lemma read_opt_sub [wire_reads]:
  "switch_reads sw t (read_message W dec) (store_some U) \<Longrightarrow> (\<And>m. U (\<lambda>x. x) m = m) \<Longrightarrow>
   (\<And>v. x = Some v \<Longrightarrow> fits v) \<Longrightarrow> length (opt_msg_field t body x) < 2 ^ 32 \<Longrightarrow>
   runs W valid rest k sw (opt_msg_field t body x) (U (\<lambda>old. case x of None \<Rightarrow> old | Some v \<Rightarrow> Some (norm v)))"
  by (rule read_opt_msg_field) (auto intro: dec_body)

lemma read_rep_sub [wire_reads]:
  "switch_reads sw t (read_message W dec) (push U) \<Longrightarrow> (\<And>m. U (\<lambda>x. x) m = m) \<Longrightarrow>
   (\<And>f g m. U f (U g m) = U (\<lambda>x. f (g x)) m) \<Longrightarrow>
   (\<And>v. v \<in> set xs \<Longrightarrow> fits v) \<Longrightarrow> length (rep_msg_field t body xs) < 2 ^ 32 \<Longrightarrow>
   runs W valid rest k sw (rep_msg_field t body xs) (U (\<lambda>old. old @ map norm xs))"
  by (rule read_rep_msg_field) (auto intro: dec_body)

end

text \<open>
  The contract of a message whose decoder is the shared loop around a switch. \<open>merge a b\<close>
  is the message obtained by reading the wire form of \<open>b\<close> into \<open>a\<close>.
\<close>

locale switch_codec = wire_laws W buf valid rest
  for W :: "('w, 'r) wire" and buf :: "'w \<Rightarrow> bytes list" and valid :: "'r \<Rightarrow> bool" and rest :: "'r \<Rightarrow> bytes" +
  fixes enc :: "'m \<Rightarrow> 'w stmt"
    and sw :: "('m, 'r) switch"
    and base :: "'m"
    and body :: "'m \<Rightarrow> bytes"
    and fits :: "'m \<Rightarrow> bool"
    and norm :: "'m \<Rightarrow> 'm"
    and merge :: "'m \<Rightarrow> 'm \<Rightarrow> 'm"
  assumes enc_body: "fits m \<Longrightarrow> appends buf (enc m) (body m)"
    and fits_length: "fits m \<Longrightarrow> length (body m) < 2 ^ 32"
    and sw_good: "good_switch W valid k sw"
    and sw_runs: "fits m \<Longrightarrow> runs W valid rest k sw (body m) (\<lambda>m0. merge m0 m)"
    and merge_base: "merge base m = norm m"

sublocale switch_codec \<subseteq> message_codec W buf valid rest enc "decode_msg W sw base" body fits norm
proof unfold_locales
  fix m k assume "fits m"
  from decode_msg_runs [OF sw_runs [OF this], of k base]
  have "decodes W valid rest (Suc k) (decode_msg W sw base) (body m) (norm m)"
    by (simp add: merge_base)
  then show "decodes W valid rest k (decode_msg W sw base) (body m) (norm m)"
    by (auto simp: decodes_def reads_as_def)
next
  fix k
  from decode_msg_safe [OF sw_good, of k base]
  show "safe_decoder W valid k (decode_msg W sw base)"
    by (auto simp: safe_decoder_def)
next
  fix bs len
  show "decode_msg W sw base (Bytes bs) len = decode_msg W sw base (Reader (newReader W bs)) len"
    by (simp add: decode_msg_def input_reader_def)
next
  fix r assume "valid r"
  then show "decode_msg W sw base (Reader r) None = decode_msg W sw base (Reader r) (Some (bytes_left W r))"
    using pos_rest [of r] by (simp add: decode_msg_def input_reader_def decode_end_def bytes_left_def)
qed (auto intro: enc_body dest: fits_length)

context switch_codec
begin

lemma decode_runs:
  "(\<And>k. runs W valid rest k sw b f) \<Longrightarrow> \<exists>r. decode_msg W sw base (Bytes b) None = Inr (f base, r)"
proof (rule decode_new)
  fix k assume "\<And>k. runs W valid rest k sw b f"
  from decode_msg_runs [OF this, of k base]
  show "decodes W valid rest k (decode_msg W sw base) b (f base)"
    by (auto simp: decodes_def reads_as_def)
qed

text \<open>Two messages one after the other are read as the first overlaid with the second.\<close>

lemma decode_concat:
  assumes "fits a" and "fits b"
  shows "\<exists>r. decode_msg W sw base (Bytes (body a @ body b)) None = Inr (merge (norm a) b, r)"
  using decode_runs [OF runs_append [OF sw_runs [OF assms(1)] sw_runs [OF assms(2)]]]
  by (simp add: merge_base)

text \<open>A field with a tag that no case of the switch knows does not change what is read.\<close>

lemma decode_unknown:
  assumes "fits a" and "fits b" and "switch_ignores sw t" and "t \<noteq> 0"
    and "skippable (t AND 7) p"
  shows "\<exists>r. decode_msg W sw base (Bytes (body a @ tag_bytes t @ p @ body b)) None
           = Inr (merge (norm a) b, r)"
  using decode_runs [OF runs_append [OF sw_runs [OF assms(1)]
      runs_append [OF runs_unknown [OF assms(3,5,4)] sw_runs [OF assms(2)]]]]
  by (simp add: merge_base)

text \<open>After a well-formed message the loop reads the next tag and is in the switch.\<close>

lemma decode_to_tag:
  assumes "fits a"
  obtains r1 fuel stop where "valid r1" and "rest r1 = u"
    and "decode_msg W sw base (Bytes (body a @ tag_bytes t @ u)) None =
      rbind (sw t (norm a) r1) (\<lambda>outcome.
            case outcome of
              Some (m', r') \<Rightarrow> decode_loop W sw fuel stop m' r'
            | None \<Rightarrow>
                if t AND 7 = 4 \<or> t = 0 then Inr (norm a, r1)
                else rbind (rSkip W (t AND 7) r1) (\<lambda>r2. decode_loop W sw fuel stop (norm a) r2))"
proof -
  let ?b = "body a @ tag_bytes t @ u"
  let ?r = "newReader W ?b"
  have pos: "rPos W ?r = 0" and len: "rLen W ?r = length ?b"
    using new_pos new_left [of ?b] by (simp_all add: bytes_left_def)
  obtain r1 fuel1 where adv: "advances W valid rest (body a) ?r r1" and r1: "rest r1 = tag_bytes t @ u"
    and f1: "bytes_left W r1 < fuel1"
    and eq: "decode_loop W sw (Suc (bytes_left W ?r)) (length ?b) base ?r
         = decode_loop W sw fuel1 (length ?b) (norm a) r1"
    by (rule runsE [OF sw_runs [OF assms] new_valid order_refl lessI, of ?b "tag_bytes t @ u" "length ?b" base])
      (auto simp: new_rest pos merge_base)
  have v1: "valid r1" using adv by (simp add: advances_def)
  have stop: "rPos W r1 + length (tag_bytes t) \<le> length ?b"
    using advances_pos [OF new_valid adv] pos by simp
  have dec: "decode_msg W sw base (Bytes ?b) None = decode_loop W sw fuel1 (length ?b) (norm a) r1"
    using eq by (simp add: decode_msg_def input_reader_def decode_end_def len)
  show ?thesis
    by (rule loop_reads_tag [OF v1 order_refl f1 r1 stop, where sw = sw and m = "norm a"], rule that)
      (auto simp: dec advances_def)
qed

text \<open>A tag zero, or an end-group tag, ends the message where it stands.\<close>

lemma decode_stops:
  assumes "fits a" and "switch_ignores sw t" and "t AND 7 = 4 \<or> t = 0"
  shows "\<exists>r. decode_msg W sw base (Bytes (body a @ tag_bytes t @ u)) None = Inr (norm a, r)"
  by (rule decode_to_tag [OF assms(1), where u = u and t = t]) (use assms(2,3) in \<open>simp add: switch_ignores_def\<close>)

text \<open>An exception of the switch is the result, whatever follows.\<close>

lemma decode_throws:
  assumes "fits a" and "\<And>m r. valid r \<Longrightarrow> rest r = u \<Longrightarrow> sw t m r = Inl e"
  shows "decode_msg W sw base (Bytes (body a @ tag_bytes t @ u)) None = Inl e"
  by (rule decode_to_tag [OF assms(1), where u = u and t = t]) (simp add: assms(2))

end

text \<open>
  The contract of a message that contains itself. \<open>sw_cong\<close> says that the switch calls the
  recursive decoder only on readers that are no longer than its own.
\<close>

locale recursive_codec = wire_laws W buf valid rest
  for W :: "('w, 'r) wire" and buf :: "'w \<Rightarrow> bytes list" and valid :: "'r \<Rightarrow> bool" and rest :: "'r \<Rightarrow> bytes" +
  fixes enc :: "'m \<Rightarrow> 'w stmt"
    and sw :: "('r input \<Rightarrow> nat option \<Rightarrow> ('m \<times> 'r) res) \<Rightarrow> ('m, 'r) switch"
    and base :: "'m"
    and body :: "'m \<Rightarrow> bytes"
    and fits :: "'m \<Rightarrow> bool"
    and norm :: "'m \<Rightarrow> 'm"
    and merge :: "'m \<Rightarrow> 'm \<Rightarrow> 'm"
  assumes enc_body: "fits m \<Longrightarrow> appends buf (enc m) (body m)"
    and fits_length: "fits m \<Longrightarrow> length (body m) < 2 ^ 32"
    and sw_good: "safe_decoder W valid k dec \<Longrightarrow> good_switch W valid k (sw dec)"
    and sw_runs: "(\<And>v. fits v \<Longrightarrow> decodes W valid rest k dec (body v) (norm v)) \<Longrightarrow> fits m \<Longrightarrow>
           runs W valid rest k (sw dec) (body m) (\<lambda>m0. merge m0 m)"
    and merge_base: "merge base m = norm m"
    and sw_cong: "valid r \<Longrightarrow>
           (\<And>r' len. valid r' \<Longrightarrow> bytes_left W r' \<le> bytes_left W r \<Longrightarrow> dec (Reader r') len = dec' (Reader r') len) \<Longrightarrow>
           sw dec tag m r = sw dec' tag m r"
begin

lemma depth_safe: "safe_decoder W valid d (decode_depth W sw base d)"
proof (induction d)
  case 0
  then show ?case by (simp add: safe_decoder_def)
next
  case (Suc d)
  from decode_msg_safe [OF sw_good [OF Suc], of base] show ?case
    by (simp add: safe_decoder_def)
qed

lemma depth_decodes: "fits m \<Longrightarrow> decodes W valid rest d (decode_depth W sw base d) (body m) (norm m)"
proof (induction d arbitrary: m)
  case 0
  then show ?case by (simp add: decodes_def reads_as_def)
next
  case (Suc d)
  from decode_msg_runs [OF sw_runs [OF Suc.IH Suc.prems], of base] show ?case
    by (simp add: decodes_def merge_base)
qed

end

sublocale recursive_codec \<subseteq> message_codec W buf valid rest enc "decode_rec W sw base" body fits norm
proof unfold_locales
  fix m k assume "fits m"
  show "decodes W valid rest k (decode_rec W sw base) (body m) (norm m)"
    unfolding decodes_def reads_as_def
  proof (intro allI impI)
    fix r u
    assume "valid r" and "rest r = body m @ u"
    then show "\<exists>r'. decode_rec W sw base (Reader r) (Some (length (body m))) = Inr (norm m, r') \<and>
        advances W valid rest (body m) r r' \<and> rest r' = u"
      using reads_asE [OF depth_decodes [OF \<open>fits m\<close>, unfolded decodes_def] _ lessI, of r u]
      by (metis decode_rec_def input.simps(5) input_reader_def)
  qed
next
  fix k
  show "safe_decoder W valid k (decode_rec W sw base)"
    using depth_safe [unfolded safe_decoder_def, rule_format, OF _ lessI]
    by (simp add: safe_decoder_def decode_rec_def input_reader_def del: decode_depth.simps)
next
  fix bs len
  show "decode_rec W sw base (Bytes bs) len = decode_rec W sw base (Reader (newReader W bs)) len"
    by (simp add: decode_rec_def decode_msg_def input_reader_def)
next
  fix r assume "valid r"
  then show "decode_rec W sw base (Reader r) None = decode_rec W sw base (Reader r) (Some (bytes_left W r))"
    using pos_rest [of r] by (simp add: decode_rec_def decode_msg_def input_reader_def decode_end_def bytes_left_def)
qed (auto intro: enc_body dest: fits_length)

context recursive_codec
begin

lemma loop_cong:
  assumes "valid r" and "bytes_left W r \<le> Suc k" and "safe_decoder W valid (Suc k) dec"
    and "\<And>r' len. valid r' \<Longrightarrow> bytes_left W r' \<le> k \<Longrightarrow> dec (Reader r') len = dec' (Reader r') len"
  shows "decode_loop W (sw dec) fuel stop m r = decode_loop W (sw dec') fuel stop m r"
  using assms(1,2)
proof (induction fuel arbitrary: m r)
  case 0
  then show ?case by (simp add: decode_loop.simps)
next
  case (Suc fuel)
  have step: "sw dec tag m r1 = sw dec' tag m r1"
    and rec: "valid r2 \<Longrightarrow> bytes_left W r2 \<le> bytes_left W r1 \<Longrightarrow>
       decode_loop W (sw dec) fuel stop m' r2 = decode_loop W (sw dec') fuel stop m' r2"
    if "rUint32 W r = Inr (tag, r1)" for tag r1 r2 m'
  proof -
    have v: "valid r1" and l: "bytes_left W r1 \<le> k"
      using rUint32_forward [OF Suc.prems(1) that] Suc.prems(2) by (auto simp: forward_def)
    show "sw dec tag m r1 = sw dec' tag m r1"
      using l by (intro sw_cong [OF v] assms(4)) simp_all
    show "decode_loop W (sw dec) fuel stop m' r2 = decode_loop W (sw dec') fuel stop m' r2"
      if "valid r2" "bytes_left W r2 \<le> bytes_left W r1"
      using that l by (intro Suc.IH) simp_all
  qed
  have good: "good_step W valid r1 (sw dec tag m r1)" if "rUint32 W r = Inr (tag, r1)" for tag r1
    using sw_good [OF assms(3)] rUint32_forward [OF Suc.prems(1) that] Suc.prems(2)
    by (simp add: good_switch_def forward_def)
  have skip: "valid r2 \<and> bytes_left W r2 \<le> bytes_left W r1"
    if "rUint32 W r = Inr (tag, r1)" "rSkip W wt r1 = Inr r2" for tag r1 r2 wt
  proof -
    have "valid r1" using rUint32_forward [OF Suc.prems(1) that(1)] by (simp add: forward_def)
    from rSkip_forward [OF this that(2)] have "forward W valid r1 r2" .
    then show ?thesis using forward_left [of W valid r1 r2] by (simp add: forward_def)
  qed
  have "rbind (sw dec tag m r1) (\<lambda>outcome. case outcome of
            Some (m', r') \<Rightarrow> decode_loop W (sw dec) fuel stop m' r'
          | None \<Rightarrow> if tag AND 7 = 4 \<or> tag = 0 then Inr (m, r1)
              else rbind (rSkip W (tag AND 7) r1) (\<lambda>r2. decode_loop W (sw dec) fuel stop m r2)) =
        rbind (sw dec' tag m r1) (\<lambda>outcome. case outcome of
            Some (m', r') \<Rightarrow> decode_loop W (sw dec') fuel stop m' r'
          | None \<Rightarrow> if tag AND 7 = 4 \<or> tag = 0 then Inr (m, r1)
              else rbind (rSkip W (tag AND 7) r1) (\<lambda>r2. decode_loop W (sw dec') fuel stop m r2))"
    if tag: "rUint32 W r = Inr (tag, r1)" for tag r1
  proof (rule rbind_cong [OF step [OF tag]])
    fix outcome
    assume "sw dec' tag m r1 = Inr outcome"
    with good [OF tag] step [OF tag]
    have ok: "valid r' \<and> bytes_left W r' \<le> bytes_left W r1" if "outcome = Some (m', r')" for m' r'
      using that forward_left [of W valid r1 r'] by (simp add: good_step_def forward_def)
    show "(case outcome of
            Some (m', r') \<Rightarrow> decode_loop W (sw dec) fuel stop m' r'
          | None \<Rightarrow> if tag AND 7 = 4 \<or> tag = 0 then Inr (m, r1)
              else rbind (rSkip W (tag AND 7) r1) (\<lambda>r2. decode_loop W (sw dec) fuel stop m r2)) =
        (case outcome of
            Some (m', r') \<Rightarrow> decode_loop W (sw dec') fuel stop m' r'
          | None \<Rightarrow> if tag AND 7 = 4 \<or> tag = 0 then Inr (m, r1)
              else rbind (rSkip W (tag AND 7) r1) (\<lambda>r2. decode_loop W (sw dec') fuel stop m r2))"
      using rec [OF tag] skip [OF tag] ok
      by (auto split: option.split intro!: rbind_cong)
  qed
  then show ?case
    by (cases "rUint32 W r") (simp_all add: decode_loop.simps split: prod.split)
qed

text \<open>The depth of the cut-off does not matter once it exceeds the bytes left.\<close>

lemma depth_irrelevant:
  assumes "valid r" and "bytes_left W r < d" and "bytes_left W r < d'"
  shows "decode_depth W sw base d (Reader r) len = decode_depth W sw base d' (Reader r) len"
  using assms
proof (induction "bytes_left W r" arbitrary: r d d' len rule: less_induct)
  case less
  then obtain e e' where d: "d = Suc e" "d' = Suc e'" by (metis Suc_lessE less_imp_Suc_add)
  show ?case
  proof (cases "bytes_left W r")
    case 0
    then have "rUint32 W r \<noteq> Inr (t, r1)" for t r1
      using rUint32_forward(2) [OF less.prems(1), of t r1] by auto
    then show ?thesis
      by (auto simp: d decode_msg_def input_reader_def decode_loop.simps Let_def 0 intro!: rbind_cong)
  next
    case (Suc n)
    have "decode_loop W (sw (decode_depth W sw base e)) fuel stop m r =
        decode_loop W (sw (decode_depth W sw base e')) fuel stop m r" for fuel stop m
    proof (rule loop_cong [OF less.prems(1), of n])
      show "bytes_left W r \<le> Suc n" by (simp add: Suc)
      show "safe_decoder W valid (Suc n) (decode_depth W sw base e)"
        using depth_safe [of e] less.prems(2) Suc d by (auto simp: safe_decoder_def)
      show "decode_depth W sw base e (Reader r') len = decode_depth W sw base e' (Reader r') len"
        if "valid r'" "bytes_left W r' \<le> n" for r' len
        using that less.prems Suc d by (intro less.hyps) auto
    qed
    then show ?thesis by (simp add: d decode_msg_def input_reader_def)
  qed
qed

text \<open>The decoder satisfies the equation of the code, where it calls itself.\<close>

lemma decode_rec_unfold:
  assumes "valid r"
  shows "decode_rec W sw base (Reader r) len = decode_msg W (sw (decode_rec W sw base)) base (Reader r) len"
proof -
  have "decode_loop W (sw (decode_depth W sw base (bytes_left W r))) fuel stop m r =
      decode_loop W (sw (decode_rec W sw base)) fuel stop m r" for fuel stop m
  proof (cases "bytes_left W r")
    case 0
    then have "rUint32 W r \<noteq> Inr (t, r1)" for t r1
      using rUint32_forward(2) [OF assms, of t r1] by auto
    then show ?thesis
      by (cases fuel) (auto simp: decode_loop.simps intro!: rbind_cong)
  next
    case (Suc n)
    show ?thesis
    proof (rule loop_cong [OF assms, of n])
      show "bytes_left W r \<le> Suc n" by (simp add: Suc)
      show "safe_decoder W valid (Suc n) (decode_depth W sw base (bytes_left W r))"
        using depth_safe [of "bytes_left W r"] Suc by simp
      show "decode_depth W sw base (bytes_left W r) (Reader r') len = decode_rec W sw base (Reader r') len"
        if "valid r'" "bytes_left W r' \<le> n" for r' len
        using depth_irrelevant [OF that(1), of "bytes_left W r" "Suc (bytes_left W r')"] that(2) Suc
        by (simp add: decode_rec_def input_reader_def del: decode_depth.simps)
    qed
  qed
  then show ?thesis by (simp add: decode_rec_def decode_msg_def input_reader_def)
qed

text \<open>Two messages one after the other, as for \<open>switch_codec\<close>.\<close>

lemma decode_concat:
  assumes "fits a" and "fits b"
  shows "\<exists>r. decode_rec W sw base (Bytes (body a @ body b)) None = Inr (merge (norm a) b, r)"
proof (rule decode_new)
  fix k
  let ?b = "body a @ body b"
  have "runs W valid rest d (sw (decode_depth W sw base d)) ?b (\<lambda>m0. merge (merge m0 a) b)" for d
    by (rule runs_append [OF sw_runs [OF depth_decodes assms(1)] sw_runs [OF depth_decodes assms(2)]])
  from decode_msg_runs [OF this, of _ base]
  have deep: "decodes W valid rest (Suc d) (decode_depth W sw base (Suc d)) ?b (merge (norm a) b)" for d
    by (simp add: decodes_def merge_base)
  show "decodes W valid rest k (decode_rec W sw base) ?b (merge (norm a) b)"
    unfolding decodes_def reads_as_def
  proof (intro allI impI)
    fix r u
    assume "valid r" and "rest r = ?b @ u"
    then show "\<exists>r'. decode_rec W sw base (Reader r) (Some (length ?b)) = Inr (merge (norm a) b, r') \<and>
        advances W valid rest ?b r r' \<and> rest r' = u"
      using reads_asE [OF deep [unfolded decodes_def] _ lessI, of r u]
      by (metis decode_rec_def input.simps(5) input_reader_def)
  qed
qed

end

end
