(* ===== verification/Descriptor_Enums.thy ===== *)
theory Descriptor_Enums
  imports JS_Value
begin

text \<open>
  The enums of \<^verbatim>\<open>web/src/generated/google/protobuf/descriptor.ts\<close> with their JSON conversions.
  An enum is a datatype with the constructors of the source and the function to its numbers.
  \<^verbatim>\<open>...FromJSON\<close> is a \<^verbatim>\<open>switch\<close> on an arbitrary value, which compares strictly;
  \<^verbatim>\<open>...ToJSON\<close> takes a number, because a decoded message holds whatever number was on the
  wire (\<^verbatim>\<open>reader.int32() as any\<close>). The locale \<open>json_enum\<close> is the contract that all of
  them satisfy.
\<close>

section \<open>The contract\<close>

locale json_enum =
  fixes val :: "'e \<Rightarrow> int" and fromJ :: "jsval \<Rightarrow> 'e" and toJ :: "jsnum \<Rightarrow> string" and unrec :: 'e
  assumes val_unrec: "val unrec = - 1"
    and toJ_unrec: "toJ (NInt (- 1)) = ''UNRECOGNIZED''"
    and from_number: "fromJ (JNum (NInt (val e))) = e"
    and from_name: "fromJ (JStr (toJ (NInt (val e)))) = e"
    and number_inv: "fromJ (JNum n) = unrec \<or> n = NInt (val (fromJ (JNum n)))"
    and name_inv: "fromJ (JStr s) = unrec \<or> s = toJ (NInt (val (fromJ (JStr s))))"
    and to_inv: "toJ n = ''UNRECOGNIZED'' \<or> n = NInt (val (fromJ (JNum n)))"
    and from_other: "\<lbrakk>\<And>n. v \<noteq> JNum n; \<And>s. v \<noteq> JStr s\<rbrakk> \<Longrightarrow> fromJ v = unrec"
begin

lemma val_inject: "val e = val e' \<longleftrightarrow> e = e'"
  by (metis from_number)

lemma name_inject: "toJ (NInt (val e)) = toJ (NInt (val e')) \<longleftrightarrow> e = e'"
  by (metis from_name)

text \<open>A known value is read from its number and from its name, and from nothing else.\<close>

lemma from_iff: "e \<noteq> unrec \<Longrightarrow> fromJ v = e \<longleftrightarrow> v = JNum (NInt (val e)) \<or> v = JStr (toJ (NInt (val e)))"
  by (cases v) (metis from_number from_name number_inv name_inv from_other jsval.distinct)+

lemma from_unknown: "\<lbrakk>\<And>e. v \<noteq> JNum (NInt (val e)); \<And>e. v \<noteq> JStr (toJ (NInt (val e)))\<rbrakk> \<Longrightarrow> fromJ v = unrec"
  using from_iff by metis

lemma to_unknown: "n \<notin> range (\<lambda>e. NInt (val e)) \<Longrightarrow> toJ n = ''UNRECOGNIZED''"
  using to_inv [of n] by blast

text \<open>Writing a number to JSON and reading it back keeps it exactly when it is declared.\<close>

lemma number_survives_iff: "NInt (val (fromJ (JStr (toJ n)))) = n \<longleftrightarrow> n \<in> range (\<lambda>e. NInt (val e))"
proof
  assume "NInt (val (fromJ (JStr (toJ n)))) = n"
  then have "n = NInt (val (fromJ (JStr (toJ n))))" by simp
  then show "n \<in> range (\<lambda>e. NInt (val e))" by (rule image_eqI) simp
next
  assume "n \<in> range (\<lambda>e. NInt (val e))"
  then show "NInt (val (fromJ (JStr (toJ n)))) = n" by (auto simp: from_name)
qed

lemma unknown_lost: "n \<notin> range (\<lambda>e. NInt (val e)) \<Longrightarrow> val (fromJ (JStr (toJ n))) = - 1"
  by (metis from_name to_unknown toJ_unrec val_unrec)

end

section \<open>Edition\<close>

datatype Edition =
    Edition_EDITION_UNKNOWN
  | Edition_EDITION_LEGACY
  | Edition_EDITION_PROTO2
  | Edition_EDITION_PROTO3
  | Edition_EDITION_2023
  | Edition_EDITION_2024
  | Edition_EDITION_1_TEST_ONLY
  | Edition_EDITION_2_TEST_ONLY
  | Edition_EDITION_99997_TEST_ONLY
  | Edition_EDITION_99998_TEST_ONLY
  | Edition_EDITION_99999_TEST_ONLY
  | Edition_EDITION_MAX
  | Edition_UNRECOGNIZED

primrec Edition_value :: "Edition \<Rightarrow> int" where
  "Edition_value Edition_EDITION_UNKNOWN = 0"
| "Edition_value Edition_EDITION_LEGACY = 900"
| "Edition_value Edition_EDITION_PROTO2 = 998"
| "Edition_value Edition_EDITION_PROTO3 = 999"
| "Edition_value Edition_EDITION_2023 = 1000"
| "Edition_value Edition_EDITION_2024 = 1001"
| "Edition_value Edition_EDITION_1_TEST_ONLY = 1"
| "Edition_value Edition_EDITION_2_TEST_ONLY = 2"
| "Edition_value Edition_EDITION_99997_TEST_ONLY = 99997"
| "Edition_value Edition_EDITION_99998_TEST_ONLY = 99998"
| "Edition_value Edition_EDITION_99999_TEST_ONLY = 99999"
| "Edition_value Edition_EDITION_MAX = 2147483647"
| "Edition_value Edition_UNRECOGNIZED = (- 1)"

definition editionFromJSON :: "jsval \<Rightarrow> Edition" where
  "editionFromJSON object =
     (if object = JNum (NInt 0) \<or> object = JStr ''EDITION_UNKNOWN'' then Edition_EDITION_UNKNOWN
      else if object = JNum (NInt 900) \<or> object = JStr ''EDITION_LEGACY'' then Edition_EDITION_LEGACY
      else if object = JNum (NInt 998) \<or> object = JStr ''EDITION_PROTO2'' then Edition_EDITION_PROTO2
      else if object = JNum (NInt 999) \<or> object = JStr ''EDITION_PROTO3'' then Edition_EDITION_PROTO3
      else if object = JNum (NInt 1000) \<or> object = JStr ''EDITION_2023'' then Edition_EDITION_2023
      else if object = JNum (NInt 1001) \<or> object = JStr ''EDITION_2024'' then Edition_EDITION_2024
      else if object = JNum (NInt 1) \<or> object = JStr ''EDITION_1_TEST_ONLY'' then Edition_EDITION_1_TEST_ONLY
      else if object = JNum (NInt 2) \<or> object = JStr ''EDITION_2_TEST_ONLY'' then Edition_EDITION_2_TEST_ONLY
      else if object = JNum (NInt 99997) \<or> object = JStr ''EDITION_99997_TEST_ONLY'' then Edition_EDITION_99997_TEST_ONLY
      else if object = JNum (NInt 99998) \<or> object = JStr ''EDITION_99998_TEST_ONLY'' then Edition_EDITION_99998_TEST_ONLY
      else if object = JNum (NInt 99999) \<or> object = JStr ''EDITION_99999_TEST_ONLY'' then Edition_EDITION_99999_TEST_ONLY
      else if object = JNum (NInt 2147483647) \<or> object = JStr ''EDITION_MAX'' then Edition_EDITION_MAX
      else Edition_UNRECOGNIZED)"

definition editionToJSON :: "jsnum \<Rightarrow> string" where
  "editionToJSON object =
     (if object = NInt (Edition_value Edition_EDITION_UNKNOWN) then ''EDITION_UNKNOWN''
      else if object = NInt (Edition_value Edition_EDITION_LEGACY) then ''EDITION_LEGACY''
      else if object = NInt (Edition_value Edition_EDITION_PROTO2) then ''EDITION_PROTO2''
      else if object = NInt (Edition_value Edition_EDITION_PROTO3) then ''EDITION_PROTO3''
      else if object = NInt (Edition_value Edition_EDITION_2023) then ''EDITION_2023''
      else if object = NInt (Edition_value Edition_EDITION_2024) then ''EDITION_2024''
      else if object = NInt (Edition_value Edition_EDITION_1_TEST_ONLY) then ''EDITION_1_TEST_ONLY''
      else if object = NInt (Edition_value Edition_EDITION_2_TEST_ONLY) then ''EDITION_2_TEST_ONLY''
      else if object = NInt (Edition_value Edition_EDITION_99997_TEST_ONLY) then ''EDITION_99997_TEST_ONLY''
      else if object = NInt (Edition_value Edition_EDITION_99998_TEST_ONLY) then ''EDITION_99998_TEST_ONLY''
      else if object = NInt (Edition_value Edition_EDITION_99999_TEST_ONLY) then ''EDITION_99999_TEST_ONLY''
      else if object = NInt (Edition_value Edition_EDITION_MAX) then ''EDITION_MAX''
      else ''UNRECOGNIZED'')"

interpretation edition: json_enum Edition_value editionFromJSON editionToJSON Edition_UNRECOGNIZED
proof unfold_locales
  show "editionFromJSON (JNum (NInt (Edition_value e))) = e" for e
    by (cases e) (simp_all add: editionFromJSON_def)
  show "editionFromJSON (JStr (editionToJSON (NInt (Edition_value e)))) = e" for e
    by (cases e) (simp_all add: editionFromJSON_def editionToJSON_def)
qed (auto simp: editionFromJSON_def editionToJSON_def)

section \<open>ExtensionRangeOptions_VerificationState\<close>

datatype ExtensionRangeOptions_VerificationState =
    ExtensionRangeOptions_VerificationState_DECLARATION
  | ExtensionRangeOptions_VerificationState_UNVERIFIED
  | ExtensionRangeOptions_VerificationState_UNRECOGNIZED

primrec ExtensionRangeOptions_VerificationState_value :: "ExtensionRangeOptions_VerificationState \<Rightarrow> int" where
  "ExtensionRangeOptions_VerificationState_value ExtensionRangeOptions_VerificationState_DECLARATION = 0"
| "ExtensionRangeOptions_VerificationState_value ExtensionRangeOptions_VerificationState_UNVERIFIED = 1"
| "ExtensionRangeOptions_VerificationState_value ExtensionRangeOptions_VerificationState_UNRECOGNIZED = (- 1)"

definition extensionRangeOptions_VerificationStateFromJSON :: "jsval \<Rightarrow> ExtensionRangeOptions_VerificationState" where
  "extensionRangeOptions_VerificationStateFromJSON object =
     (if object = JNum (NInt 0) \<or> object = JStr ''DECLARATION'' then ExtensionRangeOptions_VerificationState_DECLARATION
      else if object = JNum (NInt 1) \<or> object = JStr ''UNVERIFIED'' then ExtensionRangeOptions_VerificationState_UNVERIFIED
      else ExtensionRangeOptions_VerificationState_UNRECOGNIZED)"

definition extensionRangeOptions_VerificationStateToJSON :: "jsnum \<Rightarrow> string" where
  "extensionRangeOptions_VerificationStateToJSON object =
     (if object = NInt (ExtensionRangeOptions_VerificationState_value ExtensionRangeOptions_VerificationState_DECLARATION) then ''DECLARATION''
      else if object = NInt (ExtensionRangeOptions_VerificationState_value ExtensionRangeOptions_VerificationState_UNVERIFIED) then ''UNVERIFIED''
      else ''UNRECOGNIZED'')"

interpretation extensionRangeOptions_VerificationState: json_enum ExtensionRangeOptions_VerificationState_value extensionRangeOptions_VerificationStateFromJSON extensionRangeOptions_VerificationStateToJSON ExtensionRangeOptions_VerificationState_UNRECOGNIZED
proof unfold_locales
  show "extensionRangeOptions_VerificationStateFromJSON (JNum (NInt (ExtensionRangeOptions_VerificationState_value e))) = e" for e
    by (cases e) (simp_all add: extensionRangeOptions_VerificationStateFromJSON_def)
  show "extensionRangeOptions_VerificationStateFromJSON (JStr (extensionRangeOptions_VerificationStateToJSON (NInt (ExtensionRangeOptions_VerificationState_value e)))) = e" for e
    by (cases e) (simp_all add: extensionRangeOptions_VerificationStateFromJSON_def extensionRangeOptions_VerificationStateToJSON_def)
qed (auto simp: extensionRangeOptions_VerificationStateFromJSON_def extensionRangeOptions_VerificationStateToJSON_def)

section \<open>FieldDescriptorProto_Type\<close>

datatype FieldDescriptorProto_Type =
    FieldDescriptorProto_Type_TYPE_DOUBLE
  | FieldDescriptorProto_Type_TYPE_FLOAT
  | FieldDescriptorProto_Type_TYPE_INT64
  | FieldDescriptorProto_Type_TYPE_UINT64
  | FieldDescriptorProto_Type_TYPE_INT32
  | FieldDescriptorProto_Type_TYPE_FIXED64
  | FieldDescriptorProto_Type_TYPE_FIXED32
  | FieldDescriptorProto_Type_TYPE_BOOL
  | FieldDescriptorProto_Type_TYPE_STRING
  | FieldDescriptorProto_Type_TYPE_GROUP
  | FieldDescriptorProto_Type_TYPE_MESSAGE
  | FieldDescriptorProto_Type_TYPE_BYTES
  | FieldDescriptorProto_Type_TYPE_UINT32
  | FieldDescriptorProto_Type_TYPE_ENUM
  | FieldDescriptorProto_Type_TYPE_SFIXED32
  | FieldDescriptorProto_Type_TYPE_SFIXED64
  | FieldDescriptorProto_Type_TYPE_SINT32
  | FieldDescriptorProto_Type_TYPE_SINT64
  | FieldDescriptorProto_Type_UNRECOGNIZED

primrec FieldDescriptorProto_Type_value :: "FieldDescriptorProto_Type \<Rightarrow> int" where
  "FieldDescriptorProto_Type_value FieldDescriptorProto_Type_TYPE_DOUBLE = 1"
| "FieldDescriptorProto_Type_value FieldDescriptorProto_Type_TYPE_FLOAT = 2"
| "FieldDescriptorProto_Type_value FieldDescriptorProto_Type_TYPE_INT64 = 3"
| "FieldDescriptorProto_Type_value FieldDescriptorProto_Type_TYPE_UINT64 = 4"
| "FieldDescriptorProto_Type_value FieldDescriptorProto_Type_TYPE_INT32 = 5"
| "FieldDescriptorProto_Type_value FieldDescriptorProto_Type_TYPE_FIXED64 = 6"
| "FieldDescriptorProto_Type_value FieldDescriptorProto_Type_TYPE_FIXED32 = 7"
| "FieldDescriptorProto_Type_value FieldDescriptorProto_Type_TYPE_BOOL = 8"
| "FieldDescriptorProto_Type_value FieldDescriptorProto_Type_TYPE_STRING = 9"
| "FieldDescriptorProto_Type_value FieldDescriptorProto_Type_TYPE_GROUP = 10"
| "FieldDescriptorProto_Type_value FieldDescriptorProto_Type_TYPE_MESSAGE = 11"
| "FieldDescriptorProto_Type_value FieldDescriptorProto_Type_TYPE_BYTES = 12"
| "FieldDescriptorProto_Type_value FieldDescriptorProto_Type_TYPE_UINT32 = 13"
| "FieldDescriptorProto_Type_value FieldDescriptorProto_Type_TYPE_ENUM = 14"
| "FieldDescriptorProto_Type_value FieldDescriptorProto_Type_TYPE_SFIXED32 = 15"
| "FieldDescriptorProto_Type_value FieldDescriptorProto_Type_TYPE_SFIXED64 = 16"
| "FieldDescriptorProto_Type_value FieldDescriptorProto_Type_TYPE_SINT32 = 17"
| "FieldDescriptorProto_Type_value FieldDescriptorProto_Type_TYPE_SINT64 = 18"
| "FieldDescriptorProto_Type_value FieldDescriptorProto_Type_UNRECOGNIZED = (- 1)"

definition fieldDescriptorProto_TypeFromJSON :: "jsval \<Rightarrow> FieldDescriptorProto_Type" where
  "fieldDescriptorProto_TypeFromJSON object =
     (if object = JNum (NInt 1) \<or> object = JStr ''TYPE_DOUBLE'' then FieldDescriptorProto_Type_TYPE_DOUBLE
      else if object = JNum (NInt 2) \<or> object = JStr ''TYPE_FLOAT'' then FieldDescriptorProto_Type_TYPE_FLOAT
      else if object = JNum (NInt 3) \<or> object = JStr ''TYPE_INT64'' then FieldDescriptorProto_Type_TYPE_INT64
      else if object = JNum (NInt 4) \<or> object = JStr ''TYPE_UINT64'' then FieldDescriptorProto_Type_TYPE_UINT64
      else if object = JNum (NInt 5) \<or> object = JStr ''TYPE_INT32'' then FieldDescriptorProto_Type_TYPE_INT32
      else if object = JNum (NInt 6) \<or> object = JStr ''TYPE_FIXED64'' then FieldDescriptorProto_Type_TYPE_FIXED64
      else if object = JNum (NInt 7) \<or> object = JStr ''TYPE_FIXED32'' then FieldDescriptorProto_Type_TYPE_FIXED32
      else if object = JNum (NInt 8) \<or> object = JStr ''TYPE_BOOL'' then FieldDescriptorProto_Type_TYPE_BOOL
      else if object = JNum (NInt 9) \<or> object = JStr ''TYPE_STRING'' then FieldDescriptorProto_Type_TYPE_STRING
      else if object = JNum (NInt 10) \<or> object = JStr ''TYPE_GROUP'' then FieldDescriptorProto_Type_TYPE_GROUP
      else if object = JNum (NInt 11) \<or> object = JStr ''TYPE_MESSAGE'' then FieldDescriptorProto_Type_TYPE_MESSAGE
      else if object = JNum (NInt 12) \<or> object = JStr ''TYPE_BYTES'' then FieldDescriptorProto_Type_TYPE_BYTES
      else if object = JNum (NInt 13) \<or> object = JStr ''TYPE_UINT32'' then FieldDescriptorProto_Type_TYPE_UINT32
      else if object = JNum (NInt 14) \<or> object = JStr ''TYPE_ENUM'' then FieldDescriptorProto_Type_TYPE_ENUM
      else if object = JNum (NInt 15) \<or> object = JStr ''TYPE_SFIXED32'' then FieldDescriptorProto_Type_TYPE_SFIXED32
      else if object = JNum (NInt 16) \<or> object = JStr ''TYPE_SFIXED64'' then FieldDescriptorProto_Type_TYPE_SFIXED64
      else if object = JNum (NInt 17) \<or> object = JStr ''TYPE_SINT32'' then FieldDescriptorProto_Type_TYPE_SINT32
      else if object = JNum (NInt 18) \<or> object = JStr ''TYPE_SINT64'' then FieldDescriptorProto_Type_TYPE_SINT64
      else FieldDescriptorProto_Type_UNRECOGNIZED)"

definition fieldDescriptorProto_TypeToJSON :: "jsnum \<Rightarrow> string" where
  "fieldDescriptorProto_TypeToJSON object =
     (if object = NInt (FieldDescriptorProto_Type_value FieldDescriptorProto_Type_TYPE_DOUBLE) then ''TYPE_DOUBLE''
      else if object = NInt (FieldDescriptorProto_Type_value FieldDescriptorProto_Type_TYPE_FLOAT) then ''TYPE_FLOAT''
      else if object = NInt (FieldDescriptorProto_Type_value FieldDescriptorProto_Type_TYPE_INT64) then ''TYPE_INT64''
      else if object = NInt (FieldDescriptorProto_Type_value FieldDescriptorProto_Type_TYPE_UINT64) then ''TYPE_UINT64''
      else if object = NInt (FieldDescriptorProto_Type_value FieldDescriptorProto_Type_TYPE_INT32) then ''TYPE_INT32''
      else if object = NInt (FieldDescriptorProto_Type_value FieldDescriptorProto_Type_TYPE_FIXED64) then ''TYPE_FIXED64''
      else if object = NInt (FieldDescriptorProto_Type_value FieldDescriptorProto_Type_TYPE_FIXED32) then ''TYPE_FIXED32''
      else if object = NInt (FieldDescriptorProto_Type_value FieldDescriptorProto_Type_TYPE_BOOL) then ''TYPE_BOOL''
      else if object = NInt (FieldDescriptorProto_Type_value FieldDescriptorProto_Type_TYPE_STRING) then ''TYPE_STRING''
      else if object = NInt (FieldDescriptorProto_Type_value FieldDescriptorProto_Type_TYPE_GROUP) then ''TYPE_GROUP''
      else if object = NInt (FieldDescriptorProto_Type_value FieldDescriptorProto_Type_TYPE_MESSAGE) then ''TYPE_MESSAGE''
      else if object = NInt (FieldDescriptorProto_Type_value FieldDescriptorProto_Type_TYPE_BYTES) then ''TYPE_BYTES''
      else if object = NInt (FieldDescriptorProto_Type_value FieldDescriptorProto_Type_TYPE_UINT32) then ''TYPE_UINT32''
      else if object = NInt (FieldDescriptorProto_Type_value FieldDescriptorProto_Type_TYPE_ENUM) then ''TYPE_ENUM''
      else if object = NInt (FieldDescriptorProto_Type_value FieldDescriptorProto_Type_TYPE_SFIXED32) then ''TYPE_SFIXED32''
      else if object = NInt (FieldDescriptorProto_Type_value FieldDescriptorProto_Type_TYPE_SFIXED64) then ''TYPE_SFIXED64''
      else if object = NInt (FieldDescriptorProto_Type_value FieldDescriptorProto_Type_TYPE_SINT32) then ''TYPE_SINT32''
      else if object = NInt (FieldDescriptorProto_Type_value FieldDescriptorProto_Type_TYPE_SINT64) then ''TYPE_SINT64''
      else ''UNRECOGNIZED'')"

interpretation fieldDescriptorProto_Type: json_enum FieldDescriptorProto_Type_value fieldDescriptorProto_TypeFromJSON fieldDescriptorProto_TypeToJSON FieldDescriptorProto_Type_UNRECOGNIZED
proof unfold_locales
  show "fieldDescriptorProto_TypeFromJSON (JNum (NInt (FieldDescriptorProto_Type_value e))) = e" for e
    by (cases e) (simp_all add: fieldDescriptorProto_TypeFromJSON_def)
  show "fieldDescriptorProto_TypeFromJSON (JStr (fieldDescriptorProto_TypeToJSON (NInt (FieldDescriptorProto_Type_value e)))) = e" for e
    by (cases e) (simp_all add: fieldDescriptorProto_TypeFromJSON_def fieldDescriptorProto_TypeToJSON_def)
qed (auto simp: fieldDescriptorProto_TypeFromJSON_def fieldDescriptorProto_TypeToJSON_def)

section \<open>FieldDescriptorProto_Label\<close>

datatype FieldDescriptorProto_Label =
    FieldDescriptorProto_Label_LABEL_OPTIONAL
  | FieldDescriptorProto_Label_LABEL_REPEATED
  | FieldDescriptorProto_Label_LABEL_REQUIRED
  | FieldDescriptorProto_Label_UNRECOGNIZED

primrec FieldDescriptorProto_Label_value :: "FieldDescriptorProto_Label \<Rightarrow> int" where
  "FieldDescriptorProto_Label_value FieldDescriptorProto_Label_LABEL_OPTIONAL = 1"
| "FieldDescriptorProto_Label_value FieldDescriptorProto_Label_LABEL_REPEATED = 3"
| "FieldDescriptorProto_Label_value FieldDescriptorProto_Label_LABEL_REQUIRED = 2"
| "FieldDescriptorProto_Label_value FieldDescriptorProto_Label_UNRECOGNIZED = (- 1)"

definition fieldDescriptorProto_LabelFromJSON :: "jsval \<Rightarrow> FieldDescriptorProto_Label" where
  "fieldDescriptorProto_LabelFromJSON object =
     (if object = JNum (NInt 1) \<or> object = JStr ''LABEL_OPTIONAL'' then FieldDescriptorProto_Label_LABEL_OPTIONAL
      else if object = JNum (NInt 3) \<or> object = JStr ''LABEL_REPEATED'' then FieldDescriptorProto_Label_LABEL_REPEATED
      else if object = JNum (NInt 2) \<or> object = JStr ''LABEL_REQUIRED'' then FieldDescriptorProto_Label_LABEL_REQUIRED
      else FieldDescriptorProto_Label_UNRECOGNIZED)"

definition fieldDescriptorProto_LabelToJSON :: "jsnum \<Rightarrow> string" where
  "fieldDescriptorProto_LabelToJSON object =
     (if object = NInt (FieldDescriptorProto_Label_value FieldDescriptorProto_Label_LABEL_OPTIONAL) then ''LABEL_OPTIONAL''
      else if object = NInt (FieldDescriptorProto_Label_value FieldDescriptorProto_Label_LABEL_REPEATED) then ''LABEL_REPEATED''
      else if object = NInt (FieldDescriptorProto_Label_value FieldDescriptorProto_Label_LABEL_REQUIRED) then ''LABEL_REQUIRED''
      else ''UNRECOGNIZED'')"

interpretation fieldDescriptorProto_Label: json_enum FieldDescriptorProto_Label_value fieldDescriptorProto_LabelFromJSON fieldDescriptorProto_LabelToJSON FieldDescriptorProto_Label_UNRECOGNIZED
proof unfold_locales
  show "fieldDescriptorProto_LabelFromJSON (JNum (NInt (FieldDescriptorProto_Label_value e))) = e" for e
    by (cases e) (simp_all add: fieldDescriptorProto_LabelFromJSON_def)
  show "fieldDescriptorProto_LabelFromJSON (JStr (fieldDescriptorProto_LabelToJSON (NInt (FieldDescriptorProto_Label_value e)))) = e" for e
    by (cases e) (simp_all add: fieldDescriptorProto_LabelFromJSON_def fieldDescriptorProto_LabelToJSON_def)
qed (auto simp: fieldDescriptorProto_LabelFromJSON_def fieldDescriptorProto_LabelToJSON_def)

section \<open>FileOptions_OptimizeMode\<close>

datatype FileOptions_OptimizeMode =
    FileOptions_OptimizeMode_SPEED
  | FileOptions_OptimizeMode_CODE_SIZE
  | FileOptions_OptimizeMode_LITE_RUNTIME
  | FileOptions_OptimizeMode_UNRECOGNIZED

primrec FileOptions_OptimizeMode_value :: "FileOptions_OptimizeMode \<Rightarrow> int" where
  "FileOptions_OptimizeMode_value FileOptions_OptimizeMode_SPEED = 1"
| "FileOptions_OptimizeMode_value FileOptions_OptimizeMode_CODE_SIZE = 2"
| "FileOptions_OptimizeMode_value FileOptions_OptimizeMode_LITE_RUNTIME = 3"
| "FileOptions_OptimizeMode_value FileOptions_OptimizeMode_UNRECOGNIZED = (- 1)"

definition fileOptions_OptimizeModeFromJSON :: "jsval \<Rightarrow> FileOptions_OptimizeMode" where
  "fileOptions_OptimizeModeFromJSON object =
     (if object = JNum (NInt 1) \<or> object = JStr ''SPEED'' then FileOptions_OptimizeMode_SPEED
      else if object = JNum (NInt 2) \<or> object = JStr ''CODE_SIZE'' then FileOptions_OptimizeMode_CODE_SIZE
      else if object = JNum (NInt 3) \<or> object = JStr ''LITE_RUNTIME'' then FileOptions_OptimizeMode_LITE_RUNTIME
      else FileOptions_OptimizeMode_UNRECOGNIZED)"

definition fileOptions_OptimizeModeToJSON :: "jsnum \<Rightarrow> string" where
  "fileOptions_OptimizeModeToJSON object =
     (if object = NInt (FileOptions_OptimizeMode_value FileOptions_OptimizeMode_SPEED) then ''SPEED''
      else if object = NInt (FileOptions_OptimizeMode_value FileOptions_OptimizeMode_CODE_SIZE) then ''CODE_SIZE''
      else if object = NInt (FileOptions_OptimizeMode_value FileOptions_OptimizeMode_LITE_RUNTIME) then ''LITE_RUNTIME''
      else ''UNRECOGNIZED'')"

interpretation fileOptions_OptimizeMode: json_enum FileOptions_OptimizeMode_value fileOptions_OptimizeModeFromJSON fileOptions_OptimizeModeToJSON FileOptions_OptimizeMode_UNRECOGNIZED
proof unfold_locales
  show "fileOptions_OptimizeModeFromJSON (JNum (NInt (FileOptions_OptimizeMode_value e))) = e" for e
    by (cases e) (simp_all add: fileOptions_OptimizeModeFromJSON_def)
  show "fileOptions_OptimizeModeFromJSON (JStr (fileOptions_OptimizeModeToJSON (NInt (FileOptions_OptimizeMode_value e)))) = e" for e
    by (cases e) (simp_all add: fileOptions_OptimizeModeFromJSON_def fileOptions_OptimizeModeToJSON_def)
qed (auto simp: fileOptions_OptimizeModeFromJSON_def fileOptions_OptimizeModeToJSON_def)

section \<open>FieldOptions_CType\<close>

datatype FieldOptions_CType =
    FieldOptions_CType_STRING
  | FieldOptions_CType_CORD
  | FieldOptions_CType_STRING_PIECE
  | FieldOptions_CType_UNRECOGNIZED

primrec FieldOptions_CType_value :: "FieldOptions_CType \<Rightarrow> int" where
  "FieldOptions_CType_value FieldOptions_CType_STRING = 0"
| "FieldOptions_CType_value FieldOptions_CType_CORD = 1"
| "FieldOptions_CType_value FieldOptions_CType_STRING_PIECE = 2"
| "FieldOptions_CType_value FieldOptions_CType_UNRECOGNIZED = (- 1)"

definition fieldOptions_CTypeFromJSON :: "jsval \<Rightarrow> FieldOptions_CType" where
  "fieldOptions_CTypeFromJSON object =
     (if object = JNum (NInt 0) \<or> object = JStr ''STRING'' then FieldOptions_CType_STRING
      else if object = JNum (NInt 1) \<or> object = JStr ''CORD'' then FieldOptions_CType_CORD
      else if object = JNum (NInt 2) \<or> object = JStr ''STRING_PIECE'' then FieldOptions_CType_STRING_PIECE
      else FieldOptions_CType_UNRECOGNIZED)"

definition fieldOptions_CTypeToJSON :: "jsnum \<Rightarrow> string" where
  "fieldOptions_CTypeToJSON object =
     (if object = NInt (FieldOptions_CType_value FieldOptions_CType_STRING) then ''STRING''
      else if object = NInt (FieldOptions_CType_value FieldOptions_CType_CORD) then ''CORD''
      else if object = NInt (FieldOptions_CType_value FieldOptions_CType_STRING_PIECE) then ''STRING_PIECE''
      else ''UNRECOGNIZED'')"

interpretation fieldOptions_CType: json_enum FieldOptions_CType_value fieldOptions_CTypeFromJSON fieldOptions_CTypeToJSON FieldOptions_CType_UNRECOGNIZED
proof unfold_locales
  show "fieldOptions_CTypeFromJSON (JNum (NInt (FieldOptions_CType_value e))) = e" for e
    by (cases e) (simp_all add: fieldOptions_CTypeFromJSON_def)
  show "fieldOptions_CTypeFromJSON (JStr (fieldOptions_CTypeToJSON (NInt (FieldOptions_CType_value e)))) = e" for e
    by (cases e) (simp_all add: fieldOptions_CTypeFromJSON_def fieldOptions_CTypeToJSON_def)
qed (auto simp: fieldOptions_CTypeFromJSON_def fieldOptions_CTypeToJSON_def)

section \<open>FieldOptions_JSType\<close>

datatype FieldOptions_JSType =
    FieldOptions_JSType_JS_NORMAL
  | FieldOptions_JSType_JS_STRING
  | FieldOptions_JSType_JS_NUMBER
  | FieldOptions_JSType_UNRECOGNIZED

primrec FieldOptions_JSType_value :: "FieldOptions_JSType \<Rightarrow> int" where
  "FieldOptions_JSType_value FieldOptions_JSType_JS_NORMAL = 0"
| "FieldOptions_JSType_value FieldOptions_JSType_JS_STRING = 1"
| "FieldOptions_JSType_value FieldOptions_JSType_JS_NUMBER = 2"
| "FieldOptions_JSType_value FieldOptions_JSType_UNRECOGNIZED = (- 1)"

definition fieldOptions_JSTypeFromJSON :: "jsval \<Rightarrow> FieldOptions_JSType" where
  "fieldOptions_JSTypeFromJSON object =
     (if object = JNum (NInt 0) \<or> object = JStr ''JS_NORMAL'' then FieldOptions_JSType_JS_NORMAL
      else if object = JNum (NInt 1) \<or> object = JStr ''JS_STRING'' then FieldOptions_JSType_JS_STRING
      else if object = JNum (NInt 2) \<or> object = JStr ''JS_NUMBER'' then FieldOptions_JSType_JS_NUMBER
      else FieldOptions_JSType_UNRECOGNIZED)"

definition fieldOptions_JSTypeToJSON :: "jsnum \<Rightarrow> string" where
  "fieldOptions_JSTypeToJSON object =
     (if object = NInt (FieldOptions_JSType_value FieldOptions_JSType_JS_NORMAL) then ''JS_NORMAL''
      else if object = NInt (FieldOptions_JSType_value FieldOptions_JSType_JS_STRING) then ''JS_STRING''
      else if object = NInt (FieldOptions_JSType_value FieldOptions_JSType_JS_NUMBER) then ''JS_NUMBER''
      else ''UNRECOGNIZED'')"

interpretation fieldOptions_JSType: json_enum FieldOptions_JSType_value fieldOptions_JSTypeFromJSON fieldOptions_JSTypeToJSON FieldOptions_JSType_UNRECOGNIZED
proof unfold_locales
  show "fieldOptions_JSTypeFromJSON (JNum (NInt (FieldOptions_JSType_value e))) = e" for e
    by (cases e) (simp_all add: fieldOptions_JSTypeFromJSON_def)
  show "fieldOptions_JSTypeFromJSON (JStr (fieldOptions_JSTypeToJSON (NInt (FieldOptions_JSType_value e)))) = e" for e
    by (cases e) (simp_all add: fieldOptions_JSTypeFromJSON_def fieldOptions_JSTypeToJSON_def)
qed (auto simp: fieldOptions_JSTypeFromJSON_def fieldOptions_JSTypeToJSON_def)

section \<open>FieldOptions_OptionRetention\<close>

datatype FieldOptions_OptionRetention =
    FieldOptions_OptionRetention_RETENTION_UNKNOWN
  | FieldOptions_OptionRetention_RETENTION_RUNTIME
  | FieldOptions_OptionRetention_RETENTION_SOURCE
  | FieldOptions_OptionRetention_UNRECOGNIZED

primrec FieldOptions_OptionRetention_value :: "FieldOptions_OptionRetention \<Rightarrow> int" where
  "FieldOptions_OptionRetention_value FieldOptions_OptionRetention_RETENTION_UNKNOWN = 0"
| "FieldOptions_OptionRetention_value FieldOptions_OptionRetention_RETENTION_RUNTIME = 1"
| "FieldOptions_OptionRetention_value FieldOptions_OptionRetention_RETENTION_SOURCE = 2"
| "FieldOptions_OptionRetention_value FieldOptions_OptionRetention_UNRECOGNIZED = (- 1)"

definition fieldOptions_OptionRetentionFromJSON :: "jsval \<Rightarrow> FieldOptions_OptionRetention" where
  "fieldOptions_OptionRetentionFromJSON object =
     (if object = JNum (NInt 0) \<or> object = JStr ''RETENTION_UNKNOWN'' then FieldOptions_OptionRetention_RETENTION_UNKNOWN
      else if object = JNum (NInt 1) \<or> object = JStr ''RETENTION_RUNTIME'' then FieldOptions_OptionRetention_RETENTION_RUNTIME
      else if object = JNum (NInt 2) \<or> object = JStr ''RETENTION_SOURCE'' then FieldOptions_OptionRetention_RETENTION_SOURCE
      else FieldOptions_OptionRetention_UNRECOGNIZED)"

definition fieldOptions_OptionRetentionToJSON :: "jsnum \<Rightarrow> string" where
  "fieldOptions_OptionRetentionToJSON object =
     (if object = NInt (FieldOptions_OptionRetention_value FieldOptions_OptionRetention_RETENTION_UNKNOWN) then ''RETENTION_UNKNOWN''
      else if object = NInt (FieldOptions_OptionRetention_value FieldOptions_OptionRetention_RETENTION_RUNTIME) then ''RETENTION_RUNTIME''
      else if object = NInt (FieldOptions_OptionRetention_value FieldOptions_OptionRetention_RETENTION_SOURCE) then ''RETENTION_SOURCE''
      else ''UNRECOGNIZED'')"

interpretation fieldOptions_OptionRetention: json_enum FieldOptions_OptionRetention_value fieldOptions_OptionRetentionFromJSON fieldOptions_OptionRetentionToJSON FieldOptions_OptionRetention_UNRECOGNIZED
proof unfold_locales
  show "fieldOptions_OptionRetentionFromJSON (JNum (NInt (FieldOptions_OptionRetention_value e))) = e" for e
    by (cases e) (simp_all add: fieldOptions_OptionRetentionFromJSON_def)
  show "fieldOptions_OptionRetentionFromJSON (JStr (fieldOptions_OptionRetentionToJSON (NInt (FieldOptions_OptionRetention_value e)))) = e" for e
    by (cases e) (simp_all add: fieldOptions_OptionRetentionFromJSON_def fieldOptions_OptionRetentionToJSON_def)
qed (auto simp: fieldOptions_OptionRetentionFromJSON_def fieldOptions_OptionRetentionToJSON_def)

section \<open>FieldOptions_OptionTargetType\<close>

datatype FieldOptions_OptionTargetType =
    FieldOptions_OptionTargetType_TARGET_TYPE_UNKNOWN
  | FieldOptions_OptionTargetType_TARGET_TYPE_FILE
  | FieldOptions_OptionTargetType_TARGET_TYPE_EXTENSION_RANGE
  | FieldOptions_OptionTargetType_TARGET_TYPE_MESSAGE
  | FieldOptions_OptionTargetType_TARGET_TYPE_FIELD
  | FieldOptions_OptionTargetType_TARGET_TYPE_ONEOF
  | FieldOptions_OptionTargetType_TARGET_TYPE_ENUM
  | FieldOptions_OptionTargetType_TARGET_TYPE_ENUM_ENTRY
  | FieldOptions_OptionTargetType_TARGET_TYPE_SERVICE
  | FieldOptions_OptionTargetType_TARGET_TYPE_METHOD
  | FieldOptions_OptionTargetType_UNRECOGNIZED

primrec FieldOptions_OptionTargetType_value :: "FieldOptions_OptionTargetType \<Rightarrow> int" where
  "FieldOptions_OptionTargetType_value FieldOptions_OptionTargetType_TARGET_TYPE_UNKNOWN = 0"
| "FieldOptions_OptionTargetType_value FieldOptions_OptionTargetType_TARGET_TYPE_FILE = 1"
| "FieldOptions_OptionTargetType_value FieldOptions_OptionTargetType_TARGET_TYPE_EXTENSION_RANGE = 2"
| "FieldOptions_OptionTargetType_value FieldOptions_OptionTargetType_TARGET_TYPE_MESSAGE = 3"
| "FieldOptions_OptionTargetType_value FieldOptions_OptionTargetType_TARGET_TYPE_FIELD = 4"
| "FieldOptions_OptionTargetType_value FieldOptions_OptionTargetType_TARGET_TYPE_ONEOF = 5"
| "FieldOptions_OptionTargetType_value FieldOptions_OptionTargetType_TARGET_TYPE_ENUM = 6"
| "FieldOptions_OptionTargetType_value FieldOptions_OptionTargetType_TARGET_TYPE_ENUM_ENTRY = 7"
| "FieldOptions_OptionTargetType_value FieldOptions_OptionTargetType_TARGET_TYPE_SERVICE = 8"
| "FieldOptions_OptionTargetType_value FieldOptions_OptionTargetType_TARGET_TYPE_METHOD = 9"
| "FieldOptions_OptionTargetType_value FieldOptions_OptionTargetType_UNRECOGNIZED = (- 1)"

definition fieldOptions_OptionTargetTypeFromJSON :: "jsval \<Rightarrow> FieldOptions_OptionTargetType" where
  "fieldOptions_OptionTargetTypeFromJSON object =
     (if object = JNum (NInt 0) \<or> object = JStr ''TARGET_TYPE_UNKNOWN'' then FieldOptions_OptionTargetType_TARGET_TYPE_UNKNOWN
      else if object = JNum (NInt 1) \<or> object = JStr ''TARGET_TYPE_FILE'' then FieldOptions_OptionTargetType_TARGET_TYPE_FILE
      else if object = JNum (NInt 2) \<or> object = JStr ''TARGET_TYPE_EXTENSION_RANGE'' then FieldOptions_OptionTargetType_TARGET_TYPE_EXTENSION_RANGE
      else if object = JNum (NInt 3) \<or> object = JStr ''TARGET_TYPE_MESSAGE'' then FieldOptions_OptionTargetType_TARGET_TYPE_MESSAGE
      else if object = JNum (NInt 4) \<or> object = JStr ''TARGET_TYPE_FIELD'' then FieldOptions_OptionTargetType_TARGET_TYPE_FIELD
      else if object = JNum (NInt 5) \<or> object = JStr ''TARGET_TYPE_ONEOF'' then FieldOptions_OptionTargetType_TARGET_TYPE_ONEOF
      else if object = JNum (NInt 6) \<or> object = JStr ''TARGET_TYPE_ENUM'' then FieldOptions_OptionTargetType_TARGET_TYPE_ENUM
      else if object = JNum (NInt 7) \<or> object = JStr ''TARGET_TYPE_ENUM_ENTRY'' then FieldOptions_OptionTargetType_TARGET_TYPE_ENUM_ENTRY
      else if object = JNum (NInt 8) \<or> object = JStr ''TARGET_TYPE_SERVICE'' then FieldOptions_OptionTargetType_TARGET_TYPE_SERVICE
      else if object = JNum (NInt 9) \<or> object = JStr ''TARGET_TYPE_METHOD'' then FieldOptions_OptionTargetType_TARGET_TYPE_METHOD
      else FieldOptions_OptionTargetType_UNRECOGNIZED)"

definition fieldOptions_OptionTargetTypeToJSON :: "jsnum \<Rightarrow> string" where
  "fieldOptions_OptionTargetTypeToJSON object =
     (if object = NInt (FieldOptions_OptionTargetType_value FieldOptions_OptionTargetType_TARGET_TYPE_UNKNOWN) then ''TARGET_TYPE_UNKNOWN''
      else if object = NInt (FieldOptions_OptionTargetType_value FieldOptions_OptionTargetType_TARGET_TYPE_FILE) then ''TARGET_TYPE_FILE''
      else if object = NInt (FieldOptions_OptionTargetType_value FieldOptions_OptionTargetType_TARGET_TYPE_EXTENSION_RANGE) then ''TARGET_TYPE_EXTENSION_RANGE''
      else if object = NInt (FieldOptions_OptionTargetType_value FieldOptions_OptionTargetType_TARGET_TYPE_MESSAGE) then ''TARGET_TYPE_MESSAGE''
      else if object = NInt (FieldOptions_OptionTargetType_value FieldOptions_OptionTargetType_TARGET_TYPE_FIELD) then ''TARGET_TYPE_FIELD''
      else if object = NInt (FieldOptions_OptionTargetType_value FieldOptions_OptionTargetType_TARGET_TYPE_ONEOF) then ''TARGET_TYPE_ONEOF''
      else if object = NInt (FieldOptions_OptionTargetType_value FieldOptions_OptionTargetType_TARGET_TYPE_ENUM) then ''TARGET_TYPE_ENUM''
      else if object = NInt (FieldOptions_OptionTargetType_value FieldOptions_OptionTargetType_TARGET_TYPE_ENUM_ENTRY) then ''TARGET_TYPE_ENUM_ENTRY''
      else if object = NInt (FieldOptions_OptionTargetType_value FieldOptions_OptionTargetType_TARGET_TYPE_SERVICE) then ''TARGET_TYPE_SERVICE''
      else if object = NInt (FieldOptions_OptionTargetType_value FieldOptions_OptionTargetType_TARGET_TYPE_METHOD) then ''TARGET_TYPE_METHOD''
      else ''UNRECOGNIZED'')"

interpretation fieldOptions_OptionTargetType: json_enum FieldOptions_OptionTargetType_value fieldOptions_OptionTargetTypeFromJSON fieldOptions_OptionTargetTypeToJSON FieldOptions_OptionTargetType_UNRECOGNIZED
proof unfold_locales
  show "fieldOptions_OptionTargetTypeFromJSON (JNum (NInt (FieldOptions_OptionTargetType_value e))) = e" for e
    by (cases e) (simp_all add: fieldOptions_OptionTargetTypeFromJSON_def)
  show "fieldOptions_OptionTargetTypeFromJSON (JStr (fieldOptions_OptionTargetTypeToJSON (NInt (FieldOptions_OptionTargetType_value e)))) = e" for e
    by (cases e) (simp_all add: fieldOptions_OptionTargetTypeFromJSON_def fieldOptions_OptionTargetTypeToJSON_def)
qed (auto simp: fieldOptions_OptionTargetTypeFromJSON_def fieldOptions_OptionTargetTypeToJSON_def)

section \<open>MethodOptions_IdempotencyLevel\<close>

datatype MethodOptions_IdempotencyLevel =
    MethodOptions_IdempotencyLevel_IDEMPOTENCY_UNKNOWN
  | MethodOptions_IdempotencyLevel_NO_SIDE_EFFECTS
  | MethodOptions_IdempotencyLevel_IDEMPOTENT
  | MethodOptions_IdempotencyLevel_UNRECOGNIZED

primrec MethodOptions_IdempotencyLevel_value :: "MethodOptions_IdempotencyLevel \<Rightarrow> int" where
  "MethodOptions_IdempotencyLevel_value MethodOptions_IdempotencyLevel_IDEMPOTENCY_UNKNOWN = 0"
| "MethodOptions_IdempotencyLevel_value MethodOptions_IdempotencyLevel_NO_SIDE_EFFECTS = 1"
| "MethodOptions_IdempotencyLevel_value MethodOptions_IdempotencyLevel_IDEMPOTENT = 2"
| "MethodOptions_IdempotencyLevel_value MethodOptions_IdempotencyLevel_UNRECOGNIZED = (- 1)"

definition methodOptions_IdempotencyLevelFromJSON :: "jsval \<Rightarrow> MethodOptions_IdempotencyLevel" where
  "methodOptions_IdempotencyLevelFromJSON object =
     (if object = JNum (NInt 0) \<or> object = JStr ''IDEMPOTENCY_UNKNOWN'' then MethodOptions_IdempotencyLevel_IDEMPOTENCY_UNKNOWN
      else if object = JNum (NInt 1) \<or> object = JStr ''NO_SIDE_EFFECTS'' then MethodOptions_IdempotencyLevel_NO_SIDE_EFFECTS
      else if object = JNum (NInt 2) \<or> object = JStr ''IDEMPOTENT'' then MethodOptions_IdempotencyLevel_IDEMPOTENT
      else MethodOptions_IdempotencyLevel_UNRECOGNIZED)"

definition methodOptions_IdempotencyLevelToJSON :: "jsnum \<Rightarrow> string" where
  "methodOptions_IdempotencyLevelToJSON object =
     (if object = NInt (MethodOptions_IdempotencyLevel_value MethodOptions_IdempotencyLevel_IDEMPOTENCY_UNKNOWN) then ''IDEMPOTENCY_UNKNOWN''
      else if object = NInt (MethodOptions_IdempotencyLevel_value MethodOptions_IdempotencyLevel_NO_SIDE_EFFECTS) then ''NO_SIDE_EFFECTS''
      else if object = NInt (MethodOptions_IdempotencyLevel_value MethodOptions_IdempotencyLevel_IDEMPOTENT) then ''IDEMPOTENT''
      else ''UNRECOGNIZED'')"

interpretation methodOptions_IdempotencyLevel: json_enum MethodOptions_IdempotencyLevel_value methodOptions_IdempotencyLevelFromJSON methodOptions_IdempotencyLevelToJSON MethodOptions_IdempotencyLevel_UNRECOGNIZED
proof unfold_locales
  show "methodOptions_IdempotencyLevelFromJSON (JNum (NInt (MethodOptions_IdempotencyLevel_value e))) = e" for e
    by (cases e) (simp_all add: methodOptions_IdempotencyLevelFromJSON_def)
  show "methodOptions_IdempotencyLevelFromJSON (JStr (methodOptions_IdempotencyLevelToJSON (NInt (MethodOptions_IdempotencyLevel_value e)))) = e" for e
    by (cases e) (simp_all add: methodOptions_IdempotencyLevelFromJSON_def methodOptions_IdempotencyLevelToJSON_def)
qed (auto simp: methodOptions_IdempotencyLevelFromJSON_def methodOptions_IdempotencyLevelToJSON_def)

section \<open>FeatureSet_FieldPresence\<close>

datatype FeatureSet_FieldPresence =
    FeatureSet_FieldPresence_FIELD_PRESENCE_UNKNOWN
  | FeatureSet_FieldPresence_EXPLICIT
  | FeatureSet_FieldPresence_IMPLICIT
  | FeatureSet_FieldPresence_LEGACY_REQUIRED
  | FeatureSet_FieldPresence_UNRECOGNIZED

primrec FeatureSet_FieldPresence_value :: "FeatureSet_FieldPresence \<Rightarrow> int" where
  "FeatureSet_FieldPresence_value FeatureSet_FieldPresence_FIELD_PRESENCE_UNKNOWN = 0"
| "FeatureSet_FieldPresence_value FeatureSet_FieldPresence_EXPLICIT = 1"
| "FeatureSet_FieldPresence_value FeatureSet_FieldPresence_IMPLICIT = 2"
| "FeatureSet_FieldPresence_value FeatureSet_FieldPresence_LEGACY_REQUIRED = 3"
| "FeatureSet_FieldPresence_value FeatureSet_FieldPresence_UNRECOGNIZED = (- 1)"

definition featureSet_FieldPresenceFromJSON :: "jsval \<Rightarrow> FeatureSet_FieldPresence" where
  "featureSet_FieldPresenceFromJSON object =
     (if object = JNum (NInt 0) \<or> object = JStr ''FIELD_PRESENCE_UNKNOWN'' then FeatureSet_FieldPresence_FIELD_PRESENCE_UNKNOWN
      else if object = JNum (NInt 1) \<or> object = JStr ''EXPLICIT'' then FeatureSet_FieldPresence_EXPLICIT
      else if object = JNum (NInt 2) \<or> object = JStr ''IMPLICIT'' then FeatureSet_FieldPresence_IMPLICIT
      else if object = JNum (NInt 3) \<or> object = JStr ''LEGACY_REQUIRED'' then FeatureSet_FieldPresence_LEGACY_REQUIRED
      else FeatureSet_FieldPresence_UNRECOGNIZED)"

definition featureSet_FieldPresenceToJSON :: "jsnum \<Rightarrow> string" where
  "featureSet_FieldPresenceToJSON object =
     (if object = NInt (FeatureSet_FieldPresence_value FeatureSet_FieldPresence_FIELD_PRESENCE_UNKNOWN) then ''FIELD_PRESENCE_UNKNOWN''
      else if object = NInt (FeatureSet_FieldPresence_value FeatureSet_FieldPresence_EXPLICIT) then ''EXPLICIT''
      else if object = NInt (FeatureSet_FieldPresence_value FeatureSet_FieldPresence_IMPLICIT) then ''IMPLICIT''
      else if object = NInt (FeatureSet_FieldPresence_value FeatureSet_FieldPresence_LEGACY_REQUIRED) then ''LEGACY_REQUIRED''
      else ''UNRECOGNIZED'')"

interpretation featureSet_FieldPresence: json_enum FeatureSet_FieldPresence_value featureSet_FieldPresenceFromJSON featureSet_FieldPresenceToJSON FeatureSet_FieldPresence_UNRECOGNIZED
proof unfold_locales
  show "featureSet_FieldPresenceFromJSON (JNum (NInt (FeatureSet_FieldPresence_value e))) = e" for e
    by (cases e) (simp_all add: featureSet_FieldPresenceFromJSON_def)
  show "featureSet_FieldPresenceFromJSON (JStr (featureSet_FieldPresenceToJSON (NInt (FeatureSet_FieldPresence_value e)))) = e" for e
    by (cases e) (simp_all add: featureSet_FieldPresenceFromJSON_def featureSet_FieldPresenceToJSON_def)
qed (auto simp: featureSet_FieldPresenceFromJSON_def featureSet_FieldPresenceToJSON_def)

section \<open>FeatureSet_EnumType\<close>

datatype FeatureSet_EnumType =
    FeatureSet_EnumType_ENUM_TYPE_UNKNOWN
  | FeatureSet_EnumType_OPEN
  | FeatureSet_EnumType_CLOSED
  | FeatureSet_EnumType_UNRECOGNIZED

primrec FeatureSet_EnumType_value :: "FeatureSet_EnumType \<Rightarrow> int" where
  "FeatureSet_EnumType_value FeatureSet_EnumType_ENUM_TYPE_UNKNOWN = 0"
| "FeatureSet_EnumType_value FeatureSet_EnumType_OPEN = 1"
| "FeatureSet_EnumType_value FeatureSet_EnumType_CLOSED = 2"
| "FeatureSet_EnumType_value FeatureSet_EnumType_UNRECOGNIZED = (- 1)"

definition featureSet_EnumTypeFromJSON :: "jsval \<Rightarrow> FeatureSet_EnumType" where
  "featureSet_EnumTypeFromJSON object =
     (if object = JNum (NInt 0) \<or> object = JStr ''ENUM_TYPE_UNKNOWN'' then FeatureSet_EnumType_ENUM_TYPE_UNKNOWN
      else if object = JNum (NInt 1) \<or> object = JStr ''OPEN'' then FeatureSet_EnumType_OPEN
      else if object = JNum (NInt 2) \<or> object = JStr ''CLOSED'' then FeatureSet_EnumType_CLOSED
      else FeatureSet_EnumType_UNRECOGNIZED)"

definition featureSet_EnumTypeToJSON :: "jsnum \<Rightarrow> string" where
  "featureSet_EnumTypeToJSON object =
     (if object = NInt (FeatureSet_EnumType_value FeatureSet_EnumType_ENUM_TYPE_UNKNOWN) then ''ENUM_TYPE_UNKNOWN''
      else if object = NInt (FeatureSet_EnumType_value FeatureSet_EnumType_OPEN) then ''OPEN''
      else if object = NInt (FeatureSet_EnumType_value FeatureSet_EnumType_CLOSED) then ''CLOSED''
      else ''UNRECOGNIZED'')"

interpretation featureSet_EnumType: json_enum FeatureSet_EnumType_value featureSet_EnumTypeFromJSON featureSet_EnumTypeToJSON FeatureSet_EnumType_UNRECOGNIZED
proof unfold_locales
  show "featureSet_EnumTypeFromJSON (JNum (NInt (FeatureSet_EnumType_value e))) = e" for e
    by (cases e) (simp_all add: featureSet_EnumTypeFromJSON_def)
  show "featureSet_EnumTypeFromJSON (JStr (featureSet_EnumTypeToJSON (NInt (FeatureSet_EnumType_value e)))) = e" for e
    by (cases e) (simp_all add: featureSet_EnumTypeFromJSON_def featureSet_EnumTypeToJSON_def)
qed (auto simp: featureSet_EnumTypeFromJSON_def featureSet_EnumTypeToJSON_def)

section \<open>FeatureSet_RepeatedFieldEncoding\<close>

datatype FeatureSet_RepeatedFieldEncoding =
    FeatureSet_RepeatedFieldEncoding_REPEATED_FIELD_ENCODING_UNKNOWN
  | FeatureSet_RepeatedFieldEncoding_PACKED
  | FeatureSet_RepeatedFieldEncoding_EXPANDED
  | FeatureSet_RepeatedFieldEncoding_UNRECOGNIZED

primrec FeatureSet_RepeatedFieldEncoding_value :: "FeatureSet_RepeatedFieldEncoding \<Rightarrow> int" where
  "FeatureSet_RepeatedFieldEncoding_value FeatureSet_RepeatedFieldEncoding_REPEATED_FIELD_ENCODING_UNKNOWN = 0"
| "FeatureSet_RepeatedFieldEncoding_value FeatureSet_RepeatedFieldEncoding_PACKED = 1"
| "FeatureSet_RepeatedFieldEncoding_value FeatureSet_RepeatedFieldEncoding_EXPANDED = 2"
| "FeatureSet_RepeatedFieldEncoding_value FeatureSet_RepeatedFieldEncoding_UNRECOGNIZED = (- 1)"

definition featureSet_RepeatedFieldEncodingFromJSON :: "jsval \<Rightarrow> FeatureSet_RepeatedFieldEncoding" where
  "featureSet_RepeatedFieldEncodingFromJSON object =
     (if object = JNum (NInt 0) \<or> object = JStr ''REPEATED_FIELD_ENCODING_UNKNOWN'' then FeatureSet_RepeatedFieldEncoding_REPEATED_FIELD_ENCODING_UNKNOWN
      else if object = JNum (NInt 1) \<or> object = JStr ''PACKED'' then FeatureSet_RepeatedFieldEncoding_PACKED
      else if object = JNum (NInt 2) \<or> object = JStr ''EXPANDED'' then FeatureSet_RepeatedFieldEncoding_EXPANDED
      else FeatureSet_RepeatedFieldEncoding_UNRECOGNIZED)"

definition featureSet_RepeatedFieldEncodingToJSON :: "jsnum \<Rightarrow> string" where
  "featureSet_RepeatedFieldEncodingToJSON object =
     (if object = NInt (FeatureSet_RepeatedFieldEncoding_value FeatureSet_RepeatedFieldEncoding_REPEATED_FIELD_ENCODING_UNKNOWN) then ''REPEATED_FIELD_ENCODING_UNKNOWN''
      else if object = NInt (FeatureSet_RepeatedFieldEncoding_value FeatureSet_RepeatedFieldEncoding_PACKED) then ''PACKED''
      else if object = NInt (FeatureSet_RepeatedFieldEncoding_value FeatureSet_RepeatedFieldEncoding_EXPANDED) then ''EXPANDED''
      else ''UNRECOGNIZED'')"

interpretation featureSet_RepeatedFieldEncoding: json_enum FeatureSet_RepeatedFieldEncoding_value featureSet_RepeatedFieldEncodingFromJSON featureSet_RepeatedFieldEncodingToJSON FeatureSet_RepeatedFieldEncoding_UNRECOGNIZED
proof unfold_locales
  show "featureSet_RepeatedFieldEncodingFromJSON (JNum (NInt (FeatureSet_RepeatedFieldEncoding_value e))) = e" for e
    by (cases e) (simp_all add: featureSet_RepeatedFieldEncodingFromJSON_def)
  show "featureSet_RepeatedFieldEncodingFromJSON (JStr (featureSet_RepeatedFieldEncodingToJSON (NInt (FeatureSet_RepeatedFieldEncoding_value e)))) = e" for e
    by (cases e) (simp_all add: featureSet_RepeatedFieldEncodingFromJSON_def featureSet_RepeatedFieldEncodingToJSON_def)
qed (auto simp: featureSet_RepeatedFieldEncodingFromJSON_def featureSet_RepeatedFieldEncodingToJSON_def)

section \<open>FeatureSet_Utf8Validation\<close>

datatype FeatureSet_Utf8Validation =
    FeatureSet_Utf8Validation_UTF8_VALIDATION_UNKNOWN
  | FeatureSet_Utf8Validation_VERIFY
  | FeatureSet_Utf8Validation_NONE
  | FeatureSet_Utf8Validation_UNRECOGNIZED

primrec FeatureSet_Utf8Validation_value :: "FeatureSet_Utf8Validation \<Rightarrow> int" where
  "FeatureSet_Utf8Validation_value FeatureSet_Utf8Validation_UTF8_VALIDATION_UNKNOWN = 0"
| "FeatureSet_Utf8Validation_value FeatureSet_Utf8Validation_VERIFY = 2"
| "FeatureSet_Utf8Validation_value FeatureSet_Utf8Validation_NONE = 3"
| "FeatureSet_Utf8Validation_value FeatureSet_Utf8Validation_UNRECOGNIZED = (- 1)"

definition featureSet_Utf8ValidationFromJSON :: "jsval \<Rightarrow> FeatureSet_Utf8Validation" where
  "featureSet_Utf8ValidationFromJSON object =
     (if object = JNum (NInt 0) \<or> object = JStr ''UTF8_VALIDATION_UNKNOWN'' then FeatureSet_Utf8Validation_UTF8_VALIDATION_UNKNOWN
      else if object = JNum (NInt 2) \<or> object = JStr ''VERIFY'' then FeatureSet_Utf8Validation_VERIFY
      else if object = JNum (NInt 3) \<or> object = JStr ''NONE'' then FeatureSet_Utf8Validation_NONE
      else FeatureSet_Utf8Validation_UNRECOGNIZED)"

definition featureSet_Utf8ValidationToJSON :: "jsnum \<Rightarrow> string" where
  "featureSet_Utf8ValidationToJSON object =
     (if object = NInt (FeatureSet_Utf8Validation_value FeatureSet_Utf8Validation_UTF8_VALIDATION_UNKNOWN) then ''UTF8_VALIDATION_UNKNOWN''
      else if object = NInt (FeatureSet_Utf8Validation_value FeatureSet_Utf8Validation_VERIFY) then ''VERIFY''
      else if object = NInt (FeatureSet_Utf8Validation_value FeatureSet_Utf8Validation_NONE) then ''NONE''
      else ''UNRECOGNIZED'')"

interpretation featureSet_Utf8Validation: json_enum FeatureSet_Utf8Validation_value featureSet_Utf8ValidationFromJSON featureSet_Utf8ValidationToJSON FeatureSet_Utf8Validation_UNRECOGNIZED
proof unfold_locales
  show "featureSet_Utf8ValidationFromJSON (JNum (NInt (FeatureSet_Utf8Validation_value e))) = e" for e
    by (cases e) (simp_all add: featureSet_Utf8ValidationFromJSON_def)
  show "featureSet_Utf8ValidationFromJSON (JStr (featureSet_Utf8ValidationToJSON (NInt (FeatureSet_Utf8Validation_value e)))) = e" for e
    by (cases e) (simp_all add: featureSet_Utf8ValidationFromJSON_def featureSet_Utf8ValidationToJSON_def)
qed (auto simp: featureSet_Utf8ValidationFromJSON_def featureSet_Utf8ValidationToJSON_def)

section \<open>FeatureSet_MessageEncoding\<close>

datatype FeatureSet_MessageEncoding =
    FeatureSet_MessageEncoding_MESSAGE_ENCODING_UNKNOWN
  | FeatureSet_MessageEncoding_LENGTH_PREFIXED
  | FeatureSet_MessageEncoding_DELIMITED
  | FeatureSet_MessageEncoding_UNRECOGNIZED

primrec FeatureSet_MessageEncoding_value :: "FeatureSet_MessageEncoding \<Rightarrow> int" where
  "FeatureSet_MessageEncoding_value FeatureSet_MessageEncoding_MESSAGE_ENCODING_UNKNOWN = 0"
| "FeatureSet_MessageEncoding_value FeatureSet_MessageEncoding_LENGTH_PREFIXED = 1"
| "FeatureSet_MessageEncoding_value FeatureSet_MessageEncoding_DELIMITED = 2"
| "FeatureSet_MessageEncoding_value FeatureSet_MessageEncoding_UNRECOGNIZED = (- 1)"

definition featureSet_MessageEncodingFromJSON :: "jsval \<Rightarrow> FeatureSet_MessageEncoding" where
  "featureSet_MessageEncodingFromJSON object =
     (if object = JNum (NInt 0) \<or> object = JStr ''MESSAGE_ENCODING_UNKNOWN'' then FeatureSet_MessageEncoding_MESSAGE_ENCODING_UNKNOWN
      else if object = JNum (NInt 1) \<or> object = JStr ''LENGTH_PREFIXED'' then FeatureSet_MessageEncoding_LENGTH_PREFIXED
      else if object = JNum (NInt 2) \<or> object = JStr ''DELIMITED'' then FeatureSet_MessageEncoding_DELIMITED
      else FeatureSet_MessageEncoding_UNRECOGNIZED)"

definition featureSet_MessageEncodingToJSON :: "jsnum \<Rightarrow> string" where
  "featureSet_MessageEncodingToJSON object =
     (if object = NInt (FeatureSet_MessageEncoding_value FeatureSet_MessageEncoding_MESSAGE_ENCODING_UNKNOWN) then ''MESSAGE_ENCODING_UNKNOWN''
      else if object = NInt (FeatureSet_MessageEncoding_value FeatureSet_MessageEncoding_LENGTH_PREFIXED) then ''LENGTH_PREFIXED''
      else if object = NInt (FeatureSet_MessageEncoding_value FeatureSet_MessageEncoding_DELIMITED) then ''DELIMITED''
      else ''UNRECOGNIZED'')"

interpretation featureSet_MessageEncoding: json_enum FeatureSet_MessageEncoding_value featureSet_MessageEncodingFromJSON featureSet_MessageEncodingToJSON FeatureSet_MessageEncoding_UNRECOGNIZED
proof unfold_locales
  show "featureSet_MessageEncodingFromJSON (JNum (NInt (FeatureSet_MessageEncoding_value e))) = e" for e
    by (cases e) (simp_all add: featureSet_MessageEncodingFromJSON_def)
  show "featureSet_MessageEncodingFromJSON (JStr (featureSet_MessageEncodingToJSON (NInt (FeatureSet_MessageEncoding_value e)))) = e" for e
    by (cases e) (simp_all add: featureSet_MessageEncodingFromJSON_def featureSet_MessageEncodingToJSON_def)
qed (auto simp: featureSet_MessageEncodingFromJSON_def featureSet_MessageEncodingToJSON_def)

section \<open>FeatureSet_JsonFormat\<close>

datatype FeatureSet_JsonFormat =
    FeatureSet_JsonFormat_JSON_FORMAT_UNKNOWN
  | FeatureSet_JsonFormat_ALLOW
  | FeatureSet_JsonFormat_LEGACY_BEST_EFFORT
  | FeatureSet_JsonFormat_UNRECOGNIZED

primrec FeatureSet_JsonFormat_value :: "FeatureSet_JsonFormat \<Rightarrow> int" where
  "FeatureSet_JsonFormat_value FeatureSet_JsonFormat_JSON_FORMAT_UNKNOWN = 0"
| "FeatureSet_JsonFormat_value FeatureSet_JsonFormat_ALLOW = 1"
| "FeatureSet_JsonFormat_value FeatureSet_JsonFormat_LEGACY_BEST_EFFORT = 2"
| "FeatureSet_JsonFormat_value FeatureSet_JsonFormat_UNRECOGNIZED = (- 1)"

definition featureSet_JsonFormatFromJSON :: "jsval \<Rightarrow> FeatureSet_JsonFormat" where
  "featureSet_JsonFormatFromJSON object =
     (if object = JNum (NInt 0) \<or> object = JStr ''JSON_FORMAT_UNKNOWN'' then FeatureSet_JsonFormat_JSON_FORMAT_UNKNOWN
      else if object = JNum (NInt 1) \<or> object = JStr ''ALLOW'' then FeatureSet_JsonFormat_ALLOW
      else if object = JNum (NInt 2) \<or> object = JStr ''LEGACY_BEST_EFFORT'' then FeatureSet_JsonFormat_LEGACY_BEST_EFFORT
      else FeatureSet_JsonFormat_UNRECOGNIZED)"

definition featureSet_JsonFormatToJSON :: "jsnum \<Rightarrow> string" where
  "featureSet_JsonFormatToJSON object =
     (if object = NInt (FeatureSet_JsonFormat_value FeatureSet_JsonFormat_JSON_FORMAT_UNKNOWN) then ''JSON_FORMAT_UNKNOWN''
      else if object = NInt (FeatureSet_JsonFormat_value FeatureSet_JsonFormat_ALLOW) then ''ALLOW''
      else if object = NInt (FeatureSet_JsonFormat_value FeatureSet_JsonFormat_LEGACY_BEST_EFFORT) then ''LEGACY_BEST_EFFORT''
      else ''UNRECOGNIZED'')"

interpretation featureSet_JsonFormat: json_enum FeatureSet_JsonFormat_value featureSet_JsonFormatFromJSON featureSet_JsonFormatToJSON FeatureSet_JsonFormat_UNRECOGNIZED
proof unfold_locales
  show "featureSet_JsonFormatFromJSON (JNum (NInt (FeatureSet_JsonFormat_value e))) = e" for e
    by (cases e) (simp_all add: featureSet_JsonFormatFromJSON_def)
  show "featureSet_JsonFormatFromJSON (JStr (featureSet_JsonFormatToJSON (NInt (FeatureSet_JsonFormat_value e)))) = e" for e
    by (cases e) (simp_all add: featureSet_JsonFormatFromJSON_def featureSet_JsonFormatToJSON_def)
qed (auto simp: featureSet_JsonFormatFromJSON_def featureSet_JsonFormatToJSON_def)

section \<open>FeatureSet_EnforceNamingStyle\<close>

datatype FeatureSet_EnforceNamingStyle =
    FeatureSet_EnforceNamingStyle_ENFORCE_NAMING_STYLE_UNKNOWN
  | FeatureSet_EnforceNamingStyle_STYLE2024
  | FeatureSet_EnforceNamingStyle_STYLE_LEGACY
  | FeatureSet_EnforceNamingStyle_UNRECOGNIZED

primrec FeatureSet_EnforceNamingStyle_value :: "FeatureSet_EnforceNamingStyle \<Rightarrow> int" where
  "FeatureSet_EnforceNamingStyle_value FeatureSet_EnforceNamingStyle_ENFORCE_NAMING_STYLE_UNKNOWN = 0"
| "FeatureSet_EnforceNamingStyle_value FeatureSet_EnforceNamingStyle_STYLE2024 = 1"
| "FeatureSet_EnforceNamingStyle_value FeatureSet_EnforceNamingStyle_STYLE_LEGACY = 2"
| "FeatureSet_EnforceNamingStyle_value FeatureSet_EnforceNamingStyle_UNRECOGNIZED = (- 1)"

definition featureSet_EnforceNamingStyleFromJSON :: "jsval \<Rightarrow> FeatureSet_EnforceNamingStyle" where
  "featureSet_EnforceNamingStyleFromJSON object =
     (if object = JNum (NInt 0) \<or> object = JStr ''ENFORCE_NAMING_STYLE_UNKNOWN'' then FeatureSet_EnforceNamingStyle_ENFORCE_NAMING_STYLE_UNKNOWN
      else if object = JNum (NInt 1) \<or> object = JStr ''STYLE2024'' then FeatureSet_EnforceNamingStyle_STYLE2024
      else if object = JNum (NInt 2) \<or> object = JStr ''STYLE_LEGACY'' then FeatureSet_EnforceNamingStyle_STYLE_LEGACY
      else FeatureSet_EnforceNamingStyle_UNRECOGNIZED)"

definition featureSet_EnforceNamingStyleToJSON :: "jsnum \<Rightarrow> string" where
  "featureSet_EnforceNamingStyleToJSON object =
     (if object = NInt (FeatureSet_EnforceNamingStyle_value FeatureSet_EnforceNamingStyle_ENFORCE_NAMING_STYLE_UNKNOWN) then ''ENFORCE_NAMING_STYLE_UNKNOWN''
      else if object = NInt (FeatureSet_EnforceNamingStyle_value FeatureSet_EnforceNamingStyle_STYLE2024) then ''STYLE2024''
      else if object = NInt (FeatureSet_EnforceNamingStyle_value FeatureSet_EnforceNamingStyle_STYLE_LEGACY) then ''STYLE_LEGACY''
      else ''UNRECOGNIZED'')"

interpretation featureSet_EnforceNamingStyle: json_enum FeatureSet_EnforceNamingStyle_value featureSet_EnforceNamingStyleFromJSON featureSet_EnforceNamingStyleToJSON FeatureSet_EnforceNamingStyle_UNRECOGNIZED
proof unfold_locales
  show "featureSet_EnforceNamingStyleFromJSON (JNum (NInt (FeatureSet_EnforceNamingStyle_value e))) = e" for e
    by (cases e) (simp_all add: featureSet_EnforceNamingStyleFromJSON_def)
  show "featureSet_EnforceNamingStyleFromJSON (JStr (featureSet_EnforceNamingStyleToJSON (NInt (FeatureSet_EnforceNamingStyle_value e)))) = e" for e
    by (cases e) (simp_all add: featureSet_EnforceNamingStyleFromJSON_def featureSet_EnforceNamingStyleToJSON_def)
qed (auto simp: featureSet_EnforceNamingStyleFromJSON_def featureSet_EnforceNamingStyleToJSON_def)

section \<open>GeneratedCodeInfo_Annotation_Semantic\<close>

datatype GeneratedCodeInfo_Annotation_Semantic =
    GeneratedCodeInfo_Annotation_Semantic_NONE
  | GeneratedCodeInfo_Annotation_Semantic_SET
  | GeneratedCodeInfo_Annotation_Semantic_ALIAS
  | GeneratedCodeInfo_Annotation_Semantic_UNRECOGNIZED

primrec GeneratedCodeInfo_Annotation_Semantic_value :: "GeneratedCodeInfo_Annotation_Semantic \<Rightarrow> int" where
  "GeneratedCodeInfo_Annotation_Semantic_value GeneratedCodeInfo_Annotation_Semantic_NONE = 0"
| "GeneratedCodeInfo_Annotation_Semantic_value GeneratedCodeInfo_Annotation_Semantic_SET = 1"
| "GeneratedCodeInfo_Annotation_Semantic_value GeneratedCodeInfo_Annotation_Semantic_ALIAS = 2"
| "GeneratedCodeInfo_Annotation_Semantic_value GeneratedCodeInfo_Annotation_Semantic_UNRECOGNIZED = (- 1)"

definition generatedCodeInfo_Annotation_SemanticFromJSON :: "jsval \<Rightarrow> GeneratedCodeInfo_Annotation_Semantic" where
  "generatedCodeInfo_Annotation_SemanticFromJSON object =
     (if object = JNum (NInt 0) \<or> object = JStr ''NONE'' then GeneratedCodeInfo_Annotation_Semantic_NONE
      else if object = JNum (NInt 1) \<or> object = JStr ''SET'' then GeneratedCodeInfo_Annotation_Semantic_SET
      else if object = JNum (NInt 2) \<or> object = JStr ''ALIAS'' then GeneratedCodeInfo_Annotation_Semantic_ALIAS
      else GeneratedCodeInfo_Annotation_Semantic_UNRECOGNIZED)"

definition generatedCodeInfo_Annotation_SemanticToJSON :: "jsnum \<Rightarrow> string" where
  "generatedCodeInfo_Annotation_SemanticToJSON object =
     (if object = NInt (GeneratedCodeInfo_Annotation_Semantic_value GeneratedCodeInfo_Annotation_Semantic_NONE) then ''NONE''
      else if object = NInt (GeneratedCodeInfo_Annotation_Semantic_value GeneratedCodeInfo_Annotation_Semantic_SET) then ''SET''
      else if object = NInt (GeneratedCodeInfo_Annotation_Semantic_value GeneratedCodeInfo_Annotation_Semantic_ALIAS) then ''ALIAS''
      else ''UNRECOGNIZED'')"

interpretation generatedCodeInfo_Annotation_Semantic: json_enum GeneratedCodeInfo_Annotation_Semantic_value generatedCodeInfo_Annotation_SemanticFromJSON generatedCodeInfo_Annotation_SemanticToJSON GeneratedCodeInfo_Annotation_Semantic_UNRECOGNIZED
proof unfold_locales
  show "generatedCodeInfo_Annotation_SemanticFromJSON (JNum (NInt (GeneratedCodeInfo_Annotation_Semantic_value e))) = e" for e
    by (cases e) (simp_all add: generatedCodeInfo_Annotation_SemanticFromJSON_def)
  show "generatedCodeInfo_Annotation_SemanticFromJSON (JStr (generatedCodeInfo_Annotation_SemanticToJSON (NInt (GeneratedCodeInfo_Annotation_Semantic_value e)))) = e" for e
    by (cases e) (simp_all add: generatedCodeInfo_Annotation_SemanticFromJSON_def generatedCodeInfo_Annotation_SemanticToJSON_def)
qed (auto simp: generatedCodeInfo_Annotation_SemanticFromJSON_def generatedCodeInfo_Annotation_SemanticToJSON_def)

section \<open>Editions in time order\<close>

text \<open>
  The declaration promises that editions are time-ordered by their numbers, so comparison of
  editions is comparison of numbers.
\<close>

instantiation Edition :: linorder
begin

definition less_eq_Edition :: "Edition \<Rightarrow> Edition \<Rightarrow> bool" where
  "less_eq_Edition a b \<longleftrightarrow> Edition_value a \<le> Edition_value b"

definition less_Edition :: "Edition \<Rightarrow> Edition \<Rightarrow> bool" where
  "less_Edition a b \<longleftrightarrow> Edition_value a < Edition_value b"

instance
  by standard (auto simp: less_eq_Edition_def less_Edition_def edition.val_inject)

end

end
