(* ===== verification/Descriptor_Messages.thy ===== *)
theory Descriptor_Messages
  imports Codec Descriptor_Enums
begin

text \<open>
  Message objects of \<^verbatim>\<open>web/src/generated/google/protobuf/descriptor.ts\<close>: feature sets, edition
  defaults, reserved ranges, and source and generated-code information. Their fields are
  those of proto2: a field holds its default when it is not on the wire, and is not written
  when it is \<^verbatim>\<open>undefined\<close> or holds the default. So decoding what has been encoded gives
  \<open>M_norm m\<close>, in which \<^verbatim>\<open>undefined\<close> has become the default; the JSON form gives \<open>M_jnorm m\<close>, in
  which, moreover, numbers are rounded and enum numbers that are not declared have become
  \<open>- 1\<close>. A number that is not an integer of 32 bits cannot be encoded: \<open>M_fits\<close> excludes it.
\<close>

unbundle bit_operations_syntax

section \<open>UninterpretedOption_NamePart\<close>

record UninterpretedOption_NamePart =
  UninterpretedOption_NamePart_namePart :: string
  UninterpretedOption_NamePart_isExtension :: bool

definition createBaseUninterpretedOption_NamePart :: UninterpretedOption_NamePart where
  "createBaseUninterpretedOption_NamePart = \<lparr>UninterpretedOption_NamePart_namePart = '''', UninterpretedOption_NamePart_isExtension = False\<rparr>"

definition UninterpretedOption_NamePart_encode :: "('w, 'r) wire \<Rightarrow> UninterpretedOption_NamePart \<Rightarrow> 'w stmt" where
  "UninterpretedOption_NamePart_encode W message = run [
     only_if (UninterpretedOption_NamePart_namePart message \<noteq> '''') (tagged W 10 (wString W (UninterpretedOption_NamePart_namePart message))),
     only_if (UninterpretedOption_NamePart_isExtension message \<noteq> False) (tagged W 16 (wBool W (UninterpretedOption_NamePart_isExtension message)))]"

definition UninterpretedOption_NamePart_switch :: "('w, 'r) wire \<Rightarrow> (UninterpretedOption_NamePart, 'r) switch" where
  "UninterpretedOption_NamePart_switch W tag message reader =
   (if drop_bit 3 tag = 1 then case_read tag 10 (rString W) (store UninterpretedOption_NamePart_namePart_update) message reader
    else if drop_bit 3 tag = 2 then case_read tag 16 (rBool W) (store UninterpretedOption_NamePart_isExtension_update) message reader
    else Inr None)"

definition UninterpretedOption_NamePart_decode :: "('w, 'r) wire \<Rightarrow> 'r input \<Rightarrow> nat option \<Rightarrow> (UninterpretedOption_NamePart \<times> 'r) res" where
  "UninterpretedOption_NamePart_decode W = decode_msg W (UninterpretedOption_NamePart_switch W) createBaseUninterpretedOption_NamePart"

definition UninterpretedOption_NamePart_fromJSON :: "jsval \<Rightarrow> UninterpretedOption_NamePart res" where
  "UninterpretedOption_NamePart_fromJSON object =
     rbind (json_field2 object ''namePart'' ''name_part'' js_String (Inr '''')) (\<lambda>namePart.
     rbind (json_field2 object ''isExtension'' ''is_extension'' js_Boolean_res (Inr False)) (\<lambda>isExtension.
     Inr \<lparr>UninterpretedOption_NamePart_namePart = namePart, UninterpretedOption_NamePart_isExtension = isExtension\<rparr>))"

definition UninterpretedOption_NamePart_toJSON :: "UninterpretedOption_NamePart \<Rightarrow> jsval" where
  "UninterpretedOption_NamePart_toJSON message = json_object [
     (''namePart'', put_if (UninterpretedOption_NamePart_namePart message \<noteq> '''') (JStr (UninterpretedOption_NamePart_namePart message))),
     (''isExtension'', put_if (UninterpretedOption_NamePart_isExtension message \<noteq> False) (JBool (UninterpretedOption_NamePart_isExtension message)))]"

record UninterpretedOption_NamePart_Partial =
  Partial_UninterpretedOption_NamePart_namePart :: "string option"
  Partial_UninterpretedOption_NamePart_isExtension :: "bool option"

definition UninterpretedOption_NamePart_fromPartial :: "UninterpretedOption_NamePart_Partial \<Rightarrow> UninterpretedOption_NamePart" where
  "UninterpretedOption_NamePart_fromPartial object = createBaseUninterpretedOption_NamePart\<lparr>
     UninterpretedOption_NamePart_namePart := nullish (Partial_UninterpretedOption_NamePart_namePart object) '''',
     UninterpretedOption_NamePart_isExtension := nullish (Partial_UninterpretedOption_NamePart_isExtension object) False\<rparr>"

definition UninterpretedOption_NamePart_create :: "UninterpretedOption_NamePart_Partial option \<Rightarrow> UninterpretedOption_NamePart" where
  "UninterpretedOption_NamePart_create base = UninterpretedOption_NamePart_fromPartial (nullish base \<lparr>Partial_UninterpretedOption_NamePart_namePart = None, Partial_UninterpretedOption_NamePart_isExtension = None\<rparr>)"

section \<open>FeatureSet\<close>

record FeatureSet =
  FeatureSet_fieldPresence :: "jsnum option"
  FeatureSet_enumType :: "jsnum option"
  FeatureSet_repeatedFieldEncoding :: "jsnum option"
  FeatureSet_utf8Validation :: "jsnum option"
  FeatureSet_messageEncoding :: "jsnum option"
  FeatureSet_jsonFormat :: "jsnum option"
  FeatureSet_enforceNamingStyle :: "jsnum option"

definition createBaseFeatureSet :: FeatureSet where
  "createBaseFeatureSet = \<lparr>FeatureSet_fieldPresence = Some (NInt 0), FeatureSet_enumType = Some (NInt 0), FeatureSet_repeatedFieldEncoding = Some (NInt 0), FeatureSet_utf8Validation = Some (NInt 0), FeatureSet_messageEncoding = Some (NInt 0), FeatureSet_jsonFormat = Some (NInt 0), FeatureSet_enforceNamingStyle = Some (NInt 0)\<rparr>"

definition FeatureSet_encode :: "('w, 'r) wire \<Rightarrow> FeatureSet \<Rightarrow> 'w stmt" where
  "FeatureSet_encode W message = run [
     if_other (FeatureSet_fieldPresence message) (NInt 0) (\<lambda>v. tagged W 8 (wInt32 W v)),
     if_other (FeatureSet_enumType message) (NInt 0) (\<lambda>v. tagged W 16 (wInt32 W v)),
     if_other (FeatureSet_repeatedFieldEncoding message) (NInt 0) (\<lambda>v. tagged W 24 (wInt32 W v)),
     if_other (FeatureSet_utf8Validation message) (NInt 0) (\<lambda>v. tagged W 32 (wInt32 W v)),
     if_other (FeatureSet_messageEncoding message) (NInt 0) (\<lambda>v. tagged W 40 (wInt32 W v)),
     if_other (FeatureSet_jsonFormat message) (NInt 0) (\<lambda>v. tagged W 48 (wInt32 W v)),
     if_other (FeatureSet_enforceNamingStyle message) (NInt 0) (\<lambda>v. tagged W 56 (wInt32 W v))]"

definition FeatureSet_switch :: "('w, 'r) wire \<Rightarrow> (FeatureSet, 'r) switch" where
  "FeatureSet_switch W tag message reader =
   (if drop_bit 3 tag = 1 then case_read tag 8 (rInt32 W) (store_some FeatureSet_fieldPresence_update) message reader
    else if drop_bit 3 tag = 2 then case_read tag 16 (rInt32 W) (store_some FeatureSet_enumType_update) message reader
    else if drop_bit 3 tag = 3 then case_read tag 24 (rInt32 W) (store_some FeatureSet_repeatedFieldEncoding_update) message reader
    else if drop_bit 3 tag = 4 then case_read tag 32 (rInt32 W) (store_some FeatureSet_utf8Validation_update) message reader
    else if drop_bit 3 tag = 5 then case_read tag 40 (rInt32 W) (store_some FeatureSet_messageEncoding_update) message reader
    else if drop_bit 3 tag = 6 then case_read tag 48 (rInt32 W) (store_some FeatureSet_jsonFormat_update) message reader
    else if drop_bit 3 tag = 7 then case_read tag 56 (rInt32 W) (store_some FeatureSet_enforceNamingStyle_update) message reader
    else Inr None)"

definition FeatureSet_decode :: "('w, 'r) wire \<Rightarrow> 'r input \<Rightarrow> nat option \<Rightarrow> (FeatureSet \<times> 'r) res" where
  "FeatureSet_decode W = decode_msg W (FeatureSet_switch W) createBaseFeatureSet"

definition FeatureSet_fromJSON :: "jsval \<Rightarrow> FeatureSet res" where
  "FeatureSet_fromJSON object =
     rbind (json_field2 object ''fieldPresence'' ''field_presence'' (some_res (enum_number FeatureSet_FieldPresence_value featureSet_FieldPresenceFromJSON)) (Inr (Some (NInt 0)))) (\<lambda>fieldPresence.
     rbind (json_field2 object ''enumType'' ''enum_type'' (some_res (enum_number FeatureSet_EnumType_value featureSet_EnumTypeFromJSON)) (Inr (Some (NInt 0)))) (\<lambda>enumType.
     rbind (json_field2 object ''repeatedFieldEncoding'' ''repeated_field_encoding'' (some_res (enum_number FeatureSet_RepeatedFieldEncoding_value featureSet_RepeatedFieldEncodingFromJSON)) (Inr (Some (NInt 0)))) (\<lambda>repeatedFieldEncoding.
     rbind (json_field2 object ''utf8Validation'' ''utf8_validation'' (some_res (enum_number FeatureSet_Utf8Validation_value featureSet_Utf8ValidationFromJSON)) (Inr (Some (NInt 0)))) (\<lambda>utf8Validation.
     rbind (json_field2 object ''messageEncoding'' ''message_encoding'' (some_res (enum_number FeatureSet_MessageEncoding_value featureSet_MessageEncodingFromJSON)) (Inr (Some (NInt 0)))) (\<lambda>messageEncoding.
     rbind (json_field2 object ''jsonFormat'' ''json_format'' (some_res (enum_number FeatureSet_JsonFormat_value featureSet_JsonFormatFromJSON)) (Inr (Some (NInt 0)))) (\<lambda>jsonFormat.
     rbind (json_field2 object ''enforceNamingStyle'' ''enforce_naming_style'' (some_res (enum_number FeatureSet_EnforceNamingStyle_value featureSet_EnforceNamingStyleFromJSON)) (Inr (Some (NInt 0)))) (\<lambda>enforceNamingStyle.
     Inr \<lparr>FeatureSet_fieldPresence = fieldPresence, FeatureSet_enumType = enumType, FeatureSet_repeatedFieldEncoding = repeatedFieldEncoding, FeatureSet_utf8Validation = utf8Validation, FeatureSet_messageEncoding = messageEncoding, FeatureSet_jsonFormat = jsonFormat, FeatureSet_enforceNamingStyle = enforceNamingStyle\<rparr>)))))))"

definition FeatureSet_toJSON :: "FeatureSet \<Rightarrow> jsval" where
  "FeatureSet_toJSON message = json_object [
     (''fieldPresence'', put_other (FeatureSet_fieldPresence message) (NInt 0) (\<lambda>n. JStr (featureSet_FieldPresenceToJSON n))),
     (''enumType'', put_other (FeatureSet_enumType message) (NInt 0) (\<lambda>n. JStr (featureSet_EnumTypeToJSON n))),
     (''repeatedFieldEncoding'', put_other (FeatureSet_repeatedFieldEncoding message) (NInt 0) (\<lambda>n. JStr (featureSet_RepeatedFieldEncodingToJSON n))),
     (''utf8Validation'', put_other (FeatureSet_utf8Validation message) (NInt 0) (\<lambda>n. JStr (featureSet_Utf8ValidationToJSON n))),
     (''messageEncoding'', put_other (FeatureSet_messageEncoding message) (NInt 0) (\<lambda>n. JStr (featureSet_MessageEncodingToJSON n))),
     (''jsonFormat'', put_other (FeatureSet_jsonFormat message) (NInt 0) (\<lambda>n. JStr (featureSet_JsonFormatToJSON n))),
     (''enforceNamingStyle'', put_other (FeatureSet_enforceNamingStyle message) (NInt 0) (\<lambda>n. JStr (featureSet_EnforceNamingStyleToJSON n)))]"

record FeatureSet_Partial =
  Partial_FeatureSet_fieldPresence :: "jsnum option"
  Partial_FeatureSet_enumType :: "jsnum option"
  Partial_FeatureSet_repeatedFieldEncoding :: "jsnum option"
  Partial_FeatureSet_utf8Validation :: "jsnum option"
  Partial_FeatureSet_messageEncoding :: "jsnum option"
  Partial_FeatureSet_jsonFormat :: "jsnum option"
  Partial_FeatureSet_enforceNamingStyle :: "jsnum option"

definition FeatureSet_fromPartial :: "FeatureSet_Partial \<Rightarrow> FeatureSet" where
  "FeatureSet_fromPartial object = createBaseFeatureSet\<lparr>
     FeatureSet_fieldPresence := Some (nullish (Partial_FeatureSet_fieldPresence object) (NInt 0)),
     FeatureSet_enumType := Some (nullish (Partial_FeatureSet_enumType object) (NInt 0)),
     FeatureSet_repeatedFieldEncoding := Some (nullish (Partial_FeatureSet_repeatedFieldEncoding object) (NInt 0)),
     FeatureSet_utf8Validation := Some (nullish (Partial_FeatureSet_utf8Validation object) (NInt 0)),
     FeatureSet_messageEncoding := Some (nullish (Partial_FeatureSet_messageEncoding object) (NInt 0)),
     FeatureSet_jsonFormat := Some (nullish (Partial_FeatureSet_jsonFormat object) (NInt 0)),
     FeatureSet_enforceNamingStyle := Some (nullish (Partial_FeatureSet_enforceNamingStyle object) (NInt 0))\<rparr>"

definition FeatureSet_create :: "FeatureSet_Partial option \<Rightarrow> FeatureSet" where
  "FeatureSet_create base = FeatureSet_fromPartial (nullish base \<lparr>Partial_FeatureSet_fieldPresence = None, Partial_FeatureSet_enumType = None, Partial_FeatureSet_repeatedFieldEncoding = None, Partial_FeatureSet_utf8Validation = None, Partial_FeatureSet_messageEncoding = None, Partial_FeatureSet_jsonFormat = None, Partial_FeatureSet_enforceNamingStyle = None\<rparr>)"

section \<open>FeatureSetDefaults_FeatureSetEditionDefault\<close>

record FeatureSetDefaults_FeatureSetEditionDefault =
  FeatureSetDefaults_FeatureSetEditionDefault_edition :: "jsnum option"
  FeatureSetDefaults_FeatureSetEditionDefault_overridableFeatures :: "FeatureSet option"
  FeatureSetDefaults_FeatureSetEditionDefault_fixedFeatures :: "FeatureSet option"

definition createBaseFeatureSetDefaults_FeatureSetEditionDefault :: FeatureSetDefaults_FeatureSetEditionDefault where
  "createBaseFeatureSetDefaults_FeatureSetEditionDefault = \<lparr>FeatureSetDefaults_FeatureSetEditionDefault_edition = Some (NInt 0), FeatureSetDefaults_FeatureSetEditionDefault_overridableFeatures = None, FeatureSetDefaults_FeatureSetEditionDefault_fixedFeatures = None\<rparr>"

definition FeatureSetDefaults_FeatureSetEditionDefault_encode :: "('w, 'r) wire \<Rightarrow> FeatureSetDefaults_FeatureSetEditionDefault \<Rightarrow> 'w stmt" where
  "FeatureSetDefaults_FeatureSetEditionDefault_encode W message = run [
     if_other (FeatureSetDefaults_FeatureSetEditionDefault_edition message) (NInt 0) (\<lambda>v. tagged W 24 (wInt32 W v)),
     if_set (FeatureSetDefaults_FeatureSetEditionDefault_overridableFeatures message) (\<lambda>v. sub_message W 34 (FeatureSet_encode W v)),
     if_set (FeatureSetDefaults_FeatureSetEditionDefault_fixedFeatures message) (\<lambda>v. sub_message W 42 (FeatureSet_encode W v))]"

definition FeatureSetDefaults_FeatureSetEditionDefault_switch :: "('w, 'r) wire \<Rightarrow> (FeatureSetDefaults_FeatureSetEditionDefault, 'r) switch" where
  "FeatureSetDefaults_FeatureSetEditionDefault_switch W tag message reader =
   (if drop_bit 3 tag = 3 then case_read tag 24 (rInt32 W) (store_some FeatureSetDefaults_FeatureSetEditionDefault_edition_update) message reader
    else if drop_bit 3 tag = 4 then case_read tag 34 (read_message W (FeatureSet_decode W)) (store_some FeatureSetDefaults_FeatureSetEditionDefault_overridableFeatures_update) message reader
    else if drop_bit 3 tag = 5 then case_read tag 42 (read_message W (FeatureSet_decode W)) (store_some FeatureSetDefaults_FeatureSetEditionDefault_fixedFeatures_update) message reader
    else Inr None)"

definition FeatureSetDefaults_FeatureSetEditionDefault_decode :: "('w, 'r) wire \<Rightarrow> 'r input \<Rightarrow> nat option \<Rightarrow> (FeatureSetDefaults_FeatureSetEditionDefault \<times> 'r) res" where
  "FeatureSetDefaults_FeatureSetEditionDefault_decode W = decode_msg W (FeatureSetDefaults_FeatureSetEditionDefault_switch W) createBaseFeatureSetDefaults_FeatureSetEditionDefault"

definition FeatureSetDefaults_FeatureSetEditionDefault_fromJSON :: "jsval \<Rightarrow> FeatureSetDefaults_FeatureSetEditionDefault res" where
  "FeatureSetDefaults_FeatureSetEditionDefault_fromJSON object =
     rbind (json_field object ''edition'' (some_res (enum_number Edition_value editionFromJSON)) (Inr (Some (NInt 0)))) (\<lambda>edition.
     rbind (json_field2 object ''overridableFeatures'' ''overridable_features'' (some_res FeatureSet_fromJSON) (Inr None)) (\<lambda>overridableFeatures.
     rbind (json_field2 object ''fixedFeatures'' ''fixed_features'' (some_res FeatureSet_fromJSON) (Inr None)) (\<lambda>fixedFeatures.
     Inr \<lparr>FeatureSetDefaults_FeatureSetEditionDefault_edition = edition, FeatureSetDefaults_FeatureSetEditionDefault_overridableFeatures = overridableFeatures, FeatureSetDefaults_FeatureSetEditionDefault_fixedFeatures = fixedFeatures\<rparr>)))"

definition FeatureSetDefaults_FeatureSetEditionDefault_toJSON :: "FeatureSetDefaults_FeatureSetEditionDefault \<Rightarrow> jsval" where
  "FeatureSetDefaults_FeatureSetEditionDefault_toJSON message = json_object [
     (''edition'', put_other (FeatureSetDefaults_FeatureSetEditionDefault_edition message) (NInt 0) (\<lambda>n. JStr (editionToJSON n))),
     (''overridableFeatures'', map_option FeatureSet_toJSON (FeatureSetDefaults_FeatureSetEditionDefault_overridableFeatures message)),
     (''fixedFeatures'', map_option FeatureSet_toJSON (FeatureSetDefaults_FeatureSetEditionDefault_fixedFeatures message))]"

record FeatureSetDefaults_FeatureSetEditionDefault_Partial =
  Partial_FeatureSetDefaults_FeatureSetEditionDefault_edition :: "jsnum option"
  Partial_FeatureSetDefaults_FeatureSetEditionDefault_overridableFeatures :: "FeatureSet_Partial option"
  Partial_FeatureSetDefaults_FeatureSetEditionDefault_fixedFeatures :: "FeatureSet_Partial option"

definition FeatureSetDefaults_FeatureSetEditionDefault_fromPartial :: "FeatureSetDefaults_FeatureSetEditionDefault_Partial \<Rightarrow> FeatureSetDefaults_FeatureSetEditionDefault" where
  "FeatureSetDefaults_FeatureSetEditionDefault_fromPartial object = createBaseFeatureSetDefaults_FeatureSetEditionDefault\<lparr>
     FeatureSetDefaults_FeatureSetEditionDefault_edition := Some (nullish (Partial_FeatureSetDefaults_FeatureSetEditionDefault_edition object) (NInt 0)),
     FeatureSetDefaults_FeatureSetEditionDefault_overridableFeatures := map_option FeatureSet_fromPartial (Partial_FeatureSetDefaults_FeatureSetEditionDefault_overridableFeatures object),
     FeatureSetDefaults_FeatureSetEditionDefault_fixedFeatures := map_option FeatureSet_fromPartial (Partial_FeatureSetDefaults_FeatureSetEditionDefault_fixedFeatures object)\<rparr>"

definition FeatureSetDefaults_FeatureSetEditionDefault_create :: "FeatureSetDefaults_FeatureSetEditionDefault_Partial option \<Rightarrow> FeatureSetDefaults_FeatureSetEditionDefault" where
  "FeatureSetDefaults_FeatureSetEditionDefault_create base = FeatureSetDefaults_FeatureSetEditionDefault_fromPartial (nullish base \<lparr>Partial_FeatureSetDefaults_FeatureSetEditionDefault_edition = None, Partial_FeatureSetDefaults_FeatureSetEditionDefault_overridableFeatures = None, Partial_FeatureSetDefaults_FeatureSetEditionDefault_fixedFeatures = None\<rparr>)"

section \<open>FeatureSetDefaults\<close>

record FeatureSetDefaults =
  FeatureSetDefaults_defaults :: "FeatureSetDefaults_FeatureSetEditionDefault list"
  FeatureSetDefaults_minimumEdition :: "jsnum option"
  FeatureSetDefaults_maximumEdition :: "jsnum option"

definition createBaseFeatureSetDefaults :: FeatureSetDefaults where
  "createBaseFeatureSetDefaults = \<lparr>FeatureSetDefaults_defaults = [], FeatureSetDefaults_minimumEdition = Some (NInt 0), FeatureSetDefaults_maximumEdition = Some (NInt 0)\<rparr>"

definition FeatureSetDefaults_encode :: "('w, 'r) wire \<Rightarrow> FeatureSetDefaults \<Rightarrow> 'w stmt" where
  "FeatureSetDefaults_encode W message = run [
     for_each (FeatureSetDefaults_defaults message) (\<lambda>v. sub_message W 10 (FeatureSetDefaults_FeatureSetEditionDefault_encode W v)),
     if_other (FeatureSetDefaults_minimumEdition message) (NInt 0) (\<lambda>v. tagged W 32 (wInt32 W v)),
     if_other (FeatureSetDefaults_maximumEdition message) (NInt 0) (\<lambda>v. tagged W 40 (wInt32 W v))]"

definition FeatureSetDefaults_switch :: "('w, 'r) wire \<Rightarrow> (FeatureSetDefaults, 'r) switch" where
  "FeatureSetDefaults_switch W tag message reader =
   (if drop_bit 3 tag = 1 then case_read tag 10 (read_message W (FeatureSetDefaults_FeatureSetEditionDefault_decode W)) (push FeatureSetDefaults_defaults_update) message reader
    else if drop_bit 3 tag = 4 then case_read tag 32 (rInt32 W) (store_some FeatureSetDefaults_minimumEdition_update) message reader
    else if drop_bit 3 tag = 5 then case_read tag 40 (rInt32 W) (store_some FeatureSetDefaults_maximumEdition_update) message reader
    else Inr None)"

definition FeatureSetDefaults_decode :: "('w, 'r) wire \<Rightarrow> 'r input \<Rightarrow> nat option \<Rightarrow> (FeatureSetDefaults \<times> 'r) res" where
  "FeatureSetDefaults_decode W = decode_msg W (FeatureSetDefaults_switch W) createBaseFeatureSetDefaults"

definition FeatureSetDefaults_fromJSON :: "jsval \<Rightarrow> FeatureSetDefaults res" where
  "FeatureSetDefaults_fromJSON object =
     rbind (json_array object ''defaults'' FeatureSetDefaults_FeatureSetEditionDefault_fromJSON (Inr [])) (\<lambda>defaults.
     rbind (json_field2 object ''minimumEdition'' ''minimum_edition'' (some_res (enum_number Edition_value editionFromJSON)) (Inr (Some (NInt 0)))) (\<lambda>minimumEdition.
     rbind (json_field2 object ''maximumEdition'' ''maximum_edition'' (some_res (enum_number Edition_value editionFromJSON)) (Inr (Some (NInt 0)))) (\<lambda>maximumEdition.
     Inr \<lparr>FeatureSetDefaults_defaults = defaults, FeatureSetDefaults_minimumEdition = minimumEdition, FeatureSetDefaults_maximumEdition = maximumEdition\<rparr>)))"

definition FeatureSetDefaults_toJSON :: "FeatureSetDefaults \<Rightarrow> jsval" where
  "FeatureSetDefaults_toJSON message = json_object [
     (''defaults'', put_if (FeatureSetDefaults_defaults message \<noteq> []) (JArr (map FeatureSetDefaults_FeatureSetEditionDefault_toJSON (FeatureSetDefaults_defaults message)))),
     (''minimumEdition'', put_other (FeatureSetDefaults_minimumEdition message) (NInt 0) (\<lambda>n. JStr (editionToJSON n))),
     (''maximumEdition'', put_other (FeatureSetDefaults_maximumEdition message) (NInt 0) (\<lambda>n. JStr (editionToJSON n)))]"

record FeatureSetDefaults_Partial =
  Partial_FeatureSetDefaults_defaults :: "FeatureSetDefaults_FeatureSetEditionDefault_Partial list option"
  Partial_FeatureSetDefaults_minimumEdition :: "jsnum option"
  Partial_FeatureSetDefaults_maximumEdition :: "jsnum option"

definition FeatureSetDefaults_fromPartial :: "FeatureSetDefaults_Partial \<Rightarrow> FeatureSetDefaults" where
  "FeatureSetDefaults_fromPartial object = createBaseFeatureSetDefaults\<lparr>
     FeatureSetDefaults_defaults := nullish (map_option (map FeatureSetDefaults_FeatureSetEditionDefault_fromPartial) (Partial_FeatureSetDefaults_defaults object)) [],
     FeatureSetDefaults_minimumEdition := Some (nullish (Partial_FeatureSetDefaults_minimumEdition object) (NInt 0)),
     FeatureSetDefaults_maximumEdition := Some (nullish (Partial_FeatureSetDefaults_maximumEdition object) (NInt 0))\<rparr>"

definition FeatureSetDefaults_create :: "FeatureSetDefaults_Partial option \<Rightarrow> FeatureSetDefaults" where
  "FeatureSetDefaults_create base = FeatureSetDefaults_fromPartial (nullish base \<lparr>Partial_FeatureSetDefaults_defaults = None, Partial_FeatureSetDefaults_minimumEdition = None, Partial_FeatureSetDefaults_maximumEdition = None\<rparr>)"

section \<open>FieldOptions_EditionDefault\<close>

record FieldOptions_EditionDefault =
  FieldOptions_EditionDefault_edition :: "jsnum option"
  FieldOptions_EditionDefault_value :: "string option"

definition createBaseFieldOptions_EditionDefault :: FieldOptions_EditionDefault where
  "createBaseFieldOptions_EditionDefault = \<lparr>FieldOptions_EditionDefault_edition = Some (NInt 0), FieldOptions_EditionDefault_value = Some ''''\<rparr>"

definition FieldOptions_EditionDefault_encode :: "('w, 'r) wire \<Rightarrow> FieldOptions_EditionDefault \<Rightarrow> 'w stmt" where
  "FieldOptions_EditionDefault_encode W message = run [
     if_other (FieldOptions_EditionDefault_edition message) (NInt 0) (\<lambda>v. tagged W 24 (wInt32 W v)),
     if_other (FieldOptions_EditionDefault_value message) '''' (\<lambda>v. tagged W 18 (wString W v))]"

definition FieldOptions_EditionDefault_switch :: "('w, 'r) wire \<Rightarrow> (FieldOptions_EditionDefault, 'r) switch" where
  "FieldOptions_EditionDefault_switch W tag message reader =
   (if drop_bit 3 tag = 3 then case_read tag 24 (rInt32 W) (store_some FieldOptions_EditionDefault_edition_update) message reader
    else if drop_bit 3 tag = 2 then case_read tag 18 (rString W) (store_some FieldOptions_EditionDefault_value_update) message reader
    else Inr None)"

definition FieldOptions_EditionDefault_decode :: "('w, 'r) wire \<Rightarrow> 'r input \<Rightarrow> nat option \<Rightarrow> (FieldOptions_EditionDefault \<times> 'r) res" where
  "FieldOptions_EditionDefault_decode W = decode_msg W (FieldOptions_EditionDefault_switch W) createBaseFieldOptions_EditionDefault"

definition FieldOptions_EditionDefault_fromJSON :: "jsval \<Rightarrow> FieldOptions_EditionDefault res" where
  "FieldOptions_EditionDefault_fromJSON object =
     rbind (json_field object ''edition'' (some_res (enum_number Edition_value editionFromJSON)) (Inr (Some (NInt 0)))) (\<lambda>edition.
     rbind (json_field object ''value'' (some_res js_String) (Inr (Some ''''))) (\<lambda>value.
     Inr \<lparr>FieldOptions_EditionDefault_edition = edition, FieldOptions_EditionDefault_value = value\<rparr>))"

definition FieldOptions_EditionDefault_toJSON :: "FieldOptions_EditionDefault \<Rightarrow> jsval" where
  "FieldOptions_EditionDefault_toJSON message = json_object [
     (''edition'', put_other (FieldOptions_EditionDefault_edition message) (NInt 0) (\<lambda>n. JStr (editionToJSON n))),
     (''value'', put_other (FieldOptions_EditionDefault_value message) '''' JStr)]"

record FieldOptions_EditionDefault_Partial =
  Partial_FieldOptions_EditionDefault_edition :: "jsnum option"
  Partial_FieldOptions_EditionDefault_value :: "string option"

definition FieldOptions_EditionDefault_fromPartial :: "FieldOptions_EditionDefault_Partial \<Rightarrow> FieldOptions_EditionDefault" where
  "FieldOptions_EditionDefault_fromPartial object = createBaseFieldOptions_EditionDefault\<lparr>
     FieldOptions_EditionDefault_edition := Some (nullish (Partial_FieldOptions_EditionDefault_edition object) (NInt 0)),
     FieldOptions_EditionDefault_value := Some (nullish (Partial_FieldOptions_EditionDefault_value object) '''')\<rparr>"

definition FieldOptions_EditionDefault_create :: "FieldOptions_EditionDefault_Partial option \<Rightarrow> FieldOptions_EditionDefault" where
  "FieldOptions_EditionDefault_create base = FieldOptions_EditionDefault_fromPartial (nullish base \<lparr>Partial_FieldOptions_EditionDefault_edition = None, Partial_FieldOptions_EditionDefault_value = None\<rparr>)"

section \<open>FieldOptions_FeatureSupport\<close>

record FieldOptions_FeatureSupport =
  FieldOptions_FeatureSupport_editionIntroduced :: "jsnum option"
  FieldOptions_FeatureSupport_editionDeprecated :: "jsnum option"
  FieldOptions_FeatureSupport_deprecationWarning :: "string option"
  FieldOptions_FeatureSupport_editionRemoved :: "jsnum option"

definition createBaseFieldOptions_FeatureSupport :: FieldOptions_FeatureSupport where
  "createBaseFieldOptions_FeatureSupport = \<lparr>FieldOptions_FeatureSupport_editionIntroduced = Some (NInt 0), FieldOptions_FeatureSupport_editionDeprecated = Some (NInt 0), FieldOptions_FeatureSupport_deprecationWarning = Some '''', FieldOptions_FeatureSupport_editionRemoved = Some (NInt 0)\<rparr>"

definition FieldOptions_FeatureSupport_encode :: "('w, 'r) wire \<Rightarrow> FieldOptions_FeatureSupport \<Rightarrow> 'w stmt" where
  "FieldOptions_FeatureSupport_encode W message = run [
     if_other (FieldOptions_FeatureSupport_editionIntroduced message) (NInt 0) (\<lambda>v. tagged W 8 (wInt32 W v)),
     if_other (FieldOptions_FeatureSupport_editionDeprecated message) (NInt 0) (\<lambda>v. tagged W 16 (wInt32 W v)),
     if_other (FieldOptions_FeatureSupport_deprecationWarning message) '''' (\<lambda>v. tagged W 26 (wString W v)),
     if_other (FieldOptions_FeatureSupport_editionRemoved message) (NInt 0) (\<lambda>v. tagged W 32 (wInt32 W v))]"

definition FieldOptions_FeatureSupport_switch :: "('w, 'r) wire \<Rightarrow> (FieldOptions_FeatureSupport, 'r) switch" where
  "FieldOptions_FeatureSupport_switch W tag message reader =
   (if drop_bit 3 tag = 1 then case_read tag 8 (rInt32 W) (store_some FieldOptions_FeatureSupport_editionIntroduced_update) message reader
    else if drop_bit 3 tag = 2 then case_read tag 16 (rInt32 W) (store_some FieldOptions_FeatureSupport_editionDeprecated_update) message reader
    else if drop_bit 3 tag = 3 then case_read tag 26 (rString W) (store_some FieldOptions_FeatureSupport_deprecationWarning_update) message reader
    else if drop_bit 3 tag = 4 then case_read tag 32 (rInt32 W) (store_some FieldOptions_FeatureSupport_editionRemoved_update) message reader
    else Inr None)"

definition FieldOptions_FeatureSupport_decode :: "('w, 'r) wire \<Rightarrow> 'r input \<Rightarrow> nat option \<Rightarrow> (FieldOptions_FeatureSupport \<times> 'r) res" where
  "FieldOptions_FeatureSupport_decode W = decode_msg W (FieldOptions_FeatureSupport_switch W) createBaseFieldOptions_FeatureSupport"

definition FieldOptions_FeatureSupport_fromJSON :: "jsval \<Rightarrow> FieldOptions_FeatureSupport res" where
  "FieldOptions_FeatureSupport_fromJSON object =
     rbind (json_field2 object ''editionIntroduced'' ''edition_introduced'' (some_res (enum_number Edition_value editionFromJSON)) (Inr (Some (NInt 0)))) (\<lambda>editionIntroduced.
     rbind (json_field2 object ''editionDeprecated'' ''edition_deprecated'' (some_res (enum_number Edition_value editionFromJSON)) (Inr (Some (NInt 0)))) (\<lambda>editionDeprecated.
     rbind (json_field2 object ''deprecationWarning'' ''deprecation_warning'' (some_res js_String) (Inr (Some ''''))) (\<lambda>deprecationWarning.
     rbind (json_field2 object ''editionRemoved'' ''edition_removed'' (some_res (enum_number Edition_value editionFromJSON)) (Inr (Some (NInt 0)))) (\<lambda>editionRemoved.
     Inr \<lparr>FieldOptions_FeatureSupport_editionIntroduced = editionIntroduced, FieldOptions_FeatureSupport_editionDeprecated = editionDeprecated, FieldOptions_FeatureSupport_deprecationWarning = deprecationWarning, FieldOptions_FeatureSupport_editionRemoved = editionRemoved\<rparr>))))"

definition FieldOptions_FeatureSupport_toJSON :: "FieldOptions_FeatureSupport \<Rightarrow> jsval" where
  "FieldOptions_FeatureSupport_toJSON message = json_object [
     (''editionIntroduced'', put_other (FieldOptions_FeatureSupport_editionIntroduced message) (NInt 0) (\<lambda>n. JStr (editionToJSON n))),
     (''editionDeprecated'', put_other (FieldOptions_FeatureSupport_editionDeprecated message) (NInt 0) (\<lambda>n. JStr (editionToJSON n))),
     (''deprecationWarning'', put_other (FieldOptions_FeatureSupport_deprecationWarning message) '''' JStr),
     (''editionRemoved'', put_other (FieldOptions_FeatureSupport_editionRemoved message) (NInt 0) (\<lambda>n. JStr (editionToJSON n)))]"

record FieldOptions_FeatureSupport_Partial =
  Partial_FieldOptions_FeatureSupport_editionIntroduced :: "jsnum option"
  Partial_FieldOptions_FeatureSupport_editionDeprecated :: "jsnum option"
  Partial_FieldOptions_FeatureSupport_deprecationWarning :: "string option"
  Partial_FieldOptions_FeatureSupport_editionRemoved :: "jsnum option"

definition FieldOptions_FeatureSupport_fromPartial :: "FieldOptions_FeatureSupport_Partial \<Rightarrow> FieldOptions_FeatureSupport" where
  "FieldOptions_FeatureSupport_fromPartial object = createBaseFieldOptions_FeatureSupport\<lparr>
     FieldOptions_FeatureSupport_editionIntroduced := Some (nullish (Partial_FieldOptions_FeatureSupport_editionIntroduced object) (NInt 0)),
     FieldOptions_FeatureSupport_editionDeprecated := Some (nullish (Partial_FieldOptions_FeatureSupport_editionDeprecated object) (NInt 0)),
     FieldOptions_FeatureSupport_deprecationWarning := Some (nullish (Partial_FieldOptions_FeatureSupport_deprecationWarning object) ''''),
     FieldOptions_FeatureSupport_editionRemoved := Some (nullish (Partial_FieldOptions_FeatureSupport_editionRemoved object) (NInt 0))\<rparr>"

definition FieldOptions_FeatureSupport_create :: "FieldOptions_FeatureSupport_Partial option \<Rightarrow> FieldOptions_FeatureSupport" where
  "FieldOptions_FeatureSupport_create base = FieldOptions_FeatureSupport_fromPartial (nullish base \<lparr>Partial_FieldOptions_FeatureSupport_editionIntroduced = None, Partial_FieldOptions_FeatureSupport_editionDeprecated = None, Partial_FieldOptions_FeatureSupport_deprecationWarning = None, Partial_FieldOptions_FeatureSupport_editionRemoved = None\<rparr>)"

section \<open>DescriptorProto_ReservedRange\<close>

record DescriptorProto_ReservedRange =
  DescriptorProto_ReservedRange_start :: "jsnum option"
  DescriptorProto_ReservedRange_end :: "jsnum option"

definition createBaseDescriptorProto_ReservedRange :: DescriptorProto_ReservedRange where
  "createBaseDescriptorProto_ReservedRange = \<lparr>DescriptorProto_ReservedRange_start = Some (NInt 0), DescriptorProto_ReservedRange_end = Some (NInt 0)\<rparr>"

definition DescriptorProto_ReservedRange_encode :: "('w, 'r) wire \<Rightarrow> DescriptorProto_ReservedRange \<Rightarrow> 'w stmt" where
  "DescriptorProto_ReservedRange_encode W message = run [
     if_other (DescriptorProto_ReservedRange_start message) (NInt 0) (\<lambda>v. tagged W 8 (wInt32 W v)),
     if_other (DescriptorProto_ReservedRange_end message) (NInt 0) (\<lambda>v. tagged W 16 (wInt32 W v))]"

definition DescriptorProto_ReservedRange_switch :: "('w, 'r) wire \<Rightarrow> (DescriptorProto_ReservedRange, 'r) switch" where
  "DescriptorProto_ReservedRange_switch W tag message reader =
   (if drop_bit 3 tag = 1 then case_read tag 8 (rInt32 W) (store_some DescriptorProto_ReservedRange_start_update) message reader
    else if drop_bit 3 tag = 2 then case_read tag 16 (rInt32 W) (store_some DescriptorProto_ReservedRange_end_update) message reader
    else Inr None)"

definition DescriptorProto_ReservedRange_decode :: "('w, 'r) wire \<Rightarrow> 'r input \<Rightarrow> nat option \<Rightarrow> (DescriptorProto_ReservedRange \<times> 'r) res" where
  "DescriptorProto_ReservedRange_decode W = decode_msg W (DescriptorProto_ReservedRange_switch W) createBaseDescriptorProto_ReservedRange"

definition DescriptorProto_ReservedRange_fromJSON :: "jsval \<Rightarrow> DescriptorProto_ReservedRange res" where
  "DescriptorProto_ReservedRange_fromJSON object =
     rbind (json_field object ''start'' (some_res js_Number) (Inr (Some (NInt 0)))) (\<lambda>start.
     rbind (json_field object ''end'' (some_res js_Number) (Inr (Some (NInt 0)))) (\<lambda>end.
     Inr \<lparr>DescriptorProto_ReservedRange_start = start, DescriptorProto_ReservedRange_end = end\<rparr>))"

definition DescriptorProto_ReservedRange_toJSON :: "DescriptorProto_ReservedRange \<Rightarrow> jsval" where
  "DescriptorProto_ReservedRange_toJSON message = json_object [
     (''start'', put_other (DescriptorProto_ReservedRange_start message) (NInt 0) (\<lambda>n. JNum (js_round n))),
     (''end'', put_other (DescriptorProto_ReservedRange_end message) (NInt 0) (\<lambda>n. JNum (js_round n)))]"

record DescriptorProto_ReservedRange_Partial =
  Partial_DescriptorProto_ReservedRange_start :: "jsnum option"
  Partial_DescriptorProto_ReservedRange_end :: "jsnum option"

definition DescriptorProto_ReservedRange_fromPartial :: "DescriptorProto_ReservedRange_Partial \<Rightarrow> DescriptorProto_ReservedRange" where
  "DescriptorProto_ReservedRange_fromPartial object = createBaseDescriptorProto_ReservedRange\<lparr>
     DescriptorProto_ReservedRange_start := Some (nullish (Partial_DescriptorProto_ReservedRange_start object) (NInt 0)),
     DescriptorProto_ReservedRange_end := Some (nullish (Partial_DescriptorProto_ReservedRange_end object) (NInt 0))\<rparr>"

definition DescriptorProto_ReservedRange_create :: "DescriptorProto_ReservedRange_Partial option \<Rightarrow> DescriptorProto_ReservedRange" where
  "DescriptorProto_ReservedRange_create base = DescriptorProto_ReservedRange_fromPartial (nullish base \<lparr>Partial_DescriptorProto_ReservedRange_start = None, Partial_DescriptorProto_ReservedRange_end = None\<rparr>)"

section \<open>EnumDescriptorProto_EnumReservedRange\<close>

record EnumDescriptorProto_EnumReservedRange =
  EnumDescriptorProto_EnumReservedRange_start :: "jsnum option"
  EnumDescriptorProto_EnumReservedRange_end :: "jsnum option"

definition createBaseEnumDescriptorProto_EnumReservedRange :: EnumDescriptorProto_EnumReservedRange where
  "createBaseEnumDescriptorProto_EnumReservedRange = \<lparr>EnumDescriptorProto_EnumReservedRange_start = Some (NInt 0), EnumDescriptorProto_EnumReservedRange_end = Some (NInt 0)\<rparr>"

definition EnumDescriptorProto_EnumReservedRange_encode :: "('w, 'r) wire \<Rightarrow> EnumDescriptorProto_EnumReservedRange \<Rightarrow> 'w stmt" where
  "EnumDescriptorProto_EnumReservedRange_encode W message = run [
     if_other (EnumDescriptorProto_EnumReservedRange_start message) (NInt 0) (\<lambda>v. tagged W 8 (wInt32 W v)),
     if_other (EnumDescriptorProto_EnumReservedRange_end message) (NInt 0) (\<lambda>v. tagged W 16 (wInt32 W v))]"

definition EnumDescriptorProto_EnumReservedRange_switch :: "('w, 'r) wire \<Rightarrow> (EnumDescriptorProto_EnumReservedRange, 'r) switch" where
  "EnumDescriptorProto_EnumReservedRange_switch W tag message reader =
   (if drop_bit 3 tag = 1 then case_read tag 8 (rInt32 W) (store_some EnumDescriptorProto_EnumReservedRange_start_update) message reader
    else if drop_bit 3 tag = 2 then case_read tag 16 (rInt32 W) (store_some EnumDescriptorProto_EnumReservedRange_end_update) message reader
    else Inr None)"

definition EnumDescriptorProto_EnumReservedRange_decode :: "('w, 'r) wire \<Rightarrow> 'r input \<Rightarrow> nat option \<Rightarrow> (EnumDescriptorProto_EnumReservedRange \<times> 'r) res" where
  "EnumDescriptorProto_EnumReservedRange_decode W = decode_msg W (EnumDescriptorProto_EnumReservedRange_switch W) createBaseEnumDescriptorProto_EnumReservedRange"

definition EnumDescriptorProto_EnumReservedRange_fromJSON :: "jsval \<Rightarrow> EnumDescriptorProto_EnumReservedRange res" where
  "EnumDescriptorProto_EnumReservedRange_fromJSON object =
     rbind (json_field object ''start'' (some_res js_Number) (Inr (Some (NInt 0)))) (\<lambda>start.
     rbind (json_field object ''end'' (some_res js_Number) (Inr (Some (NInt 0)))) (\<lambda>end.
     Inr \<lparr>EnumDescriptorProto_EnumReservedRange_start = start, EnumDescriptorProto_EnumReservedRange_end = end\<rparr>))"

definition EnumDescriptorProto_EnumReservedRange_toJSON :: "EnumDescriptorProto_EnumReservedRange \<Rightarrow> jsval" where
  "EnumDescriptorProto_EnumReservedRange_toJSON message = json_object [
     (''start'', put_other (EnumDescriptorProto_EnumReservedRange_start message) (NInt 0) (\<lambda>n. JNum (js_round n))),
     (''end'', put_other (EnumDescriptorProto_EnumReservedRange_end message) (NInt 0) (\<lambda>n. JNum (js_round n)))]"

record EnumDescriptorProto_EnumReservedRange_Partial =
  Partial_EnumDescriptorProto_EnumReservedRange_start :: "jsnum option"
  Partial_EnumDescriptorProto_EnumReservedRange_end :: "jsnum option"

definition EnumDescriptorProto_EnumReservedRange_fromPartial :: "EnumDescriptorProto_EnumReservedRange_Partial \<Rightarrow> EnumDescriptorProto_EnumReservedRange" where
  "EnumDescriptorProto_EnumReservedRange_fromPartial object = createBaseEnumDescriptorProto_EnumReservedRange\<lparr>
     EnumDescriptorProto_EnumReservedRange_start := Some (nullish (Partial_EnumDescriptorProto_EnumReservedRange_start object) (NInt 0)),
     EnumDescriptorProto_EnumReservedRange_end := Some (nullish (Partial_EnumDescriptorProto_EnumReservedRange_end object) (NInt 0))\<rparr>"

definition EnumDescriptorProto_EnumReservedRange_create :: "EnumDescriptorProto_EnumReservedRange_Partial option \<Rightarrow> EnumDescriptorProto_EnumReservedRange" where
  "EnumDescriptorProto_EnumReservedRange_create base = EnumDescriptorProto_EnumReservedRange_fromPartial (nullish base \<lparr>Partial_EnumDescriptorProto_EnumReservedRange_start = None, Partial_EnumDescriptorProto_EnumReservedRange_end = None\<rparr>)"

section \<open>ExtensionRangeOptions_Declaration\<close>

record ExtensionRangeOptions_Declaration =
  ExtensionRangeOptions_Declaration_number :: "jsnum option"
  ExtensionRangeOptions_Declaration_fullName :: "string option"
  ExtensionRangeOptions_Declaration_type :: "string option"
  ExtensionRangeOptions_Declaration_reserved :: "bool option"
  ExtensionRangeOptions_Declaration_repeated :: "bool option"

definition createBaseExtensionRangeOptions_Declaration :: ExtensionRangeOptions_Declaration where
  "createBaseExtensionRangeOptions_Declaration = \<lparr>ExtensionRangeOptions_Declaration_number = Some (NInt 0), ExtensionRangeOptions_Declaration_fullName = Some '''', ExtensionRangeOptions_Declaration_type = Some '''', ExtensionRangeOptions_Declaration_reserved = Some False, ExtensionRangeOptions_Declaration_repeated = Some False\<rparr>"

definition ExtensionRangeOptions_Declaration_encode :: "('w, 'r) wire \<Rightarrow> ExtensionRangeOptions_Declaration \<Rightarrow> 'w stmt" where
  "ExtensionRangeOptions_Declaration_encode W message = run [
     if_other (ExtensionRangeOptions_Declaration_number message) (NInt 0) (\<lambda>v. tagged W 8 (wInt32 W v)),
     if_other (ExtensionRangeOptions_Declaration_fullName message) '''' (\<lambda>v. tagged W 18 (wString W v)),
     if_other (ExtensionRangeOptions_Declaration_type message) '''' (\<lambda>v. tagged W 26 (wString W v)),
     if_other (ExtensionRangeOptions_Declaration_reserved message) False (\<lambda>v. tagged W 40 (wBool W v)),
     if_other (ExtensionRangeOptions_Declaration_repeated message) False (\<lambda>v. tagged W 48 (wBool W v))]"

definition ExtensionRangeOptions_Declaration_switch :: "('w, 'r) wire \<Rightarrow> (ExtensionRangeOptions_Declaration, 'r) switch" where
  "ExtensionRangeOptions_Declaration_switch W tag message reader =
   (if drop_bit 3 tag = 1 then case_read tag 8 (rInt32 W) (store_some ExtensionRangeOptions_Declaration_number_update) message reader
    else if drop_bit 3 tag = 2 then case_read tag 18 (rString W) (store_some ExtensionRangeOptions_Declaration_fullName_update) message reader
    else if drop_bit 3 tag = 3 then case_read tag 26 (rString W) (store_some ExtensionRangeOptions_Declaration_type_update) message reader
    else if drop_bit 3 tag = 5 then case_read tag 40 (rBool W) (store_some ExtensionRangeOptions_Declaration_reserved_update) message reader
    else if drop_bit 3 tag = 6 then case_read tag 48 (rBool W) (store_some ExtensionRangeOptions_Declaration_repeated_update) message reader
    else Inr None)"

definition ExtensionRangeOptions_Declaration_decode :: "('w, 'r) wire \<Rightarrow> 'r input \<Rightarrow> nat option \<Rightarrow> (ExtensionRangeOptions_Declaration \<times> 'r) res" where
  "ExtensionRangeOptions_Declaration_decode W = decode_msg W (ExtensionRangeOptions_Declaration_switch W) createBaseExtensionRangeOptions_Declaration"

definition ExtensionRangeOptions_Declaration_fromJSON :: "jsval \<Rightarrow> ExtensionRangeOptions_Declaration res" where
  "ExtensionRangeOptions_Declaration_fromJSON object =
     rbind (json_field object ''number'' (some_res js_Number) (Inr (Some (NInt 0)))) (\<lambda>number.
     rbind (json_field2 object ''fullName'' ''full_name'' (some_res js_String) (Inr (Some ''''))) (\<lambda>fullName.
     rbind (json_field object ''type'' (some_res js_String) (Inr (Some ''''))) (\<lambda>type.
     rbind (json_field object ''reserved'' (some_res js_Boolean_res) (Inr (Some False))) (\<lambda>reserved.
     rbind (json_field object ''repeated'' (some_res js_Boolean_res) (Inr (Some False))) (\<lambda>repeated.
     Inr \<lparr>ExtensionRangeOptions_Declaration_number = number, ExtensionRangeOptions_Declaration_fullName = fullName, ExtensionRangeOptions_Declaration_type = type, ExtensionRangeOptions_Declaration_reserved = reserved, ExtensionRangeOptions_Declaration_repeated = repeated\<rparr>)))))"

definition ExtensionRangeOptions_Declaration_toJSON :: "ExtensionRangeOptions_Declaration \<Rightarrow> jsval" where
  "ExtensionRangeOptions_Declaration_toJSON message = json_object [
     (''number'', put_other (ExtensionRangeOptions_Declaration_number message) (NInt 0) (\<lambda>n. JNum (js_round n))),
     (''fullName'', put_other (ExtensionRangeOptions_Declaration_fullName message) '''' JStr),
     (''type'', put_other (ExtensionRangeOptions_Declaration_type message) '''' JStr),
     (''reserved'', put_other (ExtensionRangeOptions_Declaration_reserved message) False JBool),
     (''repeated'', put_other (ExtensionRangeOptions_Declaration_repeated message) False JBool)]"

record ExtensionRangeOptions_Declaration_Partial =
  Partial_ExtensionRangeOptions_Declaration_number :: "jsnum option"
  Partial_ExtensionRangeOptions_Declaration_fullName :: "string option"
  Partial_ExtensionRangeOptions_Declaration_type :: "string option"
  Partial_ExtensionRangeOptions_Declaration_reserved :: "bool option"
  Partial_ExtensionRangeOptions_Declaration_repeated :: "bool option"

definition ExtensionRangeOptions_Declaration_fromPartial :: "ExtensionRangeOptions_Declaration_Partial \<Rightarrow> ExtensionRangeOptions_Declaration" where
  "ExtensionRangeOptions_Declaration_fromPartial object = createBaseExtensionRangeOptions_Declaration\<lparr>
     ExtensionRangeOptions_Declaration_number := Some (nullish (Partial_ExtensionRangeOptions_Declaration_number object) (NInt 0)),
     ExtensionRangeOptions_Declaration_fullName := Some (nullish (Partial_ExtensionRangeOptions_Declaration_fullName object) ''''),
     ExtensionRangeOptions_Declaration_type := Some (nullish (Partial_ExtensionRangeOptions_Declaration_type object) ''''),
     ExtensionRangeOptions_Declaration_reserved := Some (nullish (Partial_ExtensionRangeOptions_Declaration_reserved object) False),
     ExtensionRangeOptions_Declaration_repeated := Some (nullish (Partial_ExtensionRangeOptions_Declaration_repeated object) False)\<rparr>"

definition ExtensionRangeOptions_Declaration_create :: "ExtensionRangeOptions_Declaration_Partial option \<Rightarrow> ExtensionRangeOptions_Declaration" where
  "ExtensionRangeOptions_Declaration_create base = ExtensionRangeOptions_Declaration_fromPartial (nullish base \<lparr>Partial_ExtensionRangeOptions_Declaration_number = None, Partial_ExtensionRangeOptions_Declaration_fullName = None, Partial_ExtensionRangeOptions_Declaration_type = None, Partial_ExtensionRangeOptions_Declaration_reserved = None, Partial_ExtensionRangeOptions_Declaration_repeated = None\<rparr>)"

section \<open>SourceCodeInfo_Location\<close>

record SourceCodeInfo_Location =
  SourceCodeInfo_Location_path :: "jsnum list"
  SourceCodeInfo_Location_span :: "jsnum list"
  SourceCodeInfo_Location_leadingComments :: "string option"
  SourceCodeInfo_Location_trailingComments :: "string option"
  SourceCodeInfo_Location_leadingDetachedComments :: "string list"

definition createBaseSourceCodeInfo_Location :: SourceCodeInfo_Location where
  "createBaseSourceCodeInfo_Location = \<lparr>SourceCodeInfo_Location_path = [], SourceCodeInfo_Location_span = [], SourceCodeInfo_Location_leadingComments = Some '''', SourceCodeInfo_Location_trailingComments = Some '''', SourceCodeInfo_Location_leadingDetachedComments = []\<rparr>"

definition SourceCodeInfo_Location_encode :: "('w, 'r) wire \<Rightarrow> SourceCodeInfo_Location \<Rightarrow> 'w stmt" where
  "SourceCodeInfo_Location_encode W message = run [
     packed_ints W 10 (SourceCodeInfo_Location_path message),
     packed_ints W 18 (SourceCodeInfo_Location_span message),
     if_other (SourceCodeInfo_Location_leadingComments message) '''' (\<lambda>v. tagged W 26 (wString W v)),
     if_other (SourceCodeInfo_Location_trailingComments message) '''' (\<lambda>v. tagged W 34 (wString W v)),
     for_each (SourceCodeInfo_Location_leadingDetachedComments message) (\<lambda>v. tagged W 50 (wString W v))]"

definition SourceCodeInfo_Location_switch :: "('w, 'r) wire \<Rightarrow> (SourceCodeInfo_Location, 'r) switch" where
  "SourceCodeInfo_Location_switch W tag message reader =
   (if drop_bit 3 tag = 1 then case_packed W tag 8 10 (rInt32 W) (push SourceCodeInfo_Location_path_update) message reader
    else if drop_bit 3 tag = 2 then case_packed W tag 16 18 (rInt32 W) (push SourceCodeInfo_Location_span_update) message reader
    else if drop_bit 3 tag = 3 then case_read tag 26 (rString W) (store_some SourceCodeInfo_Location_leadingComments_update) message reader
    else if drop_bit 3 tag = 4 then case_read tag 34 (rString W) (store_some SourceCodeInfo_Location_trailingComments_update) message reader
    else if drop_bit 3 tag = 6 then case_read tag 50 (rString W) (push SourceCodeInfo_Location_leadingDetachedComments_update) message reader
    else Inr None)"

definition SourceCodeInfo_Location_decode :: "('w, 'r) wire \<Rightarrow> 'r input \<Rightarrow> nat option \<Rightarrow> (SourceCodeInfo_Location \<times> 'r) res" where
  "SourceCodeInfo_Location_decode W = decode_msg W (SourceCodeInfo_Location_switch W) createBaseSourceCodeInfo_Location"

definition SourceCodeInfo_Location_fromJSON :: "jsval \<Rightarrow> SourceCodeInfo_Location res" where
  "SourceCodeInfo_Location_fromJSON object =
     rbind (json_array object ''path'' js_Number (Inr [])) (\<lambda>path.
     rbind (json_array object ''span'' js_Number (Inr [])) (\<lambda>span.
     rbind (json_field2 object ''leadingComments'' ''leading_comments'' (some_res js_String) (Inr (Some ''''))) (\<lambda>leadingComments.
     rbind (json_field2 object ''trailingComments'' ''trailing_comments'' (some_res js_String) (Inr (Some ''''))) (\<lambda>trailingComments.
     rbind (json_array object ''leadingDetachedComments'' js_String (json_array object ''leading_detached_comments'' js_String (Inr []))) (\<lambda>leadingDetachedComments.
     Inr \<lparr>SourceCodeInfo_Location_path = path, SourceCodeInfo_Location_span = span, SourceCodeInfo_Location_leadingComments = leadingComments, SourceCodeInfo_Location_trailingComments = trailingComments, SourceCodeInfo_Location_leadingDetachedComments = leadingDetachedComments\<rparr>)))))"

definition SourceCodeInfo_Location_toJSON :: "SourceCodeInfo_Location \<Rightarrow> jsval" where
  "SourceCodeInfo_Location_toJSON message = json_object [
     (''path'', put_if (SourceCodeInfo_Location_path message \<noteq> []) (JArr (map (\<lambda>e. JNum (js_round e)) (SourceCodeInfo_Location_path message)))),
     (''span'', put_if (SourceCodeInfo_Location_span message \<noteq> []) (JArr (map (\<lambda>e. JNum (js_round e)) (SourceCodeInfo_Location_span message)))),
     (''leadingComments'', put_other (SourceCodeInfo_Location_leadingComments message) '''' JStr),
     (''trailingComments'', put_other (SourceCodeInfo_Location_trailingComments message) '''' JStr),
     (''leadingDetachedComments'', put_if (SourceCodeInfo_Location_leadingDetachedComments message \<noteq> []) (JArr (map JStr (SourceCodeInfo_Location_leadingDetachedComments message))))]"

record SourceCodeInfo_Location_Partial =
  Partial_SourceCodeInfo_Location_path :: "jsnum list option"
  Partial_SourceCodeInfo_Location_span :: "jsnum list option"
  Partial_SourceCodeInfo_Location_leadingComments :: "string option"
  Partial_SourceCodeInfo_Location_trailingComments :: "string option"
  Partial_SourceCodeInfo_Location_leadingDetachedComments :: "string list option"

definition SourceCodeInfo_Location_fromPartial :: "SourceCodeInfo_Location_Partial \<Rightarrow> SourceCodeInfo_Location" where
  "SourceCodeInfo_Location_fromPartial object = createBaseSourceCodeInfo_Location\<lparr>
     SourceCodeInfo_Location_path := nullish (map_option (map (\<lambda>e. e)) (Partial_SourceCodeInfo_Location_path object)) [],
     SourceCodeInfo_Location_span := nullish (map_option (map (\<lambda>e. e)) (Partial_SourceCodeInfo_Location_span object)) [],
     SourceCodeInfo_Location_leadingComments := Some (nullish (Partial_SourceCodeInfo_Location_leadingComments object) ''''),
     SourceCodeInfo_Location_trailingComments := Some (nullish (Partial_SourceCodeInfo_Location_trailingComments object) ''''),
     SourceCodeInfo_Location_leadingDetachedComments := nullish (map_option (map (\<lambda>e. e)) (Partial_SourceCodeInfo_Location_leadingDetachedComments object)) []\<rparr>"

definition SourceCodeInfo_Location_create :: "SourceCodeInfo_Location_Partial option \<Rightarrow> SourceCodeInfo_Location" where
  "SourceCodeInfo_Location_create base = SourceCodeInfo_Location_fromPartial (nullish base \<lparr>Partial_SourceCodeInfo_Location_path = None, Partial_SourceCodeInfo_Location_span = None, Partial_SourceCodeInfo_Location_leadingComments = None, Partial_SourceCodeInfo_Location_trailingComments = None, Partial_SourceCodeInfo_Location_leadingDetachedComments = None\<rparr>)"

section \<open>SourceCodeInfo\<close>

record SourceCodeInfo =
  SourceCodeInfo_location :: "SourceCodeInfo_Location list"

definition createBaseSourceCodeInfo :: SourceCodeInfo where
  "createBaseSourceCodeInfo = \<lparr>SourceCodeInfo_location = []\<rparr>"

definition SourceCodeInfo_encode :: "('w, 'r) wire \<Rightarrow> SourceCodeInfo \<Rightarrow> 'w stmt" where
  "SourceCodeInfo_encode W message = run [
     for_each (SourceCodeInfo_location message) (\<lambda>v. sub_message W 10 (SourceCodeInfo_Location_encode W v))]"

definition SourceCodeInfo_switch :: "('w, 'r) wire \<Rightarrow> (SourceCodeInfo, 'r) switch" where
  "SourceCodeInfo_switch W tag message reader =
   (if drop_bit 3 tag = 1 then case_read tag 10 (read_message W (SourceCodeInfo_Location_decode W)) (push SourceCodeInfo_location_update) message reader
    else Inr None)"

definition SourceCodeInfo_decode :: "('w, 'r) wire \<Rightarrow> 'r input \<Rightarrow> nat option \<Rightarrow> (SourceCodeInfo \<times> 'r) res" where
  "SourceCodeInfo_decode W = decode_msg W (SourceCodeInfo_switch W) createBaseSourceCodeInfo"

definition SourceCodeInfo_fromJSON :: "jsval \<Rightarrow> SourceCodeInfo res" where
  "SourceCodeInfo_fromJSON object =
     rbind (json_array object ''location'' SourceCodeInfo_Location_fromJSON (Inr [])) (\<lambda>location.
     Inr \<lparr>SourceCodeInfo_location = location\<rparr>)"

definition SourceCodeInfo_toJSON :: "SourceCodeInfo \<Rightarrow> jsval" where
  "SourceCodeInfo_toJSON message = json_object [
     (''location'', put_if (SourceCodeInfo_location message \<noteq> []) (JArr (map SourceCodeInfo_Location_toJSON (SourceCodeInfo_location message))))]"

record SourceCodeInfo_Partial =
  Partial_SourceCodeInfo_location :: "SourceCodeInfo_Location_Partial list option"

definition SourceCodeInfo_fromPartial :: "SourceCodeInfo_Partial \<Rightarrow> SourceCodeInfo" where
  "SourceCodeInfo_fromPartial object = createBaseSourceCodeInfo\<lparr>
     SourceCodeInfo_location := nullish (map_option (map SourceCodeInfo_Location_fromPartial) (Partial_SourceCodeInfo_location object)) []\<rparr>"

definition SourceCodeInfo_create :: "SourceCodeInfo_Partial option \<Rightarrow> SourceCodeInfo" where
  "SourceCodeInfo_create base = SourceCodeInfo_fromPartial (nullish base \<lparr>Partial_SourceCodeInfo_location = None\<rparr>)"

section \<open>GeneratedCodeInfo_Annotation\<close>

record GeneratedCodeInfo_Annotation =
  GeneratedCodeInfo_Annotation_path :: "jsnum list"
  GeneratedCodeInfo_Annotation_sourceFile :: "string option"
  GeneratedCodeInfo_Annotation_begin :: "jsnum option"
  GeneratedCodeInfo_Annotation_end :: "jsnum option"
  GeneratedCodeInfo_Annotation_semantic :: "jsnum option"

definition createBaseGeneratedCodeInfo_Annotation :: GeneratedCodeInfo_Annotation where
  "createBaseGeneratedCodeInfo_Annotation = \<lparr>GeneratedCodeInfo_Annotation_path = [], GeneratedCodeInfo_Annotation_sourceFile = Some '''', GeneratedCodeInfo_Annotation_begin = Some (NInt 0), GeneratedCodeInfo_Annotation_end = Some (NInt 0), GeneratedCodeInfo_Annotation_semantic = Some (NInt 0)\<rparr>"

definition GeneratedCodeInfo_Annotation_encode :: "('w, 'r) wire \<Rightarrow> GeneratedCodeInfo_Annotation \<Rightarrow> 'w stmt" where
  "GeneratedCodeInfo_Annotation_encode W message = run [
     packed_ints W 10 (GeneratedCodeInfo_Annotation_path message),
     if_other (GeneratedCodeInfo_Annotation_sourceFile message) '''' (\<lambda>v. tagged W 18 (wString W v)),
     if_other (GeneratedCodeInfo_Annotation_begin message) (NInt 0) (\<lambda>v. tagged W 24 (wInt32 W v)),
     if_other (GeneratedCodeInfo_Annotation_end message) (NInt 0) (\<lambda>v. tagged W 32 (wInt32 W v)),
     if_other (GeneratedCodeInfo_Annotation_semantic message) (NInt 0) (\<lambda>v. tagged W 40 (wInt32 W v))]"

definition GeneratedCodeInfo_Annotation_switch :: "('w, 'r) wire \<Rightarrow> (GeneratedCodeInfo_Annotation, 'r) switch" where
  "GeneratedCodeInfo_Annotation_switch W tag message reader =
   (if drop_bit 3 tag = 1 then case_packed W tag 8 10 (rInt32 W) (push GeneratedCodeInfo_Annotation_path_update) message reader
    else if drop_bit 3 tag = 2 then case_read tag 18 (rString W) (store_some GeneratedCodeInfo_Annotation_sourceFile_update) message reader
    else if drop_bit 3 tag = 3 then case_read tag 24 (rInt32 W) (store_some GeneratedCodeInfo_Annotation_begin_update) message reader
    else if drop_bit 3 tag = 4 then case_read tag 32 (rInt32 W) (store_some GeneratedCodeInfo_Annotation_end_update) message reader
    else if drop_bit 3 tag = 5 then case_read tag 40 (rInt32 W) (store_some GeneratedCodeInfo_Annotation_semantic_update) message reader
    else Inr None)"

definition GeneratedCodeInfo_Annotation_decode :: "('w, 'r) wire \<Rightarrow> 'r input \<Rightarrow> nat option \<Rightarrow> (GeneratedCodeInfo_Annotation \<times> 'r) res" where
  "GeneratedCodeInfo_Annotation_decode W = decode_msg W (GeneratedCodeInfo_Annotation_switch W) createBaseGeneratedCodeInfo_Annotation"

definition GeneratedCodeInfo_Annotation_fromJSON :: "jsval \<Rightarrow> GeneratedCodeInfo_Annotation res" where
  "GeneratedCodeInfo_Annotation_fromJSON object =
     rbind (json_array object ''path'' js_Number (Inr [])) (\<lambda>path.
     rbind (json_field2 object ''sourceFile'' ''source_file'' (some_res js_String) (Inr (Some ''''))) (\<lambda>sourceFile.
     rbind (json_field object ''begin'' (some_res js_Number) (Inr (Some (NInt 0)))) (\<lambda>begin.
     rbind (json_field object ''end'' (some_res js_Number) (Inr (Some (NInt 0)))) (\<lambda>end.
     rbind (json_field object ''semantic'' (some_res (enum_number GeneratedCodeInfo_Annotation_Semantic_value generatedCodeInfo_Annotation_SemanticFromJSON)) (Inr (Some (NInt 0)))) (\<lambda>semantic.
     Inr \<lparr>GeneratedCodeInfo_Annotation_path = path, GeneratedCodeInfo_Annotation_sourceFile = sourceFile, GeneratedCodeInfo_Annotation_begin = begin, GeneratedCodeInfo_Annotation_end = end, GeneratedCodeInfo_Annotation_semantic = semantic\<rparr>)))))"

definition GeneratedCodeInfo_Annotation_toJSON :: "GeneratedCodeInfo_Annotation \<Rightarrow> jsval" where
  "GeneratedCodeInfo_Annotation_toJSON message = json_object [
     (''path'', put_if (GeneratedCodeInfo_Annotation_path message \<noteq> []) (JArr (map (\<lambda>e. JNum (js_round e)) (GeneratedCodeInfo_Annotation_path message)))),
     (''sourceFile'', put_other (GeneratedCodeInfo_Annotation_sourceFile message) '''' JStr),
     (''begin'', put_other (GeneratedCodeInfo_Annotation_begin message) (NInt 0) (\<lambda>n. JNum (js_round n))),
     (''end'', put_other (GeneratedCodeInfo_Annotation_end message) (NInt 0) (\<lambda>n. JNum (js_round n))),
     (''semantic'', put_other (GeneratedCodeInfo_Annotation_semantic message) (NInt 0) (\<lambda>n. JStr (generatedCodeInfo_Annotation_SemanticToJSON n)))]"

record GeneratedCodeInfo_Annotation_Partial =
  Partial_GeneratedCodeInfo_Annotation_path :: "jsnum list option"
  Partial_GeneratedCodeInfo_Annotation_sourceFile :: "string option"
  Partial_GeneratedCodeInfo_Annotation_begin :: "jsnum option"
  Partial_GeneratedCodeInfo_Annotation_end :: "jsnum option"
  Partial_GeneratedCodeInfo_Annotation_semantic :: "jsnum option"

definition GeneratedCodeInfo_Annotation_fromPartial :: "GeneratedCodeInfo_Annotation_Partial \<Rightarrow> GeneratedCodeInfo_Annotation" where
  "GeneratedCodeInfo_Annotation_fromPartial object = createBaseGeneratedCodeInfo_Annotation\<lparr>
     GeneratedCodeInfo_Annotation_path := nullish (map_option (map (\<lambda>e. e)) (Partial_GeneratedCodeInfo_Annotation_path object)) [],
     GeneratedCodeInfo_Annotation_sourceFile := Some (nullish (Partial_GeneratedCodeInfo_Annotation_sourceFile object) ''''),
     GeneratedCodeInfo_Annotation_begin := Some (nullish (Partial_GeneratedCodeInfo_Annotation_begin object) (NInt 0)),
     GeneratedCodeInfo_Annotation_end := Some (nullish (Partial_GeneratedCodeInfo_Annotation_end object) (NInt 0)),
     GeneratedCodeInfo_Annotation_semantic := Some (nullish (Partial_GeneratedCodeInfo_Annotation_semantic object) (NInt 0))\<rparr>"

definition GeneratedCodeInfo_Annotation_create :: "GeneratedCodeInfo_Annotation_Partial option \<Rightarrow> GeneratedCodeInfo_Annotation" where
  "GeneratedCodeInfo_Annotation_create base = GeneratedCodeInfo_Annotation_fromPartial (nullish base \<lparr>Partial_GeneratedCodeInfo_Annotation_path = None, Partial_GeneratedCodeInfo_Annotation_sourceFile = None, Partial_GeneratedCodeInfo_Annotation_begin = None, Partial_GeneratedCodeInfo_Annotation_end = None, Partial_GeneratedCodeInfo_Annotation_semantic = None\<rparr>)"

section \<open>GeneratedCodeInfo\<close>

record GeneratedCodeInfo =
  GeneratedCodeInfo_annotation :: "GeneratedCodeInfo_Annotation list"

definition createBaseGeneratedCodeInfo :: GeneratedCodeInfo where
  "createBaseGeneratedCodeInfo = \<lparr>GeneratedCodeInfo_annotation = []\<rparr>"

definition GeneratedCodeInfo_encode :: "('w, 'r) wire \<Rightarrow> GeneratedCodeInfo \<Rightarrow> 'w stmt" where
  "GeneratedCodeInfo_encode W message = run [
     for_each (GeneratedCodeInfo_annotation message) (\<lambda>v. sub_message W 10 (GeneratedCodeInfo_Annotation_encode W v))]"

definition GeneratedCodeInfo_switch :: "('w, 'r) wire \<Rightarrow> (GeneratedCodeInfo, 'r) switch" where
  "GeneratedCodeInfo_switch W tag message reader =
   (if drop_bit 3 tag = 1 then case_read tag 10 (read_message W (GeneratedCodeInfo_Annotation_decode W)) (push GeneratedCodeInfo_annotation_update) message reader
    else Inr None)"

definition GeneratedCodeInfo_decode :: "('w, 'r) wire \<Rightarrow> 'r input \<Rightarrow> nat option \<Rightarrow> (GeneratedCodeInfo \<times> 'r) res" where
  "GeneratedCodeInfo_decode W = decode_msg W (GeneratedCodeInfo_switch W) createBaseGeneratedCodeInfo"

definition GeneratedCodeInfo_fromJSON :: "jsval \<Rightarrow> GeneratedCodeInfo res" where
  "GeneratedCodeInfo_fromJSON object =
     rbind (json_array object ''annotation'' GeneratedCodeInfo_Annotation_fromJSON (Inr [])) (\<lambda>annotation.
     Inr \<lparr>GeneratedCodeInfo_annotation = annotation\<rparr>)"

definition GeneratedCodeInfo_toJSON :: "GeneratedCodeInfo \<Rightarrow> jsval" where
  "GeneratedCodeInfo_toJSON message = json_object [
     (''annotation'', put_if (GeneratedCodeInfo_annotation message \<noteq> []) (JArr (map GeneratedCodeInfo_Annotation_toJSON (GeneratedCodeInfo_annotation message))))]"

record GeneratedCodeInfo_Partial =
  Partial_GeneratedCodeInfo_annotation :: "GeneratedCodeInfo_Annotation_Partial list option"

definition GeneratedCodeInfo_fromPartial :: "GeneratedCodeInfo_Partial \<Rightarrow> GeneratedCodeInfo" where
  "GeneratedCodeInfo_fromPartial object = createBaseGeneratedCodeInfo\<lparr>
     GeneratedCodeInfo_annotation := nullish (map_option (map GeneratedCodeInfo_Annotation_fromPartial) (Partial_GeneratedCodeInfo_annotation object)) []\<rparr>"

definition GeneratedCodeInfo_create :: "GeneratedCodeInfo_Partial option \<Rightarrow> GeneratedCodeInfo" where
  "GeneratedCodeInfo_create base = GeneratedCodeInfo_fromPartial (nullish base \<lparr>Partial_GeneratedCodeInfo_annotation = None\<rparr>)"

section \<open>The documented wire form\<close>

text \<open>
  \<open>M_fits\<close> bounds the wire form by what a 32-bit length can say. \<open>M_merge m0 m\<close> is \<open>m0\<close> after
  the fields of \<open>m\<close> have been read into it: a singular field that is present overwrites,
  elements of a repeated field are added at the end.
\<close>

definition UninterpretedOption_NamePart_bytes :: "UninterpretedOption_NamePart \<Rightarrow> bytes" where
  "UninterpretedOption_NamePart_bytes m = concat [
     str_field 10 (UninterpretedOption_NamePart_namePart m),
     bool_field 16 (UninterpretedOption_NamePart_isExtension m)]"

definition UninterpretedOption_NamePart_fits :: "UninterpretedOption_NamePart \<Rightarrow> bool" where
  "UninterpretedOption_NamePart_fits m \<longleftrightarrow> length (UninterpretedOption_NamePart_bytes m) < 2 ^ 32"

definition UninterpretedOption_NamePart_norm :: "UninterpretedOption_NamePart \<Rightarrow> UninterpretedOption_NamePart" where
  "UninterpretedOption_NamePart_norm m = \<lparr>
     UninterpretedOption_NamePart_namePart = UninterpretedOption_NamePart_namePart m,
     UninterpretedOption_NamePart_isExtension = UninterpretedOption_NamePart_isExtension m\<rparr>"

definition UninterpretedOption_NamePart_merge :: "UninterpretedOption_NamePart \<Rightarrow> UninterpretedOption_NamePart \<Rightarrow> UninterpretedOption_NamePart" where
  "UninterpretedOption_NamePart_merge m0 m = m0\<lparr>
     UninterpretedOption_NamePart_namePart := (if UninterpretedOption_NamePart_namePart m = '''' then UninterpretedOption_NamePart_namePart m0 else UninterpretedOption_NamePart_namePart m),
     UninterpretedOption_NamePart_isExtension := (if UninterpretedOption_NamePart_isExtension m then True else UninterpretedOption_NamePart_isExtension m0)\<rparr>"

definition UninterpretedOption_NamePart_jnorm :: "UninterpretedOption_NamePart \<Rightarrow> UninterpretedOption_NamePart" where
  "UninterpretedOption_NamePart_jnorm m = \<lparr>
     UninterpretedOption_NamePart_namePart = UninterpretedOption_NamePart_namePart m,
     UninterpretedOption_NamePart_isExtension = UninterpretedOption_NamePart_isExtension m\<rparr>"

definition FeatureSet_bytes :: "FeatureSet \<Rightarrow> bytes" where
  "FeatureSet_bytes m = concat [
     other_field 8 (NInt 0) int_payload (FeatureSet_fieldPresence m),
     other_field 16 (NInt 0) int_payload (FeatureSet_enumType m),
     other_field 24 (NInt 0) int_payload (FeatureSet_repeatedFieldEncoding m),
     other_field 32 (NInt 0) int_payload (FeatureSet_utf8Validation m),
     other_field 40 (NInt 0) int_payload (FeatureSet_messageEncoding m),
     other_field 48 (NInt 0) int_payload (FeatureSet_jsonFormat m),
     other_field 56 (NInt 0) int_payload (FeatureSet_enforceNamingStyle m)]"

definition FeatureSet_fits :: "FeatureSet \<Rightarrow> bool" where
  "FeatureSet_fits m \<longleftrightarrow> length (FeatureSet_bytes m) < 2 ^ 32 \<and>
     pred_option int32_ok (FeatureSet_fieldPresence m) \<and>
     pred_option int32_ok (FeatureSet_enumType m) \<and>
     pred_option int32_ok (FeatureSet_repeatedFieldEncoding m) \<and>
     pred_option int32_ok (FeatureSet_utf8Validation m) \<and>
     pred_option int32_ok (FeatureSet_messageEncoding m) \<and>
     pred_option int32_ok (FeatureSet_jsonFormat m) \<and>
     pred_option int32_ok (FeatureSet_enforceNamingStyle m)"

definition FeatureSet_norm :: "FeatureSet \<Rightarrow> FeatureSet" where
  "FeatureSet_norm m = \<lparr>
     FeatureSet_fieldPresence = Some (nullish (FeatureSet_fieldPresence m) (NInt 0)),
     FeatureSet_enumType = Some (nullish (FeatureSet_enumType m) (NInt 0)),
     FeatureSet_repeatedFieldEncoding = Some (nullish (FeatureSet_repeatedFieldEncoding m) (NInt 0)),
     FeatureSet_utf8Validation = Some (nullish (FeatureSet_utf8Validation m) (NInt 0)),
     FeatureSet_messageEncoding = Some (nullish (FeatureSet_messageEncoding m) (NInt 0)),
     FeatureSet_jsonFormat = Some (nullish (FeatureSet_jsonFormat m) (NInt 0)),
     FeatureSet_enforceNamingStyle = Some (nullish (FeatureSet_enforceNamingStyle m) (NInt 0))\<rparr>"

definition FeatureSet_merge :: "FeatureSet \<Rightarrow> FeatureSet \<Rightarrow> FeatureSet" where
  "FeatureSet_merge m0 m = m0\<lparr>
     FeatureSet_fieldPresence := (if FeatureSet_fieldPresence m = None \<or> FeatureSet_fieldPresence m = Some (NInt 0) then FeatureSet_fieldPresence m0 else FeatureSet_fieldPresence m),
     FeatureSet_enumType := (if FeatureSet_enumType m = None \<or> FeatureSet_enumType m = Some (NInt 0) then FeatureSet_enumType m0 else FeatureSet_enumType m),
     FeatureSet_repeatedFieldEncoding := (if FeatureSet_repeatedFieldEncoding m = None \<or> FeatureSet_repeatedFieldEncoding m = Some (NInt 0) then FeatureSet_repeatedFieldEncoding m0 else FeatureSet_repeatedFieldEncoding m),
     FeatureSet_utf8Validation := (if FeatureSet_utf8Validation m = None \<or> FeatureSet_utf8Validation m = Some (NInt 0) then FeatureSet_utf8Validation m0 else FeatureSet_utf8Validation m),
     FeatureSet_messageEncoding := (if FeatureSet_messageEncoding m = None \<or> FeatureSet_messageEncoding m = Some (NInt 0) then FeatureSet_messageEncoding m0 else FeatureSet_messageEncoding m),
     FeatureSet_jsonFormat := (if FeatureSet_jsonFormat m = None \<or> FeatureSet_jsonFormat m = Some (NInt 0) then FeatureSet_jsonFormat m0 else FeatureSet_jsonFormat m),
     FeatureSet_enforceNamingStyle := (if FeatureSet_enforceNamingStyle m = None \<or> FeatureSet_enforceNamingStyle m = Some (NInt 0) then FeatureSet_enforceNamingStyle m0 else FeatureSet_enforceNamingStyle m)\<rparr>"

definition FeatureSet_jnorm :: "FeatureSet \<Rightarrow> FeatureSet" where
  "FeatureSet_jnorm m = \<lparr>
     FeatureSet_fieldPresence = Some (enum_json (NInt 0) FeatureSet_FieldPresence_value featureSet_FieldPresenceFromJSON featureSet_FieldPresenceToJSON (FeatureSet_fieldPresence m)),
     FeatureSet_enumType = Some (enum_json (NInt 0) FeatureSet_EnumType_value featureSet_EnumTypeFromJSON featureSet_EnumTypeToJSON (FeatureSet_enumType m)),
     FeatureSet_repeatedFieldEncoding = Some (enum_json (NInt 0) FeatureSet_RepeatedFieldEncoding_value featureSet_RepeatedFieldEncodingFromJSON featureSet_RepeatedFieldEncodingToJSON (FeatureSet_repeatedFieldEncoding m)),
     FeatureSet_utf8Validation = Some (enum_json (NInt 0) FeatureSet_Utf8Validation_value featureSet_Utf8ValidationFromJSON featureSet_Utf8ValidationToJSON (FeatureSet_utf8Validation m)),
     FeatureSet_messageEncoding = Some (enum_json (NInt 0) FeatureSet_MessageEncoding_value featureSet_MessageEncodingFromJSON featureSet_MessageEncodingToJSON (FeatureSet_messageEncoding m)),
     FeatureSet_jsonFormat = Some (enum_json (NInt 0) FeatureSet_JsonFormat_value featureSet_JsonFormatFromJSON featureSet_JsonFormatToJSON (FeatureSet_jsonFormat m)),
     FeatureSet_enforceNamingStyle = Some (enum_json (NInt 0) FeatureSet_EnforceNamingStyle_value featureSet_EnforceNamingStyleFromJSON featureSet_EnforceNamingStyleToJSON (FeatureSet_enforceNamingStyle m))\<rparr>"

definition FeatureSetDefaults_FeatureSetEditionDefault_bytes :: "FeatureSetDefaults_FeatureSetEditionDefault \<Rightarrow> bytes" where
  "FeatureSetDefaults_FeatureSetEditionDefault_bytes m = concat [
     other_field 24 (NInt 0) int_payload (FeatureSetDefaults_FeatureSetEditionDefault_edition m),
     opt_msg_field 34 FeatureSet_bytes (FeatureSetDefaults_FeatureSetEditionDefault_overridableFeatures m),
     opt_msg_field 42 FeatureSet_bytes (FeatureSetDefaults_FeatureSetEditionDefault_fixedFeatures m)]"

definition FeatureSetDefaults_FeatureSetEditionDefault_fits :: "FeatureSetDefaults_FeatureSetEditionDefault \<Rightarrow> bool" where
  "FeatureSetDefaults_FeatureSetEditionDefault_fits m \<longleftrightarrow> length (FeatureSetDefaults_FeatureSetEditionDefault_bytes m) < 2 ^ 32 \<and>
     pred_option int32_ok (FeatureSetDefaults_FeatureSetEditionDefault_edition m) \<and>
     pred_option FeatureSet_fits (FeatureSetDefaults_FeatureSetEditionDefault_overridableFeatures m) \<and>
     pred_option FeatureSet_fits (FeatureSetDefaults_FeatureSetEditionDefault_fixedFeatures m)"

definition FeatureSetDefaults_FeatureSetEditionDefault_norm :: "FeatureSetDefaults_FeatureSetEditionDefault \<Rightarrow> FeatureSetDefaults_FeatureSetEditionDefault" where
  "FeatureSetDefaults_FeatureSetEditionDefault_norm m = \<lparr>
     FeatureSetDefaults_FeatureSetEditionDefault_edition = Some (nullish (FeatureSetDefaults_FeatureSetEditionDefault_edition m) (NInt 0)),
     FeatureSetDefaults_FeatureSetEditionDefault_overridableFeatures = map_option FeatureSet_norm (FeatureSetDefaults_FeatureSetEditionDefault_overridableFeatures m),
     FeatureSetDefaults_FeatureSetEditionDefault_fixedFeatures = map_option FeatureSet_norm (FeatureSetDefaults_FeatureSetEditionDefault_fixedFeatures m)\<rparr>"

definition FeatureSetDefaults_FeatureSetEditionDefault_merge :: "FeatureSetDefaults_FeatureSetEditionDefault \<Rightarrow> FeatureSetDefaults_FeatureSetEditionDefault \<Rightarrow> FeatureSetDefaults_FeatureSetEditionDefault" where
  "FeatureSetDefaults_FeatureSetEditionDefault_merge m0 m = m0\<lparr>
     FeatureSetDefaults_FeatureSetEditionDefault_edition := (if FeatureSetDefaults_FeatureSetEditionDefault_edition m = None \<or> FeatureSetDefaults_FeatureSetEditionDefault_edition m = Some (NInt 0) then FeatureSetDefaults_FeatureSetEditionDefault_edition m0 else FeatureSetDefaults_FeatureSetEditionDefault_edition m),
     FeatureSetDefaults_FeatureSetEditionDefault_overridableFeatures := (case FeatureSetDefaults_FeatureSetEditionDefault_overridableFeatures m of None \<Rightarrow> FeatureSetDefaults_FeatureSetEditionDefault_overridableFeatures m0 | Some v \<Rightarrow> Some (FeatureSet_norm v)),
     FeatureSetDefaults_FeatureSetEditionDefault_fixedFeatures := (case FeatureSetDefaults_FeatureSetEditionDefault_fixedFeatures m of None \<Rightarrow> FeatureSetDefaults_FeatureSetEditionDefault_fixedFeatures m0 | Some v \<Rightarrow> Some (FeatureSet_norm v))\<rparr>"

definition FeatureSetDefaults_FeatureSetEditionDefault_jnorm :: "FeatureSetDefaults_FeatureSetEditionDefault \<Rightarrow> FeatureSetDefaults_FeatureSetEditionDefault" where
  "FeatureSetDefaults_FeatureSetEditionDefault_jnorm m = \<lparr>
     FeatureSetDefaults_FeatureSetEditionDefault_edition = Some (enum_json (NInt 0) Edition_value editionFromJSON editionToJSON (FeatureSetDefaults_FeatureSetEditionDefault_edition m)),
     FeatureSetDefaults_FeatureSetEditionDefault_overridableFeatures = map_option FeatureSet_jnorm (FeatureSetDefaults_FeatureSetEditionDefault_overridableFeatures m),
     FeatureSetDefaults_FeatureSetEditionDefault_fixedFeatures = map_option FeatureSet_jnorm (FeatureSetDefaults_FeatureSetEditionDefault_fixedFeatures m)\<rparr>"

definition FeatureSetDefaults_bytes :: "FeatureSetDefaults \<Rightarrow> bytes" where
  "FeatureSetDefaults_bytes m = concat [
     rep_msg_field 10 FeatureSetDefaults_FeatureSetEditionDefault_bytes (FeatureSetDefaults_defaults m),
     other_field 32 (NInt 0) int_payload (FeatureSetDefaults_minimumEdition m),
     other_field 40 (NInt 0) int_payload (FeatureSetDefaults_maximumEdition m)]"

definition FeatureSetDefaults_fits :: "FeatureSetDefaults \<Rightarrow> bool" where
  "FeatureSetDefaults_fits m \<longleftrightarrow> length (FeatureSetDefaults_bytes m) < 2 ^ 32 \<and>
     list_all FeatureSetDefaults_FeatureSetEditionDefault_fits (FeatureSetDefaults_defaults m) \<and>
     pred_option int32_ok (FeatureSetDefaults_minimumEdition m) \<and>
     pred_option int32_ok (FeatureSetDefaults_maximumEdition m)"

definition FeatureSetDefaults_norm :: "FeatureSetDefaults \<Rightarrow> FeatureSetDefaults" where
  "FeatureSetDefaults_norm m = \<lparr>
     FeatureSetDefaults_defaults = map FeatureSetDefaults_FeatureSetEditionDefault_norm (FeatureSetDefaults_defaults m),
     FeatureSetDefaults_minimumEdition = Some (nullish (FeatureSetDefaults_minimumEdition m) (NInt 0)),
     FeatureSetDefaults_maximumEdition = Some (nullish (FeatureSetDefaults_maximumEdition m) (NInt 0))\<rparr>"

definition FeatureSetDefaults_merge :: "FeatureSetDefaults \<Rightarrow> FeatureSetDefaults \<Rightarrow> FeatureSetDefaults" where
  "FeatureSetDefaults_merge m0 m = m0\<lparr>
     FeatureSetDefaults_defaults := FeatureSetDefaults_defaults m0 @ map FeatureSetDefaults_FeatureSetEditionDefault_norm (FeatureSetDefaults_defaults m),
     FeatureSetDefaults_minimumEdition := (if FeatureSetDefaults_minimumEdition m = None \<or> FeatureSetDefaults_minimumEdition m = Some (NInt 0) then FeatureSetDefaults_minimumEdition m0 else FeatureSetDefaults_minimumEdition m),
     FeatureSetDefaults_maximumEdition := (if FeatureSetDefaults_maximumEdition m = None \<or> FeatureSetDefaults_maximumEdition m = Some (NInt 0) then FeatureSetDefaults_maximumEdition m0 else FeatureSetDefaults_maximumEdition m)\<rparr>"

definition FeatureSetDefaults_jnorm :: "FeatureSetDefaults \<Rightarrow> FeatureSetDefaults" where
  "FeatureSetDefaults_jnorm m = \<lparr>
     FeatureSetDefaults_defaults = map FeatureSetDefaults_FeatureSetEditionDefault_jnorm (FeatureSetDefaults_defaults m),
     FeatureSetDefaults_minimumEdition = Some (enum_json (NInt 0) Edition_value editionFromJSON editionToJSON (FeatureSetDefaults_minimumEdition m)),
     FeatureSetDefaults_maximumEdition = Some (enum_json (NInt 0) Edition_value editionFromJSON editionToJSON (FeatureSetDefaults_maximumEdition m))\<rparr>"

definition FieldOptions_EditionDefault_bytes :: "FieldOptions_EditionDefault \<Rightarrow> bytes" where
  "FieldOptions_EditionDefault_bytes m = concat [
     other_field 24 (NInt 0) int_payload (FieldOptions_EditionDefault_edition m),
     other_field 18 '''' str_payload (FieldOptions_EditionDefault_value m)]"

definition FieldOptions_EditionDefault_fits :: "FieldOptions_EditionDefault \<Rightarrow> bool" where
  "FieldOptions_EditionDefault_fits m \<longleftrightarrow> length (FieldOptions_EditionDefault_bytes m) < 2 ^ 32 \<and>
     pred_option int32_ok (FieldOptions_EditionDefault_edition m)"

definition FieldOptions_EditionDefault_norm :: "FieldOptions_EditionDefault \<Rightarrow> FieldOptions_EditionDefault" where
  "FieldOptions_EditionDefault_norm m = \<lparr>
     FieldOptions_EditionDefault_edition = Some (nullish (FieldOptions_EditionDefault_edition m) (NInt 0)),
     FieldOptions_EditionDefault_value = Some (nullish (FieldOptions_EditionDefault_value m) '''')\<rparr>"

definition FieldOptions_EditionDefault_merge :: "FieldOptions_EditionDefault \<Rightarrow> FieldOptions_EditionDefault \<Rightarrow> FieldOptions_EditionDefault" where
  "FieldOptions_EditionDefault_merge m0 m = m0\<lparr>
     FieldOptions_EditionDefault_edition := (if FieldOptions_EditionDefault_edition m = None \<or> FieldOptions_EditionDefault_edition m = Some (NInt 0) then FieldOptions_EditionDefault_edition m0 else FieldOptions_EditionDefault_edition m),
     FieldOptions_EditionDefault_value := (if FieldOptions_EditionDefault_value m = None \<or> FieldOptions_EditionDefault_value m = Some '''' then FieldOptions_EditionDefault_value m0 else FieldOptions_EditionDefault_value m)\<rparr>"

definition FieldOptions_EditionDefault_jnorm :: "FieldOptions_EditionDefault \<Rightarrow> FieldOptions_EditionDefault" where
  "FieldOptions_EditionDefault_jnorm m = \<lparr>
     FieldOptions_EditionDefault_edition = Some (enum_json (NInt 0) Edition_value editionFromJSON editionToJSON (FieldOptions_EditionDefault_edition m)),
     FieldOptions_EditionDefault_value = Some (nullish (FieldOptions_EditionDefault_value m) '''')\<rparr>"

definition FieldOptions_FeatureSupport_bytes :: "FieldOptions_FeatureSupport \<Rightarrow> bytes" where
  "FieldOptions_FeatureSupport_bytes m = concat [
     other_field 8 (NInt 0) int_payload (FieldOptions_FeatureSupport_editionIntroduced m),
     other_field 16 (NInt 0) int_payload (FieldOptions_FeatureSupport_editionDeprecated m),
     other_field 26 '''' str_payload (FieldOptions_FeatureSupport_deprecationWarning m),
     other_field 32 (NInt 0) int_payload (FieldOptions_FeatureSupport_editionRemoved m)]"

definition FieldOptions_FeatureSupport_fits :: "FieldOptions_FeatureSupport \<Rightarrow> bool" where
  "FieldOptions_FeatureSupport_fits m \<longleftrightarrow> length (FieldOptions_FeatureSupport_bytes m) < 2 ^ 32 \<and>
     pred_option int32_ok (FieldOptions_FeatureSupport_editionIntroduced m) \<and>
     pred_option int32_ok (FieldOptions_FeatureSupport_editionDeprecated m) \<and>
     pred_option int32_ok (FieldOptions_FeatureSupport_editionRemoved m)"

definition FieldOptions_FeatureSupport_norm :: "FieldOptions_FeatureSupport \<Rightarrow> FieldOptions_FeatureSupport" where
  "FieldOptions_FeatureSupport_norm m = \<lparr>
     FieldOptions_FeatureSupport_editionIntroduced = Some (nullish (FieldOptions_FeatureSupport_editionIntroduced m) (NInt 0)),
     FieldOptions_FeatureSupport_editionDeprecated = Some (nullish (FieldOptions_FeatureSupport_editionDeprecated m) (NInt 0)),
     FieldOptions_FeatureSupport_deprecationWarning = Some (nullish (FieldOptions_FeatureSupport_deprecationWarning m) ''''),
     FieldOptions_FeatureSupport_editionRemoved = Some (nullish (FieldOptions_FeatureSupport_editionRemoved m) (NInt 0))\<rparr>"

definition FieldOptions_FeatureSupport_merge :: "FieldOptions_FeatureSupport \<Rightarrow> FieldOptions_FeatureSupport \<Rightarrow> FieldOptions_FeatureSupport" where
  "FieldOptions_FeatureSupport_merge m0 m = m0\<lparr>
     FieldOptions_FeatureSupport_editionIntroduced := (if FieldOptions_FeatureSupport_editionIntroduced m = None \<or> FieldOptions_FeatureSupport_editionIntroduced m = Some (NInt 0) then FieldOptions_FeatureSupport_editionIntroduced m0 else FieldOptions_FeatureSupport_editionIntroduced m),
     FieldOptions_FeatureSupport_editionDeprecated := (if FieldOptions_FeatureSupport_editionDeprecated m = None \<or> FieldOptions_FeatureSupport_editionDeprecated m = Some (NInt 0) then FieldOptions_FeatureSupport_editionDeprecated m0 else FieldOptions_FeatureSupport_editionDeprecated m),
     FieldOptions_FeatureSupport_deprecationWarning := (if FieldOptions_FeatureSupport_deprecationWarning m = None \<or> FieldOptions_FeatureSupport_deprecationWarning m = Some '''' then FieldOptions_FeatureSupport_deprecationWarning m0 else FieldOptions_FeatureSupport_deprecationWarning m),
     FieldOptions_FeatureSupport_editionRemoved := (if FieldOptions_FeatureSupport_editionRemoved m = None \<or> FieldOptions_FeatureSupport_editionRemoved m = Some (NInt 0) then FieldOptions_FeatureSupport_editionRemoved m0 else FieldOptions_FeatureSupport_editionRemoved m)\<rparr>"

definition FieldOptions_FeatureSupport_jnorm :: "FieldOptions_FeatureSupport \<Rightarrow> FieldOptions_FeatureSupport" where
  "FieldOptions_FeatureSupport_jnorm m = \<lparr>
     FieldOptions_FeatureSupport_editionIntroduced = Some (enum_json (NInt 0) Edition_value editionFromJSON editionToJSON (FieldOptions_FeatureSupport_editionIntroduced m)),
     FieldOptions_FeatureSupport_editionDeprecated = Some (enum_json (NInt 0) Edition_value editionFromJSON editionToJSON (FieldOptions_FeatureSupport_editionDeprecated m)),
     FieldOptions_FeatureSupport_deprecationWarning = Some (nullish (FieldOptions_FeatureSupport_deprecationWarning m) ''''),
     FieldOptions_FeatureSupport_editionRemoved = Some (enum_json (NInt 0) Edition_value editionFromJSON editionToJSON (FieldOptions_FeatureSupport_editionRemoved m))\<rparr>"

definition DescriptorProto_ReservedRange_bytes :: "DescriptorProto_ReservedRange \<Rightarrow> bytes" where
  "DescriptorProto_ReservedRange_bytes m = concat [
     other_field 8 (NInt 0) int_payload (DescriptorProto_ReservedRange_start m),
     other_field 16 (NInt 0) int_payload (DescriptorProto_ReservedRange_end m)]"

definition DescriptorProto_ReservedRange_fits :: "DescriptorProto_ReservedRange \<Rightarrow> bool" where
  "DescriptorProto_ReservedRange_fits m \<longleftrightarrow> length (DescriptorProto_ReservedRange_bytes m) < 2 ^ 32 \<and>
     pred_option int32_ok (DescriptorProto_ReservedRange_start m) \<and>
     pred_option int32_ok (DescriptorProto_ReservedRange_end m)"

definition DescriptorProto_ReservedRange_norm :: "DescriptorProto_ReservedRange \<Rightarrow> DescriptorProto_ReservedRange" where
  "DescriptorProto_ReservedRange_norm m = \<lparr>
     DescriptorProto_ReservedRange_start = Some (nullish (DescriptorProto_ReservedRange_start m) (NInt 0)),
     DescriptorProto_ReservedRange_end = Some (nullish (DescriptorProto_ReservedRange_end m) (NInt 0))\<rparr>"

definition DescriptorProto_ReservedRange_merge :: "DescriptorProto_ReservedRange \<Rightarrow> DescriptorProto_ReservedRange \<Rightarrow> DescriptorProto_ReservedRange" where
  "DescriptorProto_ReservedRange_merge m0 m = m0\<lparr>
     DescriptorProto_ReservedRange_start := (if DescriptorProto_ReservedRange_start m = None \<or> DescriptorProto_ReservedRange_start m = Some (NInt 0) then DescriptorProto_ReservedRange_start m0 else DescriptorProto_ReservedRange_start m),
     DescriptorProto_ReservedRange_end := (if DescriptorProto_ReservedRange_end m = None \<or> DescriptorProto_ReservedRange_end m = Some (NInt 0) then DescriptorProto_ReservedRange_end m0 else DescriptorProto_ReservedRange_end m)\<rparr>"

definition DescriptorProto_ReservedRange_jnorm :: "DescriptorProto_ReservedRange \<Rightarrow> DescriptorProto_ReservedRange" where
  "DescriptorProto_ReservedRange_jnorm m = \<lparr>
     DescriptorProto_ReservedRange_start = Some (js_round (nullish (DescriptorProto_ReservedRange_start m) (NInt 0))),
     DescriptorProto_ReservedRange_end = Some (js_round (nullish (DescriptorProto_ReservedRange_end m) (NInt 0)))\<rparr>"

definition EnumDescriptorProto_EnumReservedRange_bytes :: "EnumDescriptorProto_EnumReservedRange \<Rightarrow> bytes" where
  "EnumDescriptorProto_EnumReservedRange_bytes m = concat [
     other_field 8 (NInt 0) int_payload (EnumDescriptorProto_EnumReservedRange_start m),
     other_field 16 (NInt 0) int_payload (EnumDescriptorProto_EnumReservedRange_end m)]"

definition EnumDescriptorProto_EnumReservedRange_fits :: "EnumDescriptorProto_EnumReservedRange \<Rightarrow> bool" where
  "EnumDescriptorProto_EnumReservedRange_fits m \<longleftrightarrow> length (EnumDescriptorProto_EnumReservedRange_bytes m) < 2 ^ 32 \<and>
     pred_option int32_ok (EnumDescriptorProto_EnumReservedRange_start m) \<and>
     pred_option int32_ok (EnumDescriptorProto_EnumReservedRange_end m)"

definition EnumDescriptorProto_EnumReservedRange_norm :: "EnumDescriptorProto_EnumReservedRange \<Rightarrow> EnumDescriptorProto_EnumReservedRange" where
  "EnumDescriptorProto_EnumReservedRange_norm m = \<lparr>
     EnumDescriptorProto_EnumReservedRange_start = Some (nullish (EnumDescriptorProto_EnumReservedRange_start m) (NInt 0)),
     EnumDescriptorProto_EnumReservedRange_end = Some (nullish (EnumDescriptorProto_EnumReservedRange_end m) (NInt 0))\<rparr>"

definition EnumDescriptorProto_EnumReservedRange_merge :: "EnumDescriptorProto_EnumReservedRange \<Rightarrow> EnumDescriptorProto_EnumReservedRange \<Rightarrow> EnumDescriptorProto_EnumReservedRange" where
  "EnumDescriptorProto_EnumReservedRange_merge m0 m = m0\<lparr>
     EnumDescriptorProto_EnumReservedRange_start := (if EnumDescriptorProto_EnumReservedRange_start m = None \<or> EnumDescriptorProto_EnumReservedRange_start m = Some (NInt 0) then EnumDescriptorProto_EnumReservedRange_start m0 else EnumDescriptorProto_EnumReservedRange_start m),
     EnumDescriptorProto_EnumReservedRange_end := (if EnumDescriptorProto_EnumReservedRange_end m = None \<or> EnumDescriptorProto_EnumReservedRange_end m = Some (NInt 0) then EnumDescriptorProto_EnumReservedRange_end m0 else EnumDescriptorProto_EnumReservedRange_end m)\<rparr>"

definition EnumDescriptorProto_EnumReservedRange_jnorm :: "EnumDescriptorProto_EnumReservedRange \<Rightarrow> EnumDescriptorProto_EnumReservedRange" where
  "EnumDescriptorProto_EnumReservedRange_jnorm m = \<lparr>
     EnumDescriptorProto_EnumReservedRange_start = Some (js_round (nullish (EnumDescriptorProto_EnumReservedRange_start m) (NInt 0))),
     EnumDescriptorProto_EnumReservedRange_end = Some (js_round (nullish (EnumDescriptorProto_EnumReservedRange_end m) (NInt 0)))\<rparr>"

definition ExtensionRangeOptions_Declaration_bytes :: "ExtensionRangeOptions_Declaration \<Rightarrow> bytes" where
  "ExtensionRangeOptions_Declaration_bytes m = concat [
     other_field 8 (NInt 0) int_payload (ExtensionRangeOptions_Declaration_number m),
     other_field 18 '''' str_payload (ExtensionRangeOptions_Declaration_fullName m),
     other_field 26 '''' str_payload (ExtensionRangeOptions_Declaration_type m),
     other_field 40 False bool_payload (ExtensionRangeOptions_Declaration_reserved m),
     other_field 48 False bool_payload (ExtensionRangeOptions_Declaration_repeated m)]"

definition ExtensionRangeOptions_Declaration_fits :: "ExtensionRangeOptions_Declaration \<Rightarrow> bool" where
  "ExtensionRangeOptions_Declaration_fits m \<longleftrightarrow> length (ExtensionRangeOptions_Declaration_bytes m) < 2 ^ 32 \<and>
     pred_option int32_ok (ExtensionRangeOptions_Declaration_number m)"

definition ExtensionRangeOptions_Declaration_norm :: "ExtensionRangeOptions_Declaration \<Rightarrow> ExtensionRangeOptions_Declaration" where
  "ExtensionRangeOptions_Declaration_norm m = \<lparr>
     ExtensionRangeOptions_Declaration_number = Some (nullish (ExtensionRangeOptions_Declaration_number m) (NInt 0)),
     ExtensionRangeOptions_Declaration_fullName = Some (nullish (ExtensionRangeOptions_Declaration_fullName m) ''''),
     ExtensionRangeOptions_Declaration_type = Some (nullish (ExtensionRangeOptions_Declaration_type m) ''''),
     ExtensionRangeOptions_Declaration_reserved = Some (nullish (ExtensionRangeOptions_Declaration_reserved m) False),
     ExtensionRangeOptions_Declaration_repeated = Some (nullish (ExtensionRangeOptions_Declaration_repeated m) False)\<rparr>"

definition ExtensionRangeOptions_Declaration_merge :: "ExtensionRangeOptions_Declaration \<Rightarrow> ExtensionRangeOptions_Declaration \<Rightarrow> ExtensionRangeOptions_Declaration" where
  "ExtensionRangeOptions_Declaration_merge m0 m = m0\<lparr>
     ExtensionRangeOptions_Declaration_number := (if ExtensionRangeOptions_Declaration_number m = None \<or> ExtensionRangeOptions_Declaration_number m = Some (NInt 0) then ExtensionRangeOptions_Declaration_number m0 else ExtensionRangeOptions_Declaration_number m),
     ExtensionRangeOptions_Declaration_fullName := (if ExtensionRangeOptions_Declaration_fullName m = None \<or> ExtensionRangeOptions_Declaration_fullName m = Some '''' then ExtensionRangeOptions_Declaration_fullName m0 else ExtensionRangeOptions_Declaration_fullName m),
     ExtensionRangeOptions_Declaration_type := (if ExtensionRangeOptions_Declaration_type m = None \<or> ExtensionRangeOptions_Declaration_type m = Some '''' then ExtensionRangeOptions_Declaration_type m0 else ExtensionRangeOptions_Declaration_type m),
     ExtensionRangeOptions_Declaration_reserved := (if ExtensionRangeOptions_Declaration_reserved m = None \<or> ExtensionRangeOptions_Declaration_reserved m = Some False then ExtensionRangeOptions_Declaration_reserved m0 else ExtensionRangeOptions_Declaration_reserved m),
     ExtensionRangeOptions_Declaration_repeated := (if ExtensionRangeOptions_Declaration_repeated m = None \<or> ExtensionRangeOptions_Declaration_repeated m = Some False then ExtensionRangeOptions_Declaration_repeated m0 else ExtensionRangeOptions_Declaration_repeated m)\<rparr>"

definition ExtensionRangeOptions_Declaration_jnorm :: "ExtensionRangeOptions_Declaration \<Rightarrow> ExtensionRangeOptions_Declaration" where
  "ExtensionRangeOptions_Declaration_jnorm m = \<lparr>
     ExtensionRangeOptions_Declaration_number = Some (js_round (nullish (ExtensionRangeOptions_Declaration_number m) (NInt 0))),
     ExtensionRangeOptions_Declaration_fullName = Some (nullish (ExtensionRangeOptions_Declaration_fullName m) ''''),
     ExtensionRangeOptions_Declaration_type = Some (nullish (ExtensionRangeOptions_Declaration_type m) ''''),
     ExtensionRangeOptions_Declaration_reserved = Some (nullish (ExtensionRangeOptions_Declaration_reserved m) False),
     ExtensionRangeOptions_Declaration_repeated = Some (nullish (ExtensionRangeOptions_Declaration_repeated m) False)\<rparr>"

definition SourceCodeInfo_Location_bytes :: "SourceCodeInfo_Location \<Rightarrow> bytes" where
  "SourceCodeInfo_Location_bytes m = concat [
     packed_field 10 (SourceCodeInfo_Location_path m),
     packed_field 18 (SourceCodeInfo_Location_span m),
     other_field 26 '''' str_payload (SourceCodeInfo_Location_leadingComments m),
     other_field 34 '''' str_payload (SourceCodeInfo_Location_trailingComments m),
     rep_str_field 50 (SourceCodeInfo_Location_leadingDetachedComments m)]"

definition SourceCodeInfo_Location_fits :: "SourceCodeInfo_Location \<Rightarrow> bool" where
  "SourceCodeInfo_Location_fits m \<longleftrightarrow> length (SourceCodeInfo_Location_bytes m) < 2 ^ 32 \<and>
     list_all int32_ok (SourceCodeInfo_Location_path m) \<and>
     list_all int32_ok (SourceCodeInfo_Location_span m)"

definition SourceCodeInfo_Location_norm :: "SourceCodeInfo_Location \<Rightarrow> SourceCodeInfo_Location" where
  "SourceCodeInfo_Location_norm m = \<lparr>
     SourceCodeInfo_Location_path = SourceCodeInfo_Location_path m,
     SourceCodeInfo_Location_span = SourceCodeInfo_Location_span m,
     SourceCodeInfo_Location_leadingComments = Some (nullish (SourceCodeInfo_Location_leadingComments m) ''''),
     SourceCodeInfo_Location_trailingComments = Some (nullish (SourceCodeInfo_Location_trailingComments m) ''''),
     SourceCodeInfo_Location_leadingDetachedComments = SourceCodeInfo_Location_leadingDetachedComments m\<rparr>"

definition SourceCodeInfo_Location_merge :: "SourceCodeInfo_Location \<Rightarrow> SourceCodeInfo_Location \<Rightarrow> SourceCodeInfo_Location" where
  "SourceCodeInfo_Location_merge m0 m = m0\<lparr>
     SourceCodeInfo_Location_path := SourceCodeInfo_Location_path m0 @ SourceCodeInfo_Location_path m,
     SourceCodeInfo_Location_span := SourceCodeInfo_Location_span m0 @ SourceCodeInfo_Location_span m,
     SourceCodeInfo_Location_leadingComments := (if SourceCodeInfo_Location_leadingComments m = None \<or> SourceCodeInfo_Location_leadingComments m = Some '''' then SourceCodeInfo_Location_leadingComments m0 else SourceCodeInfo_Location_leadingComments m),
     SourceCodeInfo_Location_trailingComments := (if SourceCodeInfo_Location_trailingComments m = None \<or> SourceCodeInfo_Location_trailingComments m = Some '''' then SourceCodeInfo_Location_trailingComments m0 else SourceCodeInfo_Location_trailingComments m),
     SourceCodeInfo_Location_leadingDetachedComments := SourceCodeInfo_Location_leadingDetachedComments m0 @ SourceCodeInfo_Location_leadingDetachedComments m\<rparr>"

definition SourceCodeInfo_Location_jnorm :: "SourceCodeInfo_Location \<Rightarrow> SourceCodeInfo_Location" where
  "SourceCodeInfo_Location_jnorm m = \<lparr>
     SourceCodeInfo_Location_path = map js_round (SourceCodeInfo_Location_path m),
     SourceCodeInfo_Location_span = map js_round (SourceCodeInfo_Location_span m),
     SourceCodeInfo_Location_leadingComments = Some (nullish (SourceCodeInfo_Location_leadingComments m) ''''),
     SourceCodeInfo_Location_trailingComments = Some (nullish (SourceCodeInfo_Location_trailingComments m) ''''),
     SourceCodeInfo_Location_leadingDetachedComments = SourceCodeInfo_Location_leadingDetachedComments m\<rparr>"

definition SourceCodeInfo_bytes :: "SourceCodeInfo \<Rightarrow> bytes" where
  "SourceCodeInfo_bytes m = concat [
     rep_msg_field 10 SourceCodeInfo_Location_bytes (SourceCodeInfo_location m)]"

definition SourceCodeInfo_fits :: "SourceCodeInfo \<Rightarrow> bool" where
  "SourceCodeInfo_fits m \<longleftrightarrow> length (SourceCodeInfo_bytes m) < 2 ^ 32 \<and>
     list_all SourceCodeInfo_Location_fits (SourceCodeInfo_location m)"

definition SourceCodeInfo_norm :: "SourceCodeInfo \<Rightarrow> SourceCodeInfo" where
  "SourceCodeInfo_norm m = \<lparr>
     SourceCodeInfo_location = map SourceCodeInfo_Location_norm (SourceCodeInfo_location m)\<rparr>"

definition SourceCodeInfo_merge :: "SourceCodeInfo \<Rightarrow> SourceCodeInfo \<Rightarrow> SourceCodeInfo" where
  "SourceCodeInfo_merge m0 m = m0\<lparr>
     SourceCodeInfo_location := SourceCodeInfo_location m0 @ map SourceCodeInfo_Location_norm (SourceCodeInfo_location m)\<rparr>"

definition SourceCodeInfo_jnorm :: "SourceCodeInfo \<Rightarrow> SourceCodeInfo" where
  "SourceCodeInfo_jnorm m = \<lparr>
     SourceCodeInfo_location = map SourceCodeInfo_Location_jnorm (SourceCodeInfo_location m)\<rparr>"

definition GeneratedCodeInfo_Annotation_bytes :: "GeneratedCodeInfo_Annotation \<Rightarrow> bytes" where
  "GeneratedCodeInfo_Annotation_bytes m = concat [
     packed_field 10 (GeneratedCodeInfo_Annotation_path m),
     other_field 18 '''' str_payload (GeneratedCodeInfo_Annotation_sourceFile m),
     other_field 24 (NInt 0) int_payload (GeneratedCodeInfo_Annotation_begin m),
     other_field 32 (NInt 0) int_payload (GeneratedCodeInfo_Annotation_end m),
     other_field 40 (NInt 0) int_payload (GeneratedCodeInfo_Annotation_semantic m)]"

definition GeneratedCodeInfo_Annotation_fits :: "GeneratedCodeInfo_Annotation \<Rightarrow> bool" where
  "GeneratedCodeInfo_Annotation_fits m \<longleftrightarrow> length (GeneratedCodeInfo_Annotation_bytes m) < 2 ^ 32 \<and>
     list_all int32_ok (GeneratedCodeInfo_Annotation_path m) \<and>
     pred_option int32_ok (GeneratedCodeInfo_Annotation_begin m) \<and>
     pred_option int32_ok (GeneratedCodeInfo_Annotation_end m) \<and>
     pred_option int32_ok (GeneratedCodeInfo_Annotation_semantic m)"

definition GeneratedCodeInfo_Annotation_norm :: "GeneratedCodeInfo_Annotation \<Rightarrow> GeneratedCodeInfo_Annotation" where
  "GeneratedCodeInfo_Annotation_norm m = \<lparr>
     GeneratedCodeInfo_Annotation_path = GeneratedCodeInfo_Annotation_path m,
     GeneratedCodeInfo_Annotation_sourceFile = Some (nullish (GeneratedCodeInfo_Annotation_sourceFile m) ''''),
     GeneratedCodeInfo_Annotation_begin = Some (nullish (GeneratedCodeInfo_Annotation_begin m) (NInt 0)),
     GeneratedCodeInfo_Annotation_end = Some (nullish (GeneratedCodeInfo_Annotation_end m) (NInt 0)),
     GeneratedCodeInfo_Annotation_semantic = Some (nullish (GeneratedCodeInfo_Annotation_semantic m) (NInt 0))\<rparr>"

definition GeneratedCodeInfo_Annotation_merge :: "GeneratedCodeInfo_Annotation \<Rightarrow> GeneratedCodeInfo_Annotation \<Rightarrow> GeneratedCodeInfo_Annotation" where
  "GeneratedCodeInfo_Annotation_merge m0 m = m0\<lparr>
     GeneratedCodeInfo_Annotation_path := GeneratedCodeInfo_Annotation_path m0 @ GeneratedCodeInfo_Annotation_path m,
     GeneratedCodeInfo_Annotation_sourceFile := (if GeneratedCodeInfo_Annotation_sourceFile m = None \<or> GeneratedCodeInfo_Annotation_sourceFile m = Some '''' then GeneratedCodeInfo_Annotation_sourceFile m0 else GeneratedCodeInfo_Annotation_sourceFile m),
     GeneratedCodeInfo_Annotation_begin := (if GeneratedCodeInfo_Annotation_begin m = None \<or> GeneratedCodeInfo_Annotation_begin m = Some (NInt 0) then GeneratedCodeInfo_Annotation_begin m0 else GeneratedCodeInfo_Annotation_begin m),
     GeneratedCodeInfo_Annotation_end := (if GeneratedCodeInfo_Annotation_end m = None \<or> GeneratedCodeInfo_Annotation_end m = Some (NInt 0) then GeneratedCodeInfo_Annotation_end m0 else GeneratedCodeInfo_Annotation_end m),
     GeneratedCodeInfo_Annotation_semantic := (if GeneratedCodeInfo_Annotation_semantic m = None \<or> GeneratedCodeInfo_Annotation_semantic m = Some (NInt 0) then GeneratedCodeInfo_Annotation_semantic m0 else GeneratedCodeInfo_Annotation_semantic m)\<rparr>"

definition GeneratedCodeInfo_Annotation_jnorm :: "GeneratedCodeInfo_Annotation \<Rightarrow> GeneratedCodeInfo_Annotation" where
  "GeneratedCodeInfo_Annotation_jnorm m = \<lparr>
     GeneratedCodeInfo_Annotation_path = map js_round (GeneratedCodeInfo_Annotation_path m),
     GeneratedCodeInfo_Annotation_sourceFile = Some (nullish (GeneratedCodeInfo_Annotation_sourceFile m) ''''),
     GeneratedCodeInfo_Annotation_begin = Some (js_round (nullish (GeneratedCodeInfo_Annotation_begin m) (NInt 0))),
     GeneratedCodeInfo_Annotation_end = Some (js_round (nullish (GeneratedCodeInfo_Annotation_end m) (NInt 0))),
     GeneratedCodeInfo_Annotation_semantic = Some (enum_json (NInt 0) GeneratedCodeInfo_Annotation_Semantic_value generatedCodeInfo_Annotation_SemanticFromJSON generatedCodeInfo_Annotation_SemanticToJSON (GeneratedCodeInfo_Annotation_semantic m))\<rparr>"

definition GeneratedCodeInfo_bytes :: "GeneratedCodeInfo \<Rightarrow> bytes" where
  "GeneratedCodeInfo_bytes m = concat [
     rep_msg_field 10 GeneratedCodeInfo_Annotation_bytes (GeneratedCodeInfo_annotation m)]"

definition GeneratedCodeInfo_fits :: "GeneratedCodeInfo \<Rightarrow> bool" where
  "GeneratedCodeInfo_fits m \<longleftrightarrow> length (GeneratedCodeInfo_bytes m) < 2 ^ 32 \<and>
     list_all GeneratedCodeInfo_Annotation_fits (GeneratedCodeInfo_annotation m)"

definition GeneratedCodeInfo_norm :: "GeneratedCodeInfo \<Rightarrow> GeneratedCodeInfo" where
  "GeneratedCodeInfo_norm m = \<lparr>
     GeneratedCodeInfo_annotation = map GeneratedCodeInfo_Annotation_norm (GeneratedCodeInfo_annotation m)\<rparr>"

definition GeneratedCodeInfo_merge :: "GeneratedCodeInfo \<Rightarrow> GeneratedCodeInfo \<Rightarrow> GeneratedCodeInfo" where
  "GeneratedCodeInfo_merge m0 m = m0\<lparr>
     GeneratedCodeInfo_annotation := GeneratedCodeInfo_annotation m0 @ map GeneratedCodeInfo_Annotation_norm (GeneratedCodeInfo_annotation m)\<rparr>"

definition GeneratedCodeInfo_jnorm :: "GeneratedCodeInfo \<Rightarrow> GeneratedCodeInfo" where
  "GeneratedCodeInfo_jnorm m = \<lparr>
     GeneratedCodeInfo_annotation = map GeneratedCodeInfo_Annotation_jnorm (GeneratedCodeInfo_annotation m)\<rparr>"

section \<open>The codecs implement the wire form\<close>

context wire_laws
begin

lemma UninterpretedOption_NamePart_parts:
  assumes "UninterpretedOption_NamePart_fits m"
  shows "length (str_field 10 (UninterpretedOption_NamePart_namePart m)) < 2 ^ 32"
    and "length (bool_field 16 (UninterpretedOption_NamePart_isExtension m)) < 2 ^ 32"
  using assms by (simp_all add: UninterpretedOption_NamePart_fits_def UninterpretedOption_NamePart_bytes_def)

lemma UninterpretedOption_NamePart_writes:
  assumes "UninterpretedOption_NamePart_fits m"
  shows "appends buf (UninterpretedOption_NamePart_encode W m) (UninterpretedOption_NamePart_bytes m)"
  unfolding UninterpretedOption_NamePart_encode_def UninterpretedOption_NamePart_bytes_def concat.simps
  by (rule appends_run_Cons appends_run_Nil enc_str_field enc_bool_field UninterpretedOption_NamePart_parts [OF assms])+

lemma UninterpretedOption_NamePart_reads:
  shows "switch_reads (UninterpretedOption_NamePart_switch W) 10 (rString W) (store UninterpretedOption_NamePart_namePart_update)"
    and "switch_reads (UninterpretedOption_NamePart_switch W) 16 (rBool W) (store UninterpretedOption_NamePart_isExtension_update)"
  by (auto simp: switch_reads_def switch_packs_def UninterpretedOption_NamePart_switch_def)

lemma UninterpretedOption_NamePart_good: "good_switch W valid k (UninterpretedOption_NamePart_switch W)"
  unfolding good_switch_def UninterpretedOption_NamePart_switch_def 
  by (auto intro!: good_step_case_read good_step_case_packed rString_safe rBool_safe rInt32_safe )

lemma UninterpretedOption_NamePart_runs:
  assumes "UninterpretedOption_NamePart_fits m"
  shows "runs W valid rest k (UninterpretedOption_NamePart_switch W) (UninterpretedOption_NamePart_bytes m) (\<lambda>m0. UninterpretedOption_NamePart_merge m0 m)"
  unfolding UninterpretedOption_NamePart_bytes_def concat.simps
  by (rule runs_cong,
      (rule runs_append runs_Nil read_str_field read_bool_field
         UninterpretedOption_NamePart_reads UninterpretedOption_NamePart_parts [OF assms]
       | assumption | simp; fail)+,
      simp add: UninterpretedOption_NamePart_merge_def)

end

sublocale wire_laws \<subseteq> UninterpretedOption_NamePart: switch_codec W buf valid rest "UninterpretedOption_NamePart_encode W" "UninterpretedOption_NamePart_switch W"
    createBaseUninterpretedOption_NamePart UninterpretedOption_NamePart_bytes UninterpretedOption_NamePart_fits UninterpretedOption_NamePart_norm UninterpretedOption_NamePart_merge
proof unfold_locales
  show "UninterpretedOption_NamePart_merge createBaseUninterpretedOption_NamePart m = UninterpretedOption_NamePart_norm m" for m
    by (cases m) (auto simp: UninterpretedOption_NamePart_merge_def UninterpretedOption_NamePart_norm_def createBaseUninterpretedOption_NamePart_def nullish_def split: option.split)
qed (simp_all add: UninterpretedOption_NamePart_writes UninterpretedOption_NamePart_good UninterpretedOption_NamePart_runs, simp add: UninterpretedOption_NamePart_fits_def)

context wire_laws
begin

lemma FeatureSet_parts:
  assumes "FeatureSet_fits m"
  shows "length (other_field 8 (NInt 0) int_payload (FeatureSet_fieldPresence m)) < 2 ^ 32"
    and "length (other_field 16 (NInt 0) int_payload (FeatureSet_enumType m)) < 2 ^ 32"
    and "length (other_field 24 (NInt 0) int_payload (FeatureSet_repeatedFieldEncoding m)) < 2 ^ 32"
    and "length (other_field 32 (NInt 0) int_payload (FeatureSet_utf8Validation m)) < 2 ^ 32"
    and "length (other_field 40 (NInt 0) int_payload (FeatureSet_messageEncoding m)) < 2 ^ 32"
    and "length (other_field 48 (NInt 0) int_payload (FeatureSet_jsonFormat m)) < 2 ^ 32"
    and "length (other_field 56 (NInt 0) int_payload (FeatureSet_enforceNamingStyle m)) < 2 ^ 32"
    and "pred_option int32_ok (FeatureSet_fieldPresence m)"
    and "pred_option int32_ok (FeatureSet_enumType m)"
    and "pred_option int32_ok (FeatureSet_repeatedFieldEncoding m)"
    and "pred_option int32_ok (FeatureSet_utf8Validation m)"
    and "pred_option int32_ok (FeatureSet_messageEncoding m)"
    and "pred_option int32_ok (FeatureSet_jsonFormat m)"
    and "pred_option int32_ok (FeatureSet_enforceNamingStyle m)"
  using assms by (simp_all add: FeatureSet_fits_def FeatureSet_bytes_def)

lemma FeatureSet_writes:
  assumes "FeatureSet_fits m"
  shows "appends buf (FeatureSet_encode W m) (FeatureSet_bytes m)"
  unfolding FeatureSet_encode_def FeatureSet_bytes_def concat.simps
  by (rule appends_run_Cons appends_run_Nil enc_other_int FeatureSet_parts [OF assms])+

lemma FeatureSet_reads:
  shows "switch_reads (FeatureSet_switch W) 8 (rInt32 W) (store_some FeatureSet_fieldPresence_update)"
    and "switch_reads (FeatureSet_switch W) 16 (rInt32 W) (store_some FeatureSet_enumType_update)"
    and "switch_reads (FeatureSet_switch W) 24 (rInt32 W) (store_some FeatureSet_repeatedFieldEncoding_update)"
    and "switch_reads (FeatureSet_switch W) 32 (rInt32 W) (store_some FeatureSet_utf8Validation_update)"
    and "switch_reads (FeatureSet_switch W) 40 (rInt32 W) (store_some FeatureSet_messageEncoding_update)"
    and "switch_reads (FeatureSet_switch W) 48 (rInt32 W) (store_some FeatureSet_jsonFormat_update)"
    and "switch_reads (FeatureSet_switch W) 56 (rInt32 W) (store_some FeatureSet_enforceNamingStyle_update)"
  by (auto simp: switch_reads_def switch_packs_def FeatureSet_switch_def)

lemma FeatureSet_good: "good_switch W valid k (FeatureSet_switch W)"
  unfolding good_switch_def FeatureSet_switch_def 
  by (auto intro!: good_step_case_read good_step_case_packed rString_safe rBool_safe rInt32_safe )

lemma FeatureSet_runs:
  assumes "FeatureSet_fits m"
  shows "runs W valid rest k (FeatureSet_switch W) (FeatureSet_bytes m) (\<lambda>m0. FeatureSet_merge m0 m)"
  unfolding FeatureSet_bytes_def concat.simps
  by (rule runs_cong,
      (rule runs_append runs_Nil read_other_int
         FeatureSet_reads FeatureSet_parts [OF assms]
       | assumption | simp; fail)+,
      simp add: FeatureSet_merge_def)

end

sublocale wire_laws \<subseteq> FeatureSet: switch_codec W buf valid rest "FeatureSet_encode W" "FeatureSet_switch W"
    createBaseFeatureSet FeatureSet_bytes FeatureSet_fits FeatureSet_norm FeatureSet_merge
proof unfold_locales
  show "FeatureSet_merge createBaseFeatureSet m = FeatureSet_norm m" for m
    by (cases m) (auto simp: FeatureSet_merge_def FeatureSet_norm_def createBaseFeatureSet_def nullish_def split: option.split)
qed (simp_all add: FeatureSet_writes FeatureSet_good FeatureSet_runs, simp add: FeatureSet_fits_def)

context wire_laws
begin

lemma FeatureSetDefaults_FeatureSetEditionDefault_parts:
  assumes "FeatureSetDefaults_FeatureSetEditionDefault_fits m"
  shows "length (other_field 24 (NInt 0) int_payload (FeatureSetDefaults_FeatureSetEditionDefault_edition m)) < 2 ^ 32"
    and "length (opt_msg_field 34 FeatureSet_bytes (FeatureSetDefaults_FeatureSetEditionDefault_overridableFeatures m)) < 2 ^ 32"
    and "length (opt_msg_field 42 FeatureSet_bytes (FeatureSetDefaults_FeatureSetEditionDefault_fixedFeatures m)) < 2 ^ 32"
    and "pred_option int32_ok (FeatureSetDefaults_FeatureSetEditionDefault_edition m)"
  using assms by (simp_all add: FeatureSetDefaults_FeatureSetEditionDefault_fits_def FeatureSetDefaults_FeatureSetEditionDefault_bytes_def)

lemma FeatureSetDefaults_FeatureSetEditionDefault_overridableFeatures_fits:
  assumes "FeatureSetDefaults_FeatureSetEditionDefault_fits m" and "FeatureSetDefaults_FeatureSetEditionDefault_overridableFeatures m = Some v"
  shows "FeatureSet_fits v"
  using assms by (simp add: FeatureSetDefaults_FeatureSetEditionDefault_fits_def list_all_iff)

lemma FeatureSetDefaults_FeatureSetEditionDefault_fixedFeatures_fits:
  assumes "FeatureSetDefaults_FeatureSetEditionDefault_fits m" and "FeatureSetDefaults_FeatureSetEditionDefault_fixedFeatures m = Some v"
  shows "FeatureSet_fits v"
  using assms by (simp add: FeatureSetDefaults_FeatureSetEditionDefault_fits_def list_all_iff)

lemma FeatureSetDefaults_FeatureSetEditionDefault_writes:
  assumes "FeatureSetDefaults_FeatureSetEditionDefault_fits m"
  shows "appends buf (FeatureSetDefaults_FeatureSetEditionDefault_encode W m) (FeatureSetDefaults_FeatureSetEditionDefault_bytes m)"
  unfolding FeatureSetDefaults_FeatureSetEditionDefault_encode_def FeatureSetDefaults_FeatureSetEditionDefault_bytes_def concat.simps
  by (rule appends_run_Cons appends_run_Nil enc_other_int FeatureSet.enc_opt_sub FeatureSetDefaults_FeatureSetEditionDefault_parts [OF assms]
      | erule FeatureSetDefaults_FeatureSetEditionDefault_overridableFeatures_fits [OF assms] FeatureSetDefaults_FeatureSetEditionDefault_fixedFeatures_fits [OF assms])+

lemma FeatureSetDefaults_FeatureSetEditionDefault_reads:
  shows "switch_reads (FeatureSetDefaults_FeatureSetEditionDefault_switch W) 24 (rInt32 W) (store_some FeatureSetDefaults_FeatureSetEditionDefault_edition_update)"
    and "switch_reads (FeatureSetDefaults_FeatureSetEditionDefault_switch W) 34 (read_message W (FeatureSet_decode W)) (store_some FeatureSetDefaults_FeatureSetEditionDefault_overridableFeatures_update)"
    and "switch_reads (FeatureSetDefaults_FeatureSetEditionDefault_switch W) 42 (read_message W (FeatureSet_decode W)) (store_some FeatureSetDefaults_FeatureSetEditionDefault_fixedFeatures_update)"
  by (auto simp: switch_reads_def switch_packs_def FeatureSetDefaults_FeatureSetEditionDefault_switch_def)

lemma FeatureSetDefaults_FeatureSetEditionDefault_good: "good_switch W valid k (FeatureSetDefaults_FeatureSetEditionDefault_switch W)"
  unfolding good_switch_def FeatureSetDefaults_FeatureSetEditionDefault_switch_def FeatureSet_decode_def
  by (auto intro!: good_step_case_read good_step_case_packed rString_safe rBool_safe rInt32_safe safe_read_message [OF FeatureSet.dec_safe])

lemma FeatureSetDefaults_FeatureSetEditionDefault_runs:
  assumes "FeatureSetDefaults_FeatureSetEditionDefault_fits m"
  shows "runs W valid rest k (FeatureSetDefaults_FeatureSetEditionDefault_switch W) (FeatureSetDefaults_FeatureSetEditionDefault_bytes m) (\<lambda>m0. FeatureSetDefaults_FeatureSetEditionDefault_merge m0 m)"
  unfolding FeatureSetDefaults_FeatureSetEditionDefault_bytes_def concat.simps
  by (rule runs_cong,
      (rule runs_append runs_Nil read_other_int FeatureSet.read_opt_sub
         FeatureSetDefaults_FeatureSetEditionDefault_reads [unfolded FeatureSet_decode_def] FeatureSetDefaults_FeatureSetEditionDefault_parts [OF assms]
      | erule FeatureSetDefaults_FeatureSetEditionDefault_overridableFeatures_fits [OF assms] FeatureSetDefaults_FeatureSetEditionDefault_fixedFeatures_fits [OF assms]
       | assumption | simp; fail)+,
      simp add: FeatureSetDefaults_FeatureSetEditionDefault_merge_def)

end

sublocale wire_laws \<subseteq> FeatureSetDefaults_FeatureSetEditionDefault: switch_codec W buf valid rest "FeatureSetDefaults_FeatureSetEditionDefault_encode W" "FeatureSetDefaults_FeatureSetEditionDefault_switch W"
    createBaseFeatureSetDefaults_FeatureSetEditionDefault FeatureSetDefaults_FeatureSetEditionDefault_bytes FeatureSetDefaults_FeatureSetEditionDefault_fits FeatureSetDefaults_FeatureSetEditionDefault_norm FeatureSetDefaults_FeatureSetEditionDefault_merge
proof unfold_locales
  show "FeatureSetDefaults_FeatureSetEditionDefault_merge createBaseFeatureSetDefaults_FeatureSetEditionDefault m = FeatureSetDefaults_FeatureSetEditionDefault_norm m" for m
    by (cases m) (auto simp: FeatureSetDefaults_FeatureSetEditionDefault_merge_def FeatureSetDefaults_FeatureSetEditionDefault_norm_def createBaseFeatureSetDefaults_FeatureSetEditionDefault_def nullish_def split: option.split)
qed (simp_all add: FeatureSetDefaults_FeatureSetEditionDefault_writes FeatureSetDefaults_FeatureSetEditionDefault_good FeatureSetDefaults_FeatureSetEditionDefault_runs, simp add: FeatureSetDefaults_FeatureSetEditionDefault_fits_def)

context wire_laws
begin

lemma FeatureSetDefaults_parts:
  assumes "FeatureSetDefaults_fits m"
  shows "length (rep_msg_field 10 FeatureSetDefaults_FeatureSetEditionDefault_bytes (FeatureSetDefaults_defaults m)) < 2 ^ 32"
    and "length (other_field 32 (NInt 0) int_payload (FeatureSetDefaults_minimumEdition m)) < 2 ^ 32"
    and "length (other_field 40 (NInt 0) int_payload (FeatureSetDefaults_maximumEdition m)) < 2 ^ 32"
    and "pred_option int32_ok (FeatureSetDefaults_minimumEdition m)"
    and "pred_option int32_ok (FeatureSetDefaults_maximumEdition m)"
  using assms by (simp_all add: FeatureSetDefaults_fits_def FeatureSetDefaults_bytes_def)

lemma FeatureSetDefaults_defaults_fits:
  assumes "FeatureSetDefaults_fits m" and "v \<in> set (FeatureSetDefaults_defaults m)"
  shows "FeatureSetDefaults_FeatureSetEditionDefault_fits v"
  using assms by (simp add: FeatureSetDefaults_fits_def list_all_iff)

lemma FeatureSetDefaults_writes:
  assumes "FeatureSetDefaults_fits m"
  shows "appends buf (FeatureSetDefaults_encode W m) (FeatureSetDefaults_bytes m)"
  unfolding FeatureSetDefaults_encode_def FeatureSetDefaults_bytes_def concat.simps
  by (rule appends_run_Cons appends_run_Nil FeatureSetDefaults_FeatureSetEditionDefault.enc_rep_sub enc_other_int FeatureSetDefaults_parts [OF assms]
      | erule FeatureSetDefaults_defaults_fits [OF assms])+

lemma FeatureSetDefaults_reads:
  shows "switch_reads (FeatureSetDefaults_switch W) 10 (read_message W (FeatureSetDefaults_FeatureSetEditionDefault_decode W)) (push FeatureSetDefaults_defaults_update)"
    and "switch_reads (FeatureSetDefaults_switch W) 32 (rInt32 W) (store_some FeatureSetDefaults_minimumEdition_update)"
    and "switch_reads (FeatureSetDefaults_switch W) 40 (rInt32 W) (store_some FeatureSetDefaults_maximumEdition_update)"
  by (auto simp: switch_reads_def switch_packs_def FeatureSetDefaults_switch_def)

lemma FeatureSetDefaults_good: "good_switch W valid k (FeatureSetDefaults_switch W)"
  unfolding good_switch_def FeatureSetDefaults_switch_def FeatureSetDefaults_FeatureSetEditionDefault_decode_def
  by (auto intro!: good_step_case_read good_step_case_packed rString_safe rBool_safe rInt32_safe safe_read_message [OF FeatureSetDefaults_FeatureSetEditionDefault.dec_safe])

lemma FeatureSetDefaults_runs:
  assumes "FeatureSetDefaults_fits m"
  shows "runs W valid rest k (FeatureSetDefaults_switch W) (FeatureSetDefaults_bytes m) (\<lambda>m0. FeatureSetDefaults_merge m0 m)"
  unfolding FeatureSetDefaults_bytes_def concat.simps
  by (rule runs_cong,
      (rule runs_append runs_Nil FeatureSetDefaults_FeatureSetEditionDefault.read_rep_sub read_other_int
         FeatureSetDefaults_reads [unfolded FeatureSetDefaults_FeatureSetEditionDefault_decode_def] FeatureSetDefaults_parts [OF assms]
      | erule FeatureSetDefaults_defaults_fits [OF assms]
       | assumption | simp; fail)+,
      simp add: FeatureSetDefaults_merge_def)

end

sublocale wire_laws \<subseteq> FeatureSetDefaults: switch_codec W buf valid rest "FeatureSetDefaults_encode W" "FeatureSetDefaults_switch W"
    createBaseFeatureSetDefaults FeatureSetDefaults_bytes FeatureSetDefaults_fits FeatureSetDefaults_norm FeatureSetDefaults_merge
proof unfold_locales
  show "FeatureSetDefaults_merge createBaseFeatureSetDefaults m = FeatureSetDefaults_norm m" for m
    by (cases m) (auto simp: FeatureSetDefaults_merge_def FeatureSetDefaults_norm_def createBaseFeatureSetDefaults_def nullish_def split: option.split)
qed (simp_all add: FeatureSetDefaults_writes FeatureSetDefaults_good FeatureSetDefaults_runs, simp add: FeatureSetDefaults_fits_def)

context wire_laws
begin

lemma FieldOptions_EditionDefault_parts:
  assumes "FieldOptions_EditionDefault_fits m"
  shows "length (other_field 24 (NInt 0) int_payload (FieldOptions_EditionDefault_edition m)) < 2 ^ 32"
    and "length (other_field 18 '''' str_payload (FieldOptions_EditionDefault_value m)) < 2 ^ 32"
    and "pred_option int32_ok (FieldOptions_EditionDefault_edition m)"
  using assms by (simp_all add: FieldOptions_EditionDefault_fits_def FieldOptions_EditionDefault_bytes_def)

lemma FieldOptions_EditionDefault_writes:
  assumes "FieldOptions_EditionDefault_fits m"
  shows "appends buf (FieldOptions_EditionDefault_encode W m) (FieldOptions_EditionDefault_bytes m)"
  unfolding FieldOptions_EditionDefault_encode_def FieldOptions_EditionDefault_bytes_def concat.simps
  by (rule appends_run_Cons appends_run_Nil enc_other_int enc_other_str FieldOptions_EditionDefault_parts [OF assms])+

lemma FieldOptions_EditionDefault_reads:
  shows "switch_reads (FieldOptions_EditionDefault_switch W) 24 (rInt32 W) (store_some FieldOptions_EditionDefault_edition_update)"
    and "switch_reads (FieldOptions_EditionDefault_switch W) 18 (rString W) (store_some FieldOptions_EditionDefault_value_update)"
  by (auto simp: switch_reads_def switch_packs_def FieldOptions_EditionDefault_switch_def)

lemma FieldOptions_EditionDefault_good: "good_switch W valid k (FieldOptions_EditionDefault_switch W)"
  unfolding good_switch_def FieldOptions_EditionDefault_switch_def 
  by (auto intro!: good_step_case_read good_step_case_packed rString_safe rBool_safe rInt32_safe )

lemma FieldOptions_EditionDefault_runs:
  assumes "FieldOptions_EditionDefault_fits m"
  shows "runs W valid rest k (FieldOptions_EditionDefault_switch W) (FieldOptions_EditionDefault_bytes m) (\<lambda>m0. FieldOptions_EditionDefault_merge m0 m)"
  unfolding FieldOptions_EditionDefault_bytes_def concat.simps
  by (rule runs_cong,
      (rule runs_append runs_Nil read_other_int read_other_str
         FieldOptions_EditionDefault_reads FieldOptions_EditionDefault_parts [OF assms]
       | assumption | simp; fail)+,
      simp add: FieldOptions_EditionDefault_merge_def)

end

sublocale wire_laws \<subseteq> FieldOptions_EditionDefault: switch_codec W buf valid rest "FieldOptions_EditionDefault_encode W" "FieldOptions_EditionDefault_switch W"
    createBaseFieldOptions_EditionDefault FieldOptions_EditionDefault_bytes FieldOptions_EditionDefault_fits FieldOptions_EditionDefault_norm FieldOptions_EditionDefault_merge
proof unfold_locales
  show "FieldOptions_EditionDefault_merge createBaseFieldOptions_EditionDefault m = FieldOptions_EditionDefault_norm m" for m
    by (cases m) (auto simp: FieldOptions_EditionDefault_merge_def FieldOptions_EditionDefault_norm_def createBaseFieldOptions_EditionDefault_def nullish_def split: option.split)
qed (simp_all add: FieldOptions_EditionDefault_writes FieldOptions_EditionDefault_good FieldOptions_EditionDefault_runs, simp add: FieldOptions_EditionDefault_fits_def)

context wire_laws
begin

lemma FieldOptions_FeatureSupport_parts:
  assumes "FieldOptions_FeatureSupport_fits m"
  shows "length (other_field 8 (NInt 0) int_payload (FieldOptions_FeatureSupport_editionIntroduced m)) < 2 ^ 32"
    and "length (other_field 16 (NInt 0) int_payload (FieldOptions_FeatureSupport_editionDeprecated m)) < 2 ^ 32"
    and "length (other_field 26 '''' str_payload (FieldOptions_FeatureSupport_deprecationWarning m)) < 2 ^ 32"
    and "length (other_field 32 (NInt 0) int_payload (FieldOptions_FeatureSupport_editionRemoved m)) < 2 ^ 32"
    and "pred_option int32_ok (FieldOptions_FeatureSupport_editionIntroduced m)"
    and "pred_option int32_ok (FieldOptions_FeatureSupport_editionDeprecated m)"
    and "pred_option int32_ok (FieldOptions_FeatureSupport_editionRemoved m)"
  using assms by (simp_all add: FieldOptions_FeatureSupport_fits_def FieldOptions_FeatureSupport_bytes_def)

lemma FieldOptions_FeatureSupport_writes:
  assumes "FieldOptions_FeatureSupport_fits m"
  shows "appends buf (FieldOptions_FeatureSupport_encode W m) (FieldOptions_FeatureSupport_bytes m)"
  unfolding FieldOptions_FeatureSupport_encode_def FieldOptions_FeatureSupport_bytes_def concat.simps
  by (rule appends_run_Cons appends_run_Nil enc_other_int enc_other_str FieldOptions_FeatureSupport_parts [OF assms])+

lemma FieldOptions_FeatureSupport_reads:
  shows "switch_reads (FieldOptions_FeatureSupport_switch W) 8 (rInt32 W) (store_some FieldOptions_FeatureSupport_editionIntroduced_update)"
    and "switch_reads (FieldOptions_FeatureSupport_switch W) 16 (rInt32 W) (store_some FieldOptions_FeatureSupport_editionDeprecated_update)"
    and "switch_reads (FieldOptions_FeatureSupport_switch W) 26 (rString W) (store_some FieldOptions_FeatureSupport_deprecationWarning_update)"
    and "switch_reads (FieldOptions_FeatureSupport_switch W) 32 (rInt32 W) (store_some FieldOptions_FeatureSupport_editionRemoved_update)"
  by (auto simp: switch_reads_def switch_packs_def FieldOptions_FeatureSupport_switch_def)

lemma FieldOptions_FeatureSupport_good: "good_switch W valid k (FieldOptions_FeatureSupport_switch W)"
  unfolding good_switch_def FieldOptions_FeatureSupport_switch_def 
  by (auto intro!: good_step_case_read good_step_case_packed rString_safe rBool_safe rInt32_safe )

lemma FieldOptions_FeatureSupport_runs:
  assumes "FieldOptions_FeatureSupport_fits m"
  shows "runs W valid rest k (FieldOptions_FeatureSupport_switch W) (FieldOptions_FeatureSupport_bytes m) (\<lambda>m0. FieldOptions_FeatureSupport_merge m0 m)"
  unfolding FieldOptions_FeatureSupport_bytes_def concat.simps
  by (rule runs_cong,
      (rule runs_append runs_Nil read_other_int read_other_str
         FieldOptions_FeatureSupport_reads FieldOptions_FeatureSupport_parts [OF assms]
       | assumption | simp; fail)+,
      simp add: FieldOptions_FeatureSupport_merge_def)

end

sublocale wire_laws \<subseteq> FieldOptions_FeatureSupport: switch_codec W buf valid rest "FieldOptions_FeatureSupport_encode W" "FieldOptions_FeatureSupport_switch W"
    createBaseFieldOptions_FeatureSupport FieldOptions_FeatureSupport_bytes FieldOptions_FeatureSupport_fits FieldOptions_FeatureSupport_norm FieldOptions_FeatureSupport_merge
proof unfold_locales
  show "FieldOptions_FeatureSupport_merge createBaseFieldOptions_FeatureSupport m = FieldOptions_FeatureSupport_norm m" for m
    by (cases m) (auto simp: FieldOptions_FeatureSupport_merge_def FieldOptions_FeatureSupport_norm_def createBaseFieldOptions_FeatureSupport_def nullish_def split: option.split)
qed (simp_all add: FieldOptions_FeatureSupport_writes FieldOptions_FeatureSupport_good FieldOptions_FeatureSupport_runs, simp add: FieldOptions_FeatureSupport_fits_def)

context wire_laws
begin

lemma DescriptorProto_ReservedRange_parts:
  assumes "DescriptorProto_ReservedRange_fits m"
  shows "length (other_field 8 (NInt 0) int_payload (DescriptorProto_ReservedRange_start m)) < 2 ^ 32"
    and "length (other_field 16 (NInt 0) int_payload (DescriptorProto_ReservedRange_end m)) < 2 ^ 32"
    and "pred_option int32_ok (DescriptorProto_ReservedRange_start m)"
    and "pred_option int32_ok (DescriptorProto_ReservedRange_end m)"
  using assms by (simp_all add: DescriptorProto_ReservedRange_fits_def DescriptorProto_ReservedRange_bytes_def)

lemma DescriptorProto_ReservedRange_writes:
  assumes "DescriptorProto_ReservedRange_fits m"
  shows "appends buf (DescriptorProto_ReservedRange_encode W m) (DescriptorProto_ReservedRange_bytes m)"
  unfolding DescriptorProto_ReservedRange_encode_def DescriptorProto_ReservedRange_bytes_def concat.simps
  by (rule appends_run_Cons appends_run_Nil enc_other_int DescriptorProto_ReservedRange_parts [OF assms])+

lemma DescriptorProto_ReservedRange_reads:
  shows "switch_reads (DescriptorProto_ReservedRange_switch W) 8 (rInt32 W) (store_some DescriptorProto_ReservedRange_start_update)"
    and "switch_reads (DescriptorProto_ReservedRange_switch W) 16 (rInt32 W) (store_some DescriptorProto_ReservedRange_end_update)"
  by (auto simp: switch_reads_def switch_packs_def DescriptorProto_ReservedRange_switch_def)

lemma DescriptorProto_ReservedRange_good: "good_switch W valid k (DescriptorProto_ReservedRange_switch W)"
  unfolding good_switch_def DescriptorProto_ReservedRange_switch_def 
  by (auto intro!: good_step_case_read good_step_case_packed rString_safe rBool_safe rInt32_safe )

lemma DescriptorProto_ReservedRange_runs:
  assumes "DescriptorProto_ReservedRange_fits m"
  shows "runs W valid rest k (DescriptorProto_ReservedRange_switch W) (DescriptorProto_ReservedRange_bytes m) (\<lambda>m0. DescriptorProto_ReservedRange_merge m0 m)"
  unfolding DescriptorProto_ReservedRange_bytes_def concat.simps
  by (rule runs_cong,
      (rule runs_append runs_Nil read_other_int
         DescriptorProto_ReservedRange_reads DescriptorProto_ReservedRange_parts [OF assms]
       | assumption | simp; fail)+,
      simp add: DescriptorProto_ReservedRange_merge_def)

end

sublocale wire_laws \<subseteq> DescriptorProto_ReservedRange: switch_codec W buf valid rest "DescriptorProto_ReservedRange_encode W" "DescriptorProto_ReservedRange_switch W"
    createBaseDescriptorProto_ReservedRange DescriptorProto_ReservedRange_bytes DescriptorProto_ReservedRange_fits DescriptorProto_ReservedRange_norm DescriptorProto_ReservedRange_merge
proof unfold_locales
  show "DescriptorProto_ReservedRange_merge createBaseDescriptorProto_ReservedRange m = DescriptorProto_ReservedRange_norm m" for m
    by (cases m) (auto simp: DescriptorProto_ReservedRange_merge_def DescriptorProto_ReservedRange_norm_def createBaseDescriptorProto_ReservedRange_def nullish_def split: option.split)
qed (simp_all add: DescriptorProto_ReservedRange_writes DescriptorProto_ReservedRange_good DescriptorProto_ReservedRange_runs, simp add: DescriptorProto_ReservedRange_fits_def)

context wire_laws
begin

lemma EnumDescriptorProto_EnumReservedRange_parts:
  assumes "EnumDescriptorProto_EnumReservedRange_fits m"
  shows "length (other_field 8 (NInt 0) int_payload (EnumDescriptorProto_EnumReservedRange_start m)) < 2 ^ 32"
    and "length (other_field 16 (NInt 0) int_payload (EnumDescriptorProto_EnumReservedRange_end m)) < 2 ^ 32"
    and "pred_option int32_ok (EnumDescriptorProto_EnumReservedRange_start m)"
    and "pred_option int32_ok (EnumDescriptorProto_EnumReservedRange_end m)"
  using assms by (simp_all add: EnumDescriptorProto_EnumReservedRange_fits_def EnumDescriptorProto_EnumReservedRange_bytes_def)

lemma EnumDescriptorProto_EnumReservedRange_writes:
  assumes "EnumDescriptorProto_EnumReservedRange_fits m"
  shows "appends buf (EnumDescriptorProto_EnumReservedRange_encode W m) (EnumDescriptorProto_EnumReservedRange_bytes m)"
  unfolding EnumDescriptorProto_EnumReservedRange_encode_def EnumDescriptorProto_EnumReservedRange_bytes_def concat.simps
  by (rule appends_run_Cons appends_run_Nil enc_other_int EnumDescriptorProto_EnumReservedRange_parts [OF assms])+

lemma EnumDescriptorProto_EnumReservedRange_reads:
  shows "switch_reads (EnumDescriptorProto_EnumReservedRange_switch W) 8 (rInt32 W) (store_some EnumDescriptorProto_EnumReservedRange_start_update)"
    and "switch_reads (EnumDescriptorProto_EnumReservedRange_switch W) 16 (rInt32 W) (store_some EnumDescriptorProto_EnumReservedRange_end_update)"
  by (auto simp: switch_reads_def switch_packs_def EnumDescriptorProto_EnumReservedRange_switch_def)

lemma EnumDescriptorProto_EnumReservedRange_good: "good_switch W valid k (EnumDescriptorProto_EnumReservedRange_switch W)"
  unfolding good_switch_def EnumDescriptorProto_EnumReservedRange_switch_def 
  by (auto intro!: good_step_case_read good_step_case_packed rString_safe rBool_safe rInt32_safe )

lemma EnumDescriptorProto_EnumReservedRange_runs:
  assumes "EnumDescriptorProto_EnumReservedRange_fits m"
  shows "runs W valid rest k (EnumDescriptorProto_EnumReservedRange_switch W) (EnumDescriptorProto_EnumReservedRange_bytes m) (\<lambda>m0. EnumDescriptorProto_EnumReservedRange_merge m0 m)"
  unfolding EnumDescriptorProto_EnumReservedRange_bytes_def concat.simps
  by (rule runs_cong,
      (rule runs_append runs_Nil read_other_int
         EnumDescriptorProto_EnumReservedRange_reads EnumDescriptorProto_EnumReservedRange_parts [OF assms]
       | assumption | simp; fail)+,
      simp add: EnumDescriptorProto_EnumReservedRange_merge_def)

end

sublocale wire_laws \<subseteq> EnumDescriptorProto_EnumReservedRange: switch_codec W buf valid rest "EnumDescriptorProto_EnumReservedRange_encode W" "EnumDescriptorProto_EnumReservedRange_switch W"
    createBaseEnumDescriptorProto_EnumReservedRange EnumDescriptorProto_EnumReservedRange_bytes EnumDescriptorProto_EnumReservedRange_fits EnumDescriptorProto_EnumReservedRange_norm EnumDescriptorProto_EnumReservedRange_merge
proof unfold_locales
  show "EnumDescriptorProto_EnumReservedRange_merge createBaseEnumDescriptorProto_EnumReservedRange m = EnumDescriptorProto_EnumReservedRange_norm m" for m
    by (cases m) (auto simp: EnumDescriptorProto_EnumReservedRange_merge_def EnumDescriptorProto_EnumReservedRange_norm_def createBaseEnumDescriptorProto_EnumReservedRange_def nullish_def split: option.split)
qed (simp_all add: EnumDescriptorProto_EnumReservedRange_writes EnumDescriptorProto_EnumReservedRange_good EnumDescriptorProto_EnumReservedRange_runs, simp add: EnumDescriptorProto_EnumReservedRange_fits_def)

context wire_laws
begin

lemma ExtensionRangeOptions_Declaration_parts:
  assumes "ExtensionRangeOptions_Declaration_fits m"
  shows "length (other_field 8 (NInt 0) int_payload (ExtensionRangeOptions_Declaration_number m)) < 2 ^ 32"
    and "length (other_field 18 '''' str_payload (ExtensionRangeOptions_Declaration_fullName m)) < 2 ^ 32"
    and "length (other_field 26 '''' str_payload (ExtensionRangeOptions_Declaration_type m)) < 2 ^ 32"
    and "length (other_field 40 False bool_payload (ExtensionRangeOptions_Declaration_reserved m)) < 2 ^ 32"
    and "length (other_field 48 False bool_payload (ExtensionRangeOptions_Declaration_repeated m)) < 2 ^ 32"
    and "pred_option int32_ok (ExtensionRangeOptions_Declaration_number m)"
  using assms by (simp_all add: ExtensionRangeOptions_Declaration_fits_def ExtensionRangeOptions_Declaration_bytes_def)

lemma ExtensionRangeOptions_Declaration_writes:
  assumes "ExtensionRangeOptions_Declaration_fits m"
  shows "appends buf (ExtensionRangeOptions_Declaration_encode W m) (ExtensionRangeOptions_Declaration_bytes m)"
  unfolding ExtensionRangeOptions_Declaration_encode_def ExtensionRangeOptions_Declaration_bytes_def concat.simps
  by (rule appends_run_Cons appends_run_Nil enc_other_int enc_other_str enc_other_bool ExtensionRangeOptions_Declaration_parts [OF assms])+

lemma ExtensionRangeOptions_Declaration_reads:
  shows "switch_reads (ExtensionRangeOptions_Declaration_switch W) 8 (rInt32 W) (store_some ExtensionRangeOptions_Declaration_number_update)"
    and "switch_reads (ExtensionRangeOptions_Declaration_switch W) 18 (rString W) (store_some ExtensionRangeOptions_Declaration_fullName_update)"
    and "switch_reads (ExtensionRangeOptions_Declaration_switch W) 26 (rString W) (store_some ExtensionRangeOptions_Declaration_type_update)"
    and "switch_reads (ExtensionRangeOptions_Declaration_switch W) 40 (rBool W) (store_some ExtensionRangeOptions_Declaration_reserved_update)"
    and "switch_reads (ExtensionRangeOptions_Declaration_switch W) 48 (rBool W) (store_some ExtensionRangeOptions_Declaration_repeated_update)"
  by (auto simp: switch_reads_def switch_packs_def ExtensionRangeOptions_Declaration_switch_def)

lemma ExtensionRangeOptions_Declaration_good: "good_switch W valid k (ExtensionRangeOptions_Declaration_switch W)"
  unfolding good_switch_def ExtensionRangeOptions_Declaration_switch_def 
  by (auto intro!: good_step_case_read good_step_case_packed rString_safe rBool_safe rInt32_safe )

lemma ExtensionRangeOptions_Declaration_runs:
  assumes "ExtensionRangeOptions_Declaration_fits m"
  shows "runs W valid rest k (ExtensionRangeOptions_Declaration_switch W) (ExtensionRangeOptions_Declaration_bytes m) (\<lambda>m0. ExtensionRangeOptions_Declaration_merge m0 m)"
  unfolding ExtensionRangeOptions_Declaration_bytes_def concat.simps
  by (rule runs_cong,
      (rule runs_append runs_Nil read_other_int read_other_str read_other_bool
         ExtensionRangeOptions_Declaration_reads ExtensionRangeOptions_Declaration_parts [OF assms]
       | assumption | simp; fail)+,
      simp add: ExtensionRangeOptions_Declaration_merge_def)

end

sublocale wire_laws \<subseteq> ExtensionRangeOptions_Declaration: switch_codec W buf valid rest "ExtensionRangeOptions_Declaration_encode W" "ExtensionRangeOptions_Declaration_switch W"
    createBaseExtensionRangeOptions_Declaration ExtensionRangeOptions_Declaration_bytes ExtensionRangeOptions_Declaration_fits ExtensionRangeOptions_Declaration_norm ExtensionRangeOptions_Declaration_merge
proof unfold_locales
  show "ExtensionRangeOptions_Declaration_merge createBaseExtensionRangeOptions_Declaration m = ExtensionRangeOptions_Declaration_norm m" for m
    by (cases m) (auto simp: ExtensionRangeOptions_Declaration_merge_def ExtensionRangeOptions_Declaration_norm_def createBaseExtensionRangeOptions_Declaration_def nullish_def split: option.split)
qed (simp_all add: ExtensionRangeOptions_Declaration_writes ExtensionRangeOptions_Declaration_good ExtensionRangeOptions_Declaration_runs, simp add: ExtensionRangeOptions_Declaration_fits_def)

context wire_laws
begin

lemma SourceCodeInfo_Location_parts:
  assumes "SourceCodeInfo_Location_fits m"
  shows "length (packed_field 10 (SourceCodeInfo_Location_path m)) < 2 ^ 32"
    and "length (packed_field 18 (SourceCodeInfo_Location_span m)) < 2 ^ 32"
    and "length (other_field 26 '''' str_payload (SourceCodeInfo_Location_leadingComments m)) < 2 ^ 32"
    and "length (other_field 34 '''' str_payload (SourceCodeInfo_Location_trailingComments m)) < 2 ^ 32"
    and "length (rep_str_field 50 (SourceCodeInfo_Location_leadingDetachedComments m)) < 2 ^ 32"
    and "list_all int32_ok (SourceCodeInfo_Location_path m)"
    and "list_all int32_ok (SourceCodeInfo_Location_span m)"
  using assms by (simp_all add: SourceCodeInfo_Location_fits_def SourceCodeInfo_Location_bytes_def)

lemma SourceCodeInfo_Location_writes:
  assumes "SourceCodeInfo_Location_fits m"
  shows "appends buf (SourceCodeInfo_Location_encode W m) (SourceCodeInfo_Location_bytes m)"
  unfolding SourceCodeInfo_Location_encode_def SourceCodeInfo_Location_bytes_def concat.simps
  by (rule appends_run_Cons appends_run_Nil enc_packed enc_other_str enc_rep_str SourceCodeInfo_Location_parts [OF assms])+

lemma SourceCodeInfo_Location_reads:
  shows "switch_packs W (SourceCodeInfo_Location_switch W) 8 10 (rInt32 W) (push SourceCodeInfo_Location_path_update)"
    and "switch_packs W (SourceCodeInfo_Location_switch W) 16 18 (rInt32 W) (push SourceCodeInfo_Location_span_update)"
    and "switch_reads (SourceCodeInfo_Location_switch W) 26 (rString W) (store_some SourceCodeInfo_Location_leadingComments_update)"
    and "switch_reads (SourceCodeInfo_Location_switch W) 34 (rString W) (store_some SourceCodeInfo_Location_trailingComments_update)"
    and "switch_reads (SourceCodeInfo_Location_switch W) 50 (rString W) (push SourceCodeInfo_Location_leadingDetachedComments_update)"
  by (auto simp: switch_reads_def switch_packs_def SourceCodeInfo_Location_switch_def)

lemma SourceCodeInfo_Location_good: "good_switch W valid k (SourceCodeInfo_Location_switch W)"
  unfolding good_switch_def SourceCodeInfo_Location_switch_def 
  by (auto intro!: good_step_case_read good_step_case_packed rString_safe rBool_safe rInt32_safe )

lemma SourceCodeInfo_Location_runs:
  assumes "SourceCodeInfo_Location_fits m"
  shows "runs W valid rest k (SourceCodeInfo_Location_switch W) (SourceCodeInfo_Location_bytes m) (\<lambda>m0. SourceCodeInfo_Location_merge m0 m)"
  unfolding SourceCodeInfo_Location_bytes_def concat.simps
  by (rule runs_cong,
      (rule runs_append runs_Nil read_packed read_other_str read_rep_str
         SourceCodeInfo_Location_reads SourceCodeInfo_Location_parts [OF assms]
       | assumption | simp; fail)+,
      simp add: SourceCodeInfo_Location_merge_def)

end

sublocale wire_laws \<subseteq> SourceCodeInfo_Location: switch_codec W buf valid rest "SourceCodeInfo_Location_encode W" "SourceCodeInfo_Location_switch W"
    createBaseSourceCodeInfo_Location SourceCodeInfo_Location_bytes SourceCodeInfo_Location_fits SourceCodeInfo_Location_norm SourceCodeInfo_Location_merge
proof unfold_locales
  show "SourceCodeInfo_Location_merge createBaseSourceCodeInfo_Location m = SourceCodeInfo_Location_norm m" for m
    by (cases m) (auto simp: SourceCodeInfo_Location_merge_def SourceCodeInfo_Location_norm_def createBaseSourceCodeInfo_Location_def nullish_def split: option.split)
qed (simp_all add: SourceCodeInfo_Location_writes SourceCodeInfo_Location_good SourceCodeInfo_Location_runs, simp add: SourceCodeInfo_Location_fits_def)

context wire_laws
begin

lemma SourceCodeInfo_parts:
  assumes "SourceCodeInfo_fits m"
  shows "length (rep_msg_field 10 SourceCodeInfo_Location_bytes (SourceCodeInfo_location m)) < 2 ^ 32"
  using assms by (simp_all add: SourceCodeInfo_fits_def SourceCodeInfo_bytes_def)

lemma SourceCodeInfo_location_fits:
  assumes "SourceCodeInfo_fits m" and "v \<in> set (SourceCodeInfo_location m)"
  shows "SourceCodeInfo_Location_fits v"
  using assms by (simp add: SourceCodeInfo_fits_def list_all_iff)

lemma SourceCodeInfo_writes:
  assumes "SourceCodeInfo_fits m"
  shows "appends buf (SourceCodeInfo_encode W m) (SourceCodeInfo_bytes m)"
  unfolding SourceCodeInfo_encode_def SourceCodeInfo_bytes_def concat.simps
  by (rule appends_run_Cons appends_run_Nil SourceCodeInfo_Location.enc_rep_sub SourceCodeInfo_parts [OF assms]
      | erule SourceCodeInfo_location_fits [OF assms])+

lemma SourceCodeInfo_reads:
  shows "switch_reads (SourceCodeInfo_switch W) 10 (read_message W (SourceCodeInfo_Location_decode W)) (push SourceCodeInfo_location_update)"
  by (auto simp: switch_reads_def switch_packs_def SourceCodeInfo_switch_def)

lemma SourceCodeInfo_good: "good_switch W valid k (SourceCodeInfo_switch W)"
  unfolding good_switch_def SourceCodeInfo_switch_def SourceCodeInfo_Location_decode_def
  by (auto intro!: good_step_case_read good_step_case_packed rString_safe rBool_safe rInt32_safe safe_read_message [OF SourceCodeInfo_Location.dec_safe])

lemma SourceCodeInfo_runs:
  assumes "SourceCodeInfo_fits m"
  shows "runs W valid rest k (SourceCodeInfo_switch W) (SourceCodeInfo_bytes m) (\<lambda>m0. SourceCodeInfo_merge m0 m)"
  unfolding SourceCodeInfo_bytes_def concat.simps
  by (rule runs_cong,
      (rule runs_append runs_Nil SourceCodeInfo_Location.read_rep_sub
         SourceCodeInfo_reads [unfolded SourceCodeInfo_Location_decode_def] SourceCodeInfo_parts [OF assms]
      | erule SourceCodeInfo_location_fits [OF assms]
       | assumption | simp; fail)+,
      simp add: SourceCodeInfo_merge_def)

end

sublocale wire_laws \<subseteq> SourceCodeInfo: switch_codec W buf valid rest "SourceCodeInfo_encode W" "SourceCodeInfo_switch W"
    createBaseSourceCodeInfo SourceCodeInfo_bytes SourceCodeInfo_fits SourceCodeInfo_norm SourceCodeInfo_merge
proof unfold_locales
  show "SourceCodeInfo_merge createBaseSourceCodeInfo m = SourceCodeInfo_norm m" for m
    by (cases m) (auto simp: SourceCodeInfo_merge_def SourceCodeInfo_norm_def createBaseSourceCodeInfo_def nullish_def split: option.split)
qed (simp_all add: SourceCodeInfo_writes SourceCodeInfo_good SourceCodeInfo_runs, simp add: SourceCodeInfo_fits_def)

context wire_laws
begin

lemma GeneratedCodeInfo_Annotation_parts:
  assumes "GeneratedCodeInfo_Annotation_fits m"
  shows "length (packed_field 10 (GeneratedCodeInfo_Annotation_path m)) < 2 ^ 32"
    and "length (other_field 18 '''' str_payload (GeneratedCodeInfo_Annotation_sourceFile m)) < 2 ^ 32"
    and "length (other_field 24 (NInt 0) int_payload (GeneratedCodeInfo_Annotation_begin m)) < 2 ^ 32"
    and "length (other_field 32 (NInt 0) int_payload (GeneratedCodeInfo_Annotation_end m)) < 2 ^ 32"
    and "length (other_field 40 (NInt 0) int_payload (GeneratedCodeInfo_Annotation_semantic m)) < 2 ^ 32"
    and "list_all int32_ok (GeneratedCodeInfo_Annotation_path m)"
    and "pred_option int32_ok (GeneratedCodeInfo_Annotation_begin m)"
    and "pred_option int32_ok (GeneratedCodeInfo_Annotation_end m)"
    and "pred_option int32_ok (GeneratedCodeInfo_Annotation_semantic m)"
  using assms by (simp_all add: GeneratedCodeInfo_Annotation_fits_def GeneratedCodeInfo_Annotation_bytes_def)

lemma GeneratedCodeInfo_Annotation_writes:
  assumes "GeneratedCodeInfo_Annotation_fits m"
  shows "appends buf (GeneratedCodeInfo_Annotation_encode W m) (GeneratedCodeInfo_Annotation_bytes m)"
  unfolding GeneratedCodeInfo_Annotation_encode_def GeneratedCodeInfo_Annotation_bytes_def concat.simps
  by (rule appends_run_Cons appends_run_Nil enc_packed enc_other_str enc_other_int GeneratedCodeInfo_Annotation_parts [OF assms])+

lemma GeneratedCodeInfo_Annotation_reads:
  shows "switch_packs W (GeneratedCodeInfo_Annotation_switch W) 8 10 (rInt32 W) (push GeneratedCodeInfo_Annotation_path_update)"
    and "switch_reads (GeneratedCodeInfo_Annotation_switch W) 18 (rString W) (store_some GeneratedCodeInfo_Annotation_sourceFile_update)"
    and "switch_reads (GeneratedCodeInfo_Annotation_switch W) 24 (rInt32 W) (store_some GeneratedCodeInfo_Annotation_begin_update)"
    and "switch_reads (GeneratedCodeInfo_Annotation_switch W) 32 (rInt32 W) (store_some GeneratedCodeInfo_Annotation_end_update)"
    and "switch_reads (GeneratedCodeInfo_Annotation_switch W) 40 (rInt32 W) (store_some GeneratedCodeInfo_Annotation_semantic_update)"
  by (auto simp: switch_reads_def switch_packs_def GeneratedCodeInfo_Annotation_switch_def)

lemma GeneratedCodeInfo_Annotation_good: "good_switch W valid k (GeneratedCodeInfo_Annotation_switch W)"
  unfolding good_switch_def GeneratedCodeInfo_Annotation_switch_def 
  by (auto intro!: good_step_case_read good_step_case_packed rString_safe rBool_safe rInt32_safe )

lemma GeneratedCodeInfo_Annotation_runs:
  assumes "GeneratedCodeInfo_Annotation_fits m"
  shows "runs W valid rest k (GeneratedCodeInfo_Annotation_switch W) (GeneratedCodeInfo_Annotation_bytes m) (\<lambda>m0. GeneratedCodeInfo_Annotation_merge m0 m)"
  unfolding GeneratedCodeInfo_Annotation_bytes_def concat.simps
  by (rule runs_cong,
      (rule runs_append runs_Nil read_packed read_other_str read_other_int
         GeneratedCodeInfo_Annotation_reads GeneratedCodeInfo_Annotation_parts [OF assms]
       | assumption | simp; fail)+,
      simp add: GeneratedCodeInfo_Annotation_merge_def)

end

sublocale wire_laws \<subseteq> GeneratedCodeInfo_Annotation: switch_codec W buf valid rest "GeneratedCodeInfo_Annotation_encode W" "GeneratedCodeInfo_Annotation_switch W"
    createBaseGeneratedCodeInfo_Annotation GeneratedCodeInfo_Annotation_bytes GeneratedCodeInfo_Annotation_fits GeneratedCodeInfo_Annotation_norm GeneratedCodeInfo_Annotation_merge
proof unfold_locales
  show "GeneratedCodeInfo_Annotation_merge createBaseGeneratedCodeInfo_Annotation m = GeneratedCodeInfo_Annotation_norm m" for m
    by (cases m) (auto simp: GeneratedCodeInfo_Annotation_merge_def GeneratedCodeInfo_Annotation_norm_def createBaseGeneratedCodeInfo_Annotation_def nullish_def split: option.split)
qed (simp_all add: GeneratedCodeInfo_Annotation_writes GeneratedCodeInfo_Annotation_good GeneratedCodeInfo_Annotation_runs, simp add: GeneratedCodeInfo_Annotation_fits_def)

context wire_laws
begin

lemma GeneratedCodeInfo_parts:
  assumes "GeneratedCodeInfo_fits m"
  shows "length (rep_msg_field 10 GeneratedCodeInfo_Annotation_bytes (GeneratedCodeInfo_annotation m)) < 2 ^ 32"
  using assms by (simp_all add: GeneratedCodeInfo_fits_def GeneratedCodeInfo_bytes_def)

lemma GeneratedCodeInfo_annotation_fits:
  assumes "GeneratedCodeInfo_fits m" and "v \<in> set (GeneratedCodeInfo_annotation m)"
  shows "GeneratedCodeInfo_Annotation_fits v"
  using assms by (simp add: GeneratedCodeInfo_fits_def list_all_iff)

lemma GeneratedCodeInfo_writes:
  assumes "GeneratedCodeInfo_fits m"
  shows "appends buf (GeneratedCodeInfo_encode W m) (GeneratedCodeInfo_bytes m)"
  unfolding GeneratedCodeInfo_encode_def GeneratedCodeInfo_bytes_def concat.simps
  by (rule appends_run_Cons appends_run_Nil GeneratedCodeInfo_Annotation.enc_rep_sub GeneratedCodeInfo_parts [OF assms]
      | erule GeneratedCodeInfo_annotation_fits [OF assms])+

lemma GeneratedCodeInfo_reads:
  shows "switch_reads (GeneratedCodeInfo_switch W) 10 (read_message W (GeneratedCodeInfo_Annotation_decode W)) (push GeneratedCodeInfo_annotation_update)"
  by (auto simp: switch_reads_def switch_packs_def GeneratedCodeInfo_switch_def)

lemma GeneratedCodeInfo_good: "good_switch W valid k (GeneratedCodeInfo_switch W)"
  unfolding good_switch_def GeneratedCodeInfo_switch_def GeneratedCodeInfo_Annotation_decode_def
  by (auto intro!: good_step_case_read good_step_case_packed rString_safe rBool_safe rInt32_safe safe_read_message [OF GeneratedCodeInfo_Annotation.dec_safe])

lemma GeneratedCodeInfo_runs:
  assumes "GeneratedCodeInfo_fits m"
  shows "runs W valid rest k (GeneratedCodeInfo_switch W) (GeneratedCodeInfo_bytes m) (\<lambda>m0. GeneratedCodeInfo_merge m0 m)"
  unfolding GeneratedCodeInfo_bytes_def concat.simps
  by (rule runs_cong,
      (rule runs_append runs_Nil GeneratedCodeInfo_Annotation.read_rep_sub
         GeneratedCodeInfo_reads [unfolded GeneratedCodeInfo_Annotation_decode_def] GeneratedCodeInfo_parts [OF assms]
      | erule GeneratedCodeInfo_annotation_fits [OF assms]
       | assumption | simp; fail)+,
      simp add: GeneratedCodeInfo_merge_def)

end

sublocale wire_laws \<subseteq> GeneratedCodeInfo: switch_codec W buf valid rest "GeneratedCodeInfo_encode W" "GeneratedCodeInfo_switch W"
    createBaseGeneratedCodeInfo GeneratedCodeInfo_bytes GeneratedCodeInfo_fits GeneratedCodeInfo_norm GeneratedCodeInfo_merge
proof unfold_locales
  show "GeneratedCodeInfo_merge createBaseGeneratedCodeInfo m = GeneratedCodeInfo_norm m" for m
    by (cases m) (auto simp: GeneratedCodeInfo_merge_def GeneratedCodeInfo_norm_def createBaseGeneratedCodeInfo_def nullish_def split: option.split)
qed (simp_all add: GeneratedCodeInfo_writes GeneratedCodeInfo_good GeneratedCodeInfo_runs, simp add: GeneratedCodeInfo_fits_def)

section \<open>JSON forms read back\<close>

interpretation UninterpretedOption_NamePart_json: json_codec UninterpretedOption_NamePart_toJSON UninterpretedOption_NamePart_fromJSON UninterpretedOption_NamePart_jnorm
proof unfold_locales
  show "UninterpretedOption_NamePart_fromJSON (UninterpretedOption_NamePart_toJSON m) = Inr (UninterpretedOption_NamePart_jnorm m)" for m
    unfolding UninterpretedOption_NamePart_fromJSON_def UninterpretedOption_NamePart_toJSON_def UninterpretedOption_NamePart_jnorm_def
    by (simp add: json_members )
qed (simp add: UninterpretedOption_NamePart_toJSON_def)

interpretation FeatureSet_json: json_codec FeatureSet_toJSON FeatureSet_fromJSON FeatureSet_jnorm
proof unfold_locales
  show "FeatureSet_fromJSON (FeatureSet_toJSON m) = Inr (FeatureSet_jnorm m)" for m
    unfolding FeatureSet_fromJSON_def FeatureSet_toJSON_def FeatureSet_jnorm_def
    by (simp add: json_members )
qed (simp add: FeatureSet_toJSON_def)

interpretation FeatureSetDefaults_FeatureSetEditionDefault_json: json_codec FeatureSetDefaults_FeatureSetEditionDefault_toJSON FeatureSetDefaults_FeatureSetEditionDefault_fromJSON FeatureSetDefaults_FeatureSetEditionDefault_jnorm
proof unfold_locales
  show "FeatureSetDefaults_FeatureSetEditionDefault_fromJSON (FeatureSetDefaults_FeatureSetEditionDefault_toJSON m) = Inr (FeatureSetDefaults_FeatureSetEditionDefault_jnorm m)" for m
    unfolding FeatureSetDefaults_FeatureSetEditionDefault_fromJSON_def FeatureSetDefaults_FeatureSetEditionDefault_toJSON_def FeatureSetDefaults_FeatureSetEditionDefault_jnorm_def
    by (simp add: json_members FeatureSet_json.json_sub)
qed (simp add: FeatureSetDefaults_FeatureSetEditionDefault_toJSON_def)

interpretation FeatureSetDefaults_json: json_codec FeatureSetDefaults_toJSON FeatureSetDefaults_fromJSON FeatureSetDefaults_jnorm
proof unfold_locales
  show "FeatureSetDefaults_fromJSON (FeatureSetDefaults_toJSON m) = Inr (FeatureSetDefaults_jnorm m)" for m
    unfolding FeatureSetDefaults_fromJSON_def FeatureSetDefaults_toJSON_def FeatureSetDefaults_jnorm_def
    by (simp add: json_members FeatureSetDefaults_FeatureSetEditionDefault_json.json_sub)
qed (simp add: FeatureSetDefaults_toJSON_def)

interpretation FieldOptions_EditionDefault_json: json_codec FieldOptions_EditionDefault_toJSON FieldOptions_EditionDefault_fromJSON FieldOptions_EditionDefault_jnorm
proof unfold_locales
  show "FieldOptions_EditionDefault_fromJSON (FieldOptions_EditionDefault_toJSON m) = Inr (FieldOptions_EditionDefault_jnorm m)" for m
    unfolding FieldOptions_EditionDefault_fromJSON_def FieldOptions_EditionDefault_toJSON_def FieldOptions_EditionDefault_jnorm_def
    by (simp add: json_members )
qed (simp add: FieldOptions_EditionDefault_toJSON_def)

interpretation FieldOptions_FeatureSupport_json: json_codec FieldOptions_FeatureSupport_toJSON FieldOptions_FeatureSupport_fromJSON FieldOptions_FeatureSupport_jnorm
proof unfold_locales
  show "FieldOptions_FeatureSupport_fromJSON (FieldOptions_FeatureSupport_toJSON m) = Inr (FieldOptions_FeatureSupport_jnorm m)" for m
    unfolding FieldOptions_FeatureSupport_fromJSON_def FieldOptions_FeatureSupport_toJSON_def FieldOptions_FeatureSupport_jnorm_def
    by (simp add: json_members )
qed (simp add: FieldOptions_FeatureSupport_toJSON_def)

interpretation DescriptorProto_ReservedRange_json: json_codec DescriptorProto_ReservedRange_toJSON DescriptorProto_ReservedRange_fromJSON DescriptorProto_ReservedRange_jnorm
proof unfold_locales
  show "DescriptorProto_ReservedRange_fromJSON (DescriptorProto_ReservedRange_toJSON m) = Inr (DescriptorProto_ReservedRange_jnorm m)" for m
    unfolding DescriptorProto_ReservedRange_fromJSON_def DescriptorProto_ReservedRange_toJSON_def DescriptorProto_ReservedRange_jnorm_def
    by (simp add: json_members )
qed (simp add: DescriptorProto_ReservedRange_toJSON_def)

interpretation EnumDescriptorProto_EnumReservedRange_json: json_codec EnumDescriptorProto_EnumReservedRange_toJSON EnumDescriptorProto_EnumReservedRange_fromJSON EnumDescriptorProto_EnumReservedRange_jnorm
proof unfold_locales
  show "EnumDescriptorProto_EnumReservedRange_fromJSON (EnumDescriptorProto_EnumReservedRange_toJSON m) = Inr (EnumDescriptorProto_EnumReservedRange_jnorm m)" for m
    unfolding EnumDescriptorProto_EnumReservedRange_fromJSON_def EnumDescriptorProto_EnumReservedRange_toJSON_def EnumDescriptorProto_EnumReservedRange_jnorm_def
    by (simp add: json_members )
qed (simp add: EnumDescriptorProto_EnumReservedRange_toJSON_def)

interpretation ExtensionRangeOptions_Declaration_json: json_codec ExtensionRangeOptions_Declaration_toJSON ExtensionRangeOptions_Declaration_fromJSON ExtensionRangeOptions_Declaration_jnorm
proof unfold_locales
  show "ExtensionRangeOptions_Declaration_fromJSON (ExtensionRangeOptions_Declaration_toJSON m) = Inr (ExtensionRangeOptions_Declaration_jnorm m)" for m
    unfolding ExtensionRangeOptions_Declaration_fromJSON_def ExtensionRangeOptions_Declaration_toJSON_def ExtensionRangeOptions_Declaration_jnorm_def
    by (simp add: json_members )
qed (simp add: ExtensionRangeOptions_Declaration_toJSON_def)

interpretation SourceCodeInfo_Location_json: json_codec SourceCodeInfo_Location_toJSON SourceCodeInfo_Location_fromJSON SourceCodeInfo_Location_jnorm
proof unfold_locales
  show "SourceCodeInfo_Location_fromJSON (SourceCodeInfo_Location_toJSON m) = Inr (SourceCodeInfo_Location_jnorm m)" for m
    unfolding SourceCodeInfo_Location_fromJSON_def SourceCodeInfo_Location_toJSON_def SourceCodeInfo_Location_jnorm_def
    by (simp add: json_members )
qed (simp add: SourceCodeInfo_Location_toJSON_def)

interpretation SourceCodeInfo_json: json_codec SourceCodeInfo_toJSON SourceCodeInfo_fromJSON SourceCodeInfo_jnorm
proof unfold_locales
  show "SourceCodeInfo_fromJSON (SourceCodeInfo_toJSON m) = Inr (SourceCodeInfo_jnorm m)" for m
    unfolding SourceCodeInfo_fromJSON_def SourceCodeInfo_toJSON_def SourceCodeInfo_jnorm_def
    by (simp add: json_members SourceCodeInfo_Location_json.json_sub)
qed (simp add: SourceCodeInfo_toJSON_def)

interpretation GeneratedCodeInfo_Annotation_json: json_codec GeneratedCodeInfo_Annotation_toJSON GeneratedCodeInfo_Annotation_fromJSON GeneratedCodeInfo_Annotation_jnorm
proof unfold_locales
  show "GeneratedCodeInfo_Annotation_fromJSON (GeneratedCodeInfo_Annotation_toJSON m) = Inr (GeneratedCodeInfo_Annotation_jnorm m)" for m
    unfolding GeneratedCodeInfo_Annotation_fromJSON_def GeneratedCodeInfo_Annotation_toJSON_def GeneratedCodeInfo_Annotation_jnorm_def
    by (simp add: json_members )
qed (simp add: GeneratedCodeInfo_Annotation_toJSON_def)

interpretation GeneratedCodeInfo_json: json_codec GeneratedCodeInfo_toJSON GeneratedCodeInfo_fromJSON GeneratedCodeInfo_jnorm
proof unfold_locales
  show "GeneratedCodeInfo_fromJSON (GeneratedCodeInfo_toJSON m) = Inr (GeneratedCodeInfo_jnorm m)" for m
    unfolding GeneratedCodeInfo_fromJSON_def GeneratedCodeInfo_toJSON_def GeneratedCodeInfo_jnorm_def
    by (simp add: json_members GeneratedCodeInfo_Annotation_json.json_sub)
qed (simp add: GeneratedCodeInfo_toJSON_def)

end
