(* ===== verification/Base64.thy ===== *)
theory Base64
  imports JS_Value
begin

text \<open>
  Base 64 as RFC 4648 defines it, with a decoder for its canonical texts and the two lenient
  decoders that JavaScript hosts offer: \<^verbatim>\<open>atob\<close> of the browsers (the forgiving decoder of the
  Infra standard) and \<^verbatim>\<open>Buffer.from(s, "base64")\<close> of Node. All of them give back the bytes a text
  was made from.
\<close>

section \<open>The alphabet\<close>

definition b64_char :: "nat \<Rightarrow> char" where
  "b64_char n =
     (if n < 26 then char_of (65 + n)
      else if n < 52 then char_of (71 + n)
      else if n < 62 then char_of (n - 4)
      else if n = 62 then CHR ''+'' else CHR ''/'')"

definition b64_value :: "char \<Rightarrow> nat option" where
  "b64_value c =
     (let n = (of_char c :: nat) in
      if 65 \<le> n \<and> n \<le> 90 then Some (n - 65)
      else if 97 \<le> n \<and> n \<le> 122 then Some (n - 71)
      else if 48 \<le> n \<and> n \<le> 57 then Some (n + 4)
      else if n = 43 then Some 62
      else if n = 47 then Some 63
      else None)"

section \<open>Encoding\<close>

text \<open>Three bytes are four digits of six bits; a shorter last group is padded.\<close>

fun sextets :: "nat list \<Rightarrow> nat list" where
  "sextets [] = []"
| "sextets [a] = [a div 4, a mod 4 * 16]"
| "sextets [a, b] = [a div 4, a mod 4 * 16 + b div 16, b mod 16 * 4]"
| "sextets (a # b # c # cs) =
     a div 4 # (a mod 4 * 16 + b div 16) # (b mod 16 * 4 + c div 64) # c mod 64 # sextets cs"

definition padding :: "nat \<Rightarrow> string" where
  "padding n = (if n mod 3 = 1 then ''=='' else if n mod 3 = 2 then ''='' else [])"

definition base64 :: "bytes \<Rightarrow> string" where
  "base64 bs = map b64_char (sextets (map unat bs)) @ padding (length bs)"

section \<open>Decoding\<close>

fun octets :: "nat list \<Rightarrow> nat list" where
  "octets (a # b # c # d # cs) =
     (a * 4 + b div 16) # (b mod 16 * 16 + c div 4) # (c mod 4 * 64 + d) # octets cs"
| "octets [a, b, c] = [a * 4 + b div 16, b mod 16 * 16 + c div 4]"
| "octets [a, b] = [a * 4 + b div 16]"
| "octets _ = []"

definition ascii_space :: "char \<Rightarrow> bool" where
  "ascii_space c \<longleftrightarrow> (of_char c :: nat) \<in> {9, 10, 12, 13, 32}"

text \<open>
  The forgiving decoder: white space is dropped, up to two equals signs at the end of a text
  of full groups are dropped, then the text must consist of digits, not one more than a
  multiple of four.
\<close>

definition drop_padding :: "string \<Rightarrow> string" where
  "drop_padding s =
     (if length s mod 4 \<noteq> 0 then s
      else let n = length (takeWhile (\<lambda>c. c = CHR ''='') (rev s))
           in take (length s - min n 2) s)"

definition forgiving_decode :: "string \<Rightarrow> bytes option" where
  "forgiving_decode s =
     (let t = drop_padding (filter (\<lambda>c. \<not> ascii_space c) s); vs = map b64_value t in
      if length t mod 4 = 1 \<or> None \<in> set vs then None
      else Some (map word_of_nat (octets (map the vs))))"

text \<open>
  The decoder of Node: it stops at an equals sign, passes over characters outside the
  alphabet, and reads the two digits of the URL alphabet as well.
\<close>

definition node_value :: "char \<Rightarrow> nat option" where
  "node_value c = (if c = CHR ''-'' then Some 62 else if c = CHR ''_'' then Some 63 else b64_value c)"

definition node_decode :: "string \<Rightarrow> bytes" where
  "node_decode s =
     map word_of_nat (octets (map the (filter (\<lambda>v. v \<noteq> None) (map node_value (takeWhile (\<lambda>c. c \<noteq> CHR ''='') s)))))"

section \<open>Lemmas\<close>

lemma b64_char_code: "n < 64 \<Longrightarrow> (of_char (b64_char n) :: nat) =
    (if n < 26 then 65 + n else if n < 52 then 71 + n else if n < 62 then n - 4 else if n = 62 then 43 else 47)"
  by (simp add: b64_char_def of_char_of)

lemma b64_value_char: "n < 64 \<Longrightarrow> b64_value (b64_char n) = Some n"
  by (auto simp: b64_value_def b64_char_code Let_def)

lemma b64_char_facts:
  assumes "n < 64"
  shows "b64_char n \<noteq> CHR ''=''" and "\<not> ascii_space (b64_char n)"
    and "b64_char n \<noteq> CHR ''-''" and "b64_char n \<noteq> CHR ''_''"
proof -
  have "(of_char (b64_char n) :: nat) \<notin> {61, 45, 95, 9, 10, 12, 13, 32}"
    using assms by (auto simp: b64_char_code)
  then show "b64_char n \<noteq> CHR ''=''" and "\<not> ascii_space (b64_char n)"
    and "b64_char n \<noteq> CHR ''-''" and "b64_char n \<noteq> CHR ''_''"
    by (auto simp: ascii_space_def)
qed

lemma sextets_less: "list_all (\<lambda>a. a < 256) as \<Longrightarrow> list_all (\<lambda>v. v < 64) (sextets as)"
proof (induction as rule: sextets.induct)
  case (4 a b c cs)
  then have "a div 4 < 64" "b div 16 < 16" "c div 64 < 4" by auto
  moreover have "a mod 4 < 4" "b mod 16 < 16" "c mod 64 < 64" by simp_all
  ultimately have "a mod 4 * 16 + b div 16 < 64" "b mod 16 * 4 + c div 64 < 64" by linarith+
  with 4 \<open>a div 4 < 64\<close> show ?case by simp
next
  case (3 a b)
  then have "b div 16 < 16" by auto
  moreover have "a mod 4 < 4" by simp
  ultimately have "a mod 4 * 16 + b div 16 < 64" by linarith
  with 3 show ?case by auto
qed auto

lemma octets_sextets: "list_all (\<lambda>a. a < 256) as \<Longrightarrow> octets (sextets as) = as"
proof (induction as rule: sextets.induct)
  case (2 a)
  then show ?case by simp
next
  case (3 a b)
  then have "b div 16 < 16" by auto
  then show ?case by simp
next
  case (4 a b c cs)
  then have "b div 16 < 16" "c div 64 < 4" by auto
  with 4 show ?case by simp
qed simp

lemma div_3:
  fixes n :: nat
  shows "(n + 2) div 3 = n div 3 + (if n mod 3 = 0 then 0 else 1)" and "Suc (Suc (Suc n)) div 3 = Suc (n div 3)"
    and "Suc (Suc (Suc n)) mod 3 = n mod 3" and "(3 + n) div 3 = Suc (n div 3)"
  by presburger+

lemma sextets_length: "length (sextets as) = 4 * (length as div 3) + (if length as mod 3 = 0 then 0 else length as mod 3 + 1)"
proof (induction as rule: sextets.induct)
  case (4 a b c cs)
  then show ?case by (simp add: div_3)
qed simp_all

lemma base64_length: "length (base64 bs) = 4 * ((length bs + 2) div 3)"
proof -
  have "length bs mod 3 = 0 \<or> length bs mod 3 = 1 \<or> length bs mod 3 = 2" by linarith
  then show ?thesis by (auto simp: base64_def sextets_length padding_def div_3(1) simp del: add_2_eq_Suc')
qed

lemma bytes_less: "list_all (\<lambda>a. a < 256) (map unat (bs :: bytes))"
proof -
  have "unat b < 256" for b :: "8 word" using unsigned_less [of b] by simp
  then show ?thesis by (simp add: list_all_iff)
qed

lemma octets_base64: "map word_of_nat (octets (sextets (map unat bs))) = (bs :: bytes)"
  by (simp add: octets_sextets [OF bytes_less] comp_def)

lemma digits_base64:
  fixes bs :: bytes
  defines "vs \<equiv> sextets (map unat bs)"
  shows "map b64_value (map b64_char vs) = map Some vs"
    and "map node_value (map b64_char vs) = map Some vs"
    and "filter (\<lambda>c. \<not> ascii_space c) (map b64_char vs) = map b64_char vs"
    and "CHR ''='' \<notin> set (map b64_char vs)"
proof -
  have vs: "v < 64" if "v \<in> set vs" for v
    using that sextets_less [OF bytes_less, of bs] by (simp add: vs_def list_all_iff)
  show "map b64_value (map b64_char vs) = map Some vs"
    and "map node_value (map b64_char vs) = map Some vs"
    using vs by (simp_all add: b64_value_char node_value_def b64_char_facts)
  show "filter (\<lambda>c. \<not> ascii_space c) (map b64_char vs) = map b64_char vs"
    using vs by (simp add: filter_id_conv b64_char_facts)
  show "CHR ''='' \<notin> set (map b64_char vs)"
    using vs b64_char_facts(1) by fastforce
qed

lemma takeWhile_not_in:
  assumes "x \<notin> set xs"
  shows "takeWhile (\<lambda>c. c \<noteq> x) (xs @ ys) = xs @ takeWhile (\<lambda>c. c \<noteq> x) ys"
    and "takeWhile (\<lambda>c. c = x) (zs @ rev xs) = takeWhile (\<lambda>c. c = x) zs"
proof -
  show "takeWhile (\<lambda>c. c \<noteq> x) (xs @ ys) = xs @ takeWhile (\<lambda>c. c \<noteq> x) ys"
    using assms by (intro takeWhile_append2) auto
  have "takeWhile (\<lambda>c. c = x) (rev xs) = []"
    using assms by (cases xs rule: rev_cases) auto
  then show "takeWhile (\<lambda>c. c = x) (zs @ rev xs) = takeWhile (\<lambda>c. c = x) zs"
    by (induction zs) simp_all
qed

lemma node_decode_base64: "node_decode (base64 bs) = bs"
proof -
  let ?ds = "map b64_char (sextets (map unat bs))"
  have "takeWhile (\<lambda>c. c \<noteq> CHR ''='') (?ds @ padding (length bs)) = ?ds"
    unfolding takeWhile_not_in(1) [OF digits_base64(4)] by (simp add: padding_def)
  moreover have "map the (map Some vs) = vs" for vs :: "nat list" by (simp add: comp_def)
  ultimately show ?thesis
    by (simp add: node_decode_def base64_def digits_base64(2) octets_base64 del: map_map)
qed

lemma drop_padding_base64:
  "drop_padding (base64 bs) = map b64_char (sextets (map unat bs))"
proof -
  let ?ds = "map b64_char (sextets (map unat bs))"
  have "takeWhile (\<lambda>c. c = CHR ''='') (rev (?ds @ padding (length bs))) = padding (length bs)"
    unfolding rev_append takeWhile_not_in(2) [OF digits_base64(4)] by (simp add: padding_def)
  moreover have "length (padding (length bs)) \<le> 2" by (simp add: padding_def)
  moreover have "length (base64 bs) mod 4 = 0" by (simp add: base64_length)
  ultimately show ?thesis by (simp add: drop_padding_def base64_def)
qed

lemma forgiving_decode_base64: "forgiving_decode (base64 bs) = Some bs"
proof -
  let ?vs = "sextets (map unat bs)"
  have "filter (\<lambda>c. \<not> ascii_space c) (padding (length bs)) = padding (length bs)"
    by (simp add: padding_def ascii_space_def)
  then have "filter (\<lambda>c. \<not> ascii_space c) (base64 bs) = base64 bs"
    by (simp only: base64_def filter_append digits_base64(3))
  moreover have "length ?vs mod 4 \<noteq> 1"
    by (auto simp: sextets_length mod_mult_self4)
  moreover have "map the (map Some ?vs) = ?vs" by (simp add: comp_def)
  moreover have "None \<notin> set (map Some ?vs)" by auto
  ultimately show ?thesis
    by (simp only: forgiving_decode_def drop_padding_base64 digits_base64(1) octets_base64 Let_def length_map
        if_False simp_thms)
qed

end
