(* ===== verification/Descriptor_Runtime.thy ===== *)
theory Descriptor_Runtime
  imports Codec Base64
begin

text \<open>
  The helper functions at the end of \<^verbatim>\<open>descriptor.ts\<close>: \<^verbatim>\<open>longToNumber\<close>, which turns the
  64-bit integers of the wire library into JavaScript numbers, and the two base-64
  functions, which use Node's \<^verbatim>\<open>Buffer\<close> where there is one and \<^verbatim>\<open>atob\<close> and \<^verbatim>\<open>btoa\<close>
  elsewhere. The host's functions are the fields of a record, what they promise is the locale
  \<open>base64_laws\<close>, and both kinds of host are shown to satisfy it. Then the rules for the field
  types that only the descriptor messages have: 64-bit integers, doubles and bytes.
\<close>

unbundle bit_operations_syntax

section \<open>64-bit integers as numbers\<close>

definition MAX_SAFE_INTEGER :: jsnum where
  "MAX_SAFE_INTEGER = NInt (2 ^ 53 - 1)"

definition MIN_SAFE_INTEGER :: jsnum where
  "MIN_SAFE_INTEGER = NInt (- (2 ^ 53 - 1))"

text \<open>\<^verbatim>\<open>globalThis.Number(int64.toString())\<close> with its two checks.\<close>

definition longToNumber :: "int \<Rightarrow> jsnum res" where
  "longToNumber int64 =
     rbind (js_Number (JStr (num_to_string (NInt int64)))) (\<lambda>num.
       if js_less MAX_SAFE_INTEGER num then Inl (Error ''Value is larger than Number.MAX_SAFE_INTEGER'')
       else if js_less num MIN_SAFE_INTEGER then Inl (Error ''Value is smaller than Number.MIN_SAFE_INTEGER'')
       else Inr num)"

lemma longToNumber_eq:
  "longToNumber i =
     (if 2 ^ 53 \<le> i then Inl (Error ''Value is larger than Number.MAX_SAFE_INTEGER'')
      else if i \<le> - (2 ^ 53) then Inl (Error ''Value is smaller than Number.MIN_SAFE_INTEGER'')
      else Inr (NInt i))"
  by (auto simp: longToNumber_def num_to_string_NInt MAX_SAFE_INTEGER_def MIN_SAFE_INTEGER_def simp del: num_to_string.simps)

text \<open>\<^verbatim>\<open>longToNumber(reader.uint64())\<close>\<close>

definition read_long :: "('r \<Rightarrow> (int \<times> 'r) res) \<Rightarrow> 'r \<Rightarrow> (jsnum \<times> 'r) res" where
  "read_long read r = rbind (read r) (\<lambda>(i, r'). rbind (longToNumber i) (\<lambda>n. Inr (n, r')))"

section \<open>Base 64 on a JavaScript host\<close>

text \<open>
  \<open>hostBuffer\<close> says whether \<^verbatim>\<open>globalThis.Buffer\<close> exists. \<open>bufferFrom\<close> is
  \<^verbatim>\<open>Buffer.from(b64, "base64")\<close>, \<open>bufferBase64\<close> is \<^verbatim>\<open>Buffer.from(arr).toString("base64")\<close>;
  \<open>hostAtob\<close> and \<open>hostBtoa\<close> are the functions of these names.
\<close>

record base64_host =
  hostBuffer :: bool
  bufferFrom :: "jsval \<Rightarrow> bytes res"
  bufferBase64 :: "bytes \<Rightarrow> string"
  hostAtob :: "jsval \<Rightarrow> string res"
  hostBtoa :: "string \<Rightarrow> string"

definition char_byte :: "char \<Rightarrow> 8 word" where
  "char_byte c = word_of_nat (of_char c)"

definition byte_char :: "8 word \<Rightarrow> char" where
  "byte_char b = char_of (unat b)"

text \<open>\<^verbatim>\<open>for (let i = 0; i < bin.length; ++i) arr[i] = bin.charCodeAt(i)\<close>\<close>

definition copy_codes :: "string \<Rightarrow> bytes" where
  "copy_codes bin = fold (\<lambda>i arr. arr[i := char_byte (bin ! i)]) [0..<length bin] (replicate (length bin) 0)"

definition bytesFromBase64 :: "base64_host \<Rightarrow> jsval \<Rightarrow> bytes res" where
  "bytesFromBase64 H b64 =
     (if hostBuffer H then rbind (bufferFrom H b64) (\<lambda>buf. Inr (map (\<lambda>b. b) buf))
      else rbind (hostAtob H b64) (\<lambda>bin. Inr (copy_codes bin)))"

definition base64FromBytes :: "base64_host \<Rightarrow> bytes \<Rightarrow> string" where
  "base64FromBytes H arr =
     (if hostBuffer H then bufferBase64 H arr
      else let bin = fold (\<lambda>byte bin. bin @ [[byte_char byte]]) arr [] in hostBtoa H (join [] bin))"

text \<open>The loop that copies character codes writes every element once.\<close>

lemma copy_codes_prefix:
  "n \<le> length bin \<Longrightarrow>
   fold (\<lambda>i arr. arr[i := char_byte (bin ! i)]) [0..<n] (replicate (length bin) 0)
     = map char_byte (take n bin) @ replicate (length bin - n) 0"
proof (induction n)
  case 0
  then show ?case by simp
next
  case (Suc n)
  then have "length bin - n = Suc (length bin - Suc n)" by simp
  with Suc show ?case by (simp add: take_Suc_conv_app_nth list_update_append)
qed

lemma copy_codes_eq: "copy_codes bin = map char_byte bin"
  by (simp add: copy_codes_def copy_codes_prefix)

lemma join_chars: "join [] (fold (\<lambda>byte bin. bin @ [[byte_char byte]]) arr []) = map byte_char arr"
proof -
  have fold: "fold (\<lambda>byte bin. bin @ [[byte_char byte]]) arr acc = acc @ map (\<lambda>b. [byte_char b]) arr" for acc
    by (induction arr arbitrary: acc) simp_all
  have "join [] (map (\<lambda>b. [byte_char b]) bs) = map byte_char bs" for bs
    by (induction bs rule: induct_list012) simp_all
  with fold [of "[]"] show ?thesis by simp
qed

lemma byte_char_byte [simp]: "char_byte (byte_char b) = b"
proof -
  have "unat b < 256" using unsigned_less [of b] by simp
  then show ?thesis by (simp add: char_byte_def byte_char_def of_char_of)
qed

section \<open>What a host promises\<close>

locale base64_laws =
  fixes H :: base64_host
  assumes buffer_encode: "hostBuffer H \<Longrightarrow> bufferBase64 H b = base64 b"
    and buffer_decode: "hostBuffer H \<Longrightarrow> bufferFrom H (JStr (base64 b)) = Inr b"
    and btoa: "\<not> hostBuffer H \<Longrightarrow> hostBtoa H (map byte_char b) = base64 b"
    and atob: "\<not> hostBuffer H \<Longrightarrow> hostAtob H (JStr (base64 b)) = Inr (map byte_char b)"
begin

lemma base64FromBytes_eq: "base64FromBytes H b = base64 b"
  by (simp add: base64FromBytes_def buffer_encode btoa join_chars)

lemma bytesFromBase64_base64: "bytesFromBase64 H (JStr (base64 b)) = Inr b"
  by (cases "hostBuffer H")
    (simp_all add: bytesFromBase64_def buffer_decode atob copy_codes_eq comp_def)

lemma read_bytes:
  "read_member (Some (put_other x [] (\<lambda>v. JStr (base64FromBytes H v)))) (some_res (bytesFromBase64 H)) (Inr (Some []))
     = Inr (Some (nullish x []))"
  by (auto simp: read_member_def put_other_def nullish_def base64FromBytes_eq bytesFromBase64_base64 split: option.split)

end

text \<open>
  A browser and Node, from the Infra standard and Node's documentation. A browser's \<^verbatim>\<open>atob\<close>
  converts its argument to a string; \<^verbatim>\<open>Buffer.from\<close> is given for text only and rejects
  everything else.
\<close>

definition browser_host :: base64_host where
  "browser_host = \<lparr>
     hostBuffer = False,
     bufferFrom = (\<lambda>v. Inl (TypeError ''Buffer is undefined'')),
     bufferBase64 = (\<lambda>b. []),
     hostAtob = (\<lambda>v. rbind (js_String v) (\<lambda>s. case forgiving_decode s of
        None \<Rightarrow> Inl (Error ''InvalidCharacterError'') | Some b \<Rightarrow> Inr (map byte_char b))),
     hostBtoa = (\<lambda>s. base64 (map char_byte s))\<rparr>"

definition node_host :: base64_host where
  "node_host = \<lparr>
     hostBuffer = True,
     bufferFrom = (\<lambda>v. case v of JStr s \<Rightarrow> Inr (node_decode s) | _ \<Rightarrow> Inl (TypeError ''invalid argument'')),
     bufferBase64 = base64,
     hostAtob = (\<lambda>v. rbind (js_String v) (\<lambda>s. case forgiving_decode s of
        None \<Rightarrow> Inl (Error ''InvalidCharacterError'') | Some b \<Rightarrow> Inr (map byte_char b))),
     hostBtoa = (\<lambda>s. base64 (map char_byte s))\<rparr>"

interpretation browser: base64_laws browser_host
  by unfold_locales (simp_all add: browser_host_def forgiving_decode_base64 comp_def)

interpretation node: base64_laws node_host
  by unfold_locales (simp_all add: node_host_def node_decode_base64)

section \<open>Field rules\<close>

context wire_laws
begin

lemma enc_other_uint64 [wire_writes]:
  assumes "pred_option uint64_ok x"
  shows "appends buf (if_other x d (\<lambda>v. tagged W t (wUint64 W v))) (other_field t d int_payload x)"
proof (rule enc_other_field)
  fix v assume "x = Some v"
  with assms show "appends buf (wUint64 W v) (int_payload v)" by (cases v) (simp_all add: wUint64)
qed

lemma enc_other_int64 [wire_writes]:
  assumes "pred_option int64_ok x"
  shows "appends buf (if_other x d (\<lambda>v. tagged W t (wInt64 W v))) (other_field t d int_payload x)"
proof (rule enc_other_field)
  fix v assume "x = Some v"
  with assms show "appends buf (wInt64 W v) (int_payload v)" by (cases v) (simp_all add: wInt64)
qed

lemma enc_other_double [wire_writes]:
  "pred_option double_ok x \<Longrightarrow>
   appends buf (if_other x d (\<lambda>v. tagged W t (wDouble W v))) (other_field t d double_payload x)"
  by (rule enc_other_field) (simp add: wDouble)

lemma enc_other_bytes [wire_writes]:
  assumes "length (other_field t d delimited x) < 2 ^ 32"
  shows "appends buf (if_other x d (\<lambda>v. tagged W t (wBytes W v))) (other_field t d delimited x)"
proof (rule enc_other_field)
  fix v
  assume "x = Some v" and "v \<noteq> d"
  with assms have "length v < 2 ^ 32"
    by - (rule delimited_bound, simp add: other_field_def)
  then show "appends buf (wBytes W v) (delimited v)" by (rule wBytes)
qed

lemma reads_long:
  assumes "reads_as W valid rest k rd b i" and "- (2 ^ 53) < i" and "i < 2 ^ 53"
  shows "reads_as W valid rest k (read_long rd) b (NInt i)"
  using assms unfolding reads_as_def by (fastforce simp: read_long_def longToNumber_eq)

lemma read_other_uint64 [wire_reads]:
  assumes "switch_reads sw t (read_long (rUint64 W)) (store_some U)" and "\<And>m. U (\<lambda>x. x) m = m"
    and "pred_option uint64_ok x"
  shows "runs W valid rest k sw (other_field t d int_payload x) (U (\<lambda>old. if x = None \<or> x = Some d then old else x))"
proof (rule read_other_field [OF assms(1,2)])
  fix v assume "x = Some v"
  with assms(3) show "reads_as W valid rest k (read_long (rUint64 W)) (int_payload v) v"
    by (cases v) (simp_all add: reads_long rUint64)
qed

lemma read_other_int64 [wire_reads]:
  assumes "switch_reads sw t (read_long (rInt64 W)) (store_some U)" and "\<And>m. U (\<lambda>x. x) m = m"
    and "pred_option int64_ok x"
  shows "runs W valid rest k sw (other_field t d int_payload x) (U (\<lambda>old. if x = None \<or> x = Some d then old else x))"
proof (rule read_other_field [OF assms(1,2)])
  fix v assume "x = Some v"
  with assms(3) show "reads_as W valid rest k (read_long (rInt64 W)) (int_payload v) v"
    by (cases v) (simp_all add: reads_long rInt64)
qed

lemma read_other_double [wire_reads]:
  assumes "switch_reads sw t (rDouble W) (store_some U)" and "\<And>m. U (\<lambda>x. x) m = m"
    and "pred_option double_ok x"
  shows "runs W valid rest k sw (other_field t d double_payload x) (U (\<lambda>old. if x = None \<or> x = Some d then old else x))"
  by (rule read_other_field [OF assms(1,2)]) (use assms(3) in \<open>simp add: rDouble\<close>)

lemma read_other_bytes [wire_reads]:
  assumes "switch_reads sw t (rBytes W) (store_some U)" and "\<And>m. U (\<lambda>x. x) m = m"
    and "length (other_field t d delimited x) < 2 ^ 32"
  shows "runs W valid rest k sw (other_field t d delimited x) (U (\<lambda>old. if x = None \<or> x = Some d then old else x))"
proof (rule read_other_field [OF assms(1,2)])
  fix v
  assume "x = Some v" and "v \<noteq> d"
  with assms(3) have "length v < 2 ^ 32"
    by - (rule delimited_bound, simp add: other_field_def)
  then show "reads_as W valid rest k (rBytes W) (delimited v) v" by (rule rBytes)
qed

lemma read_long_safe: "safe_read W valid r (rd r) \<Longrightarrow> safe_read W valid r (read_long rd r)"
  unfolding read_long_def
  by (rule safe_read_bind) (auto simp: longToNumber_eq safe_read_Inl safe_read_Inr forward_def)

lemmas wide_safe = rDouble_safe rBytes_safe read_long_safe [where rd = "rUint64 W", OF rUint64_safe]
  read_long_safe [where rd = "rInt64 W", OF rInt64_safe]

end

end
