(* ===== verification/Descriptor_Options.thy ===== *)
theory Descriptor_Options
  imports Descriptor_Messages Descriptor_Runtime
begin

text \<open>
  The options messages of \<^verbatim>\<open>descriptor.ts\<close>, from \<^verbatim>\<open>UninterpretedOption\<close>, which all the others
  contain and which has the 64-bit, floating-point and bytes fields, to \<^verbatim>\<open>FileOptions\<close>. The JSON
  conversions depend on the host, as bytes are written in base 64.
\<close>

unbundle bit_operations_syntax

section \<open>UninterpretedOption\<close>

record UninterpretedOption =
  UninterpretedOption_name :: "UninterpretedOption_NamePart list"
  UninterpretedOption_identifierValue :: "string option"
  UninterpretedOption_positiveIntValue :: "jsnum option"
  UninterpretedOption_negativeIntValue :: "jsnum option"
  UninterpretedOption_doubleValue :: "jsnum option"
  UninterpretedOption_stringValue :: "bytes option"
  UninterpretedOption_aggregateValue :: "string option"

definition createBaseUninterpretedOption :: UninterpretedOption where
  "createBaseUninterpretedOption = \<lparr>UninterpretedOption_name = [], UninterpretedOption_identifierValue = Some '''', UninterpretedOption_positiveIntValue = Some (NInt 0), UninterpretedOption_negativeIntValue = Some (NInt 0), UninterpretedOption_doubleValue = Some (NInt 0), UninterpretedOption_stringValue = Some [], UninterpretedOption_aggregateValue = Some ''''\<rparr>"

definition UninterpretedOption_encode :: "('w, 'r) wire \<Rightarrow> UninterpretedOption \<Rightarrow> 'w stmt" where
  "UninterpretedOption_encode W message = run [
     for_each (UninterpretedOption_name message) (\<lambda>v. sub_message W 18 (UninterpretedOption_NamePart_encode W v)),
     if_other (UninterpretedOption_identifierValue message) '''' (\<lambda>v. tagged W 26 (wString W v)),
     if_other (UninterpretedOption_positiveIntValue message) (NInt 0) (\<lambda>v. tagged W 32 (wUint64 W v)),
     if_other (UninterpretedOption_negativeIntValue message) (NInt 0) (\<lambda>v. tagged W 40 (wInt64 W v)),
     if_other (UninterpretedOption_doubleValue message) (NInt 0) (\<lambda>v. tagged W 49 (wDouble W v)),
     if_other (UninterpretedOption_stringValue message) [] (\<lambda>v. tagged W 58 (wBytes W v)),
     if_other (UninterpretedOption_aggregateValue message) '''' (\<lambda>v. tagged W 66 (wString W v))]"

definition UninterpretedOption_switch :: "('w, 'r) wire \<Rightarrow> (UninterpretedOption, 'r) switch" where
  "UninterpretedOption_switch W tag message reader =
   (if drop_bit 3 tag = 2 then case_read tag 18 (read_message W (UninterpretedOption_NamePart_decode W)) (push UninterpretedOption_name_update) message reader
    else if drop_bit 3 tag = 3 then case_read tag 26 (rString W) (store_some UninterpretedOption_identifierValue_update) message reader
    else if drop_bit 3 tag = 4 then case_read tag 32 (read_long (rUint64 W)) (store_some UninterpretedOption_positiveIntValue_update) message reader
    else if drop_bit 3 tag = 5 then case_read tag 40 (read_long (rInt64 W)) (store_some UninterpretedOption_negativeIntValue_update) message reader
    else if drop_bit 3 tag = 6 then case_read tag 49 (rDouble W) (store_some UninterpretedOption_doubleValue_update) message reader
    else if drop_bit 3 tag = 7 then case_read tag 58 (rBytes W) (store_some UninterpretedOption_stringValue_update) message reader
    else if drop_bit 3 tag = 8 then case_read tag 66 (rString W) (store_some UninterpretedOption_aggregateValue_update) message reader
    else Inr None)"

definition UninterpretedOption_decode :: "('w, 'r) wire \<Rightarrow> 'r input \<Rightarrow> nat option \<Rightarrow> (UninterpretedOption \<times> 'r) res" where
  "UninterpretedOption_decode W = decode_msg W (UninterpretedOption_switch W) createBaseUninterpretedOption"

definition UninterpretedOption_fromJSON :: "base64_host \<Rightarrow> jsval \<Rightarrow> UninterpretedOption res" where
  "UninterpretedOption_fromJSON H object =
     rbind (json_array object ''name'' UninterpretedOption_NamePart_fromJSON (Inr [])) (\<lambda>name.
     rbind (json_field2 object ''identifierValue'' ''identifier_value'' (some_res js_String) (Inr (Some ''''))) (\<lambda>identifierValue.
     rbind (json_field2 object ''positiveIntValue'' ''positive_int_value'' (some_res js_Number) (Inr (Some (NInt 0)))) (\<lambda>positiveIntValue.
     rbind (json_field2 object ''negativeIntValue'' ''negative_int_value'' (some_res js_Number) (Inr (Some (NInt 0)))) (\<lambda>negativeIntValue.
     rbind (json_field2 object ''doubleValue'' ''double_value'' (some_res js_Number) (Inr (Some (NInt 0)))) (\<lambda>doubleValue.
     rbind (json_field2 object ''stringValue'' ''string_value'' (some_res (bytesFromBase64 H)) (Inr (Some []))) (\<lambda>stringValue.
     rbind (json_field2 object ''aggregateValue'' ''aggregate_value'' (some_res js_String) (Inr (Some ''''))) (\<lambda>aggregateValue.
     Inr \<lparr>UninterpretedOption_name = name, UninterpretedOption_identifierValue = identifierValue, UninterpretedOption_positiveIntValue = positiveIntValue, UninterpretedOption_negativeIntValue = negativeIntValue, UninterpretedOption_doubleValue = doubleValue, UninterpretedOption_stringValue = stringValue, UninterpretedOption_aggregateValue = aggregateValue\<rparr>)))))))"

definition UninterpretedOption_toJSON :: "base64_host \<Rightarrow> UninterpretedOption \<Rightarrow> jsval" where
  "UninterpretedOption_toJSON H message = json_object [
     (''name'', put_if (UninterpretedOption_name message \<noteq> []) (JArr (map UninterpretedOption_NamePart_toJSON (UninterpretedOption_name message)))),
     (''identifierValue'', put_other (UninterpretedOption_identifierValue message) '''' JStr),
     (''positiveIntValue'', put_other (UninterpretedOption_positiveIntValue message) (NInt 0) (\<lambda>n. JNum (js_round n))),
     (''negativeIntValue'', put_other (UninterpretedOption_negativeIntValue message) (NInt 0) (\<lambda>n. JNum (js_round n))),
     (''doubleValue'', put_other (UninterpretedOption_doubleValue message) (NInt 0) JNum),
     (''stringValue'', put_other (UninterpretedOption_stringValue message) [] (\<lambda>v. JStr (base64FromBytes H v))),
     (''aggregateValue'', put_other (UninterpretedOption_aggregateValue message) '''' JStr)]"

record UninterpretedOption_Partial =
  Partial_UninterpretedOption_name :: "UninterpretedOption_NamePart_Partial list option"
  Partial_UninterpretedOption_identifierValue :: "string option"
  Partial_UninterpretedOption_positiveIntValue :: "jsnum option"
  Partial_UninterpretedOption_negativeIntValue :: "jsnum option"
  Partial_UninterpretedOption_doubleValue :: "jsnum option"
  Partial_UninterpretedOption_stringValue :: "bytes option"
  Partial_UninterpretedOption_aggregateValue :: "string option"

definition UninterpretedOption_fromPartial :: "UninterpretedOption_Partial \<Rightarrow> UninterpretedOption" where
  "UninterpretedOption_fromPartial object = createBaseUninterpretedOption\<lparr>
     UninterpretedOption_name := nullish (map_option (map UninterpretedOption_NamePart_fromPartial) (Partial_UninterpretedOption_name object)) [],
     UninterpretedOption_identifierValue := Some (nullish (Partial_UninterpretedOption_identifierValue object) ''''),
     UninterpretedOption_positiveIntValue := Some (nullish (Partial_UninterpretedOption_positiveIntValue object) (NInt 0)),
     UninterpretedOption_negativeIntValue := Some (nullish (Partial_UninterpretedOption_negativeIntValue object) (NInt 0)),
     UninterpretedOption_doubleValue := Some (nullish (Partial_UninterpretedOption_doubleValue object) (NInt 0)),
     UninterpretedOption_stringValue := Some (nullish (Partial_UninterpretedOption_stringValue object) []),
     UninterpretedOption_aggregateValue := Some (nullish (Partial_UninterpretedOption_aggregateValue object) '''')\<rparr>"

definition UninterpretedOption_create :: "UninterpretedOption_Partial option \<Rightarrow> UninterpretedOption" where
  "UninterpretedOption_create base = UninterpretedOption_fromPartial (nullish base \<lparr>Partial_UninterpretedOption_name = None, Partial_UninterpretedOption_identifierValue = None, Partial_UninterpretedOption_positiveIntValue = None, Partial_UninterpretedOption_negativeIntValue = None, Partial_UninterpretedOption_doubleValue = None, Partial_UninterpretedOption_stringValue = None, Partial_UninterpretedOption_aggregateValue = None\<rparr>)"

section \<open>OneofOptions\<close>

record OneofOptions =
  OneofOptions_features :: "FeatureSet option"
  OneofOptions_uninterpretedOption :: "UninterpretedOption list"

definition createBaseOneofOptions :: OneofOptions where
  "createBaseOneofOptions = \<lparr>OneofOptions_features = None, OneofOptions_uninterpretedOption = []\<rparr>"

definition OneofOptions_encode :: "('w, 'r) wire \<Rightarrow> OneofOptions \<Rightarrow> 'w stmt" where
  "OneofOptions_encode W message = run [
     if_set (OneofOptions_features message) (\<lambda>v. sub_message W 10 (FeatureSet_encode W v)),
     for_each (OneofOptions_uninterpretedOption message) (\<lambda>v. sub_message W 7994 (UninterpretedOption_encode W v))]"

definition OneofOptions_switch :: "('w, 'r) wire \<Rightarrow> (OneofOptions, 'r) switch" where
  "OneofOptions_switch W tag message reader =
   (if drop_bit 3 tag = 1 then case_read tag 10 (read_message W (FeatureSet_decode W)) (store_some OneofOptions_features_update) message reader
    else if drop_bit 3 tag = 999 then case_read tag 7994 (read_message W (UninterpretedOption_decode W)) (push OneofOptions_uninterpretedOption_update) message reader
    else Inr None)"

definition OneofOptions_decode :: "('w, 'r) wire \<Rightarrow> 'r input \<Rightarrow> nat option \<Rightarrow> (OneofOptions \<times> 'r) res" where
  "OneofOptions_decode W = decode_msg W (OneofOptions_switch W) createBaseOneofOptions"

definition OneofOptions_fromJSON :: "base64_host \<Rightarrow> jsval \<Rightarrow> OneofOptions res" where
  "OneofOptions_fromJSON H object =
     rbind (json_field object ''features'' (some_res FeatureSet_fromJSON) (Inr None)) (\<lambda>features.
     rbind (json_array object ''uninterpretedOption'' (UninterpretedOption_fromJSON H) (json_array object ''uninterpreted_option'' (UninterpretedOption_fromJSON H) (Inr []))) (\<lambda>uninterpretedOption.
     Inr \<lparr>OneofOptions_features = features, OneofOptions_uninterpretedOption = uninterpretedOption\<rparr>))"

definition OneofOptions_toJSON :: "base64_host \<Rightarrow> OneofOptions \<Rightarrow> jsval" where
  "OneofOptions_toJSON H message = json_object [
     (''features'', map_option FeatureSet_toJSON (OneofOptions_features message)),
     (''uninterpretedOption'', put_if (OneofOptions_uninterpretedOption message \<noteq> []) (JArr (map (UninterpretedOption_toJSON H) (OneofOptions_uninterpretedOption message))))]"

record OneofOptions_Partial =
  Partial_OneofOptions_features :: "FeatureSet_Partial option"
  Partial_OneofOptions_uninterpretedOption :: "UninterpretedOption_Partial list option"

definition OneofOptions_fromPartial :: "OneofOptions_Partial \<Rightarrow> OneofOptions" where
  "OneofOptions_fromPartial object = createBaseOneofOptions\<lparr>
     OneofOptions_features := map_option FeatureSet_fromPartial (Partial_OneofOptions_features object),
     OneofOptions_uninterpretedOption := nullish (map_option (map UninterpretedOption_fromPartial) (Partial_OneofOptions_uninterpretedOption object)) []\<rparr>"

definition OneofOptions_create :: "OneofOptions_Partial option \<Rightarrow> OneofOptions" where
  "OneofOptions_create base = OneofOptions_fromPartial (nullish base \<lparr>Partial_OneofOptions_features = None, Partial_OneofOptions_uninterpretedOption = None\<rparr>)"

section \<open>EnumOptions\<close>

record EnumOptions =
  EnumOptions_allowAlias :: "bool option"
  EnumOptions_deprecated :: "bool option"
  EnumOptions_deprecatedLegacyJsonFieldConflicts :: "bool option"
  EnumOptions_features :: "FeatureSet option"
  EnumOptions_uninterpretedOption :: "UninterpretedOption list"

definition createBaseEnumOptions :: EnumOptions where
  "createBaseEnumOptions = \<lparr>EnumOptions_allowAlias = Some False, EnumOptions_deprecated = Some False, EnumOptions_deprecatedLegacyJsonFieldConflicts = Some False, EnumOptions_features = None, EnumOptions_uninterpretedOption = []\<rparr>"

definition EnumOptions_encode :: "('w, 'r) wire \<Rightarrow> EnumOptions \<Rightarrow> 'w stmt" where
  "EnumOptions_encode W message = run [
     if_other (EnumOptions_allowAlias message) False (\<lambda>v. tagged W 16 (wBool W v)),
     if_other (EnumOptions_deprecated message) False (\<lambda>v. tagged W 24 (wBool W v)),
     if_other (EnumOptions_deprecatedLegacyJsonFieldConflicts message) False (\<lambda>v. tagged W 48 (wBool W v)),
     if_set (EnumOptions_features message) (\<lambda>v. sub_message W 58 (FeatureSet_encode W v)),
     for_each (EnumOptions_uninterpretedOption message) (\<lambda>v. sub_message W 7994 (UninterpretedOption_encode W v))]"

definition EnumOptions_switch :: "('w, 'r) wire \<Rightarrow> (EnumOptions, 'r) switch" where
  "EnumOptions_switch W tag message reader =
   (if drop_bit 3 tag = 2 then case_read tag 16 (rBool W) (store_some EnumOptions_allowAlias_update) message reader
    else if drop_bit 3 tag = 3 then case_read tag 24 (rBool W) (store_some EnumOptions_deprecated_update) message reader
    else if drop_bit 3 tag = 6 then case_read tag 48 (rBool W) (store_some EnumOptions_deprecatedLegacyJsonFieldConflicts_update) message reader
    else if drop_bit 3 tag = 7 then case_read tag 58 (read_message W (FeatureSet_decode W)) (store_some EnumOptions_features_update) message reader
    else if drop_bit 3 tag = 999 then case_read tag 7994 (read_message W (UninterpretedOption_decode W)) (push EnumOptions_uninterpretedOption_update) message reader
    else Inr None)"

definition EnumOptions_decode :: "('w, 'r) wire \<Rightarrow> 'r input \<Rightarrow> nat option \<Rightarrow> (EnumOptions \<times> 'r) res" where
  "EnumOptions_decode W = decode_msg W (EnumOptions_switch W) createBaseEnumOptions"

definition EnumOptions_fromJSON :: "base64_host \<Rightarrow> jsval \<Rightarrow> EnumOptions res" where
  "EnumOptions_fromJSON H object =
     rbind (json_field2 object ''allowAlias'' ''allow_alias'' (some_res js_Boolean_res) (Inr (Some False))) (\<lambda>allowAlias.
     rbind (json_field object ''deprecated'' (some_res js_Boolean_res) (Inr (Some False))) (\<lambda>deprecated.
     rbind (json_field2 object ''deprecatedLegacyJsonFieldConflicts'' ''deprecated_legacy_json_field_conflicts'' (some_res js_Boolean_res) (Inr (Some False))) (\<lambda>deprecatedLegacyJsonFieldConflicts.
     rbind (json_field object ''features'' (some_res FeatureSet_fromJSON) (Inr None)) (\<lambda>features.
     rbind (json_array object ''uninterpretedOption'' (UninterpretedOption_fromJSON H) (json_array object ''uninterpreted_option'' (UninterpretedOption_fromJSON H) (Inr []))) (\<lambda>uninterpretedOption.
     Inr \<lparr>EnumOptions_allowAlias = allowAlias, EnumOptions_deprecated = deprecated, EnumOptions_deprecatedLegacyJsonFieldConflicts = deprecatedLegacyJsonFieldConflicts, EnumOptions_features = features, EnumOptions_uninterpretedOption = uninterpretedOption\<rparr>)))))"

definition EnumOptions_toJSON :: "base64_host \<Rightarrow> EnumOptions \<Rightarrow> jsval" where
  "EnumOptions_toJSON H message = json_object [
     (''allowAlias'', put_other (EnumOptions_allowAlias message) False JBool),
     (''deprecated'', put_other (EnumOptions_deprecated message) False JBool),
     (''deprecatedLegacyJsonFieldConflicts'', put_other (EnumOptions_deprecatedLegacyJsonFieldConflicts message) False JBool),
     (''features'', map_option FeatureSet_toJSON (EnumOptions_features message)),
     (''uninterpretedOption'', put_if (EnumOptions_uninterpretedOption message \<noteq> []) (JArr (map (UninterpretedOption_toJSON H) (EnumOptions_uninterpretedOption message))))]"

record EnumOptions_Partial =
  Partial_EnumOptions_allowAlias :: "bool option"
  Partial_EnumOptions_deprecated :: "bool option"
  Partial_EnumOptions_deprecatedLegacyJsonFieldConflicts :: "bool option"
  Partial_EnumOptions_features :: "FeatureSet_Partial option"
  Partial_EnumOptions_uninterpretedOption :: "UninterpretedOption_Partial list option"

definition EnumOptions_fromPartial :: "EnumOptions_Partial \<Rightarrow> EnumOptions" where
  "EnumOptions_fromPartial object = createBaseEnumOptions\<lparr>
     EnumOptions_allowAlias := Some (nullish (Partial_EnumOptions_allowAlias object) False),
     EnumOptions_deprecated := Some (nullish (Partial_EnumOptions_deprecated object) False),
     EnumOptions_deprecatedLegacyJsonFieldConflicts := Some (nullish (Partial_EnumOptions_deprecatedLegacyJsonFieldConflicts object) False),
     EnumOptions_features := map_option FeatureSet_fromPartial (Partial_EnumOptions_features object),
     EnumOptions_uninterpretedOption := nullish (map_option (map UninterpretedOption_fromPartial) (Partial_EnumOptions_uninterpretedOption object)) []\<rparr>"

definition EnumOptions_create :: "EnumOptions_Partial option \<Rightarrow> EnumOptions" where
  "EnumOptions_create base = EnumOptions_fromPartial (nullish base \<lparr>Partial_EnumOptions_allowAlias = None, Partial_EnumOptions_deprecated = None, Partial_EnumOptions_deprecatedLegacyJsonFieldConflicts = None, Partial_EnumOptions_features = None, Partial_EnumOptions_uninterpretedOption = None\<rparr>)"

section \<open>EnumValueOptions\<close>

record EnumValueOptions =
  EnumValueOptions_deprecated :: "bool option"
  EnumValueOptions_features :: "FeatureSet option"
  EnumValueOptions_debugRedact :: "bool option"
  EnumValueOptions_featureSupport :: "FieldOptions_FeatureSupport option"
  EnumValueOptions_uninterpretedOption :: "UninterpretedOption list"

definition createBaseEnumValueOptions :: EnumValueOptions where
  "createBaseEnumValueOptions = \<lparr>EnumValueOptions_deprecated = Some False, EnumValueOptions_features = None, EnumValueOptions_debugRedact = Some False, EnumValueOptions_featureSupport = None, EnumValueOptions_uninterpretedOption = []\<rparr>"

definition EnumValueOptions_encode :: "('w, 'r) wire \<Rightarrow> EnumValueOptions \<Rightarrow> 'w stmt" where
  "EnumValueOptions_encode W message = run [
     if_other (EnumValueOptions_deprecated message) False (\<lambda>v. tagged W 8 (wBool W v)),
     if_set (EnumValueOptions_features message) (\<lambda>v. sub_message W 18 (FeatureSet_encode W v)),
     if_other (EnumValueOptions_debugRedact message) False (\<lambda>v. tagged W 24 (wBool W v)),
     if_set (EnumValueOptions_featureSupport message) (\<lambda>v. sub_message W 34 (FieldOptions_FeatureSupport_encode W v)),
     for_each (EnumValueOptions_uninterpretedOption message) (\<lambda>v. sub_message W 7994 (UninterpretedOption_encode W v))]"

definition EnumValueOptions_switch :: "('w, 'r) wire \<Rightarrow> (EnumValueOptions, 'r) switch" where
  "EnumValueOptions_switch W tag message reader =
   (if drop_bit 3 tag = 1 then case_read tag 8 (rBool W) (store_some EnumValueOptions_deprecated_update) message reader
    else if drop_bit 3 tag = 2 then case_read tag 18 (read_message W (FeatureSet_decode W)) (store_some EnumValueOptions_features_update) message reader
    else if drop_bit 3 tag = 3 then case_read tag 24 (rBool W) (store_some EnumValueOptions_debugRedact_update) message reader
    else if drop_bit 3 tag = 4 then case_read tag 34 (read_message W (FieldOptions_FeatureSupport_decode W)) (store_some EnumValueOptions_featureSupport_update) message reader
    else if drop_bit 3 tag = 999 then case_read tag 7994 (read_message W (UninterpretedOption_decode W)) (push EnumValueOptions_uninterpretedOption_update) message reader
    else Inr None)"

definition EnumValueOptions_decode :: "('w, 'r) wire \<Rightarrow> 'r input \<Rightarrow> nat option \<Rightarrow> (EnumValueOptions \<times> 'r) res" where
  "EnumValueOptions_decode W = decode_msg W (EnumValueOptions_switch W) createBaseEnumValueOptions"

definition EnumValueOptions_fromJSON :: "base64_host \<Rightarrow> jsval \<Rightarrow> EnumValueOptions res" where
  "EnumValueOptions_fromJSON H object =
     rbind (json_field object ''deprecated'' (some_res js_Boolean_res) (Inr (Some False))) (\<lambda>deprecated.
     rbind (json_field object ''features'' (some_res FeatureSet_fromJSON) (Inr None)) (\<lambda>features.
     rbind (json_field2 object ''debugRedact'' ''debug_redact'' (some_res js_Boolean_res) (Inr (Some False))) (\<lambda>debugRedact.
     rbind (json_field2 object ''featureSupport'' ''feature_support'' (some_res FieldOptions_FeatureSupport_fromJSON) (Inr None)) (\<lambda>featureSupport.
     rbind (json_array object ''uninterpretedOption'' (UninterpretedOption_fromJSON H) (json_array object ''uninterpreted_option'' (UninterpretedOption_fromJSON H) (Inr []))) (\<lambda>uninterpretedOption.
     Inr \<lparr>EnumValueOptions_deprecated = deprecated, EnumValueOptions_features = features, EnumValueOptions_debugRedact = debugRedact, EnumValueOptions_featureSupport = featureSupport, EnumValueOptions_uninterpretedOption = uninterpretedOption\<rparr>)))))"

definition EnumValueOptions_toJSON :: "base64_host \<Rightarrow> EnumValueOptions \<Rightarrow> jsval" where
  "EnumValueOptions_toJSON H message = json_object [
     (''deprecated'', put_other (EnumValueOptions_deprecated message) False JBool),
     (''features'', map_option FeatureSet_toJSON (EnumValueOptions_features message)),
     (''debugRedact'', put_other (EnumValueOptions_debugRedact message) False JBool),
     (''featureSupport'', map_option FieldOptions_FeatureSupport_toJSON (EnumValueOptions_featureSupport message)),
     (''uninterpretedOption'', put_if (EnumValueOptions_uninterpretedOption message \<noteq> []) (JArr (map (UninterpretedOption_toJSON H) (EnumValueOptions_uninterpretedOption message))))]"

record EnumValueOptions_Partial =
  Partial_EnumValueOptions_deprecated :: "bool option"
  Partial_EnumValueOptions_features :: "FeatureSet_Partial option"
  Partial_EnumValueOptions_debugRedact :: "bool option"
  Partial_EnumValueOptions_featureSupport :: "FieldOptions_FeatureSupport_Partial option"
  Partial_EnumValueOptions_uninterpretedOption :: "UninterpretedOption_Partial list option"

definition EnumValueOptions_fromPartial :: "EnumValueOptions_Partial \<Rightarrow> EnumValueOptions" where
  "EnumValueOptions_fromPartial object = createBaseEnumValueOptions\<lparr>
     EnumValueOptions_deprecated := Some (nullish (Partial_EnumValueOptions_deprecated object) False),
     EnumValueOptions_features := map_option FeatureSet_fromPartial (Partial_EnumValueOptions_features object),
     EnumValueOptions_debugRedact := Some (nullish (Partial_EnumValueOptions_debugRedact object) False),
     EnumValueOptions_featureSupport := map_option FieldOptions_FeatureSupport_fromPartial (Partial_EnumValueOptions_featureSupport object),
     EnumValueOptions_uninterpretedOption := nullish (map_option (map UninterpretedOption_fromPartial) (Partial_EnumValueOptions_uninterpretedOption object)) []\<rparr>"

definition EnumValueOptions_create :: "EnumValueOptions_Partial option \<Rightarrow> EnumValueOptions" where
  "EnumValueOptions_create base = EnumValueOptions_fromPartial (nullish base \<lparr>Partial_EnumValueOptions_deprecated = None, Partial_EnumValueOptions_features = None, Partial_EnumValueOptions_debugRedact = None, Partial_EnumValueOptions_featureSupport = None, Partial_EnumValueOptions_uninterpretedOption = None\<rparr>)"

section \<open>ServiceOptions\<close>

record ServiceOptions =
  ServiceOptions_features :: "FeatureSet option"
  ServiceOptions_deprecated :: "bool option"
  ServiceOptions_uninterpretedOption :: "UninterpretedOption list"

definition createBaseServiceOptions :: ServiceOptions where
  "createBaseServiceOptions = \<lparr>ServiceOptions_features = None, ServiceOptions_deprecated = Some False, ServiceOptions_uninterpretedOption = []\<rparr>"

definition ServiceOptions_encode :: "('w, 'r) wire \<Rightarrow> ServiceOptions \<Rightarrow> 'w stmt" where
  "ServiceOptions_encode W message = run [
     if_set (ServiceOptions_features message) (\<lambda>v. sub_message W 274 (FeatureSet_encode W v)),
     if_other (ServiceOptions_deprecated message) False (\<lambda>v. tagged W 264 (wBool W v)),
     for_each (ServiceOptions_uninterpretedOption message) (\<lambda>v. sub_message W 7994 (UninterpretedOption_encode W v))]"

definition ServiceOptions_switch :: "('w, 'r) wire \<Rightarrow> (ServiceOptions, 'r) switch" where
  "ServiceOptions_switch W tag message reader =
   (if drop_bit 3 tag = 34 then case_read tag 274 (read_message W (FeatureSet_decode W)) (store_some ServiceOptions_features_update) message reader
    else if drop_bit 3 tag = 33 then case_read tag 264 (rBool W) (store_some ServiceOptions_deprecated_update) message reader
    else if drop_bit 3 tag = 999 then case_read tag 7994 (read_message W (UninterpretedOption_decode W)) (push ServiceOptions_uninterpretedOption_update) message reader
    else Inr None)"

definition ServiceOptions_decode :: "('w, 'r) wire \<Rightarrow> 'r input \<Rightarrow> nat option \<Rightarrow> (ServiceOptions \<times> 'r) res" where
  "ServiceOptions_decode W = decode_msg W (ServiceOptions_switch W) createBaseServiceOptions"

definition ServiceOptions_fromJSON :: "base64_host \<Rightarrow> jsval \<Rightarrow> ServiceOptions res" where
  "ServiceOptions_fromJSON H object =
     rbind (json_field object ''features'' (some_res FeatureSet_fromJSON) (Inr None)) (\<lambda>features.
     rbind (json_field object ''deprecated'' (some_res js_Boolean_res) (Inr (Some False))) (\<lambda>deprecated.
     rbind (json_array object ''uninterpretedOption'' (UninterpretedOption_fromJSON H) (json_array object ''uninterpreted_option'' (UninterpretedOption_fromJSON H) (Inr []))) (\<lambda>uninterpretedOption.
     Inr \<lparr>ServiceOptions_features = features, ServiceOptions_deprecated = deprecated, ServiceOptions_uninterpretedOption = uninterpretedOption\<rparr>)))"

definition ServiceOptions_toJSON :: "base64_host \<Rightarrow> ServiceOptions \<Rightarrow> jsval" where
  "ServiceOptions_toJSON H message = json_object [
     (''features'', map_option FeatureSet_toJSON (ServiceOptions_features message)),
     (''deprecated'', put_other (ServiceOptions_deprecated message) False JBool),
     (''uninterpretedOption'', put_if (ServiceOptions_uninterpretedOption message \<noteq> []) (JArr (map (UninterpretedOption_toJSON H) (ServiceOptions_uninterpretedOption message))))]"

record ServiceOptions_Partial =
  Partial_ServiceOptions_features :: "FeatureSet_Partial option"
  Partial_ServiceOptions_deprecated :: "bool option"
  Partial_ServiceOptions_uninterpretedOption :: "UninterpretedOption_Partial list option"

definition ServiceOptions_fromPartial :: "ServiceOptions_Partial \<Rightarrow> ServiceOptions" where
  "ServiceOptions_fromPartial object = createBaseServiceOptions\<lparr>
     ServiceOptions_features := map_option FeatureSet_fromPartial (Partial_ServiceOptions_features object),
     ServiceOptions_deprecated := Some (nullish (Partial_ServiceOptions_deprecated object) False),
     ServiceOptions_uninterpretedOption := nullish (map_option (map UninterpretedOption_fromPartial) (Partial_ServiceOptions_uninterpretedOption object)) []\<rparr>"

definition ServiceOptions_create :: "ServiceOptions_Partial option \<Rightarrow> ServiceOptions" where
  "ServiceOptions_create base = ServiceOptions_fromPartial (nullish base \<lparr>Partial_ServiceOptions_features = None, Partial_ServiceOptions_deprecated = None, Partial_ServiceOptions_uninterpretedOption = None\<rparr>)"

section \<open>MethodOptions\<close>

record MethodOptions =
  MethodOptions_deprecated :: "bool option"
  MethodOptions_idempotencyLevel :: "jsnum option"
  MethodOptions_features :: "FeatureSet option"
  MethodOptions_uninterpretedOption :: "UninterpretedOption list"

definition createBaseMethodOptions :: MethodOptions where
  "createBaseMethodOptions = \<lparr>MethodOptions_deprecated = Some False, MethodOptions_idempotencyLevel = Some (NInt 0), MethodOptions_features = None, MethodOptions_uninterpretedOption = []\<rparr>"

definition MethodOptions_encode :: "('w, 'r) wire \<Rightarrow> MethodOptions \<Rightarrow> 'w stmt" where
  "MethodOptions_encode W message = run [
     if_other (MethodOptions_deprecated message) False (\<lambda>v. tagged W 264 (wBool W v)),
     if_other (MethodOptions_idempotencyLevel message) (NInt 0) (\<lambda>v. tagged W 272 (wInt32 W v)),
     if_set (MethodOptions_features message) (\<lambda>v. sub_message W 282 (FeatureSet_encode W v)),
     for_each (MethodOptions_uninterpretedOption message) (\<lambda>v. sub_message W 7994 (UninterpretedOption_encode W v))]"

definition MethodOptions_switch :: "('w, 'r) wire \<Rightarrow> (MethodOptions, 'r) switch" where
  "MethodOptions_switch W tag message reader =
   (if drop_bit 3 tag = 33 then case_read tag 264 (rBool W) (store_some MethodOptions_deprecated_update) message reader
    else if drop_bit 3 tag = 34 then case_read tag 272 (rInt32 W) (store_some MethodOptions_idempotencyLevel_update) message reader
    else if drop_bit 3 tag = 35 then case_read tag 282 (read_message W (FeatureSet_decode W)) (store_some MethodOptions_features_update) message reader
    else if drop_bit 3 tag = 999 then case_read tag 7994 (read_message W (UninterpretedOption_decode W)) (push MethodOptions_uninterpretedOption_update) message reader
    else Inr None)"

definition MethodOptions_decode :: "('w, 'r) wire \<Rightarrow> 'r input \<Rightarrow> nat option \<Rightarrow> (MethodOptions \<times> 'r) res" where
  "MethodOptions_decode W = decode_msg W (MethodOptions_switch W) createBaseMethodOptions"

definition MethodOptions_fromJSON :: "base64_host \<Rightarrow> jsval \<Rightarrow> MethodOptions res" where
  "MethodOptions_fromJSON H object =
     rbind (json_field object ''deprecated'' (some_res js_Boolean_res) (Inr (Some False))) (\<lambda>deprecated.
     rbind (json_field2 object ''idempotencyLevel'' ''idempotency_level'' (some_res (enum_number MethodOptions_IdempotencyLevel_value methodOptions_IdempotencyLevelFromJSON)) (Inr (Some (NInt 0)))) (\<lambda>idempotencyLevel.
     rbind (json_field object ''features'' (some_res FeatureSet_fromJSON) (Inr None)) (\<lambda>features.
     rbind (json_array object ''uninterpretedOption'' (UninterpretedOption_fromJSON H) (json_array object ''uninterpreted_option'' (UninterpretedOption_fromJSON H) (Inr []))) (\<lambda>uninterpretedOption.
     Inr \<lparr>MethodOptions_deprecated = deprecated, MethodOptions_idempotencyLevel = idempotencyLevel, MethodOptions_features = features, MethodOptions_uninterpretedOption = uninterpretedOption\<rparr>))))"

definition MethodOptions_toJSON :: "base64_host \<Rightarrow> MethodOptions \<Rightarrow> jsval" where
  "MethodOptions_toJSON H message = json_object [
     (''deprecated'', put_other (MethodOptions_deprecated message) False JBool),
     (''idempotencyLevel'', put_other (MethodOptions_idempotencyLevel message) (NInt 0) (\<lambda>n. JStr (methodOptions_IdempotencyLevelToJSON n))),
     (''features'', map_option FeatureSet_toJSON (MethodOptions_features message)),
     (''uninterpretedOption'', put_if (MethodOptions_uninterpretedOption message \<noteq> []) (JArr (map (UninterpretedOption_toJSON H) (MethodOptions_uninterpretedOption message))))]"

record MethodOptions_Partial =
  Partial_MethodOptions_deprecated :: "bool option"
  Partial_MethodOptions_idempotencyLevel :: "jsnum option"
  Partial_MethodOptions_features :: "FeatureSet_Partial option"
  Partial_MethodOptions_uninterpretedOption :: "UninterpretedOption_Partial list option"

definition MethodOptions_fromPartial :: "MethodOptions_Partial \<Rightarrow> MethodOptions" where
  "MethodOptions_fromPartial object = createBaseMethodOptions\<lparr>
     MethodOptions_deprecated := Some (nullish (Partial_MethodOptions_deprecated object) False),
     MethodOptions_idempotencyLevel := Some (nullish (Partial_MethodOptions_idempotencyLevel object) (NInt 0)),
     MethodOptions_features := map_option FeatureSet_fromPartial (Partial_MethodOptions_features object),
     MethodOptions_uninterpretedOption := nullish (map_option (map UninterpretedOption_fromPartial) (Partial_MethodOptions_uninterpretedOption object)) []\<rparr>"

definition MethodOptions_create :: "MethodOptions_Partial option \<Rightarrow> MethodOptions" where
  "MethodOptions_create base = MethodOptions_fromPartial (nullish base \<lparr>Partial_MethodOptions_deprecated = None, Partial_MethodOptions_idempotencyLevel = None, Partial_MethodOptions_features = None, Partial_MethodOptions_uninterpretedOption = None\<rparr>)"

section \<open>MessageOptions\<close>

record MessageOptions =
  MessageOptions_messageSetWireFormat :: "bool option"
  MessageOptions_noStandardDescriptorAccessor :: "bool option"
  MessageOptions_deprecated :: "bool option"
  MessageOptions_mapEntry :: "bool option"
  MessageOptions_deprecatedLegacyJsonFieldConflicts :: "bool option"
  MessageOptions_features :: "FeatureSet option"
  MessageOptions_uninterpretedOption :: "UninterpretedOption list"

definition createBaseMessageOptions :: MessageOptions where
  "createBaseMessageOptions = \<lparr>MessageOptions_messageSetWireFormat = Some False, MessageOptions_noStandardDescriptorAccessor = Some False, MessageOptions_deprecated = Some False, MessageOptions_mapEntry = Some False, MessageOptions_deprecatedLegacyJsonFieldConflicts = Some False, MessageOptions_features = None, MessageOptions_uninterpretedOption = []\<rparr>"

definition MessageOptions_encode :: "('w, 'r) wire \<Rightarrow> MessageOptions \<Rightarrow> 'w stmt" where
  "MessageOptions_encode W message = run [
     if_other (MessageOptions_messageSetWireFormat message) False (\<lambda>v. tagged W 8 (wBool W v)),
     if_other (MessageOptions_noStandardDescriptorAccessor message) False (\<lambda>v. tagged W 16 (wBool W v)),
     if_other (MessageOptions_deprecated message) False (\<lambda>v. tagged W 24 (wBool W v)),
     if_other (MessageOptions_mapEntry message) False (\<lambda>v. tagged W 56 (wBool W v)),
     if_other (MessageOptions_deprecatedLegacyJsonFieldConflicts message) False (\<lambda>v. tagged W 88 (wBool W v)),
     if_set (MessageOptions_features message) (\<lambda>v. sub_message W 98 (FeatureSet_encode W v)),
     for_each (MessageOptions_uninterpretedOption message) (\<lambda>v. sub_message W 7994 (UninterpretedOption_encode W v))]"

definition MessageOptions_switch :: "('w, 'r) wire \<Rightarrow> (MessageOptions, 'r) switch" where
  "MessageOptions_switch W tag message reader =
   (if drop_bit 3 tag = 1 then case_read tag 8 (rBool W) (store_some MessageOptions_messageSetWireFormat_update) message reader
    else if drop_bit 3 tag = 2 then case_read tag 16 (rBool W) (store_some MessageOptions_noStandardDescriptorAccessor_update) message reader
    else if drop_bit 3 tag = 3 then case_read tag 24 (rBool W) (store_some MessageOptions_deprecated_update) message reader
    else if drop_bit 3 tag = 7 then case_read tag 56 (rBool W) (store_some MessageOptions_mapEntry_update) message reader
    else if drop_bit 3 tag = 11 then case_read tag 88 (rBool W) (store_some MessageOptions_deprecatedLegacyJsonFieldConflicts_update) message reader
    else if drop_bit 3 tag = 12 then case_read tag 98 (read_message W (FeatureSet_decode W)) (store_some MessageOptions_features_update) message reader
    else if drop_bit 3 tag = 999 then case_read tag 7994 (read_message W (UninterpretedOption_decode W)) (push MessageOptions_uninterpretedOption_update) message reader
    else Inr None)"

definition MessageOptions_decode :: "('w, 'r) wire \<Rightarrow> 'r input \<Rightarrow> nat option \<Rightarrow> (MessageOptions \<times> 'r) res" where
  "MessageOptions_decode W = decode_msg W (MessageOptions_switch W) createBaseMessageOptions"

definition MessageOptions_fromJSON :: "base64_host \<Rightarrow> jsval \<Rightarrow> MessageOptions res" where
  "MessageOptions_fromJSON H object =
     rbind (json_field2 object ''messageSetWireFormat'' ''message_set_wire_format'' (some_res js_Boolean_res) (Inr (Some False))) (\<lambda>messageSetWireFormat.
     rbind (json_field2 object ''noStandardDescriptorAccessor'' ''no_standard_descriptor_accessor'' (some_res js_Boolean_res) (Inr (Some False))) (\<lambda>noStandardDescriptorAccessor.
     rbind (json_field object ''deprecated'' (some_res js_Boolean_res) (Inr (Some False))) (\<lambda>deprecated.
     rbind (json_field2 object ''mapEntry'' ''map_entry'' (some_res js_Boolean_res) (Inr (Some False))) (\<lambda>mapEntry.
     rbind (json_field2 object ''deprecatedLegacyJsonFieldConflicts'' ''deprecated_legacy_json_field_conflicts'' (some_res js_Boolean_res) (Inr (Some False))) (\<lambda>deprecatedLegacyJsonFieldConflicts.
     rbind (json_field object ''features'' (some_res FeatureSet_fromJSON) (Inr None)) (\<lambda>features.
     rbind (json_array object ''uninterpretedOption'' (UninterpretedOption_fromJSON H) (json_array object ''uninterpreted_option'' (UninterpretedOption_fromJSON H) (Inr []))) (\<lambda>uninterpretedOption.
     Inr \<lparr>MessageOptions_messageSetWireFormat = messageSetWireFormat, MessageOptions_noStandardDescriptorAccessor = noStandardDescriptorAccessor, MessageOptions_deprecated = deprecated, MessageOptions_mapEntry = mapEntry, MessageOptions_deprecatedLegacyJsonFieldConflicts = deprecatedLegacyJsonFieldConflicts, MessageOptions_features = features, MessageOptions_uninterpretedOption = uninterpretedOption\<rparr>)))))))"

definition MessageOptions_toJSON :: "base64_host \<Rightarrow> MessageOptions \<Rightarrow> jsval" where
  "MessageOptions_toJSON H message = json_object [
     (''messageSetWireFormat'', put_other (MessageOptions_messageSetWireFormat message) False JBool),
     (''noStandardDescriptorAccessor'', put_other (MessageOptions_noStandardDescriptorAccessor message) False JBool),
     (''deprecated'', put_other (MessageOptions_deprecated message) False JBool),
     (''mapEntry'', put_other (MessageOptions_mapEntry message) False JBool),
     (''deprecatedLegacyJsonFieldConflicts'', put_other (MessageOptions_deprecatedLegacyJsonFieldConflicts message) False JBool),
     (''features'', map_option FeatureSet_toJSON (MessageOptions_features message)),
     (''uninterpretedOption'', put_if (MessageOptions_uninterpretedOption message \<noteq> []) (JArr (map (UninterpretedOption_toJSON H) (MessageOptions_uninterpretedOption message))))]"

record MessageOptions_Partial =
  Partial_MessageOptions_messageSetWireFormat :: "bool option"
  Partial_MessageOptions_noStandardDescriptorAccessor :: "bool option"
  Partial_MessageOptions_deprecated :: "bool option"
  Partial_MessageOptions_mapEntry :: "bool option"
  Partial_MessageOptions_deprecatedLegacyJsonFieldConflicts :: "bool option"
  Partial_MessageOptions_features :: "FeatureSet_Partial option"
  Partial_MessageOptions_uninterpretedOption :: "UninterpretedOption_Partial list option"

definition MessageOptions_fromPartial :: "MessageOptions_Partial \<Rightarrow> MessageOptions" where
  "MessageOptions_fromPartial object = createBaseMessageOptions\<lparr>
     MessageOptions_messageSetWireFormat := Some (nullish (Partial_MessageOptions_messageSetWireFormat object) False),
     MessageOptions_noStandardDescriptorAccessor := Some (nullish (Partial_MessageOptions_noStandardDescriptorAccessor object) False),
     MessageOptions_deprecated := Some (nullish (Partial_MessageOptions_deprecated object) False),
     MessageOptions_mapEntry := Some (nullish (Partial_MessageOptions_mapEntry object) False),
     MessageOptions_deprecatedLegacyJsonFieldConflicts := Some (nullish (Partial_MessageOptions_deprecatedLegacyJsonFieldConflicts object) False),
     MessageOptions_features := map_option FeatureSet_fromPartial (Partial_MessageOptions_features object),
     MessageOptions_uninterpretedOption := nullish (map_option (map UninterpretedOption_fromPartial) (Partial_MessageOptions_uninterpretedOption object)) []\<rparr>"

definition MessageOptions_create :: "MessageOptions_Partial option \<Rightarrow> MessageOptions" where
  "MessageOptions_create base = MessageOptions_fromPartial (nullish base \<lparr>Partial_MessageOptions_messageSetWireFormat = None, Partial_MessageOptions_noStandardDescriptorAccessor = None, Partial_MessageOptions_deprecated = None, Partial_MessageOptions_mapEntry = None, Partial_MessageOptions_deprecatedLegacyJsonFieldConflicts = None, Partial_MessageOptions_features = None, Partial_MessageOptions_uninterpretedOption = None\<rparr>)"

section \<open>FieldOptions\<close>

record FieldOptions =
  FieldOptions_ctype :: "jsnum option"
  FieldOptions_packed :: "bool option"
  FieldOptions_jstype :: "jsnum option"
  FieldOptions_lazy :: "bool option"
  FieldOptions_unverifiedLazy :: "bool option"
  FieldOptions_deprecated :: "bool option"
  FieldOptions_weak :: "bool option"
  FieldOptions_debugRedact :: "bool option"
  FieldOptions_retention :: "jsnum option"
  FieldOptions_targets :: "jsnum list"
  FieldOptions_editionDefaults :: "FieldOptions_EditionDefault list"
  FieldOptions_features :: "FeatureSet option"
  FieldOptions_featureSupport :: "FieldOptions_FeatureSupport option"
  FieldOptions_uninterpretedOption :: "UninterpretedOption list"

definition createBaseFieldOptions :: FieldOptions where
  "createBaseFieldOptions = \<lparr>FieldOptions_ctype = Some (NInt 0), FieldOptions_packed = Some False, FieldOptions_jstype = Some (NInt 0), FieldOptions_lazy = Some False, FieldOptions_unverifiedLazy = Some False, FieldOptions_deprecated = Some False, FieldOptions_weak = Some False, FieldOptions_debugRedact = Some False, FieldOptions_retention = Some (NInt 0), FieldOptions_targets = [], FieldOptions_editionDefaults = [], FieldOptions_features = None, FieldOptions_featureSupport = None, FieldOptions_uninterpretedOption = []\<rparr>"

definition FieldOptions_encode :: "('w, 'r) wire \<Rightarrow> FieldOptions \<Rightarrow> 'w stmt" where
  "FieldOptions_encode W message = run [
     if_other (FieldOptions_ctype message) (NInt 0) (\<lambda>v. tagged W 8 (wInt32 W v)),
     if_other (FieldOptions_packed message) False (\<lambda>v. tagged W 16 (wBool W v)),
     if_other (FieldOptions_jstype message) (NInt 0) (\<lambda>v. tagged W 48 (wInt32 W v)),
     if_other (FieldOptions_lazy message) False (\<lambda>v. tagged W 40 (wBool W v)),
     if_other (FieldOptions_unverifiedLazy message) False (\<lambda>v. tagged W 120 (wBool W v)),
     if_other (FieldOptions_deprecated message) False (\<lambda>v. tagged W 24 (wBool W v)),
     if_other (FieldOptions_weak message) False (\<lambda>v. tagged W 80 (wBool W v)),
     if_other (FieldOptions_debugRedact message) False (\<lambda>v. tagged W 128 (wBool W v)),
     if_other (FieldOptions_retention message) (NInt 0) (\<lambda>v. tagged W 136 (wInt32 W v)),
     for_each (FieldOptions_targets message) (\<lambda>v. tagged W 152 (wInt32 W v)),
     for_each (FieldOptions_editionDefaults message) (\<lambda>v. sub_message W 162 (FieldOptions_EditionDefault_encode W v)),
     if_set (FieldOptions_features message) (\<lambda>v. sub_message W 170 (FeatureSet_encode W v)),
     if_set (FieldOptions_featureSupport message) (\<lambda>v. sub_message W 178 (FieldOptions_FeatureSupport_encode W v)),
     for_each (FieldOptions_uninterpretedOption message) (\<lambda>v. sub_message W 7994 (UninterpretedOption_encode W v))]"

definition FieldOptions_switch :: "('w, 'r) wire \<Rightarrow> (FieldOptions, 'r) switch" where
  "FieldOptions_switch W tag message reader =
   (if drop_bit 3 tag = 1 then case_read tag 8 (rInt32 W) (store_some FieldOptions_ctype_update) message reader
    else if drop_bit 3 tag = 2 then case_read tag 16 (rBool W) (store_some FieldOptions_packed_update) message reader
    else if drop_bit 3 tag = 6 then case_read tag 48 (rInt32 W) (store_some FieldOptions_jstype_update) message reader
    else if drop_bit 3 tag = 5 then case_read tag 40 (rBool W) (store_some FieldOptions_lazy_update) message reader
    else if drop_bit 3 tag = 15 then case_read tag 120 (rBool W) (store_some FieldOptions_unverifiedLazy_update) message reader
    else if drop_bit 3 tag = 3 then case_read tag 24 (rBool W) (store_some FieldOptions_deprecated_update) message reader
    else if drop_bit 3 tag = 10 then case_read tag 80 (rBool W) (store_some FieldOptions_weak_update) message reader
    else if drop_bit 3 tag = 16 then case_read tag 128 (rBool W) (store_some FieldOptions_debugRedact_update) message reader
    else if drop_bit 3 tag = 17 then case_read tag 136 (rInt32 W) (store_some FieldOptions_retention_update) message reader
    else if drop_bit 3 tag = 19 then case_packed W tag 152 154 (rInt32 W) (push FieldOptions_targets_update) message reader
    else if drop_bit 3 tag = 20 then case_read tag 162 (read_message W (FieldOptions_EditionDefault_decode W)) (push FieldOptions_editionDefaults_update) message reader
    else if drop_bit 3 tag = 21 then case_read tag 170 (read_message W (FeatureSet_decode W)) (store_some FieldOptions_features_update) message reader
    else if drop_bit 3 tag = 22 then case_read tag 178 (read_message W (FieldOptions_FeatureSupport_decode W)) (store_some FieldOptions_featureSupport_update) message reader
    else if drop_bit 3 tag = 999 then case_read tag 7994 (read_message W (UninterpretedOption_decode W)) (push FieldOptions_uninterpretedOption_update) message reader
    else Inr None)"

definition FieldOptions_decode :: "('w, 'r) wire \<Rightarrow> 'r input \<Rightarrow> nat option \<Rightarrow> (FieldOptions \<times> 'r) res" where
  "FieldOptions_decode W = decode_msg W (FieldOptions_switch W) createBaseFieldOptions"

definition FieldOptions_fromJSON :: "base64_host \<Rightarrow> jsval \<Rightarrow> FieldOptions res" where
  "FieldOptions_fromJSON H object =
     rbind (json_field object ''ctype'' (some_res (enum_number FieldOptions_CType_value fieldOptions_CTypeFromJSON)) (Inr (Some (NInt 0)))) (\<lambda>ctype.
     rbind (json_field object ''packed'' (some_res js_Boolean_res) (Inr (Some False))) (\<lambda>packed.
     rbind (json_field object ''jstype'' (some_res (enum_number FieldOptions_JSType_value fieldOptions_JSTypeFromJSON)) (Inr (Some (NInt 0)))) (\<lambda>jstype.
     rbind (json_field object ''lazy'' (some_res js_Boolean_res) (Inr (Some False))) (\<lambda>lazy.
     rbind (json_field2 object ''unverifiedLazy'' ''unverified_lazy'' (some_res js_Boolean_res) (Inr (Some False))) (\<lambda>unverifiedLazy.
     rbind (json_field object ''deprecated'' (some_res js_Boolean_res) (Inr (Some False))) (\<lambda>deprecated.
     rbind (json_field object ''weak'' (some_res js_Boolean_res) (Inr (Some False))) (\<lambda>weak.
     rbind (json_field2 object ''debugRedact'' ''debug_redact'' (some_res js_Boolean_res) (Inr (Some False))) (\<lambda>debugRedact.
     rbind (json_field object ''retention'' (some_res (enum_number FieldOptions_OptionRetention_value fieldOptions_OptionRetentionFromJSON)) (Inr (Some (NInt 0)))) (\<lambda>retention.
     rbind (json_array object ''targets'' (enum_number FieldOptions_OptionTargetType_value fieldOptions_OptionTargetTypeFromJSON) (Inr [])) (\<lambda>targets.
     rbind (json_array object ''editionDefaults'' FieldOptions_EditionDefault_fromJSON (json_array object ''edition_defaults'' FieldOptions_EditionDefault_fromJSON (Inr []))) (\<lambda>editionDefaults.
     rbind (json_field object ''features'' (some_res FeatureSet_fromJSON) (Inr None)) (\<lambda>features.
     rbind (json_field2 object ''featureSupport'' ''feature_support'' (some_res FieldOptions_FeatureSupport_fromJSON) (Inr None)) (\<lambda>featureSupport.
     rbind (json_array object ''uninterpretedOption'' (UninterpretedOption_fromJSON H) (json_array object ''uninterpreted_option'' (UninterpretedOption_fromJSON H) (Inr []))) (\<lambda>uninterpretedOption.
     Inr \<lparr>FieldOptions_ctype = ctype, FieldOptions_packed = packed, FieldOptions_jstype = jstype, FieldOptions_lazy = lazy, FieldOptions_unverifiedLazy = unverifiedLazy, FieldOptions_deprecated = deprecated, FieldOptions_weak = weak, FieldOptions_debugRedact = debugRedact, FieldOptions_retention = retention, FieldOptions_targets = targets, FieldOptions_editionDefaults = editionDefaults, FieldOptions_features = features, FieldOptions_featureSupport = featureSupport, FieldOptions_uninterpretedOption = uninterpretedOption\<rparr>))))))))))))))"

definition FieldOptions_toJSON :: "base64_host \<Rightarrow> FieldOptions \<Rightarrow> jsval" where
  "FieldOptions_toJSON H message = json_object [
     (''ctype'', put_other (FieldOptions_ctype message) (NInt 0) (\<lambda>n. JStr (fieldOptions_CTypeToJSON n))),
     (''packed'', put_other (FieldOptions_packed message) False JBool),
     (''jstype'', put_other (FieldOptions_jstype message) (NInt 0) (\<lambda>n. JStr (fieldOptions_JSTypeToJSON n))),
     (''lazy'', put_other (FieldOptions_lazy message) False JBool),
     (''unverifiedLazy'', put_other (FieldOptions_unverifiedLazy message) False JBool),
     (''deprecated'', put_other (FieldOptions_deprecated message) False JBool),
     (''weak'', put_other (FieldOptions_weak message) False JBool),
     (''debugRedact'', put_other (FieldOptions_debugRedact message) False JBool),
     (''retention'', put_other (FieldOptions_retention message) (NInt 0) (\<lambda>n. JStr (fieldOptions_OptionRetentionToJSON n))),
     (''targets'', put_if (FieldOptions_targets message \<noteq> []) (JArr (map (\<lambda>e. JStr (fieldOptions_OptionTargetTypeToJSON e)) (FieldOptions_targets message)))),
     (''editionDefaults'', put_if (FieldOptions_editionDefaults message \<noteq> []) (JArr (map FieldOptions_EditionDefault_toJSON (FieldOptions_editionDefaults message)))),
     (''features'', map_option FeatureSet_toJSON (FieldOptions_features message)),
     (''featureSupport'', map_option FieldOptions_FeatureSupport_toJSON (FieldOptions_featureSupport message)),
     (''uninterpretedOption'', put_if (FieldOptions_uninterpretedOption message \<noteq> []) (JArr (map (UninterpretedOption_toJSON H) (FieldOptions_uninterpretedOption message))))]"

record FieldOptions_Partial =
  Partial_FieldOptions_ctype :: "jsnum option"
  Partial_FieldOptions_packed :: "bool option"
  Partial_FieldOptions_jstype :: "jsnum option"
  Partial_FieldOptions_lazy :: "bool option"
  Partial_FieldOptions_unverifiedLazy :: "bool option"
  Partial_FieldOptions_deprecated :: "bool option"
  Partial_FieldOptions_weak :: "bool option"
  Partial_FieldOptions_debugRedact :: "bool option"
  Partial_FieldOptions_retention :: "jsnum option"
  Partial_FieldOptions_targets :: "jsnum list option"
  Partial_FieldOptions_editionDefaults :: "FieldOptions_EditionDefault_Partial list option"
  Partial_FieldOptions_features :: "FeatureSet_Partial option"
  Partial_FieldOptions_featureSupport :: "FieldOptions_FeatureSupport_Partial option"
  Partial_FieldOptions_uninterpretedOption :: "UninterpretedOption_Partial list option"

definition FieldOptions_fromPartial :: "FieldOptions_Partial \<Rightarrow> FieldOptions" where
  "FieldOptions_fromPartial object = createBaseFieldOptions\<lparr>
     FieldOptions_ctype := Some (nullish (Partial_FieldOptions_ctype object) (NInt 0)),
     FieldOptions_packed := Some (nullish (Partial_FieldOptions_packed object) False),
     FieldOptions_jstype := Some (nullish (Partial_FieldOptions_jstype object) (NInt 0)),
     FieldOptions_lazy := Some (nullish (Partial_FieldOptions_lazy object) False),
     FieldOptions_unverifiedLazy := Some (nullish (Partial_FieldOptions_unverifiedLazy object) False),
     FieldOptions_deprecated := Some (nullish (Partial_FieldOptions_deprecated object) False),
     FieldOptions_weak := Some (nullish (Partial_FieldOptions_weak object) False),
     FieldOptions_debugRedact := Some (nullish (Partial_FieldOptions_debugRedact object) False),
     FieldOptions_retention := Some (nullish (Partial_FieldOptions_retention object) (NInt 0)),
     FieldOptions_targets := nullish (map_option (map (\<lambda>e. e)) (Partial_FieldOptions_targets object)) [],
     FieldOptions_editionDefaults := nullish (map_option (map FieldOptions_EditionDefault_fromPartial) (Partial_FieldOptions_editionDefaults object)) [],
     FieldOptions_features := map_option FeatureSet_fromPartial (Partial_FieldOptions_features object),
     FieldOptions_featureSupport := map_option FieldOptions_FeatureSupport_fromPartial (Partial_FieldOptions_featureSupport object),
     FieldOptions_uninterpretedOption := nullish (map_option (map UninterpretedOption_fromPartial) (Partial_FieldOptions_uninterpretedOption object)) []\<rparr>"

definition FieldOptions_create :: "FieldOptions_Partial option \<Rightarrow> FieldOptions" where
  "FieldOptions_create base = FieldOptions_fromPartial (nullish base \<lparr>Partial_FieldOptions_ctype = None, Partial_FieldOptions_packed = None, Partial_FieldOptions_jstype = None, Partial_FieldOptions_lazy = None, Partial_FieldOptions_unverifiedLazy = None, Partial_FieldOptions_deprecated = None, Partial_FieldOptions_weak = None, Partial_FieldOptions_debugRedact = None, Partial_FieldOptions_retention = None, Partial_FieldOptions_targets = None, Partial_FieldOptions_editionDefaults = None, Partial_FieldOptions_features = None, Partial_FieldOptions_featureSupport = None, Partial_FieldOptions_uninterpretedOption = None\<rparr>)"

section \<open>FileOptions\<close>

record FileOptions =
  FileOptions_javaPackage :: "string option"
  FileOptions_javaOuterClassname :: "string option"
  FileOptions_javaMultipleFiles :: "bool option"
  FileOptions_javaGenerateEqualsAndHash :: "bool option"
  FileOptions_javaStringCheckUtf8 :: "bool option"
  FileOptions_optimizeFor :: "jsnum option"
  FileOptions_goPackage :: "string option"
  FileOptions_ccGenericServices :: "bool option"
  FileOptions_javaGenericServices :: "bool option"
  FileOptions_pyGenericServices :: "bool option"
  FileOptions_deprecated :: "bool option"
  FileOptions_ccEnableArenas :: "bool option"
  FileOptions_objcClassPrefix :: "string option"
  FileOptions_csharpNamespace :: "string option"
  FileOptions_swiftPrefix :: "string option"
  FileOptions_phpClassPrefix :: "string option"
  FileOptions_phpNamespace :: "string option"
  FileOptions_phpMetadataNamespace :: "string option"
  FileOptions_rubyPackage :: "string option"
  FileOptions_features :: "FeatureSet option"
  FileOptions_uninterpretedOption :: "UninterpretedOption list"

definition createBaseFileOptions :: FileOptions where
  "createBaseFileOptions = \<lparr>FileOptions_javaPackage = Some '''', FileOptions_javaOuterClassname = Some '''', FileOptions_javaMultipleFiles = Some False, FileOptions_javaGenerateEqualsAndHash = Some False, FileOptions_javaStringCheckUtf8 = Some False, FileOptions_optimizeFor = Some (NInt 1), FileOptions_goPackage = Some '''', FileOptions_ccGenericServices = Some False, FileOptions_javaGenericServices = Some False, FileOptions_pyGenericServices = Some False, FileOptions_deprecated = Some False, FileOptions_ccEnableArenas = Some True, FileOptions_objcClassPrefix = Some '''', FileOptions_csharpNamespace = Some '''', FileOptions_swiftPrefix = Some '''', FileOptions_phpClassPrefix = Some '''', FileOptions_phpNamespace = Some '''', FileOptions_phpMetadataNamespace = Some '''', FileOptions_rubyPackage = Some '''', FileOptions_features = None, FileOptions_uninterpretedOption = []\<rparr>"

definition FileOptions_encode :: "('w, 'r) wire \<Rightarrow> FileOptions \<Rightarrow> 'w stmt" where
  "FileOptions_encode W message = run [
     if_other (FileOptions_javaPackage message) '''' (\<lambda>v. tagged W 10 (wString W v)),
     if_other (FileOptions_javaOuterClassname message) '''' (\<lambda>v. tagged W 66 (wString W v)),
     if_other (FileOptions_javaMultipleFiles message) False (\<lambda>v. tagged W 80 (wBool W v)),
     if_other (FileOptions_javaGenerateEqualsAndHash message) False (\<lambda>v. tagged W 160 (wBool W v)),
     if_other (FileOptions_javaStringCheckUtf8 message) False (\<lambda>v. tagged W 216 (wBool W v)),
     if_other (FileOptions_optimizeFor message) (NInt 1) (\<lambda>v. tagged W 72 (wInt32 W v)),
     if_other (FileOptions_goPackage message) '''' (\<lambda>v. tagged W 90 (wString W v)),
     if_other (FileOptions_ccGenericServices message) False (\<lambda>v. tagged W 128 (wBool W v)),
     if_other (FileOptions_javaGenericServices message) False (\<lambda>v. tagged W 136 (wBool W v)),
     if_other (FileOptions_pyGenericServices message) False (\<lambda>v. tagged W 144 (wBool W v)),
     if_other (FileOptions_deprecated message) False (\<lambda>v. tagged W 184 (wBool W v)),
     if_other (FileOptions_ccEnableArenas message) True (\<lambda>v. tagged W 248 (wBool W v)),
     if_other (FileOptions_objcClassPrefix message) '''' (\<lambda>v. tagged W 290 (wString W v)),
     if_other (FileOptions_csharpNamespace message) '''' (\<lambda>v. tagged W 298 (wString W v)),
     if_other (FileOptions_swiftPrefix message) '''' (\<lambda>v. tagged W 314 (wString W v)),
     if_other (FileOptions_phpClassPrefix message) '''' (\<lambda>v. tagged W 322 (wString W v)),
     if_other (FileOptions_phpNamespace message) '''' (\<lambda>v. tagged W 330 (wString W v)),
     if_other (FileOptions_phpMetadataNamespace message) '''' (\<lambda>v. tagged W 354 (wString W v)),
     if_other (FileOptions_rubyPackage message) '''' (\<lambda>v. tagged W 362 (wString W v)),
     if_set (FileOptions_features message) (\<lambda>v. sub_message W 402 (FeatureSet_encode W v)),
     for_each (FileOptions_uninterpretedOption message) (\<lambda>v. sub_message W 7994 (UninterpretedOption_encode W v))]"

definition FileOptions_switch :: "('w, 'r) wire \<Rightarrow> (FileOptions, 'r) switch" where
  "FileOptions_switch W tag message reader =
   (if drop_bit 3 tag = 1 then case_read tag 10 (rString W) (store_some FileOptions_javaPackage_update) message reader
    else if drop_bit 3 tag = 8 then case_read tag 66 (rString W) (store_some FileOptions_javaOuterClassname_update) message reader
    else if drop_bit 3 tag = 10 then case_read tag 80 (rBool W) (store_some FileOptions_javaMultipleFiles_update) message reader
    else if drop_bit 3 tag = 20 then case_read tag 160 (rBool W) (store_some FileOptions_javaGenerateEqualsAndHash_update) message reader
    else if drop_bit 3 tag = 27 then case_read tag 216 (rBool W) (store_some FileOptions_javaStringCheckUtf8_update) message reader
    else if drop_bit 3 tag = 9 then case_read tag 72 (rInt32 W) (store_some FileOptions_optimizeFor_update) message reader
    else if drop_bit 3 tag = 11 then case_read tag 90 (rString W) (store_some FileOptions_goPackage_update) message reader
    else if drop_bit 3 tag = 16 then case_read tag 128 (rBool W) (store_some FileOptions_ccGenericServices_update) message reader
    else if drop_bit 3 tag = 17 then case_read tag 136 (rBool W) (store_some FileOptions_javaGenericServices_update) message reader
    else if drop_bit 3 tag = 18 then case_read tag 144 (rBool W) (store_some FileOptions_pyGenericServices_update) message reader
    else if drop_bit 3 tag = 23 then case_read tag 184 (rBool W) (store_some FileOptions_deprecated_update) message reader
    else if drop_bit 3 tag = 31 then case_read tag 248 (rBool W) (store_some FileOptions_ccEnableArenas_update) message reader
    else if drop_bit 3 tag = 36 then case_read tag 290 (rString W) (store_some FileOptions_objcClassPrefix_update) message reader
    else if drop_bit 3 tag = 37 then case_read tag 298 (rString W) (store_some FileOptions_csharpNamespace_update) message reader
    else if drop_bit 3 tag = 39 then case_read tag 314 (rString W) (store_some FileOptions_swiftPrefix_update) message reader
    else if drop_bit 3 tag = 40 then case_read tag 322 (rString W) (store_some FileOptions_phpClassPrefix_update) message reader
    else if drop_bit 3 tag = 41 then case_read tag 330 (rString W) (store_some FileOptions_phpNamespace_update) message reader
    else if drop_bit 3 tag = 44 then case_read tag 354 (rString W) (store_some FileOptions_phpMetadataNamespace_update) message reader
    else if drop_bit 3 tag = 45 then case_read tag 362 (rString W) (store_some FileOptions_rubyPackage_update) message reader
    else if drop_bit 3 tag = 50 then case_read tag 402 (read_message W (FeatureSet_decode W)) (store_some FileOptions_features_update) message reader
    else if drop_bit 3 tag = 999 then case_read tag 7994 (read_message W (UninterpretedOption_decode W)) (push FileOptions_uninterpretedOption_update) message reader
    else Inr None)"

definition FileOptions_decode :: "('w, 'r) wire \<Rightarrow> 'r input \<Rightarrow> nat option \<Rightarrow> (FileOptions \<times> 'r) res" where
  "FileOptions_decode W = decode_msg W (FileOptions_switch W) createBaseFileOptions"

definition FileOptions_fromJSON :: "base64_host \<Rightarrow> jsval \<Rightarrow> FileOptions res" where
  "FileOptions_fromJSON H object =
     rbind (json_field2 object ''javaPackage'' ''java_package'' (some_res js_String) (Inr (Some ''''))) (\<lambda>javaPackage.
     rbind (json_field2 object ''javaOuterClassname'' ''java_outer_classname'' (some_res js_String) (Inr (Some ''''))) (\<lambda>javaOuterClassname.
     rbind (json_field2 object ''javaMultipleFiles'' ''java_multiple_files'' (some_res js_Boolean_res) (Inr (Some False))) (\<lambda>javaMultipleFiles.
     rbind (json_field2 object ''javaGenerateEqualsAndHash'' ''java_generate_equals_and_hash'' (some_res js_Boolean_res) (Inr (Some False))) (\<lambda>javaGenerateEqualsAndHash.
     rbind (json_field2 object ''javaStringCheckUtf8'' ''java_string_check_utf8'' (some_res js_Boolean_res) (Inr (Some False))) (\<lambda>javaStringCheckUtf8.
     rbind (json_field2 object ''optimizeFor'' ''optimize_for'' (some_res (enum_number FileOptions_OptimizeMode_value fileOptions_OptimizeModeFromJSON)) (Inr (Some (NInt 1)))) (\<lambda>optimizeFor.
     rbind (json_field2 object ''goPackage'' ''go_package'' (some_res js_String) (Inr (Some ''''))) (\<lambda>goPackage.
     rbind (json_field2 object ''ccGenericServices'' ''cc_generic_services'' (some_res js_Boolean_res) (Inr (Some False))) (\<lambda>ccGenericServices.
     rbind (json_field2 object ''javaGenericServices'' ''java_generic_services'' (some_res js_Boolean_res) (Inr (Some False))) (\<lambda>javaGenericServices.
     rbind (json_field2 object ''pyGenericServices'' ''py_generic_services'' (some_res js_Boolean_res) (Inr (Some False))) (\<lambda>pyGenericServices.
     rbind (json_field object ''deprecated'' (some_res js_Boolean_res) (Inr (Some False))) (\<lambda>deprecated.
     rbind (json_field2 object ''ccEnableArenas'' ''cc_enable_arenas'' (some_res js_Boolean_res) (Inr (Some True))) (\<lambda>ccEnableArenas.
     rbind (json_field2 object ''objcClassPrefix'' ''objc_class_prefix'' (some_res js_String) (Inr (Some ''''))) (\<lambda>objcClassPrefix.
     rbind (json_field2 object ''csharpNamespace'' ''csharp_namespace'' (some_res js_String) (Inr (Some ''''))) (\<lambda>csharpNamespace.
     rbind (json_field2 object ''swiftPrefix'' ''swift_prefix'' (some_res js_String) (Inr (Some ''''))) (\<lambda>swiftPrefix.
     rbind (json_field2 object ''phpClassPrefix'' ''php_class_prefix'' (some_res js_String) (Inr (Some ''''))) (\<lambda>phpClassPrefix.
     rbind (json_field2 object ''phpNamespace'' ''php_namespace'' (some_res js_String) (Inr (Some ''''))) (\<lambda>phpNamespace.
     rbind (json_field2 object ''phpMetadataNamespace'' ''php_metadata_namespace'' (some_res js_String) (Inr (Some ''''))) (\<lambda>phpMetadataNamespace.
     rbind (json_field2 object ''rubyPackage'' ''ruby_package'' (some_res js_String) (Inr (Some ''''))) (\<lambda>rubyPackage.
     rbind (json_field object ''features'' (some_res FeatureSet_fromJSON) (Inr None)) (\<lambda>features.
     rbind (json_array object ''uninterpretedOption'' (UninterpretedOption_fromJSON H) (json_array object ''uninterpreted_option'' (UninterpretedOption_fromJSON H) (Inr []))) (\<lambda>uninterpretedOption.
     Inr \<lparr>FileOptions_javaPackage = javaPackage, FileOptions_javaOuterClassname = javaOuterClassname, FileOptions_javaMultipleFiles = javaMultipleFiles, FileOptions_javaGenerateEqualsAndHash = javaGenerateEqualsAndHash, FileOptions_javaStringCheckUtf8 = javaStringCheckUtf8, FileOptions_optimizeFor = optimizeFor, FileOptions_goPackage = goPackage, FileOptions_ccGenericServices = ccGenericServices, FileOptions_javaGenericServices = javaGenericServices, FileOptions_pyGenericServices = pyGenericServices, FileOptions_deprecated = deprecated, FileOptions_ccEnableArenas = ccEnableArenas, FileOptions_objcClassPrefix = objcClassPrefix, FileOptions_csharpNamespace = csharpNamespace, FileOptions_swiftPrefix = swiftPrefix, FileOptions_phpClassPrefix = phpClassPrefix, FileOptions_phpNamespace = phpNamespace, FileOptions_phpMetadataNamespace = phpMetadataNamespace, FileOptions_rubyPackage = rubyPackage, FileOptions_features = features, FileOptions_uninterpretedOption = uninterpretedOption\<rparr>)))))))))))))))))))))"

definition FileOptions_toJSON :: "base64_host \<Rightarrow> FileOptions \<Rightarrow> jsval" where
  "FileOptions_toJSON H message = json_object [
     (''javaPackage'', put_other (FileOptions_javaPackage message) '''' JStr),
     (''javaOuterClassname'', put_other (FileOptions_javaOuterClassname message) '''' JStr),
     (''javaMultipleFiles'', put_other (FileOptions_javaMultipleFiles message) False JBool),
     (''javaGenerateEqualsAndHash'', put_other (FileOptions_javaGenerateEqualsAndHash message) False JBool),
     (''javaStringCheckUtf8'', put_other (FileOptions_javaStringCheckUtf8 message) False JBool),
     (''optimizeFor'', put_other (FileOptions_optimizeFor message) (NInt 1) (\<lambda>n. JStr (fileOptions_OptimizeModeToJSON n))),
     (''goPackage'', put_other (FileOptions_goPackage message) '''' JStr),
     (''ccGenericServices'', put_other (FileOptions_ccGenericServices message) False JBool),
     (''javaGenericServices'', put_other (FileOptions_javaGenericServices message) False JBool),
     (''pyGenericServices'', put_other (FileOptions_pyGenericServices message) False JBool),
     (''deprecated'', put_other (FileOptions_deprecated message) False JBool),
     (''ccEnableArenas'', put_other (FileOptions_ccEnableArenas message) True JBool),
     (''objcClassPrefix'', put_other (FileOptions_objcClassPrefix message) '''' JStr),
     (''csharpNamespace'', put_other (FileOptions_csharpNamespace message) '''' JStr),
     (''swiftPrefix'', put_other (FileOptions_swiftPrefix message) '''' JStr),
     (''phpClassPrefix'', put_other (FileOptions_phpClassPrefix message) '''' JStr),
     (''phpNamespace'', put_other (FileOptions_phpNamespace message) '''' JStr),
     (''phpMetadataNamespace'', put_other (FileOptions_phpMetadataNamespace message) '''' JStr),
     (''rubyPackage'', put_other (FileOptions_rubyPackage message) '''' JStr),
     (''features'', map_option FeatureSet_toJSON (FileOptions_features message)),
     (''uninterpretedOption'', put_if (FileOptions_uninterpretedOption message \<noteq> []) (JArr (map (UninterpretedOption_toJSON H) (FileOptions_uninterpretedOption message))))]"

record FileOptions_Partial =
  Partial_FileOptions_javaPackage :: "string option"
  Partial_FileOptions_javaOuterClassname :: "string option"
  Partial_FileOptions_javaMultipleFiles :: "bool option"
  Partial_FileOptions_javaGenerateEqualsAndHash :: "bool option"
  Partial_FileOptions_javaStringCheckUtf8 :: "bool option"
  Partial_FileOptions_optimizeFor :: "jsnum option"
  Partial_FileOptions_goPackage :: "string option"
  Partial_FileOptions_ccGenericServices :: "bool option"
  Partial_FileOptions_javaGenericServices :: "bool option"
  Partial_FileOptions_pyGenericServices :: "bool option"
  Partial_FileOptions_deprecated :: "bool option"
  Partial_FileOptions_ccEnableArenas :: "bool option"
  Partial_FileOptions_objcClassPrefix :: "string option"
  Partial_FileOptions_csharpNamespace :: "string option"
  Partial_FileOptions_swiftPrefix :: "string option"
  Partial_FileOptions_phpClassPrefix :: "string option"
  Partial_FileOptions_phpNamespace :: "string option"
  Partial_FileOptions_phpMetadataNamespace :: "string option"
  Partial_FileOptions_rubyPackage :: "string option"
  Partial_FileOptions_features :: "FeatureSet_Partial option"
  Partial_FileOptions_uninterpretedOption :: "UninterpretedOption_Partial list option"

definition FileOptions_fromPartial :: "FileOptions_Partial \<Rightarrow> FileOptions" where
  "FileOptions_fromPartial object = createBaseFileOptions\<lparr>
     FileOptions_javaPackage := Some (nullish (Partial_FileOptions_javaPackage object) ''''),
     FileOptions_javaOuterClassname := Some (nullish (Partial_FileOptions_javaOuterClassname object) ''''),
     FileOptions_javaMultipleFiles := Some (nullish (Partial_FileOptions_javaMultipleFiles object) False),
     FileOptions_javaGenerateEqualsAndHash := Some (nullish (Partial_FileOptions_javaGenerateEqualsAndHash object) False),
     FileOptions_javaStringCheckUtf8 := Some (nullish (Partial_FileOptions_javaStringCheckUtf8 object) False),
     FileOptions_optimizeFor := Some (nullish (Partial_FileOptions_optimizeFor object) (NInt 1)),
     FileOptions_goPackage := Some (nullish (Partial_FileOptions_goPackage object) ''''),
     FileOptions_ccGenericServices := Some (nullish (Partial_FileOptions_ccGenericServices object) False),
     FileOptions_javaGenericServices := Some (nullish (Partial_FileOptions_javaGenericServices object) False),
     FileOptions_pyGenericServices := Some (nullish (Partial_FileOptions_pyGenericServices object) False),
     FileOptions_deprecated := Some (nullish (Partial_FileOptions_deprecated object) False),
     FileOptions_ccEnableArenas := Some (nullish (Partial_FileOptions_ccEnableArenas object) True),
     FileOptions_objcClassPrefix := Some (nullish (Partial_FileOptions_objcClassPrefix object) ''''),
     FileOptions_csharpNamespace := Some (nullish (Partial_FileOptions_csharpNamespace object) ''''),
     FileOptions_swiftPrefix := Some (nullish (Partial_FileOptions_swiftPrefix object) ''''),
     FileOptions_phpClassPrefix := Some (nullish (Partial_FileOptions_phpClassPrefix object) ''''),
     FileOptions_phpNamespace := Some (nullish (Partial_FileOptions_phpNamespace object) ''''),
     FileOptions_phpMetadataNamespace := Some (nullish (Partial_FileOptions_phpMetadataNamespace object) ''''),
     FileOptions_rubyPackage := Some (nullish (Partial_FileOptions_rubyPackage object) ''''),
     FileOptions_features := map_option FeatureSet_fromPartial (Partial_FileOptions_features object),
     FileOptions_uninterpretedOption := nullish (map_option (map UninterpretedOption_fromPartial) (Partial_FileOptions_uninterpretedOption object)) []\<rparr>"

definition FileOptions_create :: "FileOptions_Partial option \<Rightarrow> FileOptions" where
  "FileOptions_create base = FileOptions_fromPartial (nullish base \<lparr>Partial_FileOptions_javaPackage = None, Partial_FileOptions_javaOuterClassname = None, Partial_FileOptions_javaMultipleFiles = None, Partial_FileOptions_javaGenerateEqualsAndHash = None, Partial_FileOptions_javaStringCheckUtf8 = None, Partial_FileOptions_optimizeFor = None, Partial_FileOptions_goPackage = None, Partial_FileOptions_ccGenericServices = None, Partial_FileOptions_javaGenericServices = None, Partial_FileOptions_pyGenericServices = None, Partial_FileOptions_deprecated = None, Partial_FileOptions_ccEnableArenas = None, Partial_FileOptions_objcClassPrefix = None, Partial_FileOptions_csharpNamespace = None, Partial_FileOptions_swiftPrefix = None, Partial_FileOptions_phpClassPrefix = None, Partial_FileOptions_phpNamespace = None, Partial_FileOptions_phpMetadataNamespace = None, Partial_FileOptions_rubyPackage = None, Partial_FileOptions_features = None, Partial_FileOptions_uninterpretedOption = None\<rparr>)"

section \<open>ExtensionRangeOptions\<close>

record ExtensionRangeOptions =
  ExtensionRangeOptions_uninterpretedOption :: "UninterpretedOption list"
  ExtensionRangeOptions_declaration :: "ExtensionRangeOptions_Declaration list"
  ExtensionRangeOptions_features :: "FeatureSet option"
  ExtensionRangeOptions_verification :: "jsnum option"

definition createBaseExtensionRangeOptions :: ExtensionRangeOptions where
  "createBaseExtensionRangeOptions = \<lparr>ExtensionRangeOptions_uninterpretedOption = [], ExtensionRangeOptions_declaration = [], ExtensionRangeOptions_features = None, ExtensionRangeOptions_verification = Some (NInt 1)\<rparr>"

definition ExtensionRangeOptions_encode :: "('w, 'r) wire \<Rightarrow> ExtensionRangeOptions \<Rightarrow> 'w stmt" where
  "ExtensionRangeOptions_encode W message = run [
     for_each (ExtensionRangeOptions_uninterpretedOption message) (\<lambda>v. sub_message W 7994 (UninterpretedOption_encode W v)),
     for_each (ExtensionRangeOptions_declaration message) (\<lambda>v. sub_message W 18 (ExtensionRangeOptions_Declaration_encode W v)),
     if_set (ExtensionRangeOptions_features message) (\<lambda>v. sub_message W 402 (FeatureSet_encode W v)),
     if_other (ExtensionRangeOptions_verification message) (NInt 1) (\<lambda>v. tagged W 24 (wInt32 W v))]"

definition ExtensionRangeOptions_switch :: "('w, 'r) wire \<Rightarrow> (ExtensionRangeOptions, 'r) switch" where
  "ExtensionRangeOptions_switch W tag message reader =
   (if drop_bit 3 tag = 999 then case_read tag 7994 (read_message W (UninterpretedOption_decode W)) (push ExtensionRangeOptions_uninterpretedOption_update) message reader
    else if drop_bit 3 tag = 2 then case_read tag 18 (read_message W (ExtensionRangeOptions_Declaration_decode W)) (push ExtensionRangeOptions_declaration_update) message reader
    else if drop_bit 3 tag = 50 then case_read tag 402 (read_message W (FeatureSet_decode W)) (store_some ExtensionRangeOptions_features_update) message reader
    else if drop_bit 3 tag = 3 then case_read tag 24 (rInt32 W) (store_some ExtensionRangeOptions_verification_update) message reader
    else Inr None)"

definition ExtensionRangeOptions_decode :: "('w, 'r) wire \<Rightarrow> 'r input \<Rightarrow> nat option \<Rightarrow> (ExtensionRangeOptions \<times> 'r) res" where
  "ExtensionRangeOptions_decode W = decode_msg W (ExtensionRangeOptions_switch W) createBaseExtensionRangeOptions"

definition ExtensionRangeOptions_fromJSON :: "base64_host \<Rightarrow> jsval \<Rightarrow> ExtensionRangeOptions res" where
  "ExtensionRangeOptions_fromJSON H object =
     rbind (json_array object ''uninterpretedOption'' (UninterpretedOption_fromJSON H) (json_array object ''uninterpreted_option'' (UninterpretedOption_fromJSON H) (Inr []))) (\<lambda>uninterpretedOption.
     rbind (json_array object ''declaration'' ExtensionRangeOptions_Declaration_fromJSON (Inr [])) (\<lambda>declaration.
     rbind (json_field object ''features'' (some_res FeatureSet_fromJSON) (Inr None)) (\<lambda>features.
     rbind (json_field object ''verification'' (some_res (enum_number ExtensionRangeOptions_VerificationState_value extensionRangeOptions_VerificationStateFromJSON)) (Inr (Some (NInt 1)))) (\<lambda>verification.
     Inr \<lparr>ExtensionRangeOptions_uninterpretedOption = uninterpretedOption, ExtensionRangeOptions_declaration = declaration, ExtensionRangeOptions_features = features, ExtensionRangeOptions_verification = verification\<rparr>))))"

definition ExtensionRangeOptions_toJSON :: "base64_host \<Rightarrow> ExtensionRangeOptions \<Rightarrow> jsval" where
  "ExtensionRangeOptions_toJSON H message = json_object [
     (''uninterpretedOption'', put_if (ExtensionRangeOptions_uninterpretedOption message \<noteq> []) (JArr (map (UninterpretedOption_toJSON H) (ExtensionRangeOptions_uninterpretedOption message)))),
     (''declaration'', put_if (ExtensionRangeOptions_declaration message \<noteq> []) (JArr (map ExtensionRangeOptions_Declaration_toJSON (ExtensionRangeOptions_declaration message)))),
     (''features'', map_option FeatureSet_toJSON (ExtensionRangeOptions_features message)),
     (''verification'', put_other (ExtensionRangeOptions_verification message) (NInt 1) (\<lambda>n. JStr (extensionRangeOptions_VerificationStateToJSON n)))]"

record ExtensionRangeOptions_Partial =
  Partial_ExtensionRangeOptions_uninterpretedOption :: "UninterpretedOption_Partial list option"
  Partial_ExtensionRangeOptions_declaration :: "ExtensionRangeOptions_Declaration_Partial list option"
  Partial_ExtensionRangeOptions_features :: "FeatureSet_Partial option"
  Partial_ExtensionRangeOptions_verification :: "jsnum option"

definition ExtensionRangeOptions_fromPartial :: "ExtensionRangeOptions_Partial \<Rightarrow> ExtensionRangeOptions" where
  "ExtensionRangeOptions_fromPartial object = createBaseExtensionRangeOptions\<lparr>
     ExtensionRangeOptions_uninterpretedOption := nullish (map_option (map UninterpretedOption_fromPartial) (Partial_ExtensionRangeOptions_uninterpretedOption object)) [],
     ExtensionRangeOptions_declaration := nullish (map_option (map ExtensionRangeOptions_Declaration_fromPartial) (Partial_ExtensionRangeOptions_declaration object)) [],
     ExtensionRangeOptions_features := map_option FeatureSet_fromPartial (Partial_ExtensionRangeOptions_features object),
     ExtensionRangeOptions_verification := Some (nullish (Partial_ExtensionRangeOptions_verification object) (NInt 1))\<rparr>"

definition ExtensionRangeOptions_create :: "ExtensionRangeOptions_Partial option \<Rightarrow> ExtensionRangeOptions" where
  "ExtensionRangeOptions_create base = ExtensionRangeOptions_fromPartial (nullish base \<lparr>Partial_ExtensionRangeOptions_uninterpretedOption = None, Partial_ExtensionRangeOptions_declaration = None, Partial_ExtensionRangeOptions_features = None, Partial_ExtensionRangeOptions_verification = None\<rparr>)"

section \<open>The documented wire form\<close>

text \<open>
  \<open>M_fits\<close> bounds the wire form by what a 32-bit length can say. \<open>M_merge m0 m\<close> is \<open>m0\<close> after
  the fields of \<open>m\<close> have been read into it: a singular field that is present overwrites,
  elements of a repeated field are added at the end.
\<close>

definition UninterpretedOption_bytes :: "UninterpretedOption \<Rightarrow> bytes" where
  "UninterpretedOption_bytes m = concat [
     rep_msg_field 18 UninterpretedOption_NamePart_bytes (UninterpretedOption_name m),
     other_field 26 '''' str_payload (UninterpretedOption_identifierValue m),
     other_field 32 (NInt 0) int_payload (UninterpretedOption_positiveIntValue m),
     other_field 40 (NInt 0) int_payload (UninterpretedOption_negativeIntValue m),
     other_field 49 (NInt 0) double_payload (UninterpretedOption_doubleValue m),
     other_field 58 [] delimited (UninterpretedOption_stringValue m),
     other_field 66 '''' str_payload (UninterpretedOption_aggregateValue m)]"

definition UninterpretedOption_fits :: "UninterpretedOption \<Rightarrow> bool" where
  "UninterpretedOption_fits m \<longleftrightarrow> length (UninterpretedOption_bytes m) < 2 ^ 32 \<and>
     list_all UninterpretedOption_NamePart_fits (UninterpretedOption_name m) \<and>
     pred_option uint64_ok (UninterpretedOption_positiveIntValue m) \<and>
     pred_option int64_ok (UninterpretedOption_negativeIntValue m) \<and>
     pred_option double_ok (UninterpretedOption_doubleValue m)"

definition UninterpretedOption_norm :: "UninterpretedOption \<Rightarrow> UninterpretedOption" where
  "UninterpretedOption_norm m = \<lparr>
     UninterpretedOption_name = map UninterpretedOption_NamePart_norm (UninterpretedOption_name m),
     UninterpretedOption_identifierValue = Some (nullish (UninterpretedOption_identifierValue m) ''''),
     UninterpretedOption_positiveIntValue = Some (nullish (UninterpretedOption_positiveIntValue m) (NInt 0)),
     UninterpretedOption_negativeIntValue = Some (nullish (UninterpretedOption_negativeIntValue m) (NInt 0)),
     UninterpretedOption_doubleValue = Some (nullish (UninterpretedOption_doubleValue m) (NInt 0)),
     UninterpretedOption_stringValue = Some (nullish (UninterpretedOption_stringValue m) []),
     UninterpretedOption_aggregateValue = Some (nullish (UninterpretedOption_aggregateValue m) '''')\<rparr>"

definition UninterpretedOption_merge :: "UninterpretedOption \<Rightarrow> UninterpretedOption \<Rightarrow> UninterpretedOption" where
  "UninterpretedOption_merge m0 m = m0\<lparr>
     UninterpretedOption_name := UninterpretedOption_name m0 @ map UninterpretedOption_NamePart_norm (UninterpretedOption_name m),
     UninterpretedOption_identifierValue := (if UninterpretedOption_identifierValue m = None \<or> UninterpretedOption_identifierValue m = Some '''' then UninterpretedOption_identifierValue m0 else UninterpretedOption_identifierValue m),
     UninterpretedOption_positiveIntValue := (if UninterpretedOption_positiveIntValue m = None \<or> UninterpretedOption_positiveIntValue m = Some (NInt 0) then UninterpretedOption_positiveIntValue m0 else UninterpretedOption_positiveIntValue m),
     UninterpretedOption_negativeIntValue := (if UninterpretedOption_negativeIntValue m = None \<or> UninterpretedOption_negativeIntValue m = Some (NInt 0) then UninterpretedOption_negativeIntValue m0 else UninterpretedOption_negativeIntValue m),
     UninterpretedOption_doubleValue := (if UninterpretedOption_doubleValue m = None \<or> UninterpretedOption_doubleValue m = Some (NInt 0) then UninterpretedOption_doubleValue m0 else UninterpretedOption_doubleValue m),
     UninterpretedOption_stringValue := (if UninterpretedOption_stringValue m = None \<or> UninterpretedOption_stringValue m = Some [] then UninterpretedOption_stringValue m0 else UninterpretedOption_stringValue m),
     UninterpretedOption_aggregateValue := (if UninterpretedOption_aggregateValue m = None \<or> UninterpretedOption_aggregateValue m = Some '''' then UninterpretedOption_aggregateValue m0 else UninterpretedOption_aggregateValue m)\<rparr>"

definition UninterpretedOption_jnorm :: "UninterpretedOption \<Rightarrow> UninterpretedOption" where
  "UninterpretedOption_jnorm m = \<lparr>
     UninterpretedOption_name = map UninterpretedOption_NamePart_jnorm (UninterpretedOption_name m),
     UninterpretedOption_identifierValue = Some (nullish (UninterpretedOption_identifierValue m) ''''),
     UninterpretedOption_positiveIntValue = Some (js_round (nullish (UninterpretedOption_positiveIntValue m) (NInt 0))),
     UninterpretedOption_negativeIntValue = Some (js_round (nullish (UninterpretedOption_negativeIntValue m) (NInt 0))),
     UninterpretedOption_doubleValue = Some (nullish (UninterpretedOption_doubleValue m) (NInt 0)),
     UninterpretedOption_stringValue = Some (nullish (UninterpretedOption_stringValue m) []),
     UninterpretedOption_aggregateValue = Some (nullish (UninterpretedOption_aggregateValue m) '''')\<rparr>"

definition OneofOptions_bytes :: "OneofOptions \<Rightarrow> bytes" where
  "OneofOptions_bytes m = concat [
     opt_msg_field 10 FeatureSet_bytes (OneofOptions_features m),
     rep_msg_field 7994 UninterpretedOption_bytes (OneofOptions_uninterpretedOption m)]"

definition OneofOptions_fits :: "OneofOptions \<Rightarrow> bool" where
  "OneofOptions_fits m \<longleftrightarrow> length (OneofOptions_bytes m) < 2 ^ 32 \<and>
     pred_option FeatureSet_fits (OneofOptions_features m) \<and>
     list_all UninterpretedOption_fits (OneofOptions_uninterpretedOption m)"

definition OneofOptions_norm :: "OneofOptions \<Rightarrow> OneofOptions" where
  "OneofOptions_norm m = \<lparr>
     OneofOptions_features = map_option FeatureSet_norm (OneofOptions_features m),
     OneofOptions_uninterpretedOption = map UninterpretedOption_norm (OneofOptions_uninterpretedOption m)\<rparr>"

definition OneofOptions_merge :: "OneofOptions \<Rightarrow> OneofOptions \<Rightarrow> OneofOptions" where
  "OneofOptions_merge m0 m = m0\<lparr>
     OneofOptions_features := (case OneofOptions_features m of None \<Rightarrow> OneofOptions_features m0 | Some v \<Rightarrow> Some (FeatureSet_norm v)),
     OneofOptions_uninterpretedOption := OneofOptions_uninterpretedOption m0 @ map UninterpretedOption_norm (OneofOptions_uninterpretedOption m)\<rparr>"

definition OneofOptions_jnorm :: "OneofOptions \<Rightarrow> OneofOptions" where
  "OneofOptions_jnorm m = \<lparr>
     OneofOptions_features = map_option FeatureSet_jnorm (OneofOptions_features m),
     OneofOptions_uninterpretedOption = map UninterpretedOption_jnorm (OneofOptions_uninterpretedOption m)\<rparr>"

definition EnumOptions_bytes :: "EnumOptions \<Rightarrow> bytes" where
  "EnumOptions_bytes m = concat [
     other_field 16 False bool_payload (EnumOptions_allowAlias m),
     other_field 24 False bool_payload (EnumOptions_deprecated m),
     other_field 48 False bool_payload (EnumOptions_deprecatedLegacyJsonFieldConflicts m),
     opt_msg_field 58 FeatureSet_bytes (EnumOptions_features m),
     rep_msg_field 7994 UninterpretedOption_bytes (EnumOptions_uninterpretedOption m)]"

definition EnumOptions_fits :: "EnumOptions \<Rightarrow> bool" where
  "EnumOptions_fits m \<longleftrightarrow> length (EnumOptions_bytes m) < 2 ^ 32 \<and>
     pred_option FeatureSet_fits (EnumOptions_features m) \<and>
     list_all UninterpretedOption_fits (EnumOptions_uninterpretedOption m)"

definition EnumOptions_norm :: "EnumOptions \<Rightarrow> EnumOptions" where
  "EnumOptions_norm m = \<lparr>
     EnumOptions_allowAlias = Some (nullish (EnumOptions_allowAlias m) False),
     EnumOptions_deprecated = Some (nullish (EnumOptions_deprecated m) False),
     EnumOptions_deprecatedLegacyJsonFieldConflicts = Some (nullish (EnumOptions_deprecatedLegacyJsonFieldConflicts m) False),
     EnumOptions_features = map_option FeatureSet_norm (EnumOptions_features m),
     EnumOptions_uninterpretedOption = map UninterpretedOption_norm (EnumOptions_uninterpretedOption m)\<rparr>"

definition EnumOptions_merge :: "EnumOptions \<Rightarrow> EnumOptions \<Rightarrow> EnumOptions" where
  "EnumOptions_merge m0 m = m0\<lparr>
     EnumOptions_allowAlias := (if EnumOptions_allowAlias m = None \<or> EnumOptions_allowAlias m = Some False then EnumOptions_allowAlias m0 else EnumOptions_allowAlias m),
     EnumOptions_deprecated := (if EnumOptions_deprecated m = None \<or> EnumOptions_deprecated m = Some False then EnumOptions_deprecated m0 else EnumOptions_deprecated m),
     EnumOptions_deprecatedLegacyJsonFieldConflicts := (if EnumOptions_deprecatedLegacyJsonFieldConflicts m = None \<or> EnumOptions_deprecatedLegacyJsonFieldConflicts m = Some False then EnumOptions_deprecatedLegacyJsonFieldConflicts m0 else EnumOptions_deprecatedLegacyJsonFieldConflicts m),
     EnumOptions_features := (case EnumOptions_features m of None \<Rightarrow> EnumOptions_features m0 | Some v \<Rightarrow> Some (FeatureSet_norm v)),
     EnumOptions_uninterpretedOption := EnumOptions_uninterpretedOption m0 @ map UninterpretedOption_norm (EnumOptions_uninterpretedOption m)\<rparr>"

definition EnumOptions_jnorm :: "EnumOptions \<Rightarrow> EnumOptions" where
  "EnumOptions_jnorm m = \<lparr>
     EnumOptions_allowAlias = Some (nullish (EnumOptions_allowAlias m) False),
     EnumOptions_deprecated = Some (nullish (EnumOptions_deprecated m) False),
     EnumOptions_deprecatedLegacyJsonFieldConflicts = Some (nullish (EnumOptions_deprecatedLegacyJsonFieldConflicts m) False),
     EnumOptions_features = map_option FeatureSet_jnorm (EnumOptions_features m),
     EnumOptions_uninterpretedOption = map UninterpretedOption_jnorm (EnumOptions_uninterpretedOption m)\<rparr>"

definition EnumValueOptions_bytes :: "EnumValueOptions \<Rightarrow> bytes" where
  "EnumValueOptions_bytes m = concat [
     other_field 8 False bool_payload (EnumValueOptions_deprecated m),
     opt_msg_field 18 FeatureSet_bytes (EnumValueOptions_features m),
     other_field 24 False bool_payload (EnumValueOptions_debugRedact m),
     opt_msg_field 34 FieldOptions_FeatureSupport_bytes (EnumValueOptions_featureSupport m),
     rep_msg_field 7994 UninterpretedOption_bytes (EnumValueOptions_uninterpretedOption m)]"

definition EnumValueOptions_fits :: "EnumValueOptions \<Rightarrow> bool" where
  "EnumValueOptions_fits m \<longleftrightarrow> length (EnumValueOptions_bytes m) < 2 ^ 32 \<and>
     pred_option FeatureSet_fits (EnumValueOptions_features m) \<and>
     pred_option FieldOptions_FeatureSupport_fits (EnumValueOptions_featureSupport m) \<and>
     list_all UninterpretedOption_fits (EnumValueOptions_uninterpretedOption m)"

definition EnumValueOptions_norm :: "EnumValueOptions \<Rightarrow> EnumValueOptions" where
  "EnumValueOptions_norm m = \<lparr>
     EnumValueOptions_deprecated = Some (nullish (EnumValueOptions_deprecated m) False),
     EnumValueOptions_features = map_option FeatureSet_norm (EnumValueOptions_features m),
     EnumValueOptions_debugRedact = Some (nullish (EnumValueOptions_debugRedact m) False),
     EnumValueOptions_featureSupport = map_option FieldOptions_FeatureSupport_norm (EnumValueOptions_featureSupport m),
     EnumValueOptions_uninterpretedOption = map UninterpretedOption_norm (EnumValueOptions_uninterpretedOption m)\<rparr>"

definition EnumValueOptions_merge :: "EnumValueOptions \<Rightarrow> EnumValueOptions \<Rightarrow> EnumValueOptions" where
  "EnumValueOptions_merge m0 m = m0\<lparr>
     EnumValueOptions_deprecated := (if EnumValueOptions_deprecated m = None \<or> EnumValueOptions_deprecated m = Some False then EnumValueOptions_deprecated m0 else EnumValueOptions_deprecated m),
     EnumValueOptions_features := (case EnumValueOptions_features m of None \<Rightarrow> EnumValueOptions_features m0 | Some v \<Rightarrow> Some (FeatureSet_norm v)),
     EnumValueOptions_debugRedact := (if EnumValueOptions_debugRedact m = None \<or> EnumValueOptions_debugRedact m = Some False then EnumValueOptions_debugRedact m0 else EnumValueOptions_debugRedact m),
     EnumValueOptions_featureSupport := (case EnumValueOptions_featureSupport m of None \<Rightarrow> EnumValueOptions_featureSupport m0 | Some v \<Rightarrow> Some (FieldOptions_FeatureSupport_norm v)),
     EnumValueOptions_uninterpretedOption := EnumValueOptions_uninterpretedOption m0 @ map UninterpretedOption_norm (EnumValueOptions_uninterpretedOption m)\<rparr>"

definition EnumValueOptions_jnorm :: "EnumValueOptions \<Rightarrow> EnumValueOptions" where
  "EnumValueOptions_jnorm m = \<lparr>
     EnumValueOptions_deprecated = Some (nullish (EnumValueOptions_deprecated m) False),
     EnumValueOptions_features = map_option FeatureSet_jnorm (EnumValueOptions_features m),
     EnumValueOptions_debugRedact = Some (nullish (EnumValueOptions_debugRedact m) False),
     EnumValueOptions_featureSupport = map_option FieldOptions_FeatureSupport_jnorm (EnumValueOptions_featureSupport m),
     EnumValueOptions_uninterpretedOption = map UninterpretedOption_jnorm (EnumValueOptions_uninterpretedOption m)\<rparr>"

definition ServiceOptions_bytes :: "ServiceOptions \<Rightarrow> bytes" where
  "ServiceOptions_bytes m = concat [
     opt_msg_field 274 FeatureSet_bytes (ServiceOptions_features m),
     other_field 264 False bool_payload (ServiceOptions_deprecated m),
     rep_msg_field 7994 UninterpretedOption_bytes (ServiceOptions_uninterpretedOption m)]"

definition ServiceOptions_fits :: "ServiceOptions \<Rightarrow> bool" where
  "ServiceOptions_fits m \<longleftrightarrow> length (ServiceOptions_bytes m) < 2 ^ 32 \<and>
     pred_option FeatureSet_fits (ServiceOptions_features m) \<and>
     list_all UninterpretedOption_fits (ServiceOptions_uninterpretedOption m)"

definition ServiceOptions_norm :: "ServiceOptions \<Rightarrow> ServiceOptions" where
  "ServiceOptions_norm m = \<lparr>
     ServiceOptions_features = map_option FeatureSet_norm (ServiceOptions_features m),
     ServiceOptions_deprecated = Some (nullish (ServiceOptions_deprecated m) False),
     ServiceOptions_uninterpretedOption = map UninterpretedOption_norm (ServiceOptions_uninterpretedOption m)\<rparr>"

definition ServiceOptions_merge :: "ServiceOptions \<Rightarrow> ServiceOptions \<Rightarrow> ServiceOptions" where
  "ServiceOptions_merge m0 m = m0\<lparr>
     ServiceOptions_features := (case ServiceOptions_features m of None \<Rightarrow> ServiceOptions_features m0 | Some v \<Rightarrow> Some (FeatureSet_norm v)),
     ServiceOptions_deprecated := (if ServiceOptions_deprecated m = None \<or> ServiceOptions_deprecated m = Some False then ServiceOptions_deprecated m0 else ServiceOptions_deprecated m),
     ServiceOptions_uninterpretedOption := ServiceOptions_uninterpretedOption m0 @ map UninterpretedOption_norm (ServiceOptions_uninterpretedOption m)\<rparr>"

definition ServiceOptions_jnorm :: "ServiceOptions \<Rightarrow> ServiceOptions" where
  "ServiceOptions_jnorm m = \<lparr>
     ServiceOptions_features = map_option FeatureSet_jnorm (ServiceOptions_features m),
     ServiceOptions_deprecated = Some (nullish (ServiceOptions_deprecated m) False),
     ServiceOptions_uninterpretedOption = map UninterpretedOption_jnorm (ServiceOptions_uninterpretedOption m)\<rparr>"

definition MethodOptions_bytes :: "MethodOptions \<Rightarrow> bytes" where
  "MethodOptions_bytes m = concat [
     other_field 264 False bool_payload (MethodOptions_deprecated m),
     other_field 272 (NInt 0) int_payload (MethodOptions_idempotencyLevel m),
     opt_msg_field 282 FeatureSet_bytes (MethodOptions_features m),
     rep_msg_field 7994 UninterpretedOption_bytes (MethodOptions_uninterpretedOption m)]"

definition MethodOptions_fits :: "MethodOptions \<Rightarrow> bool" where
  "MethodOptions_fits m \<longleftrightarrow> length (MethodOptions_bytes m) < 2 ^ 32 \<and>
     pred_option int32_ok (MethodOptions_idempotencyLevel m) \<and>
     pred_option FeatureSet_fits (MethodOptions_features m) \<and>
     list_all UninterpretedOption_fits (MethodOptions_uninterpretedOption m)"

definition MethodOptions_norm :: "MethodOptions \<Rightarrow> MethodOptions" where
  "MethodOptions_norm m = \<lparr>
     MethodOptions_deprecated = Some (nullish (MethodOptions_deprecated m) False),
     MethodOptions_idempotencyLevel = Some (nullish (MethodOptions_idempotencyLevel m) (NInt 0)),
     MethodOptions_features = map_option FeatureSet_norm (MethodOptions_features m),
     MethodOptions_uninterpretedOption = map UninterpretedOption_norm (MethodOptions_uninterpretedOption m)\<rparr>"

definition MethodOptions_merge :: "MethodOptions \<Rightarrow> MethodOptions \<Rightarrow> MethodOptions" where
  "MethodOptions_merge m0 m = m0\<lparr>
     MethodOptions_deprecated := (if MethodOptions_deprecated m = None \<or> MethodOptions_deprecated m = Some False then MethodOptions_deprecated m0 else MethodOptions_deprecated m),
     MethodOptions_idempotencyLevel := (if MethodOptions_idempotencyLevel m = None \<or> MethodOptions_idempotencyLevel m = Some (NInt 0) then MethodOptions_idempotencyLevel m0 else MethodOptions_idempotencyLevel m),
     MethodOptions_features := (case MethodOptions_features m of None \<Rightarrow> MethodOptions_features m0 | Some v \<Rightarrow> Some (FeatureSet_norm v)),
     MethodOptions_uninterpretedOption := MethodOptions_uninterpretedOption m0 @ map UninterpretedOption_norm (MethodOptions_uninterpretedOption m)\<rparr>"

definition MethodOptions_jnorm :: "MethodOptions \<Rightarrow> MethodOptions" where
  "MethodOptions_jnorm m = \<lparr>
     MethodOptions_deprecated = Some (nullish (MethodOptions_deprecated m) False),
     MethodOptions_idempotencyLevel = Some (enum_json (NInt 0) MethodOptions_IdempotencyLevel_value methodOptions_IdempotencyLevelFromJSON methodOptions_IdempotencyLevelToJSON (MethodOptions_idempotencyLevel m)),
     MethodOptions_features = map_option FeatureSet_jnorm (MethodOptions_features m),
     MethodOptions_uninterpretedOption = map UninterpretedOption_jnorm (MethodOptions_uninterpretedOption m)\<rparr>"

definition MessageOptions_bytes :: "MessageOptions \<Rightarrow> bytes" where
  "MessageOptions_bytes m = concat [
     other_field 8 False bool_payload (MessageOptions_messageSetWireFormat m),
     other_field 16 False bool_payload (MessageOptions_noStandardDescriptorAccessor m),
     other_field 24 False bool_payload (MessageOptions_deprecated m),
     other_field 56 False bool_payload (MessageOptions_mapEntry m),
     other_field 88 False bool_payload (MessageOptions_deprecatedLegacyJsonFieldConflicts m),
     opt_msg_field 98 FeatureSet_bytes (MessageOptions_features m),
     rep_msg_field 7994 UninterpretedOption_bytes (MessageOptions_uninterpretedOption m)]"

definition MessageOptions_fits :: "MessageOptions \<Rightarrow> bool" where
  "MessageOptions_fits m \<longleftrightarrow> length (MessageOptions_bytes m) < 2 ^ 32 \<and>
     pred_option FeatureSet_fits (MessageOptions_features m) \<and>
     list_all UninterpretedOption_fits (MessageOptions_uninterpretedOption m)"

definition MessageOptions_norm :: "MessageOptions \<Rightarrow> MessageOptions" where
  "MessageOptions_norm m = \<lparr>
     MessageOptions_messageSetWireFormat = Some (nullish (MessageOptions_messageSetWireFormat m) False),
     MessageOptions_noStandardDescriptorAccessor = Some (nullish (MessageOptions_noStandardDescriptorAccessor m) False),
     MessageOptions_deprecated = Some (nullish (MessageOptions_deprecated m) False),
     MessageOptions_mapEntry = Some (nullish (MessageOptions_mapEntry m) False),
     MessageOptions_deprecatedLegacyJsonFieldConflicts = Some (nullish (MessageOptions_deprecatedLegacyJsonFieldConflicts m) False),
     MessageOptions_features = map_option FeatureSet_norm (MessageOptions_features m),
     MessageOptions_uninterpretedOption = map UninterpretedOption_norm (MessageOptions_uninterpretedOption m)\<rparr>"

definition MessageOptions_merge :: "MessageOptions \<Rightarrow> MessageOptions \<Rightarrow> MessageOptions" where
  "MessageOptions_merge m0 m = m0\<lparr>
     MessageOptions_messageSetWireFormat := (if MessageOptions_messageSetWireFormat m = None \<or> MessageOptions_messageSetWireFormat m = Some False then MessageOptions_messageSetWireFormat m0 else MessageOptions_messageSetWireFormat m),
     MessageOptions_noStandardDescriptorAccessor := (if MessageOptions_noStandardDescriptorAccessor m = None \<or> MessageOptions_noStandardDescriptorAccessor m = Some False then MessageOptions_noStandardDescriptorAccessor m0 else MessageOptions_noStandardDescriptorAccessor m),
     MessageOptions_deprecated := (if MessageOptions_deprecated m = None \<or> MessageOptions_deprecated m = Some False then MessageOptions_deprecated m0 else MessageOptions_deprecated m),
     MessageOptions_mapEntry := (if MessageOptions_mapEntry m = None \<or> MessageOptions_mapEntry m = Some False then MessageOptions_mapEntry m0 else MessageOptions_mapEntry m),
     MessageOptions_deprecatedLegacyJsonFieldConflicts := (if MessageOptions_deprecatedLegacyJsonFieldConflicts m = None \<or> MessageOptions_deprecatedLegacyJsonFieldConflicts m = Some False then MessageOptions_deprecatedLegacyJsonFieldConflicts m0 else MessageOptions_deprecatedLegacyJsonFieldConflicts m),
     MessageOptions_features := (case MessageOptions_features m of None \<Rightarrow> MessageOptions_features m0 | Some v \<Rightarrow> Some (FeatureSet_norm v)),
     MessageOptions_uninterpretedOption := MessageOptions_uninterpretedOption m0 @ map UninterpretedOption_norm (MessageOptions_uninterpretedOption m)\<rparr>"

definition MessageOptions_jnorm :: "MessageOptions \<Rightarrow> MessageOptions" where
  "MessageOptions_jnorm m = \<lparr>
     MessageOptions_messageSetWireFormat = Some (nullish (MessageOptions_messageSetWireFormat m) False),
     MessageOptions_noStandardDescriptorAccessor = Some (nullish (MessageOptions_noStandardDescriptorAccessor m) False),
     MessageOptions_deprecated = Some (nullish (MessageOptions_deprecated m) False),
     MessageOptions_mapEntry = Some (nullish (MessageOptions_mapEntry m) False),
     MessageOptions_deprecatedLegacyJsonFieldConflicts = Some (nullish (MessageOptions_deprecatedLegacyJsonFieldConflicts m) False),
     MessageOptions_features = map_option FeatureSet_jnorm (MessageOptions_features m),
     MessageOptions_uninterpretedOption = map UninterpretedOption_jnorm (MessageOptions_uninterpretedOption m)\<rparr>"

definition FieldOptions_bytes :: "FieldOptions \<Rightarrow> bytes" where
  "FieldOptions_bytes m = concat [
     other_field 8 (NInt 0) int_payload (FieldOptions_ctype m),
     other_field 16 False bool_payload (FieldOptions_packed m),
     other_field 48 (NInt 0) int_payload (FieldOptions_jstype m),
     other_field 40 False bool_payload (FieldOptions_lazy m),
     other_field 120 False bool_payload (FieldOptions_unverifiedLazy m),
     other_field 24 False bool_payload (FieldOptions_deprecated m),
     other_field 80 False bool_payload (FieldOptions_weak m),
     other_field 128 False bool_payload (FieldOptions_debugRedact m),
     other_field 136 (NInt 0) int_payload (FieldOptions_retention m),
     unpacked_field 152 (FieldOptions_targets m),
     rep_msg_field 162 FieldOptions_EditionDefault_bytes (FieldOptions_editionDefaults m),
     opt_msg_field 170 FeatureSet_bytes (FieldOptions_features m),
     opt_msg_field 178 FieldOptions_FeatureSupport_bytes (FieldOptions_featureSupport m),
     rep_msg_field 7994 UninterpretedOption_bytes (FieldOptions_uninterpretedOption m)]"

definition FieldOptions_fits :: "FieldOptions \<Rightarrow> bool" where
  "FieldOptions_fits m \<longleftrightarrow> length (FieldOptions_bytes m) < 2 ^ 32 \<and>
     pred_option int32_ok (FieldOptions_ctype m) \<and>
     pred_option int32_ok (FieldOptions_jstype m) \<and>
     pred_option int32_ok (FieldOptions_retention m) \<and>
     list_all int32_ok (FieldOptions_targets m) \<and>
     list_all FieldOptions_EditionDefault_fits (FieldOptions_editionDefaults m) \<and>
     pred_option FeatureSet_fits (FieldOptions_features m) \<and>
     pred_option FieldOptions_FeatureSupport_fits (FieldOptions_featureSupport m) \<and>
     list_all UninterpretedOption_fits (FieldOptions_uninterpretedOption m)"

definition FieldOptions_norm :: "FieldOptions \<Rightarrow> FieldOptions" where
  "FieldOptions_norm m = \<lparr>
     FieldOptions_ctype = Some (nullish (FieldOptions_ctype m) (NInt 0)),
     FieldOptions_packed = Some (nullish (FieldOptions_packed m) False),
     FieldOptions_jstype = Some (nullish (FieldOptions_jstype m) (NInt 0)),
     FieldOptions_lazy = Some (nullish (FieldOptions_lazy m) False),
     FieldOptions_unverifiedLazy = Some (nullish (FieldOptions_unverifiedLazy m) False),
     FieldOptions_deprecated = Some (nullish (FieldOptions_deprecated m) False),
     FieldOptions_weak = Some (nullish (FieldOptions_weak m) False),
     FieldOptions_debugRedact = Some (nullish (FieldOptions_debugRedact m) False),
     FieldOptions_retention = Some (nullish (FieldOptions_retention m) (NInt 0)),
     FieldOptions_targets = FieldOptions_targets m,
     FieldOptions_editionDefaults = map FieldOptions_EditionDefault_norm (FieldOptions_editionDefaults m),
     FieldOptions_features = map_option FeatureSet_norm (FieldOptions_features m),
     FieldOptions_featureSupport = map_option FieldOptions_FeatureSupport_norm (FieldOptions_featureSupport m),
     FieldOptions_uninterpretedOption = map UninterpretedOption_norm (FieldOptions_uninterpretedOption m)\<rparr>"

definition FieldOptions_merge :: "FieldOptions \<Rightarrow> FieldOptions \<Rightarrow> FieldOptions" where
  "FieldOptions_merge m0 m = m0\<lparr>
     FieldOptions_ctype := (if FieldOptions_ctype m = None \<or> FieldOptions_ctype m = Some (NInt 0) then FieldOptions_ctype m0 else FieldOptions_ctype m),
     FieldOptions_packed := (if FieldOptions_packed m = None \<or> FieldOptions_packed m = Some False then FieldOptions_packed m0 else FieldOptions_packed m),
     FieldOptions_jstype := (if FieldOptions_jstype m = None \<or> FieldOptions_jstype m = Some (NInt 0) then FieldOptions_jstype m0 else FieldOptions_jstype m),
     FieldOptions_lazy := (if FieldOptions_lazy m = None \<or> FieldOptions_lazy m = Some False then FieldOptions_lazy m0 else FieldOptions_lazy m),
     FieldOptions_unverifiedLazy := (if FieldOptions_unverifiedLazy m = None \<or> FieldOptions_unverifiedLazy m = Some False then FieldOptions_unverifiedLazy m0 else FieldOptions_unverifiedLazy m),
     FieldOptions_deprecated := (if FieldOptions_deprecated m = None \<or> FieldOptions_deprecated m = Some False then FieldOptions_deprecated m0 else FieldOptions_deprecated m),
     FieldOptions_weak := (if FieldOptions_weak m = None \<or> FieldOptions_weak m = Some False then FieldOptions_weak m0 else FieldOptions_weak m),
     FieldOptions_debugRedact := (if FieldOptions_debugRedact m = None \<or> FieldOptions_debugRedact m = Some False then FieldOptions_debugRedact m0 else FieldOptions_debugRedact m),
     FieldOptions_retention := (if FieldOptions_retention m = None \<or> FieldOptions_retention m = Some (NInt 0) then FieldOptions_retention m0 else FieldOptions_retention m),
     FieldOptions_targets := FieldOptions_targets m0 @ FieldOptions_targets m,
     FieldOptions_editionDefaults := FieldOptions_editionDefaults m0 @ map FieldOptions_EditionDefault_norm (FieldOptions_editionDefaults m),
     FieldOptions_features := (case FieldOptions_features m of None \<Rightarrow> FieldOptions_features m0 | Some v \<Rightarrow> Some (FeatureSet_norm v)),
     FieldOptions_featureSupport := (case FieldOptions_featureSupport m of None \<Rightarrow> FieldOptions_featureSupport m0 | Some v \<Rightarrow> Some (FieldOptions_FeatureSupport_norm v)),
     FieldOptions_uninterpretedOption := FieldOptions_uninterpretedOption m0 @ map UninterpretedOption_norm (FieldOptions_uninterpretedOption m)\<rparr>"

definition FieldOptions_jnorm :: "FieldOptions \<Rightarrow> FieldOptions" where
  "FieldOptions_jnorm m = \<lparr>
     FieldOptions_ctype = Some (enum_json (NInt 0) FieldOptions_CType_value fieldOptions_CTypeFromJSON fieldOptions_CTypeToJSON (FieldOptions_ctype m)),
     FieldOptions_packed = Some (nullish (FieldOptions_packed m) False),
     FieldOptions_jstype = Some (enum_json (NInt 0) FieldOptions_JSType_value fieldOptions_JSTypeFromJSON fieldOptions_JSTypeToJSON (FieldOptions_jstype m)),
     FieldOptions_lazy = Some (nullish (FieldOptions_lazy m) False),
     FieldOptions_unverifiedLazy = Some (nullish (FieldOptions_unverifiedLazy m) False),
     FieldOptions_deprecated = Some (nullish (FieldOptions_deprecated m) False),
     FieldOptions_weak = Some (nullish (FieldOptions_weak m) False),
     FieldOptions_debugRedact = Some (nullish (FieldOptions_debugRedact m) False),
     FieldOptions_retention = Some (enum_json (NInt 0) FieldOptions_OptionRetention_value fieldOptions_OptionRetentionFromJSON fieldOptions_OptionRetentionToJSON (FieldOptions_retention m)),
     FieldOptions_targets = map (\<lambda>e. NInt (FieldOptions_OptionTargetType_value (fieldOptions_OptionTargetTypeFromJSON (JStr (fieldOptions_OptionTargetTypeToJSON e))))) (FieldOptions_targets m),
     FieldOptions_editionDefaults = map FieldOptions_EditionDefault_jnorm (FieldOptions_editionDefaults m),
     FieldOptions_features = map_option FeatureSet_jnorm (FieldOptions_features m),
     FieldOptions_featureSupport = map_option FieldOptions_FeatureSupport_jnorm (FieldOptions_featureSupport m),
     FieldOptions_uninterpretedOption = map UninterpretedOption_jnorm (FieldOptions_uninterpretedOption m)\<rparr>"

definition FileOptions_bytes :: "FileOptions \<Rightarrow> bytes" where
  "FileOptions_bytes m = concat [
     other_field 10 '''' str_payload (FileOptions_javaPackage m),
     other_field 66 '''' str_payload (FileOptions_javaOuterClassname m),
     other_field 80 False bool_payload (FileOptions_javaMultipleFiles m),
     other_field 160 False bool_payload (FileOptions_javaGenerateEqualsAndHash m),
     other_field 216 False bool_payload (FileOptions_javaStringCheckUtf8 m),
     other_field 72 (NInt 1) int_payload (FileOptions_optimizeFor m),
     other_field 90 '''' str_payload (FileOptions_goPackage m),
     other_field 128 False bool_payload (FileOptions_ccGenericServices m),
     other_field 136 False bool_payload (FileOptions_javaGenericServices m),
     other_field 144 False bool_payload (FileOptions_pyGenericServices m),
     other_field 184 False bool_payload (FileOptions_deprecated m),
     other_field 248 True bool_payload (FileOptions_ccEnableArenas m),
     other_field 290 '''' str_payload (FileOptions_objcClassPrefix m),
     other_field 298 '''' str_payload (FileOptions_csharpNamespace m),
     other_field 314 '''' str_payload (FileOptions_swiftPrefix m),
     other_field 322 '''' str_payload (FileOptions_phpClassPrefix m),
     other_field 330 '''' str_payload (FileOptions_phpNamespace m),
     other_field 354 '''' str_payload (FileOptions_phpMetadataNamespace m),
     other_field 362 '''' str_payload (FileOptions_rubyPackage m),
     opt_msg_field 402 FeatureSet_bytes (FileOptions_features m),
     rep_msg_field 7994 UninterpretedOption_bytes (FileOptions_uninterpretedOption m)]"

definition FileOptions_fits :: "FileOptions \<Rightarrow> bool" where
  "FileOptions_fits m \<longleftrightarrow> length (FileOptions_bytes m) < 2 ^ 32 \<and>
     pred_option int32_ok (FileOptions_optimizeFor m) \<and>
     pred_option FeatureSet_fits (FileOptions_features m) \<and>
     list_all UninterpretedOption_fits (FileOptions_uninterpretedOption m)"

definition FileOptions_norm :: "FileOptions \<Rightarrow> FileOptions" where
  "FileOptions_norm m = \<lparr>
     FileOptions_javaPackage = Some (nullish (FileOptions_javaPackage m) ''''),
     FileOptions_javaOuterClassname = Some (nullish (FileOptions_javaOuterClassname m) ''''),
     FileOptions_javaMultipleFiles = Some (nullish (FileOptions_javaMultipleFiles m) False),
     FileOptions_javaGenerateEqualsAndHash = Some (nullish (FileOptions_javaGenerateEqualsAndHash m) False),
     FileOptions_javaStringCheckUtf8 = Some (nullish (FileOptions_javaStringCheckUtf8 m) False),
     FileOptions_optimizeFor = Some (nullish (FileOptions_optimizeFor m) (NInt 1)),
     FileOptions_goPackage = Some (nullish (FileOptions_goPackage m) ''''),
     FileOptions_ccGenericServices = Some (nullish (FileOptions_ccGenericServices m) False),
     FileOptions_javaGenericServices = Some (nullish (FileOptions_javaGenericServices m) False),
     FileOptions_pyGenericServices = Some (nullish (FileOptions_pyGenericServices m) False),
     FileOptions_deprecated = Some (nullish (FileOptions_deprecated m) False),
     FileOptions_ccEnableArenas = Some (nullish (FileOptions_ccEnableArenas m) True),
     FileOptions_objcClassPrefix = Some (nullish (FileOptions_objcClassPrefix m) ''''),
     FileOptions_csharpNamespace = Some (nullish (FileOptions_csharpNamespace m) ''''),
     FileOptions_swiftPrefix = Some (nullish (FileOptions_swiftPrefix m) ''''),
     FileOptions_phpClassPrefix = Some (nullish (FileOptions_phpClassPrefix m) ''''),
     FileOptions_phpNamespace = Some (nullish (FileOptions_phpNamespace m) ''''),
     FileOptions_phpMetadataNamespace = Some (nullish (FileOptions_phpMetadataNamespace m) ''''),
     FileOptions_rubyPackage = Some (nullish (FileOptions_rubyPackage m) ''''),
     FileOptions_features = map_option FeatureSet_norm (FileOptions_features m),
     FileOptions_uninterpretedOption = map UninterpretedOption_norm (FileOptions_uninterpretedOption m)\<rparr>"

definition FileOptions_merge :: "FileOptions \<Rightarrow> FileOptions \<Rightarrow> FileOptions" where
  "FileOptions_merge m0 m = m0\<lparr>
     FileOptions_javaPackage := (if FileOptions_javaPackage m = None \<or> FileOptions_javaPackage m = Some '''' then FileOptions_javaPackage m0 else FileOptions_javaPackage m),
     FileOptions_javaOuterClassname := (if FileOptions_javaOuterClassname m = None \<or> FileOptions_javaOuterClassname m = Some '''' then FileOptions_javaOuterClassname m0 else FileOptions_javaOuterClassname m),
     FileOptions_javaMultipleFiles := (if FileOptions_javaMultipleFiles m = None \<or> FileOptions_javaMultipleFiles m = Some False then FileOptions_javaMultipleFiles m0 else FileOptions_javaMultipleFiles m),
     FileOptions_javaGenerateEqualsAndHash := (if FileOptions_javaGenerateEqualsAndHash m = None \<or> FileOptions_javaGenerateEqualsAndHash m = Some False then FileOptions_javaGenerateEqualsAndHash m0 else FileOptions_javaGenerateEqualsAndHash m),
     FileOptions_javaStringCheckUtf8 := (if FileOptions_javaStringCheckUtf8 m = None \<or> FileOptions_javaStringCheckUtf8 m = Some False then FileOptions_javaStringCheckUtf8 m0 else FileOptions_javaStringCheckUtf8 m),
     FileOptions_optimizeFor := (if FileOptions_optimizeFor m = None \<or> FileOptions_optimizeFor m = Some (NInt 1) then FileOptions_optimizeFor m0 else FileOptions_optimizeFor m),
     FileOptions_goPackage := (if FileOptions_goPackage m = None \<or> FileOptions_goPackage m = Some '''' then FileOptions_goPackage m0 else FileOptions_goPackage m),
     FileOptions_ccGenericServices := (if FileOptions_ccGenericServices m = None \<or> FileOptions_ccGenericServices m = Some False then FileOptions_ccGenericServices m0 else FileOptions_ccGenericServices m),
     FileOptions_javaGenericServices := (if FileOptions_javaGenericServices m = None \<or> FileOptions_javaGenericServices m = Some False then FileOptions_javaGenericServices m0 else FileOptions_javaGenericServices m),
     FileOptions_pyGenericServices := (if FileOptions_pyGenericServices m = None \<or> FileOptions_pyGenericServices m = Some False then FileOptions_pyGenericServices m0 else FileOptions_pyGenericServices m),
     FileOptions_deprecated := (if FileOptions_deprecated m = None \<or> FileOptions_deprecated m = Some False then FileOptions_deprecated m0 else FileOptions_deprecated m),
     FileOptions_ccEnableArenas := (if FileOptions_ccEnableArenas m = None \<or> FileOptions_ccEnableArenas m = Some True then FileOptions_ccEnableArenas m0 else FileOptions_ccEnableArenas m),
     FileOptions_objcClassPrefix := (if FileOptions_objcClassPrefix m = None \<or> FileOptions_objcClassPrefix m = Some '''' then FileOptions_objcClassPrefix m0 else FileOptions_objcClassPrefix m),
     FileOptions_csharpNamespace := (if FileOptions_csharpNamespace m = None \<or> FileOptions_csharpNamespace m = Some '''' then FileOptions_csharpNamespace m0 else FileOptions_csharpNamespace m),
     FileOptions_swiftPrefix := (if FileOptions_swiftPrefix m = None \<or> FileOptions_swiftPrefix m = Some '''' then FileOptions_swiftPrefix m0 else FileOptions_swiftPrefix m),
     FileOptions_phpClassPrefix := (if FileOptions_phpClassPrefix m = None \<or> FileOptions_phpClassPrefix m = Some '''' then FileOptions_phpClassPrefix m0 else FileOptions_phpClassPrefix m),
     FileOptions_phpNamespace := (if FileOptions_phpNamespace m = None \<or> FileOptions_phpNamespace m = Some '''' then FileOptions_phpNamespace m0 else FileOptions_phpNamespace m),
     FileOptions_phpMetadataNamespace := (if FileOptions_phpMetadataNamespace m = None \<or> FileOptions_phpMetadataNamespace m = Some '''' then FileOptions_phpMetadataNamespace m0 else FileOptions_phpMetadataNamespace m),
     FileOptions_rubyPackage := (if FileOptions_rubyPackage m = None \<or> FileOptions_rubyPackage m = Some '''' then FileOptions_rubyPackage m0 else FileOptions_rubyPackage m),
     FileOptions_features := (case FileOptions_features m of None \<Rightarrow> FileOptions_features m0 | Some v \<Rightarrow> Some (FeatureSet_norm v)),
     FileOptions_uninterpretedOption := FileOptions_uninterpretedOption m0 @ map UninterpretedOption_norm (FileOptions_uninterpretedOption m)\<rparr>"

definition FileOptions_jnorm :: "FileOptions \<Rightarrow> FileOptions" where
  "FileOptions_jnorm m = \<lparr>
     FileOptions_javaPackage = Some (nullish (FileOptions_javaPackage m) ''''),
     FileOptions_javaOuterClassname = Some (nullish (FileOptions_javaOuterClassname m) ''''),
     FileOptions_javaMultipleFiles = Some (nullish (FileOptions_javaMultipleFiles m) False),
     FileOptions_javaGenerateEqualsAndHash = Some (nullish (FileOptions_javaGenerateEqualsAndHash m) False),
     FileOptions_javaStringCheckUtf8 = Some (nullish (FileOptions_javaStringCheckUtf8 m) False),
     FileOptions_optimizeFor = Some (enum_json (NInt 1) FileOptions_OptimizeMode_value fileOptions_OptimizeModeFromJSON fileOptions_OptimizeModeToJSON (FileOptions_optimizeFor m)),
     FileOptions_goPackage = Some (nullish (FileOptions_goPackage m) ''''),
     FileOptions_ccGenericServices = Some (nullish (FileOptions_ccGenericServices m) False),
     FileOptions_javaGenericServices = Some (nullish (FileOptions_javaGenericServices m) False),
     FileOptions_pyGenericServices = Some (nullish (FileOptions_pyGenericServices m) False),
     FileOptions_deprecated = Some (nullish (FileOptions_deprecated m) False),
     FileOptions_ccEnableArenas = Some (nullish (FileOptions_ccEnableArenas m) True),
     FileOptions_objcClassPrefix = Some (nullish (FileOptions_objcClassPrefix m) ''''),
     FileOptions_csharpNamespace = Some (nullish (FileOptions_csharpNamespace m) ''''),
     FileOptions_swiftPrefix = Some (nullish (FileOptions_swiftPrefix m) ''''),
     FileOptions_phpClassPrefix = Some (nullish (FileOptions_phpClassPrefix m) ''''),
     FileOptions_phpNamespace = Some (nullish (FileOptions_phpNamespace m) ''''),
     FileOptions_phpMetadataNamespace = Some (nullish (FileOptions_phpMetadataNamespace m) ''''),
     FileOptions_rubyPackage = Some (nullish (FileOptions_rubyPackage m) ''''),
     FileOptions_features = map_option FeatureSet_jnorm (FileOptions_features m),
     FileOptions_uninterpretedOption = map UninterpretedOption_jnorm (FileOptions_uninterpretedOption m)\<rparr>"

definition ExtensionRangeOptions_bytes :: "ExtensionRangeOptions \<Rightarrow> bytes" where
  "ExtensionRangeOptions_bytes m = concat [
     rep_msg_field 7994 UninterpretedOption_bytes (ExtensionRangeOptions_uninterpretedOption m),
     rep_msg_field 18 ExtensionRangeOptions_Declaration_bytes (ExtensionRangeOptions_declaration m),
     opt_msg_field 402 FeatureSet_bytes (ExtensionRangeOptions_features m),
     other_field 24 (NInt 1) int_payload (ExtensionRangeOptions_verification m)]"

definition ExtensionRangeOptions_fits :: "ExtensionRangeOptions \<Rightarrow> bool" where
  "ExtensionRangeOptions_fits m \<longleftrightarrow> length (ExtensionRangeOptions_bytes m) < 2 ^ 32 \<and>
     list_all UninterpretedOption_fits (ExtensionRangeOptions_uninterpretedOption m) \<and>
     list_all ExtensionRangeOptions_Declaration_fits (ExtensionRangeOptions_declaration m) \<and>
     pred_option FeatureSet_fits (ExtensionRangeOptions_features m) \<and>
     pred_option int32_ok (ExtensionRangeOptions_verification m)"

definition ExtensionRangeOptions_norm :: "ExtensionRangeOptions \<Rightarrow> ExtensionRangeOptions" where
  "ExtensionRangeOptions_norm m = \<lparr>
     ExtensionRangeOptions_uninterpretedOption = map UninterpretedOption_norm (ExtensionRangeOptions_uninterpretedOption m),
     ExtensionRangeOptions_declaration = map ExtensionRangeOptions_Declaration_norm (ExtensionRangeOptions_declaration m),
     ExtensionRangeOptions_features = map_option FeatureSet_norm (ExtensionRangeOptions_features m),
     ExtensionRangeOptions_verification = Some (nullish (ExtensionRangeOptions_verification m) (NInt 1))\<rparr>"

definition ExtensionRangeOptions_merge :: "ExtensionRangeOptions \<Rightarrow> ExtensionRangeOptions \<Rightarrow> ExtensionRangeOptions" where
  "ExtensionRangeOptions_merge m0 m = m0\<lparr>
     ExtensionRangeOptions_uninterpretedOption := ExtensionRangeOptions_uninterpretedOption m0 @ map UninterpretedOption_norm (ExtensionRangeOptions_uninterpretedOption m),
     ExtensionRangeOptions_declaration := ExtensionRangeOptions_declaration m0 @ map ExtensionRangeOptions_Declaration_norm (ExtensionRangeOptions_declaration m),
     ExtensionRangeOptions_features := (case ExtensionRangeOptions_features m of None \<Rightarrow> ExtensionRangeOptions_features m0 | Some v \<Rightarrow> Some (FeatureSet_norm v)),
     ExtensionRangeOptions_verification := (if ExtensionRangeOptions_verification m = None \<or> ExtensionRangeOptions_verification m = Some (NInt 1) then ExtensionRangeOptions_verification m0 else ExtensionRangeOptions_verification m)\<rparr>"

definition ExtensionRangeOptions_jnorm :: "ExtensionRangeOptions \<Rightarrow> ExtensionRangeOptions" where
  "ExtensionRangeOptions_jnorm m = \<lparr>
     ExtensionRangeOptions_uninterpretedOption = map UninterpretedOption_jnorm (ExtensionRangeOptions_uninterpretedOption m),
     ExtensionRangeOptions_declaration = map ExtensionRangeOptions_Declaration_jnorm (ExtensionRangeOptions_declaration m),
     ExtensionRangeOptions_features = map_option FeatureSet_jnorm (ExtensionRangeOptions_features m),
     ExtensionRangeOptions_verification = Some (enum_json (NInt 1) ExtensionRangeOptions_VerificationState_value extensionRangeOptions_VerificationStateFromJSON extensionRangeOptions_VerificationStateToJSON (ExtensionRangeOptions_verification m))\<rparr>"

section \<open>The codecs implement the wire form\<close>

context wire_laws
begin

lemma UninterpretedOption_length:
  assumes "UninterpretedOption_fits m"
  shows "length (rep_msg_field 18 UninterpretedOption_NamePart_bytes (UninterpretedOption_name m)) < 2 ^ 32"
    and "length (other_field 26 '''' str_payload (UninterpretedOption_identifierValue m)) < 2 ^ 32"
    and "length (other_field 58 [] delimited (UninterpretedOption_stringValue m)) < 2 ^ 32"
    and "length (other_field 66 '''' str_payload (UninterpretedOption_aggregateValue m)) < 2 ^ 32"
  using assms by (simp_all add: UninterpretedOption_fits_def UninterpretedOption_bytes_def)

lemma UninterpretedOption_numbers:
  assumes "UninterpretedOption_fits m"
  shows "pred_option uint64_ok (UninterpretedOption_positiveIntValue m)"
    and "pred_option int64_ok (UninterpretedOption_negativeIntValue m)"
    and "pred_option double_ok (UninterpretedOption_doubleValue m)"
  using assms by (simp_all add: UninterpretedOption_fits_def)

lemma UninterpretedOption_name_fits:
  assumes "UninterpretedOption_fits m" and "v \<in> set (UninterpretedOption_name m)"
  shows "UninterpretedOption_NamePart_fits v"
  using assms by (simp add: UninterpretedOption_fits_def list_all_iff)

lemma UninterpretedOption_writes:
  assumes "UninterpretedOption_fits m"
  shows "appends buf (UninterpretedOption_encode W m) (UninterpretedOption_bytes m)"
  unfolding UninterpretedOption_encode_def UninterpretedOption_bytes_def concat.simps
  by (rule appends_run_Cons appends_run_Nil UninterpretedOption_NamePart.enc_rep_sub enc_other_str enc_other_uint64 enc_other_int64 enc_other_double enc_other_bytes
        UninterpretedOption_length [OF assms] UninterpretedOption_numbers [OF assms]
      | erule UninterpretedOption_name_fits [OF assms])+

lemma UninterpretedOption_reads:
  shows "switch_reads (UninterpretedOption_switch W) 18 (read_message W (UninterpretedOption_NamePart_decode W)) (push UninterpretedOption_name_update)"
    and "switch_reads (UninterpretedOption_switch W) 26 (rString W) (store_some UninterpretedOption_identifierValue_update)"
    and "switch_reads (UninterpretedOption_switch W) 32 (read_long (rUint64 W)) (store_some UninterpretedOption_positiveIntValue_update)"
    and "switch_reads (UninterpretedOption_switch W) 40 (read_long (rInt64 W)) (store_some UninterpretedOption_negativeIntValue_update)"
    and "switch_reads (UninterpretedOption_switch W) 49 (rDouble W) (store_some UninterpretedOption_doubleValue_update)"
    and "switch_reads (UninterpretedOption_switch W) 58 (rBytes W) (store_some UninterpretedOption_stringValue_update)"
    and "switch_reads (UninterpretedOption_switch W) 66 (rString W) (store_some UninterpretedOption_aggregateValue_update)"
  by (auto simp: switch_reads_def switch_packs_def UninterpretedOption_switch_def)

lemma UninterpretedOption_good: "good_switch W valid k (UninterpretedOption_switch W)"
  unfolding good_switch_def UninterpretedOption_switch_def UninterpretedOption_NamePart_decode_def
  by (auto intro!: good_step_case_read good_step_case_packed rString_safe rBool_safe rInt32_safe wide_safe safe_read_message [OF UninterpretedOption_NamePart.dec_safe])

lemma UninterpretedOption_runs:
  assumes "UninterpretedOption_fits m"
  shows "runs W valid rest k (UninterpretedOption_switch W) (UninterpretedOption_bytes m) (\<lambda>m0. UninterpretedOption_merge m0 m)"
  unfolding UninterpretedOption_bytes_def concat.simps
  by (rule runs_cong,
      (rule runs_append runs_Nil UninterpretedOption_NamePart.read_rep_sub read_other_str read_other_uint64 read_other_int64 read_other_double read_other_bytes
         UninterpretedOption_reads [unfolded UninterpretedOption_NamePart_decode_def]
         UninterpretedOption_length [OF assms] UninterpretedOption_numbers [OF assms]
      | erule UninterpretedOption_name_fits [OF assms]
       | assumption | simp; fail)+,
      simp add: UninterpretedOption_merge_def)

end

sublocale wire_laws \<subseteq> UninterpretedOption: switch_codec W buf valid rest "UninterpretedOption_encode W" "UninterpretedOption_switch W"
    createBaseUninterpretedOption UninterpretedOption_bytes UninterpretedOption_fits UninterpretedOption_norm UninterpretedOption_merge
proof unfold_locales
  show "UninterpretedOption_merge createBaseUninterpretedOption m = UninterpretedOption_norm m" for m
    by (simp add: UninterpretedOption_merge_def UninterpretedOption_norm_def createBaseUninterpretedOption_def merge_default
          cong: if_cong option.case_cong split del: if_split)
qed (simp_all add: UninterpretedOption_writes UninterpretedOption_good UninterpretedOption_runs, simp add: UninterpretedOption_fits_def)

context wire_laws
begin

lemma OneofOptions_length:
  assumes "OneofOptions_fits m"
  shows "length (opt_msg_field 10 FeatureSet_bytes (OneofOptions_features m)) < 2 ^ 32"
    and "length (rep_msg_field 7994 UninterpretedOption_bytes (OneofOptions_uninterpretedOption m)) < 2 ^ 32"
  using assms by (simp_all add: OneofOptions_fits_def OneofOptions_bytes_def)

lemma OneofOptions_features_fits:
  assumes "OneofOptions_fits m" and "OneofOptions_features m = Some v"
  shows "FeatureSet_fits v"
  using assms by (simp add: OneofOptions_fits_def list_all_iff)

lemma OneofOptions_uninterpretedOption_fits:
  assumes "OneofOptions_fits m" and "v \<in> set (OneofOptions_uninterpretedOption m)"
  shows "UninterpretedOption_fits v"
  using assms by (simp add: OneofOptions_fits_def list_all_iff)

lemma OneofOptions_writes:
  assumes "OneofOptions_fits m"
  shows "appends buf (OneofOptions_encode W m) (OneofOptions_bytes m)"
  unfolding OneofOptions_encode_def OneofOptions_bytes_def concat.simps
  by (rule appends_run_Cons appends_run_Nil FeatureSet.enc_opt_sub UninterpretedOption.enc_rep_sub
        OneofOptions_length [OF assms]
      | erule OneofOptions_features_fits [OF assms] OneofOptions_uninterpretedOption_fits [OF assms])+

lemma OneofOptions_reads:
  shows "switch_reads (OneofOptions_switch W) 10 (read_message W (FeatureSet_decode W)) (store_some OneofOptions_features_update)"
    and "switch_reads (OneofOptions_switch W) 7994 (read_message W (UninterpretedOption_decode W)) (push OneofOptions_uninterpretedOption_update)"
  by (auto simp: switch_reads_def switch_packs_def OneofOptions_switch_def)

lemma OneofOptions_good: "good_switch W valid k (OneofOptions_switch W)"
  unfolding good_switch_def OneofOptions_switch_def FeatureSet_decode_def UninterpretedOption_decode_def
  by (auto intro!: good_step_case_read good_step_case_packed rString_safe rBool_safe rInt32_safe wide_safe safe_read_message [OF FeatureSet.dec_safe] safe_read_message [OF UninterpretedOption.dec_safe])

lemma OneofOptions_runs:
  assumes "OneofOptions_fits m"
  shows "runs W valid rest k (OneofOptions_switch W) (OneofOptions_bytes m) (\<lambda>m0. OneofOptions_merge m0 m)"
  unfolding OneofOptions_bytes_def concat.simps
  by (rule runs_cong,
      (rule runs_append runs_Nil FeatureSet.read_opt_sub UninterpretedOption.read_rep_sub
         OneofOptions_reads [unfolded FeatureSet_decode_def UninterpretedOption_decode_def]
         OneofOptions_length [OF assms]
      | erule OneofOptions_features_fits [OF assms] OneofOptions_uninterpretedOption_fits [OF assms]
       | assumption | simp; fail)+,
      simp add: OneofOptions_merge_def)

end

sublocale wire_laws \<subseteq> OneofOptions: switch_codec W buf valid rest "OneofOptions_encode W" "OneofOptions_switch W"
    createBaseOneofOptions OneofOptions_bytes OneofOptions_fits OneofOptions_norm OneofOptions_merge
proof unfold_locales
  show "OneofOptions_merge createBaseOneofOptions m = OneofOptions_norm m" for m
    by (simp add: OneofOptions_merge_def OneofOptions_norm_def createBaseOneofOptions_def merge_default
          cong: if_cong option.case_cong split del: if_split)
qed (simp_all add: OneofOptions_writes OneofOptions_good OneofOptions_runs, simp add: OneofOptions_fits_def)

context wire_laws
begin

lemma EnumOptions_length:
  assumes "EnumOptions_fits m"
  shows "length (opt_msg_field 58 FeatureSet_bytes (EnumOptions_features m)) < 2 ^ 32"
    and "length (rep_msg_field 7994 UninterpretedOption_bytes (EnumOptions_uninterpretedOption m)) < 2 ^ 32"
  using assms by (simp_all add: EnumOptions_fits_def EnumOptions_bytes_def)

lemma EnumOptions_features_fits:
  assumes "EnumOptions_fits m" and "EnumOptions_features m = Some v"
  shows "FeatureSet_fits v"
  using assms by (simp add: EnumOptions_fits_def list_all_iff)

lemma EnumOptions_uninterpretedOption_fits:
  assumes "EnumOptions_fits m" and "v \<in> set (EnumOptions_uninterpretedOption m)"
  shows "UninterpretedOption_fits v"
  using assms by (simp add: EnumOptions_fits_def list_all_iff)

lemma EnumOptions_writes:
  assumes "EnumOptions_fits m"
  shows "appends buf (EnumOptions_encode W m) (EnumOptions_bytes m)"
  unfolding EnumOptions_encode_def EnumOptions_bytes_def concat.simps
  by (rule appends_run_Cons appends_run_Nil enc_other_bool FeatureSet.enc_opt_sub UninterpretedOption.enc_rep_sub
        EnumOptions_length [OF assms]
      | erule EnumOptions_features_fits [OF assms] EnumOptions_uninterpretedOption_fits [OF assms])+

lemma EnumOptions_reads:
  shows "switch_reads (EnumOptions_switch W) 16 (rBool W) (store_some EnumOptions_allowAlias_update)"
    and "switch_reads (EnumOptions_switch W) 24 (rBool W) (store_some EnumOptions_deprecated_update)"
    and "switch_reads (EnumOptions_switch W) 48 (rBool W) (store_some EnumOptions_deprecatedLegacyJsonFieldConflicts_update)"
    and "switch_reads (EnumOptions_switch W) 58 (read_message W (FeatureSet_decode W)) (store_some EnumOptions_features_update)"
    and "switch_reads (EnumOptions_switch W) 7994 (read_message W (UninterpretedOption_decode W)) (push EnumOptions_uninterpretedOption_update)"
  by (auto simp: switch_reads_def switch_packs_def EnumOptions_switch_def)

lemma EnumOptions_good: "good_switch W valid k (EnumOptions_switch W)"
  unfolding good_switch_def EnumOptions_switch_def FeatureSet_decode_def UninterpretedOption_decode_def
  by (auto intro!: good_step_case_read good_step_case_packed rString_safe rBool_safe rInt32_safe wide_safe safe_read_message [OF FeatureSet.dec_safe] safe_read_message [OF UninterpretedOption.dec_safe])

lemma EnumOptions_runs:
  assumes "EnumOptions_fits m"
  shows "runs W valid rest k (EnumOptions_switch W) (EnumOptions_bytes m) (\<lambda>m0. EnumOptions_merge m0 m)"
  unfolding EnumOptions_bytes_def concat.simps
  by (rule runs_cong,
      (rule runs_append runs_Nil read_other_bool FeatureSet.read_opt_sub UninterpretedOption.read_rep_sub
         EnumOptions_reads [unfolded FeatureSet_decode_def UninterpretedOption_decode_def]
         EnumOptions_length [OF assms]
      | erule EnumOptions_features_fits [OF assms] EnumOptions_uninterpretedOption_fits [OF assms]
       | assumption | simp; fail)+,
      simp add: EnumOptions_merge_def)

end

sublocale wire_laws \<subseteq> EnumOptions: switch_codec W buf valid rest "EnumOptions_encode W" "EnumOptions_switch W"
    createBaseEnumOptions EnumOptions_bytes EnumOptions_fits EnumOptions_norm EnumOptions_merge
proof unfold_locales
  show "EnumOptions_merge createBaseEnumOptions m = EnumOptions_norm m" for m
    by (simp add: EnumOptions_merge_def EnumOptions_norm_def createBaseEnumOptions_def merge_default
          cong: if_cong option.case_cong split del: if_split)
qed (simp_all add: EnumOptions_writes EnumOptions_good EnumOptions_runs, simp add: EnumOptions_fits_def)

context wire_laws
begin

lemma EnumValueOptions_length:
  assumes "EnumValueOptions_fits m"
  shows "length (opt_msg_field 18 FeatureSet_bytes (EnumValueOptions_features m)) < 2 ^ 32"
    and "length (opt_msg_field 34 FieldOptions_FeatureSupport_bytes (EnumValueOptions_featureSupport m)) < 2 ^ 32"
    and "length (rep_msg_field 7994 UninterpretedOption_bytes (EnumValueOptions_uninterpretedOption m)) < 2 ^ 32"
  using assms by (simp_all add: EnumValueOptions_fits_def EnumValueOptions_bytes_def)

lemma EnumValueOptions_features_fits:
  assumes "EnumValueOptions_fits m" and "EnumValueOptions_features m = Some v"
  shows "FeatureSet_fits v"
  using assms by (simp add: EnumValueOptions_fits_def list_all_iff)

lemma EnumValueOptions_featureSupport_fits:
  assumes "EnumValueOptions_fits m" and "EnumValueOptions_featureSupport m = Some v"
  shows "FieldOptions_FeatureSupport_fits v"
  using assms by (simp add: EnumValueOptions_fits_def list_all_iff)

lemma EnumValueOptions_uninterpretedOption_fits:
  assumes "EnumValueOptions_fits m" and "v \<in> set (EnumValueOptions_uninterpretedOption m)"
  shows "UninterpretedOption_fits v"
  using assms by (simp add: EnumValueOptions_fits_def list_all_iff)

lemma EnumValueOptions_writes:
  assumes "EnumValueOptions_fits m"
  shows "appends buf (EnumValueOptions_encode W m) (EnumValueOptions_bytes m)"
  unfolding EnumValueOptions_encode_def EnumValueOptions_bytes_def concat.simps
  by (rule appends_run_Cons appends_run_Nil enc_other_bool FeatureSet.enc_opt_sub FieldOptions_FeatureSupport.enc_opt_sub UninterpretedOption.enc_rep_sub
        EnumValueOptions_length [OF assms]
      | erule EnumValueOptions_features_fits [OF assms] EnumValueOptions_featureSupport_fits [OF assms] EnumValueOptions_uninterpretedOption_fits [OF assms])+

lemma EnumValueOptions_reads:
  shows "switch_reads (EnumValueOptions_switch W) 8 (rBool W) (store_some EnumValueOptions_deprecated_update)"
    and "switch_reads (EnumValueOptions_switch W) 18 (read_message W (FeatureSet_decode W)) (store_some EnumValueOptions_features_update)"
    and "switch_reads (EnumValueOptions_switch W) 24 (rBool W) (store_some EnumValueOptions_debugRedact_update)"
    and "switch_reads (EnumValueOptions_switch W) 34 (read_message W (FieldOptions_FeatureSupport_decode W)) (store_some EnumValueOptions_featureSupport_update)"
    and "switch_reads (EnumValueOptions_switch W) 7994 (read_message W (UninterpretedOption_decode W)) (push EnumValueOptions_uninterpretedOption_update)"
  by (auto simp: switch_reads_def switch_packs_def EnumValueOptions_switch_def)

lemma EnumValueOptions_good: "good_switch W valid k (EnumValueOptions_switch W)"
  unfolding good_switch_def EnumValueOptions_switch_def FeatureSet_decode_def FieldOptions_FeatureSupport_decode_def UninterpretedOption_decode_def
  by (auto intro!: good_step_case_read good_step_case_packed rString_safe rBool_safe rInt32_safe wide_safe safe_read_message [OF FeatureSet.dec_safe] safe_read_message [OF FieldOptions_FeatureSupport.dec_safe] safe_read_message [OF UninterpretedOption.dec_safe])

lemma EnumValueOptions_runs:
  assumes "EnumValueOptions_fits m"
  shows "runs W valid rest k (EnumValueOptions_switch W) (EnumValueOptions_bytes m) (\<lambda>m0. EnumValueOptions_merge m0 m)"
  unfolding EnumValueOptions_bytes_def concat.simps
  by (rule runs_cong,
      (rule runs_append runs_Nil read_other_bool FeatureSet.read_opt_sub FieldOptions_FeatureSupport.read_opt_sub UninterpretedOption.read_rep_sub
         EnumValueOptions_reads [unfolded FeatureSet_decode_def FieldOptions_FeatureSupport_decode_def UninterpretedOption_decode_def]
         EnumValueOptions_length [OF assms]
      | erule EnumValueOptions_features_fits [OF assms] EnumValueOptions_featureSupport_fits [OF assms] EnumValueOptions_uninterpretedOption_fits [OF assms]
       | assumption | simp; fail)+,
      simp add: EnumValueOptions_merge_def)

end

sublocale wire_laws \<subseteq> EnumValueOptions: switch_codec W buf valid rest "EnumValueOptions_encode W" "EnumValueOptions_switch W"
    createBaseEnumValueOptions EnumValueOptions_bytes EnumValueOptions_fits EnumValueOptions_norm EnumValueOptions_merge
proof unfold_locales
  show "EnumValueOptions_merge createBaseEnumValueOptions m = EnumValueOptions_norm m" for m
    by (simp add: EnumValueOptions_merge_def EnumValueOptions_norm_def createBaseEnumValueOptions_def merge_default
          cong: if_cong option.case_cong split del: if_split)
qed (simp_all add: EnumValueOptions_writes EnumValueOptions_good EnumValueOptions_runs, simp add: EnumValueOptions_fits_def)

context wire_laws
begin

lemma ServiceOptions_length:
  assumes "ServiceOptions_fits m"
  shows "length (opt_msg_field 274 FeatureSet_bytes (ServiceOptions_features m)) < 2 ^ 32"
    and "length (rep_msg_field 7994 UninterpretedOption_bytes (ServiceOptions_uninterpretedOption m)) < 2 ^ 32"
  using assms by (simp_all add: ServiceOptions_fits_def ServiceOptions_bytes_def)

lemma ServiceOptions_features_fits:
  assumes "ServiceOptions_fits m" and "ServiceOptions_features m = Some v"
  shows "FeatureSet_fits v"
  using assms by (simp add: ServiceOptions_fits_def list_all_iff)

lemma ServiceOptions_uninterpretedOption_fits:
  assumes "ServiceOptions_fits m" and "v \<in> set (ServiceOptions_uninterpretedOption m)"
  shows "UninterpretedOption_fits v"
  using assms by (simp add: ServiceOptions_fits_def list_all_iff)

lemma ServiceOptions_writes:
  assumes "ServiceOptions_fits m"
  shows "appends buf (ServiceOptions_encode W m) (ServiceOptions_bytes m)"
  unfolding ServiceOptions_encode_def ServiceOptions_bytes_def concat.simps
  by (rule appends_run_Cons appends_run_Nil FeatureSet.enc_opt_sub enc_other_bool UninterpretedOption.enc_rep_sub
        ServiceOptions_length [OF assms]
      | erule ServiceOptions_features_fits [OF assms] ServiceOptions_uninterpretedOption_fits [OF assms])+

lemma ServiceOptions_reads:
  shows "switch_reads (ServiceOptions_switch W) 274 (read_message W (FeatureSet_decode W)) (store_some ServiceOptions_features_update)"
    and "switch_reads (ServiceOptions_switch W) 264 (rBool W) (store_some ServiceOptions_deprecated_update)"
    and "switch_reads (ServiceOptions_switch W) 7994 (read_message W (UninterpretedOption_decode W)) (push ServiceOptions_uninterpretedOption_update)"
  by (auto simp: switch_reads_def switch_packs_def ServiceOptions_switch_def)

lemma ServiceOptions_good: "good_switch W valid k (ServiceOptions_switch W)"
  unfolding good_switch_def ServiceOptions_switch_def FeatureSet_decode_def UninterpretedOption_decode_def
  by (auto intro!: good_step_case_read good_step_case_packed rString_safe rBool_safe rInt32_safe wide_safe safe_read_message [OF FeatureSet.dec_safe] safe_read_message [OF UninterpretedOption.dec_safe])

lemma ServiceOptions_runs:
  assumes "ServiceOptions_fits m"
  shows "runs W valid rest k (ServiceOptions_switch W) (ServiceOptions_bytes m) (\<lambda>m0. ServiceOptions_merge m0 m)"
  unfolding ServiceOptions_bytes_def concat.simps
  by (rule runs_cong,
      (rule runs_append runs_Nil FeatureSet.read_opt_sub read_other_bool UninterpretedOption.read_rep_sub
         ServiceOptions_reads [unfolded FeatureSet_decode_def UninterpretedOption_decode_def]
         ServiceOptions_length [OF assms]
      | erule ServiceOptions_features_fits [OF assms] ServiceOptions_uninterpretedOption_fits [OF assms]
       | assumption | simp; fail)+,
      simp add: ServiceOptions_merge_def)

end

sublocale wire_laws \<subseteq> ServiceOptions: switch_codec W buf valid rest "ServiceOptions_encode W" "ServiceOptions_switch W"
    createBaseServiceOptions ServiceOptions_bytes ServiceOptions_fits ServiceOptions_norm ServiceOptions_merge
proof unfold_locales
  show "ServiceOptions_merge createBaseServiceOptions m = ServiceOptions_norm m" for m
    by (simp add: ServiceOptions_merge_def ServiceOptions_norm_def createBaseServiceOptions_def merge_default
          cong: if_cong option.case_cong split del: if_split)
qed (simp_all add: ServiceOptions_writes ServiceOptions_good ServiceOptions_runs, simp add: ServiceOptions_fits_def)

context wire_laws
begin

lemma MethodOptions_length:
  assumes "MethodOptions_fits m"
  shows "length (opt_msg_field 282 FeatureSet_bytes (MethodOptions_features m)) < 2 ^ 32"
    and "length (rep_msg_field 7994 UninterpretedOption_bytes (MethodOptions_uninterpretedOption m)) < 2 ^ 32"
  using assms by (simp_all add: MethodOptions_fits_def MethodOptions_bytes_def)

lemma MethodOptions_numbers:
  assumes "MethodOptions_fits m"
  shows "pred_option int32_ok (MethodOptions_idempotencyLevel m)"
  using assms by (simp_all add: MethodOptions_fits_def)

lemma MethodOptions_features_fits:
  assumes "MethodOptions_fits m" and "MethodOptions_features m = Some v"
  shows "FeatureSet_fits v"
  using assms by (simp add: MethodOptions_fits_def list_all_iff)

lemma MethodOptions_uninterpretedOption_fits:
  assumes "MethodOptions_fits m" and "v \<in> set (MethodOptions_uninterpretedOption m)"
  shows "UninterpretedOption_fits v"
  using assms by (simp add: MethodOptions_fits_def list_all_iff)

lemma MethodOptions_writes:
  assumes "MethodOptions_fits m"
  shows "appends buf (MethodOptions_encode W m) (MethodOptions_bytes m)"
  unfolding MethodOptions_encode_def MethodOptions_bytes_def concat.simps
  by (rule appends_run_Cons appends_run_Nil enc_other_bool enc_other_int FeatureSet.enc_opt_sub UninterpretedOption.enc_rep_sub
        MethodOptions_length [OF assms] MethodOptions_numbers [OF assms]
      | erule MethodOptions_features_fits [OF assms] MethodOptions_uninterpretedOption_fits [OF assms])+

lemma MethodOptions_reads:
  shows "switch_reads (MethodOptions_switch W) 264 (rBool W) (store_some MethodOptions_deprecated_update)"
    and "switch_reads (MethodOptions_switch W) 272 (rInt32 W) (store_some MethodOptions_idempotencyLevel_update)"
    and "switch_reads (MethodOptions_switch W) 282 (read_message W (FeatureSet_decode W)) (store_some MethodOptions_features_update)"
    and "switch_reads (MethodOptions_switch W) 7994 (read_message W (UninterpretedOption_decode W)) (push MethodOptions_uninterpretedOption_update)"
  by (auto simp: switch_reads_def switch_packs_def MethodOptions_switch_def)

lemma MethodOptions_good: "good_switch W valid k (MethodOptions_switch W)"
  unfolding good_switch_def MethodOptions_switch_def FeatureSet_decode_def UninterpretedOption_decode_def
  by (auto intro!: good_step_case_read good_step_case_packed rString_safe rBool_safe rInt32_safe wide_safe safe_read_message [OF FeatureSet.dec_safe] safe_read_message [OF UninterpretedOption.dec_safe])

lemma MethodOptions_runs:
  assumes "MethodOptions_fits m"
  shows "runs W valid rest k (MethodOptions_switch W) (MethodOptions_bytes m) (\<lambda>m0. MethodOptions_merge m0 m)"
  unfolding MethodOptions_bytes_def concat.simps
  by (rule runs_cong,
      (rule runs_append runs_Nil read_other_bool read_other_int FeatureSet.read_opt_sub UninterpretedOption.read_rep_sub
         MethodOptions_reads [unfolded FeatureSet_decode_def UninterpretedOption_decode_def]
         MethodOptions_length [OF assms] MethodOptions_numbers [OF assms]
      | erule MethodOptions_features_fits [OF assms] MethodOptions_uninterpretedOption_fits [OF assms]
       | assumption | simp; fail)+,
      simp add: MethodOptions_merge_def)

end

sublocale wire_laws \<subseteq> MethodOptions: switch_codec W buf valid rest "MethodOptions_encode W" "MethodOptions_switch W"
    createBaseMethodOptions MethodOptions_bytes MethodOptions_fits MethodOptions_norm MethodOptions_merge
proof unfold_locales
  show "MethodOptions_merge createBaseMethodOptions m = MethodOptions_norm m" for m
    by (simp add: MethodOptions_merge_def MethodOptions_norm_def createBaseMethodOptions_def merge_default
          cong: if_cong option.case_cong split del: if_split)
qed (simp_all add: MethodOptions_writes MethodOptions_good MethodOptions_runs, simp add: MethodOptions_fits_def)

context wire_laws
begin

lemma MessageOptions_length:
  assumes "MessageOptions_fits m"
  shows "length (opt_msg_field 98 FeatureSet_bytes (MessageOptions_features m)) < 2 ^ 32"
    and "length (rep_msg_field 7994 UninterpretedOption_bytes (MessageOptions_uninterpretedOption m)) < 2 ^ 32"
  using assms by (simp_all add: MessageOptions_fits_def MessageOptions_bytes_def)

lemma MessageOptions_features_fits:
  assumes "MessageOptions_fits m" and "MessageOptions_features m = Some v"
  shows "FeatureSet_fits v"
  using assms by (simp add: MessageOptions_fits_def list_all_iff)

lemma MessageOptions_uninterpretedOption_fits:
  assumes "MessageOptions_fits m" and "v \<in> set (MessageOptions_uninterpretedOption m)"
  shows "UninterpretedOption_fits v"
  using assms by (simp add: MessageOptions_fits_def list_all_iff)

lemma MessageOptions_writes:
  assumes "MessageOptions_fits m"
  shows "appends buf (MessageOptions_encode W m) (MessageOptions_bytes m)"
  unfolding MessageOptions_encode_def MessageOptions_bytes_def concat.simps
  by (rule appends_run_Cons appends_run_Nil enc_other_bool FeatureSet.enc_opt_sub UninterpretedOption.enc_rep_sub
        MessageOptions_length [OF assms]
      | erule MessageOptions_features_fits [OF assms] MessageOptions_uninterpretedOption_fits [OF assms])+

lemma MessageOptions_reads:
  shows "switch_reads (MessageOptions_switch W) 8 (rBool W) (store_some MessageOptions_messageSetWireFormat_update)"
    and "switch_reads (MessageOptions_switch W) 16 (rBool W) (store_some MessageOptions_noStandardDescriptorAccessor_update)"
    and "switch_reads (MessageOptions_switch W) 24 (rBool W) (store_some MessageOptions_deprecated_update)"
    and "switch_reads (MessageOptions_switch W) 56 (rBool W) (store_some MessageOptions_mapEntry_update)"
    and "switch_reads (MessageOptions_switch W) 88 (rBool W) (store_some MessageOptions_deprecatedLegacyJsonFieldConflicts_update)"
    and "switch_reads (MessageOptions_switch W) 98 (read_message W (FeatureSet_decode W)) (store_some MessageOptions_features_update)"
    and "switch_reads (MessageOptions_switch W) 7994 (read_message W (UninterpretedOption_decode W)) (push MessageOptions_uninterpretedOption_update)"
  by (auto simp: switch_reads_def switch_packs_def MessageOptions_switch_def)

lemma MessageOptions_good: "good_switch W valid k (MessageOptions_switch W)"
  unfolding good_switch_def MessageOptions_switch_def FeatureSet_decode_def UninterpretedOption_decode_def
  by (auto intro!: good_step_case_read good_step_case_packed rString_safe rBool_safe rInt32_safe wide_safe safe_read_message [OF FeatureSet.dec_safe] safe_read_message [OF UninterpretedOption.dec_safe])

lemma MessageOptions_runs:
  assumes "MessageOptions_fits m"
  shows "runs W valid rest k (MessageOptions_switch W) (MessageOptions_bytes m) (\<lambda>m0. MessageOptions_merge m0 m)"
  unfolding MessageOptions_bytes_def concat.simps
  by (rule runs_cong,
      (rule runs_append runs_Nil read_other_bool FeatureSet.read_opt_sub UninterpretedOption.read_rep_sub
         MessageOptions_reads [unfolded FeatureSet_decode_def UninterpretedOption_decode_def]
         MessageOptions_length [OF assms]
      | erule MessageOptions_features_fits [OF assms] MessageOptions_uninterpretedOption_fits [OF assms]
       | assumption | simp; fail)+,
      simp add: MessageOptions_merge_def)

end

sublocale wire_laws \<subseteq> MessageOptions: switch_codec W buf valid rest "MessageOptions_encode W" "MessageOptions_switch W"
    createBaseMessageOptions MessageOptions_bytes MessageOptions_fits MessageOptions_norm MessageOptions_merge
proof unfold_locales
  show "MessageOptions_merge createBaseMessageOptions m = MessageOptions_norm m" for m
    by (simp add: MessageOptions_merge_def MessageOptions_norm_def createBaseMessageOptions_def merge_default
          cong: if_cong option.case_cong split del: if_split)
qed (simp_all add: MessageOptions_writes MessageOptions_good MessageOptions_runs, simp add: MessageOptions_fits_def)

context wire_laws
begin

lemma FieldOptions_length:
  assumes "FieldOptions_fits m"
  shows "length (rep_msg_field 162 FieldOptions_EditionDefault_bytes (FieldOptions_editionDefaults m)) < 2 ^ 32"
    and "length (opt_msg_field 170 FeatureSet_bytes (FieldOptions_features m)) < 2 ^ 32"
    and "length (opt_msg_field 178 FieldOptions_FeatureSupport_bytes (FieldOptions_featureSupport m)) < 2 ^ 32"
    and "length (rep_msg_field 7994 UninterpretedOption_bytes (FieldOptions_uninterpretedOption m)) < 2 ^ 32"
  using assms by (simp_all add: FieldOptions_fits_def FieldOptions_bytes_def)

lemma FieldOptions_numbers:
  assumes "FieldOptions_fits m"
  shows "pred_option int32_ok (FieldOptions_ctype m)"
    and "pred_option int32_ok (FieldOptions_jstype m)"
    and "pred_option int32_ok (FieldOptions_retention m)"
    and "list_all int32_ok (FieldOptions_targets m)"
  using assms by (simp_all add: FieldOptions_fits_def)

lemma FieldOptions_editionDefaults_fits:
  assumes "FieldOptions_fits m" and "v \<in> set (FieldOptions_editionDefaults m)"
  shows "FieldOptions_EditionDefault_fits v"
  using assms by (simp add: FieldOptions_fits_def list_all_iff)

lemma FieldOptions_features_fits:
  assumes "FieldOptions_fits m" and "FieldOptions_features m = Some v"
  shows "FeatureSet_fits v"
  using assms by (simp add: FieldOptions_fits_def list_all_iff)

lemma FieldOptions_featureSupport_fits:
  assumes "FieldOptions_fits m" and "FieldOptions_featureSupport m = Some v"
  shows "FieldOptions_FeatureSupport_fits v"
  using assms by (simp add: FieldOptions_fits_def list_all_iff)

lemma FieldOptions_uninterpretedOption_fits:
  assumes "FieldOptions_fits m" and "v \<in> set (FieldOptions_uninterpretedOption m)"
  shows "UninterpretedOption_fits v"
  using assms by (simp add: FieldOptions_fits_def list_all_iff)

lemma FieldOptions_writes:
  assumes "FieldOptions_fits m"
  shows "appends buf (FieldOptions_encode W m) (FieldOptions_bytes m)"
  unfolding FieldOptions_encode_def FieldOptions_bytes_def concat.simps
  by (rule appends_run_Cons appends_run_Nil enc_other_int enc_other_bool enc_unpacked FieldOptions_EditionDefault.enc_rep_sub FeatureSet.enc_opt_sub FieldOptions_FeatureSupport.enc_opt_sub UninterpretedOption.enc_rep_sub
        FieldOptions_length [OF assms] FieldOptions_numbers [OF assms]
      | erule FieldOptions_editionDefaults_fits [OF assms] FieldOptions_features_fits [OF assms] FieldOptions_featureSupport_fits [OF assms] FieldOptions_uninterpretedOption_fits [OF assms])+

lemma FieldOptions_reads:
  shows "switch_reads (FieldOptions_switch W) 8 (rInt32 W) (store_some FieldOptions_ctype_update)"
    and "switch_reads (FieldOptions_switch W) 16 (rBool W) (store_some FieldOptions_packed_update)"
    and "switch_reads (FieldOptions_switch W) 48 (rInt32 W) (store_some FieldOptions_jstype_update)"
    and "switch_reads (FieldOptions_switch W) 40 (rBool W) (store_some FieldOptions_lazy_update)"
    and "switch_reads (FieldOptions_switch W) 120 (rBool W) (store_some FieldOptions_unverifiedLazy_update)"
    and "switch_reads (FieldOptions_switch W) 24 (rBool W) (store_some FieldOptions_deprecated_update)"
    and "switch_reads (FieldOptions_switch W) 80 (rBool W) (store_some FieldOptions_weak_update)"
    and "switch_reads (FieldOptions_switch W) 128 (rBool W) (store_some FieldOptions_debugRedact_update)"
    and "switch_reads (FieldOptions_switch W) 136 (rInt32 W) (store_some FieldOptions_retention_update)"
    and "switch_packs W (FieldOptions_switch W) 152 154 (rInt32 W) (push FieldOptions_targets_update)"
    and "switch_reads (FieldOptions_switch W) 162 (read_message W (FieldOptions_EditionDefault_decode W)) (push FieldOptions_editionDefaults_update)"
    and "switch_reads (FieldOptions_switch W) 170 (read_message W (FeatureSet_decode W)) (store_some FieldOptions_features_update)"
    and "switch_reads (FieldOptions_switch W) 178 (read_message W (FieldOptions_FeatureSupport_decode W)) (store_some FieldOptions_featureSupport_update)"
    and "switch_reads (FieldOptions_switch W) 7994 (read_message W (UninterpretedOption_decode W)) (push FieldOptions_uninterpretedOption_update)"
  by (auto simp: switch_reads_def switch_packs_def FieldOptions_switch_def)

lemma FieldOptions_good: "good_switch W valid k (FieldOptions_switch W)"
  unfolding good_switch_def FieldOptions_switch_def FeatureSet_decode_def FieldOptions_EditionDefault_decode_def FieldOptions_FeatureSupport_decode_def UninterpretedOption_decode_def
  by (auto intro!: good_step_case_read good_step_case_packed rString_safe rBool_safe rInt32_safe wide_safe safe_read_message [OF FeatureSet.dec_safe] safe_read_message [OF FieldOptions_EditionDefault.dec_safe] safe_read_message [OF FieldOptions_FeatureSupport.dec_safe] safe_read_message [OF UninterpretedOption.dec_safe])

lemma FieldOptions_runs:
  assumes "FieldOptions_fits m"
  shows "runs W valid rest k (FieldOptions_switch W) (FieldOptions_bytes m) (\<lambda>m0. FieldOptions_merge m0 m)"
  unfolding FieldOptions_bytes_def concat.simps
  by (rule runs_cong,
      (rule runs_append runs_Nil read_other_int read_other_bool read_unpacked FieldOptions_EditionDefault.read_rep_sub FeatureSet.read_opt_sub FieldOptions_FeatureSupport.read_opt_sub UninterpretedOption.read_rep_sub
         FieldOptions_reads [unfolded FeatureSet_decode_def FieldOptions_EditionDefault_decode_def FieldOptions_FeatureSupport_decode_def UninterpretedOption_decode_def]
         FieldOptions_length [OF assms] FieldOptions_numbers [OF assms]
      | erule FieldOptions_editionDefaults_fits [OF assms] FieldOptions_features_fits [OF assms] FieldOptions_featureSupport_fits [OF assms] FieldOptions_uninterpretedOption_fits [OF assms]
       | assumption | simp; fail)+,
      simp add: FieldOptions_merge_def)

end

sublocale wire_laws \<subseteq> FieldOptions: switch_codec W buf valid rest "FieldOptions_encode W" "FieldOptions_switch W"
    createBaseFieldOptions FieldOptions_bytes FieldOptions_fits FieldOptions_norm FieldOptions_merge
proof unfold_locales
  show "FieldOptions_merge createBaseFieldOptions m = FieldOptions_norm m" for m
    by (simp add: FieldOptions_merge_def FieldOptions_norm_def createBaseFieldOptions_def merge_default
          cong: if_cong option.case_cong split del: if_split)
qed (simp_all add: FieldOptions_writes FieldOptions_good FieldOptions_runs, simp add: FieldOptions_fits_def)

context wire_laws
begin

lemma FileOptions_length:
  assumes "FileOptions_fits m"
  shows "length (other_field 10 '''' str_payload (FileOptions_javaPackage m)) < 2 ^ 32"
    and "length (other_field 66 '''' str_payload (FileOptions_javaOuterClassname m)) < 2 ^ 32"
    and "length (other_field 90 '''' str_payload (FileOptions_goPackage m)) < 2 ^ 32"
    and "length (other_field 290 '''' str_payload (FileOptions_objcClassPrefix m)) < 2 ^ 32"
    and "length (other_field 298 '''' str_payload (FileOptions_csharpNamespace m)) < 2 ^ 32"
    and "length (other_field 314 '''' str_payload (FileOptions_swiftPrefix m)) < 2 ^ 32"
    and "length (other_field 322 '''' str_payload (FileOptions_phpClassPrefix m)) < 2 ^ 32"
    and "length (other_field 330 '''' str_payload (FileOptions_phpNamespace m)) < 2 ^ 32"
    and "length (other_field 354 '''' str_payload (FileOptions_phpMetadataNamespace m)) < 2 ^ 32"
    and "length (other_field 362 '''' str_payload (FileOptions_rubyPackage m)) < 2 ^ 32"
    and "length (opt_msg_field 402 FeatureSet_bytes (FileOptions_features m)) < 2 ^ 32"
    and "length (rep_msg_field 7994 UninterpretedOption_bytes (FileOptions_uninterpretedOption m)) < 2 ^ 32"
  using assms by (simp_all add: FileOptions_fits_def FileOptions_bytes_def)

lemma FileOptions_numbers:
  assumes "FileOptions_fits m"
  shows "pred_option int32_ok (FileOptions_optimizeFor m)"
  using assms by (simp_all add: FileOptions_fits_def)

lemma FileOptions_features_fits:
  assumes "FileOptions_fits m" and "FileOptions_features m = Some v"
  shows "FeatureSet_fits v"
  using assms by (simp add: FileOptions_fits_def list_all_iff)

lemma FileOptions_uninterpretedOption_fits:
  assumes "FileOptions_fits m" and "v \<in> set (FileOptions_uninterpretedOption m)"
  shows "UninterpretedOption_fits v"
  using assms by (simp add: FileOptions_fits_def list_all_iff)

lemma FileOptions_writes:
  assumes "FileOptions_fits m"
  shows "appends buf (FileOptions_encode W m) (FileOptions_bytes m)"
  unfolding FileOptions_encode_def FileOptions_bytes_def concat.simps
  by (rule appends_run_Cons appends_run_Nil enc_other_str enc_other_bool enc_other_int FeatureSet.enc_opt_sub UninterpretedOption.enc_rep_sub
        FileOptions_length [OF assms] FileOptions_numbers [OF assms]
      | erule FileOptions_features_fits [OF assms] FileOptions_uninterpretedOption_fits [OF assms])+

lemma FileOptions_reads:
  shows "switch_reads (FileOptions_switch W) 10 (rString W) (store_some FileOptions_javaPackage_update)"
    and "switch_reads (FileOptions_switch W) 66 (rString W) (store_some FileOptions_javaOuterClassname_update)"
    and "switch_reads (FileOptions_switch W) 80 (rBool W) (store_some FileOptions_javaMultipleFiles_update)"
    and "switch_reads (FileOptions_switch W) 160 (rBool W) (store_some FileOptions_javaGenerateEqualsAndHash_update)"
    and "switch_reads (FileOptions_switch W) 216 (rBool W) (store_some FileOptions_javaStringCheckUtf8_update)"
    and "switch_reads (FileOptions_switch W) 72 (rInt32 W) (store_some FileOptions_optimizeFor_update)"
    and "switch_reads (FileOptions_switch W) 90 (rString W) (store_some FileOptions_goPackage_update)"
    and "switch_reads (FileOptions_switch W) 128 (rBool W) (store_some FileOptions_ccGenericServices_update)"
    and "switch_reads (FileOptions_switch W) 136 (rBool W) (store_some FileOptions_javaGenericServices_update)"
    and "switch_reads (FileOptions_switch W) 144 (rBool W) (store_some FileOptions_pyGenericServices_update)"
    and "switch_reads (FileOptions_switch W) 184 (rBool W) (store_some FileOptions_deprecated_update)"
    and "switch_reads (FileOptions_switch W) 248 (rBool W) (store_some FileOptions_ccEnableArenas_update)"
    and "switch_reads (FileOptions_switch W) 290 (rString W) (store_some FileOptions_objcClassPrefix_update)"
    and "switch_reads (FileOptions_switch W) 298 (rString W) (store_some FileOptions_csharpNamespace_update)"
    and "switch_reads (FileOptions_switch W) 314 (rString W) (store_some FileOptions_swiftPrefix_update)"
    and "switch_reads (FileOptions_switch W) 322 (rString W) (store_some FileOptions_phpClassPrefix_update)"
    and "switch_reads (FileOptions_switch W) 330 (rString W) (store_some FileOptions_phpNamespace_update)"
    and "switch_reads (FileOptions_switch W) 354 (rString W) (store_some FileOptions_phpMetadataNamespace_update)"
    and "switch_reads (FileOptions_switch W) 362 (rString W) (store_some FileOptions_rubyPackage_update)"
    and "switch_reads (FileOptions_switch W) 402 (read_message W (FeatureSet_decode W)) (store_some FileOptions_features_update)"
    and "switch_reads (FileOptions_switch W) 7994 (read_message W (UninterpretedOption_decode W)) (push FileOptions_uninterpretedOption_update)"
  by (auto simp: switch_reads_def switch_packs_def FileOptions_switch_def)

lemma FileOptions_good: "good_switch W valid k (FileOptions_switch W)"
  unfolding good_switch_def FileOptions_switch_def FeatureSet_decode_def UninterpretedOption_decode_def
  by (auto intro!: good_step_case_read good_step_case_packed rString_safe rBool_safe rInt32_safe wide_safe safe_read_message [OF FeatureSet.dec_safe] safe_read_message [OF UninterpretedOption.dec_safe])

lemma FileOptions_runs:
  assumes "FileOptions_fits m"
  shows "runs W valid rest k (FileOptions_switch W) (FileOptions_bytes m) (\<lambda>m0. FileOptions_merge m0 m)"
  unfolding FileOptions_bytes_def concat.simps
  by (rule runs_cong,
      (rule runs_append runs_Nil read_other_str read_other_bool read_other_int FeatureSet.read_opt_sub UninterpretedOption.read_rep_sub
         FileOptions_reads [unfolded FeatureSet_decode_def UninterpretedOption_decode_def]
         FileOptions_length [OF assms] FileOptions_numbers [OF assms]
      | erule FileOptions_features_fits [OF assms] FileOptions_uninterpretedOption_fits [OF assms]
       | assumption | simp; fail)+,
      simp add: FileOptions_merge_def)

end

sublocale wire_laws \<subseteq> FileOptions: switch_codec W buf valid rest "FileOptions_encode W" "FileOptions_switch W"
    createBaseFileOptions FileOptions_bytes FileOptions_fits FileOptions_norm FileOptions_merge
proof unfold_locales
  show "FileOptions_merge createBaseFileOptions m = FileOptions_norm m" for m
    by (simp add: FileOptions_merge_def FileOptions_norm_def createBaseFileOptions_def merge_default
          cong: if_cong option.case_cong split del: if_split)
qed (simp_all add: FileOptions_writes FileOptions_good FileOptions_runs, simp add: FileOptions_fits_def)

context wire_laws
begin

lemma ExtensionRangeOptions_length:
  assumes "ExtensionRangeOptions_fits m"
  shows "length (rep_msg_field 7994 UninterpretedOption_bytes (ExtensionRangeOptions_uninterpretedOption m)) < 2 ^ 32"
    and "length (rep_msg_field 18 ExtensionRangeOptions_Declaration_bytes (ExtensionRangeOptions_declaration m)) < 2 ^ 32"
    and "length (opt_msg_field 402 FeatureSet_bytes (ExtensionRangeOptions_features m)) < 2 ^ 32"
  using assms by (simp_all add: ExtensionRangeOptions_fits_def ExtensionRangeOptions_bytes_def)

lemma ExtensionRangeOptions_numbers:
  assumes "ExtensionRangeOptions_fits m"
  shows "pred_option int32_ok (ExtensionRangeOptions_verification m)"
  using assms by (simp_all add: ExtensionRangeOptions_fits_def)

lemma ExtensionRangeOptions_uninterpretedOption_fits:
  assumes "ExtensionRangeOptions_fits m" and "v \<in> set (ExtensionRangeOptions_uninterpretedOption m)"
  shows "UninterpretedOption_fits v"
  using assms by (simp add: ExtensionRangeOptions_fits_def list_all_iff)

lemma ExtensionRangeOptions_declaration_fits:
  assumes "ExtensionRangeOptions_fits m" and "v \<in> set (ExtensionRangeOptions_declaration m)"
  shows "ExtensionRangeOptions_Declaration_fits v"
  using assms by (simp add: ExtensionRangeOptions_fits_def list_all_iff)

lemma ExtensionRangeOptions_features_fits:
  assumes "ExtensionRangeOptions_fits m" and "ExtensionRangeOptions_features m = Some v"
  shows "FeatureSet_fits v"
  using assms by (simp add: ExtensionRangeOptions_fits_def list_all_iff)

lemma ExtensionRangeOptions_writes:
  assumes "ExtensionRangeOptions_fits m"
  shows "appends buf (ExtensionRangeOptions_encode W m) (ExtensionRangeOptions_bytes m)"
  unfolding ExtensionRangeOptions_encode_def ExtensionRangeOptions_bytes_def concat.simps
  by (rule appends_run_Cons appends_run_Nil UninterpretedOption.enc_rep_sub ExtensionRangeOptions_Declaration.enc_rep_sub FeatureSet.enc_opt_sub enc_other_int
        ExtensionRangeOptions_length [OF assms] ExtensionRangeOptions_numbers [OF assms]
      | erule ExtensionRangeOptions_uninterpretedOption_fits [OF assms] ExtensionRangeOptions_declaration_fits [OF assms] ExtensionRangeOptions_features_fits [OF assms])+

lemma ExtensionRangeOptions_reads:
  shows "switch_reads (ExtensionRangeOptions_switch W) 7994 (read_message W (UninterpretedOption_decode W)) (push ExtensionRangeOptions_uninterpretedOption_update)"
    and "switch_reads (ExtensionRangeOptions_switch W) 18 (read_message W (ExtensionRangeOptions_Declaration_decode W)) (push ExtensionRangeOptions_declaration_update)"
    and "switch_reads (ExtensionRangeOptions_switch W) 402 (read_message W (FeatureSet_decode W)) (store_some ExtensionRangeOptions_features_update)"
    and "switch_reads (ExtensionRangeOptions_switch W) 24 (rInt32 W) (store_some ExtensionRangeOptions_verification_update)"
  by (auto simp: switch_reads_def switch_packs_def ExtensionRangeOptions_switch_def)

lemma ExtensionRangeOptions_good: "good_switch W valid k (ExtensionRangeOptions_switch W)"
  unfolding good_switch_def ExtensionRangeOptions_switch_def FeatureSet_decode_def ExtensionRangeOptions_Declaration_decode_def UninterpretedOption_decode_def
  by (auto intro!: good_step_case_read good_step_case_packed rString_safe rBool_safe rInt32_safe wide_safe safe_read_message [OF FeatureSet.dec_safe] safe_read_message [OF ExtensionRangeOptions_Declaration.dec_safe] safe_read_message [OF UninterpretedOption.dec_safe])

lemma ExtensionRangeOptions_runs:
  assumes "ExtensionRangeOptions_fits m"
  shows "runs W valid rest k (ExtensionRangeOptions_switch W) (ExtensionRangeOptions_bytes m) (\<lambda>m0. ExtensionRangeOptions_merge m0 m)"
  unfolding ExtensionRangeOptions_bytes_def concat.simps
  by (rule runs_cong,
      (rule runs_append runs_Nil UninterpretedOption.read_rep_sub ExtensionRangeOptions_Declaration.read_rep_sub FeatureSet.read_opt_sub read_other_int
         ExtensionRangeOptions_reads [unfolded FeatureSet_decode_def ExtensionRangeOptions_Declaration_decode_def UninterpretedOption_decode_def]
         ExtensionRangeOptions_length [OF assms] ExtensionRangeOptions_numbers [OF assms]
      | erule ExtensionRangeOptions_uninterpretedOption_fits [OF assms] ExtensionRangeOptions_declaration_fits [OF assms] ExtensionRangeOptions_features_fits [OF assms]
       | assumption | simp; fail)+,
      simp add: ExtensionRangeOptions_merge_def)

end

sublocale wire_laws \<subseteq> ExtensionRangeOptions: switch_codec W buf valid rest "ExtensionRangeOptions_encode W" "ExtensionRangeOptions_switch W"
    createBaseExtensionRangeOptions ExtensionRangeOptions_bytes ExtensionRangeOptions_fits ExtensionRangeOptions_norm ExtensionRangeOptions_merge
proof unfold_locales
  show "ExtensionRangeOptions_merge createBaseExtensionRangeOptions m = ExtensionRangeOptions_norm m" for m
    by (simp add: ExtensionRangeOptions_merge_def ExtensionRangeOptions_norm_def createBaseExtensionRangeOptions_def merge_default
          cong: if_cong option.case_cong split del: if_split)
qed (simp_all add: ExtensionRangeOptions_writes ExtensionRangeOptions_good ExtensionRangeOptions_runs, simp add: ExtensionRangeOptions_fits_def)

section \<open>JSON forms read back\<close>

sublocale base64_laws \<subseteq> UninterpretedOption_json: json_codec "UninterpretedOption_toJSON H" "UninterpretedOption_fromJSON H" UninterpretedOption_jnorm
proof unfold_locales
  show "UninterpretedOption_fromJSON H (UninterpretedOption_toJSON H m) = Inr (UninterpretedOption_jnorm m)" for m
    unfolding UninterpretedOption_fromJSON_def UninterpretedOption_toJSON_def UninterpretedOption_jnorm_def
    by (simp add: json_members read_bytes UninterpretedOption_NamePart_json.json_sub)
qed (simp add: UninterpretedOption_toJSON_def)

sublocale base64_laws \<subseteq> OneofOptions_json: json_codec "OneofOptions_toJSON H" "OneofOptions_fromJSON H" OneofOptions_jnorm
proof unfold_locales
  show "OneofOptions_fromJSON H (OneofOptions_toJSON H m) = Inr (OneofOptions_jnorm m)" for m
    unfolding OneofOptions_fromJSON_def OneofOptions_toJSON_def OneofOptions_jnorm_def
    by (simp add: json_members read_bytes FeatureSet_json.json_sub UninterpretedOption_json.json_sub)
qed (simp add: OneofOptions_toJSON_def)

sublocale base64_laws \<subseteq> EnumOptions_json: json_codec "EnumOptions_toJSON H" "EnumOptions_fromJSON H" EnumOptions_jnorm
proof unfold_locales
  show "EnumOptions_fromJSON H (EnumOptions_toJSON H m) = Inr (EnumOptions_jnorm m)" for m
    unfolding EnumOptions_fromJSON_def EnumOptions_toJSON_def EnumOptions_jnorm_def
    by (simp add: json_members read_bytes FeatureSet_json.json_sub UninterpretedOption_json.json_sub)
qed (simp add: EnumOptions_toJSON_def)

sublocale base64_laws \<subseteq> EnumValueOptions_json: json_codec "EnumValueOptions_toJSON H" "EnumValueOptions_fromJSON H" EnumValueOptions_jnorm
proof unfold_locales
  show "EnumValueOptions_fromJSON H (EnumValueOptions_toJSON H m) = Inr (EnumValueOptions_jnorm m)" for m
    unfolding EnumValueOptions_fromJSON_def EnumValueOptions_toJSON_def EnumValueOptions_jnorm_def
    by (simp add: json_members read_bytes FeatureSet_json.json_sub FieldOptions_FeatureSupport_json.json_sub UninterpretedOption_json.json_sub)
qed (simp add: EnumValueOptions_toJSON_def)

sublocale base64_laws \<subseteq> ServiceOptions_json: json_codec "ServiceOptions_toJSON H" "ServiceOptions_fromJSON H" ServiceOptions_jnorm
proof unfold_locales
  show "ServiceOptions_fromJSON H (ServiceOptions_toJSON H m) = Inr (ServiceOptions_jnorm m)" for m
    unfolding ServiceOptions_fromJSON_def ServiceOptions_toJSON_def ServiceOptions_jnorm_def
    by (simp add: json_members read_bytes FeatureSet_json.json_sub UninterpretedOption_json.json_sub)
qed (simp add: ServiceOptions_toJSON_def)

sublocale base64_laws \<subseteq> MethodOptions_json: json_codec "MethodOptions_toJSON H" "MethodOptions_fromJSON H" MethodOptions_jnorm
proof unfold_locales
  show "MethodOptions_fromJSON H (MethodOptions_toJSON H m) = Inr (MethodOptions_jnorm m)" for m
    unfolding MethodOptions_fromJSON_def MethodOptions_toJSON_def MethodOptions_jnorm_def
    by (simp add: json_members read_bytes FeatureSet_json.json_sub UninterpretedOption_json.json_sub)
qed (simp add: MethodOptions_toJSON_def)

sublocale base64_laws \<subseteq> MessageOptions_json: json_codec "MessageOptions_toJSON H" "MessageOptions_fromJSON H" MessageOptions_jnorm
proof unfold_locales
  show "MessageOptions_fromJSON H (MessageOptions_toJSON H m) = Inr (MessageOptions_jnorm m)" for m
    unfolding MessageOptions_fromJSON_def MessageOptions_toJSON_def MessageOptions_jnorm_def
    by (simp add: json_members read_bytes FeatureSet_json.json_sub UninterpretedOption_json.json_sub)
qed (simp add: MessageOptions_toJSON_def)

sublocale base64_laws \<subseteq> FieldOptions_json: json_codec "FieldOptions_toJSON H" "FieldOptions_fromJSON H" FieldOptions_jnorm
proof unfold_locales
  show "FieldOptions_fromJSON H (FieldOptions_toJSON H m) = Inr (FieldOptions_jnorm m)" for m
    unfolding FieldOptions_fromJSON_def FieldOptions_toJSON_def FieldOptions_jnorm_def
    by (simp add: json_members read_bytes FeatureSet_json.json_sub FieldOptions_EditionDefault_json.json_sub FieldOptions_FeatureSupport_json.json_sub UninterpretedOption_json.json_sub)
qed (simp add: FieldOptions_toJSON_def)

sublocale base64_laws \<subseteq> FileOptions_json: json_codec "FileOptions_toJSON H" "FileOptions_fromJSON H" FileOptions_jnorm
proof unfold_locales
  show "FileOptions_fromJSON H (FileOptions_toJSON H m) = Inr (FileOptions_jnorm m)" for m
    unfolding FileOptions_fromJSON_def FileOptions_toJSON_def FileOptions_jnorm_def
    by (simp add: json_members read_bytes FeatureSet_json.json_sub UninterpretedOption_json.json_sub)
qed (simp add: FileOptions_toJSON_def)

sublocale base64_laws \<subseteq> ExtensionRangeOptions_json: json_codec "ExtensionRangeOptions_toJSON H" "ExtensionRangeOptions_fromJSON H" ExtensionRangeOptions_jnorm
proof unfold_locales
  show "ExtensionRangeOptions_fromJSON H (ExtensionRangeOptions_toJSON H m) = Inr (ExtensionRangeOptions_jnorm m)" for m
    unfolding ExtensionRangeOptions_fromJSON_def ExtensionRangeOptions_toJSON_def ExtensionRangeOptions_jnorm_def
    by (simp add: json_members read_bytes FeatureSet_json.json_sub ExtensionRangeOptions_Declaration_json.json_sub UninterpretedOption_json.json_sub)
qed (simp add: ExtensionRangeOptions_toJSON_def)

end
