(* ===== verification/Descriptor_Protos.thy ===== *)
theory Descriptor_Protos
  imports Descriptor_Options
begin

text \<open>
  The descriptors of fields, oneofs, enums, methods, services and extension ranges of
  \<^verbatim>\<open>descriptor.ts\<close>.
\<close>

unbundle bit_operations_syntax

section \<open>FieldDescriptorProto\<close>

record FieldDescriptorProto =
  FieldDescriptorProto_name :: "string option"
  FieldDescriptorProto_number :: "jsnum option"
  FieldDescriptorProto_label :: "jsnum option"
  FieldDescriptorProto_type :: "jsnum option"
  FieldDescriptorProto_typeName :: "string option"
  FieldDescriptorProto_extendee :: "string option"
  FieldDescriptorProto_defaultValue :: "string option"
  FieldDescriptorProto_oneofIndex :: "jsnum option"
  FieldDescriptorProto_jsonName :: "string option"
  FieldDescriptorProto_options :: "FieldOptions option"
  FieldDescriptorProto_proto3Optional :: "bool option"

definition createBaseFieldDescriptorProto :: FieldDescriptorProto where
  "createBaseFieldDescriptorProto = \<lparr>FieldDescriptorProto_name = Some '''', FieldDescriptorProto_number = Some (NInt 0), FieldDescriptorProto_label = Some (NInt 1), FieldDescriptorProto_type = Some (NInt 1), FieldDescriptorProto_typeName = Some '''', FieldDescriptorProto_extendee = Some '''', FieldDescriptorProto_defaultValue = Some '''', FieldDescriptorProto_oneofIndex = Some (NInt 0), FieldDescriptorProto_jsonName = Some '''', FieldDescriptorProto_options = None, FieldDescriptorProto_proto3Optional = Some False\<rparr>"

definition FieldDescriptorProto_encode :: "('w, 'r) wire \<Rightarrow> FieldDescriptorProto \<Rightarrow> 'w stmt" where
  "FieldDescriptorProto_encode W message = run [
     if_other (FieldDescriptorProto_name message) '''' (\<lambda>v. tagged W 10 (wString W v)),
     if_other (FieldDescriptorProto_number message) (NInt 0) (\<lambda>v. tagged W 24 (wInt32 W v)),
     if_other (FieldDescriptorProto_label message) (NInt 1) (\<lambda>v. tagged W 32 (wInt32 W v)),
     if_other (FieldDescriptorProto_type message) (NInt 1) (\<lambda>v. tagged W 40 (wInt32 W v)),
     if_other (FieldDescriptorProto_typeName message) '''' (\<lambda>v. tagged W 50 (wString W v)),
     if_other (FieldDescriptorProto_extendee message) '''' (\<lambda>v. tagged W 18 (wString W v)),
     if_other (FieldDescriptorProto_defaultValue message) '''' (\<lambda>v. tagged W 58 (wString W v)),
     if_other (FieldDescriptorProto_oneofIndex message) (NInt 0) (\<lambda>v. tagged W 72 (wInt32 W v)),
     if_other (FieldDescriptorProto_jsonName message) '''' (\<lambda>v. tagged W 82 (wString W v)),
     if_set (FieldDescriptorProto_options message) (\<lambda>v. sub_message W 66 (FieldOptions_encode W v)),
     if_other (FieldDescriptorProto_proto3Optional message) False (\<lambda>v. tagged W 136 (wBool W v))]"

definition FieldDescriptorProto_switch :: "('w, 'r) wire \<Rightarrow> (FieldDescriptorProto, 'r) switch" where
  "FieldDescriptorProto_switch W tag message reader =
   (if drop_bit 3 tag = 1 then case_read tag 10 (rString W) (store_some FieldDescriptorProto_name_update) message reader
    else if drop_bit 3 tag = 3 then case_read tag 24 (rInt32 W) (store_some FieldDescriptorProto_number_update) message reader
    else if drop_bit 3 tag = 4 then case_read tag 32 (rInt32 W) (store_some FieldDescriptorProto_label_update) message reader
    else if drop_bit 3 tag = 5 then case_read tag 40 (rInt32 W) (store_some FieldDescriptorProto_type_update) message reader
    else if drop_bit 3 tag = 6 then case_read tag 50 (rString W) (store_some FieldDescriptorProto_typeName_update) message reader
    else if drop_bit 3 tag = 2 then case_read tag 18 (rString W) (store_some FieldDescriptorProto_extendee_update) message reader
    else if drop_bit 3 tag = 7 then case_read tag 58 (rString W) (store_some FieldDescriptorProto_defaultValue_update) message reader
    else if drop_bit 3 tag = 9 then case_read tag 72 (rInt32 W) (store_some FieldDescriptorProto_oneofIndex_update) message reader
    else if drop_bit 3 tag = 10 then case_read tag 82 (rString W) (store_some FieldDescriptorProto_jsonName_update) message reader
    else if drop_bit 3 tag = 8 then case_read tag 66 (read_message W (FieldOptions_decode W)) (store_some FieldDescriptorProto_options_update) message reader
    else if drop_bit 3 tag = 17 then case_read tag 136 (rBool W) (store_some FieldDescriptorProto_proto3Optional_update) message reader
    else Inr None)"

definition FieldDescriptorProto_decode :: "('w, 'r) wire \<Rightarrow> 'r input \<Rightarrow> nat option \<Rightarrow> (FieldDescriptorProto \<times> 'r) res" where
  "FieldDescriptorProto_decode W = decode_msg W (FieldDescriptorProto_switch W) createBaseFieldDescriptorProto"

definition FieldDescriptorProto_fromJSON :: "base64_host \<Rightarrow> jsval \<Rightarrow> FieldDescriptorProto res" where
  "FieldDescriptorProto_fromJSON H object =
     rbind (json_field object ''name'' (some_res js_String) (Inr (Some ''''))) (\<lambda>name.
     rbind (json_field object ''number'' (some_res js_Number) (Inr (Some (NInt 0)))) (\<lambda>number.
     rbind (json_field object ''label'' (some_res (enum_number FieldDescriptorProto_Label_value fieldDescriptorProto_LabelFromJSON)) (Inr (Some (NInt 1)))) (\<lambda>label.
     rbind (json_field object ''type'' (some_res (enum_number FieldDescriptorProto_Type_value fieldDescriptorProto_TypeFromJSON)) (Inr (Some (NInt 1)))) (\<lambda>type.
     rbind (json_field2 object ''typeName'' ''type_name'' (some_res js_String) (Inr (Some ''''))) (\<lambda>typeName.
     rbind (json_field object ''extendee'' (some_res js_String) (Inr (Some ''''))) (\<lambda>extendee.
     rbind (json_field2 object ''defaultValue'' ''default_value'' (some_res js_String) (Inr (Some ''''))) (\<lambda>defaultValue.
     rbind (json_field2 object ''oneofIndex'' ''oneof_index'' (some_res js_Number) (Inr (Some (NInt 0)))) (\<lambda>oneofIndex.
     rbind (json_field2 object ''jsonName'' ''json_name'' (some_res js_String) (Inr (Some ''''))) (\<lambda>jsonName.
     rbind (json_field object ''options'' (some_res (FieldOptions_fromJSON H)) (Inr None)) (\<lambda>options.
     rbind (json_field2 object ''proto3Optional'' ''proto3_optional'' (some_res js_Boolean_res) (Inr (Some False))) (\<lambda>proto3Optional.
     Inr \<lparr>FieldDescriptorProto_name = name, FieldDescriptorProto_number = number, FieldDescriptorProto_label = label, FieldDescriptorProto_type = type, FieldDescriptorProto_typeName = typeName, FieldDescriptorProto_extendee = extendee, FieldDescriptorProto_defaultValue = defaultValue, FieldDescriptorProto_oneofIndex = oneofIndex, FieldDescriptorProto_jsonName = jsonName, FieldDescriptorProto_options = options, FieldDescriptorProto_proto3Optional = proto3Optional\<rparr>)))))))))))"

definition FieldDescriptorProto_toJSON :: "base64_host \<Rightarrow> FieldDescriptorProto \<Rightarrow> jsval" where
  "FieldDescriptorProto_toJSON H message = json_object [
     (''name'', put_other (FieldDescriptorProto_name message) '''' JStr),
     (''number'', put_other (FieldDescriptorProto_number message) (NInt 0) (\<lambda>n. JNum (js_round n))),
     (''label'', put_other (FieldDescriptorProto_label message) (NInt 1) (\<lambda>n. JStr (fieldDescriptorProto_LabelToJSON n))),
     (''type'', put_other (FieldDescriptorProto_type message) (NInt 1) (\<lambda>n. JStr (fieldDescriptorProto_TypeToJSON n))),
     (''typeName'', put_other (FieldDescriptorProto_typeName message) '''' JStr),
     (''extendee'', put_other (FieldDescriptorProto_extendee message) '''' JStr),
     (''defaultValue'', put_other (FieldDescriptorProto_defaultValue message) '''' JStr),
     (''oneofIndex'', put_other (FieldDescriptorProto_oneofIndex message) (NInt 0) (\<lambda>n. JNum (js_round n))),
     (''jsonName'', put_other (FieldDescriptorProto_jsonName message) '''' JStr),
     (''options'', map_option (FieldOptions_toJSON H) (FieldDescriptorProto_options message)),
     (''proto3Optional'', put_other (FieldDescriptorProto_proto3Optional message) False JBool)]"

record FieldDescriptorProto_Partial =
  Partial_FieldDescriptorProto_name :: "string option"
  Partial_FieldDescriptorProto_number :: "jsnum option"
  Partial_FieldDescriptorProto_label :: "jsnum option"
  Partial_FieldDescriptorProto_type :: "jsnum option"
  Partial_FieldDescriptorProto_typeName :: "string option"
  Partial_FieldDescriptorProto_extendee :: "string option"
  Partial_FieldDescriptorProto_defaultValue :: "string option"
  Partial_FieldDescriptorProto_oneofIndex :: "jsnum option"
  Partial_FieldDescriptorProto_jsonName :: "string option"
  Partial_FieldDescriptorProto_options :: "FieldOptions_Partial option"
  Partial_FieldDescriptorProto_proto3Optional :: "bool option"

definition FieldDescriptorProto_fromPartial :: "FieldDescriptorProto_Partial \<Rightarrow> FieldDescriptorProto" where
  "FieldDescriptorProto_fromPartial object = createBaseFieldDescriptorProto\<lparr>
     FieldDescriptorProto_name := Some (nullish (Partial_FieldDescriptorProto_name object) ''''),
     FieldDescriptorProto_number := Some (nullish (Partial_FieldDescriptorProto_number object) (NInt 0)),
     FieldDescriptorProto_label := Some (nullish (Partial_FieldDescriptorProto_label object) (NInt 1)),
     FieldDescriptorProto_type := Some (nullish (Partial_FieldDescriptorProto_type object) (NInt 1)),
     FieldDescriptorProto_typeName := Some (nullish (Partial_FieldDescriptorProto_typeName object) ''''),
     FieldDescriptorProto_extendee := Some (nullish (Partial_FieldDescriptorProto_extendee object) ''''),
     FieldDescriptorProto_defaultValue := Some (nullish (Partial_FieldDescriptorProto_defaultValue object) ''''),
     FieldDescriptorProto_oneofIndex := Some (nullish (Partial_FieldDescriptorProto_oneofIndex object) (NInt 0)),
     FieldDescriptorProto_jsonName := Some (nullish (Partial_FieldDescriptorProto_jsonName object) ''''),
     FieldDescriptorProto_options := map_option FieldOptions_fromPartial (Partial_FieldDescriptorProto_options object),
     FieldDescriptorProto_proto3Optional := Some (nullish (Partial_FieldDescriptorProto_proto3Optional object) False)\<rparr>"

definition FieldDescriptorProto_create :: "FieldDescriptorProto_Partial option \<Rightarrow> FieldDescriptorProto" where
  "FieldDescriptorProto_create base = FieldDescriptorProto_fromPartial (nullish base \<lparr>Partial_FieldDescriptorProto_name = None, Partial_FieldDescriptorProto_number = None, Partial_FieldDescriptorProto_label = None, Partial_FieldDescriptorProto_type = None, Partial_FieldDescriptorProto_typeName = None, Partial_FieldDescriptorProto_extendee = None, Partial_FieldDescriptorProto_defaultValue = None, Partial_FieldDescriptorProto_oneofIndex = None, Partial_FieldDescriptorProto_jsonName = None, Partial_FieldDescriptorProto_options = None, Partial_FieldDescriptorProto_proto3Optional = None\<rparr>)"

section \<open>OneofDescriptorProto\<close>

record OneofDescriptorProto =
  OneofDescriptorProto_name :: "string option"
  OneofDescriptorProto_options :: "OneofOptions option"

definition createBaseOneofDescriptorProto :: OneofDescriptorProto where
  "createBaseOneofDescriptorProto = \<lparr>OneofDescriptorProto_name = Some '''', OneofDescriptorProto_options = None\<rparr>"

definition OneofDescriptorProto_encode :: "('w, 'r) wire \<Rightarrow> OneofDescriptorProto \<Rightarrow> 'w stmt" where
  "OneofDescriptorProto_encode W message = run [
     if_other (OneofDescriptorProto_name message) '''' (\<lambda>v. tagged W 10 (wString W v)),
     if_set (OneofDescriptorProto_options message) (\<lambda>v. sub_message W 18 (OneofOptions_encode W v))]"

definition OneofDescriptorProto_switch :: "('w, 'r) wire \<Rightarrow> (OneofDescriptorProto, 'r) switch" where
  "OneofDescriptorProto_switch W tag message reader =
   (if drop_bit 3 tag = 1 then case_read tag 10 (rString W) (store_some OneofDescriptorProto_name_update) message reader
    else if drop_bit 3 tag = 2 then case_read tag 18 (read_message W (OneofOptions_decode W)) (store_some OneofDescriptorProto_options_update) message reader
    else Inr None)"

definition OneofDescriptorProto_decode :: "('w, 'r) wire \<Rightarrow> 'r input \<Rightarrow> nat option \<Rightarrow> (OneofDescriptorProto \<times> 'r) res" where
  "OneofDescriptorProto_decode W = decode_msg W (OneofDescriptorProto_switch W) createBaseOneofDescriptorProto"

definition OneofDescriptorProto_fromJSON :: "base64_host \<Rightarrow> jsval \<Rightarrow> OneofDescriptorProto res" where
  "OneofDescriptorProto_fromJSON H object =
     rbind (json_field object ''name'' (some_res js_String) (Inr (Some ''''))) (\<lambda>name.
     rbind (json_field object ''options'' (some_res (OneofOptions_fromJSON H)) (Inr None)) (\<lambda>options.
     Inr \<lparr>OneofDescriptorProto_name = name, OneofDescriptorProto_options = options\<rparr>))"

definition OneofDescriptorProto_toJSON :: "base64_host \<Rightarrow> OneofDescriptorProto \<Rightarrow> jsval" where
  "OneofDescriptorProto_toJSON H message = json_object [
     (''name'', put_other (OneofDescriptorProto_name message) '''' JStr),
     (''options'', map_option (OneofOptions_toJSON H) (OneofDescriptorProto_options message))]"

record OneofDescriptorProto_Partial =
  Partial_OneofDescriptorProto_name :: "string option"
  Partial_OneofDescriptorProto_options :: "OneofOptions_Partial option"

definition OneofDescriptorProto_fromPartial :: "OneofDescriptorProto_Partial \<Rightarrow> OneofDescriptorProto" where
  "OneofDescriptorProto_fromPartial object = createBaseOneofDescriptorProto\<lparr>
     OneofDescriptorProto_name := Some (nullish (Partial_OneofDescriptorProto_name object) ''''),
     OneofDescriptorProto_options := map_option OneofOptions_fromPartial (Partial_OneofDescriptorProto_options object)\<rparr>"

definition OneofDescriptorProto_create :: "OneofDescriptorProto_Partial option \<Rightarrow> OneofDescriptorProto" where
  "OneofDescriptorProto_create base = OneofDescriptorProto_fromPartial (nullish base \<lparr>Partial_OneofDescriptorProto_name = None, Partial_OneofDescriptorProto_options = None\<rparr>)"

section \<open>EnumValueDescriptorProto\<close>

record EnumValueDescriptorProto =
  EnumValueDescriptorProto_name :: "string option"
  EnumValueDescriptorProto_number :: "jsnum option"
  EnumValueDescriptorProto_options :: "EnumValueOptions option"

definition createBaseEnumValueDescriptorProto :: EnumValueDescriptorProto where
  "createBaseEnumValueDescriptorProto = \<lparr>EnumValueDescriptorProto_name = Some '''', EnumValueDescriptorProto_number = Some (NInt 0), EnumValueDescriptorProto_options = None\<rparr>"

definition EnumValueDescriptorProto_encode :: "('w, 'r) wire \<Rightarrow> EnumValueDescriptorProto \<Rightarrow> 'w stmt" where
  "EnumValueDescriptorProto_encode W message = run [
     if_other (EnumValueDescriptorProto_name message) '''' (\<lambda>v. tagged W 10 (wString W v)),
     if_other (EnumValueDescriptorProto_number message) (NInt 0) (\<lambda>v. tagged W 16 (wInt32 W v)),
     if_set (EnumValueDescriptorProto_options message) (\<lambda>v. sub_message W 26 (EnumValueOptions_encode W v))]"

definition EnumValueDescriptorProto_switch :: "('w, 'r) wire \<Rightarrow> (EnumValueDescriptorProto, 'r) switch" where
  "EnumValueDescriptorProto_switch W tag message reader =
   (if drop_bit 3 tag = 1 then case_read tag 10 (rString W) (store_some EnumValueDescriptorProto_name_update) message reader
    else if drop_bit 3 tag = 2 then case_read tag 16 (rInt32 W) (store_some EnumValueDescriptorProto_number_update) message reader
    else if drop_bit 3 tag = 3 then case_read tag 26 (read_message W (EnumValueOptions_decode W)) (store_some EnumValueDescriptorProto_options_update) message reader
    else Inr None)"

definition EnumValueDescriptorProto_decode :: "('w, 'r) wire \<Rightarrow> 'r input \<Rightarrow> nat option \<Rightarrow> (EnumValueDescriptorProto \<times> 'r) res" where
  "EnumValueDescriptorProto_decode W = decode_msg W (EnumValueDescriptorProto_switch W) createBaseEnumValueDescriptorProto"

definition EnumValueDescriptorProto_fromJSON :: "base64_host \<Rightarrow> jsval \<Rightarrow> EnumValueDescriptorProto res" where
  "EnumValueDescriptorProto_fromJSON H object =
     rbind (json_field object ''name'' (some_res js_String) (Inr (Some ''''))) (\<lambda>name.
     rbind (json_field object ''number'' (some_res js_Number) (Inr (Some (NInt 0)))) (\<lambda>number.
     rbind (json_field object ''options'' (some_res (EnumValueOptions_fromJSON H)) (Inr None)) (\<lambda>options.
     Inr \<lparr>EnumValueDescriptorProto_name = name, EnumValueDescriptorProto_number = number, EnumValueDescriptorProto_options = options\<rparr>)))"

definition EnumValueDescriptorProto_toJSON :: "base64_host \<Rightarrow> EnumValueDescriptorProto \<Rightarrow> jsval" where
  "EnumValueDescriptorProto_toJSON H message = json_object [
     (''name'', put_other (EnumValueDescriptorProto_name message) '''' JStr),
     (''number'', put_other (EnumValueDescriptorProto_number message) (NInt 0) (\<lambda>n. JNum (js_round n))),
     (''options'', map_option (EnumValueOptions_toJSON H) (EnumValueDescriptorProto_options message))]"

record EnumValueDescriptorProto_Partial =
  Partial_EnumValueDescriptorProto_name :: "string option"
  Partial_EnumValueDescriptorProto_number :: "jsnum option"
  Partial_EnumValueDescriptorProto_options :: "EnumValueOptions_Partial option"

definition EnumValueDescriptorProto_fromPartial :: "EnumValueDescriptorProto_Partial \<Rightarrow> EnumValueDescriptorProto" where
  "EnumValueDescriptorProto_fromPartial object = createBaseEnumValueDescriptorProto\<lparr>
     EnumValueDescriptorProto_name := Some (nullish (Partial_EnumValueDescriptorProto_name object) ''''),
     EnumValueDescriptorProto_number := Some (nullish (Partial_EnumValueDescriptorProto_number object) (NInt 0)),
     EnumValueDescriptorProto_options := map_option EnumValueOptions_fromPartial (Partial_EnumValueDescriptorProto_options object)\<rparr>"

definition EnumValueDescriptorProto_create :: "EnumValueDescriptorProto_Partial option \<Rightarrow> EnumValueDescriptorProto" where
  "EnumValueDescriptorProto_create base = EnumValueDescriptorProto_fromPartial (nullish base \<lparr>Partial_EnumValueDescriptorProto_name = None, Partial_EnumValueDescriptorProto_number = None, Partial_EnumValueDescriptorProto_options = None\<rparr>)"

section \<open>EnumDescriptorProto\<close>

record EnumDescriptorProto =
  EnumDescriptorProto_name :: "string option"
  EnumDescriptorProto_value :: "EnumValueDescriptorProto list"
  EnumDescriptorProto_options :: "EnumOptions option"
  EnumDescriptorProto_reservedRange :: "EnumDescriptorProto_EnumReservedRange list"
  EnumDescriptorProto_reservedName :: "string list"

definition createBaseEnumDescriptorProto :: EnumDescriptorProto where
  "createBaseEnumDescriptorProto = \<lparr>EnumDescriptorProto_name = Some '''', EnumDescriptorProto_value = [], EnumDescriptorProto_options = None, EnumDescriptorProto_reservedRange = [], EnumDescriptorProto_reservedName = []\<rparr>"

definition EnumDescriptorProto_encode :: "('w, 'r) wire \<Rightarrow> EnumDescriptorProto \<Rightarrow> 'w stmt" where
  "EnumDescriptorProto_encode W message = run [
     if_other (EnumDescriptorProto_name message) '''' (\<lambda>v. tagged W 10 (wString W v)),
     for_each (EnumDescriptorProto_value message) (\<lambda>v. sub_message W 18 (EnumValueDescriptorProto_encode W v)),
     if_set (EnumDescriptorProto_options message) (\<lambda>v. sub_message W 26 (EnumOptions_encode W v)),
     for_each (EnumDescriptorProto_reservedRange message) (\<lambda>v. sub_message W 34 (EnumDescriptorProto_EnumReservedRange_encode W v)),
     for_each (EnumDescriptorProto_reservedName message) (\<lambda>v. tagged W 42 (wString W v))]"

definition EnumDescriptorProto_switch :: "('w, 'r) wire \<Rightarrow> (EnumDescriptorProto, 'r) switch" where
  "EnumDescriptorProto_switch W tag message reader =
   (if drop_bit 3 tag = 1 then case_read tag 10 (rString W) (store_some EnumDescriptorProto_name_update) message reader
    else if drop_bit 3 tag = 2 then case_read tag 18 (read_message W (EnumValueDescriptorProto_decode W)) (push EnumDescriptorProto_value_update) message reader
    else if drop_bit 3 tag = 3 then case_read tag 26 (read_message W (EnumOptions_decode W)) (store_some EnumDescriptorProto_options_update) message reader
    else if drop_bit 3 tag = 4 then case_read tag 34 (read_message W (EnumDescriptorProto_EnumReservedRange_decode W)) (push EnumDescriptorProto_reservedRange_update) message reader
    else if drop_bit 3 tag = 5 then case_read tag 42 (rString W) (push EnumDescriptorProto_reservedName_update) message reader
    else Inr None)"

definition EnumDescriptorProto_decode :: "('w, 'r) wire \<Rightarrow> 'r input \<Rightarrow> nat option \<Rightarrow> (EnumDescriptorProto \<times> 'r) res" where
  "EnumDescriptorProto_decode W = decode_msg W (EnumDescriptorProto_switch W) createBaseEnumDescriptorProto"

definition EnumDescriptorProto_fromJSON :: "base64_host \<Rightarrow> jsval \<Rightarrow> EnumDescriptorProto res" where
  "EnumDescriptorProto_fromJSON H object =
     rbind (json_field object ''name'' (some_res js_String) (Inr (Some ''''))) (\<lambda>name.
     rbind (json_array object ''value'' (EnumValueDescriptorProto_fromJSON H) (Inr [])) (\<lambda>value.
     rbind (json_field object ''options'' (some_res (EnumOptions_fromJSON H)) (Inr None)) (\<lambda>options.
     rbind (json_array object ''reservedRange'' EnumDescriptorProto_EnumReservedRange_fromJSON (json_array object ''reserved_range'' EnumDescriptorProto_EnumReservedRange_fromJSON (Inr []))) (\<lambda>reservedRange.
     rbind (json_array object ''reservedName'' js_String (json_array object ''reserved_name'' js_String (Inr []))) (\<lambda>reservedName.
     Inr \<lparr>EnumDescriptorProto_name = name, EnumDescriptorProto_value = value, EnumDescriptorProto_options = options, EnumDescriptorProto_reservedRange = reservedRange, EnumDescriptorProto_reservedName = reservedName\<rparr>)))))"

definition EnumDescriptorProto_toJSON :: "base64_host \<Rightarrow> EnumDescriptorProto \<Rightarrow> jsval" where
  "EnumDescriptorProto_toJSON H message = json_object [
     (''name'', put_other (EnumDescriptorProto_name message) '''' JStr),
     (''value'', put_if (EnumDescriptorProto_value message \<noteq> []) (JArr (map (EnumValueDescriptorProto_toJSON H) (EnumDescriptorProto_value message)))),
     (''options'', map_option (EnumOptions_toJSON H) (EnumDescriptorProto_options message)),
     (''reservedRange'', put_if (EnumDescriptorProto_reservedRange message \<noteq> []) (JArr (map EnumDescriptorProto_EnumReservedRange_toJSON (EnumDescriptorProto_reservedRange message)))),
     (''reservedName'', put_if (EnumDescriptorProto_reservedName message \<noteq> []) (JArr (map JStr (EnumDescriptorProto_reservedName message))))]"

record EnumDescriptorProto_Partial =
  Partial_EnumDescriptorProto_name :: "string option"
  Partial_EnumDescriptorProto_value :: "EnumValueDescriptorProto_Partial list option"
  Partial_EnumDescriptorProto_options :: "EnumOptions_Partial option"
  Partial_EnumDescriptorProto_reservedRange :: "EnumDescriptorProto_EnumReservedRange_Partial list option"
  Partial_EnumDescriptorProto_reservedName :: "string list option"

definition EnumDescriptorProto_fromPartial :: "EnumDescriptorProto_Partial \<Rightarrow> EnumDescriptorProto" where
  "EnumDescriptorProto_fromPartial object = createBaseEnumDescriptorProto\<lparr>
     EnumDescriptorProto_name := Some (nullish (Partial_EnumDescriptorProto_name object) ''''),
     EnumDescriptorProto_value := nullish (map_option (map EnumValueDescriptorProto_fromPartial) (Partial_EnumDescriptorProto_value object)) [],
     EnumDescriptorProto_options := map_option EnumOptions_fromPartial (Partial_EnumDescriptorProto_options object),
     EnumDescriptorProto_reservedRange := nullish (map_option (map EnumDescriptorProto_EnumReservedRange_fromPartial) (Partial_EnumDescriptorProto_reservedRange object)) [],
     EnumDescriptorProto_reservedName := nullish (map_option (map (\<lambda>e. e)) (Partial_EnumDescriptorProto_reservedName object)) []\<rparr>"

definition EnumDescriptorProto_create :: "EnumDescriptorProto_Partial option \<Rightarrow> EnumDescriptorProto" where
  "EnumDescriptorProto_create base = EnumDescriptorProto_fromPartial (nullish base \<lparr>Partial_EnumDescriptorProto_name = None, Partial_EnumDescriptorProto_value = None, Partial_EnumDescriptorProto_options = None, Partial_EnumDescriptorProto_reservedRange = None, Partial_EnumDescriptorProto_reservedName = None\<rparr>)"

section \<open>MethodDescriptorProto\<close>

record MethodDescriptorProto =
  MethodDescriptorProto_name :: "string option"
  MethodDescriptorProto_inputType :: "string option"
  MethodDescriptorProto_outputType :: "string option"
  MethodDescriptorProto_options :: "MethodOptions option"
  MethodDescriptorProto_clientStreaming :: "bool option"
  MethodDescriptorProto_serverStreaming :: "bool option"

definition createBaseMethodDescriptorProto :: MethodDescriptorProto where
  "createBaseMethodDescriptorProto = \<lparr>MethodDescriptorProto_name = Some '''', MethodDescriptorProto_inputType = Some '''', MethodDescriptorProto_outputType = Some '''', MethodDescriptorProto_options = None, MethodDescriptorProto_clientStreaming = Some False, MethodDescriptorProto_serverStreaming = Some False\<rparr>"

definition MethodDescriptorProto_encode :: "('w, 'r) wire \<Rightarrow> MethodDescriptorProto \<Rightarrow> 'w stmt" where
  "MethodDescriptorProto_encode W message = run [
     if_other (MethodDescriptorProto_name message) '''' (\<lambda>v. tagged W 10 (wString W v)),
     if_other (MethodDescriptorProto_inputType message) '''' (\<lambda>v. tagged W 18 (wString W v)),
     if_other (MethodDescriptorProto_outputType message) '''' (\<lambda>v. tagged W 26 (wString W v)),
     if_set (MethodDescriptorProto_options message) (\<lambda>v. sub_message W 34 (MethodOptions_encode W v)),
     if_other (MethodDescriptorProto_clientStreaming message) False (\<lambda>v. tagged W 40 (wBool W v)),
     if_other (MethodDescriptorProto_serverStreaming message) False (\<lambda>v. tagged W 48 (wBool W v))]"

definition MethodDescriptorProto_switch :: "('w, 'r) wire \<Rightarrow> (MethodDescriptorProto, 'r) switch" where
  "MethodDescriptorProto_switch W tag message reader =
   (if drop_bit 3 tag = 1 then case_read tag 10 (rString W) (store_some MethodDescriptorProto_name_update) message reader
    else if drop_bit 3 tag = 2 then case_read tag 18 (rString W) (store_some MethodDescriptorProto_inputType_update) message reader
    else if drop_bit 3 tag = 3 then case_read tag 26 (rString W) (store_some MethodDescriptorProto_outputType_update) message reader
    else if drop_bit 3 tag = 4 then case_read tag 34 (read_message W (MethodOptions_decode W)) (store_some MethodDescriptorProto_options_update) message reader
    else if drop_bit 3 tag = 5 then case_read tag 40 (rBool W) (store_some MethodDescriptorProto_clientStreaming_update) message reader
    else if drop_bit 3 tag = 6 then case_read tag 48 (rBool W) (store_some MethodDescriptorProto_serverStreaming_update) message reader
    else Inr None)"

definition MethodDescriptorProto_decode :: "('w, 'r) wire \<Rightarrow> 'r input \<Rightarrow> nat option \<Rightarrow> (MethodDescriptorProto \<times> 'r) res" where
  "MethodDescriptorProto_decode W = decode_msg W (MethodDescriptorProto_switch W) createBaseMethodDescriptorProto"

definition MethodDescriptorProto_fromJSON :: "base64_host \<Rightarrow> jsval \<Rightarrow> MethodDescriptorProto res" where
  "MethodDescriptorProto_fromJSON H object =
     rbind (json_field object ''name'' (some_res js_String) (Inr (Some ''''))) (\<lambda>name.
     rbind (json_field2 object ''inputType'' ''input_type'' (some_res js_String) (Inr (Some ''''))) (\<lambda>inputType.
     rbind (json_field2 object ''outputType'' ''output_type'' (some_res js_String) (Inr (Some ''''))) (\<lambda>outputType.
     rbind (json_field object ''options'' (some_res (MethodOptions_fromJSON H)) (Inr None)) (\<lambda>options.
     rbind (json_field2 object ''clientStreaming'' ''client_streaming'' (some_res js_Boolean_res) (Inr (Some False))) (\<lambda>clientStreaming.
     rbind (json_field2 object ''serverStreaming'' ''server_streaming'' (some_res js_Boolean_res) (Inr (Some False))) (\<lambda>serverStreaming.
     Inr \<lparr>MethodDescriptorProto_name = name, MethodDescriptorProto_inputType = inputType, MethodDescriptorProto_outputType = outputType, MethodDescriptorProto_options = options, MethodDescriptorProto_clientStreaming = clientStreaming, MethodDescriptorProto_serverStreaming = serverStreaming\<rparr>))))))"

definition MethodDescriptorProto_toJSON :: "base64_host \<Rightarrow> MethodDescriptorProto \<Rightarrow> jsval" where
  "MethodDescriptorProto_toJSON H message = json_object [
     (''name'', put_other (MethodDescriptorProto_name message) '''' JStr),
     (''inputType'', put_other (MethodDescriptorProto_inputType message) '''' JStr),
     (''outputType'', put_other (MethodDescriptorProto_outputType message) '''' JStr),
     (''options'', map_option (MethodOptions_toJSON H) (MethodDescriptorProto_options message)),
     (''clientStreaming'', put_other (MethodDescriptorProto_clientStreaming message) False JBool),
     (''serverStreaming'', put_other (MethodDescriptorProto_serverStreaming message) False JBool)]"

record MethodDescriptorProto_Partial =
  Partial_MethodDescriptorProto_name :: "string option"
  Partial_MethodDescriptorProto_inputType :: "string option"
  Partial_MethodDescriptorProto_outputType :: "string option"
  Partial_MethodDescriptorProto_options :: "MethodOptions_Partial option"
  Partial_MethodDescriptorProto_clientStreaming :: "bool option"
  Partial_MethodDescriptorProto_serverStreaming :: "bool option"

definition MethodDescriptorProto_fromPartial :: "MethodDescriptorProto_Partial \<Rightarrow> MethodDescriptorProto" where
  "MethodDescriptorProto_fromPartial object = createBaseMethodDescriptorProto\<lparr>
     MethodDescriptorProto_name := Some (nullish (Partial_MethodDescriptorProto_name object) ''''),
     MethodDescriptorProto_inputType := Some (nullish (Partial_MethodDescriptorProto_inputType object) ''''),
     MethodDescriptorProto_outputType := Some (nullish (Partial_MethodDescriptorProto_outputType object) ''''),
     MethodDescriptorProto_options := map_option MethodOptions_fromPartial (Partial_MethodDescriptorProto_options object),
     MethodDescriptorProto_clientStreaming := Some (nullish (Partial_MethodDescriptorProto_clientStreaming object) False),
     MethodDescriptorProto_serverStreaming := Some (nullish (Partial_MethodDescriptorProto_serverStreaming object) False)\<rparr>"

definition MethodDescriptorProto_create :: "MethodDescriptorProto_Partial option \<Rightarrow> MethodDescriptorProto" where
  "MethodDescriptorProto_create base = MethodDescriptorProto_fromPartial (nullish base \<lparr>Partial_MethodDescriptorProto_name = None, Partial_MethodDescriptorProto_inputType = None, Partial_MethodDescriptorProto_outputType = None, Partial_MethodDescriptorProto_options = None, Partial_MethodDescriptorProto_clientStreaming = None, Partial_MethodDescriptorProto_serverStreaming = None\<rparr>)"

section \<open>ServiceDescriptorProto\<close>

record ServiceDescriptorProto =
  ServiceDescriptorProto_name :: "string option"
  ServiceDescriptorProto_method :: "MethodDescriptorProto list"
  ServiceDescriptorProto_options :: "ServiceOptions option"

definition createBaseServiceDescriptorProto :: ServiceDescriptorProto where
  "createBaseServiceDescriptorProto = \<lparr>ServiceDescriptorProto_name = Some '''', ServiceDescriptorProto_method = [], ServiceDescriptorProto_options = None\<rparr>"

definition ServiceDescriptorProto_encode :: "('w, 'r) wire \<Rightarrow> ServiceDescriptorProto \<Rightarrow> 'w stmt" where
  "ServiceDescriptorProto_encode W message = run [
     if_other (ServiceDescriptorProto_name message) '''' (\<lambda>v. tagged W 10 (wString W v)),
     for_each (ServiceDescriptorProto_method message) (\<lambda>v. sub_message W 18 (MethodDescriptorProto_encode W v)),
     if_set (ServiceDescriptorProto_options message) (\<lambda>v. sub_message W 26 (ServiceOptions_encode W v))]"

definition ServiceDescriptorProto_switch :: "('w, 'r) wire \<Rightarrow> (ServiceDescriptorProto, 'r) switch" where
  "ServiceDescriptorProto_switch W tag message reader =
   (if drop_bit 3 tag = 1 then case_read tag 10 (rString W) (store_some ServiceDescriptorProto_name_update) message reader
    else if drop_bit 3 tag = 2 then case_read tag 18 (read_message W (MethodDescriptorProto_decode W)) (push ServiceDescriptorProto_method_update) message reader
    else if drop_bit 3 tag = 3 then case_read tag 26 (read_message W (ServiceOptions_decode W)) (store_some ServiceDescriptorProto_options_update) message reader
    else Inr None)"

definition ServiceDescriptorProto_decode :: "('w, 'r) wire \<Rightarrow> 'r input \<Rightarrow> nat option \<Rightarrow> (ServiceDescriptorProto \<times> 'r) res" where
  "ServiceDescriptorProto_decode W = decode_msg W (ServiceDescriptorProto_switch W) createBaseServiceDescriptorProto"

definition ServiceDescriptorProto_fromJSON :: "base64_host \<Rightarrow> jsval \<Rightarrow> ServiceDescriptorProto res" where
  "ServiceDescriptorProto_fromJSON H object =
     rbind (json_field object ''name'' (some_res js_String) (Inr (Some ''''))) (\<lambda>name.
     rbind (json_array object ''method'' (MethodDescriptorProto_fromJSON H) (Inr [])) (\<lambda>method.
     rbind (json_field object ''options'' (some_res (ServiceOptions_fromJSON H)) (Inr None)) (\<lambda>options.
     Inr \<lparr>ServiceDescriptorProto_name = name, ServiceDescriptorProto_method = method, ServiceDescriptorProto_options = options\<rparr>)))"

definition ServiceDescriptorProto_toJSON :: "base64_host \<Rightarrow> ServiceDescriptorProto \<Rightarrow> jsval" where
  "ServiceDescriptorProto_toJSON H message = json_object [
     (''name'', put_other (ServiceDescriptorProto_name message) '''' JStr),
     (''method'', put_if (ServiceDescriptorProto_method message \<noteq> []) (JArr (map (MethodDescriptorProto_toJSON H) (ServiceDescriptorProto_method message)))),
     (''options'', map_option (ServiceOptions_toJSON H) (ServiceDescriptorProto_options message))]"

record ServiceDescriptorProto_Partial =
  Partial_ServiceDescriptorProto_name :: "string option"
  Partial_ServiceDescriptorProto_method :: "MethodDescriptorProto_Partial list option"
  Partial_ServiceDescriptorProto_options :: "ServiceOptions_Partial option"

definition ServiceDescriptorProto_fromPartial :: "ServiceDescriptorProto_Partial \<Rightarrow> ServiceDescriptorProto" where
  "ServiceDescriptorProto_fromPartial object = createBaseServiceDescriptorProto\<lparr>
     ServiceDescriptorProto_name := Some (nullish (Partial_ServiceDescriptorProto_name object) ''''),
     ServiceDescriptorProto_method := nullish (map_option (map MethodDescriptorProto_fromPartial) (Partial_ServiceDescriptorProto_method object)) [],
     ServiceDescriptorProto_options := map_option ServiceOptions_fromPartial (Partial_ServiceDescriptorProto_options object)\<rparr>"

definition ServiceDescriptorProto_create :: "ServiceDescriptorProto_Partial option \<Rightarrow> ServiceDescriptorProto" where
  "ServiceDescriptorProto_create base = ServiceDescriptorProto_fromPartial (nullish base \<lparr>Partial_ServiceDescriptorProto_name = None, Partial_ServiceDescriptorProto_method = None, Partial_ServiceDescriptorProto_options = None\<rparr>)"

section \<open>DescriptorProto_ExtensionRange\<close>

record DescriptorProto_ExtensionRange =
  DescriptorProto_ExtensionRange_start :: "jsnum option"
  DescriptorProto_ExtensionRange_end :: "jsnum option"
  DescriptorProto_ExtensionRange_options :: "ExtensionRangeOptions option"

definition createBaseDescriptorProto_ExtensionRange :: DescriptorProto_ExtensionRange where
  "createBaseDescriptorProto_ExtensionRange = \<lparr>DescriptorProto_ExtensionRange_start = Some (NInt 0), DescriptorProto_ExtensionRange_end = Some (NInt 0), DescriptorProto_ExtensionRange_options = None\<rparr>"

definition DescriptorProto_ExtensionRange_encode :: "('w, 'r) wire \<Rightarrow> DescriptorProto_ExtensionRange \<Rightarrow> 'w stmt" where
  "DescriptorProto_ExtensionRange_encode W message = run [
     if_other (DescriptorProto_ExtensionRange_start message) (NInt 0) (\<lambda>v. tagged W 8 (wInt32 W v)),
     if_other (DescriptorProto_ExtensionRange_end message) (NInt 0) (\<lambda>v. tagged W 16 (wInt32 W v)),
     if_set (DescriptorProto_ExtensionRange_options message) (\<lambda>v. sub_message W 26 (ExtensionRangeOptions_encode W v))]"

definition DescriptorProto_ExtensionRange_switch :: "('w, 'r) wire \<Rightarrow> (DescriptorProto_ExtensionRange, 'r) switch" where
  "DescriptorProto_ExtensionRange_switch W tag message reader =
   (if drop_bit 3 tag = 1 then case_read tag 8 (rInt32 W) (store_some DescriptorProto_ExtensionRange_start_update) message reader
    else if drop_bit 3 tag = 2 then case_read tag 16 (rInt32 W) (store_some DescriptorProto_ExtensionRange_end_update) message reader
    else if drop_bit 3 tag = 3 then case_read tag 26 (read_message W (ExtensionRangeOptions_decode W)) (store_some DescriptorProto_ExtensionRange_options_update) message reader
    else Inr None)"

definition DescriptorProto_ExtensionRange_decode :: "('w, 'r) wire \<Rightarrow> 'r input \<Rightarrow> nat option \<Rightarrow> (DescriptorProto_ExtensionRange \<times> 'r) res" where
  "DescriptorProto_ExtensionRange_decode W = decode_msg W (DescriptorProto_ExtensionRange_switch W) createBaseDescriptorProto_ExtensionRange"

definition DescriptorProto_ExtensionRange_fromJSON :: "base64_host \<Rightarrow> jsval \<Rightarrow> DescriptorProto_ExtensionRange res" where
  "DescriptorProto_ExtensionRange_fromJSON H object =
     rbind (json_field object ''start'' (some_res js_Number) (Inr (Some (NInt 0)))) (\<lambda>start.
     rbind (json_field object ''end'' (some_res js_Number) (Inr (Some (NInt 0)))) (\<lambda>end.
     rbind (json_field object ''options'' (some_res (ExtensionRangeOptions_fromJSON H)) (Inr None)) (\<lambda>options.
     Inr \<lparr>DescriptorProto_ExtensionRange_start = start, DescriptorProto_ExtensionRange_end = end, DescriptorProto_ExtensionRange_options = options\<rparr>)))"

definition DescriptorProto_ExtensionRange_toJSON :: "base64_host \<Rightarrow> DescriptorProto_ExtensionRange \<Rightarrow> jsval" where
  "DescriptorProto_ExtensionRange_toJSON H message = json_object [
     (''start'', put_other (DescriptorProto_ExtensionRange_start message) (NInt 0) (\<lambda>n. JNum (js_round n))),
     (''end'', put_other (DescriptorProto_ExtensionRange_end message) (NInt 0) (\<lambda>n. JNum (js_round n))),
     (''options'', map_option (ExtensionRangeOptions_toJSON H) (DescriptorProto_ExtensionRange_options message))]"

record DescriptorProto_ExtensionRange_Partial =
  Partial_DescriptorProto_ExtensionRange_start :: "jsnum option"
  Partial_DescriptorProto_ExtensionRange_end :: "jsnum option"
  Partial_DescriptorProto_ExtensionRange_options :: "ExtensionRangeOptions_Partial option"

definition DescriptorProto_ExtensionRange_fromPartial :: "DescriptorProto_ExtensionRange_Partial \<Rightarrow> DescriptorProto_ExtensionRange" where
  "DescriptorProto_ExtensionRange_fromPartial object = createBaseDescriptorProto_ExtensionRange\<lparr>
     DescriptorProto_ExtensionRange_start := Some (nullish (Partial_DescriptorProto_ExtensionRange_start object) (NInt 0)),
     DescriptorProto_ExtensionRange_end := Some (nullish (Partial_DescriptorProto_ExtensionRange_end object) (NInt 0)),
     DescriptorProto_ExtensionRange_options := map_option ExtensionRangeOptions_fromPartial (Partial_DescriptorProto_ExtensionRange_options object)\<rparr>"

definition DescriptorProto_ExtensionRange_create :: "DescriptorProto_ExtensionRange_Partial option \<Rightarrow> DescriptorProto_ExtensionRange" where
  "DescriptorProto_ExtensionRange_create base = DescriptorProto_ExtensionRange_fromPartial (nullish base \<lparr>Partial_DescriptorProto_ExtensionRange_start = None, Partial_DescriptorProto_ExtensionRange_end = None, Partial_DescriptorProto_ExtensionRange_options = None\<rparr>)"

section \<open>The documented wire form\<close>

text \<open>
  \<open>M_fits\<close> bounds the wire form by what a 32-bit length can say. \<open>M_merge m0 m\<close> is \<open>m0\<close> after
  the fields of \<open>m\<close> have been read into it: a singular field that is present overwrites,
  elements of a repeated field are added at the end.
\<close>

definition FieldDescriptorProto_bytes :: "FieldDescriptorProto \<Rightarrow> bytes" where
  "FieldDescriptorProto_bytes m = concat [
     other_field 10 '''' str_payload (FieldDescriptorProto_name m),
     other_field 24 (NInt 0) int_payload (FieldDescriptorProto_number m),
     other_field 32 (NInt 1) int_payload (FieldDescriptorProto_label m),
     other_field 40 (NInt 1) int_payload (FieldDescriptorProto_type m),
     other_field 50 '''' str_payload (FieldDescriptorProto_typeName m),
     other_field 18 '''' str_payload (FieldDescriptorProto_extendee m),
     other_field 58 '''' str_payload (FieldDescriptorProto_defaultValue m),
     other_field 72 (NInt 0) int_payload (FieldDescriptorProto_oneofIndex m),
     other_field 82 '''' str_payload (FieldDescriptorProto_jsonName m),
     opt_msg_field 66 FieldOptions_bytes (FieldDescriptorProto_options m),
     other_field 136 False bool_payload (FieldDescriptorProto_proto3Optional m)]"

definition FieldDescriptorProto_fits :: "FieldDescriptorProto \<Rightarrow> bool" where
  "FieldDescriptorProto_fits m \<longleftrightarrow> length (FieldDescriptorProto_bytes m) < 2 ^ 32 \<and>
     pred_option int32_ok (FieldDescriptorProto_number m) \<and>
     pred_option int32_ok (FieldDescriptorProto_label m) \<and>
     pred_option int32_ok (FieldDescriptorProto_type m) \<and>
     pred_option int32_ok (FieldDescriptorProto_oneofIndex m) \<and>
     pred_option FieldOptions_fits (FieldDescriptorProto_options m)"

definition FieldDescriptorProto_norm :: "FieldDescriptorProto \<Rightarrow> FieldDescriptorProto" where
  "FieldDescriptorProto_norm m = \<lparr>
     FieldDescriptorProto_name = Some (nullish (FieldDescriptorProto_name m) ''''),
     FieldDescriptorProto_number = Some (nullish (FieldDescriptorProto_number m) (NInt 0)),
     FieldDescriptorProto_label = Some (nullish (FieldDescriptorProto_label m) (NInt 1)),
     FieldDescriptorProto_type = Some (nullish (FieldDescriptorProto_type m) (NInt 1)),
     FieldDescriptorProto_typeName = Some (nullish (FieldDescriptorProto_typeName m) ''''),
     FieldDescriptorProto_extendee = Some (nullish (FieldDescriptorProto_extendee m) ''''),
     FieldDescriptorProto_defaultValue = Some (nullish (FieldDescriptorProto_defaultValue m) ''''),
     FieldDescriptorProto_oneofIndex = Some (nullish (FieldDescriptorProto_oneofIndex m) (NInt 0)),
     FieldDescriptorProto_jsonName = Some (nullish (FieldDescriptorProto_jsonName m) ''''),
     FieldDescriptorProto_options = map_option FieldOptions_norm (FieldDescriptorProto_options m),
     FieldDescriptorProto_proto3Optional = Some (nullish (FieldDescriptorProto_proto3Optional m) False)\<rparr>"

definition FieldDescriptorProto_merge :: "FieldDescriptorProto \<Rightarrow> FieldDescriptorProto \<Rightarrow> FieldDescriptorProto" where
  "FieldDescriptorProto_merge m0 m = m0\<lparr>
     FieldDescriptorProto_name := (if FieldDescriptorProto_name m = None \<or> FieldDescriptorProto_name m = Some '''' then FieldDescriptorProto_name m0 else FieldDescriptorProto_name m),
     FieldDescriptorProto_number := (if FieldDescriptorProto_number m = None \<or> FieldDescriptorProto_number m = Some (NInt 0) then FieldDescriptorProto_number m0 else FieldDescriptorProto_number m),
     FieldDescriptorProto_label := (if FieldDescriptorProto_label m = None \<or> FieldDescriptorProto_label m = Some (NInt 1) then FieldDescriptorProto_label m0 else FieldDescriptorProto_label m),
     FieldDescriptorProto_type := (if FieldDescriptorProto_type m = None \<or> FieldDescriptorProto_type m = Some (NInt 1) then FieldDescriptorProto_type m0 else FieldDescriptorProto_type m),
     FieldDescriptorProto_typeName := (if FieldDescriptorProto_typeName m = None \<or> FieldDescriptorProto_typeName m = Some '''' then FieldDescriptorProto_typeName m0 else FieldDescriptorProto_typeName m),
     FieldDescriptorProto_extendee := (if FieldDescriptorProto_extendee m = None \<or> FieldDescriptorProto_extendee m = Some '''' then FieldDescriptorProto_extendee m0 else FieldDescriptorProto_extendee m),
     FieldDescriptorProto_defaultValue := (if FieldDescriptorProto_defaultValue m = None \<or> FieldDescriptorProto_defaultValue m = Some '''' then FieldDescriptorProto_defaultValue m0 else FieldDescriptorProto_defaultValue m),
     FieldDescriptorProto_oneofIndex := (if FieldDescriptorProto_oneofIndex m = None \<or> FieldDescriptorProto_oneofIndex m = Some (NInt 0) then FieldDescriptorProto_oneofIndex m0 else FieldDescriptorProto_oneofIndex m),
     FieldDescriptorProto_jsonName := (if FieldDescriptorProto_jsonName m = None \<or> FieldDescriptorProto_jsonName m = Some '''' then FieldDescriptorProto_jsonName m0 else FieldDescriptorProto_jsonName m),
     FieldDescriptorProto_options := (case FieldDescriptorProto_options m of None \<Rightarrow> FieldDescriptorProto_options m0 | Some v \<Rightarrow> Some (FieldOptions_norm v)),
     FieldDescriptorProto_proto3Optional := (if FieldDescriptorProto_proto3Optional m = None \<or> FieldDescriptorProto_proto3Optional m = Some False then FieldDescriptorProto_proto3Optional m0 else FieldDescriptorProto_proto3Optional m)\<rparr>"

definition FieldDescriptorProto_jnorm :: "FieldDescriptorProto \<Rightarrow> FieldDescriptorProto" where
  "FieldDescriptorProto_jnorm m = \<lparr>
     FieldDescriptorProto_name = Some (nullish (FieldDescriptorProto_name m) ''''),
     FieldDescriptorProto_number = Some (js_round (nullish (FieldDescriptorProto_number m) (NInt 0))),
     FieldDescriptorProto_label = Some (enum_json (NInt 1) FieldDescriptorProto_Label_value fieldDescriptorProto_LabelFromJSON fieldDescriptorProto_LabelToJSON (FieldDescriptorProto_label m)),
     FieldDescriptorProto_type = Some (enum_json (NInt 1) FieldDescriptorProto_Type_value fieldDescriptorProto_TypeFromJSON fieldDescriptorProto_TypeToJSON (FieldDescriptorProto_type m)),
     FieldDescriptorProto_typeName = Some (nullish (FieldDescriptorProto_typeName m) ''''),
     FieldDescriptorProto_extendee = Some (nullish (FieldDescriptorProto_extendee m) ''''),
     FieldDescriptorProto_defaultValue = Some (nullish (FieldDescriptorProto_defaultValue m) ''''),
     FieldDescriptorProto_oneofIndex = Some (js_round (nullish (FieldDescriptorProto_oneofIndex m) (NInt 0))),
     FieldDescriptorProto_jsonName = Some (nullish (FieldDescriptorProto_jsonName m) ''''),
     FieldDescriptorProto_options = map_option FieldOptions_jnorm (FieldDescriptorProto_options m),
     FieldDescriptorProto_proto3Optional = Some (nullish (FieldDescriptorProto_proto3Optional m) False)\<rparr>"

definition OneofDescriptorProto_bytes :: "OneofDescriptorProto \<Rightarrow> bytes" where
  "OneofDescriptorProto_bytes m = concat [
     other_field 10 '''' str_payload (OneofDescriptorProto_name m),
     opt_msg_field 18 OneofOptions_bytes (OneofDescriptorProto_options m)]"

definition OneofDescriptorProto_fits :: "OneofDescriptorProto \<Rightarrow> bool" where
  "OneofDescriptorProto_fits m \<longleftrightarrow> length (OneofDescriptorProto_bytes m) < 2 ^ 32 \<and>
     pred_option OneofOptions_fits (OneofDescriptorProto_options m)"

definition OneofDescriptorProto_norm :: "OneofDescriptorProto \<Rightarrow> OneofDescriptorProto" where
  "OneofDescriptorProto_norm m = \<lparr>
     OneofDescriptorProto_name = Some (nullish (OneofDescriptorProto_name m) ''''),
     OneofDescriptorProto_options = map_option OneofOptions_norm (OneofDescriptorProto_options m)\<rparr>"

definition OneofDescriptorProto_merge :: "OneofDescriptorProto \<Rightarrow> OneofDescriptorProto \<Rightarrow> OneofDescriptorProto" where
  "OneofDescriptorProto_merge m0 m = m0\<lparr>
     OneofDescriptorProto_name := (if OneofDescriptorProto_name m = None \<or> OneofDescriptorProto_name m = Some '''' then OneofDescriptorProto_name m0 else OneofDescriptorProto_name m),
     OneofDescriptorProto_options := (case OneofDescriptorProto_options m of None \<Rightarrow> OneofDescriptorProto_options m0 | Some v \<Rightarrow> Some (OneofOptions_norm v))\<rparr>"

definition OneofDescriptorProto_jnorm :: "OneofDescriptorProto \<Rightarrow> OneofDescriptorProto" where
  "OneofDescriptorProto_jnorm m = \<lparr>
     OneofDescriptorProto_name = Some (nullish (OneofDescriptorProto_name m) ''''),
     OneofDescriptorProto_options = map_option OneofOptions_jnorm (OneofDescriptorProto_options m)\<rparr>"

definition EnumValueDescriptorProto_bytes :: "EnumValueDescriptorProto \<Rightarrow> bytes" where
  "EnumValueDescriptorProto_bytes m = concat [
     other_field 10 '''' str_payload (EnumValueDescriptorProto_name m),
     other_field 16 (NInt 0) int_payload (EnumValueDescriptorProto_number m),
     opt_msg_field 26 EnumValueOptions_bytes (EnumValueDescriptorProto_options m)]"

definition EnumValueDescriptorProto_fits :: "EnumValueDescriptorProto \<Rightarrow> bool" where
  "EnumValueDescriptorProto_fits m \<longleftrightarrow> length (EnumValueDescriptorProto_bytes m) < 2 ^ 32 \<and>
     pred_option int32_ok (EnumValueDescriptorProto_number m) \<and>
     pred_option EnumValueOptions_fits (EnumValueDescriptorProto_options m)"

definition EnumValueDescriptorProto_norm :: "EnumValueDescriptorProto \<Rightarrow> EnumValueDescriptorProto" where
  "EnumValueDescriptorProto_norm m = \<lparr>
     EnumValueDescriptorProto_name = Some (nullish (EnumValueDescriptorProto_name m) ''''),
     EnumValueDescriptorProto_number = Some (nullish (EnumValueDescriptorProto_number m) (NInt 0)),
     EnumValueDescriptorProto_options = map_option EnumValueOptions_norm (EnumValueDescriptorProto_options m)\<rparr>"

definition EnumValueDescriptorProto_merge :: "EnumValueDescriptorProto \<Rightarrow> EnumValueDescriptorProto \<Rightarrow> EnumValueDescriptorProto" where
  "EnumValueDescriptorProto_merge m0 m = m0\<lparr>
     EnumValueDescriptorProto_name := (if EnumValueDescriptorProto_name m = None \<or> EnumValueDescriptorProto_name m = Some '''' then EnumValueDescriptorProto_name m0 else EnumValueDescriptorProto_name m),
     EnumValueDescriptorProto_number := (if EnumValueDescriptorProto_number m = None \<or> EnumValueDescriptorProto_number m = Some (NInt 0) then EnumValueDescriptorProto_number m0 else EnumValueDescriptorProto_number m),
     EnumValueDescriptorProto_options := (case EnumValueDescriptorProto_options m of None \<Rightarrow> EnumValueDescriptorProto_options m0 | Some v \<Rightarrow> Some (EnumValueOptions_norm v))\<rparr>"

definition EnumValueDescriptorProto_jnorm :: "EnumValueDescriptorProto \<Rightarrow> EnumValueDescriptorProto" where
  "EnumValueDescriptorProto_jnorm m = \<lparr>
     EnumValueDescriptorProto_name = Some (nullish (EnumValueDescriptorProto_name m) ''''),
     EnumValueDescriptorProto_number = Some (js_round (nullish (EnumValueDescriptorProto_number m) (NInt 0))),
     EnumValueDescriptorProto_options = map_option EnumValueOptions_jnorm (EnumValueDescriptorProto_options m)\<rparr>"

definition EnumDescriptorProto_bytes :: "EnumDescriptorProto \<Rightarrow> bytes" where
  "EnumDescriptorProto_bytes m = concat [
     other_field 10 '''' str_payload (EnumDescriptorProto_name m),
     rep_msg_field 18 EnumValueDescriptorProto_bytes (EnumDescriptorProto_value m),
     opt_msg_field 26 EnumOptions_bytes (EnumDescriptorProto_options m),
     rep_msg_field 34 EnumDescriptorProto_EnumReservedRange_bytes (EnumDescriptorProto_reservedRange m),
     rep_str_field 42 (EnumDescriptorProto_reservedName m)]"

definition EnumDescriptorProto_fits :: "EnumDescriptorProto \<Rightarrow> bool" where
  "EnumDescriptorProto_fits m \<longleftrightarrow> length (EnumDescriptorProto_bytes m) < 2 ^ 32 \<and>
     list_all EnumValueDescriptorProto_fits (EnumDescriptorProto_value m) \<and>
     pred_option EnumOptions_fits (EnumDescriptorProto_options m) \<and>
     list_all EnumDescriptorProto_EnumReservedRange_fits (EnumDescriptorProto_reservedRange m)"

definition EnumDescriptorProto_norm :: "EnumDescriptorProto \<Rightarrow> EnumDescriptorProto" where
  "EnumDescriptorProto_norm m = \<lparr>
     EnumDescriptorProto_name = Some (nullish (EnumDescriptorProto_name m) ''''),
     EnumDescriptorProto_value = map EnumValueDescriptorProto_norm (EnumDescriptorProto_value m),
     EnumDescriptorProto_options = map_option EnumOptions_norm (EnumDescriptorProto_options m),
     EnumDescriptorProto_reservedRange = map EnumDescriptorProto_EnumReservedRange_norm (EnumDescriptorProto_reservedRange m),
     EnumDescriptorProto_reservedName = EnumDescriptorProto_reservedName m\<rparr>"

definition EnumDescriptorProto_merge :: "EnumDescriptorProto \<Rightarrow> EnumDescriptorProto \<Rightarrow> EnumDescriptorProto" where
  "EnumDescriptorProto_merge m0 m = m0\<lparr>
     EnumDescriptorProto_name := (if EnumDescriptorProto_name m = None \<or> EnumDescriptorProto_name m = Some '''' then EnumDescriptorProto_name m0 else EnumDescriptorProto_name m),
     EnumDescriptorProto_value := EnumDescriptorProto_value m0 @ map EnumValueDescriptorProto_norm (EnumDescriptorProto_value m),
     EnumDescriptorProto_options := (case EnumDescriptorProto_options m of None \<Rightarrow> EnumDescriptorProto_options m0 | Some v \<Rightarrow> Some (EnumOptions_norm v)),
     EnumDescriptorProto_reservedRange := EnumDescriptorProto_reservedRange m0 @ map EnumDescriptorProto_EnumReservedRange_norm (EnumDescriptorProto_reservedRange m),
     EnumDescriptorProto_reservedName := EnumDescriptorProto_reservedName m0 @ EnumDescriptorProto_reservedName m\<rparr>"

definition EnumDescriptorProto_jnorm :: "EnumDescriptorProto \<Rightarrow> EnumDescriptorProto" where
  "EnumDescriptorProto_jnorm m = \<lparr>
     EnumDescriptorProto_name = Some (nullish (EnumDescriptorProto_name m) ''''),
     EnumDescriptorProto_value = map EnumValueDescriptorProto_jnorm (EnumDescriptorProto_value m),
     EnumDescriptorProto_options = map_option EnumOptions_jnorm (EnumDescriptorProto_options m),
     EnumDescriptorProto_reservedRange = map EnumDescriptorProto_EnumReservedRange_jnorm (EnumDescriptorProto_reservedRange m),
     EnumDescriptorProto_reservedName = EnumDescriptorProto_reservedName m\<rparr>"

definition MethodDescriptorProto_bytes :: "MethodDescriptorProto \<Rightarrow> bytes" where
  "MethodDescriptorProto_bytes m = concat [
     other_field 10 '''' str_payload (MethodDescriptorProto_name m),
     other_field 18 '''' str_payload (MethodDescriptorProto_inputType m),
     other_field 26 '''' str_payload (MethodDescriptorProto_outputType m),
     opt_msg_field 34 MethodOptions_bytes (MethodDescriptorProto_options m),
     other_field 40 False bool_payload (MethodDescriptorProto_clientStreaming m),
     other_field 48 False bool_payload (MethodDescriptorProto_serverStreaming m)]"

definition MethodDescriptorProto_fits :: "MethodDescriptorProto \<Rightarrow> bool" where
  "MethodDescriptorProto_fits m \<longleftrightarrow> length (MethodDescriptorProto_bytes m) < 2 ^ 32 \<and>
     pred_option MethodOptions_fits (MethodDescriptorProto_options m)"

definition MethodDescriptorProto_norm :: "MethodDescriptorProto \<Rightarrow> MethodDescriptorProto" where
  "MethodDescriptorProto_norm m = \<lparr>
     MethodDescriptorProto_name = Some (nullish (MethodDescriptorProto_name m) ''''),
     MethodDescriptorProto_inputType = Some (nullish (MethodDescriptorProto_inputType m) ''''),
     MethodDescriptorProto_outputType = Some (nullish (MethodDescriptorProto_outputType m) ''''),
     MethodDescriptorProto_options = map_option MethodOptions_norm (MethodDescriptorProto_options m),
     MethodDescriptorProto_clientStreaming = Some (nullish (MethodDescriptorProto_clientStreaming m) False),
     MethodDescriptorProto_serverStreaming = Some (nullish (MethodDescriptorProto_serverStreaming m) False)\<rparr>"

definition MethodDescriptorProto_merge :: "MethodDescriptorProto \<Rightarrow> MethodDescriptorProto \<Rightarrow> MethodDescriptorProto" where
  "MethodDescriptorProto_merge m0 m = m0\<lparr>
     MethodDescriptorProto_name := (if MethodDescriptorProto_name m = None \<or> MethodDescriptorProto_name m = Some '''' then MethodDescriptorProto_name m0 else MethodDescriptorProto_name m),
     MethodDescriptorProto_inputType := (if MethodDescriptorProto_inputType m = None \<or> MethodDescriptorProto_inputType m = Some '''' then MethodDescriptorProto_inputType m0 else MethodDescriptorProto_inputType m),
     MethodDescriptorProto_outputType := (if MethodDescriptorProto_outputType m = None \<or> MethodDescriptorProto_outputType m = Some '''' then MethodDescriptorProto_outputType m0 else MethodDescriptorProto_outputType m),
     MethodDescriptorProto_options := (case MethodDescriptorProto_options m of None \<Rightarrow> MethodDescriptorProto_options m0 | Some v \<Rightarrow> Some (MethodOptions_norm v)),
     MethodDescriptorProto_clientStreaming := (if MethodDescriptorProto_clientStreaming m = None \<or> MethodDescriptorProto_clientStreaming m = Some False then MethodDescriptorProto_clientStreaming m0 else MethodDescriptorProto_clientStreaming m),
     MethodDescriptorProto_serverStreaming := (if MethodDescriptorProto_serverStreaming m = None \<or> MethodDescriptorProto_serverStreaming m = Some False then MethodDescriptorProto_serverStreaming m0 else MethodDescriptorProto_serverStreaming m)\<rparr>"

definition MethodDescriptorProto_jnorm :: "MethodDescriptorProto \<Rightarrow> MethodDescriptorProto" where
  "MethodDescriptorProto_jnorm m = \<lparr>
     MethodDescriptorProto_name = Some (nullish (MethodDescriptorProto_name m) ''''),
     MethodDescriptorProto_inputType = Some (nullish (MethodDescriptorProto_inputType m) ''''),
     MethodDescriptorProto_outputType = Some (nullish (MethodDescriptorProto_outputType m) ''''),
     MethodDescriptorProto_options = map_option MethodOptions_jnorm (MethodDescriptorProto_options m),
     MethodDescriptorProto_clientStreaming = Some (nullish (MethodDescriptorProto_clientStreaming m) False),
     MethodDescriptorProto_serverStreaming = Some (nullish (MethodDescriptorProto_serverStreaming m) False)\<rparr>"

definition ServiceDescriptorProto_bytes :: "ServiceDescriptorProto \<Rightarrow> bytes" where
  "ServiceDescriptorProto_bytes m = concat [
     other_field 10 '''' str_payload (ServiceDescriptorProto_name m),
     rep_msg_field 18 MethodDescriptorProto_bytes (ServiceDescriptorProto_method m),
     opt_msg_field 26 ServiceOptions_bytes (ServiceDescriptorProto_options m)]"

definition ServiceDescriptorProto_fits :: "ServiceDescriptorProto \<Rightarrow> bool" where
  "ServiceDescriptorProto_fits m \<longleftrightarrow> length (ServiceDescriptorProto_bytes m) < 2 ^ 32 \<and>
     list_all MethodDescriptorProto_fits (ServiceDescriptorProto_method m) \<and>
     pred_option ServiceOptions_fits (ServiceDescriptorProto_options m)"

definition ServiceDescriptorProto_norm :: "ServiceDescriptorProto \<Rightarrow> ServiceDescriptorProto" where
  "ServiceDescriptorProto_norm m = \<lparr>
     ServiceDescriptorProto_name = Some (nullish (ServiceDescriptorProto_name m) ''''),
     ServiceDescriptorProto_method = map MethodDescriptorProto_norm (ServiceDescriptorProto_method m),
     ServiceDescriptorProto_options = map_option ServiceOptions_norm (ServiceDescriptorProto_options m)\<rparr>"

definition ServiceDescriptorProto_merge :: "ServiceDescriptorProto \<Rightarrow> ServiceDescriptorProto \<Rightarrow> ServiceDescriptorProto" where
  "ServiceDescriptorProto_merge m0 m = m0\<lparr>
     ServiceDescriptorProto_name := (if ServiceDescriptorProto_name m = None \<or> ServiceDescriptorProto_name m = Some '''' then ServiceDescriptorProto_name m0 else ServiceDescriptorProto_name m),
     ServiceDescriptorProto_method := ServiceDescriptorProto_method m0 @ map MethodDescriptorProto_norm (ServiceDescriptorProto_method m),
     ServiceDescriptorProto_options := (case ServiceDescriptorProto_options m of None \<Rightarrow> ServiceDescriptorProto_options m0 | Some v \<Rightarrow> Some (ServiceOptions_norm v))\<rparr>"

definition ServiceDescriptorProto_jnorm :: "ServiceDescriptorProto \<Rightarrow> ServiceDescriptorProto" where
  "ServiceDescriptorProto_jnorm m = \<lparr>
     ServiceDescriptorProto_name = Some (nullish (ServiceDescriptorProto_name m) ''''),
     ServiceDescriptorProto_method = map MethodDescriptorProto_jnorm (ServiceDescriptorProto_method m),
     ServiceDescriptorProto_options = map_option ServiceOptions_jnorm (ServiceDescriptorProto_options m)\<rparr>"

definition DescriptorProto_ExtensionRange_bytes :: "DescriptorProto_ExtensionRange \<Rightarrow> bytes" where
  "DescriptorProto_ExtensionRange_bytes m = concat [
     other_field 8 (NInt 0) int_payload (DescriptorProto_ExtensionRange_start m),
     other_field 16 (NInt 0) int_payload (DescriptorProto_ExtensionRange_end m),
     opt_msg_field 26 ExtensionRangeOptions_bytes (DescriptorProto_ExtensionRange_options m)]"

definition DescriptorProto_ExtensionRange_fits :: "DescriptorProto_ExtensionRange \<Rightarrow> bool" where
  "DescriptorProto_ExtensionRange_fits m \<longleftrightarrow> length (DescriptorProto_ExtensionRange_bytes m) < 2 ^ 32 \<and>
     pred_option int32_ok (DescriptorProto_ExtensionRange_start m) \<and>
     pred_option int32_ok (DescriptorProto_ExtensionRange_end m) \<and>
     pred_option ExtensionRangeOptions_fits (DescriptorProto_ExtensionRange_options m)"

definition DescriptorProto_ExtensionRange_norm :: "DescriptorProto_ExtensionRange \<Rightarrow> DescriptorProto_ExtensionRange" where
  "DescriptorProto_ExtensionRange_norm m = \<lparr>
     DescriptorProto_ExtensionRange_start = Some (nullish (DescriptorProto_ExtensionRange_start m) (NInt 0)),
     DescriptorProto_ExtensionRange_end = Some (nullish (DescriptorProto_ExtensionRange_end m) (NInt 0)),
     DescriptorProto_ExtensionRange_options = map_option ExtensionRangeOptions_norm (DescriptorProto_ExtensionRange_options m)\<rparr>"

definition DescriptorProto_ExtensionRange_merge :: "DescriptorProto_ExtensionRange \<Rightarrow> DescriptorProto_ExtensionRange \<Rightarrow> DescriptorProto_ExtensionRange" where
  "DescriptorProto_ExtensionRange_merge m0 m = m0\<lparr>
     DescriptorProto_ExtensionRange_start := (if DescriptorProto_ExtensionRange_start m = None \<or> DescriptorProto_ExtensionRange_start m = Some (NInt 0) then DescriptorProto_ExtensionRange_start m0 else DescriptorProto_ExtensionRange_start m),
     DescriptorProto_ExtensionRange_end := (if DescriptorProto_ExtensionRange_end m = None \<or> DescriptorProto_ExtensionRange_end m = Some (NInt 0) then DescriptorProto_ExtensionRange_end m0 else DescriptorProto_ExtensionRange_end m),
     DescriptorProto_ExtensionRange_options := (case DescriptorProto_ExtensionRange_options m of None \<Rightarrow> DescriptorProto_ExtensionRange_options m0 | Some v \<Rightarrow> Some (ExtensionRangeOptions_norm v))\<rparr>"

definition DescriptorProto_ExtensionRange_jnorm :: "DescriptorProto_ExtensionRange \<Rightarrow> DescriptorProto_ExtensionRange" where
  "DescriptorProto_ExtensionRange_jnorm m = \<lparr>
     DescriptorProto_ExtensionRange_start = Some (js_round (nullish (DescriptorProto_ExtensionRange_start m) (NInt 0))),
     DescriptorProto_ExtensionRange_end = Some (js_round (nullish (DescriptorProto_ExtensionRange_end m) (NInt 0))),
     DescriptorProto_ExtensionRange_options = map_option ExtensionRangeOptions_jnorm (DescriptorProto_ExtensionRange_options m)\<rparr>"

section \<open>The codecs implement the wire form\<close>

context wire_laws
begin

lemma FieldDescriptorProto_length:
  assumes "FieldDescriptorProto_fits m"
  shows "length (other_field 10 '''' str_payload (FieldDescriptorProto_name m)) < 2 ^ 32"
    and "length (other_field 50 '''' str_payload (FieldDescriptorProto_typeName m)) < 2 ^ 32"
    and "length (other_field 18 '''' str_payload (FieldDescriptorProto_extendee m)) < 2 ^ 32"
    and "length (other_field 58 '''' str_payload (FieldDescriptorProto_defaultValue m)) < 2 ^ 32"
    and "length (other_field 82 '''' str_payload (FieldDescriptorProto_jsonName m)) < 2 ^ 32"
    and "length (opt_msg_field 66 FieldOptions_bytes (FieldDescriptorProto_options m)) < 2 ^ 32"
  using assms by (simp_all add: FieldDescriptorProto_fits_def FieldDescriptorProto_bytes_def)

lemma FieldDescriptorProto_numbers:
  assumes "FieldDescriptorProto_fits m"
  shows "pred_option int32_ok (FieldDescriptorProto_number m)"
    and "pred_option int32_ok (FieldDescriptorProto_label m)"
    and "pred_option int32_ok (FieldDescriptorProto_type m)"
    and "pred_option int32_ok (FieldDescriptorProto_oneofIndex m)"
  using assms by (simp_all add: FieldDescriptorProto_fits_def)

lemma FieldDescriptorProto_options_fits:
  assumes "FieldDescriptorProto_fits m" and "FieldDescriptorProto_options m = Some v"
  shows "FieldOptions_fits v"
  using assms by (simp add: FieldDescriptorProto_fits_def list_all_iff)

lemma FieldDescriptorProto_writes:
  assumes "FieldDescriptorProto_fits m"
  shows "appends buf (FieldDescriptorProto_encode W m) (FieldDescriptorProto_bytes m)"
  unfolding FieldDescriptorProto_encode_def FieldDescriptorProto_bytes_def concat.simps
  by (rule appends_run_Cons appends_run_Nil enc_other_str enc_other_int FieldOptions.enc_opt_sub enc_other_bool
        FieldDescriptorProto_length [OF assms] FieldDescriptorProto_numbers [OF assms]
      | erule FieldDescriptorProto_options_fits [OF assms])+

lemma FieldDescriptorProto_reads:
  shows "switch_reads (FieldDescriptorProto_switch W) 10 (rString W) (store_some FieldDescriptorProto_name_update)"
    and "switch_reads (FieldDescriptorProto_switch W) 24 (rInt32 W) (store_some FieldDescriptorProto_number_update)"
    and "switch_reads (FieldDescriptorProto_switch W) 32 (rInt32 W) (store_some FieldDescriptorProto_label_update)"
    and "switch_reads (FieldDescriptorProto_switch W) 40 (rInt32 W) (store_some FieldDescriptorProto_type_update)"
    and "switch_reads (FieldDescriptorProto_switch W) 50 (rString W) (store_some FieldDescriptorProto_typeName_update)"
    and "switch_reads (FieldDescriptorProto_switch W) 18 (rString W) (store_some FieldDescriptorProto_extendee_update)"
    and "switch_reads (FieldDescriptorProto_switch W) 58 (rString W) (store_some FieldDescriptorProto_defaultValue_update)"
    and "switch_reads (FieldDescriptorProto_switch W) 72 (rInt32 W) (store_some FieldDescriptorProto_oneofIndex_update)"
    and "switch_reads (FieldDescriptorProto_switch W) 82 (rString W) (store_some FieldDescriptorProto_jsonName_update)"
    and "switch_reads (FieldDescriptorProto_switch W) 66 (read_message W (FieldOptions_decode W)) (store_some FieldDescriptorProto_options_update)"
    and "switch_reads (FieldDescriptorProto_switch W) 136 (rBool W) (store_some FieldDescriptorProto_proto3Optional_update)"
  by (auto simp: switch_reads_def switch_packs_def FieldDescriptorProto_switch_def)

lemma FieldDescriptorProto_good: "good_switch W valid k (FieldDescriptorProto_switch W)"
  unfolding good_switch_def FieldDescriptorProto_switch_def FieldOptions_decode_def
  by (auto intro!: good_step_case_read good_step_case_packed rString_safe rBool_safe rInt32_safe wide_safe safe_read_message [OF FieldOptions.dec_safe])

lemma FieldDescriptorProto_runs:
  assumes "FieldDescriptorProto_fits m"
  shows "runs W valid rest k (FieldDescriptorProto_switch W) (FieldDescriptorProto_bytes m) (\<lambda>m0. FieldDescriptorProto_merge m0 m)"
  unfolding FieldDescriptorProto_bytes_def concat.simps
  by (rule runs_cong,
      (rule runs_append runs_Nil read_other_str read_other_int FieldOptions.read_opt_sub read_other_bool
         FieldDescriptorProto_reads [unfolded FieldOptions_decode_def]
         FieldDescriptorProto_length [OF assms] FieldDescriptorProto_numbers [OF assms]
      | erule FieldDescriptorProto_options_fits [OF assms]
       | assumption | simp; fail)+,
      simp add: FieldDescriptorProto_merge_def)

end

sublocale wire_laws \<subseteq> FieldDescriptorProto: switch_codec W buf valid rest "FieldDescriptorProto_encode W" "FieldDescriptorProto_switch W"
    createBaseFieldDescriptorProto FieldDescriptorProto_bytes FieldDescriptorProto_fits FieldDescriptorProto_norm FieldDescriptorProto_merge
proof unfold_locales
  show "FieldDescriptorProto_merge createBaseFieldDescriptorProto m = FieldDescriptorProto_norm m" for m
    by (simp add: FieldDescriptorProto_merge_def FieldDescriptorProto_norm_def createBaseFieldDescriptorProto_def merge_default
          cong: if_cong option.case_cong split del: if_split)
qed (simp_all add: FieldDescriptorProto_writes FieldDescriptorProto_good FieldDescriptorProto_runs, simp add: FieldDescriptorProto_fits_def)

context wire_laws
begin

lemma OneofDescriptorProto_length:
  assumes "OneofDescriptorProto_fits m"
  shows "length (other_field 10 '''' str_payload (OneofDescriptorProto_name m)) < 2 ^ 32"
    and "length (opt_msg_field 18 OneofOptions_bytes (OneofDescriptorProto_options m)) < 2 ^ 32"
  using assms by (simp_all add: OneofDescriptorProto_fits_def OneofDescriptorProto_bytes_def)

lemma OneofDescriptorProto_options_fits:
  assumes "OneofDescriptorProto_fits m" and "OneofDescriptorProto_options m = Some v"
  shows "OneofOptions_fits v"
  using assms by (simp add: OneofDescriptorProto_fits_def list_all_iff)

lemma OneofDescriptorProto_writes:
  assumes "OneofDescriptorProto_fits m"
  shows "appends buf (OneofDescriptorProto_encode W m) (OneofDescriptorProto_bytes m)"
  unfolding OneofDescriptorProto_encode_def OneofDescriptorProto_bytes_def concat.simps
  by (rule appends_run_Cons appends_run_Nil enc_other_str OneofOptions.enc_opt_sub
        OneofDescriptorProto_length [OF assms]
      | erule OneofDescriptorProto_options_fits [OF assms])+

lemma OneofDescriptorProto_reads:
  shows "switch_reads (OneofDescriptorProto_switch W) 10 (rString W) (store_some OneofDescriptorProto_name_update)"
    and "switch_reads (OneofDescriptorProto_switch W) 18 (read_message W (OneofOptions_decode W)) (store_some OneofDescriptorProto_options_update)"
  by (auto simp: switch_reads_def switch_packs_def OneofDescriptorProto_switch_def)

lemma OneofDescriptorProto_good: "good_switch W valid k (OneofDescriptorProto_switch W)"
  unfolding good_switch_def OneofDescriptorProto_switch_def OneofOptions_decode_def
  by (auto intro!: good_step_case_read good_step_case_packed rString_safe rBool_safe rInt32_safe wide_safe safe_read_message [OF OneofOptions.dec_safe])

lemma OneofDescriptorProto_runs:
  assumes "OneofDescriptorProto_fits m"
  shows "runs W valid rest k (OneofDescriptorProto_switch W) (OneofDescriptorProto_bytes m) (\<lambda>m0. OneofDescriptorProto_merge m0 m)"
  unfolding OneofDescriptorProto_bytes_def concat.simps
  by (rule runs_cong,
      (rule runs_append runs_Nil read_other_str OneofOptions.read_opt_sub
         OneofDescriptorProto_reads [unfolded OneofOptions_decode_def]
         OneofDescriptorProto_length [OF assms]
      | erule OneofDescriptorProto_options_fits [OF assms]
       | assumption | simp; fail)+,
      simp add: OneofDescriptorProto_merge_def)

end

sublocale wire_laws \<subseteq> OneofDescriptorProto: switch_codec W buf valid rest "OneofDescriptorProto_encode W" "OneofDescriptorProto_switch W"
    createBaseOneofDescriptorProto OneofDescriptorProto_bytes OneofDescriptorProto_fits OneofDescriptorProto_norm OneofDescriptorProto_merge
proof unfold_locales
  show "OneofDescriptorProto_merge createBaseOneofDescriptorProto m = OneofDescriptorProto_norm m" for m
    by (simp add: OneofDescriptorProto_merge_def OneofDescriptorProto_norm_def createBaseOneofDescriptorProto_def merge_default
          cong: if_cong option.case_cong split del: if_split)
qed (simp_all add: OneofDescriptorProto_writes OneofDescriptorProto_good OneofDescriptorProto_runs, simp add: OneofDescriptorProto_fits_def)

context wire_laws
begin

lemma EnumValueDescriptorProto_length:
  assumes "EnumValueDescriptorProto_fits m"
  shows "length (other_field 10 '''' str_payload (EnumValueDescriptorProto_name m)) < 2 ^ 32"
    and "length (opt_msg_field 26 EnumValueOptions_bytes (EnumValueDescriptorProto_options m)) < 2 ^ 32"
  using assms by (simp_all add: EnumValueDescriptorProto_fits_def EnumValueDescriptorProto_bytes_def)

lemma EnumValueDescriptorProto_numbers:
  assumes "EnumValueDescriptorProto_fits m"
  shows "pred_option int32_ok (EnumValueDescriptorProto_number m)"
  using assms by (simp_all add: EnumValueDescriptorProto_fits_def)

lemma EnumValueDescriptorProto_options_fits:
  assumes "EnumValueDescriptorProto_fits m" and "EnumValueDescriptorProto_options m = Some v"
  shows "EnumValueOptions_fits v"
  using assms by (simp add: EnumValueDescriptorProto_fits_def list_all_iff)

lemma EnumValueDescriptorProto_writes:
  assumes "EnumValueDescriptorProto_fits m"
  shows "appends buf (EnumValueDescriptorProto_encode W m) (EnumValueDescriptorProto_bytes m)"
  unfolding EnumValueDescriptorProto_encode_def EnumValueDescriptorProto_bytes_def concat.simps
  by (rule appends_run_Cons appends_run_Nil enc_other_str enc_other_int EnumValueOptions.enc_opt_sub
        EnumValueDescriptorProto_length [OF assms] EnumValueDescriptorProto_numbers [OF assms]
      | erule EnumValueDescriptorProto_options_fits [OF assms])+

lemma EnumValueDescriptorProto_reads:
  shows "switch_reads (EnumValueDescriptorProto_switch W) 10 (rString W) (store_some EnumValueDescriptorProto_name_update)"
    and "switch_reads (EnumValueDescriptorProto_switch W) 16 (rInt32 W) (store_some EnumValueDescriptorProto_number_update)"
    and "switch_reads (EnumValueDescriptorProto_switch W) 26 (read_message W (EnumValueOptions_decode W)) (store_some EnumValueDescriptorProto_options_update)"
  by (auto simp: switch_reads_def switch_packs_def EnumValueDescriptorProto_switch_def)

lemma EnumValueDescriptorProto_good: "good_switch W valid k (EnumValueDescriptorProto_switch W)"
  unfolding good_switch_def EnumValueDescriptorProto_switch_def EnumValueOptions_decode_def
  by (auto intro!: good_step_case_read good_step_case_packed rString_safe rBool_safe rInt32_safe wide_safe safe_read_message [OF EnumValueOptions.dec_safe])

lemma EnumValueDescriptorProto_runs:
  assumes "EnumValueDescriptorProto_fits m"
  shows "runs W valid rest k (EnumValueDescriptorProto_switch W) (EnumValueDescriptorProto_bytes m) (\<lambda>m0. EnumValueDescriptorProto_merge m0 m)"
  unfolding EnumValueDescriptorProto_bytes_def concat.simps
  by (rule runs_cong,
      (rule runs_append runs_Nil read_other_str read_other_int EnumValueOptions.read_opt_sub
         EnumValueDescriptorProto_reads [unfolded EnumValueOptions_decode_def]
         EnumValueDescriptorProto_length [OF assms] EnumValueDescriptorProto_numbers [OF assms]
      | erule EnumValueDescriptorProto_options_fits [OF assms]
       | assumption | simp; fail)+,
      simp add: EnumValueDescriptorProto_merge_def)

end

sublocale wire_laws \<subseteq> EnumValueDescriptorProto: switch_codec W buf valid rest "EnumValueDescriptorProto_encode W" "EnumValueDescriptorProto_switch W"
    createBaseEnumValueDescriptorProto EnumValueDescriptorProto_bytes EnumValueDescriptorProto_fits EnumValueDescriptorProto_norm EnumValueDescriptorProto_merge
proof unfold_locales
  show "EnumValueDescriptorProto_merge createBaseEnumValueDescriptorProto m = EnumValueDescriptorProto_norm m" for m
    by (simp add: EnumValueDescriptorProto_merge_def EnumValueDescriptorProto_norm_def createBaseEnumValueDescriptorProto_def merge_default
          cong: if_cong option.case_cong split del: if_split)
qed (simp_all add: EnumValueDescriptorProto_writes EnumValueDescriptorProto_good EnumValueDescriptorProto_runs, simp add: EnumValueDescriptorProto_fits_def)

context wire_laws
begin

lemma EnumDescriptorProto_length:
  assumes "EnumDescriptorProto_fits m"
  shows "length (other_field 10 '''' str_payload (EnumDescriptorProto_name m)) < 2 ^ 32"
    and "length (rep_msg_field 18 EnumValueDescriptorProto_bytes (EnumDescriptorProto_value m)) < 2 ^ 32"
    and "length (opt_msg_field 26 EnumOptions_bytes (EnumDescriptorProto_options m)) < 2 ^ 32"
    and "length (rep_msg_field 34 EnumDescriptorProto_EnumReservedRange_bytes (EnumDescriptorProto_reservedRange m)) < 2 ^ 32"
    and "length (rep_str_field 42 (EnumDescriptorProto_reservedName m)) < 2 ^ 32"
  using assms by (simp_all add: EnumDescriptorProto_fits_def EnumDescriptorProto_bytes_def)

lemma EnumDescriptorProto_value_fits:
  assumes "EnumDescriptorProto_fits m" and "v \<in> set (EnumDescriptorProto_value m)"
  shows "EnumValueDescriptorProto_fits v"
  using assms by (simp add: EnumDescriptorProto_fits_def list_all_iff)

lemma EnumDescriptorProto_options_fits:
  assumes "EnumDescriptorProto_fits m" and "EnumDescriptorProto_options m = Some v"
  shows "EnumOptions_fits v"
  using assms by (simp add: EnumDescriptorProto_fits_def list_all_iff)

lemma EnumDescriptorProto_reservedRange_fits:
  assumes "EnumDescriptorProto_fits m" and "v \<in> set (EnumDescriptorProto_reservedRange m)"
  shows "EnumDescriptorProto_EnumReservedRange_fits v"
  using assms by (simp add: EnumDescriptorProto_fits_def list_all_iff)

lemma EnumDescriptorProto_writes:
  assumes "EnumDescriptorProto_fits m"
  shows "appends buf (EnumDescriptorProto_encode W m) (EnumDescriptorProto_bytes m)"
  unfolding EnumDescriptorProto_encode_def EnumDescriptorProto_bytes_def concat.simps
  by (rule appends_run_Cons appends_run_Nil enc_other_str EnumValueDescriptorProto.enc_rep_sub EnumOptions.enc_opt_sub EnumDescriptorProto_EnumReservedRange.enc_rep_sub enc_rep_str
        EnumDescriptorProto_length [OF assms]
      | erule EnumDescriptorProto_value_fits [OF assms] EnumDescriptorProto_options_fits [OF assms] EnumDescriptorProto_reservedRange_fits [OF assms])+

lemma EnumDescriptorProto_reads:
  shows "switch_reads (EnumDescriptorProto_switch W) 10 (rString W) (store_some EnumDescriptorProto_name_update)"
    and "switch_reads (EnumDescriptorProto_switch W) 18 (read_message W (EnumValueDescriptorProto_decode W)) (push EnumDescriptorProto_value_update)"
    and "switch_reads (EnumDescriptorProto_switch W) 26 (read_message W (EnumOptions_decode W)) (store_some EnumDescriptorProto_options_update)"
    and "switch_reads (EnumDescriptorProto_switch W) 34 (read_message W (EnumDescriptorProto_EnumReservedRange_decode W)) (push EnumDescriptorProto_reservedRange_update)"
    and "switch_reads (EnumDescriptorProto_switch W) 42 (rString W) (push EnumDescriptorProto_reservedName_update)"
  by (auto simp: switch_reads_def switch_packs_def EnumDescriptorProto_switch_def)

lemma EnumDescriptorProto_good: "good_switch W valid k (EnumDescriptorProto_switch W)"
  unfolding good_switch_def EnumDescriptorProto_switch_def EnumDescriptorProto_EnumReservedRange_decode_def EnumOptions_decode_def EnumValueDescriptorProto_decode_def
  by (auto intro!: good_step_case_read good_step_case_packed rString_safe rBool_safe rInt32_safe wide_safe safe_read_message [OF EnumDescriptorProto_EnumReservedRange.dec_safe] safe_read_message [OF EnumOptions.dec_safe] safe_read_message [OF EnumValueDescriptorProto.dec_safe])

lemma EnumDescriptorProto_runs:
  assumes "EnumDescriptorProto_fits m"
  shows "runs W valid rest k (EnumDescriptorProto_switch W) (EnumDescriptorProto_bytes m) (\<lambda>m0. EnumDescriptorProto_merge m0 m)"
  unfolding EnumDescriptorProto_bytes_def concat.simps
  by (rule runs_cong,
      (rule runs_append runs_Nil read_other_str EnumValueDescriptorProto.read_rep_sub EnumOptions.read_opt_sub EnumDescriptorProto_EnumReservedRange.read_rep_sub read_rep_str
         EnumDescriptorProto_reads [unfolded EnumDescriptorProto_EnumReservedRange_decode_def EnumOptions_decode_def EnumValueDescriptorProto_decode_def]
         EnumDescriptorProto_length [OF assms]
      | erule EnumDescriptorProto_value_fits [OF assms] EnumDescriptorProto_options_fits [OF assms] EnumDescriptorProto_reservedRange_fits [OF assms]
       | assumption | simp; fail)+,
      simp add: EnumDescriptorProto_merge_def)

end

sublocale wire_laws \<subseteq> EnumDescriptorProto: switch_codec W buf valid rest "EnumDescriptorProto_encode W" "EnumDescriptorProto_switch W"
    createBaseEnumDescriptorProto EnumDescriptorProto_bytes EnumDescriptorProto_fits EnumDescriptorProto_norm EnumDescriptorProto_merge
proof unfold_locales
  show "EnumDescriptorProto_merge createBaseEnumDescriptorProto m = EnumDescriptorProto_norm m" for m
    by (simp add: EnumDescriptorProto_merge_def EnumDescriptorProto_norm_def createBaseEnumDescriptorProto_def merge_default
          cong: if_cong option.case_cong split del: if_split)
qed (simp_all add: EnumDescriptorProto_writes EnumDescriptorProto_good EnumDescriptorProto_runs, simp add: EnumDescriptorProto_fits_def)

context wire_laws
begin

lemma MethodDescriptorProto_length:
  assumes "MethodDescriptorProto_fits m"
  shows "length (other_field 10 '''' str_payload (MethodDescriptorProto_name m)) < 2 ^ 32"
    and "length (other_field 18 '''' str_payload (MethodDescriptorProto_inputType m)) < 2 ^ 32"
    and "length (other_field 26 '''' str_payload (MethodDescriptorProto_outputType m)) < 2 ^ 32"
    and "length (opt_msg_field 34 MethodOptions_bytes (MethodDescriptorProto_options m)) < 2 ^ 32"
  using assms by (simp_all add: MethodDescriptorProto_fits_def MethodDescriptorProto_bytes_def)

lemma MethodDescriptorProto_options_fits:
  assumes "MethodDescriptorProto_fits m" and "MethodDescriptorProto_options m = Some v"
  shows "MethodOptions_fits v"
  using assms by (simp add: MethodDescriptorProto_fits_def list_all_iff)

lemma MethodDescriptorProto_writes:
  assumes "MethodDescriptorProto_fits m"
  shows "appends buf (MethodDescriptorProto_encode W m) (MethodDescriptorProto_bytes m)"
  unfolding MethodDescriptorProto_encode_def MethodDescriptorProto_bytes_def concat.simps
  by (rule appends_run_Cons appends_run_Nil enc_other_str MethodOptions.enc_opt_sub enc_other_bool
        MethodDescriptorProto_length [OF assms]
      | erule MethodDescriptorProto_options_fits [OF assms])+

lemma MethodDescriptorProto_reads:
  shows "switch_reads (MethodDescriptorProto_switch W) 10 (rString W) (store_some MethodDescriptorProto_name_update)"
    and "switch_reads (MethodDescriptorProto_switch W) 18 (rString W) (store_some MethodDescriptorProto_inputType_update)"
    and "switch_reads (MethodDescriptorProto_switch W) 26 (rString W) (store_some MethodDescriptorProto_outputType_update)"
    and "switch_reads (MethodDescriptorProto_switch W) 34 (read_message W (MethodOptions_decode W)) (store_some MethodDescriptorProto_options_update)"
    and "switch_reads (MethodDescriptorProto_switch W) 40 (rBool W) (store_some MethodDescriptorProto_clientStreaming_update)"
    and "switch_reads (MethodDescriptorProto_switch W) 48 (rBool W) (store_some MethodDescriptorProto_serverStreaming_update)"
  by (auto simp: switch_reads_def switch_packs_def MethodDescriptorProto_switch_def)

lemma MethodDescriptorProto_good: "good_switch W valid k (MethodDescriptorProto_switch W)"
  unfolding good_switch_def MethodDescriptorProto_switch_def MethodOptions_decode_def
  by (auto intro!: good_step_case_read good_step_case_packed rString_safe rBool_safe rInt32_safe wide_safe safe_read_message [OF MethodOptions.dec_safe])

lemma MethodDescriptorProto_runs:
  assumes "MethodDescriptorProto_fits m"
  shows "runs W valid rest k (MethodDescriptorProto_switch W) (MethodDescriptorProto_bytes m) (\<lambda>m0. MethodDescriptorProto_merge m0 m)"
  unfolding MethodDescriptorProto_bytes_def concat.simps
  by (rule runs_cong,
      (rule runs_append runs_Nil read_other_str MethodOptions.read_opt_sub read_other_bool
         MethodDescriptorProto_reads [unfolded MethodOptions_decode_def]
         MethodDescriptorProto_length [OF assms]
      | erule MethodDescriptorProto_options_fits [OF assms]
       | assumption | simp; fail)+,
      simp add: MethodDescriptorProto_merge_def)

end

sublocale wire_laws \<subseteq> MethodDescriptorProto: switch_codec W buf valid rest "MethodDescriptorProto_encode W" "MethodDescriptorProto_switch W"
    createBaseMethodDescriptorProto MethodDescriptorProto_bytes MethodDescriptorProto_fits MethodDescriptorProto_norm MethodDescriptorProto_merge
proof unfold_locales
  show "MethodDescriptorProto_merge createBaseMethodDescriptorProto m = MethodDescriptorProto_norm m" for m
    by (simp add: MethodDescriptorProto_merge_def MethodDescriptorProto_norm_def createBaseMethodDescriptorProto_def merge_default
          cong: if_cong option.case_cong split del: if_split)
qed (simp_all add: MethodDescriptorProto_writes MethodDescriptorProto_good MethodDescriptorProto_runs, simp add: MethodDescriptorProto_fits_def)

context wire_laws
begin

lemma ServiceDescriptorProto_length:
  assumes "ServiceDescriptorProto_fits m"
  shows "length (other_field 10 '''' str_payload (ServiceDescriptorProto_name m)) < 2 ^ 32"
    and "length (rep_msg_field 18 MethodDescriptorProto_bytes (ServiceDescriptorProto_method m)) < 2 ^ 32"
    and "length (opt_msg_field 26 ServiceOptions_bytes (ServiceDescriptorProto_options m)) < 2 ^ 32"
  using assms by (simp_all add: ServiceDescriptorProto_fits_def ServiceDescriptorProto_bytes_def)

lemma ServiceDescriptorProto_method_fits:
  assumes "ServiceDescriptorProto_fits m" and "v \<in> set (ServiceDescriptorProto_method m)"
  shows "MethodDescriptorProto_fits v"
  using assms by (simp add: ServiceDescriptorProto_fits_def list_all_iff)

lemma ServiceDescriptorProto_options_fits:
  assumes "ServiceDescriptorProto_fits m" and "ServiceDescriptorProto_options m = Some v"
  shows "ServiceOptions_fits v"
  using assms by (simp add: ServiceDescriptorProto_fits_def list_all_iff)

lemma ServiceDescriptorProto_writes:
  assumes "ServiceDescriptorProto_fits m"
  shows "appends buf (ServiceDescriptorProto_encode W m) (ServiceDescriptorProto_bytes m)"
  unfolding ServiceDescriptorProto_encode_def ServiceDescriptorProto_bytes_def concat.simps
  by (rule appends_run_Cons appends_run_Nil enc_other_str MethodDescriptorProto.enc_rep_sub ServiceOptions.enc_opt_sub
        ServiceDescriptorProto_length [OF assms]
      | erule ServiceDescriptorProto_method_fits [OF assms] ServiceDescriptorProto_options_fits [OF assms])+

lemma ServiceDescriptorProto_reads:
  shows "switch_reads (ServiceDescriptorProto_switch W) 10 (rString W) (store_some ServiceDescriptorProto_name_update)"
    and "switch_reads (ServiceDescriptorProto_switch W) 18 (read_message W (MethodDescriptorProto_decode W)) (push ServiceDescriptorProto_method_update)"
    and "switch_reads (ServiceDescriptorProto_switch W) 26 (read_message W (ServiceOptions_decode W)) (store_some ServiceDescriptorProto_options_update)"
  by (auto simp: switch_reads_def switch_packs_def ServiceDescriptorProto_switch_def)

lemma ServiceDescriptorProto_good: "good_switch W valid k (ServiceDescriptorProto_switch W)"
  unfolding good_switch_def ServiceDescriptorProto_switch_def ServiceOptions_decode_def MethodDescriptorProto_decode_def
  by (auto intro!: good_step_case_read good_step_case_packed rString_safe rBool_safe rInt32_safe wide_safe safe_read_message [OF ServiceOptions.dec_safe] safe_read_message [OF MethodDescriptorProto.dec_safe])

lemma ServiceDescriptorProto_runs:
  assumes "ServiceDescriptorProto_fits m"
  shows "runs W valid rest k (ServiceDescriptorProto_switch W) (ServiceDescriptorProto_bytes m) (\<lambda>m0. ServiceDescriptorProto_merge m0 m)"
  unfolding ServiceDescriptorProto_bytes_def concat.simps
  by (rule runs_cong,
      (rule runs_append runs_Nil read_other_str MethodDescriptorProto.read_rep_sub ServiceOptions.read_opt_sub
         ServiceDescriptorProto_reads [unfolded ServiceOptions_decode_def MethodDescriptorProto_decode_def]
         ServiceDescriptorProto_length [OF assms]
      | erule ServiceDescriptorProto_method_fits [OF assms] ServiceDescriptorProto_options_fits [OF assms]
       | assumption | simp; fail)+,
      simp add: ServiceDescriptorProto_merge_def)

end

sublocale wire_laws \<subseteq> ServiceDescriptorProto: switch_codec W buf valid rest "ServiceDescriptorProto_encode W" "ServiceDescriptorProto_switch W"
    createBaseServiceDescriptorProto ServiceDescriptorProto_bytes ServiceDescriptorProto_fits ServiceDescriptorProto_norm ServiceDescriptorProto_merge
proof unfold_locales
  show "ServiceDescriptorProto_merge createBaseServiceDescriptorProto m = ServiceDescriptorProto_norm m" for m
    by (simp add: ServiceDescriptorProto_merge_def ServiceDescriptorProto_norm_def createBaseServiceDescriptorProto_def merge_default
          cong: if_cong option.case_cong split del: if_split)
qed (simp_all add: ServiceDescriptorProto_writes ServiceDescriptorProto_good ServiceDescriptorProto_runs, simp add: ServiceDescriptorProto_fits_def)

context wire_laws
begin

lemma DescriptorProto_ExtensionRange_length:
  assumes "DescriptorProto_ExtensionRange_fits m"
  shows "length (opt_msg_field 26 ExtensionRangeOptions_bytes (DescriptorProto_ExtensionRange_options m)) < 2 ^ 32"
  using assms by (simp_all add: DescriptorProto_ExtensionRange_fits_def DescriptorProto_ExtensionRange_bytes_def)

lemma DescriptorProto_ExtensionRange_numbers:
  assumes "DescriptorProto_ExtensionRange_fits m"
  shows "pred_option int32_ok (DescriptorProto_ExtensionRange_start m)"
    and "pred_option int32_ok (DescriptorProto_ExtensionRange_end m)"
  using assms by (simp_all add: DescriptorProto_ExtensionRange_fits_def)

lemma DescriptorProto_ExtensionRange_options_fits:
  assumes "DescriptorProto_ExtensionRange_fits m" and "DescriptorProto_ExtensionRange_options m = Some v"
  shows "ExtensionRangeOptions_fits v"
  using assms by (simp add: DescriptorProto_ExtensionRange_fits_def list_all_iff)

lemma DescriptorProto_ExtensionRange_writes:
  assumes "DescriptorProto_ExtensionRange_fits m"
  shows "appends buf (DescriptorProto_ExtensionRange_encode W m) (DescriptorProto_ExtensionRange_bytes m)"
  unfolding DescriptorProto_ExtensionRange_encode_def DescriptorProto_ExtensionRange_bytes_def concat.simps
  by (rule appends_run_Cons appends_run_Nil enc_other_int ExtensionRangeOptions.enc_opt_sub
        DescriptorProto_ExtensionRange_length [OF assms] DescriptorProto_ExtensionRange_numbers [OF assms]
      | erule DescriptorProto_ExtensionRange_options_fits [OF assms])+

lemma DescriptorProto_ExtensionRange_reads:
  shows "switch_reads (DescriptorProto_ExtensionRange_switch W) 8 (rInt32 W) (store_some DescriptorProto_ExtensionRange_start_update)"
    and "switch_reads (DescriptorProto_ExtensionRange_switch W) 16 (rInt32 W) (store_some DescriptorProto_ExtensionRange_end_update)"
    and "switch_reads (DescriptorProto_ExtensionRange_switch W) 26 (read_message W (ExtensionRangeOptions_decode W)) (store_some DescriptorProto_ExtensionRange_options_update)"
  by (auto simp: switch_reads_def switch_packs_def DescriptorProto_ExtensionRange_switch_def)

lemma DescriptorProto_ExtensionRange_good: "good_switch W valid k (DescriptorProto_ExtensionRange_switch W)"
  unfolding good_switch_def DescriptorProto_ExtensionRange_switch_def ExtensionRangeOptions_decode_def
  by (auto intro!: good_step_case_read good_step_case_packed rString_safe rBool_safe rInt32_safe wide_safe safe_read_message [OF ExtensionRangeOptions.dec_safe])

lemma DescriptorProto_ExtensionRange_runs:
  assumes "DescriptorProto_ExtensionRange_fits m"
  shows "runs W valid rest k (DescriptorProto_ExtensionRange_switch W) (DescriptorProto_ExtensionRange_bytes m) (\<lambda>m0. DescriptorProto_ExtensionRange_merge m0 m)"
  unfolding DescriptorProto_ExtensionRange_bytes_def concat.simps
  by (rule runs_cong,
      (rule runs_append runs_Nil read_other_int ExtensionRangeOptions.read_opt_sub
         DescriptorProto_ExtensionRange_reads [unfolded ExtensionRangeOptions_decode_def]
         DescriptorProto_ExtensionRange_length [OF assms] DescriptorProto_ExtensionRange_numbers [OF assms]
      | erule DescriptorProto_ExtensionRange_options_fits [OF assms]
       | assumption | simp; fail)+,
      simp add: DescriptorProto_ExtensionRange_merge_def)

end

sublocale wire_laws \<subseteq> DescriptorProto_ExtensionRange: switch_codec W buf valid rest "DescriptorProto_ExtensionRange_encode W" "DescriptorProto_ExtensionRange_switch W"
    createBaseDescriptorProto_ExtensionRange DescriptorProto_ExtensionRange_bytes DescriptorProto_ExtensionRange_fits DescriptorProto_ExtensionRange_norm DescriptorProto_ExtensionRange_merge
proof unfold_locales
  show "DescriptorProto_ExtensionRange_merge createBaseDescriptorProto_ExtensionRange m = DescriptorProto_ExtensionRange_norm m" for m
    by (simp add: DescriptorProto_ExtensionRange_merge_def DescriptorProto_ExtensionRange_norm_def createBaseDescriptorProto_ExtensionRange_def merge_default
          cong: if_cong option.case_cong split del: if_split)
qed (simp_all add: DescriptorProto_ExtensionRange_writes DescriptorProto_ExtensionRange_good DescriptorProto_ExtensionRange_runs, simp add: DescriptorProto_ExtensionRange_fits_def)

section \<open>JSON forms read back\<close>

sublocale base64_laws \<subseteq> FieldDescriptorProto_json: json_codec "FieldDescriptorProto_toJSON H" "FieldDescriptorProto_fromJSON H" FieldDescriptorProto_jnorm
proof unfold_locales
  show "FieldDescriptorProto_fromJSON H (FieldDescriptorProto_toJSON H m) = Inr (FieldDescriptorProto_jnorm m)" for m
    unfolding FieldDescriptorProto_fromJSON_def FieldDescriptorProto_toJSON_def FieldDescriptorProto_jnorm_def
    by (simp add: json_members read_bytes FieldOptions_json.json_sub)
qed (simp add: FieldDescriptorProto_toJSON_def)

sublocale base64_laws \<subseteq> OneofDescriptorProto_json: json_codec "OneofDescriptorProto_toJSON H" "OneofDescriptorProto_fromJSON H" OneofDescriptorProto_jnorm
proof unfold_locales
  show "OneofDescriptorProto_fromJSON H (OneofDescriptorProto_toJSON H m) = Inr (OneofDescriptorProto_jnorm m)" for m
    unfolding OneofDescriptorProto_fromJSON_def OneofDescriptorProto_toJSON_def OneofDescriptorProto_jnorm_def
    by (simp add: json_members read_bytes OneofOptions_json.json_sub)
qed (simp add: OneofDescriptorProto_toJSON_def)

sublocale base64_laws \<subseteq> EnumValueDescriptorProto_json: json_codec "EnumValueDescriptorProto_toJSON H" "EnumValueDescriptorProto_fromJSON H" EnumValueDescriptorProto_jnorm
proof unfold_locales
  show "EnumValueDescriptorProto_fromJSON H (EnumValueDescriptorProto_toJSON H m) = Inr (EnumValueDescriptorProto_jnorm m)" for m
    unfolding EnumValueDescriptorProto_fromJSON_def EnumValueDescriptorProto_toJSON_def EnumValueDescriptorProto_jnorm_def
    by (simp add: json_members read_bytes EnumValueOptions_json.json_sub)
qed (simp add: EnumValueDescriptorProto_toJSON_def)

sublocale base64_laws \<subseteq> EnumDescriptorProto_json: json_codec "EnumDescriptorProto_toJSON H" "EnumDescriptorProto_fromJSON H" EnumDescriptorProto_jnorm
proof unfold_locales
  show "EnumDescriptorProto_fromJSON H (EnumDescriptorProto_toJSON H m) = Inr (EnumDescriptorProto_jnorm m)" for m
    unfolding EnumDescriptorProto_fromJSON_def EnumDescriptorProto_toJSON_def EnumDescriptorProto_jnorm_def
    by (simp add: json_members read_bytes EnumDescriptorProto_EnumReservedRange_json.json_sub EnumOptions_json.json_sub EnumValueDescriptorProto_json.json_sub)
qed (simp add: EnumDescriptorProto_toJSON_def)

sublocale base64_laws \<subseteq> MethodDescriptorProto_json: json_codec "MethodDescriptorProto_toJSON H" "MethodDescriptorProto_fromJSON H" MethodDescriptorProto_jnorm
proof unfold_locales
  show "MethodDescriptorProto_fromJSON H (MethodDescriptorProto_toJSON H m) = Inr (MethodDescriptorProto_jnorm m)" for m
    unfolding MethodDescriptorProto_fromJSON_def MethodDescriptorProto_toJSON_def MethodDescriptorProto_jnorm_def
    by (simp add: json_members read_bytes MethodOptions_json.json_sub)
qed (simp add: MethodDescriptorProto_toJSON_def)

sublocale base64_laws \<subseteq> ServiceDescriptorProto_json: json_codec "ServiceDescriptorProto_toJSON H" "ServiceDescriptorProto_fromJSON H" ServiceDescriptorProto_jnorm
proof unfold_locales
  show "ServiceDescriptorProto_fromJSON H (ServiceDescriptorProto_toJSON H m) = Inr (ServiceDescriptorProto_jnorm m)" for m
    unfolding ServiceDescriptorProto_fromJSON_def ServiceDescriptorProto_toJSON_def ServiceDescriptorProto_jnorm_def
    by (simp add: json_members read_bytes ServiceOptions_json.json_sub MethodDescriptorProto_json.json_sub)
qed (simp add: ServiceDescriptorProto_toJSON_def)

sublocale base64_laws \<subseteq> DescriptorProto_ExtensionRange_json: json_codec "DescriptorProto_ExtensionRange_toJSON H" "DescriptorProto_ExtensionRange_fromJSON H" DescriptorProto_ExtensionRange_jnorm
proof unfold_locales
  show "DescriptorProto_ExtensionRange_fromJSON H (DescriptorProto_ExtensionRange_toJSON H m) = Inr (DescriptorProto_ExtensionRange_jnorm m)" for m
    unfolding DescriptorProto_ExtensionRange_fromJSON_def DescriptorProto_ExtensionRange_toJSON_def DescriptorProto_ExtensionRange_jnorm_def
    by (simp add: json_members read_bytes ExtensionRangeOptions_json.json_sub)
qed (simp add: DescriptorProto_ExtensionRange_toJSON_def)

end
