(* ===== verification/Descriptor_Files.thy ===== *)
theory Descriptor_Files
  imports Descriptor_Protos
begin

text \<open>
  The descriptor of a message, which nests descriptors of messages, and those of a file and of
  a set of files. Dependencies given by number are written one by one and read in both forms.
\<close>

unbundle bit_operations_syntax

section \<open>DescriptorProto\<close>

datatype DescriptorProto = DescriptorProto
  (DescriptorProto_name: "string option")
  (DescriptorProto_field: "FieldDescriptorProto list")
  (DescriptorProto_extension: "FieldDescriptorProto list")
  (DescriptorProto_nestedType: "DescriptorProto list")
  (DescriptorProto_enumType: "EnumDescriptorProto list")
  (DescriptorProto_extensionRange: "DescriptorProto_ExtensionRange list")
  (DescriptorProto_oneofDecl: "OneofDescriptorProto list")
  (DescriptorProto_options: "MessageOptions option")
  (DescriptorProto_reservedRange: "DescriptorProto_ReservedRange list")
  (DescriptorProto_reservedName: "string list")

text \<open>The update functionals, as a record type would have them.\<close>

definition DescriptorProto_name_update :: "(string option \<Rightarrow> string option) \<Rightarrow> DescriptorProto \<Rightarrow> DescriptorProto" where
  "DescriptorProto_name_update f m = DescriptorProto (f (DescriptorProto_name m)) (DescriptorProto_field m) (DescriptorProto_extension m) (DescriptorProto_nestedType m) (DescriptorProto_enumType m) (DescriptorProto_extensionRange m) (DescriptorProto_oneofDecl m) (DescriptorProto_options m) (DescriptorProto_reservedRange m) (DescriptorProto_reservedName m)"

definition DescriptorProto_field_update :: "(FieldDescriptorProto list \<Rightarrow> FieldDescriptorProto list) \<Rightarrow> DescriptorProto \<Rightarrow> DescriptorProto" where
  "DescriptorProto_field_update f m = DescriptorProto (DescriptorProto_name m) (f (DescriptorProto_field m)) (DescriptorProto_extension m) (DescriptorProto_nestedType m) (DescriptorProto_enumType m) (DescriptorProto_extensionRange m) (DescriptorProto_oneofDecl m) (DescriptorProto_options m) (DescriptorProto_reservedRange m) (DescriptorProto_reservedName m)"

definition DescriptorProto_extension_update :: "(FieldDescriptorProto list \<Rightarrow> FieldDescriptorProto list) \<Rightarrow> DescriptorProto \<Rightarrow> DescriptorProto" where
  "DescriptorProto_extension_update f m = DescriptorProto (DescriptorProto_name m) (DescriptorProto_field m) (f (DescriptorProto_extension m)) (DescriptorProto_nestedType m) (DescriptorProto_enumType m) (DescriptorProto_extensionRange m) (DescriptorProto_oneofDecl m) (DescriptorProto_options m) (DescriptorProto_reservedRange m) (DescriptorProto_reservedName m)"

definition DescriptorProto_nestedType_update :: "(DescriptorProto list \<Rightarrow> DescriptorProto list) \<Rightarrow> DescriptorProto \<Rightarrow> DescriptorProto" where
  "DescriptorProto_nestedType_update f m = DescriptorProto (DescriptorProto_name m) (DescriptorProto_field m) (DescriptorProto_extension m) (f (DescriptorProto_nestedType m)) (DescriptorProto_enumType m) (DescriptorProto_extensionRange m) (DescriptorProto_oneofDecl m) (DescriptorProto_options m) (DescriptorProto_reservedRange m) (DescriptorProto_reservedName m)"

definition DescriptorProto_enumType_update :: "(EnumDescriptorProto list \<Rightarrow> EnumDescriptorProto list) \<Rightarrow> DescriptorProto \<Rightarrow> DescriptorProto" where
  "DescriptorProto_enumType_update f m = DescriptorProto (DescriptorProto_name m) (DescriptorProto_field m) (DescriptorProto_extension m) (DescriptorProto_nestedType m) (f (DescriptorProto_enumType m)) (DescriptorProto_extensionRange m) (DescriptorProto_oneofDecl m) (DescriptorProto_options m) (DescriptorProto_reservedRange m) (DescriptorProto_reservedName m)"

definition DescriptorProto_extensionRange_update :: "(DescriptorProto_ExtensionRange list \<Rightarrow> DescriptorProto_ExtensionRange list) \<Rightarrow> DescriptorProto \<Rightarrow> DescriptorProto" where
  "DescriptorProto_extensionRange_update f m = DescriptorProto (DescriptorProto_name m) (DescriptorProto_field m) (DescriptorProto_extension m) (DescriptorProto_nestedType m) (DescriptorProto_enumType m) (f (DescriptorProto_extensionRange m)) (DescriptorProto_oneofDecl m) (DescriptorProto_options m) (DescriptorProto_reservedRange m) (DescriptorProto_reservedName m)"

definition DescriptorProto_oneofDecl_update :: "(OneofDescriptorProto list \<Rightarrow> OneofDescriptorProto list) \<Rightarrow> DescriptorProto \<Rightarrow> DescriptorProto" where
  "DescriptorProto_oneofDecl_update f m = DescriptorProto (DescriptorProto_name m) (DescriptorProto_field m) (DescriptorProto_extension m) (DescriptorProto_nestedType m) (DescriptorProto_enumType m) (DescriptorProto_extensionRange m) (f (DescriptorProto_oneofDecl m)) (DescriptorProto_options m) (DescriptorProto_reservedRange m) (DescriptorProto_reservedName m)"

definition DescriptorProto_options_update :: "(MessageOptions option \<Rightarrow> MessageOptions option) \<Rightarrow> DescriptorProto \<Rightarrow> DescriptorProto" where
  "DescriptorProto_options_update f m = DescriptorProto (DescriptorProto_name m) (DescriptorProto_field m) (DescriptorProto_extension m) (DescriptorProto_nestedType m) (DescriptorProto_enumType m) (DescriptorProto_extensionRange m) (DescriptorProto_oneofDecl m) (f (DescriptorProto_options m)) (DescriptorProto_reservedRange m) (DescriptorProto_reservedName m)"

definition DescriptorProto_reservedRange_update :: "(DescriptorProto_ReservedRange list \<Rightarrow> DescriptorProto_ReservedRange list) \<Rightarrow> DescriptorProto \<Rightarrow> DescriptorProto" where
  "DescriptorProto_reservedRange_update f m = DescriptorProto (DescriptorProto_name m) (DescriptorProto_field m) (DescriptorProto_extension m) (DescriptorProto_nestedType m) (DescriptorProto_enumType m) (DescriptorProto_extensionRange m) (DescriptorProto_oneofDecl m) (DescriptorProto_options m) (f (DescriptorProto_reservedRange m)) (DescriptorProto_reservedName m)"

definition DescriptorProto_reservedName_update :: "(string list \<Rightarrow> string list) \<Rightarrow> DescriptorProto \<Rightarrow> DescriptorProto" where
  "DescriptorProto_reservedName_update f m = DescriptorProto (DescriptorProto_name m) (DescriptorProto_field m) (DescriptorProto_extension m) (DescriptorProto_nestedType m) (DescriptorProto_enumType m) (DescriptorProto_extensionRange m) (DescriptorProto_oneofDecl m) (DescriptorProto_options m) (DescriptorProto_reservedRange m) (f (DescriptorProto_reservedName m))"

lemmas DescriptorProto_update_defs =
  DescriptorProto_name_update_def
  DescriptorProto_field_update_def
  DescriptorProto_extension_update_def
  DescriptorProto_nestedType_update_def
  DescriptorProto_enumType_update_def
  DescriptorProto_extensionRange_update_def
  DescriptorProto_oneofDecl_update_def
  DescriptorProto_options_update_def
  DescriptorProto_reservedRange_update_def
  DescriptorProto_reservedName_update_def

lemma DescriptorProto_part_size: "v \<in> set (DescriptorProto_nestedType m) \<Longrightarrow> size v < size m"
  by (cases m) (auto simp: less_Suc_eq_le intro: size_list_estimation' trans_le_add1 trans_le_add2)

definition createBaseDescriptorProto :: DescriptorProto where
  "createBaseDescriptorProto = DescriptorProto (Some '''') [] [] [] [] [] [] None [] []"

function DescriptorProto_encode :: "('w, 'r) wire \<Rightarrow> DescriptorProto \<Rightarrow> 'w stmt" where
  "DescriptorProto_encode W message = run [
     if_other (DescriptorProto_name message) '''' (\<lambda>v. tagged W 10 (wString W v)),
     for_each (DescriptorProto_field message) (\<lambda>v. sub_message W 18 (FieldDescriptorProto_encode W v)),
     for_each (DescriptorProto_extension message) (\<lambda>v. sub_message W 50 (FieldDescriptorProto_encode W v)),
     for_each (DescriptorProto_nestedType message) (\<lambda>v. sub_message W 26 (DescriptorProto_encode W v)),
     for_each (DescriptorProto_enumType message) (\<lambda>v. sub_message W 34 (EnumDescriptorProto_encode W v)),
     for_each (DescriptorProto_extensionRange message) (\<lambda>v. sub_message W 42 (DescriptorProto_ExtensionRange_encode W v)),
     for_each (DescriptorProto_oneofDecl message) (\<lambda>v. sub_message W 66 (OneofDescriptorProto_encode W v)),
     if_set (DescriptorProto_options message) (\<lambda>v. sub_message W 58 (MessageOptions_encode W v)),
     for_each (DescriptorProto_reservedRange message) (\<lambda>v. sub_message W 74 (DescriptorProto_ReservedRange_encode W v)),
     for_each (DescriptorProto_reservedName message) (\<lambda>v. tagged W 82 (wString W v))]"
  by pat_completeness auto
termination
  by (relation "measure (\<lambda>(W, m). size m)") (simp_all add: DescriptorProto_part_size)

declare DescriptorProto_encode.simps [simp del]

definition DescriptorProto_switch ::
  "('w, 'r) wire \<Rightarrow> ('r input \<Rightarrow> nat option \<Rightarrow> (DescriptorProto \<times> 'r) res) \<Rightarrow> (DescriptorProto, 'r) switch" where
  "DescriptorProto_switch W decode tag message reader =
   (if drop_bit 3 tag = 1 then case_read tag 10 (rString W) (store_some DescriptorProto_name_update) message reader
    else if drop_bit 3 tag = 2 then case_read tag 18 (read_message W (FieldDescriptorProto_decode W)) (push DescriptorProto_field_update) message reader
    else if drop_bit 3 tag = 6 then case_read tag 50 (read_message W (FieldDescriptorProto_decode W)) (push DescriptorProto_extension_update) message reader
    else if drop_bit 3 tag = 3 then case_read tag 26 (read_message W decode) (push DescriptorProto_nestedType_update) message reader
    else if drop_bit 3 tag = 4 then case_read tag 34 (read_message W (EnumDescriptorProto_decode W)) (push DescriptorProto_enumType_update) message reader
    else if drop_bit 3 tag = 5 then case_read tag 42 (read_message W (DescriptorProto_ExtensionRange_decode W)) (push DescriptorProto_extensionRange_update) message reader
    else if drop_bit 3 tag = 8 then case_read tag 66 (read_message W (OneofDescriptorProto_decode W)) (push DescriptorProto_oneofDecl_update) message reader
    else if drop_bit 3 tag = 7 then case_read tag 58 (read_message W (MessageOptions_decode W)) (store_some DescriptorProto_options_update) message reader
    else if drop_bit 3 tag = 9 then case_read tag 74 (read_message W (DescriptorProto_ReservedRange_decode W)) (push DescriptorProto_reservedRange_update) message reader
    else if drop_bit 3 tag = 10 then case_read tag 82 (rString W) (push DescriptorProto_reservedName_update) message reader
    else Inr None)"

definition DescriptorProto_decode :: "('w, 'r) wire \<Rightarrow> 'r input \<Rightarrow> nat option \<Rightarrow> (DescriptorProto \<times> 'r) res" where
  "DescriptorProto_decode W = decode_rec W (DescriptorProto_switch W) createBaseDescriptorProto"

function DescriptorProto_fromJSON :: "base64_host \<Rightarrow> jsval \<Rightarrow> DescriptorProto res" where
  "DescriptorProto_fromJSON H object =
     rbind (json_field object ''name'' (some_res js_String) (Inr (Some ''''))) (\<lambda>name.
     rbind (json_array object ''field'' (FieldDescriptorProto_fromJSON H) (Inr [])) (\<lambda>field.
     rbind (json_array object ''extension'' (FieldDescriptorProto_fromJSON H) (Inr [])) (\<lambda>extension.
     rbind (json_array object ''nestedType'' (DescriptorProto_fromJSON H) (json_array object ''nested_type'' (DescriptorProto_fromJSON H) (Inr []))) (\<lambda>nestedType.
     rbind (json_array object ''enumType'' (EnumDescriptorProto_fromJSON H) (json_array object ''enum_type'' (EnumDescriptorProto_fromJSON H) (Inr []))) (\<lambda>enumType.
     rbind (json_array object ''extensionRange'' (DescriptorProto_ExtensionRange_fromJSON H) (json_array object ''extension_range'' (DescriptorProto_ExtensionRange_fromJSON H) (Inr []))) (\<lambda>extensionRange.
     rbind (json_array object ''oneofDecl'' (OneofDescriptorProto_fromJSON H) (json_array object ''oneof_decl'' (OneofDescriptorProto_fromJSON H) (Inr []))) (\<lambda>oneofDecl.
     rbind (json_field object ''options'' (some_res (MessageOptions_fromJSON H)) (Inr None)) (\<lambda>options.
     rbind (json_array object ''reservedRange'' DescriptorProto_ReservedRange_fromJSON (json_array object ''reserved_range'' DescriptorProto_ReservedRange_fromJSON (Inr []))) (\<lambda>reservedRange.
     rbind (json_array object ''reservedName'' js_String (json_array object ''reserved_name'' js_String (Inr []))) (\<lambda>reservedName.
     Inr (DescriptorProto name field extension nestedType enumType extensionRange oneofDecl options reservedRange reservedName)))))))))))"
  by pat_completeness auto
termination
  by (relation "measure (\<lambda>(H, object). size object)") (simp_all add: js_opt_get_size)

declare DescriptorProto_fromJSON.simps [simp del]

function DescriptorProto_toJSON :: "base64_host \<Rightarrow> DescriptorProto \<Rightarrow> jsval" where
  "DescriptorProto_toJSON H message = json_object [
     (''name'', put_other (DescriptorProto_name message) '''' JStr),
     (''field'', put_if (DescriptorProto_field message \<noteq> []) (JArr (map (FieldDescriptorProto_toJSON H) (DescriptorProto_field message)))),
     (''extension'', put_if (DescriptorProto_extension message \<noteq> []) (JArr (map (FieldDescriptorProto_toJSON H) (DescriptorProto_extension message)))),
     (''nestedType'', put_if (DescriptorProto_nestedType message \<noteq> []) (JArr (map (DescriptorProto_toJSON H) (DescriptorProto_nestedType message)))),
     (''enumType'', put_if (DescriptorProto_enumType message \<noteq> []) (JArr (map (EnumDescriptorProto_toJSON H) (DescriptorProto_enumType message)))),
     (''extensionRange'', put_if (DescriptorProto_extensionRange message \<noteq> []) (JArr (map (DescriptorProto_ExtensionRange_toJSON H) (DescriptorProto_extensionRange message)))),
     (''oneofDecl'', put_if (DescriptorProto_oneofDecl message \<noteq> []) (JArr (map (OneofDescriptorProto_toJSON H) (DescriptorProto_oneofDecl message)))),
     (''options'', map_option (MessageOptions_toJSON H) (DescriptorProto_options message)),
     (''reservedRange'', put_if (DescriptorProto_reservedRange message \<noteq> []) (JArr (map DescriptorProto_ReservedRange_toJSON (DescriptorProto_reservedRange message)))),
     (''reservedName'', put_if (DescriptorProto_reservedName message \<noteq> []) (JArr (map JStr (DescriptorProto_reservedName message))))]"
  by pat_completeness auto
termination
  by (relation "measure (\<lambda>(H, m). size m)") (simp_all add: DescriptorProto_part_size)

declare DescriptorProto_toJSON.simps [simp del]

datatype DescriptorProto_Partial = DescriptorProto_Partial
  (Partial_DescriptorProto_name: "string option")
  (Partial_DescriptorProto_field: "FieldDescriptorProto_Partial list option")
  (Partial_DescriptorProto_extension: "FieldDescriptorProto_Partial list option")
  (Partial_DescriptorProto_nestedType: "DescriptorProto_Partial list option")
  (Partial_DescriptorProto_enumType: "EnumDescriptorProto_Partial list option")
  (Partial_DescriptorProto_extensionRange: "DescriptorProto_ExtensionRange_Partial list option")
  (Partial_DescriptorProto_oneofDecl: "OneofDescriptorProto_Partial list option")
  (Partial_DescriptorProto_options: "MessageOptions_Partial option")
  (Partial_DescriptorProto_reservedRange: "DescriptorProto_ReservedRange_Partial list option")
  (Partial_DescriptorProto_reservedName: "string list option")

lemma DescriptorProto_Partial_part_size:
  "Partial_DescriptorProto_nestedType object = Some vs \<Longrightarrow> v \<in> set vs \<Longrightarrow> size v < size object"
  by (cases object) (auto simp: less_Suc_eq_le intro!: le_SucI intro: size_list_estimation' trans_le_add1 trans_le_add2)

function DescriptorProto_fromPartial :: "DescriptorProto_Partial \<Rightarrow> DescriptorProto" where
  "DescriptorProto_fromPartial object = DescriptorProto
     (Some (nullish (Partial_DescriptorProto_name object) ''''))
     (nullish (map_option (map FieldDescriptorProto_fromPartial) (Partial_DescriptorProto_field object)) [])
     (nullish (map_option (map FieldDescriptorProto_fromPartial) (Partial_DescriptorProto_extension object)) [])
     (nullish (map_option (map DescriptorProto_fromPartial) (Partial_DescriptorProto_nestedType object)) [])
     (nullish (map_option (map EnumDescriptorProto_fromPartial) (Partial_DescriptorProto_enumType object)) [])
     (nullish (map_option (map DescriptorProto_ExtensionRange_fromPartial) (Partial_DescriptorProto_extensionRange object)) [])
     (nullish (map_option (map OneofDescriptorProto_fromPartial) (Partial_DescriptorProto_oneofDecl object)) [])
     (map_option MessageOptions_fromPartial (Partial_DescriptorProto_options object))
     (nullish (map_option (map DescriptorProto_ReservedRange_fromPartial) (Partial_DescriptorProto_reservedRange object)) [])
     (nullish (map_option (map (\<lambda>e. e)) (Partial_DescriptorProto_reservedName object)) [])"
  by pat_completeness auto
termination
  by (relation "measure size") (simp_all add: DescriptorProto_Partial_part_size)

declare DescriptorProto_fromPartial.simps [simp del]

definition DescriptorProto_create :: "DescriptorProto_Partial option \<Rightarrow> DescriptorProto" where
  "DescriptorProto_create base = DescriptorProto_fromPartial (nullish base (DescriptorProto_Partial None None None None None None None None None None))"

section \<open>FileDescriptorProto\<close>

record FileDescriptorProto =
  FileDescriptorProto_name :: "string option"
  FileDescriptorProto_package :: "string option"
  FileDescriptorProto_dependency :: "string list"
  FileDescriptorProto_publicDependency :: "jsnum list"
  FileDescriptorProto_weakDependency :: "jsnum list"
  FileDescriptorProto_messageType :: "DescriptorProto list"
  FileDescriptorProto_enumType :: "EnumDescriptorProto list"
  FileDescriptorProto_service :: "ServiceDescriptorProto list"
  FileDescriptorProto_extension :: "FieldDescriptorProto list"
  FileDescriptorProto_options :: "FileOptions option"
  FileDescriptorProto_sourceCodeInfo :: "SourceCodeInfo option"
  FileDescriptorProto_syntax :: "string option"
  FileDescriptorProto_edition :: "jsnum option"

definition createBaseFileDescriptorProto :: FileDescriptorProto where
  "createBaseFileDescriptorProto = \<lparr>FileDescriptorProto_name = Some '''', FileDescriptorProto_package = Some '''', FileDescriptorProto_dependency = [], FileDescriptorProto_publicDependency = [], FileDescriptorProto_weakDependency = [], FileDescriptorProto_messageType = [], FileDescriptorProto_enumType = [], FileDescriptorProto_service = [], FileDescriptorProto_extension = [], FileDescriptorProto_options = None, FileDescriptorProto_sourceCodeInfo = None, FileDescriptorProto_syntax = Some '''', FileDescriptorProto_edition = Some (NInt 0)\<rparr>"

definition FileDescriptorProto_encode :: "('w, 'r) wire \<Rightarrow> FileDescriptorProto \<Rightarrow> 'w stmt" where
  "FileDescriptorProto_encode W message = run [
     if_other (FileDescriptorProto_name message) '''' (\<lambda>v. tagged W 10 (wString W v)),
     if_other (FileDescriptorProto_package message) '''' (\<lambda>v. tagged W 18 (wString W v)),
     for_each (FileDescriptorProto_dependency message) (\<lambda>v. tagged W 26 (wString W v)),
     for_each (FileDescriptorProto_publicDependency message) (\<lambda>v. tagged W 80 (wInt32 W v)),
     for_each (FileDescriptorProto_weakDependency message) (\<lambda>v. tagged W 88 (wInt32 W v)),
     for_each (FileDescriptorProto_messageType message) (\<lambda>v. sub_message W 34 (DescriptorProto_encode W v)),
     for_each (FileDescriptorProto_enumType message) (\<lambda>v. sub_message W 42 (EnumDescriptorProto_encode W v)),
     for_each (FileDescriptorProto_service message) (\<lambda>v. sub_message W 50 (ServiceDescriptorProto_encode W v)),
     for_each (FileDescriptorProto_extension message) (\<lambda>v. sub_message W 58 (FieldDescriptorProto_encode W v)),
     if_set (FileDescriptorProto_options message) (\<lambda>v. sub_message W 66 (FileOptions_encode W v)),
     if_set (FileDescriptorProto_sourceCodeInfo message) (\<lambda>v. sub_message W 74 (SourceCodeInfo_encode W v)),
     if_other (FileDescriptorProto_syntax message) '''' (\<lambda>v. tagged W 98 (wString W v)),
     if_other (FileDescriptorProto_edition message) (NInt 0) (\<lambda>v. tagged W 112 (wInt32 W v))]"

definition FileDescriptorProto_switch :: "('w, 'r) wire \<Rightarrow> (FileDescriptorProto, 'r) switch" where
  "FileDescriptorProto_switch W tag message reader =
   (if drop_bit 3 tag = 1 then case_read tag 10 (rString W) (store_some FileDescriptorProto_name_update) message reader
    else if drop_bit 3 tag = 2 then case_read tag 18 (rString W) (store_some FileDescriptorProto_package_update) message reader
    else if drop_bit 3 tag = 3 then case_read tag 26 (rString W) (push FileDescriptorProto_dependency_update) message reader
    else if drop_bit 3 tag = 10 then case_packed W tag 80 82 (rInt32 W) (push FileDescriptorProto_publicDependency_update) message reader
    else if drop_bit 3 tag = 11 then case_packed W tag 88 90 (rInt32 W) (push FileDescriptorProto_weakDependency_update) message reader
    else if drop_bit 3 tag = 4 then case_read tag 34 (read_message W (DescriptorProto_decode W)) (push FileDescriptorProto_messageType_update) message reader
    else if drop_bit 3 tag = 5 then case_read tag 42 (read_message W (EnumDescriptorProto_decode W)) (push FileDescriptorProto_enumType_update) message reader
    else if drop_bit 3 tag = 6 then case_read tag 50 (read_message W (ServiceDescriptorProto_decode W)) (push FileDescriptorProto_service_update) message reader
    else if drop_bit 3 tag = 7 then case_read tag 58 (read_message W (FieldDescriptorProto_decode W)) (push FileDescriptorProto_extension_update) message reader
    else if drop_bit 3 tag = 8 then case_read tag 66 (read_message W (FileOptions_decode W)) (store_some FileDescriptorProto_options_update) message reader
    else if drop_bit 3 tag = 9 then case_read tag 74 (read_message W (SourceCodeInfo_decode W)) (store_some FileDescriptorProto_sourceCodeInfo_update) message reader
    else if drop_bit 3 tag = 12 then case_read tag 98 (rString W) (store_some FileDescriptorProto_syntax_update) message reader
    else if drop_bit 3 tag = 14 then case_read tag 112 (rInt32 W) (store_some FileDescriptorProto_edition_update) message reader
    else Inr None)"

definition FileDescriptorProto_decode :: "('w, 'r) wire \<Rightarrow> 'r input \<Rightarrow> nat option \<Rightarrow> (FileDescriptorProto \<times> 'r) res" where
  "FileDescriptorProto_decode W = decode_msg W (FileDescriptorProto_switch W) createBaseFileDescriptorProto"

definition FileDescriptorProto_fromJSON :: "base64_host \<Rightarrow> jsval \<Rightarrow> FileDescriptorProto res" where
  "FileDescriptorProto_fromJSON H object =
     rbind (json_field object ''name'' (some_res js_String) (Inr (Some ''''))) (\<lambda>name.
     rbind (json_field object ''package'' (some_res js_String) (Inr (Some ''''))) (\<lambda>package.
     rbind (json_array object ''dependency'' js_String (Inr [])) (\<lambda>dependency.
     rbind (json_array object ''publicDependency'' js_Number (json_array object ''public_dependency'' js_Number (Inr []))) (\<lambda>publicDependency.
     rbind (json_array object ''weakDependency'' js_Number (json_array object ''weak_dependency'' js_Number (Inr []))) (\<lambda>weakDependency.
     rbind (json_array object ''messageType'' (DescriptorProto_fromJSON H) (json_array object ''message_type'' (DescriptorProto_fromJSON H) (Inr []))) (\<lambda>messageType.
     rbind (json_array object ''enumType'' (EnumDescriptorProto_fromJSON H) (json_array object ''enum_type'' (EnumDescriptorProto_fromJSON H) (Inr []))) (\<lambda>enumType.
     rbind (json_array object ''service'' (ServiceDescriptorProto_fromJSON H) (Inr [])) (\<lambda>service.
     rbind (json_array object ''extension'' (FieldDescriptorProto_fromJSON H) (Inr [])) (\<lambda>extension.
     rbind (json_field object ''options'' (some_res (FileOptions_fromJSON H)) (Inr None)) (\<lambda>options.
     rbind (json_field2 object ''sourceCodeInfo'' ''source_code_info'' (some_res SourceCodeInfo_fromJSON) (Inr None)) (\<lambda>sourceCodeInfo.
     rbind (json_field object ''syntax'' (some_res js_String) (Inr (Some ''''))) (\<lambda>syntax.
     rbind (json_field object ''edition'' (some_res (enum_number Edition_value editionFromJSON)) (Inr (Some (NInt 0)))) (\<lambda>edition.
     Inr \<lparr>FileDescriptorProto_name = name, FileDescriptorProto_package = package, FileDescriptorProto_dependency = dependency, FileDescriptorProto_publicDependency = publicDependency, FileDescriptorProto_weakDependency = weakDependency, FileDescriptorProto_messageType = messageType, FileDescriptorProto_enumType = enumType, FileDescriptorProto_service = service, FileDescriptorProto_extension = extension, FileDescriptorProto_options = options, FileDescriptorProto_sourceCodeInfo = sourceCodeInfo, FileDescriptorProto_syntax = syntax, FileDescriptorProto_edition = edition\<rparr>)))))))))))))"

definition FileDescriptorProto_toJSON :: "base64_host \<Rightarrow> FileDescriptorProto \<Rightarrow> jsval" where
  "FileDescriptorProto_toJSON H message = json_object [
     (''name'', put_other (FileDescriptorProto_name message) '''' JStr),
     (''package'', put_other (FileDescriptorProto_package message) '''' JStr),
     (''dependency'', put_if (FileDescriptorProto_dependency message \<noteq> []) (JArr (map JStr (FileDescriptorProto_dependency message)))),
     (''publicDependency'', put_if (FileDescriptorProto_publicDependency message \<noteq> []) (JArr (map (\<lambda>e. JNum (js_round e)) (FileDescriptorProto_publicDependency message)))),
     (''weakDependency'', put_if (FileDescriptorProto_weakDependency message \<noteq> []) (JArr (map (\<lambda>e. JNum (js_round e)) (FileDescriptorProto_weakDependency message)))),
     (''messageType'', put_if (FileDescriptorProto_messageType message \<noteq> []) (JArr (map (DescriptorProto_toJSON H) (FileDescriptorProto_messageType message)))),
     (''enumType'', put_if (FileDescriptorProto_enumType message \<noteq> []) (JArr (map (EnumDescriptorProto_toJSON H) (FileDescriptorProto_enumType message)))),
     (''service'', put_if (FileDescriptorProto_service message \<noteq> []) (JArr (map (ServiceDescriptorProto_toJSON H) (FileDescriptorProto_service message)))),
     (''extension'', put_if (FileDescriptorProto_extension message \<noteq> []) (JArr (map (FieldDescriptorProto_toJSON H) (FileDescriptorProto_extension message)))),
     (''options'', map_option (FileOptions_toJSON H) (FileDescriptorProto_options message)),
     (''sourceCodeInfo'', map_option SourceCodeInfo_toJSON (FileDescriptorProto_sourceCodeInfo message)),
     (''syntax'', put_other (FileDescriptorProto_syntax message) '''' JStr),
     (''edition'', put_other (FileDescriptorProto_edition message) (NInt 0) (\<lambda>n. JStr (editionToJSON n)))]"

record FileDescriptorProto_Partial =
  Partial_FileDescriptorProto_name :: "string option"
  Partial_FileDescriptorProto_package :: "string option"
  Partial_FileDescriptorProto_dependency :: "string list option"
  Partial_FileDescriptorProto_publicDependency :: "jsnum list option"
  Partial_FileDescriptorProto_weakDependency :: "jsnum list option"
  Partial_FileDescriptorProto_messageType :: "DescriptorProto_Partial list option"
  Partial_FileDescriptorProto_enumType :: "EnumDescriptorProto_Partial list option"
  Partial_FileDescriptorProto_service :: "ServiceDescriptorProto_Partial list option"
  Partial_FileDescriptorProto_extension :: "FieldDescriptorProto_Partial list option"
  Partial_FileDescriptorProto_options :: "FileOptions_Partial option"
  Partial_FileDescriptorProto_sourceCodeInfo :: "SourceCodeInfo_Partial option"
  Partial_FileDescriptorProto_syntax :: "string option"
  Partial_FileDescriptorProto_edition :: "jsnum option"

definition FileDescriptorProto_fromPartial :: "FileDescriptorProto_Partial \<Rightarrow> FileDescriptorProto" where
  "FileDescriptorProto_fromPartial object = createBaseFileDescriptorProto\<lparr>
     FileDescriptorProto_name := Some (nullish (Partial_FileDescriptorProto_name object) ''''),
     FileDescriptorProto_package := Some (nullish (Partial_FileDescriptorProto_package object) ''''),
     FileDescriptorProto_dependency := nullish (map_option (map (\<lambda>e. e)) (Partial_FileDescriptorProto_dependency object)) [],
     FileDescriptorProto_publicDependency := nullish (map_option (map (\<lambda>e. e)) (Partial_FileDescriptorProto_publicDependency object)) [],
     FileDescriptorProto_weakDependency := nullish (map_option (map (\<lambda>e. e)) (Partial_FileDescriptorProto_weakDependency object)) [],
     FileDescriptorProto_messageType := nullish (map_option (map DescriptorProto_fromPartial) (Partial_FileDescriptorProto_messageType object)) [],
     FileDescriptorProto_enumType := nullish (map_option (map EnumDescriptorProto_fromPartial) (Partial_FileDescriptorProto_enumType object)) [],
     FileDescriptorProto_service := nullish (map_option (map ServiceDescriptorProto_fromPartial) (Partial_FileDescriptorProto_service object)) [],
     FileDescriptorProto_extension := nullish (map_option (map FieldDescriptorProto_fromPartial) (Partial_FileDescriptorProto_extension object)) [],
     FileDescriptorProto_options := map_option FileOptions_fromPartial (Partial_FileDescriptorProto_options object),
     FileDescriptorProto_sourceCodeInfo := map_option SourceCodeInfo_fromPartial (Partial_FileDescriptorProto_sourceCodeInfo object),
     FileDescriptorProto_syntax := Some (nullish (Partial_FileDescriptorProto_syntax object) ''''),
     FileDescriptorProto_edition := Some (nullish (Partial_FileDescriptorProto_edition object) (NInt 0))\<rparr>"

definition FileDescriptorProto_create :: "FileDescriptorProto_Partial option \<Rightarrow> FileDescriptorProto" where
  "FileDescriptorProto_create base = FileDescriptorProto_fromPartial (nullish base \<lparr>Partial_FileDescriptorProto_name = None, Partial_FileDescriptorProto_package = None, Partial_FileDescriptorProto_dependency = None, Partial_FileDescriptorProto_publicDependency = None, Partial_FileDescriptorProto_weakDependency = None, Partial_FileDescriptorProto_messageType = None, Partial_FileDescriptorProto_enumType = None, Partial_FileDescriptorProto_service = None, Partial_FileDescriptorProto_extension = None, Partial_FileDescriptorProto_options = None, Partial_FileDescriptorProto_sourceCodeInfo = None, Partial_FileDescriptorProto_syntax = None, Partial_FileDescriptorProto_edition = None\<rparr>)"

section \<open>FileDescriptorSet\<close>

record FileDescriptorSet =
  FileDescriptorSet_file :: "FileDescriptorProto list"

definition createBaseFileDescriptorSet :: FileDescriptorSet where
  "createBaseFileDescriptorSet = \<lparr>FileDescriptorSet_file = []\<rparr>"

definition FileDescriptorSet_encode :: "('w, 'r) wire \<Rightarrow> FileDescriptorSet \<Rightarrow> 'w stmt" where
  "FileDescriptorSet_encode W message = run [
     for_each (FileDescriptorSet_file message) (\<lambda>v. sub_message W 10 (FileDescriptorProto_encode W v))]"

definition FileDescriptorSet_switch :: "('w, 'r) wire \<Rightarrow> (FileDescriptorSet, 'r) switch" where
  "FileDescriptorSet_switch W tag message reader =
   (if drop_bit 3 tag = 1 then case_read tag 10 (read_message W (FileDescriptorProto_decode W)) (push FileDescriptorSet_file_update) message reader
    else Inr None)"

definition FileDescriptorSet_decode :: "('w, 'r) wire \<Rightarrow> 'r input \<Rightarrow> nat option \<Rightarrow> (FileDescriptorSet \<times> 'r) res" where
  "FileDescriptorSet_decode W = decode_msg W (FileDescriptorSet_switch W) createBaseFileDescriptorSet"

definition FileDescriptorSet_fromJSON :: "base64_host \<Rightarrow> jsval \<Rightarrow> FileDescriptorSet res" where
  "FileDescriptorSet_fromJSON H object =
     rbind (json_array object ''file'' (FileDescriptorProto_fromJSON H) (Inr [])) (\<lambda>file.
     Inr \<lparr>FileDescriptorSet_file = file\<rparr>)"

definition FileDescriptorSet_toJSON :: "base64_host \<Rightarrow> FileDescriptorSet \<Rightarrow> jsval" where
  "FileDescriptorSet_toJSON H message = json_object [
     (''file'', put_if (FileDescriptorSet_file message \<noteq> []) (JArr (map (FileDescriptorProto_toJSON H) (FileDescriptorSet_file message))))]"

record FileDescriptorSet_Partial =
  Partial_FileDescriptorSet_file :: "FileDescriptorProto_Partial list option"

definition FileDescriptorSet_fromPartial :: "FileDescriptorSet_Partial \<Rightarrow> FileDescriptorSet" where
  "FileDescriptorSet_fromPartial object = createBaseFileDescriptorSet\<lparr>
     FileDescriptorSet_file := nullish (map_option (map FileDescriptorProto_fromPartial) (Partial_FileDescriptorSet_file object)) []\<rparr>"

definition FileDescriptorSet_create :: "FileDescriptorSet_Partial option \<Rightarrow> FileDescriptorSet" where
  "FileDescriptorSet_create base = FileDescriptorSet_fromPartial (nullish base \<lparr>Partial_FileDescriptorSet_file = None\<rparr>)"

section \<open>The documented wire form\<close>

text \<open>
  \<open>M_fits\<close> bounds the wire form by what a 32-bit length can say. \<open>M_merge m0 m\<close> is \<open>m0\<close> after
  the fields of \<open>m\<close> have been read into it: a singular field that is present overwrites,
  elements of a repeated field are added at the end.
\<close>

function DescriptorProto_bytes :: "DescriptorProto \<Rightarrow> bytes" where
  "DescriptorProto_bytes m = concat [
     other_field 10 '''' str_payload (DescriptorProto_name m),
     rep_msg_field 18 FieldDescriptorProto_bytes (DescriptorProto_field m),
     rep_msg_field 50 FieldDescriptorProto_bytes (DescriptorProto_extension m),
     rep_msg_field 26 DescriptorProto_bytes (DescriptorProto_nestedType m),
     rep_msg_field 34 EnumDescriptorProto_bytes (DescriptorProto_enumType m),
     rep_msg_field 42 DescriptorProto_ExtensionRange_bytes (DescriptorProto_extensionRange m),
     rep_msg_field 66 OneofDescriptorProto_bytes (DescriptorProto_oneofDecl m),
     opt_msg_field 58 MessageOptions_bytes (DescriptorProto_options m),
     rep_msg_field 74 DescriptorProto_ReservedRange_bytes (DescriptorProto_reservedRange m),
     rep_str_field 82 (DescriptorProto_reservedName m)]"
  by pat_completeness auto
termination
  by (relation "measure size") (simp_all add: DescriptorProto_part_size)

declare DescriptorProto_bytes.simps [simp del]

function DescriptorProto_fits :: "DescriptorProto \<Rightarrow> bool" where
  "DescriptorProto_fits m \<longleftrightarrow> length (DescriptorProto_bytes m) < 2 ^ 32 \<and>
     list_all FieldDescriptorProto_fits (DescriptorProto_field m) \<and>
     list_all FieldDescriptorProto_fits (DescriptorProto_extension m) \<and>
     list_all DescriptorProto_fits (DescriptorProto_nestedType m) \<and>
     list_all EnumDescriptorProto_fits (DescriptorProto_enumType m) \<and>
     list_all DescriptorProto_ExtensionRange_fits (DescriptorProto_extensionRange m) \<and>
     list_all OneofDescriptorProto_fits (DescriptorProto_oneofDecl m) \<and>
     pred_option MessageOptions_fits (DescriptorProto_options m) \<and>
     list_all DescriptorProto_ReservedRange_fits (DescriptorProto_reservedRange m)"
  by pat_completeness auto
termination
  by (relation "measure size") (simp_all add: DescriptorProto_part_size)

declare DescriptorProto_fits.simps [simp del]

function DescriptorProto_norm :: "DescriptorProto \<Rightarrow> DescriptorProto" where
  "DescriptorProto_norm m = DescriptorProto
     (Some (nullish (DescriptorProto_name m) ''''))
     (map FieldDescriptorProto_norm (DescriptorProto_field m))
     (map FieldDescriptorProto_norm (DescriptorProto_extension m))
     (map DescriptorProto_norm (DescriptorProto_nestedType m))
     (map EnumDescriptorProto_norm (DescriptorProto_enumType m))
     (map DescriptorProto_ExtensionRange_norm (DescriptorProto_extensionRange m))
     (map OneofDescriptorProto_norm (DescriptorProto_oneofDecl m))
     (map_option MessageOptions_norm (DescriptorProto_options m))
     (map DescriptorProto_ReservedRange_norm (DescriptorProto_reservedRange m))
     (DescriptorProto_reservedName m)"
  by pat_completeness auto
termination
  by (relation "measure size") (simp_all add: DescriptorProto_part_size)

declare DescriptorProto_norm.simps [simp del]

definition DescriptorProto_merge :: "DescriptorProto \<Rightarrow> DescriptorProto \<Rightarrow> DescriptorProto" where
  "DescriptorProto_merge m0 m = DescriptorProto
     ((if DescriptorProto_name m = None \<or> DescriptorProto_name m = Some '''' then DescriptorProto_name m0 else DescriptorProto_name m))
     (DescriptorProto_field m0 @ map FieldDescriptorProto_norm (DescriptorProto_field m))
     (DescriptorProto_extension m0 @ map FieldDescriptorProto_norm (DescriptorProto_extension m))
     (DescriptorProto_nestedType m0 @ map DescriptorProto_norm (DescriptorProto_nestedType m))
     (DescriptorProto_enumType m0 @ map EnumDescriptorProto_norm (DescriptorProto_enumType m))
     (DescriptorProto_extensionRange m0 @ map DescriptorProto_ExtensionRange_norm (DescriptorProto_extensionRange m))
     (DescriptorProto_oneofDecl m0 @ map OneofDescriptorProto_norm (DescriptorProto_oneofDecl m))
     ((case DescriptorProto_options m of None \<Rightarrow> DescriptorProto_options m0 | Some v \<Rightarrow> Some (MessageOptions_norm v)))
     (DescriptorProto_reservedRange m0 @ map DescriptorProto_ReservedRange_norm (DescriptorProto_reservedRange m))
     (DescriptorProto_reservedName m0 @ DescriptorProto_reservedName m)"

function DescriptorProto_jnorm :: "DescriptorProto \<Rightarrow> DescriptorProto" where
  "DescriptorProto_jnorm m = DescriptorProto
     (Some (nullish (DescriptorProto_name m) ''''))
     (map FieldDescriptorProto_jnorm (DescriptorProto_field m))
     (map FieldDescriptorProto_jnorm (DescriptorProto_extension m))
     (map DescriptorProto_jnorm (DescriptorProto_nestedType m))
     (map EnumDescriptorProto_jnorm (DescriptorProto_enumType m))
     (map DescriptorProto_ExtensionRange_jnorm (DescriptorProto_extensionRange m))
     (map OneofDescriptorProto_jnorm (DescriptorProto_oneofDecl m))
     (map_option MessageOptions_jnorm (DescriptorProto_options m))
     (map DescriptorProto_ReservedRange_jnorm (DescriptorProto_reservedRange m))
     (DescriptorProto_reservedName m)"
  by pat_completeness auto
termination
  by (relation "measure size") (simp_all add: DescriptorProto_part_size)

declare DescriptorProto_jnorm.simps [simp del]

definition FileDescriptorProto_bytes :: "FileDescriptorProto \<Rightarrow> bytes" where
  "FileDescriptorProto_bytes m = concat [
     other_field 10 '''' str_payload (FileDescriptorProto_name m),
     other_field 18 '''' str_payload (FileDescriptorProto_package m),
     rep_str_field 26 (FileDescriptorProto_dependency m),
     unpacked_field 80 (FileDescriptorProto_publicDependency m),
     unpacked_field 88 (FileDescriptorProto_weakDependency m),
     rep_msg_field 34 DescriptorProto_bytes (FileDescriptorProto_messageType m),
     rep_msg_field 42 EnumDescriptorProto_bytes (FileDescriptorProto_enumType m),
     rep_msg_field 50 ServiceDescriptorProto_bytes (FileDescriptorProto_service m),
     rep_msg_field 58 FieldDescriptorProto_bytes (FileDescriptorProto_extension m),
     opt_msg_field 66 FileOptions_bytes (FileDescriptorProto_options m),
     opt_msg_field 74 SourceCodeInfo_bytes (FileDescriptorProto_sourceCodeInfo m),
     other_field 98 '''' str_payload (FileDescriptorProto_syntax m),
     other_field 112 (NInt 0) int_payload (FileDescriptorProto_edition m)]"

definition FileDescriptorProto_fits :: "FileDescriptorProto \<Rightarrow> bool" where
  "FileDescriptorProto_fits m \<longleftrightarrow> length (FileDescriptorProto_bytes m) < 2 ^ 32 \<and>
     list_all int32_ok (FileDescriptorProto_publicDependency m) \<and>
     list_all int32_ok (FileDescriptorProto_weakDependency m) \<and>
     list_all DescriptorProto_fits (FileDescriptorProto_messageType m) \<and>
     list_all EnumDescriptorProto_fits (FileDescriptorProto_enumType m) \<and>
     list_all ServiceDescriptorProto_fits (FileDescriptorProto_service m) \<and>
     list_all FieldDescriptorProto_fits (FileDescriptorProto_extension m) \<and>
     pred_option FileOptions_fits (FileDescriptorProto_options m) \<and>
     pred_option SourceCodeInfo_fits (FileDescriptorProto_sourceCodeInfo m) \<and>
     pred_option int32_ok (FileDescriptorProto_edition m)"

definition FileDescriptorProto_norm :: "FileDescriptorProto \<Rightarrow> FileDescriptorProto" where
  "FileDescriptorProto_norm m = \<lparr>
     FileDescriptorProto_name = Some (nullish (FileDescriptorProto_name m) ''''),
     FileDescriptorProto_package = Some (nullish (FileDescriptorProto_package m) ''''),
     FileDescriptorProto_dependency = FileDescriptorProto_dependency m,
     FileDescriptorProto_publicDependency = FileDescriptorProto_publicDependency m,
     FileDescriptorProto_weakDependency = FileDescriptorProto_weakDependency m,
     FileDescriptorProto_messageType = map DescriptorProto_norm (FileDescriptorProto_messageType m),
     FileDescriptorProto_enumType = map EnumDescriptorProto_norm (FileDescriptorProto_enumType m),
     FileDescriptorProto_service = map ServiceDescriptorProto_norm (FileDescriptorProto_service m),
     FileDescriptorProto_extension = map FieldDescriptorProto_norm (FileDescriptorProto_extension m),
     FileDescriptorProto_options = map_option FileOptions_norm (FileDescriptorProto_options m),
     FileDescriptorProto_sourceCodeInfo = map_option SourceCodeInfo_norm (FileDescriptorProto_sourceCodeInfo m),
     FileDescriptorProto_syntax = Some (nullish (FileDescriptorProto_syntax m) ''''),
     FileDescriptorProto_edition = Some (nullish (FileDescriptorProto_edition m) (NInt 0))\<rparr>"

definition FileDescriptorProto_merge :: "FileDescriptorProto \<Rightarrow> FileDescriptorProto \<Rightarrow> FileDescriptorProto" where
  "FileDescriptorProto_merge m0 m = m0\<lparr>
     FileDescriptorProto_name := (if FileDescriptorProto_name m = None \<or> FileDescriptorProto_name m = Some '''' then FileDescriptorProto_name m0 else FileDescriptorProto_name m),
     FileDescriptorProto_package := (if FileDescriptorProto_package m = None \<or> FileDescriptorProto_package m = Some '''' then FileDescriptorProto_package m0 else FileDescriptorProto_package m),
     FileDescriptorProto_dependency := FileDescriptorProto_dependency m0 @ FileDescriptorProto_dependency m,
     FileDescriptorProto_publicDependency := FileDescriptorProto_publicDependency m0 @ FileDescriptorProto_publicDependency m,
     FileDescriptorProto_weakDependency := FileDescriptorProto_weakDependency m0 @ FileDescriptorProto_weakDependency m,
     FileDescriptorProto_messageType := FileDescriptorProto_messageType m0 @ map DescriptorProto_norm (FileDescriptorProto_messageType m),
     FileDescriptorProto_enumType := FileDescriptorProto_enumType m0 @ map EnumDescriptorProto_norm (FileDescriptorProto_enumType m),
     FileDescriptorProto_service := FileDescriptorProto_service m0 @ map ServiceDescriptorProto_norm (FileDescriptorProto_service m),
     FileDescriptorProto_extension := FileDescriptorProto_extension m0 @ map FieldDescriptorProto_norm (FileDescriptorProto_extension m),
     FileDescriptorProto_options := (case FileDescriptorProto_options m of None \<Rightarrow> FileDescriptorProto_options m0 | Some v \<Rightarrow> Some (FileOptions_norm v)),
     FileDescriptorProto_sourceCodeInfo := (case FileDescriptorProto_sourceCodeInfo m of None \<Rightarrow> FileDescriptorProto_sourceCodeInfo m0 | Some v \<Rightarrow> Some (SourceCodeInfo_norm v)),
     FileDescriptorProto_syntax := (if FileDescriptorProto_syntax m = None \<or> FileDescriptorProto_syntax m = Some '''' then FileDescriptorProto_syntax m0 else FileDescriptorProto_syntax m),
     FileDescriptorProto_edition := (if FileDescriptorProto_edition m = None \<or> FileDescriptorProto_edition m = Some (NInt 0) then FileDescriptorProto_edition m0 else FileDescriptorProto_edition m)\<rparr>"

definition FileDescriptorProto_jnorm :: "FileDescriptorProto \<Rightarrow> FileDescriptorProto" where
  "FileDescriptorProto_jnorm m = \<lparr>
     FileDescriptorProto_name = Some (nullish (FileDescriptorProto_name m) ''''),
     FileDescriptorProto_package = Some (nullish (FileDescriptorProto_package m) ''''),
     FileDescriptorProto_dependency = FileDescriptorProto_dependency m,
     FileDescriptorProto_publicDependency = map js_round (FileDescriptorProto_publicDependency m),
     FileDescriptorProto_weakDependency = map js_round (FileDescriptorProto_weakDependency m),
     FileDescriptorProto_messageType = map DescriptorProto_jnorm (FileDescriptorProto_messageType m),
     FileDescriptorProto_enumType = map EnumDescriptorProto_jnorm (FileDescriptorProto_enumType m),
     FileDescriptorProto_service = map ServiceDescriptorProto_jnorm (FileDescriptorProto_service m),
     FileDescriptorProto_extension = map FieldDescriptorProto_jnorm (FileDescriptorProto_extension m),
     FileDescriptorProto_options = map_option FileOptions_jnorm (FileDescriptorProto_options m),
     FileDescriptorProto_sourceCodeInfo = map_option SourceCodeInfo_jnorm (FileDescriptorProto_sourceCodeInfo m),
     FileDescriptorProto_syntax = Some (nullish (FileDescriptorProto_syntax m) ''''),
     FileDescriptorProto_edition = Some (enum_json (NInt 0) Edition_value editionFromJSON editionToJSON (FileDescriptorProto_edition m))\<rparr>"

definition FileDescriptorSet_bytes :: "FileDescriptorSet \<Rightarrow> bytes" where
  "FileDescriptorSet_bytes m = concat [
     rep_msg_field 10 FileDescriptorProto_bytes (FileDescriptorSet_file m)]"

definition FileDescriptorSet_fits :: "FileDescriptorSet \<Rightarrow> bool" where
  "FileDescriptorSet_fits m \<longleftrightarrow> length (FileDescriptorSet_bytes m) < 2 ^ 32 \<and>
     list_all FileDescriptorProto_fits (FileDescriptorSet_file m)"

definition FileDescriptorSet_norm :: "FileDescriptorSet \<Rightarrow> FileDescriptorSet" where
  "FileDescriptorSet_norm m = \<lparr>
     FileDescriptorSet_file = map FileDescriptorProto_norm (FileDescriptorSet_file m)\<rparr>"

definition FileDescriptorSet_merge :: "FileDescriptorSet \<Rightarrow> FileDescriptorSet \<Rightarrow> FileDescriptorSet" where
  "FileDescriptorSet_merge m0 m = m0\<lparr>
     FileDescriptorSet_file := FileDescriptorSet_file m0 @ map FileDescriptorProto_norm (FileDescriptorSet_file m)\<rparr>"

definition FileDescriptorSet_jnorm :: "FileDescriptorSet \<Rightarrow> FileDescriptorSet" where
  "FileDescriptorSet_jnorm m = \<lparr>
     FileDescriptorSet_file = map FileDescriptorProto_jnorm (FileDescriptorSet_file m)\<rparr>"

section \<open>The codecs implement the wire form\<close>

context wire_laws
begin

lemma DescriptorProto_length:
  assumes "DescriptorProto_fits m"
  shows "length (other_field 10 '''' str_payload (DescriptorProto_name m)) < 2 ^ 32"
    and "length (rep_msg_field 18 FieldDescriptorProto_bytes (DescriptorProto_field m)) < 2 ^ 32"
    and "length (rep_msg_field 50 FieldDescriptorProto_bytes (DescriptorProto_extension m)) < 2 ^ 32"
    and "length (rep_msg_field 26 DescriptorProto_bytes (DescriptorProto_nestedType m)) < 2 ^ 32"
    and "length (rep_msg_field 34 EnumDescriptorProto_bytes (DescriptorProto_enumType m)) < 2 ^ 32"
    and "length (rep_msg_field 42 DescriptorProto_ExtensionRange_bytes (DescriptorProto_extensionRange m)) < 2 ^ 32"
    and "length (rep_msg_field 66 OneofDescriptorProto_bytes (DescriptorProto_oneofDecl m)) < 2 ^ 32"
    and "length (opt_msg_field 58 MessageOptions_bytes (DescriptorProto_options m)) < 2 ^ 32"
    and "length (rep_msg_field 74 DescriptorProto_ReservedRange_bytes (DescriptorProto_reservedRange m)) < 2 ^ 32"
    and "length (rep_str_field 82 (DescriptorProto_reservedName m)) < 2 ^ 32"
  using assms by (simp_all add: DescriptorProto_fits.simps [of m] DescriptorProto_bytes.simps [of m])

lemma DescriptorProto_field_fits:
  assumes "DescriptorProto_fits m" and "v \<in> set (DescriptorProto_field m)"
  shows "FieldDescriptorProto_fits v"
  using assms by (simp add: DescriptorProto_fits.simps [of m] list_all_iff)

lemma DescriptorProto_extension_fits:
  assumes "DescriptorProto_fits m" and "v \<in> set (DescriptorProto_extension m)"
  shows "FieldDescriptorProto_fits v"
  using assms by (simp add: DescriptorProto_fits.simps [of m] list_all_iff)

lemma DescriptorProto_nestedType_fits:
  assumes "DescriptorProto_fits m" and "v \<in> set (DescriptorProto_nestedType m)"
  shows "DescriptorProto_fits v"
  using assms by (simp add: DescriptorProto_fits.simps [of m] list_all_iff)

lemma DescriptorProto_enumType_fits:
  assumes "DescriptorProto_fits m" and "v \<in> set (DescriptorProto_enumType m)"
  shows "EnumDescriptorProto_fits v"
  using assms by (simp add: DescriptorProto_fits.simps [of m] list_all_iff)

lemma DescriptorProto_extensionRange_fits:
  assumes "DescriptorProto_fits m" and "v \<in> set (DescriptorProto_extensionRange m)"
  shows "DescriptorProto_ExtensionRange_fits v"
  using assms by (simp add: DescriptorProto_fits.simps [of m] list_all_iff)

lemma DescriptorProto_oneofDecl_fits:
  assumes "DescriptorProto_fits m" and "v \<in> set (DescriptorProto_oneofDecl m)"
  shows "OneofDescriptorProto_fits v"
  using assms by (simp add: DescriptorProto_fits.simps [of m] list_all_iff)

lemma DescriptorProto_options_fits:
  assumes "DescriptorProto_fits m" and "DescriptorProto_options m = Some v"
  shows "MessageOptions_fits v"
  using assms by (simp add: DescriptorProto_fits.simps [of m] list_all_iff)

lemma DescriptorProto_reservedRange_fits:
  assumes "DescriptorProto_fits m" and "v \<in> set (DescriptorProto_reservedRange m)"
  shows "DescriptorProto_ReservedRange_fits v"
  using assms by (simp add: DescriptorProto_fits.simps [of m] list_all_iff)

lemma DescriptorProto_writes: "DescriptorProto_fits m \<Longrightarrow> appends buf (DescriptorProto_encode W m) (DescriptorProto_bytes m)"
proof (induction m rule: DescriptorProto_bytes.induct)
  case (1 m)
  have IH: "appends buf (DescriptorProto_encode W v) (DescriptorProto_bytes v)" if "v \<in> set (DescriptorProto_nestedType m)" for v
    using 1 that DescriptorProto_nestedType_fits by blast
  show ?case
    unfolding DescriptorProto_encode.simps [of W m] DescriptorProto_bytes.simps [of m] concat.simps
    by (rule appends_run_Cons appends_run_Nil enc_other_str FieldDescriptorProto.enc_rep_sub enc_rep_msg_field EnumDescriptorProto.enc_rep_sub DescriptorProto_ExtensionRange.enc_rep_sub OneofDescriptorProto.enc_rep_sub MessageOptions.enc_opt_sub DescriptorProto_ReservedRange.enc_rep_sub enc_rep_str
        DescriptorProto_length [OF "1.prems"]
      | erule IH DescriptorProto_field_fits [OF "1.prems"] DescriptorProto_extension_fits [OF "1.prems"] DescriptorProto_enumType_fits [OF "1.prems"] DescriptorProto_extensionRange_fits [OF "1.prems"] DescriptorProto_oneofDecl_fits [OF "1.prems"] DescriptorProto_options_fits [OF "1.prems"] DescriptorProto_reservedRange_fits [OF "1.prems"])+
qed

lemma DescriptorProto_reads:
  shows "switch_reads (DescriptorProto_switch W dec) 10 (rString W) (store_some DescriptorProto_name_update)"
    and "switch_reads (DescriptorProto_switch W dec) 18 (read_message W (FieldDescriptorProto_decode W)) (push DescriptorProto_field_update)"
    and "switch_reads (DescriptorProto_switch W dec) 50 (read_message W (FieldDescriptorProto_decode W)) (push DescriptorProto_extension_update)"
    and "switch_reads (DescriptorProto_switch W dec) 26 (read_message W dec) (push DescriptorProto_nestedType_update)"
    and "switch_reads (DescriptorProto_switch W dec) 34 (read_message W (EnumDescriptorProto_decode W)) (push DescriptorProto_enumType_update)"
    and "switch_reads (DescriptorProto_switch W dec) 42 (read_message W (DescriptorProto_ExtensionRange_decode W)) (push DescriptorProto_extensionRange_update)"
    and "switch_reads (DescriptorProto_switch W dec) 66 (read_message W (OneofDescriptorProto_decode W)) (push DescriptorProto_oneofDecl_update)"
    and "switch_reads (DescriptorProto_switch W dec) 58 (read_message W (MessageOptions_decode W)) (store_some DescriptorProto_options_update)"
    and "switch_reads (DescriptorProto_switch W dec) 74 (read_message W (DescriptorProto_ReservedRange_decode W)) (push DescriptorProto_reservedRange_update)"
    and "switch_reads (DescriptorProto_switch W dec) 82 (rString W) (push DescriptorProto_reservedName_update)"
  by (auto simp: switch_reads_def switch_packs_def DescriptorProto_switch_def)

lemma DescriptorProto_good: "safe_decoder W valid k dec \<Longrightarrow> good_switch W valid k (DescriptorProto_switch W dec)"
  unfolding good_switch_def DescriptorProto_switch_def DescriptorProto_ReservedRange_decode_def MessageOptions_decode_def FieldDescriptorProto_decode_def OneofDescriptorProto_decode_def EnumDescriptorProto_decode_def DescriptorProto_ExtensionRange_decode_def
  by (auto intro!: good_step_case_read good_step_case_packed rString_safe rBool_safe rInt32_safe wide_safe safe_read_message [OF DescriptorProto_ReservedRange.dec_safe] safe_read_message [OF MessageOptions.dec_safe] safe_read_message [OF FieldDescriptorProto.dec_safe] safe_read_message [OF OneofDescriptorProto.dec_safe] safe_read_message [OF EnumDescriptorProto.dec_safe] safe_read_message [OF DescriptorProto_ExtensionRange.dec_safe]
      intro: safe_read_message)

lemma DescriptorProto_runs:
  assumes dec: "\<And>v. DescriptorProto_fits v \<Longrightarrow> decodes W valid rest k dec (DescriptorProto_bytes v) (DescriptorProto_norm v)" and fits: "DescriptorProto_fits m"
  shows "runs W valid rest k (DescriptorProto_switch W dec) (DescriptorProto_bytes m) (\<lambda>m0. DescriptorProto_merge m0 m)"
proof -
  have sub: "decodes W valid rest k dec (DescriptorProto_bytes v) (DescriptorProto_norm v)" if "v \<in> set (DescriptorProto_nestedType m)" for v
    by (rule dec [OF DescriptorProto_nestedType_fits [OF fits that]])
  show ?thesis
    unfolding DescriptorProto_bytes.simps [of m] concat.simps
    by (rule runs_cong,
      (rule runs_append runs_Nil read_other_str FieldDescriptorProto.read_rep_sub read_rep_msg_field EnumDescriptorProto.read_rep_sub DescriptorProto_ExtensionRange.read_rep_sub OneofDescriptorProto.read_rep_sub MessageOptions.read_opt_sub DescriptorProto_ReservedRange.read_rep_sub read_rep_str
         DescriptorProto_reads [unfolded DescriptorProto_ReservedRange_decode_def MessageOptions_decode_def FieldDescriptorProto_decode_def OneofDescriptorProto_decode_def EnumDescriptorProto_decode_def DescriptorProto_ExtensionRange_decode_def]
         DescriptorProto_length [OF fits]
      | erule sub DescriptorProto_field_fits [OF fits] DescriptorProto_extension_fits [OF fits] DescriptorProto_enumType_fits [OF fits] DescriptorProto_extensionRange_fits [OF fits] DescriptorProto_oneofDecl_fits [OF fits] DescriptorProto_options_fits [OF fits] DescriptorProto_reservedRange_fits [OF fits]
       | assumption | simp add: DescriptorProto_update_defs; fail)+,
      simp add: DescriptorProto_merge_def DescriptorProto_update_defs cong: option.case_cong if_cong)
qed

lemma DescriptorProto_switch_cong:
  assumes "valid r"
    and "\<And>r' len. valid r' \<Longrightarrow> bytes_left W r' \<le> bytes_left W r \<Longrightarrow> dec (Reader r') len = dec' (Reader r') len"
  shows "DescriptorProto_switch W dec tag m r = DescriptorProto_switch W dec' tag m r"
  using read_message_cong [of r dec dec', OF assms] by (simp add: DescriptorProto_switch_def case_read_def)

end

sublocale wire_laws \<subseteq> DescriptorProto: recursive_codec W buf valid rest "DescriptorProto_encode W" "DescriptorProto_switch W"
    createBaseDescriptorProto DescriptorProto_bytes DescriptorProto_fits DescriptorProto_norm DescriptorProto_merge
proof unfold_locales
  show "DescriptorProto_merge createBaseDescriptorProto m = DescriptorProto_norm m" for m
    by (simp add: DescriptorProto_merge_def DescriptorProto_norm.simps [of m] createBaseDescriptorProto_def merge_default
          cong: if_cong option.case_cong split del: if_split)
qed (auto simp: DescriptorProto_fits.simps intro: DescriptorProto_writes DescriptorProto_good DescriptorProto_runs DescriptorProto_switch_cong)

context wire_laws
begin

lemma FileDescriptorProto_length:
  assumes "FileDescriptorProto_fits m"
  shows "length (other_field 10 '''' str_payload (FileDescriptorProto_name m)) < 2 ^ 32"
    and "length (other_field 18 '''' str_payload (FileDescriptorProto_package m)) < 2 ^ 32"
    and "length (rep_str_field 26 (FileDescriptorProto_dependency m)) < 2 ^ 32"
    and "length (rep_msg_field 34 DescriptorProto_bytes (FileDescriptorProto_messageType m)) < 2 ^ 32"
    and "length (rep_msg_field 42 EnumDescriptorProto_bytes (FileDescriptorProto_enumType m)) < 2 ^ 32"
    and "length (rep_msg_field 50 ServiceDescriptorProto_bytes (FileDescriptorProto_service m)) < 2 ^ 32"
    and "length (rep_msg_field 58 FieldDescriptorProto_bytes (FileDescriptorProto_extension m)) < 2 ^ 32"
    and "length (opt_msg_field 66 FileOptions_bytes (FileDescriptorProto_options m)) < 2 ^ 32"
    and "length (opt_msg_field 74 SourceCodeInfo_bytes (FileDescriptorProto_sourceCodeInfo m)) < 2 ^ 32"
    and "length (other_field 98 '''' str_payload (FileDescriptorProto_syntax m)) < 2 ^ 32"
  using assms by (simp_all add: FileDescriptorProto_fits_def FileDescriptorProto_bytes_def)

lemma FileDescriptorProto_numbers:
  assumes "FileDescriptorProto_fits m"
  shows "list_all int32_ok (FileDescriptorProto_publicDependency m)"
    and "list_all int32_ok (FileDescriptorProto_weakDependency m)"
    and "pred_option int32_ok (FileDescriptorProto_edition m)"
  using assms by (simp_all add: FileDescriptorProto_fits_def)

lemma FileDescriptorProto_messageType_fits:
  assumes "FileDescriptorProto_fits m" and "v \<in> set (FileDescriptorProto_messageType m)"
  shows "DescriptorProto_fits v"
  using assms by (simp add: FileDescriptorProto_fits_def list_all_iff)

lemma FileDescriptorProto_enumType_fits:
  assumes "FileDescriptorProto_fits m" and "v \<in> set (FileDescriptorProto_enumType m)"
  shows "EnumDescriptorProto_fits v"
  using assms by (simp add: FileDescriptorProto_fits_def list_all_iff)

lemma FileDescriptorProto_service_fits:
  assumes "FileDescriptorProto_fits m" and "v \<in> set (FileDescriptorProto_service m)"
  shows "ServiceDescriptorProto_fits v"
  using assms by (simp add: FileDescriptorProto_fits_def list_all_iff)

lemma FileDescriptorProto_extension_fits:
  assumes "FileDescriptorProto_fits m" and "v \<in> set (FileDescriptorProto_extension m)"
  shows "FieldDescriptorProto_fits v"
  using assms by (simp add: FileDescriptorProto_fits_def list_all_iff)

lemma FileDescriptorProto_options_fits:
  assumes "FileDescriptorProto_fits m" and "FileDescriptorProto_options m = Some v"
  shows "FileOptions_fits v"
  using assms by (simp add: FileDescriptorProto_fits_def list_all_iff)

lemma FileDescriptorProto_sourceCodeInfo_fits:
  assumes "FileDescriptorProto_fits m" and "FileDescriptorProto_sourceCodeInfo m = Some v"
  shows "SourceCodeInfo_fits v"
  using assms by (simp add: FileDescriptorProto_fits_def list_all_iff)

lemma FileDescriptorProto_writes:
  assumes "FileDescriptorProto_fits m"
  shows "appends buf (FileDescriptorProto_encode W m) (FileDescriptorProto_bytes m)"
  unfolding FileDescriptorProto_encode_def FileDescriptorProto_bytes_def concat.simps
  by (rule appends_run_Cons appends_run_Nil enc_other_str enc_rep_str enc_unpacked DescriptorProto.enc_rep_sub EnumDescriptorProto.enc_rep_sub ServiceDescriptorProto.enc_rep_sub FieldDescriptorProto.enc_rep_sub FileOptions.enc_opt_sub SourceCodeInfo.enc_opt_sub enc_other_int
        FileDescriptorProto_length [OF assms] FileDescriptorProto_numbers [OF assms]
      | erule FileDescriptorProto_messageType_fits [OF assms] FileDescriptorProto_enumType_fits [OF assms] FileDescriptorProto_service_fits [OF assms] FileDescriptorProto_extension_fits [OF assms] FileDescriptorProto_options_fits [OF assms] FileDescriptorProto_sourceCodeInfo_fits [OF assms])+

lemma FileDescriptorProto_reads:
  shows "switch_reads (FileDescriptorProto_switch W) 10 (rString W) (store_some FileDescriptorProto_name_update)"
    and "switch_reads (FileDescriptorProto_switch W) 18 (rString W) (store_some FileDescriptorProto_package_update)"
    and "switch_reads (FileDescriptorProto_switch W) 26 (rString W) (push FileDescriptorProto_dependency_update)"
    and "switch_packs W (FileDescriptorProto_switch W) 80 82 (rInt32 W) (push FileDescriptorProto_publicDependency_update)"
    and "switch_packs W (FileDescriptorProto_switch W) 88 90 (rInt32 W) (push FileDescriptorProto_weakDependency_update)"
    and "switch_reads (FileDescriptorProto_switch W) 34 (read_message W (DescriptorProto_decode W)) (push FileDescriptorProto_messageType_update)"
    and "switch_reads (FileDescriptorProto_switch W) 42 (read_message W (EnumDescriptorProto_decode W)) (push FileDescriptorProto_enumType_update)"
    and "switch_reads (FileDescriptorProto_switch W) 50 (read_message W (ServiceDescriptorProto_decode W)) (push FileDescriptorProto_service_update)"
    and "switch_reads (FileDescriptorProto_switch W) 58 (read_message W (FieldDescriptorProto_decode W)) (push FileDescriptorProto_extension_update)"
    and "switch_reads (FileDescriptorProto_switch W) 66 (read_message W (FileOptions_decode W)) (store_some FileDescriptorProto_options_update)"
    and "switch_reads (FileDescriptorProto_switch W) 74 (read_message W (SourceCodeInfo_decode W)) (store_some FileDescriptorProto_sourceCodeInfo_update)"
    and "switch_reads (FileDescriptorProto_switch W) 98 (rString W) (store_some FileDescriptorProto_syntax_update)"
    and "switch_reads (FileDescriptorProto_switch W) 112 (rInt32 W) (store_some FileDescriptorProto_edition_update)"
  by (auto simp: switch_reads_def switch_packs_def FileDescriptorProto_switch_def)

lemma FileDescriptorProto_good: "good_switch W valid k (FileDescriptorProto_switch W)"
  unfolding good_switch_def FileDescriptorProto_switch_def SourceCodeInfo_decode_def FileOptions_decode_def FieldDescriptorProto_decode_def EnumDescriptorProto_decode_def ServiceDescriptorProto_decode_def DescriptorProto_decode_def
  by (auto intro!: good_step_case_read good_step_case_packed rString_safe rBool_safe rInt32_safe wide_safe safe_read_message [OF SourceCodeInfo.dec_safe] safe_read_message [OF FileOptions.dec_safe] safe_read_message [OF FieldDescriptorProto.dec_safe] safe_read_message [OF EnumDescriptorProto.dec_safe] safe_read_message [OF ServiceDescriptorProto.dec_safe] safe_read_message [OF DescriptorProto.dec_safe])

lemma FileDescriptorProto_runs:
  assumes "FileDescriptorProto_fits m"
  shows "runs W valid rest k (FileDescriptorProto_switch W) (FileDescriptorProto_bytes m) (\<lambda>m0. FileDescriptorProto_merge m0 m)"
  unfolding FileDescriptorProto_bytes_def concat.simps
  by (rule runs_cong,
      (rule runs_append runs_Nil read_other_str read_rep_str read_unpacked DescriptorProto.read_rep_sub EnumDescriptorProto.read_rep_sub ServiceDescriptorProto.read_rep_sub FieldDescriptorProto.read_rep_sub FileOptions.read_opt_sub SourceCodeInfo.read_opt_sub read_other_int
         FileDescriptorProto_reads [unfolded SourceCodeInfo_decode_def FileOptions_decode_def FieldDescriptorProto_decode_def EnumDescriptorProto_decode_def ServiceDescriptorProto_decode_def DescriptorProto_decode_def]
         FileDescriptorProto_length [OF assms] FileDescriptorProto_numbers [OF assms]
      | erule FileDescriptorProto_messageType_fits [OF assms] FileDescriptorProto_enumType_fits [OF assms] FileDescriptorProto_service_fits [OF assms] FileDescriptorProto_extension_fits [OF assms] FileDescriptorProto_options_fits [OF assms] FileDescriptorProto_sourceCodeInfo_fits [OF assms]
       | assumption | simp; fail)+,
      simp add: FileDescriptorProto_merge_def)

end

sublocale wire_laws \<subseteq> FileDescriptorProto: switch_codec W buf valid rest "FileDescriptorProto_encode W" "FileDescriptorProto_switch W"
    createBaseFileDescriptorProto FileDescriptorProto_bytes FileDescriptorProto_fits FileDescriptorProto_norm FileDescriptorProto_merge
proof unfold_locales
  show "FileDescriptorProto_merge createBaseFileDescriptorProto m = FileDescriptorProto_norm m" for m
    by (simp add: FileDescriptorProto_merge_def FileDescriptorProto_norm_def createBaseFileDescriptorProto_def merge_default
          cong: if_cong option.case_cong split del: if_split)
qed (simp_all add: FileDescriptorProto_writes FileDescriptorProto_good FileDescriptorProto_runs, simp add: FileDescriptorProto_fits_def)

context wire_laws
begin

lemma FileDescriptorSet_length:
  assumes "FileDescriptorSet_fits m"
  shows "length (rep_msg_field 10 FileDescriptorProto_bytes (FileDescriptorSet_file m)) < 2 ^ 32"
  using assms by (simp_all add: FileDescriptorSet_fits_def FileDescriptorSet_bytes_def)

lemma FileDescriptorSet_file_fits:
  assumes "FileDescriptorSet_fits m" and "v \<in> set (FileDescriptorSet_file m)"
  shows "FileDescriptorProto_fits v"
  using assms by (simp add: FileDescriptorSet_fits_def list_all_iff)

lemma FileDescriptorSet_writes:
  assumes "FileDescriptorSet_fits m"
  shows "appends buf (FileDescriptorSet_encode W m) (FileDescriptorSet_bytes m)"
  unfolding FileDescriptorSet_encode_def FileDescriptorSet_bytes_def concat.simps
  by (rule appends_run_Cons appends_run_Nil FileDescriptorProto.enc_rep_sub
        FileDescriptorSet_length [OF assms]
      | erule FileDescriptorSet_file_fits [OF assms])+

lemma FileDescriptorSet_reads:
  shows "switch_reads (FileDescriptorSet_switch W) 10 (read_message W (FileDescriptorProto_decode W)) (push FileDescriptorSet_file_update)"
  by (auto simp: switch_reads_def switch_packs_def FileDescriptorSet_switch_def)

lemma FileDescriptorSet_good: "good_switch W valid k (FileDescriptorSet_switch W)"
  unfolding good_switch_def FileDescriptorSet_switch_def FileDescriptorProto_decode_def
  by (auto intro!: good_step_case_read good_step_case_packed rString_safe rBool_safe rInt32_safe wide_safe safe_read_message [OF FileDescriptorProto.dec_safe])

lemma FileDescriptorSet_runs:
  assumes "FileDescriptorSet_fits m"
  shows "runs W valid rest k (FileDescriptorSet_switch W) (FileDescriptorSet_bytes m) (\<lambda>m0. FileDescriptorSet_merge m0 m)"
  unfolding FileDescriptorSet_bytes_def concat.simps
  by (rule runs_cong,
      (rule runs_append runs_Nil FileDescriptorProto.read_rep_sub
         FileDescriptorSet_reads [unfolded FileDescriptorProto_decode_def]
         FileDescriptorSet_length [OF assms]
      | erule FileDescriptorSet_file_fits [OF assms]
       | assumption | simp; fail)+,
      simp add: FileDescriptorSet_merge_def)

end

sublocale wire_laws \<subseteq> FileDescriptorSet: switch_codec W buf valid rest "FileDescriptorSet_encode W" "FileDescriptorSet_switch W"
    createBaseFileDescriptorSet FileDescriptorSet_bytes FileDescriptorSet_fits FileDescriptorSet_norm FileDescriptorSet_merge
proof unfold_locales
  show "FileDescriptorSet_merge createBaseFileDescriptorSet m = FileDescriptorSet_norm m" for m
    by (simp add: FileDescriptorSet_merge_def FileDescriptorSet_norm_def createBaseFileDescriptorSet_def merge_default
          cong: if_cong option.case_cong split del: if_split)
qed (simp_all add: FileDescriptorSet_writes FileDescriptorSet_good FileDescriptorSet_runs, simp add: FileDescriptorSet_fits_def)

section \<open>JSON forms read back\<close>

context base64_laws
begin

lemma DescriptorProto_json_roundtrip: "DescriptorProto_fromJSON H (DescriptorProto_toJSON H m) = Inr (DescriptorProto_jnorm m)"
proof (induction m rule: DescriptorProto_jnorm.induct)
  case (1 m)
  have sub: "read_list (Some (put_if (DescriptorProto_nestedType m \<noteq> []) (JArr (map (DescriptorProto_toJSON H) (DescriptorProto_nestedType m)))))
      (DescriptorProto_fromJSON H) (Inr []) = Inr (map DescriptorProto_jnorm (DescriptorProto_nestedType m))"
    using 1 by (rule read_list_map)
  show ?case
    unfolding DescriptorProto_toJSON.simps [of H m] DescriptorProto_jnorm.simps [of m]
    by (subst DescriptorProto_fromJSON.simps) (simp add: json_members read_bytes DescriptorProto_ReservedRange_json.json_sub MessageOptions_json.json_sub FieldDescriptorProto_json.json_sub OneofDescriptorProto_json.json_sub EnumDescriptorProto_json.json_sub DescriptorProto_ExtensionRange_json.json_sub sub)
qed

end

sublocale base64_laws \<subseteq> DescriptorProto_json: json_codec "DescriptorProto_toJSON H" "DescriptorProto_fromJSON H" DescriptorProto_jnorm
  by unfold_locales (rule DescriptorProto_json_roundtrip, simp add: DescriptorProto_toJSON.simps)

sublocale base64_laws \<subseteq> FileDescriptorProto_json: json_codec "FileDescriptorProto_toJSON H" "FileDescriptorProto_fromJSON H" FileDescriptorProto_jnorm
proof unfold_locales
  show "FileDescriptorProto_fromJSON H (FileDescriptorProto_toJSON H m) = Inr (FileDescriptorProto_jnorm m)" for m
    unfolding FileDescriptorProto_fromJSON_def FileDescriptorProto_toJSON_def FileDescriptorProto_jnorm_def
    by (simp add: json_members read_bytes SourceCodeInfo_json.json_sub FileOptions_json.json_sub FieldDescriptorProto_json.json_sub EnumDescriptorProto_json.json_sub ServiceDescriptorProto_json.json_sub DescriptorProto_json.json_sub)
qed (simp add: FileDescriptorProto_toJSON_def)

sublocale base64_laws \<subseteq> FileDescriptorSet_json: json_codec "FileDescriptorSet_toJSON H" "FileDescriptorSet_fromJSON H" FileDescriptorSet_jnorm
proof unfold_locales
  show "FileDescriptorSet_fromJSON H (FileDescriptorSet_toJSON H m) = Inr (FileDescriptorSet_jnorm m)" for m
    unfolding FileDescriptorSet_fromJSON_def FileDescriptorSet_toJSON_def FileDescriptorSet_jnorm_def
    by (simp add: json_members read_bytes FileDescriptorProto_json.json_sub)
qed (simp add: FileDescriptorSet_toJSON_def)

end
