(* ===== verification/Descriptor_Stability.thy ===== *)
theory Descriptor_Stability
  imports Descriptor_Files
begin

text \<open>
  What a descriptor message that has been read is worth. \<open>M_bytes_norm\<close> and \<open>M_fits_norm\<close>: it can
  be written again, as the same bytes. \<open>M_known\<close> says that the enum numbers in a message
  are declared; then \<open>M_jnorm_norm\<close>: the JSON form and the wire form read back as the same message.
\<close>

section \<open>Fields\<close>

lemma other_field_nullish: "other_field t d p (Some (nullish x d)) = other_field t d p x"
  by (cases x) (simp_all add: other_field_def nullish_def)

lemma opt_msg_field_norm:
  "(\<And>v. body (f v) = body v) \<Longrightarrow> opt_msg_field t body (map_option f x) = opt_msg_field t body x"
  by (cases x) (simp_all add: opt_msg_field_def)

lemma rep_msg_field_norm:
  "(\<And>v. v \<in> set xs \<Longrightarrow> body (f v) = body v) \<Longrightarrow> rep_msg_field t body (map f xs) = rep_msg_field t body xs"
  by (auto simp: rep_msg_field_def intro!: arg_cong [of _ _ concat])

lemma pred_nullish: "P d \<Longrightarrow> pred_option P x \<Longrightarrow> P (nullish x d)"
  by (cases x) (simp_all add: nullish_def)

lemma pred_option_keeps: "(\<And>v. P v \<Longrightarrow> P (f v)) \<Longrightarrow> pred_option P x \<Longrightarrow> pred_option P (map_option f x)"
  by (cases x) simp_all

lemma list_all_keeps: "(\<And>v. v \<in> set xs \<Longrightarrow> P v \<Longrightarrow> P (f v)) \<Longrightarrow> list_all P xs \<Longrightarrow> list_all P (map f xs)"
  by (simp add: list_all_iff)

lemma double_ok_0: "double_ok (NInt 0)"
  by (rule double_ok_int) simp

lemma map_option_agree:
  "(\<And>v. P v \<Longrightarrow> f v = g v) \<Longrightarrow> pred_option P x \<Longrightarrow> map_option f x = map_option g x"
  "(\<And>v. P v \<Longrightarrow> Q v \<Longrightarrow> f v = g v) \<Longrightarrow> pred_option P x \<Longrightarrow> pred_option Q x \<Longrightarrow> map_option f x = map_option g x"
  by (cases x; simp)+

lemma map_agree:
  "(\<And>v. P v \<Longrightarrow> f v = g v) \<Longrightarrow> list_all P xs \<Longrightarrow> map f xs = map g xs"
  "(\<And>v. P v \<Longrightarrow> Q v \<Longrightarrow> f v = g v) \<Longrightarrow> list_all P xs \<Longrightarrow> list_all Q xs \<Longrightarrow> map f xs = map g xs"
  by (simp_all add: list_all_iff)

lemma round_ok: "int32_ok n \<Longrightarrow> js_round n = n" "uint64_ok n \<Longrightarrow> js_round n = n" "int64_ok n \<Longrightarrow> js_round n = n"
  by (cases n; simp)+

lemma round_nullish:
  "int32_ok d \<Longrightarrow> pred_option int32_ok x \<Longrightarrow> js_round (nullish x d) = nullish x d"
  "uint64_ok d \<Longrightarrow> pred_option uint64_ok x \<Longrightarrow> js_round (nullish x d) = nullish x d"
  "int64_ok d \<Longrightarrow> pred_option int64_ok x \<Longrightarrow> js_round (nullish x d) = nullish x d"
  by (rule round_ok, erule (1) pred_nullish)+

lemma map_round: "list_all int32_ok xs \<Longrightarrow> map js_round xs = xs"
  by (simp add: list_all_iff map_idI round_ok)

lemma partial_option:
  "(\<And>v. f (g v) = g v) \<Longrightarrow> map_option f (map_option g x) = map_option g x"
  by (cases x) simp_all

lemma partial_list:
  "(\<And>vs v. x = Some vs \<Longrightarrow> v \<in> set vs \<Longrightarrow> f (g v) = g v) \<Longrightarrow>
   map f (nullish (map_option (map g) x) []) = nullish (map_option (map g) x) []"
  by (cases x) (simp_all add: nullish_def)

section \<open>Declared enum numbers\<close>

definition declared :: "('e \<Rightarrow> int) \<Rightarrow> jsnum \<Rightarrow> bool" where
  "declared val n \<longleftrightarrow> (\<exists>e. n = NInt (val e))"

context json_enum
begin

lemma json_declared: "pred_option (declared val) x \<Longrightarrow> enum_json d val fromJ toJ x = nullish x d"
  by (cases x) (auto simp: enum_json_def nullish_def declared_def from_name)

lemma json_declared_list: "list_all (declared val) es \<Longrightarrow> map (\<lambda>e. NInt (val (fromJ (JStr (toJ e))))) es = es"
  by (auto simp: list_all_iff declared_def from_name intro!: map_idI)

end

section \<open>Written again\<close>

lemma UninterpretedOption_NamePart_bytes_norm: "UninterpretedOption_NamePart_bytes (UninterpretedOption_NamePart_norm m) = UninterpretedOption_NamePart_bytes m"
  unfolding UninterpretedOption_NamePart_bytes_def by (simp add: UninterpretedOption_NamePart_norm_def other_field_nullish)

lemma UninterpretedOption_NamePart_fits_norm: "UninterpretedOption_NamePart_fits m \<Longrightarrow> UninterpretedOption_NamePart_fits (UninterpretedOption_NamePart_norm m)"
  unfolding UninterpretedOption_NamePart_fits_def UninterpretedOption_NamePart_bytes_norm by (simp add: UninterpretedOption_NamePart_norm_def pred_nullish double_ok_0)

lemma FeatureSet_bytes_norm: "FeatureSet_bytes (FeatureSet_norm m) = FeatureSet_bytes m"
  unfolding FeatureSet_bytes_def by (simp add: FeatureSet_norm_def other_field_nullish)

lemma FeatureSet_fits_norm: "FeatureSet_fits m \<Longrightarrow> FeatureSet_fits (FeatureSet_norm m)"
  unfolding FeatureSet_fits_def FeatureSet_bytes_norm by (simp add: FeatureSet_norm_def pred_nullish double_ok_0)

lemma FeatureSetDefaults_FeatureSetEditionDefault_bytes_norm: "FeatureSetDefaults_FeatureSetEditionDefault_bytes (FeatureSetDefaults_FeatureSetEditionDefault_norm m) = FeatureSetDefaults_FeatureSetEditionDefault_bytes m"
  unfolding FeatureSetDefaults_FeatureSetEditionDefault_bytes_def by (simp add: FeatureSetDefaults_FeatureSetEditionDefault_norm_def other_field_nullish opt_msg_field_norm [where body = FeatureSet_bytes and f = FeatureSet_norm, OF FeatureSet_bytes_norm] rep_msg_field_norm [where body = FeatureSet_bytes and f = FeatureSet_norm, OF FeatureSet_bytes_norm])

lemma FeatureSetDefaults_FeatureSetEditionDefault_fits_norm: "FeatureSetDefaults_FeatureSetEditionDefault_fits m \<Longrightarrow> FeatureSetDefaults_FeatureSetEditionDefault_fits (FeatureSetDefaults_FeatureSetEditionDefault_norm m)"
  unfolding FeatureSetDefaults_FeatureSetEditionDefault_fits_def FeatureSetDefaults_FeatureSetEditionDefault_bytes_norm by (simp add: FeatureSetDefaults_FeatureSetEditionDefault_norm_def pred_nullish double_ok_0 pred_option_keeps [where P = FeatureSet_fits and f = FeatureSet_norm, OF FeatureSet_fits_norm] list_all_keeps [where P = FeatureSet_fits and f = FeatureSet_norm, OF FeatureSet_fits_norm])

lemma FeatureSetDefaults_bytes_norm: "FeatureSetDefaults_bytes (FeatureSetDefaults_norm m) = FeatureSetDefaults_bytes m"
  unfolding FeatureSetDefaults_bytes_def by (simp add: FeatureSetDefaults_norm_def other_field_nullish opt_msg_field_norm [where body = FeatureSetDefaults_FeatureSetEditionDefault_bytes and f = FeatureSetDefaults_FeatureSetEditionDefault_norm, OF FeatureSetDefaults_FeatureSetEditionDefault_bytes_norm] rep_msg_field_norm [where body = FeatureSetDefaults_FeatureSetEditionDefault_bytes and f = FeatureSetDefaults_FeatureSetEditionDefault_norm, OF FeatureSetDefaults_FeatureSetEditionDefault_bytes_norm])

lemma FeatureSetDefaults_fits_norm: "FeatureSetDefaults_fits m \<Longrightarrow> FeatureSetDefaults_fits (FeatureSetDefaults_norm m)"
  unfolding FeatureSetDefaults_fits_def FeatureSetDefaults_bytes_norm by (simp add: FeatureSetDefaults_norm_def pred_nullish double_ok_0 pred_option_keeps [where P = FeatureSetDefaults_FeatureSetEditionDefault_fits and f = FeatureSetDefaults_FeatureSetEditionDefault_norm, OF FeatureSetDefaults_FeatureSetEditionDefault_fits_norm] list_all_keeps [where P = FeatureSetDefaults_FeatureSetEditionDefault_fits and f = FeatureSetDefaults_FeatureSetEditionDefault_norm, OF FeatureSetDefaults_FeatureSetEditionDefault_fits_norm])

lemma FieldOptions_EditionDefault_bytes_norm: "FieldOptions_EditionDefault_bytes (FieldOptions_EditionDefault_norm m) = FieldOptions_EditionDefault_bytes m"
  unfolding FieldOptions_EditionDefault_bytes_def by (simp add: FieldOptions_EditionDefault_norm_def other_field_nullish)

lemma FieldOptions_EditionDefault_fits_norm: "FieldOptions_EditionDefault_fits m \<Longrightarrow> FieldOptions_EditionDefault_fits (FieldOptions_EditionDefault_norm m)"
  unfolding FieldOptions_EditionDefault_fits_def FieldOptions_EditionDefault_bytes_norm by (simp add: FieldOptions_EditionDefault_norm_def pred_nullish double_ok_0)

lemma FieldOptions_FeatureSupport_bytes_norm: "FieldOptions_FeatureSupport_bytes (FieldOptions_FeatureSupport_norm m) = FieldOptions_FeatureSupport_bytes m"
  unfolding FieldOptions_FeatureSupport_bytes_def by (simp add: FieldOptions_FeatureSupport_norm_def other_field_nullish)

lemma FieldOptions_FeatureSupport_fits_norm: "FieldOptions_FeatureSupport_fits m \<Longrightarrow> FieldOptions_FeatureSupport_fits (FieldOptions_FeatureSupport_norm m)"
  unfolding FieldOptions_FeatureSupport_fits_def FieldOptions_FeatureSupport_bytes_norm by (simp add: FieldOptions_FeatureSupport_norm_def pred_nullish double_ok_0)

lemma DescriptorProto_ReservedRange_bytes_norm: "DescriptorProto_ReservedRange_bytes (DescriptorProto_ReservedRange_norm m) = DescriptorProto_ReservedRange_bytes m"
  unfolding DescriptorProto_ReservedRange_bytes_def by (simp add: DescriptorProto_ReservedRange_norm_def other_field_nullish)

lemma DescriptorProto_ReservedRange_fits_norm: "DescriptorProto_ReservedRange_fits m \<Longrightarrow> DescriptorProto_ReservedRange_fits (DescriptorProto_ReservedRange_norm m)"
  unfolding DescriptorProto_ReservedRange_fits_def DescriptorProto_ReservedRange_bytes_norm by (simp add: DescriptorProto_ReservedRange_norm_def pred_nullish double_ok_0)

lemma EnumDescriptorProto_EnumReservedRange_bytes_norm: "EnumDescriptorProto_EnumReservedRange_bytes (EnumDescriptorProto_EnumReservedRange_norm m) = EnumDescriptorProto_EnumReservedRange_bytes m"
  unfolding EnumDescriptorProto_EnumReservedRange_bytes_def by (simp add: EnumDescriptorProto_EnumReservedRange_norm_def other_field_nullish)

lemma EnumDescriptorProto_EnumReservedRange_fits_norm: "EnumDescriptorProto_EnumReservedRange_fits m \<Longrightarrow> EnumDescriptorProto_EnumReservedRange_fits (EnumDescriptorProto_EnumReservedRange_norm m)"
  unfolding EnumDescriptorProto_EnumReservedRange_fits_def EnumDescriptorProto_EnumReservedRange_bytes_norm by (simp add: EnumDescriptorProto_EnumReservedRange_norm_def pred_nullish double_ok_0)

lemma ExtensionRangeOptions_Declaration_bytes_norm: "ExtensionRangeOptions_Declaration_bytes (ExtensionRangeOptions_Declaration_norm m) = ExtensionRangeOptions_Declaration_bytes m"
  unfolding ExtensionRangeOptions_Declaration_bytes_def by (simp add: ExtensionRangeOptions_Declaration_norm_def other_field_nullish)

lemma ExtensionRangeOptions_Declaration_fits_norm: "ExtensionRangeOptions_Declaration_fits m \<Longrightarrow> ExtensionRangeOptions_Declaration_fits (ExtensionRangeOptions_Declaration_norm m)"
  unfolding ExtensionRangeOptions_Declaration_fits_def ExtensionRangeOptions_Declaration_bytes_norm by (simp add: ExtensionRangeOptions_Declaration_norm_def pred_nullish double_ok_0)

lemma SourceCodeInfo_Location_bytes_norm: "SourceCodeInfo_Location_bytes (SourceCodeInfo_Location_norm m) = SourceCodeInfo_Location_bytes m"
  unfolding SourceCodeInfo_Location_bytes_def by (simp add: SourceCodeInfo_Location_norm_def other_field_nullish)

lemma SourceCodeInfo_Location_fits_norm: "SourceCodeInfo_Location_fits m \<Longrightarrow> SourceCodeInfo_Location_fits (SourceCodeInfo_Location_norm m)"
  unfolding SourceCodeInfo_Location_fits_def SourceCodeInfo_Location_bytes_norm by (simp add: SourceCodeInfo_Location_norm_def pred_nullish double_ok_0)

lemma SourceCodeInfo_bytes_norm: "SourceCodeInfo_bytes (SourceCodeInfo_norm m) = SourceCodeInfo_bytes m"
  unfolding SourceCodeInfo_bytes_def by (simp add: SourceCodeInfo_norm_def other_field_nullish opt_msg_field_norm [where body = SourceCodeInfo_Location_bytes and f = SourceCodeInfo_Location_norm, OF SourceCodeInfo_Location_bytes_norm] rep_msg_field_norm [where body = SourceCodeInfo_Location_bytes and f = SourceCodeInfo_Location_norm, OF SourceCodeInfo_Location_bytes_norm])

lemma SourceCodeInfo_fits_norm: "SourceCodeInfo_fits m \<Longrightarrow> SourceCodeInfo_fits (SourceCodeInfo_norm m)"
  unfolding SourceCodeInfo_fits_def SourceCodeInfo_bytes_norm by (simp add: SourceCodeInfo_norm_def pred_nullish double_ok_0 pred_option_keeps [where P = SourceCodeInfo_Location_fits and f = SourceCodeInfo_Location_norm, OF SourceCodeInfo_Location_fits_norm] list_all_keeps [where P = SourceCodeInfo_Location_fits and f = SourceCodeInfo_Location_norm, OF SourceCodeInfo_Location_fits_norm])

lemma GeneratedCodeInfo_Annotation_bytes_norm: "GeneratedCodeInfo_Annotation_bytes (GeneratedCodeInfo_Annotation_norm m) = GeneratedCodeInfo_Annotation_bytes m"
  unfolding GeneratedCodeInfo_Annotation_bytes_def by (simp add: GeneratedCodeInfo_Annotation_norm_def other_field_nullish)

lemma GeneratedCodeInfo_Annotation_fits_norm: "GeneratedCodeInfo_Annotation_fits m \<Longrightarrow> GeneratedCodeInfo_Annotation_fits (GeneratedCodeInfo_Annotation_norm m)"
  unfolding GeneratedCodeInfo_Annotation_fits_def GeneratedCodeInfo_Annotation_bytes_norm by (simp add: GeneratedCodeInfo_Annotation_norm_def pred_nullish double_ok_0)

lemma GeneratedCodeInfo_bytes_norm: "GeneratedCodeInfo_bytes (GeneratedCodeInfo_norm m) = GeneratedCodeInfo_bytes m"
  unfolding GeneratedCodeInfo_bytes_def by (simp add: GeneratedCodeInfo_norm_def other_field_nullish opt_msg_field_norm [where body = GeneratedCodeInfo_Annotation_bytes and f = GeneratedCodeInfo_Annotation_norm, OF GeneratedCodeInfo_Annotation_bytes_norm] rep_msg_field_norm [where body = GeneratedCodeInfo_Annotation_bytes and f = GeneratedCodeInfo_Annotation_norm, OF GeneratedCodeInfo_Annotation_bytes_norm])

lemma GeneratedCodeInfo_fits_norm: "GeneratedCodeInfo_fits m \<Longrightarrow> GeneratedCodeInfo_fits (GeneratedCodeInfo_norm m)"
  unfolding GeneratedCodeInfo_fits_def GeneratedCodeInfo_bytes_norm by (simp add: GeneratedCodeInfo_norm_def pred_nullish double_ok_0 pred_option_keeps [where P = GeneratedCodeInfo_Annotation_fits and f = GeneratedCodeInfo_Annotation_norm, OF GeneratedCodeInfo_Annotation_fits_norm] list_all_keeps [where P = GeneratedCodeInfo_Annotation_fits and f = GeneratedCodeInfo_Annotation_norm, OF GeneratedCodeInfo_Annotation_fits_norm])

lemma UninterpretedOption_bytes_norm: "UninterpretedOption_bytes (UninterpretedOption_norm m) = UninterpretedOption_bytes m"
  unfolding UninterpretedOption_bytes_def by (simp add: UninterpretedOption_norm_def other_field_nullish opt_msg_field_norm [where body = UninterpretedOption_NamePart_bytes and f = UninterpretedOption_NamePart_norm, OF UninterpretedOption_NamePart_bytes_norm] rep_msg_field_norm [where body = UninterpretedOption_NamePart_bytes and f = UninterpretedOption_NamePart_norm, OF UninterpretedOption_NamePart_bytes_norm])

lemma UninterpretedOption_fits_norm: "UninterpretedOption_fits m \<Longrightarrow> UninterpretedOption_fits (UninterpretedOption_norm m)"
  unfolding UninterpretedOption_fits_def UninterpretedOption_bytes_norm by (simp add: UninterpretedOption_norm_def pred_nullish double_ok_0 pred_option_keeps [where P = UninterpretedOption_NamePart_fits and f = UninterpretedOption_NamePart_norm, OF UninterpretedOption_NamePart_fits_norm] list_all_keeps [where P = UninterpretedOption_NamePart_fits and f = UninterpretedOption_NamePart_norm, OF UninterpretedOption_NamePart_fits_norm])

lemma OneofOptions_bytes_norm: "OneofOptions_bytes (OneofOptions_norm m) = OneofOptions_bytes m"
  unfolding OneofOptions_bytes_def by (simp add: OneofOptions_norm_def other_field_nullish opt_msg_field_norm [where body = FeatureSet_bytes and f = FeatureSet_norm, OF FeatureSet_bytes_norm] rep_msg_field_norm [where body = FeatureSet_bytes and f = FeatureSet_norm, OF FeatureSet_bytes_norm] opt_msg_field_norm [where body = UninterpretedOption_bytes and f = UninterpretedOption_norm, OF UninterpretedOption_bytes_norm] rep_msg_field_norm [where body = UninterpretedOption_bytes and f = UninterpretedOption_norm, OF UninterpretedOption_bytes_norm])

lemma OneofOptions_fits_norm: "OneofOptions_fits m \<Longrightarrow> OneofOptions_fits (OneofOptions_norm m)"
  unfolding OneofOptions_fits_def OneofOptions_bytes_norm by (simp add: OneofOptions_norm_def pred_nullish double_ok_0 pred_option_keeps [where P = FeatureSet_fits and f = FeatureSet_norm, OF FeatureSet_fits_norm] list_all_keeps [where P = FeatureSet_fits and f = FeatureSet_norm, OF FeatureSet_fits_norm] pred_option_keeps [where P = UninterpretedOption_fits and f = UninterpretedOption_norm, OF UninterpretedOption_fits_norm] list_all_keeps [where P = UninterpretedOption_fits and f = UninterpretedOption_norm, OF UninterpretedOption_fits_norm])

lemma EnumOptions_bytes_norm: "EnumOptions_bytes (EnumOptions_norm m) = EnumOptions_bytes m"
  unfolding EnumOptions_bytes_def by (simp add: EnumOptions_norm_def other_field_nullish opt_msg_field_norm [where body = FeatureSet_bytes and f = FeatureSet_norm, OF FeatureSet_bytes_norm] rep_msg_field_norm [where body = FeatureSet_bytes and f = FeatureSet_norm, OF FeatureSet_bytes_norm] opt_msg_field_norm [where body = UninterpretedOption_bytes and f = UninterpretedOption_norm, OF UninterpretedOption_bytes_norm] rep_msg_field_norm [where body = UninterpretedOption_bytes and f = UninterpretedOption_norm, OF UninterpretedOption_bytes_norm])

lemma EnumOptions_fits_norm: "EnumOptions_fits m \<Longrightarrow> EnumOptions_fits (EnumOptions_norm m)"
  unfolding EnumOptions_fits_def EnumOptions_bytes_norm by (simp add: EnumOptions_norm_def pred_nullish double_ok_0 pred_option_keeps [where P = FeatureSet_fits and f = FeatureSet_norm, OF FeatureSet_fits_norm] list_all_keeps [where P = FeatureSet_fits and f = FeatureSet_norm, OF FeatureSet_fits_norm] pred_option_keeps [where P = UninterpretedOption_fits and f = UninterpretedOption_norm, OF UninterpretedOption_fits_norm] list_all_keeps [where P = UninterpretedOption_fits and f = UninterpretedOption_norm, OF UninterpretedOption_fits_norm])

lemma EnumValueOptions_bytes_norm: "EnumValueOptions_bytes (EnumValueOptions_norm m) = EnumValueOptions_bytes m"
  unfolding EnumValueOptions_bytes_def by (simp add: EnumValueOptions_norm_def other_field_nullish opt_msg_field_norm [where body = FeatureSet_bytes and f = FeatureSet_norm, OF FeatureSet_bytes_norm] rep_msg_field_norm [where body = FeatureSet_bytes and f = FeatureSet_norm, OF FeatureSet_bytes_norm] opt_msg_field_norm [where body = FieldOptions_FeatureSupport_bytes and f = FieldOptions_FeatureSupport_norm, OF FieldOptions_FeatureSupport_bytes_norm] rep_msg_field_norm [where body = FieldOptions_FeatureSupport_bytes and f = FieldOptions_FeatureSupport_norm, OF FieldOptions_FeatureSupport_bytes_norm] opt_msg_field_norm [where body = UninterpretedOption_bytes and f = UninterpretedOption_norm, OF UninterpretedOption_bytes_norm] rep_msg_field_norm [where body = UninterpretedOption_bytes and f = UninterpretedOption_norm, OF UninterpretedOption_bytes_norm])

lemma EnumValueOptions_fits_norm: "EnumValueOptions_fits m \<Longrightarrow> EnumValueOptions_fits (EnumValueOptions_norm m)"
  unfolding EnumValueOptions_fits_def EnumValueOptions_bytes_norm by (simp add: EnumValueOptions_norm_def pred_nullish double_ok_0 pred_option_keeps [where P = FeatureSet_fits and f = FeatureSet_norm, OF FeatureSet_fits_norm] list_all_keeps [where P = FeatureSet_fits and f = FeatureSet_norm, OF FeatureSet_fits_norm] pred_option_keeps [where P = FieldOptions_FeatureSupport_fits and f = FieldOptions_FeatureSupport_norm, OF FieldOptions_FeatureSupport_fits_norm] list_all_keeps [where P = FieldOptions_FeatureSupport_fits and f = FieldOptions_FeatureSupport_norm, OF FieldOptions_FeatureSupport_fits_norm] pred_option_keeps [where P = UninterpretedOption_fits and f = UninterpretedOption_norm, OF UninterpretedOption_fits_norm] list_all_keeps [where P = UninterpretedOption_fits and f = UninterpretedOption_norm, OF UninterpretedOption_fits_norm])

lemma ServiceOptions_bytes_norm: "ServiceOptions_bytes (ServiceOptions_norm m) = ServiceOptions_bytes m"
  unfolding ServiceOptions_bytes_def by (simp add: ServiceOptions_norm_def other_field_nullish opt_msg_field_norm [where body = FeatureSet_bytes and f = FeatureSet_norm, OF FeatureSet_bytes_norm] rep_msg_field_norm [where body = FeatureSet_bytes and f = FeatureSet_norm, OF FeatureSet_bytes_norm] opt_msg_field_norm [where body = UninterpretedOption_bytes and f = UninterpretedOption_norm, OF UninterpretedOption_bytes_norm] rep_msg_field_norm [where body = UninterpretedOption_bytes and f = UninterpretedOption_norm, OF UninterpretedOption_bytes_norm])

lemma ServiceOptions_fits_norm: "ServiceOptions_fits m \<Longrightarrow> ServiceOptions_fits (ServiceOptions_norm m)"
  unfolding ServiceOptions_fits_def ServiceOptions_bytes_norm by (simp add: ServiceOptions_norm_def pred_nullish double_ok_0 pred_option_keeps [where P = FeatureSet_fits and f = FeatureSet_norm, OF FeatureSet_fits_norm] list_all_keeps [where P = FeatureSet_fits and f = FeatureSet_norm, OF FeatureSet_fits_norm] pred_option_keeps [where P = UninterpretedOption_fits and f = UninterpretedOption_norm, OF UninterpretedOption_fits_norm] list_all_keeps [where P = UninterpretedOption_fits and f = UninterpretedOption_norm, OF UninterpretedOption_fits_norm])

lemma MethodOptions_bytes_norm: "MethodOptions_bytes (MethodOptions_norm m) = MethodOptions_bytes m"
  unfolding MethodOptions_bytes_def by (simp add: MethodOptions_norm_def other_field_nullish opt_msg_field_norm [where body = FeatureSet_bytes and f = FeatureSet_norm, OF FeatureSet_bytes_norm] rep_msg_field_norm [where body = FeatureSet_bytes and f = FeatureSet_norm, OF FeatureSet_bytes_norm] opt_msg_field_norm [where body = UninterpretedOption_bytes and f = UninterpretedOption_norm, OF UninterpretedOption_bytes_norm] rep_msg_field_norm [where body = UninterpretedOption_bytes and f = UninterpretedOption_norm, OF UninterpretedOption_bytes_norm])

lemma MethodOptions_fits_norm: "MethodOptions_fits m \<Longrightarrow> MethodOptions_fits (MethodOptions_norm m)"
  unfolding MethodOptions_fits_def MethodOptions_bytes_norm by (simp add: MethodOptions_norm_def pred_nullish double_ok_0 pred_option_keeps [where P = FeatureSet_fits and f = FeatureSet_norm, OF FeatureSet_fits_norm] list_all_keeps [where P = FeatureSet_fits and f = FeatureSet_norm, OF FeatureSet_fits_norm] pred_option_keeps [where P = UninterpretedOption_fits and f = UninterpretedOption_norm, OF UninterpretedOption_fits_norm] list_all_keeps [where P = UninterpretedOption_fits and f = UninterpretedOption_norm, OF UninterpretedOption_fits_norm])

lemma MessageOptions_bytes_norm: "MessageOptions_bytes (MessageOptions_norm m) = MessageOptions_bytes m"
  unfolding MessageOptions_bytes_def by (simp add: MessageOptions_norm_def other_field_nullish opt_msg_field_norm [where body = FeatureSet_bytes and f = FeatureSet_norm, OF FeatureSet_bytes_norm] rep_msg_field_norm [where body = FeatureSet_bytes and f = FeatureSet_norm, OF FeatureSet_bytes_norm] opt_msg_field_norm [where body = UninterpretedOption_bytes and f = UninterpretedOption_norm, OF UninterpretedOption_bytes_norm] rep_msg_field_norm [where body = UninterpretedOption_bytes and f = UninterpretedOption_norm, OF UninterpretedOption_bytes_norm])

lemma MessageOptions_fits_norm: "MessageOptions_fits m \<Longrightarrow> MessageOptions_fits (MessageOptions_norm m)"
  unfolding MessageOptions_fits_def MessageOptions_bytes_norm by (simp add: MessageOptions_norm_def pred_nullish double_ok_0 pred_option_keeps [where P = FeatureSet_fits and f = FeatureSet_norm, OF FeatureSet_fits_norm] list_all_keeps [where P = FeatureSet_fits and f = FeatureSet_norm, OF FeatureSet_fits_norm] pred_option_keeps [where P = UninterpretedOption_fits and f = UninterpretedOption_norm, OF UninterpretedOption_fits_norm] list_all_keeps [where P = UninterpretedOption_fits and f = UninterpretedOption_norm, OF UninterpretedOption_fits_norm])

lemma FieldOptions_bytes_norm: "FieldOptions_bytes (FieldOptions_norm m) = FieldOptions_bytes m"
  unfolding FieldOptions_bytes_def by (simp add: FieldOptions_norm_def other_field_nullish opt_msg_field_norm [where body = FeatureSet_bytes and f = FeatureSet_norm, OF FeatureSet_bytes_norm] rep_msg_field_norm [where body = FeatureSet_bytes and f = FeatureSet_norm, OF FeatureSet_bytes_norm] opt_msg_field_norm [where body = FieldOptions_EditionDefault_bytes and f = FieldOptions_EditionDefault_norm, OF FieldOptions_EditionDefault_bytes_norm] rep_msg_field_norm [where body = FieldOptions_EditionDefault_bytes and f = FieldOptions_EditionDefault_norm, OF FieldOptions_EditionDefault_bytes_norm] opt_msg_field_norm [where body = FieldOptions_FeatureSupport_bytes and f = FieldOptions_FeatureSupport_norm, OF FieldOptions_FeatureSupport_bytes_norm] rep_msg_field_norm [where body = FieldOptions_FeatureSupport_bytes and f = FieldOptions_FeatureSupport_norm, OF FieldOptions_FeatureSupport_bytes_norm] opt_msg_field_norm [where body = UninterpretedOption_bytes and f = UninterpretedOption_norm, OF UninterpretedOption_bytes_norm] rep_msg_field_norm [where body = UninterpretedOption_bytes and f = UninterpretedOption_norm, OF UninterpretedOption_bytes_norm])

lemma FieldOptions_fits_norm: "FieldOptions_fits m \<Longrightarrow> FieldOptions_fits (FieldOptions_norm m)"
  unfolding FieldOptions_fits_def FieldOptions_bytes_norm by (simp add: FieldOptions_norm_def pred_nullish double_ok_0 pred_option_keeps [where P = FeatureSet_fits and f = FeatureSet_norm, OF FeatureSet_fits_norm] list_all_keeps [where P = FeatureSet_fits and f = FeatureSet_norm, OF FeatureSet_fits_norm] pred_option_keeps [where P = FieldOptions_EditionDefault_fits and f = FieldOptions_EditionDefault_norm, OF FieldOptions_EditionDefault_fits_norm] list_all_keeps [where P = FieldOptions_EditionDefault_fits and f = FieldOptions_EditionDefault_norm, OF FieldOptions_EditionDefault_fits_norm] pred_option_keeps [where P = FieldOptions_FeatureSupport_fits and f = FieldOptions_FeatureSupport_norm, OF FieldOptions_FeatureSupport_fits_norm] list_all_keeps [where P = FieldOptions_FeatureSupport_fits and f = FieldOptions_FeatureSupport_norm, OF FieldOptions_FeatureSupport_fits_norm] pred_option_keeps [where P = UninterpretedOption_fits and f = UninterpretedOption_norm, OF UninterpretedOption_fits_norm] list_all_keeps [where P = UninterpretedOption_fits and f = UninterpretedOption_norm, OF UninterpretedOption_fits_norm])

lemma FileOptions_bytes_norm: "FileOptions_bytes (FileOptions_norm m) = FileOptions_bytes m"
  unfolding FileOptions_bytes_def by (simp add: FileOptions_norm_def other_field_nullish opt_msg_field_norm [where body = FeatureSet_bytes and f = FeatureSet_norm, OF FeatureSet_bytes_norm] rep_msg_field_norm [where body = FeatureSet_bytes and f = FeatureSet_norm, OF FeatureSet_bytes_norm] opt_msg_field_norm [where body = UninterpretedOption_bytes and f = UninterpretedOption_norm, OF UninterpretedOption_bytes_norm] rep_msg_field_norm [where body = UninterpretedOption_bytes and f = UninterpretedOption_norm, OF UninterpretedOption_bytes_norm])

lemma FileOptions_fits_norm: "FileOptions_fits m \<Longrightarrow> FileOptions_fits (FileOptions_norm m)"
  unfolding FileOptions_fits_def FileOptions_bytes_norm by (simp add: FileOptions_norm_def pred_nullish double_ok_0 pred_option_keeps [where P = FeatureSet_fits and f = FeatureSet_norm, OF FeatureSet_fits_norm] list_all_keeps [where P = FeatureSet_fits and f = FeatureSet_norm, OF FeatureSet_fits_norm] pred_option_keeps [where P = UninterpretedOption_fits and f = UninterpretedOption_norm, OF UninterpretedOption_fits_norm] list_all_keeps [where P = UninterpretedOption_fits and f = UninterpretedOption_norm, OF UninterpretedOption_fits_norm])

lemma ExtensionRangeOptions_bytes_norm: "ExtensionRangeOptions_bytes (ExtensionRangeOptions_norm m) = ExtensionRangeOptions_bytes m"
  unfolding ExtensionRangeOptions_bytes_def by (simp add: ExtensionRangeOptions_norm_def other_field_nullish opt_msg_field_norm [where body = FeatureSet_bytes and f = FeatureSet_norm, OF FeatureSet_bytes_norm] rep_msg_field_norm [where body = FeatureSet_bytes and f = FeatureSet_norm, OF FeatureSet_bytes_norm] opt_msg_field_norm [where body = ExtensionRangeOptions_Declaration_bytes and f = ExtensionRangeOptions_Declaration_norm, OF ExtensionRangeOptions_Declaration_bytes_norm] rep_msg_field_norm [where body = ExtensionRangeOptions_Declaration_bytes and f = ExtensionRangeOptions_Declaration_norm, OF ExtensionRangeOptions_Declaration_bytes_norm] opt_msg_field_norm [where body = UninterpretedOption_bytes and f = UninterpretedOption_norm, OF UninterpretedOption_bytes_norm] rep_msg_field_norm [where body = UninterpretedOption_bytes and f = UninterpretedOption_norm, OF UninterpretedOption_bytes_norm])

lemma ExtensionRangeOptions_fits_norm: "ExtensionRangeOptions_fits m \<Longrightarrow> ExtensionRangeOptions_fits (ExtensionRangeOptions_norm m)"
  unfolding ExtensionRangeOptions_fits_def ExtensionRangeOptions_bytes_norm by (simp add: ExtensionRangeOptions_norm_def pred_nullish double_ok_0 pred_option_keeps [where P = FeatureSet_fits and f = FeatureSet_norm, OF FeatureSet_fits_norm] list_all_keeps [where P = FeatureSet_fits and f = FeatureSet_norm, OF FeatureSet_fits_norm] pred_option_keeps [where P = ExtensionRangeOptions_Declaration_fits and f = ExtensionRangeOptions_Declaration_norm, OF ExtensionRangeOptions_Declaration_fits_norm] list_all_keeps [where P = ExtensionRangeOptions_Declaration_fits and f = ExtensionRangeOptions_Declaration_norm, OF ExtensionRangeOptions_Declaration_fits_norm] pred_option_keeps [where P = UninterpretedOption_fits and f = UninterpretedOption_norm, OF UninterpretedOption_fits_norm] list_all_keeps [where P = UninterpretedOption_fits and f = UninterpretedOption_norm, OF UninterpretedOption_fits_norm])

lemma FieldDescriptorProto_bytes_norm: "FieldDescriptorProto_bytes (FieldDescriptorProto_norm m) = FieldDescriptorProto_bytes m"
  unfolding FieldDescriptorProto_bytes_def by (simp add: FieldDescriptorProto_norm_def other_field_nullish opt_msg_field_norm [where body = FieldOptions_bytes and f = FieldOptions_norm, OF FieldOptions_bytes_norm] rep_msg_field_norm [where body = FieldOptions_bytes and f = FieldOptions_norm, OF FieldOptions_bytes_norm])

lemma FieldDescriptorProto_fits_norm: "FieldDescriptorProto_fits m \<Longrightarrow> FieldDescriptorProto_fits (FieldDescriptorProto_norm m)"
  unfolding FieldDescriptorProto_fits_def FieldDescriptorProto_bytes_norm by (simp add: FieldDescriptorProto_norm_def pred_nullish double_ok_0 pred_option_keeps [where P = FieldOptions_fits and f = FieldOptions_norm, OF FieldOptions_fits_norm] list_all_keeps [where P = FieldOptions_fits and f = FieldOptions_norm, OF FieldOptions_fits_norm])

lemma OneofDescriptorProto_bytes_norm: "OneofDescriptorProto_bytes (OneofDescriptorProto_norm m) = OneofDescriptorProto_bytes m"
  unfolding OneofDescriptorProto_bytes_def by (simp add: OneofDescriptorProto_norm_def other_field_nullish opt_msg_field_norm [where body = OneofOptions_bytes and f = OneofOptions_norm, OF OneofOptions_bytes_norm] rep_msg_field_norm [where body = OneofOptions_bytes and f = OneofOptions_norm, OF OneofOptions_bytes_norm])

lemma OneofDescriptorProto_fits_norm: "OneofDescriptorProto_fits m \<Longrightarrow> OneofDescriptorProto_fits (OneofDescriptorProto_norm m)"
  unfolding OneofDescriptorProto_fits_def OneofDescriptorProto_bytes_norm by (simp add: OneofDescriptorProto_norm_def pred_nullish double_ok_0 pred_option_keeps [where P = OneofOptions_fits and f = OneofOptions_norm, OF OneofOptions_fits_norm] list_all_keeps [where P = OneofOptions_fits and f = OneofOptions_norm, OF OneofOptions_fits_norm])

lemma EnumValueDescriptorProto_bytes_norm: "EnumValueDescriptorProto_bytes (EnumValueDescriptorProto_norm m) = EnumValueDescriptorProto_bytes m"
  unfolding EnumValueDescriptorProto_bytes_def by (simp add: EnumValueDescriptorProto_norm_def other_field_nullish opt_msg_field_norm [where body = EnumValueOptions_bytes and f = EnumValueOptions_norm, OF EnumValueOptions_bytes_norm] rep_msg_field_norm [where body = EnumValueOptions_bytes and f = EnumValueOptions_norm, OF EnumValueOptions_bytes_norm])

lemma EnumValueDescriptorProto_fits_norm: "EnumValueDescriptorProto_fits m \<Longrightarrow> EnumValueDescriptorProto_fits (EnumValueDescriptorProto_norm m)"
  unfolding EnumValueDescriptorProto_fits_def EnumValueDescriptorProto_bytes_norm by (simp add: EnumValueDescriptorProto_norm_def pred_nullish double_ok_0 pred_option_keeps [where P = EnumValueOptions_fits and f = EnumValueOptions_norm, OF EnumValueOptions_fits_norm] list_all_keeps [where P = EnumValueOptions_fits and f = EnumValueOptions_norm, OF EnumValueOptions_fits_norm])

lemma EnumDescriptorProto_bytes_norm: "EnumDescriptorProto_bytes (EnumDescriptorProto_norm m) = EnumDescriptorProto_bytes m"
  unfolding EnumDescriptorProto_bytes_def by (simp add: EnumDescriptorProto_norm_def other_field_nullish opt_msg_field_norm [where body = EnumDescriptorProto_EnumReservedRange_bytes and f = EnumDescriptorProto_EnumReservedRange_norm, OF EnumDescriptorProto_EnumReservedRange_bytes_norm] rep_msg_field_norm [where body = EnumDescriptorProto_EnumReservedRange_bytes and f = EnumDescriptorProto_EnumReservedRange_norm, OF EnumDescriptorProto_EnumReservedRange_bytes_norm] opt_msg_field_norm [where body = EnumOptions_bytes and f = EnumOptions_norm, OF EnumOptions_bytes_norm] rep_msg_field_norm [where body = EnumOptions_bytes and f = EnumOptions_norm, OF EnumOptions_bytes_norm] opt_msg_field_norm [where body = EnumValueDescriptorProto_bytes and f = EnumValueDescriptorProto_norm, OF EnumValueDescriptorProto_bytes_norm] rep_msg_field_norm [where body = EnumValueDescriptorProto_bytes and f = EnumValueDescriptorProto_norm, OF EnumValueDescriptorProto_bytes_norm])

lemma EnumDescriptorProto_fits_norm: "EnumDescriptorProto_fits m \<Longrightarrow> EnumDescriptorProto_fits (EnumDescriptorProto_norm m)"
  unfolding EnumDescriptorProto_fits_def EnumDescriptorProto_bytes_norm by (simp add: EnumDescriptorProto_norm_def pred_nullish double_ok_0 pred_option_keeps [where P = EnumDescriptorProto_EnumReservedRange_fits and f = EnumDescriptorProto_EnumReservedRange_norm, OF EnumDescriptorProto_EnumReservedRange_fits_norm] list_all_keeps [where P = EnumDescriptorProto_EnumReservedRange_fits and f = EnumDescriptorProto_EnumReservedRange_norm, OF EnumDescriptorProto_EnumReservedRange_fits_norm] pred_option_keeps [where P = EnumOptions_fits and f = EnumOptions_norm, OF EnumOptions_fits_norm] list_all_keeps [where P = EnumOptions_fits and f = EnumOptions_norm, OF EnumOptions_fits_norm] pred_option_keeps [where P = EnumValueDescriptorProto_fits and f = EnumValueDescriptorProto_norm, OF EnumValueDescriptorProto_fits_norm] list_all_keeps [where P = EnumValueDescriptorProto_fits and f = EnumValueDescriptorProto_norm, OF EnumValueDescriptorProto_fits_norm])

lemma MethodDescriptorProto_bytes_norm: "MethodDescriptorProto_bytes (MethodDescriptorProto_norm m) = MethodDescriptorProto_bytes m"
  unfolding MethodDescriptorProto_bytes_def by (simp add: MethodDescriptorProto_norm_def other_field_nullish opt_msg_field_norm [where body = MethodOptions_bytes and f = MethodOptions_norm, OF MethodOptions_bytes_norm] rep_msg_field_norm [where body = MethodOptions_bytes and f = MethodOptions_norm, OF MethodOptions_bytes_norm])

lemma MethodDescriptorProto_fits_norm: "MethodDescriptorProto_fits m \<Longrightarrow> MethodDescriptorProto_fits (MethodDescriptorProto_norm m)"
  unfolding MethodDescriptorProto_fits_def MethodDescriptorProto_bytes_norm by (simp add: MethodDescriptorProto_norm_def pred_nullish double_ok_0 pred_option_keeps [where P = MethodOptions_fits and f = MethodOptions_norm, OF MethodOptions_fits_norm] list_all_keeps [where P = MethodOptions_fits and f = MethodOptions_norm, OF MethodOptions_fits_norm])

lemma ServiceDescriptorProto_bytes_norm: "ServiceDescriptorProto_bytes (ServiceDescriptorProto_norm m) = ServiceDescriptorProto_bytes m"
  unfolding ServiceDescriptorProto_bytes_def by (simp add: ServiceDescriptorProto_norm_def other_field_nullish opt_msg_field_norm [where body = ServiceOptions_bytes and f = ServiceOptions_norm, OF ServiceOptions_bytes_norm] rep_msg_field_norm [where body = ServiceOptions_bytes and f = ServiceOptions_norm, OF ServiceOptions_bytes_norm] opt_msg_field_norm [where body = MethodDescriptorProto_bytes and f = MethodDescriptorProto_norm, OF MethodDescriptorProto_bytes_norm] rep_msg_field_norm [where body = MethodDescriptorProto_bytes and f = MethodDescriptorProto_norm, OF MethodDescriptorProto_bytes_norm])

lemma ServiceDescriptorProto_fits_norm: "ServiceDescriptorProto_fits m \<Longrightarrow> ServiceDescriptorProto_fits (ServiceDescriptorProto_norm m)"
  unfolding ServiceDescriptorProto_fits_def ServiceDescriptorProto_bytes_norm by (simp add: ServiceDescriptorProto_norm_def pred_nullish double_ok_0 pred_option_keeps [where P = ServiceOptions_fits and f = ServiceOptions_norm, OF ServiceOptions_fits_norm] list_all_keeps [where P = ServiceOptions_fits and f = ServiceOptions_norm, OF ServiceOptions_fits_norm] pred_option_keeps [where P = MethodDescriptorProto_fits and f = MethodDescriptorProto_norm, OF MethodDescriptorProto_fits_norm] list_all_keeps [where P = MethodDescriptorProto_fits and f = MethodDescriptorProto_norm, OF MethodDescriptorProto_fits_norm])

lemma DescriptorProto_ExtensionRange_bytes_norm: "DescriptorProto_ExtensionRange_bytes (DescriptorProto_ExtensionRange_norm m) = DescriptorProto_ExtensionRange_bytes m"
  unfolding DescriptorProto_ExtensionRange_bytes_def by (simp add: DescriptorProto_ExtensionRange_norm_def other_field_nullish opt_msg_field_norm [where body = ExtensionRangeOptions_bytes and f = ExtensionRangeOptions_norm, OF ExtensionRangeOptions_bytes_norm] rep_msg_field_norm [where body = ExtensionRangeOptions_bytes and f = ExtensionRangeOptions_norm, OF ExtensionRangeOptions_bytes_norm])

lemma DescriptorProto_ExtensionRange_fits_norm: "DescriptorProto_ExtensionRange_fits m \<Longrightarrow> DescriptorProto_ExtensionRange_fits (DescriptorProto_ExtensionRange_norm m)"
  unfolding DescriptorProto_ExtensionRange_fits_def DescriptorProto_ExtensionRange_bytes_norm by (simp add: DescriptorProto_ExtensionRange_norm_def pred_nullish double_ok_0 pred_option_keeps [where P = ExtensionRangeOptions_fits and f = ExtensionRangeOptions_norm, OF ExtensionRangeOptions_fits_norm] list_all_keeps [where P = ExtensionRangeOptions_fits and f = ExtensionRangeOptions_norm, OF ExtensionRangeOptions_fits_norm])

lemma DescriptorProto_bytes_norm: "DescriptorProto_bytes (DescriptorProto_norm m) = DescriptorProto_bytes m"
proof (induction m rule: DescriptorProto_bytes.induct)
  case (1 m)
  have sub: "rep_msg_field t DescriptorProto_bytes (map DescriptorProto_norm (DescriptorProto_nestedType m)) = rep_msg_field t DescriptorProto_bytes (DescriptorProto_nestedType m)" for t
    using 1 by (rule rep_msg_field_norm)
  show ?case
    unfolding DescriptorProto_bytes.simps [of "DescriptorProto_norm m"] DescriptorProto_bytes.simps [of m]
    by (simp add: DescriptorProto_norm.simps [of m] sub other_field_nullish opt_msg_field_norm [where body = DescriptorProto_ReservedRange_bytes and f = DescriptorProto_ReservedRange_norm, OF DescriptorProto_ReservedRange_bytes_norm] rep_msg_field_norm [where body = DescriptorProto_ReservedRange_bytes and f = DescriptorProto_ReservedRange_norm, OF DescriptorProto_ReservedRange_bytes_norm] opt_msg_field_norm [where body = MessageOptions_bytes and f = MessageOptions_norm, OF MessageOptions_bytes_norm] rep_msg_field_norm [where body = MessageOptions_bytes and f = MessageOptions_norm, OF MessageOptions_bytes_norm] opt_msg_field_norm [where body = FieldDescriptorProto_bytes and f = FieldDescriptorProto_norm, OF FieldDescriptorProto_bytes_norm] rep_msg_field_norm [where body = FieldDescriptorProto_bytes and f = FieldDescriptorProto_norm, OF FieldDescriptorProto_bytes_norm] opt_msg_field_norm [where body = OneofDescriptorProto_bytes and f = OneofDescriptorProto_norm, OF OneofDescriptorProto_bytes_norm] rep_msg_field_norm [where body = OneofDescriptorProto_bytes and f = OneofDescriptorProto_norm, OF OneofDescriptorProto_bytes_norm] opt_msg_field_norm [where body = EnumDescriptorProto_bytes and f = EnumDescriptorProto_norm, OF EnumDescriptorProto_bytes_norm] rep_msg_field_norm [where body = EnumDescriptorProto_bytes and f = EnumDescriptorProto_norm, OF EnumDescriptorProto_bytes_norm] opt_msg_field_norm [where body = DescriptorProto_ExtensionRange_bytes and f = DescriptorProto_ExtensionRange_norm, OF DescriptorProto_ExtensionRange_bytes_norm] rep_msg_field_norm [where body = DescriptorProto_ExtensionRange_bytes and f = DescriptorProto_ExtensionRange_norm, OF DescriptorProto_ExtensionRange_bytes_norm])
qed

lemma DescriptorProto_fits_norm: "DescriptorProto_fits m \<Longrightarrow> DescriptorProto_fits (DescriptorProto_norm m)"
proof (induction m rule: DescriptorProto_norm.induct)
  case (1 m)
  have fits: "list_all DescriptorProto_fits (DescriptorProto_nestedType m)" using "1.prems" by (simp add: DescriptorProto_fits.simps [of m])
  have sub: "list_all DescriptorProto_fits (map DescriptorProto_norm (DescriptorProto_nestedType m))"
    using 1(1) fits by (rule list_all_keeps)
  show ?case
    using "1.prems" unfolding DescriptorProto_fits.simps [of "DescriptorProto_norm m"] DescriptorProto_fits.simps [of m] DescriptorProto_bytes_norm
    by (simp add: DescriptorProto_norm.simps [of m] sub pred_nullish double_ok_0 pred_option_keeps [where P = DescriptorProto_ReservedRange_fits and f = DescriptorProto_ReservedRange_norm, OF DescriptorProto_ReservedRange_fits_norm] list_all_keeps [where P = DescriptorProto_ReservedRange_fits and f = DescriptorProto_ReservedRange_norm, OF DescriptorProto_ReservedRange_fits_norm] pred_option_keeps [where P = MessageOptions_fits and f = MessageOptions_norm, OF MessageOptions_fits_norm] list_all_keeps [where P = MessageOptions_fits and f = MessageOptions_norm, OF MessageOptions_fits_norm] pred_option_keeps [where P = FieldDescriptorProto_fits and f = FieldDescriptorProto_norm, OF FieldDescriptorProto_fits_norm] list_all_keeps [where P = FieldDescriptorProto_fits and f = FieldDescriptorProto_norm, OF FieldDescriptorProto_fits_norm] pred_option_keeps [where P = OneofDescriptorProto_fits and f = OneofDescriptorProto_norm, OF OneofDescriptorProto_fits_norm] list_all_keeps [where P = OneofDescriptorProto_fits and f = OneofDescriptorProto_norm, OF OneofDescriptorProto_fits_norm] pred_option_keeps [where P = EnumDescriptorProto_fits and f = EnumDescriptorProto_norm, OF EnumDescriptorProto_fits_norm] list_all_keeps [where P = EnumDescriptorProto_fits and f = EnumDescriptorProto_norm, OF EnumDescriptorProto_fits_norm] pred_option_keeps [where P = DescriptorProto_ExtensionRange_fits and f = DescriptorProto_ExtensionRange_norm, OF DescriptorProto_ExtensionRange_fits_norm] list_all_keeps [where P = DescriptorProto_ExtensionRange_fits and f = DescriptorProto_ExtensionRange_norm, OF DescriptorProto_ExtensionRange_fits_norm])
qed

lemma FileDescriptorProto_bytes_norm: "FileDescriptorProto_bytes (FileDescriptorProto_norm m) = FileDescriptorProto_bytes m"
  unfolding FileDescriptorProto_bytes_def by (simp add: FileDescriptorProto_norm_def other_field_nullish opt_msg_field_norm [where body = SourceCodeInfo_bytes and f = SourceCodeInfo_norm, OF SourceCodeInfo_bytes_norm] rep_msg_field_norm [where body = SourceCodeInfo_bytes and f = SourceCodeInfo_norm, OF SourceCodeInfo_bytes_norm] opt_msg_field_norm [where body = FileOptions_bytes and f = FileOptions_norm, OF FileOptions_bytes_norm] rep_msg_field_norm [where body = FileOptions_bytes and f = FileOptions_norm, OF FileOptions_bytes_norm] opt_msg_field_norm [where body = FieldDescriptorProto_bytes and f = FieldDescriptorProto_norm, OF FieldDescriptorProto_bytes_norm] rep_msg_field_norm [where body = FieldDescriptorProto_bytes and f = FieldDescriptorProto_norm, OF FieldDescriptorProto_bytes_norm] opt_msg_field_norm [where body = EnumDescriptorProto_bytes and f = EnumDescriptorProto_norm, OF EnumDescriptorProto_bytes_norm] rep_msg_field_norm [where body = EnumDescriptorProto_bytes and f = EnumDescriptorProto_norm, OF EnumDescriptorProto_bytes_norm] opt_msg_field_norm [where body = ServiceDescriptorProto_bytes and f = ServiceDescriptorProto_norm, OF ServiceDescriptorProto_bytes_norm] rep_msg_field_norm [where body = ServiceDescriptorProto_bytes and f = ServiceDescriptorProto_norm, OF ServiceDescriptorProto_bytes_norm] opt_msg_field_norm [where body = DescriptorProto_bytes and f = DescriptorProto_norm, OF DescriptorProto_bytes_norm] rep_msg_field_norm [where body = DescriptorProto_bytes and f = DescriptorProto_norm, OF DescriptorProto_bytes_norm])

lemma FileDescriptorProto_fits_norm: "FileDescriptorProto_fits m \<Longrightarrow> FileDescriptorProto_fits (FileDescriptorProto_norm m)"
  unfolding FileDescriptorProto_fits_def FileDescriptorProto_bytes_norm by (simp add: FileDescriptorProto_norm_def pred_nullish double_ok_0 pred_option_keeps [where P = SourceCodeInfo_fits and f = SourceCodeInfo_norm, OF SourceCodeInfo_fits_norm] list_all_keeps [where P = SourceCodeInfo_fits and f = SourceCodeInfo_norm, OF SourceCodeInfo_fits_norm] pred_option_keeps [where P = FileOptions_fits and f = FileOptions_norm, OF FileOptions_fits_norm] list_all_keeps [where P = FileOptions_fits and f = FileOptions_norm, OF FileOptions_fits_norm] pred_option_keeps [where P = FieldDescriptorProto_fits and f = FieldDescriptorProto_norm, OF FieldDescriptorProto_fits_norm] list_all_keeps [where P = FieldDescriptorProto_fits and f = FieldDescriptorProto_norm, OF FieldDescriptorProto_fits_norm] pred_option_keeps [where P = EnumDescriptorProto_fits and f = EnumDescriptorProto_norm, OF EnumDescriptorProto_fits_norm] list_all_keeps [where P = EnumDescriptorProto_fits and f = EnumDescriptorProto_norm, OF EnumDescriptorProto_fits_norm] pred_option_keeps [where P = ServiceDescriptorProto_fits and f = ServiceDescriptorProto_norm, OF ServiceDescriptorProto_fits_norm] list_all_keeps [where P = ServiceDescriptorProto_fits and f = ServiceDescriptorProto_norm, OF ServiceDescriptorProto_fits_norm] pred_option_keeps [where P = DescriptorProto_fits and f = DescriptorProto_norm, OF DescriptorProto_fits_norm] list_all_keeps [where P = DescriptorProto_fits and f = DescriptorProto_norm, OF DescriptorProto_fits_norm])

lemma FileDescriptorSet_bytes_norm: "FileDescriptorSet_bytes (FileDescriptorSet_norm m) = FileDescriptorSet_bytes m"
  unfolding FileDescriptorSet_bytes_def by (simp add: FileDescriptorSet_norm_def other_field_nullish opt_msg_field_norm [where body = FileDescriptorProto_bytes and f = FileDescriptorProto_norm, OF FileDescriptorProto_bytes_norm] rep_msg_field_norm [where body = FileDescriptorProto_bytes and f = FileDescriptorProto_norm, OF FileDescriptorProto_bytes_norm])

lemma FileDescriptorSet_fits_norm: "FileDescriptorSet_fits m \<Longrightarrow> FileDescriptorSet_fits (FileDescriptorSet_norm m)"
  unfolding FileDescriptorSet_fits_def FileDescriptorSet_bytes_norm by (simp add: FileDescriptorSet_norm_def pred_nullish double_ok_0 pred_option_keeps [where P = FileDescriptorProto_fits and f = FileDescriptorProto_norm, OF FileDescriptorProto_fits_norm] list_all_keeps [where P = FileDescriptorProto_fits and f = FileDescriptorProto_norm, OF FileDescriptorProto_fits_norm])

section \<open>The JSON form and the wire form agree\<close>

lemma UninterpretedOption_NamePart_jnorm_norm: "UninterpretedOption_NamePart_fits m \<Longrightarrow> UninterpretedOption_NamePart_jnorm m = UninterpretedOption_NamePart_norm m"
  unfolding UninterpretedOption_NamePart_fits_def UninterpretedOption_NamePart_jnorm_def UninterpretedOption_NamePart_norm_def by (simp add: round_nullish map_round)

definition FeatureSet_known :: "FeatureSet \<Rightarrow> bool" where
  "FeatureSet_known m \<longleftrightarrow>
     pred_option (declared FeatureSet_FieldPresence_value) (FeatureSet_fieldPresence m) \<and>
     pred_option (declared FeatureSet_EnumType_value) (FeatureSet_enumType m) \<and>
     pred_option (declared FeatureSet_RepeatedFieldEncoding_value) (FeatureSet_repeatedFieldEncoding m) \<and>
     pred_option (declared FeatureSet_Utf8Validation_value) (FeatureSet_utf8Validation m) \<and>
     pred_option (declared FeatureSet_MessageEncoding_value) (FeatureSet_messageEncoding m) \<and>
     pred_option (declared FeatureSet_JsonFormat_value) (FeatureSet_jsonFormat m) \<and>
     pred_option (declared FeatureSet_EnforceNamingStyle_value) (FeatureSet_enforceNamingStyle m)"

lemma FeatureSet_jnorm_norm: "FeatureSet_fits m \<Longrightarrow> FeatureSet_known m \<Longrightarrow> FeatureSet_jnorm m = FeatureSet_norm m"
  unfolding FeatureSet_fits_def FeatureSet_known_def FeatureSet_jnorm_def FeatureSet_norm_def by (simp add: round_nullish map_round featureSet_FieldPresence.json_declared featureSet_FieldPresence.json_declared_list featureSet_EnumType.json_declared featureSet_EnumType.json_declared_list featureSet_RepeatedFieldEncoding.json_declared featureSet_RepeatedFieldEncoding.json_declared_list featureSet_Utf8Validation.json_declared featureSet_Utf8Validation.json_declared_list featureSet_MessageEncoding.json_declared featureSet_MessageEncoding.json_declared_list featureSet_JsonFormat.json_declared featureSet_JsonFormat.json_declared_list featureSet_EnforceNamingStyle.json_declared featureSet_EnforceNamingStyle.json_declared_list)

definition FeatureSetDefaults_FeatureSetEditionDefault_known :: "FeatureSetDefaults_FeatureSetEditionDefault \<Rightarrow> bool" where
  "FeatureSetDefaults_FeatureSetEditionDefault_known m \<longleftrightarrow>
     pred_option (declared Edition_value) (FeatureSetDefaults_FeatureSetEditionDefault_edition m) \<and>
     pred_option FeatureSet_known (FeatureSetDefaults_FeatureSetEditionDefault_overridableFeatures m) \<and>
     pred_option FeatureSet_known (FeatureSetDefaults_FeatureSetEditionDefault_fixedFeatures m)"

lemma FeatureSetDefaults_FeatureSetEditionDefault_jnorm_norm: "FeatureSetDefaults_FeatureSetEditionDefault_fits m \<Longrightarrow> FeatureSetDefaults_FeatureSetEditionDefault_known m \<Longrightarrow> FeatureSetDefaults_FeatureSetEditionDefault_jnorm m = FeatureSetDefaults_FeatureSetEditionDefault_norm m"
  unfolding FeatureSetDefaults_FeatureSetEditionDefault_fits_def FeatureSetDefaults_FeatureSetEditionDefault_known_def FeatureSetDefaults_FeatureSetEditionDefault_jnorm_def FeatureSetDefaults_FeatureSetEditionDefault_norm_def by (simp add: round_nullish map_round edition.json_declared edition.json_declared_list map_option_agree(2) [where P = FeatureSet_fits and f = FeatureSet_jnorm and g = FeatureSet_norm and Q = FeatureSet_known, OF FeatureSet_jnorm_norm] map_agree(2) [where P = FeatureSet_fits and f = FeatureSet_jnorm and g = FeatureSet_norm and Q = FeatureSet_known, OF FeatureSet_jnorm_norm])

definition FeatureSetDefaults_known :: "FeatureSetDefaults \<Rightarrow> bool" where
  "FeatureSetDefaults_known m \<longleftrightarrow>
     list_all FeatureSetDefaults_FeatureSetEditionDefault_known (FeatureSetDefaults_defaults m) \<and>
     pred_option (declared Edition_value) (FeatureSetDefaults_minimumEdition m) \<and>
     pred_option (declared Edition_value) (FeatureSetDefaults_maximumEdition m)"

lemma FeatureSetDefaults_jnorm_norm: "FeatureSetDefaults_fits m \<Longrightarrow> FeatureSetDefaults_known m \<Longrightarrow> FeatureSetDefaults_jnorm m = FeatureSetDefaults_norm m"
  unfolding FeatureSetDefaults_fits_def FeatureSetDefaults_known_def FeatureSetDefaults_jnorm_def FeatureSetDefaults_norm_def by (simp add: round_nullish map_round edition.json_declared edition.json_declared_list map_option_agree(2) [where P = FeatureSetDefaults_FeatureSetEditionDefault_fits and f = FeatureSetDefaults_FeatureSetEditionDefault_jnorm and g = FeatureSetDefaults_FeatureSetEditionDefault_norm and Q = FeatureSetDefaults_FeatureSetEditionDefault_known, OF FeatureSetDefaults_FeatureSetEditionDefault_jnorm_norm] map_agree(2) [where P = FeatureSetDefaults_FeatureSetEditionDefault_fits and f = FeatureSetDefaults_FeatureSetEditionDefault_jnorm and g = FeatureSetDefaults_FeatureSetEditionDefault_norm and Q = FeatureSetDefaults_FeatureSetEditionDefault_known, OF FeatureSetDefaults_FeatureSetEditionDefault_jnorm_norm])

definition FieldOptions_EditionDefault_known :: "FieldOptions_EditionDefault \<Rightarrow> bool" where
  "FieldOptions_EditionDefault_known m \<longleftrightarrow>
     pred_option (declared Edition_value) (FieldOptions_EditionDefault_edition m)"

lemma FieldOptions_EditionDefault_jnorm_norm: "FieldOptions_EditionDefault_fits m \<Longrightarrow> FieldOptions_EditionDefault_known m \<Longrightarrow> FieldOptions_EditionDefault_jnorm m = FieldOptions_EditionDefault_norm m"
  unfolding FieldOptions_EditionDefault_fits_def FieldOptions_EditionDefault_known_def FieldOptions_EditionDefault_jnorm_def FieldOptions_EditionDefault_norm_def by (simp add: round_nullish map_round edition.json_declared edition.json_declared_list)

definition FieldOptions_FeatureSupport_known :: "FieldOptions_FeatureSupport \<Rightarrow> bool" where
  "FieldOptions_FeatureSupport_known m \<longleftrightarrow>
     pred_option (declared Edition_value) (FieldOptions_FeatureSupport_editionIntroduced m) \<and>
     pred_option (declared Edition_value) (FieldOptions_FeatureSupport_editionDeprecated m) \<and>
     pred_option (declared Edition_value) (FieldOptions_FeatureSupport_editionRemoved m)"

lemma FieldOptions_FeatureSupport_jnorm_norm: "FieldOptions_FeatureSupport_fits m \<Longrightarrow> FieldOptions_FeatureSupport_known m \<Longrightarrow> FieldOptions_FeatureSupport_jnorm m = FieldOptions_FeatureSupport_norm m"
  unfolding FieldOptions_FeatureSupport_fits_def FieldOptions_FeatureSupport_known_def FieldOptions_FeatureSupport_jnorm_def FieldOptions_FeatureSupport_norm_def by (simp add: round_nullish map_round edition.json_declared edition.json_declared_list)

lemma DescriptorProto_ReservedRange_jnorm_norm: "DescriptorProto_ReservedRange_fits m \<Longrightarrow> DescriptorProto_ReservedRange_jnorm m = DescriptorProto_ReservedRange_norm m"
  unfolding DescriptorProto_ReservedRange_fits_def DescriptorProto_ReservedRange_jnorm_def DescriptorProto_ReservedRange_norm_def by (simp add: round_nullish map_round)

lemma EnumDescriptorProto_EnumReservedRange_jnorm_norm: "EnumDescriptorProto_EnumReservedRange_fits m \<Longrightarrow> EnumDescriptorProto_EnumReservedRange_jnorm m = EnumDescriptorProto_EnumReservedRange_norm m"
  unfolding EnumDescriptorProto_EnumReservedRange_fits_def EnumDescriptorProto_EnumReservedRange_jnorm_def EnumDescriptorProto_EnumReservedRange_norm_def by (simp add: round_nullish map_round)

lemma ExtensionRangeOptions_Declaration_jnorm_norm: "ExtensionRangeOptions_Declaration_fits m \<Longrightarrow> ExtensionRangeOptions_Declaration_jnorm m = ExtensionRangeOptions_Declaration_norm m"
  unfolding ExtensionRangeOptions_Declaration_fits_def ExtensionRangeOptions_Declaration_jnorm_def ExtensionRangeOptions_Declaration_norm_def by (simp add: round_nullish map_round)

lemma SourceCodeInfo_Location_jnorm_norm: "SourceCodeInfo_Location_fits m \<Longrightarrow> SourceCodeInfo_Location_jnorm m = SourceCodeInfo_Location_norm m"
  unfolding SourceCodeInfo_Location_fits_def SourceCodeInfo_Location_jnorm_def SourceCodeInfo_Location_norm_def by (simp add: round_nullish map_round)

lemma SourceCodeInfo_jnorm_norm: "SourceCodeInfo_fits m \<Longrightarrow> SourceCodeInfo_jnorm m = SourceCodeInfo_norm m"
  unfolding SourceCodeInfo_fits_def SourceCodeInfo_jnorm_def SourceCodeInfo_norm_def by (simp add: round_nullish map_round map_option_agree(1) [where P = SourceCodeInfo_Location_fits and f = SourceCodeInfo_Location_jnorm and g = SourceCodeInfo_Location_norm, OF SourceCodeInfo_Location_jnorm_norm] map_agree(1) [where P = SourceCodeInfo_Location_fits and f = SourceCodeInfo_Location_jnorm and g = SourceCodeInfo_Location_norm, OF SourceCodeInfo_Location_jnorm_norm])

definition GeneratedCodeInfo_Annotation_known :: "GeneratedCodeInfo_Annotation \<Rightarrow> bool" where
  "GeneratedCodeInfo_Annotation_known m \<longleftrightarrow>
     pred_option (declared GeneratedCodeInfo_Annotation_Semantic_value) (GeneratedCodeInfo_Annotation_semantic m)"

lemma GeneratedCodeInfo_Annotation_jnorm_norm: "GeneratedCodeInfo_Annotation_fits m \<Longrightarrow> GeneratedCodeInfo_Annotation_known m \<Longrightarrow> GeneratedCodeInfo_Annotation_jnorm m = GeneratedCodeInfo_Annotation_norm m"
  unfolding GeneratedCodeInfo_Annotation_fits_def GeneratedCodeInfo_Annotation_known_def GeneratedCodeInfo_Annotation_jnorm_def GeneratedCodeInfo_Annotation_norm_def by (simp add: round_nullish map_round generatedCodeInfo_Annotation_Semantic.json_declared generatedCodeInfo_Annotation_Semantic.json_declared_list)

definition GeneratedCodeInfo_known :: "GeneratedCodeInfo \<Rightarrow> bool" where
  "GeneratedCodeInfo_known m \<longleftrightarrow>
     list_all GeneratedCodeInfo_Annotation_known (GeneratedCodeInfo_annotation m)"

lemma GeneratedCodeInfo_jnorm_norm: "GeneratedCodeInfo_fits m \<Longrightarrow> GeneratedCodeInfo_known m \<Longrightarrow> GeneratedCodeInfo_jnorm m = GeneratedCodeInfo_norm m"
  unfolding GeneratedCodeInfo_fits_def GeneratedCodeInfo_known_def GeneratedCodeInfo_jnorm_def GeneratedCodeInfo_norm_def by (simp add: round_nullish map_round map_option_agree(2) [where P = GeneratedCodeInfo_Annotation_fits and f = GeneratedCodeInfo_Annotation_jnorm and g = GeneratedCodeInfo_Annotation_norm and Q = GeneratedCodeInfo_Annotation_known, OF GeneratedCodeInfo_Annotation_jnorm_norm] map_agree(2) [where P = GeneratedCodeInfo_Annotation_fits and f = GeneratedCodeInfo_Annotation_jnorm and g = GeneratedCodeInfo_Annotation_norm and Q = GeneratedCodeInfo_Annotation_known, OF GeneratedCodeInfo_Annotation_jnorm_norm])

lemma UninterpretedOption_jnorm_norm: "UninterpretedOption_fits m \<Longrightarrow> UninterpretedOption_jnorm m = UninterpretedOption_norm m"
  unfolding UninterpretedOption_fits_def UninterpretedOption_jnorm_def UninterpretedOption_norm_def by (simp add: round_nullish map_round map_option_agree(1) [where P = UninterpretedOption_NamePart_fits and f = UninterpretedOption_NamePart_jnorm and g = UninterpretedOption_NamePart_norm, OF UninterpretedOption_NamePart_jnorm_norm] map_agree(1) [where P = UninterpretedOption_NamePart_fits and f = UninterpretedOption_NamePart_jnorm and g = UninterpretedOption_NamePart_norm, OF UninterpretedOption_NamePart_jnorm_norm])

definition OneofOptions_known :: "OneofOptions \<Rightarrow> bool" where
  "OneofOptions_known m \<longleftrightarrow>
     pred_option FeatureSet_known (OneofOptions_features m)"

lemma OneofOptions_jnorm_norm: "OneofOptions_fits m \<Longrightarrow> OneofOptions_known m \<Longrightarrow> OneofOptions_jnorm m = OneofOptions_norm m"
  unfolding OneofOptions_fits_def OneofOptions_known_def OneofOptions_jnorm_def OneofOptions_norm_def by (simp add: round_nullish map_round map_option_agree(2) [where P = FeatureSet_fits and f = FeatureSet_jnorm and g = FeatureSet_norm and Q = FeatureSet_known, OF FeatureSet_jnorm_norm] map_agree(2) [where P = FeatureSet_fits and f = FeatureSet_jnorm and g = FeatureSet_norm and Q = FeatureSet_known, OF FeatureSet_jnorm_norm] map_option_agree(1) [where P = UninterpretedOption_fits and f = UninterpretedOption_jnorm and g = UninterpretedOption_norm, OF UninterpretedOption_jnorm_norm] map_agree(1) [where P = UninterpretedOption_fits and f = UninterpretedOption_jnorm and g = UninterpretedOption_norm, OF UninterpretedOption_jnorm_norm])

definition EnumOptions_known :: "EnumOptions \<Rightarrow> bool" where
  "EnumOptions_known m \<longleftrightarrow>
     pred_option FeatureSet_known (EnumOptions_features m)"

lemma EnumOptions_jnorm_norm: "EnumOptions_fits m \<Longrightarrow> EnumOptions_known m \<Longrightarrow> EnumOptions_jnorm m = EnumOptions_norm m"
  unfolding EnumOptions_fits_def EnumOptions_known_def EnumOptions_jnorm_def EnumOptions_norm_def by (simp add: round_nullish map_round map_option_agree(2) [where P = FeatureSet_fits and f = FeatureSet_jnorm and g = FeatureSet_norm and Q = FeatureSet_known, OF FeatureSet_jnorm_norm] map_agree(2) [where P = FeatureSet_fits and f = FeatureSet_jnorm and g = FeatureSet_norm and Q = FeatureSet_known, OF FeatureSet_jnorm_norm] map_option_agree(1) [where P = UninterpretedOption_fits and f = UninterpretedOption_jnorm and g = UninterpretedOption_norm, OF UninterpretedOption_jnorm_norm] map_agree(1) [where P = UninterpretedOption_fits and f = UninterpretedOption_jnorm and g = UninterpretedOption_norm, OF UninterpretedOption_jnorm_norm])

definition EnumValueOptions_known :: "EnumValueOptions \<Rightarrow> bool" where
  "EnumValueOptions_known m \<longleftrightarrow>
     pred_option FeatureSet_known (EnumValueOptions_features m) \<and>
     pred_option FieldOptions_FeatureSupport_known (EnumValueOptions_featureSupport m)"

lemma EnumValueOptions_jnorm_norm: "EnumValueOptions_fits m \<Longrightarrow> EnumValueOptions_known m \<Longrightarrow> EnumValueOptions_jnorm m = EnumValueOptions_norm m"
  unfolding EnumValueOptions_fits_def EnumValueOptions_known_def EnumValueOptions_jnorm_def EnumValueOptions_norm_def by (simp add: round_nullish map_round map_option_agree(2) [where P = FeatureSet_fits and f = FeatureSet_jnorm and g = FeatureSet_norm and Q = FeatureSet_known, OF FeatureSet_jnorm_norm] map_agree(2) [where P = FeatureSet_fits and f = FeatureSet_jnorm and g = FeatureSet_norm and Q = FeatureSet_known, OF FeatureSet_jnorm_norm] map_option_agree(2) [where P = FieldOptions_FeatureSupport_fits and f = FieldOptions_FeatureSupport_jnorm and g = FieldOptions_FeatureSupport_norm and Q = FieldOptions_FeatureSupport_known, OF FieldOptions_FeatureSupport_jnorm_norm] map_agree(2) [where P = FieldOptions_FeatureSupport_fits and f = FieldOptions_FeatureSupport_jnorm and g = FieldOptions_FeatureSupport_norm and Q = FieldOptions_FeatureSupport_known, OF FieldOptions_FeatureSupport_jnorm_norm] map_option_agree(1) [where P = UninterpretedOption_fits and f = UninterpretedOption_jnorm and g = UninterpretedOption_norm, OF UninterpretedOption_jnorm_norm] map_agree(1) [where P = UninterpretedOption_fits and f = UninterpretedOption_jnorm and g = UninterpretedOption_norm, OF UninterpretedOption_jnorm_norm])

definition ServiceOptions_known :: "ServiceOptions \<Rightarrow> bool" where
  "ServiceOptions_known m \<longleftrightarrow>
     pred_option FeatureSet_known (ServiceOptions_features m)"

lemma ServiceOptions_jnorm_norm: "ServiceOptions_fits m \<Longrightarrow> ServiceOptions_known m \<Longrightarrow> ServiceOptions_jnorm m = ServiceOptions_norm m"
  unfolding ServiceOptions_fits_def ServiceOptions_known_def ServiceOptions_jnorm_def ServiceOptions_norm_def by (simp add: round_nullish map_round map_option_agree(2) [where P = FeatureSet_fits and f = FeatureSet_jnorm and g = FeatureSet_norm and Q = FeatureSet_known, OF FeatureSet_jnorm_norm] map_agree(2) [where P = FeatureSet_fits and f = FeatureSet_jnorm and g = FeatureSet_norm and Q = FeatureSet_known, OF FeatureSet_jnorm_norm] map_option_agree(1) [where P = UninterpretedOption_fits and f = UninterpretedOption_jnorm and g = UninterpretedOption_norm, OF UninterpretedOption_jnorm_norm] map_agree(1) [where P = UninterpretedOption_fits and f = UninterpretedOption_jnorm and g = UninterpretedOption_norm, OF UninterpretedOption_jnorm_norm])

definition MethodOptions_known :: "MethodOptions \<Rightarrow> bool" where
  "MethodOptions_known m \<longleftrightarrow>
     pred_option (declared MethodOptions_IdempotencyLevel_value) (MethodOptions_idempotencyLevel m) \<and>
     pred_option FeatureSet_known (MethodOptions_features m)"

lemma MethodOptions_jnorm_norm: "MethodOptions_fits m \<Longrightarrow> MethodOptions_known m \<Longrightarrow> MethodOptions_jnorm m = MethodOptions_norm m"
  unfolding MethodOptions_fits_def MethodOptions_known_def MethodOptions_jnorm_def MethodOptions_norm_def by (simp add: round_nullish map_round methodOptions_IdempotencyLevel.json_declared methodOptions_IdempotencyLevel.json_declared_list map_option_agree(2) [where P = FeatureSet_fits and f = FeatureSet_jnorm and g = FeatureSet_norm and Q = FeatureSet_known, OF FeatureSet_jnorm_norm] map_agree(2) [where P = FeatureSet_fits and f = FeatureSet_jnorm and g = FeatureSet_norm and Q = FeatureSet_known, OF FeatureSet_jnorm_norm] map_option_agree(1) [where P = UninterpretedOption_fits and f = UninterpretedOption_jnorm and g = UninterpretedOption_norm, OF UninterpretedOption_jnorm_norm] map_agree(1) [where P = UninterpretedOption_fits and f = UninterpretedOption_jnorm and g = UninterpretedOption_norm, OF UninterpretedOption_jnorm_norm])

definition MessageOptions_known :: "MessageOptions \<Rightarrow> bool" where
  "MessageOptions_known m \<longleftrightarrow>
     pred_option FeatureSet_known (MessageOptions_features m)"

lemma MessageOptions_jnorm_norm: "MessageOptions_fits m \<Longrightarrow> MessageOptions_known m \<Longrightarrow> MessageOptions_jnorm m = MessageOptions_norm m"
  unfolding MessageOptions_fits_def MessageOptions_known_def MessageOptions_jnorm_def MessageOptions_norm_def by (simp add: round_nullish map_round map_option_agree(2) [where P = FeatureSet_fits and f = FeatureSet_jnorm and g = FeatureSet_norm and Q = FeatureSet_known, OF FeatureSet_jnorm_norm] map_agree(2) [where P = FeatureSet_fits and f = FeatureSet_jnorm and g = FeatureSet_norm and Q = FeatureSet_known, OF FeatureSet_jnorm_norm] map_option_agree(1) [where P = UninterpretedOption_fits and f = UninterpretedOption_jnorm and g = UninterpretedOption_norm, OF UninterpretedOption_jnorm_norm] map_agree(1) [where P = UninterpretedOption_fits and f = UninterpretedOption_jnorm and g = UninterpretedOption_norm, OF UninterpretedOption_jnorm_norm])

definition FieldOptions_known :: "FieldOptions \<Rightarrow> bool" where
  "FieldOptions_known m \<longleftrightarrow>
     pred_option (declared FieldOptions_CType_value) (FieldOptions_ctype m) \<and>
     pred_option (declared FieldOptions_JSType_value) (FieldOptions_jstype m) \<and>
     pred_option (declared FieldOptions_OptionRetention_value) (FieldOptions_retention m) \<and>
     list_all (declared FieldOptions_OptionTargetType_value) (FieldOptions_targets m) \<and>
     list_all FieldOptions_EditionDefault_known (FieldOptions_editionDefaults m) \<and>
     pred_option FeatureSet_known (FieldOptions_features m) \<and>
     pred_option FieldOptions_FeatureSupport_known (FieldOptions_featureSupport m)"

lemma FieldOptions_jnorm_norm: "FieldOptions_fits m \<Longrightarrow> FieldOptions_known m \<Longrightarrow> FieldOptions_jnorm m = FieldOptions_norm m"
  unfolding FieldOptions_fits_def FieldOptions_known_def FieldOptions_jnorm_def FieldOptions_norm_def by (simp add: round_nullish map_round fieldOptions_CType.json_declared fieldOptions_CType.json_declared_list fieldOptions_JSType.json_declared fieldOptions_JSType.json_declared_list fieldOptions_OptionRetention.json_declared fieldOptions_OptionRetention.json_declared_list fieldOptions_OptionTargetType.json_declared fieldOptions_OptionTargetType.json_declared_list map_option_agree(2) [where P = FeatureSet_fits and f = FeatureSet_jnorm and g = FeatureSet_norm and Q = FeatureSet_known, OF FeatureSet_jnorm_norm] map_agree(2) [where P = FeatureSet_fits and f = FeatureSet_jnorm and g = FeatureSet_norm and Q = FeatureSet_known, OF FeatureSet_jnorm_norm] map_option_agree(2) [where P = FieldOptions_EditionDefault_fits and f = FieldOptions_EditionDefault_jnorm and g = FieldOptions_EditionDefault_norm and Q = FieldOptions_EditionDefault_known, OF FieldOptions_EditionDefault_jnorm_norm] map_agree(2) [where P = FieldOptions_EditionDefault_fits and f = FieldOptions_EditionDefault_jnorm and g = FieldOptions_EditionDefault_norm and Q = FieldOptions_EditionDefault_known, OF FieldOptions_EditionDefault_jnorm_norm] map_option_agree(2) [where P = FieldOptions_FeatureSupport_fits and f = FieldOptions_FeatureSupport_jnorm and g = FieldOptions_FeatureSupport_norm and Q = FieldOptions_FeatureSupport_known, OF FieldOptions_FeatureSupport_jnorm_norm] map_agree(2) [where P = FieldOptions_FeatureSupport_fits and f = FieldOptions_FeatureSupport_jnorm and g = FieldOptions_FeatureSupport_norm and Q = FieldOptions_FeatureSupport_known, OF FieldOptions_FeatureSupport_jnorm_norm] map_option_agree(1) [where P = UninterpretedOption_fits and f = UninterpretedOption_jnorm and g = UninterpretedOption_norm, OF UninterpretedOption_jnorm_norm] map_agree(1) [where P = UninterpretedOption_fits and f = UninterpretedOption_jnorm and g = UninterpretedOption_norm, OF UninterpretedOption_jnorm_norm])

definition FileOptions_known :: "FileOptions \<Rightarrow> bool" where
  "FileOptions_known m \<longleftrightarrow>
     pred_option (declared FileOptions_OptimizeMode_value) (FileOptions_optimizeFor m) \<and>
     pred_option FeatureSet_known (FileOptions_features m)"

lemma FileOptions_jnorm_norm: "FileOptions_fits m \<Longrightarrow> FileOptions_known m \<Longrightarrow> FileOptions_jnorm m = FileOptions_norm m"
  unfolding FileOptions_fits_def FileOptions_known_def FileOptions_jnorm_def FileOptions_norm_def by (simp add: round_nullish map_round fileOptions_OptimizeMode.json_declared fileOptions_OptimizeMode.json_declared_list map_option_agree(2) [where P = FeatureSet_fits and f = FeatureSet_jnorm and g = FeatureSet_norm and Q = FeatureSet_known, OF FeatureSet_jnorm_norm] map_agree(2) [where P = FeatureSet_fits and f = FeatureSet_jnorm and g = FeatureSet_norm and Q = FeatureSet_known, OF FeatureSet_jnorm_norm] map_option_agree(1) [where P = UninterpretedOption_fits and f = UninterpretedOption_jnorm and g = UninterpretedOption_norm, OF UninterpretedOption_jnorm_norm] map_agree(1) [where P = UninterpretedOption_fits and f = UninterpretedOption_jnorm and g = UninterpretedOption_norm, OF UninterpretedOption_jnorm_norm])

definition ExtensionRangeOptions_known :: "ExtensionRangeOptions \<Rightarrow> bool" where
  "ExtensionRangeOptions_known m \<longleftrightarrow>
     pred_option FeatureSet_known (ExtensionRangeOptions_features m) \<and>
     pred_option (declared ExtensionRangeOptions_VerificationState_value) (ExtensionRangeOptions_verification m)"

lemma ExtensionRangeOptions_jnorm_norm: "ExtensionRangeOptions_fits m \<Longrightarrow> ExtensionRangeOptions_known m \<Longrightarrow> ExtensionRangeOptions_jnorm m = ExtensionRangeOptions_norm m"
  unfolding ExtensionRangeOptions_fits_def ExtensionRangeOptions_known_def ExtensionRangeOptions_jnorm_def ExtensionRangeOptions_norm_def by (simp add: round_nullish map_round extensionRangeOptions_VerificationState.json_declared extensionRangeOptions_VerificationState.json_declared_list map_option_agree(2) [where P = FeatureSet_fits and f = FeatureSet_jnorm and g = FeatureSet_norm and Q = FeatureSet_known, OF FeatureSet_jnorm_norm] map_agree(2) [where P = FeatureSet_fits and f = FeatureSet_jnorm and g = FeatureSet_norm and Q = FeatureSet_known, OF FeatureSet_jnorm_norm] map_option_agree(1) [where P = ExtensionRangeOptions_Declaration_fits and f = ExtensionRangeOptions_Declaration_jnorm and g = ExtensionRangeOptions_Declaration_norm, OF ExtensionRangeOptions_Declaration_jnorm_norm] map_agree(1) [where P = ExtensionRangeOptions_Declaration_fits and f = ExtensionRangeOptions_Declaration_jnorm and g = ExtensionRangeOptions_Declaration_norm, OF ExtensionRangeOptions_Declaration_jnorm_norm] map_option_agree(1) [where P = UninterpretedOption_fits and f = UninterpretedOption_jnorm and g = UninterpretedOption_norm, OF UninterpretedOption_jnorm_norm] map_agree(1) [where P = UninterpretedOption_fits and f = UninterpretedOption_jnorm and g = UninterpretedOption_norm, OF UninterpretedOption_jnorm_norm])

definition FieldDescriptorProto_known :: "FieldDescriptorProto \<Rightarrow> bool" where
  "FieldDescriptorProto_known m \<longleftrightarrow>
     pred_option (declared FieldDescriptorProto_Label_value) (FieldDescriptorProto_label m) \<and>
     pred_option (declared FieldDescriptorProto_Type_value) (FieldDescriptorProto_type m) \<and>
     pred_option FieldOptions_known (FieldDescriptorProto_options m)"

lemma FieldDescriptorProto_jnorm_norm: "FieldDescriptorProto_fits m \<Longrightarrow> FieldDescriptorProto_known m \<Longrightarrow> FieldDescriptorProto_jnorm m = FieldDescriptorProto_norm m"
  unfolding FieldDescriptorProto_fits_def FieldDescriptorProto_known_def FieldDescriptorProto_jnorm_def FieldDescriptorProto_norm_def by (simp add: round_nullish map_round fieldDescriptorProto_Label.json_declared fieldDescriptorProto_Label.json_declared_list fieldDescriptorProto_Type.json_declared fieldDescriptorProto_Type.json_declared_list map_option_agree(2) [where P = FieldOptions_fits and f = FieldOptions_jnorm and g = FieldOptions_norm and Q = FieldOptions_known, OF FieldOptions_jnorm_norm] map_agree(2) [where P = FieldOptions_fits and f = FieldOptions_jnorm and g = FieldOptions_norm and Q = FieldOptions_known, OF FieldOptions_jnorm_norm])

definition OneofDescriptorProto_known :: "OneofDescriptorProto \<Rightarrow> bool" where
  "OneofDescriptorProto_known m \<longleftrightarrow>
     pred_option OneofOptions_known (OneofDescriptorProto_options m)"

lemma OneofDescriptorProto_jnorm_norm: "OneofDescriptorProto_fits m \<Longrightarrow> OneofDescriptorProto_known m \<Longrightarrow> OneofDescriptorProto_jnorm m = OneofDescriptorProto_norm m"
  unfolding OneofDescriptorProto_fits_def OneofDescriptorProto_known_def OneofDescriptorProto_jnorm_def OneofDescriptorProto_norm_def by (simp add: round_nullish map_round map_option_agree(2) [where P = OneofOptions_fits and f = OneofOptions_jnorm and g = OneofOptions_norm and Q = OneofOptions_known, OF OneofOptions_jnorm_norm] map_agree(2) [where P = OneofOptions_fits and f = OneofOptions_jnorm and g = OneofOptions_norm and Q = OneofOptions_known, OF OneofOptions_jnorm_norm])

definition EnumValueDescriptorProto_known :: "EnumValueDescriptorProto \<Rightarrow> bool" where
  "EnumValueDescriptorProto_known m \<longleftrightarrow>
     pred_option EnumValueOptions_known (EnumValueDescriptorProto_options m)"

lemma EnumValueDescriptorProto_jnorm_norm: "EnumValueDescriptorProto_fits m \<Longrightarrow> EnumValueDescriptorProto_known m \<Longrightarrow> EnumValueDescriptorProto_jnorm m = EnumValueDescriptorProto_norm m"
  unfolding EnumValueDescriptorProto_fits_def EnumValueDescriptorProto_known_def EnumValueDescriptorProto_jnorm_def EnumValueDescriptorProto_norm_def by (simp add: round_nullish map_round map_option_agree(2) [where P = EnumValueOptions_fits and f = EnumValueOptions_jnorm and g = EnumValueOptions_norm and Q = EnumValueOptions_known, OF EnumValueOptions_jnorm_norm] map_agree(2) [where P = EnumValueOptions_fits and f = EnumValueOptions_jnorm and g = EnumValueOptions_norm and Q = EnumValueOptions_known, OF EnumValueOptions_jnorm_norm])

definition EnumDescriptorProto_known :: "EnumDescriptorProto \<Rightarrow> bool" where
  "EnumDescriptorProto_known m \<longleftrightarrow>
     list_all EnumValueDescriptorProto_known (EnumDescriptorProto_value m) \<and>
     pred_option EnumOptions_known (EnumDescriptorProto_options m)"

lemma EnumDescriptorProto_jnorm_norm: "EnumDescriptorProto_fits m \<Longrightarrow> EnumDescriptorProto_known m \<Longrightarrow> EnumDescriptorProto_jnorm m = EnumDescriptorProto_norm m"
  unfolding EnumDescriptorProto_fits_def EnumDescriptorProto_known_def EnumDescriptorProto_jnorm_def EnumDescriptorProto_norm_def by (simp add: round_nullish map_round map_option_agree(1) [where P = EnumDescriptorProto_EnumReservedRange_fits and f = EnumDescriptorProto_EnumReservedRange_jnorm and g = EnumDescriptorProto_EnumReservedRange_norm, OF EnumDescriptorProto_EnumReservedRange_jnorm_norm] map_agree(1) [where P = EnumDescriptorProto_EnumReservedRange_fits and f = EnumDescriptorProto_EnumReservedRange_jnorm and g = EnumDescriptorProto_EnumReservedRange_norm, OF EnumDescriptorProto_EnumReservedRange_jnorm_norm] map_option_agree(2) [where P = EnumOptions_fits and f = EnumOptions_jnorm and g = EnumOptions_norm and Q = EnumOptions_known, OF EnumOptions_jnorm_norm] map_agree(2) [where P = EnumOptions_fits and f = EnumOptions_jnorm and g = EnumOptions_norm and Q = EnumOptions_known, OF EnumOptions_jnorm_norm] map_option_agree(2) [where P = EnumValueDescriptorProto_fits and f = EnumValueDescriptorProto_jnorm and g = EnumValueDescriptorProto_norm and Q = EnumValueDescriptorProto_known, OF EnumValueDescriptorProto_jnorm_norm] map_agree(2) [where P = EnumValueDescriptorProto_fits and f = EnumValueDescriptorProto_jnorm and g = EnumValueDescriptorProto_norm and Q = EnumValueDescriptorProto_known, OF EnumValueDescriptorProto_jnorm_norm])

definition MethodDescriptorProto_known :: "MethodDescriptorProto \<Rightarrow> bool" where
  "MethodDescriptorProto_known m \<longleftrightarrow>
     pred_option MethodOptions_known (MethodDescriptorProto_options m)"

lemma MethodDescriptorProto_jnorm_norm: "MethodDescriptorProto_fits m \<Longrightarrow> MethodDescriptorProto_known m \<Longrightarrow> MethodDescriptorProto_jnorm m = MethodDescriptorProto_norm m"
  unfolding MethodDescriptorProto_fits_def MethodDescriptorProto_known_def MethodDescriptorProto_jnorm_def MethodDescriptorProto_norm_def by (simp add: round_nullish map_round map_option_agree(2) [where P = MethodOptions_fits and f = MethodOptions_jnorm and g = MethodOptions_norm and Q = MethodOptions_known, OF MethodOptions_jnorm_norm] map_agree(2) [where P = MethodOptions_fits and f = MethodOptions_jnorm and g = MethodOptions_norm and Q = MethodOptions_known, OF MethodOptions_jnorm_norm])

definition ServiceDescriptorProto_known :: "ServiceDescriptorProto \<Rightarrow> bool" where
  "ServiceDescriptorProto_known m \<longleftrightarrow>
     list_all MethodDescriptorProto_known (ServiceDescriptorProto_method m) \<and>
     pred_option ServiceOptions_known (ServiceDescriptorProto_options m)"

lemma ServiceDescriptorProto_jnorm_norm: "ServiceDescriptorProto_fits m \<Longrightarrow> ServiceDescriptorProto_known m \<Longrightarrow> ServiceDescriptorProto_jnorm m = ServiceDescriptorProto_norm m"
  unfolding ServiceDescriptorProto_fits_def ServiceDescriptorProto_known_def ServiceDescriptorProto_jnorm_def ServiceDescriptorProto_norm_def by (simp add: round_nullish map_round map_option_agree(2) [where P = ServiceOptions_fits and f = ServiceOptions_jnorm and g = ServiceOptions_norm and Q = ServiceOptions_known, OF ServiceOptions_jnorm_norm] map_agree(2) [where P = ServiceOptions_fits and f = ServiceOptions_jnorm and g = ServiceOptions_norm and Q = ServiceOptions_known, OF ServiceOptions_jnorm_norm] map_option_agree(2) [where P = MethodDescriptorProto_fits and f = MethodDescriptorProto_jnorm and g = MethodDescriptorProto_norm and Q = MethodDescriptorProto_known, OF MethodDescriptorProto_jnorm_norm] map_agree(2) [where P = MethodDescriptorProto_fits and f = MethodDescriptorProto_jnorm and g = MethodDescriptorProto_norm and Q = MethodDescriptorProto_known, OF MethodDescriptorProto_jnorm_norm])

definition DescriptorProto_ExtensionRange_known :: "DescriptorProto_ExtensionRange \<Rightarrow> bool" where
  "DescriptorProto_ExtensionRange_known m \<longleftrightarrow>
     pred_option ExtensionRangeOptions_known (DescriptorProto_ExtensionRange_options m)"

lemma DescriptorProto_ExtensionRange_jnorm_norm: "DescriptorProto_ExtensionRange_fits m \<Longrightarrow> DescriptorProto_ExtensionRange_known m \<Longrightarrow> DescriptorProto_ExtensionRange_jnorm m = DescriptorProto_ExtensionRange_norm m"
  unfolding DescriptorProto_ExtensionRange_fits_def DescriptorProto_ExtensionRange_known_def DescriptorProto_ExtensionRange_jnorm_def DescriptorProto_ExtensionRange_norm_def by (simp add: round_nullish map_round map_option_agree(2) [where P = ExtensionRangeOptions_fits and f = ExtensionRangeOptions_jnorm and g = ExtensionRangeOptions_norm and Q = ExtensionRangeOptions_known, OF ExtensionRangeOptions_jnorm_norm] map_agree(2) [where P = ExtensionRangeOptions_fits and f = ExtensionRangeOptions_jnorm and g = ExtensionRangeOptions_norm and Q = ExtensionRangeOptions_known, OF ExtensionRangeOptions_jnorm_norm])

function DescriptorProto_known :: "DescriptorProto \<Rightarrow> bool" where
  "DescriptorProto_known m \<longleftrightarrow>
     list_all FieldDescriptorProto_known (DescriptorProto_field m) \<and>
     list_all FieldDescriptorProto_known (DescriptorProto_extension m) \<and>
     list_all DescriptorProto_known (DescriptorProto_nestedType m) \<and>
     list_all EnumDescriptorProto_known (DescriptorProto_enumType m) \<and>
     list_all DescriptorProto_ExtensionRange_known (DescriptorProto_extensionRange m) \<and>
     list_all OneofDescriptorProto_known (DescriptorProto_oneofDecl m) \<and>
     pred_option MessageOptions_known (DescriptorProto_options m)"
  by pat_completeness auto
termination
  by (relation "measure size") (simp_all add: DescriptorProto_part_size)

declare DescriptorProto_known.simps [simp del]

lemma DescriptorProto_jnorm_norm: "DescriptorProto_fits m \<Longrightarrow> DescriptorProto_known m \<Longrightarrow> DescriptorProto_jnorm m = DescriptorProto_norm m"
proof (induction m rule: DescriptorProto_norm.induct)
  case (1 m)
  have parts: "list_all DescriptorProto_fits (DescriptorProto_nestedType m)" "list_all DescriptorProto_known (DescriptorProto_nestedType m)"
    using "1.prems" by (simp_all add: DescriptorProto_fits.simps [of m] DescriptorProto_known.simps [of m])
  then have sub: "map DescriptorProto_jnorm (DescriptorProto_nestedType m) = map DescriptorProto_norm (DescriptorProto_nestedType m)"
    using 1(1) by (simp add: list_all_iff)
  show ?case
    using "1.prems" unfolding DescriptorProto_fits.simps [of m] DescriptorProto_known.simps [of m] DescriptorProto_jnorm.simps [of m] DescriptorProto_norm.simps [of m]
    by (simp add: sub round_nullish map_round map_option_agree(1) [where P = DescriptorProto_ReservedRange_fits and f = DescriptorProto_ReservedRange_jnorm and g = DescriptorProto_ReservedRange_norm, OF DescriptorProto_ReservedRange_jnorm_norm] map_agree(1) [where P = DescriptorProto_ReservedRange_fits and f = DescriptorProto_ReservedRange_jnorm and g = DescriptorProto_ReservedRange_norm, OF DescriptorProto_ReservedRange_jnorm_norm] map_option_agree(2) [where P = MessageOptions_fits and f = MessageOptions_jnorm and g = MessageOptions_norm and Q = MessageOptions_known, OF MessageOptions_jnorm_norm] map_agree(2) [where P = MessageOptions_fits and f = MessageOptions_jnorm and g = MessageOptions_norm and Q = MessageOptions_known, OF MessageOptions_jnorm_norm] map_option_agree(2) [where P = FieldDescriptorProto_fits and f = FieldDescriptorProto_jnorm and g = FieldDescriptorProto_norm and Q = FieldDescriptorProto_known, OF FieldDescriptorProto_jnorm_norm] map_agree(2) [where P = FieldDescriptorProto_fits and f = FieldDescriptorProto_jnorm and g = FieldDescriptorProto_norm and Q = FieldDescriptorProto_known, OF FieldDescriptorProto_jnorm_norm] map_option_agree(2) [where P = OneofDescriptorProto_fits and f = OneofDescriptorProto_jnorm and g = OneofDescriptorProto_norm and Q = OneofDescriptorProto_known, OF OneofDescriptorProto_jnorm_norm] map_agree(2) [where P = OneofDescriptorProto_fits and f = OneofDescriptorProto_jnorm and g = OneofDescriptorProto_norm and Q = OneofDescriptorProto_known, OF OneofDescriptorProto_jnorm_norm] map_option_agree(2) [where P = EnumDescriptorProto_fits and f = EnumDescriptorProto_jnorm and g = EnumDescriptorProto_norm and Q = EnumDescriptorProto_known, OF EnumDescriptorProto_jnorm_norm] map_agree(2) [where P = EnumDescriptorProto_fits and f = EnumDescriptorProto_jnorm and g = EnumDescriptorProto_norm and Q = EnumDescriptorProto_known, OF EnumDescriptorProto_jnorm_norm] map_option_agree(2) [where P = DescriptorProto_ExtensionRange_fits and f = DescriptorProto_ExtensionRange_jnorm and g = DescriptorProto_ExtensionRange_norm and Q = DescriptorProto_ExtensionRange_known, OF DescriptorProto_ExtensionRange_jnorm_norm] map_agree(2) [where P = DescriptorProto_ExtensionRange_fits and f = DescriptorProto_ExtensionRange_jnorm and g = DescriptorProto_ExtensionRange_norm and Q = DescriptorProto_ExtensionRange_known, OF DescriptorProto_ExtensionRange_jnorm_norm])
qed

definition FileDescriptorProto_known :: "FileDescriptorProto \<Rightarrow> bool" where
  "FileDescriptorProto_known m \<longleftrightarrow>
     list_all DescriptorProto_known (FileDescriptorProto_messageType m) \<and>
     list_all EnumDescriptorProto_known (FileDescriptorProto_enumType m) \<and>
     list_all ServiceDescriptorProto_known (FileDescriptorProto_service m) \<and>
     list_all FieldDescriptorProto_known (FileDescriptorProto_extension m) \<and>
     pred_option FileOptions_known (FileDescriptorProto_options m) \<and>
     pred_option (declared Edition_value) (FileDescriptorProto_edition m)"

lemma FileDescriptorProto_jnorm_norm: "FileDescriptorProto_fits m \<Longrightarrow> FileDescriptorProto_known m \<Longrightarrow> FileDescriptorProto_jnorm m = FileDescriptorProto_norm m"
  unfolding FileDescriptorProto_fits_def FileDescriptorProto_known_def FileDescriptorProto_jnorm_def FileDescriptorProto_norm_def by (simp add: round_nullish map_round edition.json_declared edition.json_declared_list map_option_agree(1) [where P = SourceCodeInfo_fits and f = SourceCodeInfo_jnorm and g = SourceCodeInfo_norm, OF SourceCodeInfo_jnorm_norm] map_agree(1) [where P = SourceCodeInfo_fits and f = SourceCodeInfo_jnorm and g = SourceCodeInfo_norm, OF SourceCodeInfo_jnorm_norm] map_option_agree(2) [where P = FileOptions_fits and f = FileOptions_jnorm and g = FileOptions_norm and Q = FileOptions_known, OF FileOptions_jnorm_norm] map_agree(2) [where P = FileOptions_fits and f = FileOptions_jnorm and g = FileOptions_norm and Q = FileOptions_known, OF FileOptions_jnorm_norm] map_option_agree(2) [where P = FieldDescriptorProto_fits and f = FieldDescriptorProto_jnorm and g = FieldDescriptorProto_norm and Q = FieldDescriptorProto_known, OF FieldDescriptorProto_jnorm_norm] map_agree(2) [where P = FieldDescriptorProto_fits and f = FieldDescriptorProto_jnorm and g = FieldDescriptorProto_norm and Q = FieldDescriptorProto_known, OF FieldDescriptorProto_jnorm_norm] map_option_agree(2) [where P = EnumDescriptorProto_fits and f = EnumDescriptorProto_jnorm and g = EnumDescriptorProto_norm and Q = EnumDescriptorProto_known, OF EnumDescriptorProto_jnorm_norm] map_agree(2) [where P = EnumDescriptorProto_fits and f = EnumDescriptorProto_jnorm and g = EnumDescriptorProto_norm and Q = EnumDescriptorProto_known, OF EnumDescriptorProto_jnorm_norm] map_option_agree(2) [where P = ServiceDescriptorProto_fits and f = ServiceDescriptorProto_jnorm and g = ServiceDescriptorProto_norm and Q = ServiceDescriptorProto_known, OF ServiceDescriptorProto_jnorm_norm] map_agree(2) [where P = ServiceDescriptorProto_fits and f = ServiceDescriptorProto_jnorm and g = ServiceDescriptorProto_norm and Q = ServiceDescriptorProto_known, OF ServiceDescriptorProto_jnorm_norm] map_option_agree(2) [where P = DescriptorProto_fits and f = DescriptorProto_jnorm and g = DescriptorProto_norm and Q = DescriptorProto_known, OF DescriptorProto_jnorm_norm] map_agree(2) [where P = DescriptorProto_fits and f = DescriptorProto_jnorm and g = DescriptorProto_norm and Q = DescriptorProto_known, OF DescriptorProto_jnorm_norm])

definition FileDescriptorSet_known :: "FileDescriptorSet \<Rightarrow> bool" where
  "FileDescriptorSet_known m \<longleftrightarrow>
     list_all FileDescriptorProto_known (FileDescriptorSet_file m)"

lemma FileDescriptorSet_jnorm_norm: "FileDescriptorSet_fits m \<Longrightarrow> FileDescriptorSet_known m \<Longrightarrow> FileDescriptorSet_jnorm m = FileDescriptorSet_norm m"
  unfolding FileDescriptorSet_fits_def FileDescriptorSet_known_def FileDescriptorSet_jnorm_def FileDescriptorSet_norm_def by (simp add: round_nullish map_round map_option_agree(2) [where P = FileDescriptorProto_fits and f = FileDescriptorProto_jnorm and g = FileDescriptorProto_norm and Q = FileDescriptorProto_known, OF FileDescriptorProto_jnorm_norm] map_agree(2) [where P = FileDescriptorProto_fits and f = FileDescriptorProto_jnorm and g = FileDescriptorProto_norm and Q = FileDescriptorProto_known, OF FileDescriptorProto_jnorm_norm])

section \<open>Messages made from partial ones\<close>

lemma UninterpretedOption_NamePart_norm_fromPartial: "UninterpretedOption_NamePart_norm (UninterpretedOption_NamePart_fromPartial object) = UninterpretedOption_NamePart_fromPartial object"
  by (simp add: UninterpretedOption_NamePart_norm_def UninterpretedOption_NamePart_fromPartial_def createBaseUninterpretedOption_NamePart_def nullish_Some )

lemma FeatureSet_norm_fromPartial: "FeatureSet_norm (FeatureSet_fromPartial object) = FeatureSet_fromPartial object"
  by (simp add: FeatureSet_norm_def FeatureSet_fromPartial_def createBaseFeatureSet_def nullish_Some )

lemma FeatureSetDefaults_FeatureSetEditionDefault_norm_fromPartial: "FeatureSetDefaults_FeatureSetEditionDefault_norm (FeatureSetDefaults_FeatureSetEditionDefault_fromPartial object) = FeatureSetDefaults_FeatureSetEditionDefault_fromPartial object"
  by (simp add: FeatureSetDefaults_FeatureSetEditionDefault_norm_def FeatureSetDefaults_FeatureSetEditionDefault_fromPartial_def createBaseFeatureSetDefaults_FeatureSetEditionDefault_def nullish_Some partial_option [where f = FeatureSet_norm and g = FeatureSet_fromPartial, OF FeatureSet_norm_fromPartial] partial_list [where f = FeatureSet_norm and g = FeatureSet_fromPartial, OF FeatureSet_norm_fromPartial])

lemma FeatureSetDefaults_norm_fromPartial: "FeatureSetDefaults_norm (FeatureSetDefaults_fromPartial object) = FeatureSetDefaults_fromPartial object"
  by (simp add: FeatureSetDefaults_norm_def FeatureSetDefaults_fromPartial_def createBaseFeatureSetDefaults_def nullish_Some partial_option [where f = FeatureSetDefaults_FeatureSetEditionDefault_norm and g = FeatureSetDefaults_FeatureSetEditionDefault_fromPartial, OF FeatureSetDefaults_FeatureSetEditionDefault_norm_fromPartial] partial_list [where f = FeatureSetDefaults_FeatureSetEditionDefault_norm and g = FeatureSetDefaults_FeatureSetEditionDefault_fromPartial, OF FeatureSetDefaults_FeatureSetEditionDefault_norm_fromPartial])

lemma FieldOptions_EditionDefault_norm_fromPartial: "FieldOptions_EditionDefault_norm (FieldOptions_EditionDefault_fromPartial object) = FieldOptions_EditionDefault_fromPartial object"
  by (simp add: FieldOptions_EditionDefault_norm_def FieldOptions_EditionDefault_fromPartial_def createBaseFieldOptions_EditionDefault_def nullish_Some )

lemma FieldOptions_FeatureSupport_norm_fromPartial: "FieldOptions_FeatureSupport_norm (FieldOptions_FeatureSupport_fromPartial object) = FieldOptions_FeatureSupport_fromPartial object"
  by (simp add: FieldOptions_FeatureSupport_norm_def FieldOptions_FeatureSupport_fromPartial_def createBaseFieldOptions_FeatureSupport_def nullish_Some )

lemma DescriptorProto_ReservedRange_norm_fromPartial: "DescriptorProto_ReservedRange_norm (DescriptorProto_ReservedRange_fromPartial object) = DescriptorProto_ReservedRange_fromPartial object"
  by (simp add: DescriptorProto_ReservedRange_norm_def DescriptorProto_ReservedRange_fromPartial_def createBaseDescriptorProto_ReservedRange_def nullish_Some )

lemma EnumDescriptorProto_EnumReservedRange_norm_fromPartial: "EnumDescriptorProto_EnumReservedRange_norm (EnumDescriptorProto_EnumReservedRange_fromPartial object) = EnumDescriptorProto_EnumReservedRange_fromPartial object"
  by (simp add: EnumDescriptorProto_EnumReservedRange_norm_def EnumDescriptorProto_EnumReservedRange_fromPartial_def createBaseEnumDescriptorProto_EnumReservedRange_def nullish_Some )

lemma ExtensionRangeOptions_Declaration_norm_fromPartial: "ExtensionRangeOptions_Declaration_norm (ExtensionRangeOptions_Declaration_fromPartial object) = ExtensionRangeOptions_Declaration_fromPartial object"
  by (simp add: ExtensionRangeOptions_Declaration_norm_def ExtensionRangeOptions_Declaration_fromPartial_def createBaseExtensionRangeOptions_Declaration_def nullish_Some )

lemma SourceCodeInfo_Location_norm_fromPartial: "SourceCodeInfo_Location_norm (SourceCodeInfo_Location_fromPartial object) = SourceCodeInfo_Location_fromPartial object"
  by (simp add: SourceCodeInfo_Location_norm_def SourceCodeInfo_Location_fromPartial_def createBaseSourceCodeInfo_Location_def nullish_Some )

lemma SourceCodeInfo_norm_fromPartial: "SourceCodeInfo_norm (SourceCodeInfo_fromPartial object) = SourceCodeInfo_fromPartial object"
  by (simp add: SourceCodeInfo_norm_def SourceCodeInfo_fromPartial_def createBaseSourceCodeInfo_def nullish_Some partial_option [where f = SourceCodeInfo_Location_norm and g = SourceCodeInfo_Location_fromPartial, OF SourceCodeInfo_Location_norm_fromPartial] partial_list [where f = SourceCodeInfo_Location_norm and g = SourceCodeInfo_Location_fromPartial, OF SourceCodeInfo_Location_norm_fromPartial])

lemma GeneratedCodeInfo_Annotation_norm_fromPartial: "GeneratedCodeInfo_Annotation_norm (GeneratedCodeInfo_Annotation_fromPartial object) = GeneratedCodeInfo_Annotation_fromPartial object"
  by (simp add: GeneratedCodeInfo_Annotation_norm_def GeneratedCodeInfo_Annotation_fromPartial_def createBaseGeneratedCodeInfo_Annotation_def nullish_Some )

lemma GeneratedCodeInfo_norm_fromPartial: "GeneratedCodeInfo_norm (GeneratedCodeInfo_fromPartial object) = GeneratedCodeInfo_fromPartial object"
  by (simp add: GeneratedCodeInfo_norm_def GeneratedCodeInfo_fromPartial_def createBaseGeneratedCodeInfo_def nullish_Some partial_option [where f = GeneratedCodeInfo_Annotation_norm and g = GeneratedCodeInfo_Annotation_fromPartial, OF GeneratedCodeInfo_Annotation_norm_fromPartial] partial_list [where f = GeneratedCodeInfo_Annotation_norm and g = GeneratedCodeInfo_Annotation_fromPartial, OF GeneratedCodeInfo_Annotation_norm_fromPartial])

lemma UninterpretedOption_norm_fromPartial: "UninterpretedOption_norm (UninterpretedOption_fromPartial object) = UninterpretedOption_fromPartial object"
  by (simp add: UninterpretedOption_norm_def UninterpretedOption_fromPartial_def createBaseUninterpretedOption_def nullish_Some partial_option [where f = UninterpretedOption_NamePart_norm and g = UninterpretedOption_NamePart_fromPartial, OF UninterpretedOption_NamePart_norm_fromPartial] partial_list [where f = UninterpretedOption_NamePart_norm and g = UninterpretedOption_NamePart_fromPartial, OF UninterpretedOption_NamePart_norm_fromPartial])

lemma OneofOptions_norm_fromPartial: "OneofOptions_norm (OneofOptions_fromPartial object) = OneofOptions_fromPartial object"
  by (simp add: OneofOptions_norm_def OneofOptions_fromPartial_def createBaseOneofOptions_def nullish_Some partial_option [where f = FeatureSet_norm and g = FeatureSet_fromPartial, OF FeatureSet_norm_fromPartial] partial_list [where f = FeatureSet_norm and g = FeatureSet_fromPartial, OF FeatureSet_norm_fromPartial] partial_option [where f = UninterpretedOption_norm and g = UninterpretedOption_fromPartial, OF UninterpretedOption_norm_fromPartial] partial_list [where f = UninterpretedOption_norm and g = UninterpretedOption_fromPartial, OF UninterpretedOption_norm_fromPartial])

lemma EnumOptions_norm_fromPartial: "EnumOptions_norm (EnumOptions_fromPartial object) = EnumOptions_fromPartial object"
  by (simp add: EnumOptions_norm_def EnumOptions_fromPartial_def createBaseEnumOptions_def nullish_Some partial_option [where f = FeatureSet_norm and g = FeatureSet_fromPartial, OF FeatureSet_norm_fromPartial] partial_list [where f = FeatureSet_norm and g = FeatureSet_fromPartial, OF FeatureSet_norm_fromPartial] partial_option [where f = UninterpretedOption_norm and g = UninterpretedOption_fromPartial, OF UninterpretedOption_norm_fromPartial] partial_list [where f = UninterpretedOption_norm and g = UninterpretedOption_fromPartial, OF UninterpretedOption_norm_fromPartial])

lemma EnumValueOptions_norm_fromPartial: "EnumValueOptions_norm (EnumValueOptions_fromPartial object) = EnumValueOptions_fromPartial object"
  by (simp add: EnumValueOptions_norm_def EnumValueOptions_fromPartial_def createBaseEnumValueOptions_def nullish_Some partial_option [where f = FeatureSet_norm and g = FeatureSet_fromPartial, OF FeatureSet_norm_fromPartial] partial_list [where f = FeatureSet_norm and g = FeatureSet_fromPartial, OF FeatureSet_norm_fromPartial] partial_option [where f = FieldOptions_FeatureSupport_norm and g = FieldOptions_FeatureSupport_fromPartial, OF FieldOptions_FeatureSupport_norm_fromPartial] partial_list [where f = FieldOptions_FeatureSupport_norm and g = FieldOptions_FeatureSupport_fromPartial, OF FieldOptions_FeatureSupport_norm_fromPartial] partial_option [where f = UninterpretedOption_norm and g = UninterpretedOption_fromPartial, OF UninterpretedOption_norm_fromPartial] partial_list [where f = UninterpretedOption_norm and g = UninterpretedOption_fromPartial, OF UninterpretedOption_norm_fromPartial])

lemma ServiceOptions_norm_fromPartial: "ServiceOptions_norm (ServiceOptions_fromPartial object) = ServiceOptions_fromPartial object"
  by (simp add: ServiceOptions_norm_def ServiceOptions_fromPartial_def createBaseServiceOptions_def nullish_Some partial_option [where f = FeatureSet_norm and g = FeatureSet_fromPartial, OF FeatureSet_norm_fromPartial] partial_list [where f = FeatureSet_norm and g = FeatureSet_fromPartial, OF FeatureSet_norm_fromPartial] partial_option [where f = UninterpretedOption_norm and g = UninterpretedOption_fromPartial, OF UninterpretedOption_norm_fromPartial] partial_list [where f = UninterpretedOption_norm and g = UninterpretedOption_fromPartial, OF UninterpretedOption_norm_fromPartial])

lemma MethodOptions_norm_fromPartial: "MethodOptions_norm (MethodOptions_fromPartial object) = MethodOptions_fromPartial object"
  by (simp add: MethodOptions_norm_def MethodOptions_fromPartial_def createBaseMethodOptions_def nullish_Some partial_option [where f = FeatureSet_norm and g = FeatureSet_fromPartial, OF FeatureSet_norm_fromPartial] partial_list [where f = FeatureSet_norm and g = FeatureSet_fromPartial, OF FeatureSet_norm_fromPartial] partial_option [where f = UninterpretedOption_norm and g = UninterpretedOption_fromPartial, OF UninterpretedOption_norm_fromPartial] partial_list [where f = UninterpretedOption_norm and g = UninterpretedOption_fromPartial, OF UninterpretedOption_norm_fromPartial])

lemma MessageOptions_norm_fromPartial: "MessageOptions_norm (MessageOptions_fromPartial object) = MessageOptions_fromPartial object"
  by (simp add: MessageOptions_norm_def MessageOptions_fromPartial_def createBaseMessageOptions_def nullish_Some partial_option [where f = FeatureSet_norm and g = FeatureSet_fromPartial, OF FeatureSet_norm_fromPartial] partial_list [where f = FeatureSet_norm and g = FeatureSet_fromPartial, OF FeatureSet_norm_fromPartial] partial_option [where f = UninterpretedOption_norm and g = UninterpretedOption_fromPartial, OF UninterpretedOption_norm_fromPartial] partial_list [where f = UninterpretedOption_norm and g = UninterpretedOption_fromPartial, OF UninterpretedOption_norm_fromPartial])

lemma FieldOptions_norm_fromPartial: "FieldOptions_norm (FieldOptions_fromPartial object) = FieldOptions_fromPartial object"
  by (simp add: FieldOptions_norm_def FieldOptions_fromPartial_def createBaseFieldOptions_def nullish_Some partial_option [where f = FeatureSet_norm and g = FeatureSet_fromPartial, OF FeatureSet_norm_fromPartial] partial_list [where f = FeatureSet_norm and g = FeatureSet_fromPartial, OF FeatureSet_norm_fromPartial] partial_option [where f = FieldOptions_EditionDefault_norm and g = FieldOptions_EditionDefault_fromPartial, OF FieldOptions_EditionDefault_norm_fromPartial] partial_list [where f = FieldOptions_EditionDefault_norm and g = FieldOptions_EditionDefault_fromPartial, OF FieldOptions_EditionDefault_norm_fromPartial] partial_option [where f = FieldOptions_FeatureSupport_norm and g = FieldOptions_FeatureSupport_fromPartial, OF FieldOptions_FeatureSupport_norm_fromPartial] partial_list [where f = FieldOptions_FeatureSupport_norm and g = FieldOptions_FeatureSupport_fromPartial, OF FieldOptions_FeatureSupport_norm_fromPartial] partial_option [where f = UninterpretedOption_norm and g = UninterpretedOption_fromPartial, OF UninterpretedOption_norm_fromPartial] partial_list [where f = UninterpretedOption_norm and g = UninterpretedOption_fromPartial, OF UninterpretedOption_norm_fromPartial])

lemma FileOptions_norm_fromPartial: "FileOptions_norm (FileOptions_fromPartial object) = FileOptions_fromPartial object"
  by (simp add: FileOptions_norm_def FileOptions_fromPartial_def createBaseFileOptions_def nullish_Some partial_option [where f = FeatureSet_norm and g = FeatureSet_fromPartial, OF FeatureSet_norm_fromPartial] partial_list [where f = FeatureSet_norm and g = FeatureSet_fromPartial, OF FeatureSet_norm_fromPartial] partial_option [where f = UninterpretedOption_norm and g = UninterpretedOption_fromPartial, OF UninterpretedOption_norm_fromPartial] partial_list [where f = UninterpretedOption_norm and g = UninterpretedOption_fromPartial, OF UninterpretedOption_norm_fromPartial])

lemma ExtensionRangeOptions_norm_fromPartial: "ExtensionRangeOptions_norm (ExtensionRangeOptions_fromPartial object) = ExtensionRangeOptions_fromPartial object"
  by (simp add: ExtensionRangeOptions_norm_def ExtensionRangeOptions_fromPartial_def createBaseExtensionRangeOptions_def nullish_Some partial_option [where f = FeatureSet_norm and g = FeatureSet_fromPartial, OF FeatureSet_norm_fromPartial] partial_list [where f = FeatureSet_norm and g = FeatureSet_fromPartial, OF FeatureSet_norm_fromPartial] partial_option [where f = ExtensionRangeOptions_Declaration_norm and g = ExtensionRangeOptions_Declaration_fromPartial, OF ExtensionRangeOptions_Declaration_norm_fromPartial] partial_list [where f = ExtensionRangeOptions_Declaration_norm and g = ExtensionRangeOptions_Declaration_fromPartial, OF ExtensionRangeOptions_Declaration_norm_fromPartial] partial_option [where f = UninterpretedOption_norm and g = UninterpretedOption_fromPartial, OF UninterpretedOption_norm_fromPartial] partial_list [where f = UninterpretedOption_norm and g = UninterpretedOption_fromPartial, OF UninterpretedOption_norm_fromPartial])

lemma FieldDescriptorProto_norm_fromPartial: "FieldDescriptorProto_norm (FieldDescriptorProto_fromPartial object) = FieldDescriptorProto_fromPartial object"
  by (simp add: FieldDescriptorProto_norm_def FieldDescriptorProto_fromPartial_def createBaseFieldDescriptorProto_def nullish_Some partial_option [where f = FieldOptions_norm and g = FieldOptions_fromPartial, OF FieldOptions_norm_fromPartial] partial_list [where f = FieldOptions_norm and g = FieldOptions_fromPartial, OF FieldOptions_norm_fromPartial])

lemma OneofDescriptorProto_norm_fromPartial: "OneofDescriptorProto_norm (OneofDescriptorProto_fromPartial object) = OneofDescriptorProto_fromPartial object"
  by (simp add: OneofDescriptorProto_norm_def OneofDescriptorProto_fromPartial_def createBaseOneofDescriptorProto_def nullish_Some partial_option [where f = OneofOptions_norm and g = OneofOptions_fromPartial, OF OneofOptions_norm_fromPartial] partial_list [where f = OneofOptions_norm and g = OneofOptions_fromPartial, OF OneofOptions_norm_fromPartial])

lemma EnumValueDescriptorProto_norm_fromPartial: "EnumValueDescriptorProto_norm (EnumValueDescriptorProto_fromPartial object) = EnumValueDescriptorProto_fromPartial object"
  by (simp add: EnumValueDescriptorProto_norm_def EnumValueDescriptorProto_fromPartial_def createBaseEnumValueDescriptorProto_def nullish_Some partial_option [where f = EnumValueOptions_norm and g = EnumValueOptions_fromPartial, OF EnumValueOptions_norm_fromPartial] partial_list [where f = EnumValueOptions_norm and g = EnumValueOptions_fromPartial, OF EnumValueOptions_norm_fromPartial])

lemma EnumDescriptorProto_norm_fromPartial: "EnumDescriptorProto_norm (EnumDescriptorProto_fromPartial object) = EnumDescriptorProto_fromPartial object"
  by (simp add: EnumDescriptorProto_norm_def EnumDescriptorProto_fromPartial_def createBaseEnumDescriptorProto_def nullish_Some partial_option [where f = EnumDescriptorProto_EnumReservedRange_norm and g = EnumDescriptorProto_EnumReservedRange_fromPartial, OF EnumDescriptorProto_EnumReservedRange_norm_fromPartial] partial_list [where f = EnumDescriptorProto_EnumReservedRange_norm and g = EnumDescriptorProto_EnumReservedRange_fromPartial, OF EnumDescriptorProto_EnumReservedRange_norm_fromPartial] partial_option [where f = EnumOptions_norm and g = EnumOptions_fromPartial, OF EnumOptions_norm_fromPartial] partial_list [where f = EnumOptions_norm and g = EnumOptions_fromPartial, OF EnumOptions_norm_fromPartial] partial_option [where f = EnumValueDescriptorProto_norm and g = EnumValueDescriptorProto_fromPartial, OF EnumValueDescriptorProto_norm_fromPartial] partial_list [where f = EnumValueDescriptorProto_norm and g = EnumValueDescriptorProto_fromPartial, OF EnumValueDescriptorProto_norm_fromPartial])

lemma MethodDescriptorProto_norm_fromPartial: "MethodDescriptorProto_norm (MethodDescriptorProto_fromPartial object) = MethodDescriptorProto_fromPartial object"
  by (simp add: MethodDescriptorProto_norm_def MethodDescriptorProto_fromPartial_def createBaseMethodDescriptorProto_def nullish_Some partial_option [where f = MethodOptions_norm and g = MethodOptions_fromPartial, OF MethodOptions_norm_fromPartial] partial_list [where f = MethodOptions_norm and g = MethodOptions_fromPartial, OF MethodOptions_norm_fromPartial])

lemma ServiceDescriptorProto_norm_fromPartial: "ServiceDescriptorProto_norm (ServiceDescriptorProto_fromPartial object) = ServiceDescriptorProto_fromPartial object"
  by (simp add: ServiceDescriptorProto_norm_def ServiceDescriptorProto_fromPartial_def createBaseServiceDescriptorProto_def nullish_Some partial_option [where f = ServiceOptions_norm and g = ServiceOptions_fromPartial, OF ServiceOptions_norm_fromPartial] partial_list [where f = ServiceOptions_norm and g = ServiceOptions_fromPartial, OF ServiceOptions_norm_fromPartial] partial_option [where f = MethodDescriptorProto_norm and g = MethodDescriptorProto_fromPartial, OF MethodDescriptorProto_norm_fromPartial] partial_list [where f = MethodDescriptorProto_norm and g = MethodDescriptorProto_fromPartial, OF MethodDescriptorProto_norm_fromPartial])

lemma DescriptorProto_ExtensionRange_norm_fromPartial: "DescriptorProto_ExtensionRange_norm (DescriptorProto_ExtensionRange_fromPartial object) = DescriptorProto_ExtensionRange_fromPartial object"
  by (simp add: DescriptorProto_ExtensionRange_norm_def DescriptorProto_ExtensionRange_fromPartial_def createBaseDescriptorProto_ExtensionRange_def nullish_Some partial_option [where f = ExtensionRangeOptions_norm and g = ExtensionRangeOptions_fromPartial, OF ExtensionRangeOptions_norm_fromPartial] partial_list [where f = ExtensionRangeOptions_norm and g = ExtensionRangeOptions_fromPartial, OF ExtensionRangeOptions_norm_fromPartial])

lemma DescriptorProto_norm_fromPartial: "DescriptorProto_norm (DescriptorProto_fromPartial object) = DescriptorProto_fromPartial object"
proof (induction object rule: DescriptorProto_fromPartial.induct)
  case (1 object)
  have sub: "map DescriptorProto_norm (nullish (map_option (map DescriptorProto_fromPartial) (Partial_DescriptorProto_nestedType object)) [])
      = nullish (map_option (map DescriptorProto_fromPartial) (Partial_DescriptorProto_nestedType object)) []"
    using 1 by (rule partial_list)
  show ?case
    unfolding DescriptorProto_fromPartial.simps [of object]
    by (subst DescriptorProto_norm.simps) (simp add: nullish_Some sub partial_option [where f = DescriptorProto_ReservedRange_norm and g = DescriptorProto_ReservedRange_fromPartial, OF DescriptorProto_ReservedRange_norm_fromPartial] partial_list [where f = DescriptorProto_ReservedRange_norm and g = DescriptorProto_ReservedRange_fromPartial, OF DescriptorProto_ReservedRange_norm_fromPartial] partial_option [where f = MessageOptions_norm and g = MessageOptions_fromPartial, OF MessageOptions_norm_fromPartial] partial_list [where f = MessageOptions_norm and g = MessageOptions_fromPartial, OF MessageOptions_norm_fromPartial] partial_option [where f = FieldDescriptorProto_norm and g = FieldDescriptorProto_fromPartial, OF FieldDescriptorProto_norm_fromPartial] partial_list [where f = FieldDescriptorProto_norm and g = FieldDescriptorProto_fromPartial, OF FieldDescriptorProto_norm_fromPartial] partial_option [where f = OneofDescriptorProto_norm and g = OneofDescriptorProto_fromPartial, OF OneofDescriptorProto_norm_fromPartial] partial_list [where f = OneofDescriptorProto_norm and g = OneofDescriptorProto_fromPartial, OF OneofDescriptorProto_norm_fromPartial] partial_option [where f = EnumDescriptorProto_norm and g = EnumDescriptorProto_fromPartial, OF EnumDescriptorProto_norm_fromPartial] partial_list [where f = EnumDescriptorProto_norm and g = EnumDescriptorProto_fromPartial, OF EnumDescriptorProto_norm_fromPartial] partial_option [where f = DescriptorProto_ExtensionRange_norm and g = DescriptorProto_ExtensionRange_fromPartial, OF DescriptorProto_ExtensionRange_norm_fromPartial] partial_list [where f = DescriptorProto_ExtensionRange_norm and g = DescriptorProto_ExtensionRange_fromPartial, OF DescriptorProto_ExtensionRange_norm_fromPartial])
qed

lemma FileDescriptorProto_norm_fromPartial: "FileDescriptorProto_norm (FileDescriptorProto_fromPartial object) = FileDescriptorProto_fromPartial object"
  by (simp add: FileDescriptorProto_norm_def FileDescriptorProto_fromPartial_def createBaseFileDescriptorProto_def nullish_Some partial_option [where f = SourceCodeInfo_norm and g = SourceCodeInfo_fromPartial, OF SourceCodeInfo_norm_fromPartial] partial_list [where f = SourceCodeInfo_norm and g = SourceCodeInfo_fromPartial, OF SourceCodeInfo_norm_fromPartial] partial_option [where f = FileOptions_norm and g = FileOptions_fromPartial, OF FileOptions_norm_fromPartial] partial_list [where f = FileOptions_norm and g = FileOptions_fromPartial, OF FileOptions_norm_fromPartial] partial_option [where f = FieldDescriptorProto_norm and g = FieldDescriptorProto_fromPartial, OF FieldDescriptorProto_norm_fromPartial] partial_list [where f = FieldDescriptorProto_norm and g = FieldDescriptorProto_fromPartial, OF FieldDescriptorProto_norm_fromPartial] partial_option [where f = EnumDescriptorProto_norm and g = EnumDescriptorProto_fromPartial, OF EnumDescriptorProto_norm_fromPartial] partial_list [where f = EnumDescriptorProto_norm and g = EnumDescriptorProto_fromPartial, OF EnumDescriptorProto_norm_fromPartial] partial_option [where f = ServiceDescriptorProto_norm and g = ServiceDescriptorProto_fromPartial, OF ServiceDescriptorProto_norm_fromPartial] partial_list [where f = ServiceDescriptorProto_norm and g = ServiceDescriptorProto_fromPartial, OF ServiceDescriptorProto_norm_fromPartial] partial_option [where f = DescriptorProto_norm and g = DescriptorProto_fromPartial, OF DescriptorProto_norm_fromPartial] partial_list [where f = DescriptorProto_norm and g = DescriptorProto_fromPartial, OF DescriptorProto_norm_fromPartial])

lemma FileDescriptorSet_norm_fromPartial: "FileDescriptorSet_norm (FileDescriptorSet_fromPartial object) = FileDescriptorSet_fromPartial object"
  by (simp add: FileDescriptorSet_norm_def FileDescriptorSet_fromPartial_def createBaseFileDescriptorSet_def nullish_Some partial_option [where f = FileDescriptorProto_norm and g = FileDescriptorProto_fromPartial, OF FileDescriptorProto_norm_fromPartial] partial_list [where f = FileDescriptorProto_norm and g = FileDescriptorProto_fromPartial, OF FileDescriptorProto_norm_fromPartial])

end
