(* ===== verification/Descriptor_Types.thy ===== *)
theory Descriptor_Types
  imports Descriptor_Files
begin

text \<open>
  The types of decoded descriptor messages. \<open>M_typed m\<close> says that every scalar field of \<open>m\<close>
  is present and in the range of its declared type, in the parts of \<open>m\<close> too: 32-bit
  integers, and safe integers where the type has 64 bits. A decoder that returns a
  message returns a typed one.
\<close>

unbundle bit_operations_syntax

section \<open>Decoders that keep a type\<close>

definition present :: "('a \<Rightarrow> bool) \<Rightarrow> 'a option \<Rightarrow> bool" where
  "present P x \<longleftrightarrow> (case x of None \<Rightarrow> False | Some v \<Rightarrow> P v)"

lemma present_Some [simp]: "present P (Some v) \<longleftrightarrow> P v"
  by (simp add: present_def)

lemma present_iff: "present P x \<longleftrightarrow> (\<exists>v. x = Some v \<and> P v)"
  by (simp add: present_def split: option.split)

lemma map_option_same: "(\<And>v. P v \<Longrightarrow> f v = v) \<Longrightarrow> pred_option P x \<Longrightarrow> map_option f x = x"
  by (cases x) simp_all

lemma map_same: "(\<And>v. P v \<Longrightarrow> f v = v) \<Longrightarrow> list_all P xs \<Longrightarrow> map f xs = xs"
  by (simp add: list_all_iff map_idI)

definition keeps :: "('w, 'r) wire \<Rightarrow> ('r \<Rightarrow> bool) \<Rightarrow> nat \<Rightarrow> ('m \<Rightarrow> bool) \<Rightarrow> ('m, 'r) switch \<Rightarrow> bool" where
  "keeps W valid k T sw \<longleftrightarrow>
     (\<forall>tag m r m' r'. valid r \<longrightarrow> bytes_left W r < k \<longrightarrow> T m \<longrightarrow> sw tag m r = Inr (Some (m', r')) \<longrightarrow> T m')"

definition typed_decoder ::
  "('w, 'r) wire \<Rightarrow> ('r \<Rightarrow> bool) \<Rightarrow> nat \<Rightarrow> ('r input \<Rightarrow> nat option \<Rightarrow> ('m \<times> 'r) res) \<Rightarrow> ('m \<Rightarrow> bool) \<Rightarrow> bool" where
  "typed_decoder W valid k dec T \<longleftrightarrow>
     (\<forall>r len m r'. valid r \<longrightarrow> bytes_left W r < k \<longrightarrow> dec (Reader r) len = Inr (m, r') \<longrightarrow> T m)"

definition step_keeps :: "('m \<Rightarrow> bool) \<Rightarrow> ('m \<times> 'r) option res \<Rightarrow> bool" where
  "step_keeps T res \<longleftrightarrow> (\<forall>m' r'. res = Inr (Some (m', r')) \<longrightarrow> T m')"

lemma step_keeps_if: "(P \<Longrightarrow> step_keeps T a) \<Longrightarrow> step_keeps T b \<Longrightarrow> step_keeps T (if P then a else b)"
  by simp

lemma step_keeps_None: "step_keeps T (Inr None)"
  by (simp add: step_keeps_def)

lemma step_keeps_read:
  "(\<And>v r'. rd r = Inr (v, r') \<Longrightarrow> T (upd v m)) \<Longrightarrow> step_keeps T (case_read tag t rd upd m r)"
  by (auto simp: step_keeps_def case_read_def rbind_eq_Inr split: if_splits)

lemma keepsI:
  "(\<And>tag m r. valid r \<Longrightarrow> bytes_left W r < k \<Longrightarrow> T m \<Longrightarrow> step_keeps T (sw tag m r)) \<Longrightarrow> keeps W valid k T sw"
  by (auto simp: keeps_def step_keeps_def)

context wire_laws
begin

lemma packed_loop_keeps:
  assumes "\<And>v m. int32_ok v \<Longrightarrow> T m \<Longrightarrow> T (upd v m)"
  shows "valid r \<Longrightarrow> T m \<Longrightarrow> packed_loop W (rInt32 W) upd fuel stop m r = Inr (m', r') \<Longrightarrow> T m'"
proof (induction fuel arbitrary: m r)
  case 0
  then show ?case by (simp add: packed_loop.simps)
next
  case (Suc fuel)
  show ?case
  proof (cases "rPos W r < stop")
    case False
    with Suc.prems show ?thesis by (simp add: packed_loop.simps)
  next
    case True
    with Suc.prems(3) obtain v r1 where v: "rInt32 W r = Inr (v, r1)"
      and rest: "packed_loop W (rInt32 W) upd fuel stop (upd v m) r1 = Inr (m', r')"
      by (auto simp: packed_loop.simps rbind_eq_Inr)
    have "valid r1" using rInt32_safe [OF Suc.prems(1)] by (simp add: v safe_read_Inr forward_def)
    moreover have "T (upd v m)" using rInt32_range [OF Suc.prems(1) v] Suc.prems(2) by (rule assms)
    ultimately show ?thesis using rest by (rule Suc.IH)
  qed
qed

lemma step_keeps_packed:
  assumes "valid r" and "T m" and "\<And>v m. int32_ok v \<Longrightarrow> T m \<Longrightarrow> T (upd v m)"
  shows "step_keeps T (case_packed W tag t t2 (rInt32 W) upd m r)"
  unfolding step_keeps_def
proof (intro allI impI)
  fix m' r'
  assume packed: "case_packed W tag t t2 (rInt32 W) upd m r = Inr (Some (m', r'))"
  consider (one) v where "rInt32 W r = Inr (v, r')" "m' = upd v m"
    | (many) n r1 fuel where "rUint32 W r = Inr (n, r1)"
        "packed_loop W (rInt32 W) upd fuel (unat n + rPos W r1) m r1 = Inr (m', r')"
    using packed by (auto simp: case_packed_def rbind_eq_Inr split: if_splits)
  then show "T m'"
  proof cases
    case one
    then show ?thesis using rInt32_range [OF assms(1)] assms(2,3) by blast
  next
    case many
    have "valid r1" using rUint32_forward(1) [OF assms(1) many(1)] by (simp add: forward_def)
    from packed_loop_keeps [OF assms(3) this assms(2) many(2)] show ?thesis .
  qed
qed

lemma decode_loop_keeps:
  assumes "good_switch W valid k sw" and "keeps W valid k T sw"
  shows "valid r \<Longrightarrow> bytes_left W r \<le> k \<Longrightarrow> T m \<Longrightarrow> decode_loop W sw fuel stop m r = Inr (m', r') \<Longrightarrow> T m'"
proof (induction fuel arbitrary: m r)
  case 0
  then show ?case by (simp add: decode_loop.simps)
next
  case (Suc fuel)
  show ?case
  proof (cases "rPos W r < stop")
    case False
    with Suc.prems show ?thesis by (simp add: decode_loop.simps)
  next
    case True
    with Suc.prems(4) obtain tag r1 outcome where tag: "rUint32 W r = Inr (tag, r1)"
      and out: "sw tag m r1 = Inr outcome"
      and rest: "(case outcome of Some (m', r') \<Rightarrow> decode_loop W sw fuel stop m' r'
          | None \<Rightarrow> if tag AND 7 = 4 \<or> tag = 0 then Inr (m, r1)
              else rbind (rSkip W (tag AND 7) r1) (\<lambda>r2. decode_loop W sw fuel stop m r2)) = Inr (m', r')"
      by (auto simp: decode_loop.simps rbind_eq_Inr)
    have v1: "valid r1" and l1: "bytes_left W r1 < k"
      using rUint32_forward [OF Suc.prems(1) tag] Suc.prems(2) by (auto simp: forward_def)
    show ?thesis
    proof (cases outcome)
      case (Some x)
      obtain m1 r2 where x: "x = (m1, r2)" by (cases x)
      have "good_step W valid r1 (sw tag m r1)" using assms(1) v1 l1 by (simp add: good_switch_def)
      then have fw: "forward W valid r1 r2" using out Some x by (simp add: good_step_def)
      have "sw tag m r1 = Inr (Some (m1, r2))" using out Some x by simp
      with assms(2) v1 l1 Suc.prems(3) have "T m1" unfolding keeps_def by blast
      with fw forward_left [OF fw] l1 rest Some x show ?thesis
        by (intro Suc.IH [of r2 m1]) (auto simp: forward_def)
    next
      case None
      show ?thesis
      proof (cases "tag AND 7 = 4 \<or> tag = 0")
        case True
        with rest None Suc.prems(3) show ?thesis by simp
      next
        case False
        with rest None obtain r2 where skip: "rSkip W (tag AND 7) r1 = Inr r2"
          and more: "decode_loop W sw fuel stop m r2 = Inr (m', r')"
          by (auto simp: rbind_eq_Inr)
        have fw: "forward W valid r1 r2" using v1 skip by (rule rSkip_forward)
        with forward_left [OF fw] l1 more Suc.prems(3) show ?thesis
          by (intro Suc.IH [of r2 m]) (auto simp: forward_def)
      qed
    qed
  qed
qed

lemma decode_msg_keeps:
  assumes "good_switch W valid k sw" and "keeps W valid k T sw" and "T base"
  shows "typed_decoder W valid (Suc k) (decode_msg W sw base) T"
  using decode_loop_keeps [OF assms(1,2) _ _ assms(3)]
  by (auto simp: typed_decoder_def decode_msg_def input_reader_def Let_def)

lemma typed_decoder_less: "typed_decoder W valid (Suc k) dec T \<Longrightarrow> typed_decoder W valid k dec T"
  by (auto simp: typed_decoder_def)

lemma read_message_typed:
  assumes "typed_decoder W valid k dec T" and "read_message W dec r = Inr (v, r')" and "valid r" and "bytes_left W r < k"
  shows "T v"
proof -
  from assms(2) obtain n r1 where n: "rUint32 W r = Inr (n, r1)" and d: "dec (Reader r1) (Some (unat n)) = Inr (v, r')"
    by (auto simp: read_message_def rbind_eq_Inr)
  have "valid r1" "bytes_left W r1 < k"
    using rUint32_forward [OF assms(3) n] assms(4) by (auto simp: forward_def)
  with assms(1) d show ?thesis unfolding typed_decoder_def by blast
qed

lemma read_int_typed: "rInt32 W r = Inr (x, r') \<Longrightarrow> valid r \<Longrightarrow> int32_ok x"
  using rInt32_range by blast

lemma read_uint64_typed: "read_long (rUint64 W) r = Inr (n, r') \<Longrightarrow> valid r \<Longrightarrow> uint64_ok n"
  by (auto simp: read_long_def rbind_eq_Inr longToNumber_eq dest: rUint64_range split: if_splits)

lemma read_int64_typed: "read_long (rInt64 W) r = Inr (n, r') \<Longrightarrow> valid r \<Longrightarrow> int64_ok n"
  by (auto simp: read_long_def rbind_eq_Inr longToNumber_eq split: if_splits)

lemma typed_new: "typed_decoder W valid (Suc (length bs)) dec T \<Longrightarrow> dec (Reader (newReader W bs)) len = Inr (m, r) \<Longrightarrow> T m"
  using new_valid [of bs] left_rest [OF new_valid, of bs] new_rest [of bs] unfolding typed_decoder_def
  by (metis lessI)

lemmas number_types = read_int_typed read_uint64_typed read_int64_typed

end

section \<open>UninterpretedOption_NamePart\<close>

definition UninterpretedOption_NamePart_typed :: "UninterpretedOption_NamePart \<Rightarrow> bool" where
  "UninterpretedOption_NamePart_typed m \<longleftrightarrow>
     True"

lemma UninterpretedOption_NamePart_typed_norm: "UninterpretedOption_NamePart_typed m \<Longrightarrow> UninterpretedOption_NamePart_norm m = m"
  by (cases m) (auto simp: UninterpretedOption_NamePart_typed_def UninterpretedOption_NamePart_norm_def present_iff nullish_Some )

context wire_laws
begin

lemma UninterpretedOption_NamePart_keeps: "keeps W valid k UninterpretedOption_NamePart_typed (UninterpretedOption_NamePart_switch W)"
  unfolding UninterpretedOption_NamePart_switch_def
  by (rule keepsI, intro step_keeps_if step_keeps_None step_keeps_read step_keeps_packed)
    (auto simp: UninterpretedOption_NamePart_typed_def store_def store_some_def push_def dest: number_types )

lemma UninterpretedOption_NamePart_typed_decoder: "typed_decoder W valid k (UninterpretedOption_NamePart_decode W) UninterpretedOption_NamePart_typed"
  unfolding UninterpretedOption_NamePart_decode_def
  by (rule typed_decoder_less, rule decode_msg_keeps [OF UninterpretedOption_NamePart_good UninterpretedOption_NamePart_keeps])
    (simp add: UninterpretedOption_NamePart_typed_def createBaseUninterpretedOption_NamePart_def)

end

section \<open>FeatureSet\<close>

definition FeatureSet_typed :: "FeatureSet \<Rightarrow> bool" where
  "FeatureSet_typed m \<longleftrightarrow>
     present int32_ok (FeatureSet_fieldPresence m) \<and>
     present int32_ok (FeatureSet_enumType m) \<and>
     present int32_ok (FeatureSet_repeatedFieldEncoding m) \<and>
     present int32_ok (FeatureSet_utf8Validation m) \<and>
     present int32_ok (FeatureSet_messageEncoding m) \<and>
     present int32_ok (FeatureSet_jsonFormat m) \<and>
     present int32_ok (FeatureSet_enforceNamingStyle m)"

lemma FeatureSet_typed_norm: "FeatureSet_typed m \<Longrightarrow> FeatureSet_norm m = m"
  by (cases m) (auto simp: FeatureSet_typed_def FeatureSet_norm_def present_iff nullish_Some )

context wire_laws
begin

lemma FeatureSet_keeps: "keeps W valid k FeatureSet_typed (FeatureSet_switch W)"
  unfolding FeatureSet_switch_def
  by (rule keepsI, intro step_keeps_if step_keeps_None step_keeps_read step_keeps_packed)
    (auto simp: FeatureSet_typed_def store_def store_some_def push_def dest: number_types )

lemma FeatureSet_typed_decoder: "typed_decoder W valid k (FeatureSet_decode W) FeatureSet_typed"
  unfolding FeatureSet_decode_def
  by (rule typed_decoder_less, rule decode_msg_keeps [OF FeatureSet_good FeatureSet_keeps])
    (simp add: FeatureSet_typed_def createBaseFeatureSet_def)

end

section \<open>FeatureSetDefaults_FeatureSetEditionDefault\<close>

definition FeatureSetDefaults_FeatureSetEditionDefault_typed :: "FeatureSetDefaults_FeatureSetEditionDefault \<Rightarrow> bool" where
  "FeatureSetDefaults_FeatureSetEditionDefault_typed m \<longleftrightarrow>
     present int32_ok (FeatureSetDefaults_FeatureSetEditionDefault_edition m) \<and>
     pred_option FeatureSet_typed (FeatureSetDefaults_FeatureSetEditionDefault_overridableFeatures m) \<and>
     pred_option FeatureSet_typed (FeatureSetDefaults_FeatureSetEditionDefault_fixedFeatures m)"

lemma FeatureSetDefaults_FeatureSetEditionDefault_typed_norm: "FeatureSetDefaults_FeatureSetEditionDefault_typed m \<Longrightarrow> FeatureSetDefaults_FeatureSetEditionDefault_norm m = m"
  by (cases m) (auto simp: FeatureSetDefaults_FeatureSetEditionDefault_typed_def FeatureSetDefaults_FeatureSetEditionDefault_norm_def present_iff nullish_Some map_option_same [where P = FeatureSet_typed and f = FeatureSet_norm, OF FeatureSet_typed_norm] map_same [where P = FeatureSet_typed and f = FeatureSet_norm, OF FeatureSet_typed_norm])

context wire_laws
begin

lemma FeatureSetDefaults_FeatureSetEditionDefault_keeps: "keeps W valid k FeatureSetDefaults_FeatureSetEditionDefault_typed (FeatureSetDefaults_FeatureSetEditionDefault_switch W)"
  unfolding FeatureSetDefaults_FeatureSetEditionDefault_switch_def
  by (rule keepsI, intro step_keeps_if step_keeps_None step_keeps_read step_keeps_packed)
    (auto simp: FeatureSetDefaults_FeatureSetEditionDefault_typed_def store_def store_some_def push_def dest: number_types read_message_typed [OF FeatureSet_typed_decoder])

lemma FeatureSetDefaults_FeatureSetEditionDefault_typed_decoder: "typed_decoder W valid k (FeatureSetDefaults_FeatureSetEditionDefault_decode W) FeatureSetDefaults_FeatureSetEditionDefault_typed"
  unfolding FeatureSetDefaults_FeatureSetEditionDefault_decode_def
  by (rule typed_decoder_less, rule decode_msg_keeps [OF FeatureSetDefaults_FeatureSetEditionDefault_good FeatureSetDefaults_FeatureSetEditionDefault_keeps])
    (simp add: FeatureSetDefaults_FeatureSetEditionDefault_typed_def createBaseFeatureSetDefaults_FeatureSetEditionDefault_def)

end

section \<open>FeatureSetDefaults\<close>

definition FeatureSetDefaults_typed :: "FeatureSetDefaults \<Rightarrow> bool" where
  "FeatureSetDefaults_typed m \<longleftrightarrow>
     list_all FeatureSetDefaults_FeatureSetEditionDefault_typed (FeatureSetDefaults_defaults m) \<and>
     present int32_ok (FeatureSetDefaults_minimumEdition m) \<and>
     present int32_ok (FeatureSetDefaults_maximumEdition m)"

lemma FeatureSetDefaults_typed_norm: "FeatureSetDefaults_typed m \<Longrightarrow> FeatureSetDefaults_norm m = m"
  by (cases m) (auto simp: FeatureSetDefaults_typed_def FeatureSetDefaults_norm_def present_iff nullish_Some map_option_same [where P = FeatureSetDefaults_FeatureSetEditionDefault_typed and f = FeatureSetDefaults_FeatureSetEditionDefault_norm, OF FeatureSetDefaults_FeatureSetEditionDefault_typed_norm] map_same [where P = FeatureSetDefaults_FeatureSetEditionDefault_typed and f = FeatureSetDefaults_FeatureSetEditionDefault_norm, OF FeatureSetDefaults_FeatureSetEditionDefault_typed_norm])

context wire_laws
begin

lemma FeatureSetDefaults_keeps: "keeps W valid k FeatureSetDefaults_typed (FeatureSetDefaults_switch W)"
  unfolding FeatureSetDefaults_switch_def
  by (rule keepsI, intro step_keeps_if step_keeps_None step_keeps_read step_keeps_packed)
    (auto simp: FeatureSetDefaults_typed_def store_def store_some_def push_def dest: number_types read_message_typed [OF FeatureSetDefaults_FeatureSetEditionDefault_typed_decoder])

lemma FeatureSetDefaults_typed_decoder: "typed_decoder W valid k (FeatureSetDefaults_decode W) FeatureSetDefaults_typed"
  unfolding FeatureSetDefaults_decode_def
  by (rule typed_decoder_less, rule decode_msg_keeps [OF FeatureSetDefaults_good FeatureSetDefaults_keeps])
    (simp add: FeatureSetDefaults_typed_def createBaseFeatureSetDefaults_def)

end

section \<open>FieldOptions_EditionDefault\<close>

definition FieldOptions_EditionDefault_typed :: "FieldOptions_EditionDefault \<Rightarrow> bool" where
  "FieldOptions_EditionDefault_typed m \<longleftrightarrow>
     present int32_ok (FieldOptions_EditionDefault_edition m) \<and>
     present (\<lambda>_. True) (FieldOptions_EditionDefault_value m)"

lemma FieldOptions_EditionDefault_typed_norm: "FieldOptions_EditionDefault_typed m \<Longrightarrow> FieldOptions_EditionDefault_norm m = m"
  by (cases m) (auto simp: FieldOptions_EditionDefault_typed_def FieldOptions_EditionDefault_norm_def present_iff nullish_Some )

context wire_laws
begin

lemma FieldOptions_EditionDefault_keeps: "keeps W valid k FieldOptions_EditionDefault_typed (FieldOptions_EditionDefault_switch W)"
  unfolding FieldOptions_EditionDefault_switch_def
  by (rule keepsI, intro step_keeps_if step_keeps_None step_keeps_read step_keeps_packed)
    (auto simp: FieldOptions_EditionDefault_typed_def store_def store_some_def push_def dest: number_types )

lemma FieldOptions_EditionDefault_typed_decoder: "typed_decoder W valid k (FieldOptions_EditionDefault_decode W) FieldOptions_EditionDefault_typed"
  unfolding FieldOptions_EditionDefault_decode_def
  by (rule typed_decoder_less, rule decode_msg_keeps [OF FieldOptions_EditionDefault_good FieldOptions_EditionDefault_keeps])
    (simp add: FieldOptions_EditionDefault_typed_def createBaseFieldOptions_EditionDefault_def)

end

section \<open>FieldOptions_FeatureSupport\<close>

definition FieldOptions_FeatureSupport_typed :: "FieldOptions_FeatureSupport \<Rightarrow> bool" where
  "FieldOptions_FeatureSupport_typed m \<longleftrightarrow>
     present int32_ok (FieldOptions_FeatureSupport_editionIntroduced m) \<and>
     present int32_ok (FieldOptions_FeatureSupport_editionDeprecated m) \<and>
     present (\<lambda>_. True) (FieldOptions_FeatureSupport_deprecationWarning m) \<and>
     present int32_ok (FieldOptions_FeatureSupport_editionRemoved m)"

lemma FieldOptions_FeatureSupport_typed_norm: "FieldOptions_FeatureSupport_typed m \<Longrightarrow> FieldOptions_FeatureSupport_norm m = m"
  by (cases m) (auto simp: FieldOptions_FeatureSupport_typed_def FieldOptions_FeatureSupport_norm_def present_iff nullish_Some )

context wire_laws
begin

lemma FieldOptions_FeatureSupport_keeps: "keeps W valid k FieldOptions_FeatureSupport_typed (FieldOptions_FeatureSupport_switch W)"
  unfolding FieldOptions_FeatureSupport_switch_def
  by (rule keepsI, intro step_keeps_if step_keeps_None step_keeps_read step_keeps_packed)
    (auto simp: FieldOptions_FeatureSupport_typed_def store_def store_some_def push_def dest: number_types )

lemma FieldOptions_FeatureSupport_typed_decoder: "typed_decoder W valid k (FieldOptions_FeatureSupport_decode W) FieldOptions_FeatureSupport_typed"
  unfolding FieldOptions_FeatureSupport_decode_def
  by (rule typed_decoder_less, rule decode_msg_keeps [OF FieldOptions_FeatureSupport_good FieldOptions_FeatureSupport_keeps])
    (simp add: FieldOptions_FeatureSupport_typed_def createBaseFieldOptions_FeatureSupport_def)

end

section \<open>DescriptorProto_ReservedRange\<close>

definition DescriptorProto_ReservedRange_typed :: "DescriptorProto_ReservedRange \<Rightarrow> bool" where
  "DescriptorProto_ReservedRange_typed m \<longleftrightarrow>
     present int32_ok (DescriptorProto_ReservedRange_start m) \<and>
     present int32_ok (DescriptorProto_ReservedRange_end m)"

lemma DescriptorProto_ReservedRange_typed_norm: "DescriptorProto_ReservedRange_typed m \<Longrightarrow> DescriptorProto_ReservedRange_norm m = m"
  by (cases m) (auto simp: DescriptorProto_ReservedRange_typed_def DescriptorProto_ReservedRange_norm_def present_iff nullish_Some )

context wire_laws
begin

lemma DescriptorProto_ReservedRange_keeps: "keeps W valid k DescriptorProto_ReservedRange_typed (DescriptorProto_ReservedRange_switch W)"
  unfolding DescriptorProto_ReservedRange_switch_def
  by (rule keepsI, intro step_keeps_if step_keeps_None step_keeps_read step_keeps_packed)
    (auto simp: DescriptorProto_ReservedRange_typed_def store_def store_some_def push_def dest: number_types )

lemma DescriptorProto_ReservedRange_typed_decoder: "typed_decoder W valid k (DescriptorProto_ReservedRange_decode W) DescriptorProto_ReservedRange_typed"
  unfolding DescriptorProto_ReservedRange_decode_def
  by (rule typed_decoder_less, rule decode_msg_keeps [OF DescriptorProto_ReservedRange_good DescriptorProto_ReservedRange_keeps])
    (simp add: DescriptorProto_ReservedRange_typed_def createBaseDescriptorProto_ReservedRange_def)

end

section \<open>EnumDescriptorProto_EnumReservedRange\<close>

definition EnumDescriptorProto_EnumReservedRange_typed :: "EnumDescriptorProto_EnumReservedRange \<Rightarrow> bool" where
  "EnumDescriptorProto_EnumReservedRange_typed m \<longleftrightarrow>
     present int32_ok (EnumDescriptorProto_EnumReservedRange_start m) \<and>
     present int32_ok (EnumDescriptorProto_EnumReservedRange_end m)"

lemma EnumDescriptorProto_EnumReservedRange_typed_norm: "EnumDescriptorProto_EnumReservedRange_typed m \<Longrightarrow> EnumDescriptorProto_EnumReservedRange_norm m = m"
  by (cases m) (auto simp: EnumDescriptorProto_EnumReservedRange_typed_def EnumDescriptorProto_EnumReservedRange_norm_def present_iff nullish_Some )

context wire_laws
begin

lemma EnumDescriptorProto_EnumReservedRange_keeps: "keeps W valid k EnumDescriptorProto_EnumReservedRange_typed (EnumDescriptorProto_EnumReservedRange_switch W)"
  unfolding EnumDescriptorProto_EnumReservedRange_switch_def
  by (rule keepsI, intro step_keeps_if step_keeps_None step_keeps_read step_keeps_packed)
    (auto simp: EnumDescriptorProto_EnumReservedRange_typed_def store_def store_some_def push_def dest: number_types )

lemma EnumDescriptorProto_EnumReservedRange_typed_decoder: "typed_decoder W valid k (EnumDescriptorProto_EnumReservedRange_decode W) EnumDescriptorProto_EnumReservedRange_typed"
  unfolding EnumDescriptorProto_EnumReservedRange_decode_def
  by (rule typed_decoder_less, rule decode_msg_keeps [OF EnumDescriptorProto_EnumReservedRange_good EnumDescriptorProto_EnumReservedRange_keeps])
    (simp add: EnumDescriptorProto_EnumReservedRange_typed_def createBaseEnumDescriptorProto_EnumReservedRange_def)

end

section \<open>ExtensionRangeOptions_Declaration\<close>

definition ExtensionRangeOptions_Declaration_typed :: "ExtensionRangeOptions_Declaration \<Rightarrow> bool" where
  "ExtensionRangeOptions_Declaration_typed m \<longleftrightarrow>
     present int32_ok (ExtensionRangeOptions_Declaration_number m) \<and>
     present (\<lambda>_. True) (ExtensionRangeOptions_Declaration_fullName m) \<and>
     present (\<lambda>_. True) (ExtensionRangeOptions_Declaration_type m) \<and>
     present (\<lambda>_. True) (ExtensionRangeOptions_Declaration_reserved m) \<and>
     present (\<lambda>_. True) (ExtensionRangeOptions_Declaration_repeated m)"

lemma ExtensionRangeOptions_Declaration_typed_norm: "ExtensionRangeOptions_Declaration_typed m \<Longrightarrow> ExtensionRangeOptions_Declaration_norm m = m"
  by (cases m) (auto simp: ExtensionRangeOptions_Declaration_typed_def ExtensionRangeOptions_Declaration_norm_def present_iff nullish_Some )

context wire_laws
begin

lemma ExtensionRangeOptions_Declaration_keeps: "keeps W valid k ExtensionRangeOptions_Declaration_typed (ExtensionRangeOptions_Declaration_switch W)"
  unfolding ExtensionRangeOptions_Declaration_switch_def
  by (rule keepsI, intro step_keeps_if step_keeps_None step_keeps_read step_keeps_packed)
    (auto simp: ExtensionRangeOptions_Declaration_typed_def store_def store_some_def push_def dest: number_types )

lemma ExtensionRangeOptions_Declaration_typed_decoder: "typed_decoder W valid k (ExtensionRangeOptions_Declaration_decode W) ExtensionRangeOptions_Declaration_typed"
  unfolding ExtensionRangeOptions_Declaration_decode_def
  by (rule typed_decoder_less, rule decode_msg_keeps [OF ExtensionRangeOptions_Declaration_good ExtensionRangeOptions_Declaration_keeps])
    (simp add: ExtensionRangeOptions_Declaration_typed_def createBaseExtensionRangeOptions_Declaration_def)

end

section \<open>SourceCodeInfo_Location\<close>

definition SourceCodeInfo_Location_typed :: "SourceCodeInfo_Location \<Rightarrow> bool" where
  "SourceCodeInfo_Location_typed m \<longleftrightarrow>
     list_all int32_ok (SourceCodeInfo_Location_path m) \<and>
     list_all int32_ok (SourceCodeInfo_Location_span m) \<and>
     present (\<lambda>_. True) (SourceCodeInfo_Location_leadingComments m) \<and>
     present (\<lambda>_. True) (SourceCodeInfo_Location_trailingComments m)"

lemma SourceCodeInfo_Location_typed_norm: "SourceCodeInfo_Location_typed m \<Longrightarrow> SourceCodeInfo_Location_norm m = m"
  by (cases m) (auto simp: SourceCodeInfo_Location_typed_def SourceCodeInfo_Location_norm_def present_iff nullish_Some )

context wire_laws
begin

lemma SourceCodeInfo_Location_keeps: "keeps W valid k SourceCodeInfo_Location_typed (SourceCodeInfo_Location_switch W)"
  unfolding SourceCodeInfo_Location_switch_def
  by (rule keepsI, intro step_keeps_if step_keeps_None step_keeps_read step_keeps_packed)
    (auto simp: SourceCodeInfo_Location_typed_def store_def store_some_def push_def dest: number_types )

lemma SourceCodeInfo_Location_typed_decoder: "typed_decoder W valid k (SourceCodeInfo_Location_decode W) SourceCodeInfo_Location_typed"
  unfolding SourceCodeInfo_Location_decode_def
  by (rule typed_decoder_less, rule decode_msg_keeps [OF SourceCodeInfo_Location_good SourceCodeInfo_Location_keeps])
    (simp add: SourceCodeInfo_Location_typed_def createBaseSourceCodeInfo_Location_def)

end

section \<open>SourceCodeInfo\<close>

definition SourceCodeInfo_typed :: "SourceCodeInfo \<Rightarrow> bool" where
  "SourceCodeInfo_typed m \<longleftrightarrow>
     list_all SourceCodeInfo_Location_typed (SourceCodeInfo_location m)"

lemma SourceCodeInfo_typed_norm: "SourceCodeInfo_typed m \<Longrightarrow> SourceCodeInfo_norm m = m"
  by (cases m) (auto simp: SourceCodeInfo_typed_def SourceCodeInfo_norm_def present_iff nullish_Some map_option_same [where P = SourceCodeInfo_Location_typed and f = SourceCodeInfo_Location_norm, OF SourceCodeInfo_Location_typed_norm] map_same [where P = SourceCodeInfo_Location_typed and f = SourceCodeInfo_Location_norm, OF SourceCodeInfo_Location_typed_norm])

context wire_laws
begin

lemma SourceCodeInfo_keeps: "keeps W valid k SourceCodeInfo_typed (SourceCodeInfo_switch W)"
  unfolding SourceCodeInfo_switch_def
  by (rule keepsI, intro step_keeps_if step_keeps_None step_keeps_read step_keeps_packed)
    (auto simp: SourceCodeInfo_typed_def store_def store_some_def push_def dest: number_types read_message_typed [OF SourceCodeInfo_Location_typed_decoder])

lemma SourceCodeInfo_typed_decoder: "typed_decoder W valid k (SourceCodeInfo_decode W) SourceCodeInfo_typed"
  unfolding SourceCodeInfo_decode_def
  by (rule typed_decoder_less, rule decode_msg_keeps [OF SourceCodeInfo_good SourceCodeInfo_keeps])
    (simp add: SourceCodeInfo_typed_def createBaseSourceCodeInfo_def)

end

section \<open>GeneratedCodeInfo_Annotation\<close>

definition GeneratedCodeInfo_Annotation_typed :: "GeneratedCodeInfo_Annotation \<Rightarrow> bool" where
  "GeneratedCodeInfo_Annotation_typed m \<longleftrightarrow>
     list_all int32_ok (GeneratedCodeInfo_Annotation_path m) \<and>
     present (\<lambda>_. True) (GeneratedCodeInfo_Annotation_sourceFile m) \<and>
     present int32_ok (GeneratedCodeInfo_Annotation_begin m) \<and>
     present int32_ok (GeneratedCodeInfo_Annotation_end m) \<and>
     present int32_ok (GeneratedCodeInfo_Annotation_semantic m)"

lemma GeneratedCodeInfo_Annotation_typed_norm: "GeneratedCodeInfo_Annotation_typed m \<Longrightarrow> GeneratedCodeInfo_Annotation_norm m = m"
  by (cases m) (auto simp: GeneratedCodeInfo_Annotation_typed_def GeneratedCodeInfo_Annotation_norm_def present_iff nullish_Some )

context wire_laws
begin

lemma GeneratedCodeInfo_Annotation_keeps: "keeps W valid k GeneratedCodeInfo_Annotation_typed (GeneratedCodeInfo_Annotation_switch W)"
  unfolding GeneratedCodeInfo_Annotation_switch_def
  by (rule keepsI, intro step_keeps_if step_keeps_None step_keeps_read step_keeps_packed)
    (auto simp: GeneratedCodeInfo_Annotation_typed_def store_def store_some_def push_def dest: number_types )

lemma GeneratedCodeInfo_Annotation_typed_decoder: "typed_decoder W valid k (GeneratedCodeInfo_Annotation_decode W) GeneratedCodeInfo_Annotation_typed"
  unfolding GeneratedCodeInfo_Annotation_decode_def
  by (rule typed_decoder_less, rule decode_msg_keeps [OF GeneratedCodeInfo_Annotation_good GeneratedCodeInfo_Annotation_keeps])
    (simp add: GeneratedCodeInfo_Annotation_typed_def createBaseGeneratedCodeInfo_Annotation_def)

end

section \<open>GeneratedCodeInfo\<close>

definition GeneratedCodeInfo_typed :: "GeneratedCodeInfo \<Rightarrow> bool" where
  "GeneratedCodeInfo_typed m \<longleftrightarrow>
     list_all GeneratedCodeInfo_Annotation_typed (GeneratedCodeInfo_annotation m)"

lemma GeneratedCodeInfo_typed_norm: "GeneratedCodeInfo_typed m \<Longrightarrow> GeneratedCodeInfo_norm m = m"
  by (cases m) (auto simp: GeneratedCodeInfo_typed_def GeneratedCodeInfo_norm_def present_iff nullish_Some map_option_same [where P = GeneratedCodeInfo_Annotation_typed and f = GeneratedCodeInfo_Annotation_norm, OF GeneratedCodeInfo_Annotation_typed_norm] map_same [where P = GeneratedCodeInfo_Annotation_typed and f = GeneratedCodeInfo_Annotation_norm, OF GeneratedCodeInfo_Annotation_typed_norm])

context wire_laws
begin

lemma GeneratedCodeInfo_keeps: "keeps W valid k GeneratedCodeInfo_typed (GeneratedCodeInfo_switch W)"
  unfolding GeneratedCodeInfo_switch_def
  by (rule keepsI, intro step_keeps_if step_keeps_None step_keeps_read step_keeps_packed)
    (auto simp: GeneratedCodeInfo_typed_def store_def store_some_def push_def dest: number_types read_message_typed [OF GeneratedCodeInfo_Annotation_typed_decoder])

lemma GeneratedCodeInfo_typed_decoder: "typed_decoder W valid k (GeneratedCodeInfo_decode W) GeneratedCodeInfo_typed"
  unfolding GeneratedCodeInfo_decode_def
  by (rule typed_decoder_less, rule decode_msg_keeps [OF GeneratedCodeInfo_good GeneratedCodeInfo_keeps])
    (simp add: GeneratedCodeInfo_typed_def createBaseGeneratedCodeInfo_def)

end

section \<open>UninterpretedOption\<close>

definition UninterpretedOption_typed :: "UninterpretedOption \<Rightarrow> bool" where
  "UninterpretedOption_typed m \<longleftrightarrow>
     list_all UninterpretedOption_NamePart_typed (UninterpretedOption_name m) \<and>
     present (\<lambda>_. True) (UninterpretedOption_identifierValue m) \<and>
     present uint64_ok (UninterpretedOption_positiveIntValue m) \<and>
     present int64_ok (UninterpretedOption_negativeIntValue m) \<and>
     present (\<lambda>_. True) (UninterpretedOption_doubleValue m) \<and>
     present (\<lambda>_. True) (UninterpretedOption_stringValue m) \<and>
     present (\<lambda>_. True) (UninterpretedOption_aggregateValue m)"

lemma UninterpretedOption_typed_norm: "UninterpretedOption_typed m \<Longrightarrow> UninterpretedOption_norm m = m"
  by (cases m) (auto simp: UninterpretedOption_typed_def UninterpretedOption_norm_def present_iff nullish_Some map_option_same [where P = UninterpretedOption_NamePart_typed and f = UninterpretedOption_NamePart_norm, OF UninterpretedOption_NamePart_typed_norm] map_same [where P = UninterpretedOption_NamePart_typed and f = UninterpretedOption_NamePart_norm, OF UninterpretedOption_NamePart_typed_norm])

context wire_laws
begin

lemma UninterpretedOption_keeps: "keeps W valid k UninterpretedOption_typed (UninterpretedOption_switch W)"
  unfolding UninterpretedOption_switch_def
  by (rule keepsI, intro step_keeps_if step_keeps_None step_keeps_read step_keeps_packed)
    (auto simp: UninterpretedOption_typed_def store_def store_some_def push_def dest: number_types read_message_typed [OF UninterpretedOption_NamePart_typed_decoder])

lemma UninterpretedOption_typed_decoder: "typed_decoder W valid k (UninterpretedOption_decode W) UninterpretedOption_typed"
  unfolding UninterpretedOption_decode_def
  by (rule typed_decoder_less, rule decode_msg_keeps [OF UninterpretedOption_good UninterpretedOption_keeps])
    (simp add: UninterpretedOption_typed_def createBaseUninterpretedOption_def)

end

section \<open>OneofOptions\<close>

definition OneofOptions_typed :: "OneofOptions \<Rightarrow> bool" where
  "OneofOptions_typed m \<longleftrightarrow>
     pred_option FeatureSet_typed (OneofOptions_features m) \<and>
     list_all UninterpretedOption_typed (OneofOptions_uninterpretedOption m)"

lemma OneofOptions_typed_norm: "OneofOptions_typed m \<Longrightarrow> OneofOptions_norm m = m"
  by (cases m) (auto simp: OneofOptions_typed_def OneofOptions_norm_def present_iff nullish_Some map_option_same [where P = FeatureSet_typed and f = FeatureSet_norm, OF FeatureSet_typed_norm] map_same [where P = FeatureSet_typed and f = FeatureSet_norm, OF FeatureSet_typed_norm] map_option_same [where P = UninterpretedOption_typed and f = UninterpretedOption_norm, OF UninterpretedOption_typed_norm] map_same [where P = UninterpretedOption_typed and f = UninterpretedOption_norm, OF UninterpretedOption_typed_norm])

context wire_laws
begin

lemma OneofOptions_keeps: "keeps W valid k OneofOptions_typed (OneofOptions_switch W)"
  unfolding OneofOptions_switch_def
  by (rule keepsI, intro step_keeps_if step_keeps_None step_keeps_read step_keeps_packed)
    (auto simp: OneofOptions_typed_def store_def store_some_def push_def dest: number_types read_message_typed [OF FeatureSet_typed_decoder] read_message_typed [OF UninterpretedOption_typed_decoder])

lemma OneofOptions_typed_decoder: "typed_decoder W valid k (OneofOptions_decode W) OneofOptions_typed"
  unfolding OneofOptions_decode_def
  by (rule typed_decoder_less, rule decode_msg_keeps [OF OneofOptions_good OneofOptions_keeps])
    (simp add: OneofOptions_typed_def createBaseOneofOptions_def)

end

section \<open>EnumOptions\<close>

definition EnumOptions_typed :: "EnumOptions \<Rightarrow> bool" where
  "EnumOptions_typed m \<longleftrightarrow>
     present (\<lambda>_. True) (EnumOptions_allowAlias m) \<and>
     present (\<lambda>_. True) (EnumOptions_deprecated m) \<and>
     present (\<lambda>_. True) (EnumOptions_deprecatedLegacyJsonFieldConflicts m) \<and>
     pred_option FeatureSet_typed (EnumOptions_features m) \<and>
     list_all UninterpretedOption_typed (EnumOptions_uninterpretedOption m)"

lemma EnumOptions_typed_norm: "EnumOptions_typed m \<Longrightarrow> EnumOptions_norm m = m"
  by (cases m) (auto simp: EnumOptions_typed_def EnumOptions_norm_def present_iff nullish_Some map_option_same [where P = FeatureSet_typed and f = FeatureSet_norm, OF FeatureSet_typed_norm] map_same [where P = FeatureSet_typed and f = FeatureSet_norm, OF FeatureSet_typed_norm] map_option_same [where P = UninterpretedOption_typed and f = UninterpretedOption_norm, OF UninterpretedOption_typed_norm] map_same [where P = UninterpretedOption_typed and f = UninterpretedOption_norm, OF UninterpretedOption_typed_norm])

context wire_laws
begin

lemma EnumOptions_keeps: "keeps W valid k EnumOptions_typed (EnumOptions_switch W)"
  unfolding EnumOptions_switch_def
  by (rule keepsI, intro step_keeps_if step_keeps_None step_keeps_read step_keeps_packed)
    (auto simp: EnumOptions_typed_def store_def store_some_def push_def dest: number_types read_message_typed [OF FeatureSet_typed_decoder] read_message_typed [OF UninterpretedOption_typed_decoder])

lemma EnumOptions_typed_decoder: "typed_decoder W valid k (EnumOptions_decode W) EnumOptions_typed"
  unfolding EnumOptions_decode_def
  by (rule typed_decoder_less, rule decode_msg_keeps [OF EnumOptions_good EnumOptions_keeps])
    (simp add: EnumOptions_typed_def createBaseEnumOptions_def)

end

section \<open>EnumValueOptions\<close>

definition EnumValueOptions_typed :: "EnumValueOptions \<Rightarrow> bool" where
  "EnumValueOptions_typed m \<longleftrightarrow>
     present (\<lambda>_. True) (EnumValueOptions_deprecated m) \<and>
     pred_option FeatureSet_typed (EnumValueOptions_features m) \<and>
     present (\<lambda>_. True) (EnumValueOptions_debugRedact m) \<and>
     pred_option FieldOptions_FeatureSupport_typed (EnumValueOptions_featureSupport m) \<and>
     list_all UninterpretedOption_typed (EnumValueOptions_uninterpretedOption m)"

lemma EnumValueOptions_typed_norm: "EnumValueOptions_typed m \<Longrightarrow> EnumValueOptions_norm m = m"
  by (cases m) (auto simp: EnumValueOptions_typed_def EnumValueOptions_norm_def present_iff nullish_Some map_option_same [where P = FeatureSet_typed and f = FeatureSet_norm, OF FeatureSet_typed_norm] map_same [where P = FeatureSet_typed and f = FeatureSet_norm, OF FeatureSet_typed_norm] map_option_same [where P = FieldOptions_FeatureSupport_typed and f = FieldOptions_FeatureSupport_norm, OF FieldOptions_FeatureSupport_typed_norm] map_same [where P = FieldOptions_FeatureSupport_typed and f = FieldOptions_FeatureSupport_norm, OF FieldOptions_FeatureSupport_typed_norm] map_option_same [where P = UninterpretedOption_typed and f = UninterpretedOption_norm, OF UninterpretedOption_typed_norm] map_same [where P = UninterpretedOption_typed and f = UninterpretedOption_norm, OF UninterpretedOption_typed_norm])

context wire_laws
begin

lemma EnumValueOptions_keeps: "keeps W valid k EnumValueOptions_typed (EnumValueOptions_switch W)"
  unfolding EnumValueOptions_switch_def
  by (rule keepsI, intro step_keeps_if step_keeps_None step_keeps_read step_keeps_packed)
    (auto simp: EnumValueOptions_typed_def store_def store_some_def push_def dest: number_types read_message_typed [OF FeatureSet_typed_decoder] read_message_typed [OF FieldOptions_FeatureSupport_typed_decoder] read_message_typed [OF UninterpretedOption_typed_decoder])

lemma EnumValueOptions_typed_decoder: "typed_decoder W valid k (EnumValueOptions_decode W) EnumValueOptions_typed"
  unfolding EnumValueOptions_decode_def
  by (rule typed_decoder_less, rule decode_msg_keeps [OF EnumValueOptions_good EnumValueOptions_keeps])
    (simp add: EnumValueOptions_typed_def createBaseEnumValueOptions_def)

end

section \<open>ServiceOptions\<close>

definition ServiceOptions_typed :: "ServiceOptions \<Rightarrow> bool" where
  "ServiceOptions_typed m \<longleftrightarrow>
     pred_option FeatureSet_typed (ServiceOptions_features m) \<and>
     present (\<lambda>_. True) (ServiceOptions_deprecated m) \<and>
     list_all UninterpretedOption_typed (ServiceOptions_uninterpretedOption m)"

lemma ServiceOptions_typed_norm: "ServiceOptions_typed m \<Longrightarrow> ServiceOptions_norm m = m"
  by (cases m) (auto simp: ServiceOptions_typed_def ServiceOptions_norm_def present_iff nullish_Some map_option_same [where P = FeatureSet_typed and f = FeatureSet_norm, OF FeatureSet_typed_norm] map_same [where P = FeatureSet_typed and f = FeatureSet_norm, OF FeatureSet_typed_norm] map_option_same [where P = UninterpretedOption_typed and f = UninterpretedOption_norm, OF UninterpretedOption_typed_norm] map_same [where P = UninterpretedOption_typed and f = UninterpretedOption_norm, OF UninterpretedOption_typed_norm])

context wire_laws
begin

lemma ServiceOptions_keeps: "keeps W valid k ServiceOptions_typed (ServiceOptions_switch W)"
  unfolding ServiceOptions_switch_def
  by (rule keepsI, intro step_keeps_if step_keeps_None step_keeps_read step_keeps_packed)
    (auto simp: ServiceOptions_typed_def store_def store_some_def push_def dest: number_types read_message_typed [OF FeatureSet_typed_decoder] read_message_typed [OF UninterpretedOption_typed_decoder])

lemma ServiceOptions_typed_decoder: "typed_decoder W valid k (ServiceOptions_decode W) ServiceOptions_typed"
  unfolding ServiceOptions_decode_def
  by (rule typed_decoder_less, rule decode_msg_keeps [OF ServiceOptions_good ServiceOptions_keeps])
    (simp add: ServiceOptions_typed_def createBaseServiceOptions_def)

end

section \<open>MethodOptions\<close>

definition MethodOptions_typed :: "MethodOptions \<Rightarrow> bool" where
  "MethodOptions_typed m \<longleftrightarrow>
     present (\<lambda>_. True) (MethodOptions_deprecated m) \<and>
     present int32_ok (MethodOptions_idempotencyLevel m) \<and>
     pred_option FeatureSet_typed (MethodOptions_features m) \<and>
     list_all UninterpretedOption_typed (MethodOptions_uninterpretedOption m)"

lemma MethodOptions_typed_norm: "MethodOptions_typed m \<Longrightarrow> MethodOptions_norm m = m"
  by (cases m) (auto simp: MethodOptions_typed_def MethodOptions_norm_def present_iff nullish_Some map_option_same [where P = FeatureSet_typed and f = FeatureSet_norm, OF FeatureSet_typed_norm] map_same [where P = FeatureSet_typed and f = FeatureSet_norm, OF FeatureSet_typed_norm] map_option_same [where P = UninterpretedOption_typed and f = UninterpretedOption_norm, OF UninterpretedOption_typed_norm] map_same [where P = UninterpretedOption_typed and f = UninterpretedOption_norm, OF UninterpretedOption_typed_norm])

context wire_laws
begin

lemma MethodOptions_keeps: "keeps W valid k MethodOptions_typed (MethodOptions_switch W)"
  unfolding MethodOptions_switch_def
  by (rule keepsI, intro step_keeps_if step_keeps_None step_keeps_read step_keeps_packed)
    (auto simp: MethodOptions_typed_def store_def store_some_def push_def dest: number_types read_message_typed [OF FeatureSet_typed_decoder] read_message_typed [OF UninterpretedOption_typed_decoder])

lemma MethodOptions_typed_decoder: "typed_decoder W valid k (MethodOptions_decode W) MethodOptions_typed"
  unfolding MethodOptions_decode_def
  by (rule typed_decoder_less, rule decode_msg_keeps [OF MethodOptions_good MethodOptions_keeps])
    (simp add: MethodOptions_typed_def createBaseMethodOptions_def)

end

section \<open>MessageOptions\<close>

definition MessageOptions_typed :: "MessageOptions \<Rightarrow> bool" where
  "MessageOptions_typed m \<longleftrightarrow>
     present (\<lambda>_. True) (MessageOptions_messageSetWireFormat m) \<and>
     present (\<lambda>_. True) (MessageOptions_noStandardDescriptorAccessor m) \<and>
     present (\<lambda>_. True) (MessageOptions_deprecated m) \<and>
     present (\<lambda>_. True) (MessageOptions_mapEntry m) \<and>
     present (\<lambda>_. True) (MessageOptions_deprecatedLegacyJsonFieldConflicts m) \<and>
     pred_option FeatureSet_typed (MessageOptions_features m) \<and>
     list_all UninterpretedOption_typed (MessageOptions_uninterpretedOption m)"

lemma MessageOptions_typed_norm: "MessageOptions_typed m \<Longrightarrow> MessageOptions_norm m = m"
  by (cases m) (auto simp: MessageOptions_typed_def MessageOptions_norm_def present_iff nullish_Some map_option_same [where P = FeatureSet_typed and f = FeatureSet_norm, OF FeatureSet_typed_norm] map_same [where P = FeatureSet_typed and f = FeatureSet_norm, OF FeatureSet_typed_norm] map_option_same [where P = UninterpretedOption_typed and f = UninterpretedOption_norm, OF UninterpretedOption_typed_norm] map_same [where P = UninterpretedOption_typed and f = UninterpretedOption_norm, OF UninterpretedOption_typed_norm])

context wire_laws
begin

lemma MessageOptions_keeps: "keeps W valid k MessageOptions_typed (MessageOptions_switch W)"
  unfolding MessageOptions_switch_def
  by (rule keepsI, intro step_keeps_if step_keeps_None step_keeps_read step_keeps_packed)
    (auto simp: MessageOptions_typed_def store_def store_some_def push_def dest: number_types read_message_typed [OF FeatureSet_typed_decoder] read_message_typed [OF UninterpretedOption_typed_decoder])

lemma MessageOptions_typed_decoder: "typed_decoder W valid k (MessageOptions_decode W) MessageOptions_typed"
  unfolding MessageOptions_decode_def
  by (rule typed_decoder_less, rule decode_msg_keeps [OF MessageOptions_good MessageOptions_keeps])
    (simp add: MessageOptions_typed_def createBaseMessageOptions_def)

end

section \<open>FieldOptions\<close>

definition FieldOptions_typed :: "FieldOptions \<Rightarrow> bool" where
  "FieldOptions_typed m \<longleftrightarrow>
     present int32_ok (FieldOptions_ctype m) \<and>
     present (\<lambda>_. True) (FieldOptions_packed m) \<and>
     present int32_ok (FieldOptions_jstype m) \<and>
     present (\<lambda>_. True) (FieldOptions_lazy m) \<and>
     present (\<lambda>_. True) (FieldOptions_unverifiedLazy m) \<and>
     present (\<lambda>_. True) (FieldOptions_deprecated m) \<and>
     present (\<lambda>_. True) (FieldOptions_weak m) \<and>
     present (\<lambda>_. True) (FieldOptions_debugRedact m) \<and>
     present int32_ok (FieldOptions_retention m) \<and>
     list_all int32_ok (FieldOptions_targets m) \<and>
     list_all FieldOptions_EditionDefault_typed (FieldOptions_editionDefaults m) \<and>
     pred_option FeatureSet_typed (FieldOptions_features m) \<and>
     pred_option FieldOptions_FeatureSupport_typed (FieldOptions_featureSupport m) \<and>
     list_all UninterpretedOption_typed (FieldOptions_uninterpretedOption m)"

lemma FieldOptions_typed_norm: "FieldOptions_typed m \<Longrightarrow> FieldOptions_norm m = m"
  by (cases m) (auto simp: FieldOptions_typed_def FieldOptions_norm_def present_iff nullish_Some map_option_same [where P = FeatureSet_typed and f = FeatureSet_norm, OF FeatureSet_typed_norm] map_same [where P = FeatureSet_typed and f = FeatureSet_norm, OF FeatureSet_typed_norm] map_option_same [where P = FieldOptions_EditionDefault_typed and f = FieldOptions_EditionDefault_norm, OF FieldOptions_EditionDefault_typed_norm] map_same [where P = FieldOptions_EditionDefault_typed and f = FieldOptions_EditionDefault_norm, OF FieldOptions_EditionDefault_typed_norm] map_option_same [where P = FieldOptions_FeatureSupport_typed and f = FieldOptions_FeatureSupport_norm, OF FieldOptions_FeatureSupport_typed_norm] map_same [where P = FieldOptions_FeatureSupport_typed and f = FieldOptions_FeatureSupport_norm, OF FieldOptions_FeatureSupport_typed_norm] map_option_same [where P = UninterpretedOption_typed and f = UninterpretedOption_norm, OF UninterpretedOption_typed_norm] map_same [where P = UninterpretedOption_typed and f = UninterpretedOption_norm, OF UninterpretedOption_typed_norm])

context wire_laws
begin

lemma FieldOptions_keeps: "keeps W valid k FieldOptions_typed (FieldOptions_switch W)"
  unfolding FieldOptions_switch_def
  by (rule keepsI, intro step_keeps_if step_keeps_None step_keeps_read step_keeps_packed)
    (auto simp: FieldOptions_typed_def store_def store_some_def push_def dest: number_types read_message_typed [OF FeatureSet_typed_decoder] read_message_typed [OF FieldOptions_EditionDefault_typed_decoder] read_message_typed [OF FieldOptions_FeatureSupport_typed_decoder] read_message_typed [OF UninterpretedOption_typed_decoder])

lemma FieldOptions_typed_decoder: "typed_decoder W valid k (FieldOptions_decode W) FieldOptions_typed"
  unfolding FieldOptions_decode_def
  by (rule typed_decoder_less, rule decode_msg_keeps [OF FieldOptions_good FieldOptions_keeps])
    (simp add: FieldOptions_typed_def createBaseFieldOptions_def)

end

section \<open>FileOptions\<close>

definition FileOptions_typed :: "FileOptions \<Rightarrow> bool" where
  "FileOptions_typed m \<longleftrightarrow>
     present (\<lambda>_. True) (FileOptions_javaPackage m) \<and>
     present (\<lambda>_. True) (FileOptions_javaOuterClassname m) \<and>
     present (\<lambda>_. True) (FileOptions_javaMultipleFiles m) \<and>
     present (\<lambda>_. True) (FileOptions_javaGenerateEqualsAndHash m) \<and>
     present (\<lambda>_. True) (FileOptions_javaStringCheckUtf8 m) \<and>
     present int32_ok (FileOptions_optimizeFor m) \<and>
     present (\<lambda>_. True) (FileOptions_goPackage m) \<and>
     present (\<lambda>_. True) (FileOptions_ccGenericServices m) \<and>
     present (\<lambda>_. True) (FileOptions_javaGenericServices m) \<and>
     present (\<lambda>_. True) (FileOptions_pyGenericServices m) \<and>
     present (\<lambda>_. True) (FileOptions_deprecated m) \<and>
     present (\<lambda>_. True) (FileOptions_ccEnableArenas m) \<and>
     present (\<lambda>_. True) (FileOptions_objcClassPrefix m) \<and>
     present (\<lambda>_. True) (FileOptions_csharpNamespace m) \<and>
     present (\<lambda>_. True) (FileOptions_swiftPrefix m) \<and>
     present (\<lambda>_. True) (FileOptions_phpClassPrefix m) \<and>
     present (\<lambda>_. True) (FileOptions_phpNamespace m) \<and>
     present (\<lambda>_. True) (FileOptions_phpMetadataNamespace m) \<and>
     present (\<lambda>_. True) (FileOptions_rubyPackage m) \<and>
     pred_option FeatureSet_typed (FileOptions_features m) \<and>
     list_all UninterpretedOption_typed (FileOptions_uninterpretedOption m)"

lemma FileOptions_typed_norm: "FileOptions_typed m \<Longrightarrow> FileOptions_norm m = m"
  by (cases m) (auto simp: FileOptions_typed_def FileOptions_norm_def present_iff nullish_Some map_option_same [where P = FeatureSet_typed and f = FeatureSet_norm, OF FeatureSet_typed_norm] map_same [where P = FeatureSet_typed and f = FeatureSet_norm, OF FeatureSet_typed_norm] map_option_same [where P = UninterpretedOption_typed and f = UninterpretedOption_norm, OF UninterpretedOption_typed_norm] map_same [where P = UninterpretedOption_typed and f = UninterpretedOption_norm, OF UninterpretedOption_typed_norm])

context wire_laws
begin

lemma FileOptions_keeps: "keeps W valid k FileOptions_typed (FileOptions_switch W)"
  unfolding FileOptions_switch_def
  by (rule keepsI, intro step_keeps_if step_keeps_None step_keeps_read step_keeps_packed)
    (auto simp: FileOptions_typed_def store_def store_some_def push_def dest: number_types read_message_typed [OF FeatureSet_typed_decoder] read_message_typed [OF UninterpretedOption_typed_decoder])

lemma FileOptions_typed_decoder: "typed_decoder W valid k (FileOptions_decode W) FileOptions_typed"
  unfolding FileOptions_decode_def
  by (rule typed_decoder_less, rule decode_msg_keeps [OF FileOptions_good FileOptions_keeps])
    (simp add: FileOptions_typed_def createBaseFileOptions_def)

end

section \<open>ExtensionRangeOptions\<close>

definition ExtensionRangeOptions_typed :: "ExtensionRangeOptions \<Rightarrow> bool" where
  "ExtensionRangeOptions_typed m \<longleftrightarrow>
     list_all UninterpretedOption_typed (ExtensionRangeOptions_uninterpretedOption m) \<and>
     list_all ExtensionRangeOptions_Declaration_typed (ExtensionRangeOptions_declaration m) \<and>
     pred_option FeatureSet_typed (ExtensionRangeOptions_features m) \<and>
     present int32_ok (ExtensionRangeOptions_verification m)"

lemma ExtensionRangeOptions_typed_norm: "ExtensionRangeOptions_typed m \<Longrightarrow> ExtensionRangeOptions_norm m = m"
  by (cases m) (auto simp: ExtensionRangeOptions_typed_def ExtensionRangeOptions_norm_def present_iff nullish_Some map_option_same [where P = FeatureSet_typed and f = FeatureSet_norm, OF FeatureSet_typed_norm] map_same [where P = FeatureSet_typed and f = FeatureSet_norm, OF FeatureSet_typed_norm] map_option_same [where P = ExtensionRangeOptions_Declaration_typed and f = ExtensionRangeOptions_Declaration_norm, OF ExtensionRangeOptions_Declaration_typed_norm] map_same [where P = ExtensionRangeOptions_Declaration_typed and f = ExtensionRangeOptions_Declaration_norm, OF ExtensionRangeOptions_Declaration_typed_norm] map_option_same [where P = UninterpretedOption_typed and f = UninterpretedOption_norm, OF UninterpretedOption_typed_norm] map_same [where P = UninterpretedOption_typed and f = UninterpretedOption_norm, OF UninterpretedOption_typed_norm])

context wire_laws
begin

lemma ExtensionRangeOptions_keeps: "keeps W valid k ExtensionRangeOptions_typed (ExtensionRangeOptions_switch W)"
  unfolding ExtensionRangeOptions_switch_def
  by (rule keepsI, intro step_keeps_if step_keeps_None step_keeps_read step_keeps_packed)
    (auto simp: ExtensionRangeOptions_typed_def store_def store_some_def push_def dest: number_types read_message_typed [OF FeatureSet_typed_decoder] read_message_typed [OF ExtensionRangeOptions_Declaration_typed_decoder] read_message_typed [OF UninterpretedOption_typed_decoder])

lemma ExtensionRangeOptions_typed_decoder: "typed_decoder W valid k (ExtensionRangeOptions_decode W) ExtensionRangeOptions_typed"
  unfolding ExtensionRangeOptions_decode_def
  by (rule typed_decoder_less, rule decode_msg_keeps [OF ExtensionRangeOptions_good ExtensionRangeOptions_keeps])
    (simp add: ExtensionRangeOptions_typed_def createBaseExtensionRangeOptions_def)

end

section \<open>FieldDescriptorProto\<close>

definition FieldDescriptorProto_typed :: "FieldDescriptorProto \<Rightarrow> bool" where
  "FieldDescriptorProto_typed m \<longleftrightarrow>
     present (\<lambda>_. True) (FieldDescriptorProto_name m) \<and>
     present int32_ok (FieldDescriptorProto_number m) \<and>
     present int32_ok (FieldDescriptorProto_label m) \<and>
     present int32_ok (FieldDescriptorProto_type m) \<and>
     present (\<lambda>_. True) (FieldDescriptorProto_typeName m) \<and>
     present (\<lambda>_. True) (FieldDescriptorProto_extendee m) \<and>
     present (\<lambda>_. True) (FieldDescriptorProto_defaultValue m) \<and>
     present int32_ok (FieldDescriptorProto_oneofIndex m) \<and>
     present (\<lambda>_. True) (FieldDescriptorProto_jsonName m) \<and>
     pred_option FieldOptions_typed (FieldDescriptorProto_options m) \<and>
     present (\<lambda>_. True) (FieldDescriptorProto_proto3Optional m)"

lemma FieldDescriptorProto_typed_norm: "FieldDescriptorProto_typed m \<Longrightarrow> FieldDescriptorProto_norm m = m"
  by (cases m) (auto simp: FieldDescriptorProto_typed_def FieldDescriptorProto_norm_def present_iff nullish_Some map_option_same [where P = FieldOptions_typed and f = FieldOptions_norm, OF FieldOptions_typed_norm] map_same [where P = FieldOptions_typed and f = FieldOptions_norm, OF FieldOptions_typed_norm])

context wire_laws
begin

lemma FieldDescriptorProto_keeps: "keeps W valid k FieldDescriptorProto_typed (FieldDescriptorProto_switch W)"
  unfolding FieldDescriptorProto_switch_def
  by (rule keepsI, intro step_keeps_if step_keeps_None step_keeps_read step_keeps_packed)
    (auto simp: FieldDescriptorProto_typed_def store_def store_some_def push_def dest: number_types read_message_typed [OF FieldOptions_typed_decoder])

lemma FieldDescriptorProto_typed_decoder: "typed_decoder W valid k (FieldDescriptorProto_decode W) FieldDescriptorProto_typed"
  unfolding FieldDescriptorProto_decode_def
  by (rule typed_decoder_less, rule decode_msg_keeps [OF FieldDescriptorProto_good FieldDescriptorProto_keeps])
    (simp add: FieldDescriptorProto_typed_def createBaseFieldDescriptorProto_def)

end

section \<open>OneofDescriptorProto\<close>

definition OneofDescriptorProto_typed :: "OneofDescriptorProto \<Rightarrow> bool" where
  "OneofDescriptorProto_typed m \<longleftrightarrow>
     present (\<lambda>_. True) (OneofDescriptorProto_name m) \<and>
     pred_option OneofOptions_typed (OneofDescriptorProto_options m)"

lemma OneofDescriptorProto_typed_norm: "OneofDescriptorProto_typed m \<Longrightarrow> OneofDescriptorProto_norm m = m"
  by (cases m) (auto simp: OneofDescriptorProto_typed_def OneofDescriptorProto_norm_def present_iff nullish_Some map_option_same [where P = OneofOptions_typed and f = OneofOptions_norm, OF OneofOptions_typed_norm] map_same [where P = OneofOptions_typed and f = OneofOptions_norm, OF OneofOptions_typed_norm])

context wire_laws
begin

lemma OneofDescriptorProto_keeps: "keeps W valid k OneofDescriptorProto_typed (OneofDescriptorProto_switch W)"
  unfolding OneofDescriptorProto_switch_def
  by (rule keepsI, intro step_keeps_if step_keeps_None step_keeps_read step_keeps_packed)
    (auto simp: OneofDescriptorProto_typed_def store_def store_some_def push_def dest: number_types read_message_typed [OF OneofOptions_typed_decoder])

lemma OneofDescriptorProto_typed_decoder: "typed_decoder W valid k (OneofDescriptorProto_decode W) OneofDescriptorProto_typed"
  unfolding OneofDescriptorProto_decode_def
  by (rule typed_decoder_less, rule decode_msg_keeps [OF OneofDescriptorProto_good OneofDescriptorProto_keeps])
    (simp add: OneofDescriptorProto_typed_def createBaseOneofDescriptorProto_def)

end

section \<open>EnumValueDescriptorProto\<close>

definition EnumValueDescriptorProto_typed :: "EnumValueDescriptorProto \<Rightarrow> bool" where
  "EnumValueDescriptorProto_typed m \<longleftrightarrow>
     present (\<lambda>_. True) (EnumValueDescriptorProto_name m) \<and>
     present int32_ok (EnumValueDescriptorProto_number m) \<and>
     pred_option EnumValueOptions_typed (EnumValueDescriptorProto_options m)"

lemma EnumValueDescriptorProto_typed_norm: "EnumValueDescriptorProto_typed m \<Longrightarrow> EnumValueDescriptorProto_norm m = m"
  by (cases m) (auto simp: EnumValueDescriptorProto_typed_def EnumValueDescriptorProto_norm_def present_iff nullish_Some map_option_same [where P = EnumValueOptions_typed and f = EnumValueOptions_norm, OF EnumValueOptions_typed_norm] map_same [where P = EnumValueOptions_typed and f = EnumValueOptions_norm, OF EnumValueOptions_typed_norm])

context wire_laws
begin

lemma EnumValueDescriptorProto_keeps: "keeps W valid k EnumValueDescriptorProto_typed (EnumValueDescriptorProto_switch W)"
  unfolding EnumValueDescriptorProto_switch_def
  by (rule keepsI, intro step_keeps_if step_keeps_None step_keeps_read step_keeps_packed)
    (auto simp: EnumValueDescriptorProto_typed_def store_def store_some_def push_def dest: number_types read_message_typed [OF EnumValueOptions_typed_decoder])

lemma EnumValueDescriptorProto_typed_decoder: "typed_decoder W valid k (EnumValueDescriptorProto_decode W) EnumValueDescriptorProto_typed"
  unfolding EnumValueDescriptorProto_decode_def
  by (rule typed_decoder_less, rule decode_msg_keeps [OF EnumValueDescriptorProto_good EnumValueDescriptorProto_keeps])
    (simp add: EnumValueDescriptorProto_typed_def createBaseEnumValueDescriptorProto_def)

end

section \<open>EnumDescriptorProto\<close>

definition EnumDescriptorProto_typed :: "EnumDescriptorProto \<Rightarrow> bool" where
  "EnumDescriptorProto_typed m \<longleftrightarrow>
     present (\<lambda>_. True) (EnumDescriptorProto_name m) \<and>
     list_all EnumValueDescriptorProto_typed (EnumDescriptorProto_value m) \<and>
     pred_option EnumOptions_typed (EnumDescriptorProto_options m) \<and>
     list_all EnumDescriptorProto_EnumReservedRange_typed (EnumDescriptorProto_reservedRange m)"

lemma EnumDescriptorProto_typed_norm: "EnumDescriptorProto_typed m \<Longrightarrow> EnumDescriptorProto_norm m = m"
  by (cases m) (auto simp: EnumDescriptorProto_typed_def EnumDescriptorProto_norm_def present_iff nullish_Some map_option_same [where P = EnumDescriptorProto_EnumReservedRange_typed and f = EnumDescriptorProto_EnumReservedRange_norm, OF EnumDescriptorProto_EnumReservedRange_typed_norm] map_same [where P = EnumDescriptorProto_EnumReservedRange_typed and f = EnumDescriptorProto_EnumReservedRange_norm, OF EnumDescriptorProto_EnumReservedRange_typed_norm] map_option_same [where P = EnumOptions_typed and f = EnumOptions_norm, OF EnumOptions_typed_norm] map_same [where P = EnumOptions_typed and f = EnumOptions_norm, OF EnumOptions_typed_norm] map_option_same [where P = EnumValueDescriptorProto_typed and f = EnumValueDescriptorProto_norm, OF EnumValueDescriptorProto_typed_norm] map_same [where P = EnumValueDescriptorProto_typed and f = EnumValueDescriptorProto_norm, OF EnumValueDescriptorProto_typed_norm])

context wire_laws
begin

lemma EnumDescriptorProto_keeps: "keeps W valid k EnumDescriptorProto_typed (EnumDescriptorProto_switch W)"
  unfolding EnumDescriptorProto_switch_def
  by (rule keepsI, intro step_keeps_if step_keeps_None step_keeps_read step_keeps_packed)
    (auto simp: EnumDescriptorProto_typed_def store_def store_some_def push_def dest: number_types read_message_typed [OF EnumDescriptorProto_EnumReservedRange_typed_decoder] read_message_typed [OF EnumOptions_typed_decoder] read_message_typed [OF EnumValueDescriptorProto_typed_decoder])

lemma EnumDescriptorProto_typed_decoder: "typed_decoder W valid k (EnumDescriptorProto_decode W) EnumDescriptorProto_typed"
  unfolding EnumDescriptorProto_decode_def
  by (rule typed_decoder_less, rule decode_msg_keeps [OF EnumDescriptorProto_good EnumDescriptorProto_keeps])
    (simp add: EnumDescriptorProto_typed_def createBaseEnumDescriptorProto_def)

end

section \<open>MethodDescriptorProto\<close>

definition MethodDescriptorProto_typed :: "MethodDescriptorProto \<Rightarrow> bool" where
  "MethodDescriptorProto_typed m \<longleftrightarrow>
     present (\<lambda>_. True) (MethodDescriptorProto_name m) \<and>
     present (\<lambda>_. True) (MethodDescriptorProto_inputType m) \<and>
     present (\<lambda>_. True) (MethodDescriptorProto_outputType m) \<and>
     pred_option MethodOptions_typed (MethodDescriptorProto_options m) \<and>
     present (\<lambda>_. True) (MethodDescriptorProto_clientStreaming m) \<and>
     present (\<lambda>_. True) (MethodDescriptorProto_serverStreaming m)"

lemma MethodDescriptorProto_typed_norm: "MethodDescriptorProto_typed m \<Longrightarrow> MethodDescriptorProto_norm m = m"
  by (cases m) (auto simp: MethodDescriptorProto_typed_def MethodDescriptorProto_norm_def present_iff nullish_Some map_option_same [where P = MethodOptions_typed and f = MethodOptions_norm, OF MethodOptions_typed_norm] map_same [where P = MethodOptions_typed and f = MethodOptions_norm, OF MethodOptions_typed_norm])

context wire_laws
begin

lemma MethodDescriptorProto_keeps: "keeps W valid k MethodDescriptorProto_typed (MethodDescriptorProto_switch W)"
  unfolding MethodDescriptorProto_switch_def
  by (rule keepsI, intro step_keeps_if step_keeps_None step_keeps_read step_keeps_packed)
    (auto simp: MethodDescriptorProto_typed_def store_def store_some_def push_def dest: number_types read_message_typed [OF MethodOptions_typed_decoder])

lemma MethodDescriptorProto_typed_decoder: "typed_decoder W valid k (MethodDescriptorProto_decode W) MethodDescriptorProto_typed"
  unfolding MethodDescriptorProto_decode_def
  by (rule typed_decoder_less, rule decode_msg_keeps [OF MethodDescriptorProto_good MethodDescriptorProto_keeps])
    (simp add: MethodDescriptorProto_typed_def createBaseMethodDescriptorProto_def)

end

section \<open>ServiceDescriptorProto\<close>

definition ServiceDescriptorProto_typed :: "ServiceDescriptorProto \<Rightarrow> bool" where
  "ServiceDescriptorProto_typed m \<longleftrightarrow>
     present (\<lambda>_. True) (ServiceDescriptorProto_name m) \<and>
     list_all MethodDescriptorProto_typed (ServiceDescriptorProto_method m) \<and>
     pred_option ServiceOptions_typed (ServiceDescriptorProto_options m)"

lemma ServiceDescriptorProto_typed_norm: "ServiceDescriptorProto_typed m \<Longrightarrow> ServiceDescriptorProto_norm m = m"
  by (cases m) (auto simp: ServiceDescriptorProto_typed_def ServiceDescriptorProto_norm_def present_iff nullish_Some map_option_same [where P = ServiceOptions_typed and f = ServiceOptions_norm, OF ServiceOptions_typed_norm] map_same [where P = ServiceOptions_typed and f = ServiceOptions_norm, OF ServiceOptions_typed_norm] map_option_same [where P = MethodDescriptorProto_typed and f = MethodDescriptorProto_norm, OF MethodDescriptorProto_typed_norm] map_same [where P = MethodDescriptorProto_typed and f = MethodDescriptorProto_norm, OF MethodDescriptorProto_typed_norm])

context wire_laws
begin

lemma ServiceDescriptorProto_keeps: "keeps W valid k ServiceDescriptorProto_typed (ServiceDescriptorProto_switch W)"
  unfolding ServiceDescriptorProto_switch_def
  by (rule keepsI, intro step_keeps_if step_keeps_None step_keeps_read step_keeps_packed)
    (auto simp: ServiceDescriptorProto_typed_def store_def store_some_def push_def dest: number_types read_message_typed [OF ServiceOptions_typed_decoder] read_message_typed [OF MethodDescriptorProto_typed_decoder])

lemma ServiceDescriptorProto_typed_decoder: "typed_decoder W valid k (ServiceDescriptorProto_decode W) ServiceDescriptorProto_typed"
  unfolding ServiceDescriptorProto_decode_def
  by (rule typed_decoder_less, rule decode_msg_keeps [OF ServiceDescriptorProto_good ServiceDescriptorProto_keeps])
    (simp add: ServiceDescriptorProto_typed_def createBaseServiceDescriptorProto_def)

end

section \<open>DescriptorProto_ExtensionRange\<close>

definition DescriptorProto_ExtensionRange_typed :: "DescriptorProto_ExtensionRange \<Rightarrow> bool" where
  "DescriptorProto_ExtensionRange_typed m \<longleftrightarrow>
     present int32_ok (DescriptorProto_ExtensionRange_start m) \<and>
     present int32_ok (DescriptorProto_ExtensionRange_end m) \<and>
     pred_option ExtensionRangeOptions_typed (DescriptorProto_ExtensionRange_options m)"

lemma DescriptorProto_ExtensionRange_typed_norm: "DescriptorProto_ExtensionRange_typed m \<Longrightarrow> DescriptorProto_ExtensionRange_norm m = m"
  by (cases m) (auto simp: DescriptorProto_ExtensionRange_typed_def DescriptorProto_ExtensionRange_norm_def present_iff nullish_Some map_option_same [where P = ExtensionRangeOptions_typed and f = ExtensionRangeOptions_norm, OF ExtensionRangeOptions_typed_norm] map_same [where P = ExtensionRangeOptions_typed and f = ExtensionRangeOptions_norm, OF ExtensionRangeOptions_typed_norm])

context wire_laws
begin

lemma DescriptorProto_ExtensionRange_keeps: "keeps W valid k DescriptorProto_ExtensionRange_typed (DescriptorProto_ExtensionRange_switch W)"
  unfolding DescriptorProto_ExtensionRange_switch_def
  by (rule keepsI, intro step_keeps_if step_keeps_None step_keeps_read step_keeps_packed)
    (auto simp: DescriptorProto_ExtensionRange_typed_def store_def store_some_def push_def dest: number_types read_message_typed [OF ExtensionRangeOptions_typed_decoder])

lemma DescriptorProto_ExtensionRange_typed_decoder: "typed_decoder W valid k (DescriptorProto_ExtensionRange_decode W) DescriptorProto_ExtensionRange_typed"
  unfolding DescriptorProto_ExtensionRange_decode_def
  by (rule typed_decoder_less, rule decode_msg_keeps [OF DescriptorProto_ExtensionRange_good DescriptorProto_ExtensionRange_keeps])
    (simp add: DescriptorProto_ExtensionRange_typed_def createBaseDescriptorProto_ExtensionRange_def)

end

section \<open>DescriptorProto\<close>

function DescriptorProto_typed :: "DescriptorProto \<Rightarrow> bool" where
  "DescriptorProto_typed m \<longleftrightarrow>
     present (\<lambda>_. True) (DescriptorProto_name m) \<and>
     list_all FieldDescriptorProto_typed (DescriptorProto_field m) \<and>
     list_all FieldDescriptorProto_typed (DescriptorProto_extension m) \<and>
     list_all DescriptorProto_typed (DescriptorProto_nestedType m) \<and>
     list_all EnumDescriptorProto_typed (DescriptorProto_enumType m) \<and>
     list_all DescriptorProto_ExtensionRange_typed (DescriptorProto_extensionRange m) \<and>
     list_all OneofDescriptorProto_typed (DescriptorProto_oneofDecl m) \<and>
     pred_option MessageOptions_typed (DescriptorProto_options m) \<and>
     list_all DescriptorProto_ReservedRange_typed (DescriptorProto_reservedRange m)"
  by pat_completeness auto
termination
  by (relation "measure size") (simp_all add: DescriptorProto_part_size)

declare DescriptorProto_typed.simps [simp del]

lemma DescriptorProto_typed_norm: "DescriptorProto_typed m \<Longrightarrow> DescriptorProto_norm m = m"
proof (induction m rule: DescriptorProto_norm.induct)
  case (1 m)
  have "map DescriptorProto_norm (DescriptorProto_nestedType m) = DescriptorProto_nestedType m"
    using 1 by (auto simp: DescriptorProto_typed.simps [of m] list_all_iff intro!: map_idI)
  with "1.prems" show ?case
    unfolding DescriptorProto_typed.simps [of m] DescriptorProto_norm.simps [of m]
    by (cases m) (auto simp: present_iff nullish_Some map_option_same [where P = DescriptorProto_ReservedRange_typed and f = DescriptorProto_ReservedRange_norm, OF DescriptorProto_ReservedRange_typed_norm] map_same [where P = DescriptorProto_ReservedRange_typed and f = DescriptorProto_ReservedRange_norm, OF DescriptorProto_ReservedRange_typed_norm] map_option_same [where P = MessageOptions_typed and f = MessageOptions_norm, OF MessageOptions_typed_norm] map_same [where P = MessageOptions_typed and f = MessageOptions_norm, OF MessageOptions_typed_norm] map_option_same [where P = FieldDescriptorProto_typed and f = FieldDescriptorProto_norm, OF FieldDescriptorProto_typed_norm] map_same [where P = FieldDescriptorProto_typed and f = FieldDescriptorProto_norm, OF FieldDescriptorProto_typed_norm] map_option_same [where P = OneofDescriptorProto_typed and f = OneofDescriptorProto_norm, OF OneofDescriptorProto_typed_norm] map_same [where P = OneofDescriptorProto_typed and f = OneofDescriptorProto_norm, OF OneofDescriptorProto_typed_norm] map_option_same [where P = EnumDescriptorProto_typed and f = EnumDescriptorProto_norm, OF EnumDescriptorProto_typed_norm] map_same [where P = EnumDescriptorProto_typed and f = EnumDescriptorProto_norm, OF EnumDescriptorProto_typed_norm] map_option_same [where P = DescriptorProto_ExtensionRange_typed and f = DescriptorProto_ExtensionRange_norm, OF DescriptorProto_ExtensionRange_typed_norm] map_same [where P = DescriptorProto_ExtensionRange_typed and f = DescriptorProto_ExtensionRange_norm, OF DescriptorProto_ExtensionRange_typed_norm])
qed

context wire_laws
begin

lemma DescriptorProto_keeps:
  assumes "typed_decoder W valid k dec DescriptorProto_typed"
  shows "keeps W valid k DescriptorProto_typed (DescriptorProto_switch W dec)"
  unfolding DescriptorProto_switch_def
  by (rule keepsI, intro step_keeps_if step_keeps_None step_keeps_read step_keeps_packed)
    (auto simp: DescriptorProto_typed.simps DescriptorProto_update_defs store_def store_some_def push_def
      dest: number_types read_message_typed [OF assms] read_message_typed [OF DescriptorProto_ReservedRange_typed_decoder] read_message_typed [OF MessageOptions_typed_decoder] read_message_typed [OF FieldDescriptorProto_typed_decoder] read_message_typed [OF OneofDescriptorProto_typed_decoder] read_message_typed [OF EnumDescriptorProto_typed_decoder] read_message_typed [OF DescriptorProto_ExtensionRange_typed_decoder])

lemma DescriptorProto_typed_depth: "typed_decoder W valid d (decode_depth W (DescriptorProto_switch W) createBaseDescriptorProto d) DescriptorProto_typed"
proof (induction d)
  case 0
  then show ?case by (simp add: typed_decoder_def)
next
  case (Suc d)
  from decode_msg_keeps [OF DescriptorProto_good [OF DescriptorProto.depth_safe] DescriptorProto_keeps [OF Suc], where base = createBaseDescriptorProto]
  show ?case by (simp add: typed_decoder_def DescriptorProto_typed.simps createBaseDescriptorProto_def)
qed

lemma DescriptorProto_typed_decoder: "typed_decoder W valid k (DescriptorProto_decode W) DescriptorProto_typed"
  using DescriptorProto_typed_depth [unfolded typed_decoder_def, rule_format, OF _ lessI]
  by (auto simp: typed_decoder_def DescriptorProto_decode_def decode_rec_def input_reader_def simp del: decode_depth.simps)

end

section \<open>FileDescriptorProto\<close>

definition FileDescriptorProto_typed :: "FileDescriptorProto \<Rightarrow> bool" where
  "FileDescriptorProto_typed m \<longleftrightarrow>
     present (\<lambda>_. True) (FileDescriptorProto_name m) \<and>
     present (\<lambda>_. True) (FileDescriptorProto_package m) \<and>
     list_all int32_ok (FileDescriptorProto_publicDependency m) \<and>
     list_all int32_ok (FileDescriptorProto_weakDependency m) \<and>
     list_all DescriptorProto_typed (FileDescriptorProto_messageType m) \<and>
     list_all EnumDescriptorProto_typed (FileDescriptorProto_enumType m) \<and>
     list_all ServiceDescriptorProto_typed (FileDescriptorProto_service m) \<and>
     list_all FieldDescriptorProto_typed (FileDescriptorProto_extension m) \<and>
     pred_option FileOptions_typed (FileDescriptorProto_options m) \<and>
     pred_option SourceCodeInfo_typed (FileDescriptorProto_sourceCodeInfo m) \<and>
     present (\<lambda>_. True) (FileDescriptorProto_syntax m) \<and>
     present int32_ok (FileDescriptorProto_edition m)"

lemma FileDescriptorProto_typed_norm: "FileDescriptorProto_typed m \<Longrightarrow> FileDescriptorProto_norm m = m"
  by (cases m) (auto simp: FileDescriptorProto_typed_def FileDescriptorProto_norm_def present_iff nullish_Some map_option_same [where P = SourceCodeInfo_typed and f = SourceCodeInfo_norm, OF SourceCodeInfo_typed_norm] map_same [where P = SourceCodeInfo_typed and f = SourceCodeInfo_norm, OF SourceCodeInfo_typed_norm] map_option_same [where P = FileOptions_typed and f = FileOptions_norm, OF FileOptions_typed_norm] map_same [where P = FileOptions_typed and f = FileOptions_norm, OF FileOptions_typed_norm] map_option_same [where P = FieldDescriptorProto_typed and f = FieldDescriptorProto_norm, OF FieldDescriptorProto_typed_norm] map_same [where P = FieldDescriptorProto_typed and f = FieldDescriptorProto_norm, OF FieldDescriptorProto_typed_norm] map_option_same [where P = EnumDescriptorProto_typed and f = EnumDescriptorProto_norm, OF EnumDescriptorProto_typed_norm] map_same [where P = EnumDescriptorProto_typed and f = EnumDescriptorProto_norm, OF EnumDescriptorProto_typed_norm] map_option_same [where P = ServiceDescriptorProto_typed and f = ServiceDescriptorProto_norm, OF ServiceDescriptorProto_typed_norm] map_same [where P = ServiceDescriptorProto_typed and f = ServiceDescriptorProto_norm, OF ServiceDescriptorProto_typed_norm] map_option_same [where P = DescriptorProto_typed and f = DescriptorProto_norm, OF DescriptorProto_typed_norm] map_same [where P = DescriptorProto_typed and f = DescriptorProto_norm, OF DescriptorProto_typed_norm])

context wire_laws
begin

lemma FileDescriptorProto_keeps: "keeps W valid k FileDescriptorProto_typed (FileDescriptorProto_switch W)"
  unfolding FileDescriptorProto_switch_def
  by (rule keepsI, intro step_keeps_if step_keeps_None step_keeps_read step_keeps_packed)
    (auto simp: FileDescriptorProto_typed_def store_def store_some_def push_def dest: number_types read_message_typed [OF SourceCodeInfo_typed_decoder] read_message_typed [OF FileOptions_typed_decoder] read_message_typed [OF FieldDescriptorProto_typed_decoder] read_message_typed [OF EnumDescriptorProto_typed_decoder] read_message_typed [OF ServiceDescriptorProto_typed_decoder] read_message_typed [OF DescriptorProto_typed_decoder])

lemma FileDescriptorProto_typed_decoder: "typed_decoder W valid k (FileDescriptorProto_decode W) FileDescriptorProto_typed"
  unfolding FileDescriptorProto_decode_def
  by (rule typed_decoder_less, rule decode_msg_keeps [OF FileDescriptorProto_good FileDescriptorProto_keeps])
    (simp add: FileDescriptorProto_typed_def createBaseFileDescriptorProto_def)

end

section \<open>FileDescriptorSet\<close>

definition FileDescriptorSet_typed :: "FileDescriptorSet \<Rightarrow> bool" where
  "FileDescriptorSet_typed m \<longleftrightarrow>
     list_all FileDescriptorProto_typed (FileDescriptorSet_file m)"

lemma FileDescriptorSet_typed_norm: "FileDescriptorSet_typed m \<Longrightarrow> FileDescriptorSet_norm m = m"
  by (cases m) (auto simp: FileDescriptorSet_typed_def FileDescriptorSet_norm_def present_iff nullish_Some map_option_same [where P = FileDescriptorProto_typed and f = FileDescriptorProto_norm, OF FileDescriptorProto_typed_norm] map_same [where P = FileDescriptorProto_typed and f = FileDescriptorProto_norm, OF FileDescriptorProto_typed_norm])

context wire_laws
begin

lemma FileDescriptorSet_keeps: "keeps W valid k FileDescriptorSet_typed (FileDescriptorSet_switch W)"
  unfolding FileDescriptorSet_switch_def
  by (rule keepsI, intro step_keeps_if step_keeps_None step_keeps_read step_keeps_packed)
    (auto simp: FileDescriptorSet_typed_def store_def store_some_def push_def dest: number_types read_message_typed [OF FileDescriptorProto_typed_decoder])

lemma FileDescriptorSet_typed_decoder: "typed_decoder W valid k (FileDescriptorSet_decode W) FileDescriptorSet_typed"
  unfolding FileDescriptorSet_decode_def
  by (rule typed_decoder_less, rule decode_msg_keeps [OF FileDescriptorSet_good FileDescriptorSet_keeps])
    (simp add: FileDescriptorSet_typed_def createBaseFileDescriptorSet_def)

end

end
