(* ===== verification/Wire_Reference.thy ===== *)
theory Wire_Reference
  imports Codec
begin

text \<open>
  An implementation of the \<open>wire\<close> interface, written from the wire-format documentation,
  and the proof that it satisfies \<open>wire_laws\<close>. It models no file of the repository: it
  shows that the laws can hold together, and the concrete encodings of the witnesses are
  computed with it.

  A writer is the list of its open buffers. A reader is the number of bytes it was made
  with and the bytes it has not read. Text outside U+0000..U+00FF has no representation in
  the model's strings; this implementation reads such bytes as question marks.
\<close>

unbundle bit_operations_syntax

section \<open>Writer\<close>

type_synonym pb_writer = "bytes list"

fun pb_append :: "bytes \<Rightarrow> pb_writer stmt" where
  "pb_append b [] = Inl (Error ''no buffer'')"
| "pb_append b (c # cs) = Inr ((c @ b) # cs)"

definition pb_uint32 :: "u32 \<Rightarrow> pb_writer stmt" where
  "pb_uint32 n = pb_append (varint (unat n))"

fun pb_int32 :: "jsnum \<Rightarrow> pb_writer stmt" where
  "pb_int32 (NInt i) w =
     (if - (2 ^ 31) \<le> i \<and> i < 2 ^ 31 then pb_append (varint_int i) w else Inl (Error ''invalid int32''))"
| "pb_int32 _ w = Inl (Error ''invalid int32'')"

fun pb_int64 :: "int \<Rightarrow> int \<Rightarrow> jsnum \<Rightarrow> pb_writer stmt" where
  "pb_int64 lo hi (NInt i) w =
     (if lo \<le> i \<and> i < hi then pb_append (varint_int i) w else Inl (Error ''invalid int64''))"
| "pb_int64 lo hi _ w = Inl (Error ''invalid int64'')"

definition pb_delimited :: "bytes \<Rightarrow> pb_writer stmt" where
  "pb_delimited b w =
     (if length b < 2 ^ 32 then pb_append (delimited b) w else Inl (Error ''invalid uint32''))"

fun pb_fork :: "pb_writer stmt" where
  "pb_fork w = Inr ([] # w)"

fun pb_join :: "pb_writer stmt" where
  "pb_join (b # cs) = (if cs = [] then Inl (Error ''invalid state, fork stack empty'') else pb_delimited b cs)"
| "pb_join [] = Inl (Error ''invalid state, fork stack empty'')"

section \<open>Reader\<close>

record pb_reader =
  pb_len :: nat
  pb_rest :: bytes

fun rd_varint :: "nat \<Rightarrow> bytes \<Rightarrow> (nat \<times> bytes) res" where
  "rd_varint 0 bs = Inl (Error ''invalid varint'')"
| "rd_varint (Suc k) [] = Inl (RangeError ''premature EOF'')"
| "rd_varint (Suc k) (b # bs) =
     (if unat b < 128 then Inr (unat b, bs)
      else rbind (rd_varint k bs) (\<lambda>(v, bs'). Inr (unat b - 128 + 128 * v, bs')))"

definition rd_fixed :: "nat \<Rightarrow> bytes \<Rightarrow> (bytes \<times> bytes) res" where
  "rd_fixed n bs = (if n \<le> length bs then Inr (take n bs, drop n bs) else Inl (RangeError ''premature EOF''))"

definition rd_delimited :: "bytes \<Rightarrow> (bytes \<times> bytes) res" where
  "rd_delimited bs = rbind (rd_varint 10 bs) (\<lambda>(n, bs'). rd_fixed (n mod 2 ^ 32) bs')"

fun rd_chars :: "bytes \<Rightarrow> string" where
  "rd_chars [] = []"
| "rd_chars [b] = (if unat b < 128 then [char_of (unat b)] else ''?'')"
| "rd_chars (b # c # cs) =
     (if unat b < 128 then char_of (unat b) # rd_chars (c # cs)
      else if unat b div 4 = 48 \<and> unat c div 64 = 2
        then char_of ((unat b - 192) * 64 + (unat c - 128)) # rd_chars cs
      else CHR ''?'' # rd_chars (c # cs))"

definition signed32 :: "nat \<Rightarrow> int" where
  "signed32 v = (let u = int v mod 2 ^ 32 in if u < 2 ^ 31 then u else u - 2 ^ 32)"

definition signed64 :: "nat \<Rightarrow> int" where
  "signed64 v = (let u = int v mod 2 ^ 64 in if u < 2 ^ 63 then u else u - 2 ^ 64)"

definition pb_read :: "(bytes \<Rightarrow> ('v \<times> bytes) res) \<Rightarrow> ('v \<Rightarrow> 'a) \<Rightarrow> pb_reader \<Rightarrow> ('a \<times> pb_reader) res" where
  "pb_read rd f r = rbind (rd (pb_rest r)) (\<lambda>(v, bs). Inr (f v, r\<lparr>pb_rest := bs\<rparr>))"

lemma rd_varint_shorter: "rd_varint k bs = Inr (v, bs') \<Longrightarrow> length bs' < length bs"
  by (induction k bs arbitrary: v bs' rule: rd_varint.induct)
    (fastforce simp: rbind_eq_Inr split: if_splits)+

text \<open>
  Stepping over a field of a wire type. A group is skipped field by field up to its end tag;
  the length test only serves the termination proof, \<open>pb_skip_shorter\<close> shows it is true.
\<close>

function pb_skip :: "nat \<Rightarrow> bytes \<Rightarrow> bytes res" where
  "pb_skip wt bs =
     (if wt = 0 then rbind (rd_varint 10 bs) (\<lambda>(v, bs'). Inr bs')
      else if wt = 1 then rbind (rd_fixed 8 bs) (\<lambda>(v, bs'). Inr bs')
      else if wt = 2 then rbind (rd_delimited bs) (\<lambda>(v, bs'). Inr bs')
      else if wt = 3 then
        rbind (rd_varint 10 bs) (\<lambda>(tag, bs1).
          if tag mod 8 = 4 then Inr bs1
          else rbind (pb_skip (tag mod 8) bs1) (\<lambda>bs2.
            if length bs2 \<le> length bs1 then pb_skip 3 bs2 else Inl (Error ''not shorter'')))
      else if wt = 5 then rbind (rd_fixed 4 bs) (\<lambda>(v, bs'). Inr bs')
      else Inl (Error ''cant skip wire type''))"
  by pat_completeness auto
termination
  by (relation "measure (\<lambda>(wt, bs). length bs)") (auto dest: rd_varint_shorter)

declare pb_skip.simps [simp del]

definition pb_skip_reader :: "u32 \<Rightarrow> pb_reader \<Rightarrow> pb_reader res" where
  "pb_skip_reader wt r = rbind (pb_skip (unat wt) (pb_rest r)) (\<lambda>bs. Inr (r\<lparr>pb_rest := bs\<rparr>))"

definition pb_wire :: "(pb_writer, pb_reader) wire" where
  "pb_wire = \<lparr>
     newWriter = [[]],
     wUint32 = pb_uint32,
     wInt32 = pb_int32,
     wString = (\<lambda>s. pb_delimited (utf8 s)),
     wBool = (\<lambda>b. pb_append [if b then 1 else 0]),
     wUint64 = pb_int64 0 (2 ^ 64),
     wInt64 = pb_int64 (- (2 ^ 63)) (2 ^ 63),
     wDouble = (\<lambda>x. pb_append (double_payload x)),
     wBytes = pb_delimited,
     wFork = pb_fork,
     wJoin = pb_join,
     wFinish = (\<lambda>w. concat (rev w)),
     newReader = (\<lambda>bs. \<lparr>pb_len = length bs, pb_rest = bs\<rparr>),
     rPos = (\<lambda>r. pb_len r - length (pb_rest r)),
     rLen = pb_len,
     rUint32 = pb_read (rd_varint 10) word_of_nat,
     rInt32 = pb_read (rd_varint 10) (\<lambda>v. NInt (signed32 v)),
     rString = pb_read rd_delimited rd_chars,
     rBool = pb_read (rd_varint 10) (\<lambda>v. v mod 2 ^ 64 \<noteq> 0),
     rUint64 = pb_read (rd_varint 10) (\<lambda>v. int v mod 2 ^ 64),
     rInt64 = pb_read (rd_varint 10) signed64,
     rDouble = pb_read (rd_fixed 8) (\<lambda>b. double_value (le_value b)),
     rBytes = pb_read rd_delimited (\<lambda>b. b),
     rSkip = pb_skip_reader\<rparr>"

lemma pb_wire_simps [simp]:
  "newWriter pb_wire = [[]]" "wUint32 pb_wire = pb_uint32" "wInt32 pb_wire = pb_int32"
  "wString pb_wire = (\<lambda>s. pb_delimited (utf8 s))"
  "wBool pb_wire = (\<lambda>b. pb_append [if b then 1 else 0])"
  "wUint64 pb_wire = pb_int64 0 (2 ^ 64)" "wInt64 pb_wire = pb_int64 (- (2 ^ 63)) (2 ^ 63)"
  "wDouble pb_wire = (\<lambda>x. pb_append (double_payload x))" "wBytes pb_wire = pb_delimited"
  "wFork pb_wire = pb_fork" "wJoin pb_wire = pb_join" "wFinish pb_wire = (\<lambda>w. concat (rev w))"
  "newReader pb_wire bs = \<lparr>pb_len = length bs, pb_rest = bs\<rparr>"
  "rPos pb_wire r = pb_len r - length (pb_rest r)" "rLen pb_wire r = pb_len r"
  "rUint32 pb_wire = pb_read (rd_varint 10) word_of_nat"
  "rInt32 pb_wire = pb_read (rd_varint 10) (\<lambda>v. NInt (signed32 v))"
  "rString pb_wire = pb_read rd_delimited rd_chars"
  "rBool pb_wire = pb_read (rd_varint 10) (\<lambda>v. v mod 2 ^ 64 \<noteq> 0)"
  "rUint64 pb_wire = pb_read (rd_varint 10) (\<lambda>v. int v mod 2 ^ 64)"
  "rInt64 pb_wire = pb_read (rd_varint 10) signed64"
  "rDouble pb_wire = pb_read (rd_fixed 8) (\<lambda>b. double_value (le_value b))"
  "rBytes pb_wire = pb_read rd_delimited (\<lambda>b. b)"
  "rSkip pb_wire = pb_skip_reader"
  by (simp_all add: pb_wire_def)

definition pb_valid :: "pb_reader \<Rightarrow> bool" where
  "pb_valid r \<longleftrightarrow> length (pb_rest r) \<le> pb_len r"

section \<open>It satisfies the contract\<close>

lemma rd_varint_Suc: "n < 128 ^ Suc k \<Longrightarrow> rd_varint (Suc k) (varint n @ t) = Inr (n, t)"
proof (induction k arbitrary: n)
  case 0
  then show ?case by (simp add: varint.simps [of n] unat_of_nat)
next
  case (Suc k)
  show ?case
  proof (cases "n < 128")
    case True
    then show ?thesis by (simp add: varint.simps [of n] unat_of_nat)
  next
    case False
    have "n div 128 < 128 ^ Suc k" using Suc.prems by (simp add: div_less_iff_less_mult mult.commute)
    from Suc.IH [OF this] False show ?thesis
      by (simp add: varint.simps [of n] unat_of_nat del: of_nat_add)
  qed
qed

lemma rd_varint_varint: "n < 2 ^ 70 \<Longrightarrow> rd_varint 10 (varint n @ t) = Inr (n, t)"
  using rd_varint_Suc [of n 9 t] by simp

lemma rd_varint_no_Diverge: "rd_varint k bs \<noteq> Inl Diverge"
  by (induction k bs rule: rd_varint.induct) (auto simp: rbind_eq_Inl)

lemma rd_fixed_append: "length b = n \<Longrightarrow> rd_fixed n (b @ t) = Inr (b, t)"
  by (simp add: rd_fixed_def)

lemma rd_delimited_delimited:
  assumes "length b < 2 ^ 32"
  shows "rd_delimited (delimited b @ t) = Inr (b, t)"
proof -
  have "length b < 2 ^ 70" using assms by simp
  with assms show ?thesis
    by (simp add: rd_delimited_def delimited_def rd_varint_varint rd_fixed_append)
qed

lemma rd_delimited_shorter: "rd_delimited bs = Inr (v, bs') \<Longrightarrow> length bs' < length bs"
  by (auto simp: rd_delimited_def rd_fixed_def rbind_eq_Inr dest!: rd_varint_shorter split: if_splits)

lemma rd_delimited_no_Diverge: "rd_delimited bs \<noteq> Inl Diverge"
  by (auto simp: rd_delimited_def rd_fixed_def rbind_eq_Inl rd_varint_no_Diverge split: if_splits)

lemma rd_chars_one: "unat b < 128 \<Longrightarrow> rd_chars (b # bs) = char_of (unat b) # rd_chars bs"
  by (cases bs) simp_all

lemma rd_chars_utf8: "rd_chars (utf8 s) = s"
proof (induction s)
  case Nil
  then show ?case by simp
next
  case (Cons c s)
  let ?n = "of_char c :: nat"
  have n: "?n < 256" by (simp add: nat_of_char_less_256)
  have utf8: "utf8 (c # s) = utf8_char c @ utf8 s" by (simp add: utf8_def)
  show ?case
  proof (cases "?n < 128")
    case True
    then have "unat (word_of_nat ?n :: 8 word) = ?n" by (simp add: unat_of_nat)
    with True Cons show ?thesis by (simp add: utf8 utf8_char_def rd_chars_one)
  next
    case False
    have 1: "unat (word_of_nat (192 + ?n div 64) :: 8 word) = 192 + ?n div 64"
      and 2: "unat (word_of_nat (128 + ?n mod 64) :: 8 word) = 128 + ?n mod 64"
      using n less_mult_imp_div_less [of ?n 4 64] by (simp_all add: unat_of_nat del: of_nat_add)
    have "?n div 64 < 4" using n by (intro less_mult_imp_div_less) simp
    then have "(192 + ?n div 64) div 4 = 48" by linarith
    moreover have "(128 + ?n mod 64) div 64 = 2" by simp
    ultimately have "(192 + ?n div 64) div 4 = 48" "(128 + ?n mod 64) div 64 = 2" .
    with False Cons 1 2 show ?thesis by (simp add: utf8 utf8_char_def Let_def del: of_nat_add)
  qed
qed

lemma signed32_varint_int:
  assumes "- (2 ^ 31) \<le> i" and "i < 2 ^ 31"
  shows "signed32 (nat (i mod 2 ^ 64)) = i"
proof -
  have "int (nat (i mod 2 ^ 64)) mod 2 ^ 32 = i mod 2 ^ 32"
    by (simp add: mod_mod_cancel)
  moreover have "i mod 2 ^ 32 = (if i < 0 then i + 2 ^ 32 else i)"
  proof (cases "i < 0")
    case True
    have "i mod 2 ^ 32 = (i + 2 ^ 32) mod 2 ^ 32" by simp
    also have "\<dots> = i + 2 ^ 32" using assms True by (intro mod_pos_pos_trivial) auto
    finally show ?thesis using True by simp
  next
    case False
    with assms show ?thesis by (simp add: mod_pos_pos_trivial)
  qed
  ultimately show ?thesis using assms by (simp add: signed32_def Let_def)
qed

lemma signed64_varint_int:
  assumes "- (2 ^ 63) \<le> i" and "i < 2 ^ 63"
  shows "signed64 (nat (i mod 2 ^ 64)) = i"
proof (cases "i < 0")
  case True
  have "i mod 2 ^ 64 = (i + 2 ^ 64) mod 2 ^ 64" by simp
  also have "\<dots> = i + 2 ^ 64" using assms True by (intro mod_pos_pos_trivial) auto
  finally show ?thesis using assms True by (simp add: signed64_def Let_def)
next
  case False
  with assms show ?thesis by (simp add: signed64_def Let_def mod_pos_pos_trivial)
qed

lemma signed_range:
  "- (2 ^ 31) \<le> signed32 v \<and> signed32 v < 2 ^ 31" "- (2 ^ 63) \<le> signed64 v \<and> signed64 v < 2 ^ 63"
proof -
  have "0 \<le> int v mod 2 ^ 32 \<and> int v mod 2 ^ 32 < 2 ^ 32" "0 \<le> int v mod 2 ^ 64 \<and> int v mod 2 ^ 64 < 2 ^ 64"
    by simp_all
  then show "- (2 ^ 31) \<le> signed32 v \<and> signed32 v < 2 ^ 31" and "- (2 ^ 63) \<le> signed64 v \<and> signed64 v < 2 ^ 63"
    by (auto simp: signed32_def signed64_def Let_def)
qed

lemma pb_skip_group:
  "pb_skip 3 bs =
     rbind (rd_varint 10 bs) (\<lambda>(tag, bs1).
       if tag mod 8 = 4 then Inr bs1
       else rbind (pb_skip (tag mod 8) bs1) (\<lambda>bs2.
         if length bs2 \<le> length bs1 then pb_skip 3 bs2 else Inl (Error ''not shorter'')))"
  by (subst pb_skip.simps) simp

lemma pb_skip_shorter: "pb_skip wt bs = Inr bs' \<Longrightarrow> length bs' < length bs"
proof (induction wt bs arbitrary: bs' rule: pb_skip.induct)
  case (1 wt bs)
  show ?case
  proof (cases "wt = 3")
    case False
    with "1.prems" show ?thesis
      by (auto simp: pb_skip.simps [of wt] rbind_eq_Inr rd_fixed_def
          dest: rd_varint_shorter rd_delimited_shorter split: if_splits)
  next
    case True
    with "1.prems" have "pb_skip 3 bs = Inr bs'" by simp
    from trans [OF pb_skip_group [symmetric] this]
    obtain tag bs1 where t: "rd_varint 10 bs = Inr (tag, bs1)"
      and res: "(if tag mod 8 = 4 then Inr bs1
          else rbind (pb_skip (tag mod 8) bs1) (\<lambda>bs2.
            if length bs2 \<le> length bs1 then pb_skip 3 bs2 else Inl (Error ''not shorter''))) = Inr bs'"
      by (auto simp: rbind_eq_Inr)
    have l1: "length bs1 < length bs" using t by (rule rd_varint_shorter)
    show ?thesis
    proof (cases "tag mod 8 = 4")
      case True
      with res l1 show ?thesis by simp
    next
      case False
      with res obtain bs2 where s: "pb_skip (tag mod 8) bs1 = Inr bs2" and le: "length bs2 \<le> length bs1"
        and fin: "pb_skip 3 bs2 = Inr bs'"
        by (auto simp: rbind_eq_Inr split: if_splits)
      from "1.IH"(2) [OF _ _ _ \<open>wt = 3\<close> t _ False s le fin] \<open>wt = 3\<close> le l1 show ?thesis by simp
    qed
  qed
qed

lemma pb_skip_no_Diverge: "pb_skip wt bs \<noteq> Inl Diverge"
proof (induction wt bs rule: pb_skip.induct)
  case (1 wt bs)
  show ?case
  proof
    assume d: "pb_skip wt bs = Inl Diverge"
    then have "wt = 3"
      by (auto simp: pb_skip.simps [of wt] rbind_eq_Inl rd_fixed_def rd_varint_no_Diverge
          rd_delimited_no_Diverge split: if_splits prod.splits)
    with d have "pb_skip 3 bs = Inl Diverge" by simp
    from trans [OF pb_skip_group [symmetric] this]
    obtain tag bs1 where t: "rd_varint 10 bs = Inr (tag, bs1)" and n: "tag mod 8 \<noteq> 4"
      and res: "rbind (pb_skip (tag mod 8) bs1) (\<lambda>bs2.
            if length bs2 \<le> length bs1 then pb_skip 3 bs2 else Inl (Error ''not shorter'')) = Inl Diverge"
      by (auto simp: rbind_eq_Inl rd_varint_no_Diverge split: if_splits)
    show False
    proof (cases "pb_skip (tag mod 8) bs1")
      case (Inl e)
      with res "1.IH"(1) [OF _ _ _ \<open>wt = 3\<close> t _ n] \<open>wt = 3\<close> show False by auto
    next
      case (Inr bs2)
      with res have le: "length bs2 \<le> length bs1" and d2: "pb_skip 3 bs2 = Inl Diverge"
        by (auto split: if_splits)
      from "1.IH"(2) [OF _ _ _ \<open>wt = 3\<close> t _ n Inr le] d2 \<open>wt = 3\<close> show False by simp
    qed
  qed
qed

lemma pb_skip_skippable:
  assumes "skippable wt p"
  shows "pb_skip (unat wt) (p @ t) = Inr t"
proof -
  have "n < 2 ^ 64 \<Longrightarrow> n < 2 ^ 70" for n :: nat by simp
  with assms show ?thesis
    by (auto simp: skippable_def pb_skip.simps rd_varint_varint rd_fixed_append rd_delimited_delimited)
qed

lemma pb_read_safe:
  assumes "pb_valid r" and "rd (pb_rest r) \<noteq> Inl Diverge"
    and "\<And>v bs. rd (pb_rest r) = Inr (v, bs) \<Longrightarrow> length bs < length (pb_rest r)"
  shows "safe_read pb_wire pb_valid r (pb_read rd f r)"
proof (cases "rd (pb_rest r)")
  case (Inl e)
  with assms(2) show ?thesis by (simp add: pb_read_def safe_read_Inl)
next
  case (Inr x)
  with assms(1) assms(3) [of "fst x" "snd x"] show ?thesis
    by (cases x) (simp add: pb_read_def safe_read_Inr forward_def pb_valid_def)
qed

lemma pb_reads_as:
  assumes "\<And>t. rd (b @ t) = Inr (v, t)"
  shows "reads_as pb_wire pb_valid pb_rest k (pb_read rd f) b (f v)"
  by (auto simp: reads_as_def advances_def pb_read_def assms pb_valid_def)

lemma pb_appends:
  "appends (\<lambda>w. w) (pb_append b) b"
  "- (2 ^ 31) \<le> i \<Longrightarrow> i < 2 ^ 31 \<Longrightarrow> appends (\<lambda>w. w) (pb_int32 (NInt i)) (varint_int i)"
  "length b < 2 ^ 32 \<Longrightarrow> appends (\<lambda>w. w) (pb_delimited b) (delimited b)"
  by (simp_all add: appends_def pb_delimited_def)

lemma pb_join_delimited:
  "length b < 2 ^ 32 \<Longrightarrow> pb_delimited b (c # cs) = Inr ((c @ delimited b) # cs)"
  by (simp add: pb_delimited_def)

lemma pb_new_valid: "pb_valid \<lparr>pb_len = length bs, pb_rest = bs\<rparr>"
  by (simp add: pb_valid_def)

lemma pb_pos_rest: "pb_valid r \<Longrightarrow> pb_len r - length (pb_rest r) + length (pb_rest r) = pb_len r"
  by (simp add: pb_valid_def)

lemma pb_varint_safe: "pb_valid r \<Longrightarrow> safe_read pb_wire pb_valid r (pb_read (rd_varint 10) f r)"
  by (rule pb_read_safe) (simp_all add: rd_varint_no_Diverge rd_varint_shorter)

lemma pb_delimited_safe: "pb_valid r \<Longrightarrow> safe_read pb_wire pb_valid r (pb_read rd_delimited f r)"
  by (rule pb_read_safe) (simp_all add: rd_delimited_no_Diverge rd_delimited_shorter)

lemma pb_varint_progress:
  assumes "pb_valid r" and "pb_read (rd_varint 10) f r = Inr (n, r')"
  shows "rPos pb_wire r < rPos pb_wire r'"
  using assms by (auto simp: pb_read_def pb_valid_def rbind_eq_Inr dest!: rd_varint_shorter)

lemma pb_double_safe: "pb_valid r \<Longrightarrow> safe_read pb_wire pb_valid r (pb_read (rd_fixed 8) f r)"
  by (rule pb_read_safe) (auto simp: rd_fixed_def split: if_splits)

lemma pb_read_range: "pb_read rd f r = Inr (x, r') \<Longrightarrow> \<exists>v. x = f v"
  by (auto simp: pb_read_def rbind_eq_Inr)

lemma pb_int64_reads:
  "0 \<le> i \<Longrightarrow> i < 2 ^ 64 \<Longrightarrow>
   reads_as pb_wire pb_valid pb_rest k (pb_read (rd_varint 10) (\<lambda>v. int v mod 2 ^ 64)) (varint_int i) i"
  "- (2 ^ 63) \<le> j \<Longrightarrow> j < 2 ^ 63 \<Longrightarrow>
   reads_as pb_wire pb_valid pb_rest k (pb_read (rd_varint 10) signed64) (varint_int j) j"
proof -
  have bound: "nat (i mod 2 ^ 64) < 2 ^ 70" for i :: int by simp
  then have reads: "rd_varint 10 (varint_int i @ t) = Inr (nat (i mod 2 ^ 64), t)" for i t
    by (simp add: varint_int_def rd_varint_varint)
  show "reads_as pb_wire pb_valid pb_rest k (pb_read (rd_varint 10) (\<lambda>v. int v mod 2 ^ 64)) (varint_int i) i"
    if "0 \<le> i" "i < 2 ^ 64"
    using that pb_reads_as [of "rd_varint 10" "varint_int i" "nat (i mod 2 ^ 64)" k "\<lambda>v. int v mod 2 ^ 64"] reads
    by simp
  show "reads_as pb_wire pb_valid pb_rest k (pb_read (rd_varint 10) signed64) (varint_int j) j"
    if "- (2 ^ 63) \<le> j" "j < 2 ^ 63"
    using pb_reads_as [of "rd_varint 10" "varint_int j" "nat (j mod 2 ^ 64)" k signed64] reads
      signed64_varint_int [OF that] by simp
qed

lemma pb_double_reads:
  assumes "double_ok x"
  shows "reads_as pb_wire pb_valid pb_rest k (pb_read (rd_fixed 8) (\<lambda>b. double_value (le_value b))) (double_payload x) x"
  using pb_reads_as [of "rd_fixed 8" "double_payload x" "double_payload x" k "\<lambda>b. double_value (le_value b)"] assms
  by (simp add: rd_fixed_append double_payload_value double_ok_def)

lemma pb_bool_reads:
  "reads_as pb_wire pb_valid pb_rest k (pb_read (rd_varint 10) (\<lambda>v. v mod 2 ^ 64 \<noteq> 0)) [if y then 1 else 0] y"
proof -
  have "[if y then 1 else 0] = varint (if y then 1 else 0)" by (simp add: varint.simps)
  moreover have "(if y then 1 else 0) mod 2 ^ 64 \<noteq> (0::nat) \<longleftrightarrow> y" by simp
  ultimately show ?thesis
    using pb_reads_as [of "rd_varint 10" "varint (if y then 1 else 0)" "if y then 1 else 0" k
        "\<lambda>v. v mod 2 ^ 64 \<noteq> 0"]
    by (simp add: rd_varint_varint)
qed

interpretation pb: wire_laws pb_wire "\<lambda>w. w" pb_valid pb_rest
proof unfold_locales
  show "reads_as pb_wire pb_valid pb_rest k (rUint32 pb_wire) (varint (unat n)) n" for k n
  proof -
    have "unat n < 2 ^ 32" using unsigned_less [of n] by simp
    then have "unat n < 2 ^ 70" by simp
    then show ?thesis
      using pb_reads_as [of "rd_varint 10" "varint (unat n)" "unat n" k "word_of_nat :: nat \<Rightarrow> u32"]
      by (simp add: rd_varint_varint)
  qed
next
  fix i :: int and k
  assume i: "- (2 ^ 31) \<le> i" "i < 2 ^ 31"
  have "nat (i mod 2 ^ 64) < 2 ^ 70" by simp
  then show "reads_as pb_wire pb_valid pb_rest k (rInt32 pb_wire) (varint_int i) (NInt i)"
    using pb_reads_as [of "rd_varint 10" "varint_int i" "nat (i mod 2 ^ 64)" k "\<lambda>v. NInt (signed32 v)"]
    unfolding signed32_varint_int [OF i]
    by (simp add: rd_varint_varint varint_int_def)
next
  fix s k assume "length (utf8 s) < 2 ^ 32"
  then show "reads_as pb_wire pb_valid pb_rest k (rString pb_wire) (delimited (utf8 s)) s"
    using pb_reads_as [of rd_delimited "delimited (utf8 s)" "utf8 s" k rd_chars]
    by (simp add: rd_delimited_delimited rd_chars_utf8)
next
  fix wt p k assume "skippable wt p"
  then show "reads_as pb_wire pb_valid pb_rest k (\<lambda>r. rbind (rSkip pb_wire wt r) (\<lambda>r'. Inr ((), r'))) p ()"
    by (auto simp: reads_as_def advances_def pb_skip_reader_def pb_skip_skippable pb_valid_def)
next
  fix r wt assume "pb_valid r"
  then show "safe_read pb_wire pb_valid r (rbind (rSkip pb_wire wt r) (\<lambda>r'. Inr ((), r')))"
    using pb_skip_shorter [of "unat wt" "pb_rest r"] pb_skip_no_Diverge [of "unat wt" "pb_rest r"]
    by (cases "pb_skip (unat wt) (pb_rest r)")
      (force simp: pb_skip_reader_def safe_read_Inr safe_read_Inl forward_def pb_valid_def)+
next
  show "reads_as pb_wire pb_valid pb_rest k (rBool pb_wire) [if y then 1 else 0] y" for k y
    using pb_bool_reads by simp
next
  fix r r' i assume "rUint64 pb_wire r = Inr (i, r')"
  then show "0 \<le> i \<and> i < 2 ^ 64" by (auto dest: pb_read_range)
next
  fix r r' i assume "rInt64 pb_wire r = Inr (i, r')"
  then show "- (2 ^ 63) \<le> i \<and> i < 2 ^ 63" using signed_range(2) by (auto dest!: pb_read_range)
next
  fix r r' x assume "rInt32 pb_wire r = Inr (x, r')"
  then show "int32_ok x" using signed_range(1) by (auto dest!: pb_read_range)
next
  fix k b assume "length (b :: bytes) < 2 ^ 32"
  then show "reads_as pb_wire pb_valid pb_rest k (rBytes pb_wire) (delimited b) b"
    using pb_reads_as [of rd_delimited "delimited b" b k "\<lambda>b. b"] by (simp add: rd_delimited_delimited)
next
  fix i :: int assume "- (2 ^ 53) < i" and "i < 2 ^ 53"
  then show "appends (\<lambda>w. w) (wInt64 pb_wire (NInt i)) (varint_int i)"
    by (simp add: appends_def)
next
  fix i :: int assume "0 \<le> i" and "i < 2 ^ 53"
  then show "appends (\<lambda>w. w) (wUint64 pb_wire (NInt i)) (varint_int i)"
    by (simp add: appends_def)
qed (simp_all add: pb_uint32_def pb_double_safe pb_int64_reads [simplified] pb_double_reads pb_appends pb_varint_safe pb_delimited_safe pb_join_delimited
      pb_new_valid pb_varint_progress [simplified] pb_pos_rest)

end
