(* ===== verification/Descriptor_Laws.thy ===== *)
theory Descriptor_Laws
  imports Descriptor_Stability Descriptor_Types Wire_Reference
begin

text \<open>
  The facts about sets of file descriptors and about uninterpreted options that the properties
  rest on, for every wire library that keeps \<open>wire_laws\<close>, and a small set of descriptors to
  apply them to.
\<close>

unbundle bit_operations_syntax

section \<open>Sets of file descriptors\<close>

context wire_laws
begin

lemma FileDescriptorSet_rewrites:
  assumes "FileDescriptorSet_fits m"
  shows "\<exists>w r w'. FileDescriptorSet_encode W m (newWriter W) = Inr w \<and> wFinish W w = FileDescriptorSet_bytes m \<and>
    FileDescriptorSet_decode W (Bytes (wFinish W w)) None = Inr (FileDescriptorSet_norm m, r) \<and>
    FileDescriptorSet_encode W (FileDescriptorSet_norm m) (newWriter W) = Inr w' \<and> wFinish W w' = wFinish W w"
proof -
  from FileDescriptorSet.roundtrip [OF assms, folded FileDescriptorSet_decode_def] obtain w r
    where w: "FileDescriptorSet_encode W m (newWriter W) = Inr w" "wFinish W w = FileDescriptorSet_bytes m"
      "FileDescriptorSet_decode W (Bytes (wFinish W w)) None = Inr (FileDescriptorSet_norm m, r)" by blast
  from FileDescriptorSet.encode_new [OF FileDescriptorSet_fits_norm [OF assms]] obtain w'
    where "FileDescriptorSet_encode W (FileDescriptorSet_norm m) (newWriter W) = Inr w'"
      "wFinish W w' = FileDescriptorSet_bytes m" by (auto simp: FileDescriptorSet_bytes_norm)
  with w show ?thesis by metis
qed

lemma FileDescriptorSet_typed_law:
  "FileDescriptorSet_decode W (Bytes bs) len = Inr (m, r) \<Longrightarrow> FileDescriptorSet_typed m"
  using typed_new [OF FileDescriptorSet_typed_decoder]
  by (simp add: FileDescriptorSet_decode_def FileDescriptorSet.dec_bytes)

lemma FileDescriptorSet_concat_law:
  assumes "FileDescriptorSet_fits a" and "FileDescriptorSet_fits b"
  shows "\<exists>m r. FileDescriptorSet_decode W (Bytes (FileDescriptorSet_bytes a @ FileDescriptorSet_bytes b)) None = Inr (m, r) \<and>
    FileDescriptorSet_file m = FileDescriptorSet_file (FileDescriptorSet_norm a) @ FileDescriptorSet_file (FileDescriptorSet_norm b)"
  using FileDescriptorSet.decode_concat [OF assms, folded FileDescriptorSet_decode_def]
  by (force simp: FileDescriptorSet_merge_def FileDescriptorSet_norm_def)

lemma FileDescriptorSet_create_law:
  assumes "FileDescriptorSet_fits (FileDescriptorSet_create base)"
  shows "\<exists>w r. FileDescriptorSet_encode W (FileDescriptorSet_create base) (newWriter W) = Inr w \<and>
    FileDescriptorSet_decode W (Bytes (wFinish W w)) None = Inr (FileDescriptorSet_create base, r)"
  using FileDescriptorSet.roundtrip [OF assms, folded FileDescriptorSet_decode_def]
  by (auto simp: FileDescriptorSet_create_def FileDescriptorSet_norm_fromPartial)

lemmas FileDescriptorSet_total_law = FileDescriptorSet.decode_total [folded FileDescriptorSet_decode_def]
  and FileDescriptorSet_ends_law = FileDescriptorSet.decode_ends [folded FileDescriptorSet_decode_def]
  and FileDescriptorSet_roundtrip_law = FileDescriptorSet.roundtrip [folded FileDescriptorSet_decode_def]

end

context base64_laws
begin

lemma FileDescriptorSet_json_law:
  "FileDescriptorSet_fits m \<Longrightarrow> FileDescriptorSet_known m \<Longrightarrow>
   FileDescriptorSet_fromJSON H (FileDescriptorSet_toJSON H m) = Inr (FileDescriptorSet_norm m)"
  by (simp add: FileDescriptorSet_json.json_roundtrip FileDescriptorSet_jnorm_norm)

lemmas UninterpretedOption_json_law = UninterpretedOption_json.json_roundtrip

end

section \<open>64-bit values of uninterpreted options\<close>

context wire_laws
begin

lemma read_long_throws:
  assumes "reads_as W valid rest k rd p i" and "longToNumber i = Inl e"
    and "valid r" and "bytes_left W r < k" and "rest r = p @ u"
  shows "read_long rd r = Inl e"
proof -
  obtain r' where "rd r = Inr (i, r')" by (rule reads_asE [OF assms(1,3,4,5)])
  with assms(2) show ?thesis by (simp add: read_long_def)
qed

lemma UninterpretedOption_uint64_throws:
  assumes "UninterpretedOption_fits a" and "0 \<le> i" and "i < 2 ^ 64" and "longToNumber i = Inl e"
  shows "UninterpretedOption_decode W (Bytes (UninterpretedOption_bytes a @ tag_bytes 32 @ varint_int i @ u)) None = Inl e"
  unfolding UninterpretedOption_decode_def
proof (rule UninterpretedOption.decode_throws [OF assms(1)])
  fix m r
  assume "valid r" and "rest r = varint_int i @ u"
  from read_long_throws [OF rUint64 [OF assms(2,3)] assms(4) this(1) lessI this(2)]
  show "UninterpretedOption_switch W 32 m r = Inl e"
    by (simp add: UninterpretedOption_switch_def case_read_def)
qed

lemma UninterpretedOption_int64_throws:
  assumes "UninterpretedOption_fits a" and "- (2 ^ 63) \<le> i" and "i < 2 ^ 63" and "longToNumber i = Inl e"
  shows "UninterpretedOption_decode W (Bytes (UninterpretedOption_bytes a @ tag_bytes 40 @ varint_int i @ u)) None = Inl e"
  unfolding UninterpretedOption_decode_def
proof (rule UninterpretedOption.decode_throws [OF assms(1)])
  fix m r
  assume "valid r" and "rest r = varint_int i @ u"
  from read_long_throws [OF rInt64 [OF assms(2,3)] assms(4) this(1) lessI this(2)]
  show "UninterpretedOption_switch W 40 m r = Inl e"
    by (simp add: UninterpretedOption_switch_def case_read_def)
qed

end

section \<open>An example\<close>

text \<open>A file with a message that nests another and has a field with an uninterpreted option.\<close>

definition example_option :: UninterpretedOption where
  "example_option = createBaseUninterpretedOption\<lparr>
     UninterpretedOption_name := [\<lparr>UninterpretedOption_NamePart_namePart = ''x'', UninterpretedOption_NamePart_isExtension = True\<rparr>],
     UninterpretedOption_negativeIntValue := Some (NInt (- 1)), UninterpretedOption_doubleValue := Some (NInt 3),
     UninterpretedOption_stringValue := Some [104, 105], UninterpretedOption_aggregateValue := None\<rparr>"

definition example_field :: FieldDescriptorProto where
  "example_field = createBaseFieldDescriptorProto\<lparr>
     FieldDescriptorProto_name := Some ''id'', FieldDescriptorProto_number := Some (NInt 4),
     FieldDescriptorProto_label := None, FieldDescriptorProto_type := Some (NInt 9),
     FieldDescriptorProto_options := Some (createBaseFieldOptions\<lparr>
       FieldOptions_targets := [NInt 1, NInt 4], FieldOptions_uninterpretedOption := [example_option]\<rparr>)\<rparr>"

definition example_nested :: DescriptorProto where
  "example_nested = DescriptorProto (Some ''N'') [] [] [] [] [] [] None [] []"

definition example_message :: DescriptorProto where
  "example_message = DescriptorProto (Some ''M'') [example_field] [] [example_nested] [] [] [] None [] [''old'']"

definition example_set :: FileDescriptorSet where
  "example_set = \<lparr>FileDescriptorSet_file = [createBaseFileDescriptorProto\<lparr>
     FileDescriptorProto_name := Some ''a.proto'', FileDescriptorProto_dependency := [''b.proto''],
     FileDescriptorProto_publicDependency := [NInt 0], FileDescriptorProto_messageType := [example_message],
     FileDescriptorProto_edition := Some (NInt 1000)\<rparr>]\<rparr>"

lemma small_int_bytes: "varint_int 0 = [0]" "varint_int 1 = [1]" "varint_int 1000 = [232, 7]" "varint_int 4 = [4]"
    "varint_int 9 = [9]" "varint_int 300 = [172, 2]" "length (varint_int (- 1)) = 10"
  by (simp_all add: varint_int_def varint.simps)

lemmas field_defs = other_field_def opt_msg_field_def rep_msg_field_def rep_str_field_def unpacked_field_def
  str_field_def str_bytes_def bool_field_def bool_bytes_def str_payload_def bool_payload_def msg_bytes_def
  delimited_def tag_bytes_def small_int_bytes varint.simps utf8_def utf8_char_def

lemma example_option_fits: "UninterpretedOption_fits example_option" "length (UninterpretedOption_bytes example_option) = 31"
proof -
  have "UninterpretedOption_NamePart_fits \<lparr>UninterpretedOption_NamePart_namePart = ''x'', UninterpretedOption_NamePart_isExtension = True\<rparr>"
    by (simp add: UninterpretedOption_NamePart_fits_def UninterpretedOption_NamePart_bytes_def field_defs)
  moreover show "length (UninterpretedOption_bytes example_option) = 31"
    by (simp add: UninterpretedOption_bytes_def UninterpretedOption_NamePart_bytes_def example_option_def
        createBaseUninterpretedOption_def field_defs)
  moreover have "double_ok (NInt 3)" by (rule double_ok_int) simp
  ultimately show "UninterpretedOption_fits example_option"
    by (simp add: UninterpretedOption_fits_def example_option_def createBaseUninterpretedOption_def)
qed

lemma example_field_fits: "FieldDescriptorProto_fits example_field" "length (FieldDescriptorProto_bytes example_field) = 50"
proof -
  let ?o = "createBaseFieldOptions\<lparr>FieldOptions_targets := [NInt 1, NInt 4], FieldOptions_uninterpretedOption := [example_option]\<rparr>"
  have l: "length (FieldOptions_bytes ?o) = 40"
    by (simp add: FieldOptions_bytes_def createBaseFieldOptions_def field_defs example_option_fits(2))
  then have "FieldOptions_fits ?o"
    by (simp add: FieldOptions_fits_def createBaseFieldOptions_def example_option_fits(1))
  moreover from l show "length (FieldDescriptorProto_bytes example_field) = 50"
    by (simp add: FieldDescriptorProto_bytes_def example_field_def createBaseFieldDescriptorProto_def field_defs)
  ultimately show "FieldDescriptorProto_fits example_field"
    by (simp add: FieldDescriptorProto_fits_def example_field_def createBaseFieldDescriptorProto_def)
qed

lemma example_nested_fits: "DescriptorProto_fits example_nested" "length (DescriptorProto_bytes example_nested) = 3"
proof -
  show "length (DescriptorProto_bytes example_nested) = 3"
    by (simp add: DescriptorProto_bytes.simps [of example_nested], simp add: example_nested_def field_defs)
  then show "DescriptorProto_fits example_nested"
    by (simp add: DescriptorProto_fits.simps [of example_nested], simp add: example_nested_def)
qed

lemma example_message_fits: "DescriptorProto_fits example_message" "length (DescriptorProto_bytes example_message) = 65"
proof -
  show "length (DescriptorProto_bytes example_message) = 65"
    by (simp add: DescriptorProto_bytes.simps [of example_message],
        simp add: example_message_def example_field_fits(2) example_nested_fits(2) field_defs)
  then show "DescriptorProto_fits example_message"
    by (simp add: DescriptorProto_fits.simps [of example_message],
        simp add: example_message_def example_field_fits(1) example_nested_fits(1))
qed

lemma example_set_fits: "FileDescriptorSet_fits example_set"
  by (simp add: FileDescriptorSet_fits_def FileDescriptorSet_bytes_def FileDescriptorProto_fits_def FileDescriptorProto_bytes_def
      example_set_def createBaseFileDescriptorProto_def example_message_fits field_defs)

lemma declared_examples:
  "declared FieldDescriptorProto_Type_value (NInt 9)" "declared FieldOptions_OptionTargetType_value (NInt 1)"
  "declared FieldOptions_OptionTargetType_value (NInt 4)" "declared Edition_value (NInt 1000)"
  "declared FieldDescriptorProto_Type_value (NInt 1)" "declared FieldDescriptorProto_Label_value (NInt 1)"
  "declared FieldOptions_CType_value (NInt 0)" "declared FieldOptions_JSType_value (NInt 0)"
  "declared FieldOptions_OptionRetention_value (NInt 0)"
  unfolding declared_def
  by (metis FieldDescriptorProto_Type_value.simps FieldOptions_OptionTargetType_value.simps Edition_value.simps
      FieldDescriptorProto_Label_value.simps FieldOptions_CType_value.simps FieldOptions_JSType_value.simps
      FieldOptions_OptionRetention_value.simps)+

lemma example_set_known: "FileDescriptorSet_known example_set"
proof -
  have "DescriptorProto_known example_nested"
    by (simp add: DescriptorProto_known.simps [of example_nested], simp add: example_nested_def)
  then have "DescriptorProto_known example_message"
    by (simp add: DescriptorProto_known.simps [of example_message], simp add: example_message_def example_field_def
        FieldDescriptorProto_known_def FieldOptions_known_def createBaseFieldDescriptorProto_def createBaseFieldOptions_def
        declared_examples)
  then show ?thesis
    by (simp add: FileDescriptorSet_known_def FileDescriptorProto_known_def example_set_def
        createBaseFileDescriptorProto_def declared_examples)
qed

text \<open>A partial set: one file of which only the name, a dependency and the edition are given.\<close>

definition example_partial :: FileDescriptorSet_Partial where
  "example_partial = \<lparr>Partial_FileDescriptorSet_file = Some [\<lparr>
     Partial_FileDescriptorProto_name = Some ''a.proto'',
     Partial_FileDescriptorProto_package = None,
     Partial_FileDescriptorProto_dependency = None,
     Partial_FileDescriptorProto_publicDependency = None,
     Partial_FileDescriptorProto_weakDependency = Some [NInt 1],
     Partial_FileDescriptorProto_messageType = None,
     Partial_FileDescriptorProto_enumType = None,
     Partial_FileDescriptorProto_service = None,
     Partial_FileDescriptorProto_extension = None,
     Partial_FileDescriptorProto_options = None,
     Partial_FileDescriptorProto_sourceCodeInfo = None,
     Partial_FileDescriptorProto_syntax = None,
     Partial_FileDescriptorProto_edition = Some (NInt 1000)\<rparr>]\<rparr>"

lemma example_partial_fits: "FileDescriptorSet_fits (FileDescriptorSet_create (Some example_partial))"
  by (simp add: FileDescriptorSet_create_def FileDescriptorSet_fromPartial_def FileDescriptorProto_fromPartial_def
      example_partial_def nullish_def createBaseFileDescriptorProto_def createBaseFileDescriptorSet_def
      FileDescriptorSet_fits_def FileDescriptorSet_bytes_def FileDescriptorProto_fits_def FileDescriptorProto_bytes_def
      field_defs)

end
