(* ===== verification/Auth_Messages.thy ===== *)
theory Auth_Messages
  imports Codec
begin

text \<open>
  \<^verbatim>\<open>web/src/generated/auth.ts\<close>: the messages of AuthService as the browser code knows them.
  For each message \<open>M\<close>: its record, \<open>createBaseM\<close>, \<open>M_encode\<close>, the switch and the whole of
  \<open>M_decode\<close>, \<open>M_fromJSON\<close>, \<open>M_toJSON\<close>, \<open>M_fromPartial\<close> and \<open>M_create\<close>, in the order of the
  file except that \<open>User\<close> comes before the messages that contain it. A field
  that may be \<^verbatim>\<open>undefined\<close> is an option; \<open>M_Partial\<close> is \<^verbatim>\<open>DeepPartial<M>\<close>, where a field that
  is missing, \<^verbatim>\<open>undefined\<close> or \<^verbatim>\<open>null\<close> is \<open>None\<close>. Then the documented wire form \<open>M_bytes\<close> of a
  message, and the proof that the encoder and decoder implement it.
\<close>

unbundle bit_operations_syntax

section \<open>GoogleLoginRequest\<close>

record GoogleLoginRequest =
  GoogleLoginRequest_idToken :: string

definition createBaseGoogleLoginRequest :: GoogleLoginRequest where
  "createBaseGoogleLoginRequest = \<lparr>GoogleLoginRequest_idToken = ''''\<rparr>"

definition GoogleLoginRequest_encode :: "('w, 'r) wire \<Rightarrow> GoogleLoginRequest \<Rightarrow> 'w stmt" where
  "GoogleLoginRequest_encode W message = run [
     only_if (GoogleLoginRequest_idToken message \<noteq> '''') (tagged W 10 (wString W (GoogleLoginRequest_idToken message)))]"

definition GoogleLoginRequest_switch :: "('w, 'r) wire \<Rightarrow> (GoogleLoginRequest, 'r) switch" where
  "GoogleLoginRequest_switch W tag message reader =
   (if drop_bit 3 tag = 1 then case_read tag 10 (rString W) (store GoogleLoginRequest_idToken_update) message reader
    else Inr None)"

definition GoogleLoginRequest_decode :: "('w, 'r) wire \<Rightarrow> 'r input \<Rightarrow> nat option \<Rightarrow> (GoogleLoginRequest \<times> 'r) res" where
  "GoogleLoginRequest_decode W = decode_msg W (GoogleLoginRequest_switch W) createBaseGoogleLoginRequest"

definition GoogleLoginRequest_fromJSON :: "jsval \<Rightarrow> GoogleLoginRequest res" where
  "GoogleLoginRequest_fromJSON object =
     rbind (json_field2 object ''idToken'' ''id_token'' js_String (Inr '''')) (\<lambda>idToken.
     Inr \<lparr>GoogleLoginRequest_idToken = idToken\<rparr>)"

definition GoogleLoginRequest_toJSON :: "GoogleLoginRequest \<Rightarrow> jsval" where
  "GoogleLoginRequest_toJSON message = json_object [
     (''idToken'', put_if (GoogleLoginRequest_idToken message \<noteq> '''') (JStr (GoogleLoginRequest_idToken message)))]"

record GoogleLoginRequest_Partial =
  Partial_GoogleLoginRequest_idToken :: "string option"

definition GoogleLoginRequest_fromPartial :: "GoogleLoginRequest_Partial \<Rightarrow> GoogleLoginRequest" where
  "GoogleLoginRequest_fromPartial object = createBaseGoogleLoginRequest\<lparr>
     GoogleLoginRequest_idToken := nullish (Partial_GoogleLoginRequest_idToken object) ''''\<rparr>"

definition GoogleLoginRequest_create :: "GoogleLoginRequest_Partial option \<Rightarrow> GoogleLoginRequest" where
  "GoogleLoginRequest_create base = GoogleLoginRequest_fromPartial (nullish base \<lparr>Partial_GoogleLoginRequest_idToken = None\<rparr>)"

section \<open>User\<close>

record User =
  User_id :: string
  User_email :: string
  User_displayName :: string
  User_username :: string
  User_pictureUrl :: string
  User_isAdmin :: bool

definition createBaseUser :: User where
  "createBaseUser = \<lparr>User_id = '''', User_email = '''', User_displayName = '''', User_username = '''', User_pictureUrl = '''', User_isAdmin = False\<rparr>"

definition User_encode :: "('w, 'r) wire \<Rightarrow> User \<Rightarrow> 'w stmt" where
  "User_encode W message = run [
     only_if (User_id message \<noteq> '''') (tagged W 10 (wString W (User_id message))),
     only_if (User_email message \<noteq> '''') (tagged W 18 (wString W (User_email message))),
     only_if (User_displayName message \<noteq> '''') (tagged W 26 (wString W (User_displayName message))),
     only_if (User_username message \<noteq> '''') (tagged W 34 (wString W (User_username message))),
     only_if (User_pictureUrl message \<noteq> '''') (tagged W 42 (wString W (User_pictureUrl message))),
     only_if (User_isAdmin message \<noteq> False) (tagged W 48 (wBool W (User_isAdmin message)))]"

definition User_switch :: "('w, 'r) wire \<Rightarrow> (User, 'r) switch" where
  "User_switch W tag message reader =
   (if drop_bit 3 tag = 1 then case_read tag 10 (rString W) (store User_id_update) message reader
    else if drop_bit 3 tag = 2 then case_read tag 18 (rString W) (store User_email_update) message reader
    else if drop_bit 3 tag = 3 then case_read tag 26 (rString W) (store User_displayName_update) message reader
    else if drop_bit 3 tag = 4 then case_read tag 34 (rString W) (store User_username_update) message reader
    else if drop_bit 3 tag = 5 then case_read tag 42 (rString W) (store User_pictureUrl_update) message reader
    else if drop_bit 3 tag = 6 then case_read tag 48 (rBool W) (store User_isAdmin_update) message reader
    else Inr None)"

definition User_decode :: "('w, 'r) wire \<Rightarrow> 'r input \<Rightarrow> nat option \<Rightarrow> (User \<times> 'r) res" where
  "User_decode W = decode_msg W (User_switch W) createBaseUser"

definition User_fromJSON :: "jsval \<Rightarrow> User res" where
  "User_fromJSON object =
     rbind (json_field object ''id'' js_String (Inr '''')) (\<lambda>id'.
     rbind (json_field object ''email'' js_String (Inr '''')) (\<lambda>email.
     rbind (json_field2 object ''displayName'' ''display_name'' js_String (Inr '''')) (\<lambda>displayName.
     rbind (json_field object ''username'' js_String (Inr '''')) (\<lambda>username.
     rbind (json_field2 object ''pictureUrl'' ''picture_url'' js_String (Inr '''')) (\<lambda>pictureUrl.
     rbind (json_field2 object ''isAdmin'' ''is_admin'' js_Boolean_res (Inr False)) (\<lambda>isAdmin.
     Inr \<lparr>User_id = id', User_email = email, User_displayName = displayName, User_username = username, User_pictureUrl = pictureUrl, User_isAdmin = isAdmin\<rparr>))))))"

definition User_toJSON :: "User \<Rightarrow> jsval" where
  "User_toJSON message = json_object [
     (''id'', put_if (User_id message \<noteq> '''') (JStr (User_id message))),
     (''email'', put_if (User_email message \<noteq> '''') (JStr (User_email message))),
     (''displayName'', put_if (User_displayName message \<noteq> '''') (JStr (User_displayName message))),
     (''username'', put_if (User_username message \<noteq> '''') (JStr (User_username message))),
     (''pictureUrl'', put_if (User_pictureUrl message \<noteq> '''') (JStr (User_pictureUrl message))),
     (''isAdmin'', put_if (User_isAdmin message \<noteq> False) (JBool (User_isAdmin message)))]"

record User_Partial =
  Partial_User_id :: "string option"
  Partial_User_email :: "string option"
  Partial_User_displayName :: "string option"
  Partial_User_username :: "string option"
  Partial_User_pictureUrl :: "string option"
  Partial_User_isAdmin :: "bool option"

definition User_fromPartial :: "User_Partial \<Rightarrow> User" where
  "User_fromPartial object = createBaseUser\<lparr>
     User_id := nullish (Partial_User_id object) '''',
     User_email := nullish (Partial_User_email object) '''',
     User_displayName := nullish (Partial_User_displayName object) '''',
     User_username := nullish (Partial_User_username object) '''',
     User_pictureUrl := nullish (Partial_User_pictureUrl object) '''',
     User_isAdmin := nullish (Partial_User_isAdmin object) False\<rparr>"

definition User_create :: "User_Partial option \<Rightarrow> User" where
  "User_create base = User_fromPartial (nullish base \<lparr>Partial_User_id = None, Partial_User_email = None, Partial_User_displayName = None, Partial_User_username = None, Partial_User_pictureUrl = None, Partial_User_isAdmin = None\<rparr>)"

section \<open>SessionResponse\<close>

record SessionResponse =
  SessionResponse_jwt :: string
  SessionResponse_user :: "User option"

definition createBaseSessionResponse :: SessionResponse where
  "createBaseSessionResponse = \<lparr>SessionResponse_jwt = '''', SessionResponse_user = None\<rparr>"

definition SessionResponse_encode :: "('w, 'r) wire \<Rightarrow> SessionResponse \<Rightarrow> 'w stmt" where
  "SessionResponse_encode W message = run [
     only_if (SessionResponse_jwt message \<noteq> '''') (tagged W 10 (wString W (SessionResponse_jwt message))),
     if_set (SessionResponse_user message) (\<lambda>v. sub_message W 18 (User_encode W v))]"

definition SessionResponse_switch :: "('w, 'r) wire \<Rightarrow> (SessionResponse, 'r) switch" where
  "SessionResponse_switch W tag message reader =
   (if drop_bit 3 tag = 1 then case_read tag 10 (rString W) (store SessionResponse_jwt_update) message reader
    else if drop_bit 3 tag = 2 then case_read tag 18 (read_message W (User_decode W)) (store_some SessionResponse_user_update) message reader
    else Inr None)"

definition SessionResponse_decode :: "('w, 'r) wire \<Rightarrow> 'r input \<Rightarrow> nat option \<Rightarrow> (SessionResponse \<times> 'r) res" where
  "SessionResponse_decode W = decode_msg W (SessionResponse_switch W) createBaseSessionResponse"

definition SessionResponse_fromJSON :: "jsval \<Rightarrow> SessionResponse res" where
  "SessionResponse_fromJSON object =
     rbind (json_field object ''jwt'' js_String (Inr '''')) (\<lambda>jwt.
     rbind (json_field object ''user'' (some_res User_fromJSON) (Inr None)) (\<lambda>user.
     Inr \<lparr>SessionResponse_jwt = jwt, SessionResponse_user = user\<rparr>))"

definition SessionResponse_toJSON :: "SessionResponse \<Rightarrow> jsval" where
  "SessionResponse_toJSON message = json_object [
     (''jwt'', put_if (SessionResponse_jwt message \<noteq> '''') (JStr (SessionResponse_jwt message))),
     (''user'', map_option User_toJSON (SessionResponse_user message))]"

record SessionResponse_Partial =
  Partial_SessionResponse_jwt :: "string option"
  Partial_SessionResponse_user :: "User_Partial option"

definition SessionResponse_fromPartial :: "SessionResponse_Partial \<Rightarrow> SessionResponse" where
  "SessionResponse_fromPartial object = createBaseSessionResponse\<lparr>
     SessionResponse_jwt := nullish (Partial_SessionResponse_jwt object) '''',
     SessionResponse_user := map_option User_fromPartial (Partial_SessionResponse_user object)\<rparr>"

definition SessionResponse_create :: "SessionResponse_Partial option \<Rightarrow> SessionResponse" where
  "SessionResponse_create base = SessionResponse_fromPartial (nullish base \<lparr>Partial_SessionResponse_jwt = None, Partial_SessionResponse_user = None\<rparr>)"

section \<open>UpdateProfileRequest\<close>

record UpdateProfileRequest =
  UpdateProfileRequest_username :: string

definition createBaseUpdateProfileRequest :: UpdateProfileRequest where
  "createBaseUpdateProfileRequest = \<lparr>UpdateProfileRequest_username = ''''\<rparr>"

definition UpdateProfileRequest_encode :: "('w, 'r) wire \<Rightarrow> UpdateProfileRequest \<Rightarrow> 'w stmt" where
  "UpdateProfileRequest_encode W message = run [
     only_if (UpdateProfileRequest_username message \<noteq> '''') (tagged W 10 (wString W (UpdateProfileRequest_username message)))]"

definition UpdateProfileRequest_switch :: "('w, 'r) wire \<Rightarrow> (UpdateProfileRequest, 'r) switch" where
  "UpdateProfileRequest_switch W tag message reader =
   (if drop_bit 3 tag = 1 then case_read tag 10 (rString W) (store UpdateProfileRequest_username_update) message reader
    else Inr None)"

definition UpdateProfileRequest_decode :: "('w, 'r) wire \<Rightarrow> 'r input \<Rightarrow> nat option \<Rightarrow> (UpdateProfileRequest \<times> 'r) res" where
  "UpdateProfileRequest_decode W = decode_msg W (UpdateProfileRequest_switch W) createBaseUpdateProfileRequest"

definition UpdateProfileRequest_fromJSON :: "jsval \<Rightarrow> UpdateProfileRequest res" where
  "UpdateProfileRequest_fromJSON object =
     rbind (json_field object ''username'' js_String (Inr '''')) (\<lambda>username.
     Inr \<lparr>UpdateProfileRequest_username = username\<rparr>)"

definition UpdateProfileRequest_toJSON :: "UpdateProfileRequest \<Rightarrow> jsval" where
  "UpdateProfileRequest_toJSON message = json_object [
     (''username'', put_if (UpdateProfileRequest_username message \<noteq> '''') (JStr (UpdateProfileRequest_username message)))]"

record UpdateProfileRequest_Partial =
  Partial_UpdateProfileRequest_username :: "string option"

definition UpdateProfileRequest_fromPartial :: "UpdateProfileRequest_Partial \<Rightarrow> UpdateProfileRequest" where
  "UpdateProfileRequest_fromPartial object = createBaseUpdateProfileRequest\<lparr>
     UpdateProfileRequest_username := nullish (Partial_UpdateProfileRequest_username object) ''''\<rparr>"

definition UpdateProfileRequest_create :: "UpdateProfileRequest_Partial option \<Rightarrow> UpdateProfileRequest" where
  "UpdateProfileRequest_create base = UpdateProfileRequest_fromPartial (nullish base \<lparr>Partial_UpdateProfileRequest_username = None\<rparr>)"

section \<open>GetCurrentUserRequest\<close>

datatype GetCurrentUserRequest = GetCurrentUserRequest

definition createBaseGetCurrentUserRequest :: GetCurrentUserRequest where
  "createBaseGetCurrentUserRequest = GetCurrentUserRequest"

definition GetCurrentUserRequest_encode :: "('w, 'r) wire \<Rightarrow> GetCurrentUserRequest \<Rightarrow> 'w stmt" where
  "GetCurrentUserRequest_encode W message = run []"

definition GetCurrentUserRequest_switch :: "('w, 'r) wire \<Rightarrow> (GetCurrentUserRequest, 'r) switch" where
  "GetCurrentUserRequest_switch W tag message reader =
   Inr None"

definition GetCurrentUserRequest_decode :: "('w, 'r) wire \<Rightarrow> 'r input \<Rightarrow> nat option \<Rightarrow> (GetCurrentUserRequest \<times> 'r) res" where
  "GetCurrentUserRequest_decode W = decode_msg W (GetCurrentUserRequest_switch W) createBaseGetCurrentUserRequest"

definition GetCurrentUserRequest_fromJSON :: "jsval \<Rightarrow> GetCurrentUserRequest res" where
  "GetCurrentUserRequest_fromJSON object = Inr GetCurrentUserRequest"

definition GetCurrentUserRequest_toJSON :: "GetCurrentUserRequest \<Rightarrow> jsval" where
  "GetCurrentUserRequest_toJSON message = json_object []"

definition GetCurrentUserRequest_fromPartial :: "unit \<Rightarrow> GetCurrentUserRequest" where
  "GetCurrentUserRequest_fromPartial object = createBaseGetCurrentUserRequest"

definition GetCurrentUserRequest_create :: "unit option \<Rightarrow> GetCurrentUserRequest" where
  "GetCurrentUserRequest_create base = GetCurrentUserRequest_fromPartial (nullish base ())"

section \<open>ListUsersRequest\<close>

datatype ListUsersRequest = ListUsersRequest

definition createBaseListUsersRequest :: ListUsersRequest where
  "createBaseListUsersRequest = ListUsersRequest"

definition ListUsersRequest_encode :: "('w, 'r) wire \<Rightarrow> ListUsersRequest \<Rightarrow> 'w stmt" where
  "ListUsersRequest_encode W message = run []"

definition ListUsersRequest_switch :: "('w, 'r) wire \<Rightarrow> (ListUsersRequest, 'r) switch" where
  "ListUsersRequest_switch W tag message reader =
   Inr None"

definition ListUsersRequest_decode :: "('w, 'r) wire \<Rightarrow> 'r input \<Rightarrow> nat option \<Rightarrow> (ListUsersRequest \<times> 'r) res" where
  "ListUsersRequest_decode W = decode_msg W (ListUsersRequest_switch W) createBaseListUsersRequest"

definition ListUsersRequest_fromJSON :: "jsval \<Rightarrow> ListUsersRequest res" where
  "ListUsersRequest_fromJSON object = Inr ListUsersRequest"

definition ListUsersRequest_toJSON :: "ListUsersRequest \<Rightarrow> jsval" where
  "ListUsersRequest_toJSON message = json_object []"

definition ListUsersRequest_fromPartial :: "unit \<Rightarrow> ListUsersRequest" where
  "ListUsersRequest_fromPartial object = createBaseListUsersRequest"

definition ListUsersRequest_create :: "unit option \<Rightarrow> ListUsersRequest" where
  "ListUsersRequest_create base = ListUsersRequest_fromPartial (nullish base ())"

section \<open>ListUsersResponse\<close>

record ListUsersResponse =
  ListUsersResponse_users :: "User list"

definition createBaseListUsersResponse :: ListUsersResponse where
  "createBaseListUsersResponse = \<lparr>ListUsersResponse_users = []\<rparr>"

definition ListUsersResponse_encode :: "('w, 'r) wire \<Rightarrow> ListUsersResponse \<Rightarrow> 'w stmt" where
  "ListUsersResponse_encode W message = run [
     for_each (ListUsersResponse_users message) (\<lambda>v. sub_message W 10 (User_encode W v))]"

definition ListUsersResponse_switch :: "('w, 'r) wire \<Rightarrow> (ListUsersResponse, 'r) switch" where
  "ListUsersResponse_switch W tag message reader =
   (if drop_bit 3 tag = 1 then case_read tag 10 (read_message W (User_decode W)) (push ListUsersResponse_users_update) message reader
    else Inr None)"

definition ListUsersResponse_decode :: "('w, 'r) wire \<Rightarrow> 'r input \<Rightarrow> nat option \<Rightarrow> (ListUsersResponse \<times> 'r) res" where
  "ListUsersResponse_decode W = decode_msg W (ListUsersResponse_switch W) createBaseListUsersResponse"

definition ListUsersResponse_fromJSON :: "jsval \<Rightarrow> ListUsersResponse res" where
  "ListUsersResponse_fromJSON object =
     rbind (json_array object ''users'' User_fromJSON (Inr [])) (\<lambda>users.
     Inr \<lparr>ListUsersResponse_users = users\<rparr>)"

definition ListUsersResponse_toJSON :: "ListUsersResponse \<Rightarrow> jsval" where
  "ListUsersResponse_toJSON message = json_object [
     (''users'', put_if (ListUsersResponse_users message \<noteq> []) (JArr (map User_toJSON (ListUsersResponse_users message))))]"

record ListUsersResponse_Partial =
  Partial_ListUsersResponse_users :: "User_Partial list option"

definition ListUsersResponse_fromPartial :: "ListUsersResponse_Partial \<Rightarrow> ListUsersResponse" where
  "ListUsersResponse_fromPartial object = createBaseListUsersResponse\<lparr>
     ListUsersResponse_users := nullish (map_option (map User_fromPartial) (Partial_ListUsersResponse_users object)) []\<rparr>"

definition ListUsersResponse_create :: "ListUsersResponse_Partial option \<Rightarrow> ListUsersResponse" where
  "ListUsersResponse_create base = ListUsersResponse_fromPartial (nullish base \<lparr>Partial_ListUsersResponse_users = None\<rparr>)"

section \<open>The documented wire form\<close>

text \<open>
  \<open>M_fits\<close> bounds the wire form by what a 32-bit length can say. \<open>M_merge m0 m\<close> is \<open>m0\<close> after
  the fields of \<open>m\<close> have been read into it: a singular field that is present overwrites,
  elements of a repeated field are added at the end.
\<close>

definition GoogleLoginRequest_bytes :: "GoogleLoginRequest \<Rightarrow> bytes" where
  "GoogleLoginRequest_bytes m = concat [
     str_field 10 (GoogleLoginRequest_idToken m)]"

definition GoogleLoginRequest_fits :: "GoogleLoginRequest \<Rightarrow> bool" where
  "GoogleLoginRequest_fits m \<longleftrightarrow> length (GoogleLoginRequest_bytes m) < 2 ^ 32"

definition GoogleLoginRequest_merge :: "GoogleLoginRequest \<Rightarrow> GoogleLoginRequest \<Rightarrow> GoogleLoginRequest" where
  "GoogleLoginRequest_merge m0 m = m0\<lparr>
     GoogleLoginRequest_idToken := (if GoogleLoginRequest_idToken m = '''' then GoogleLoginRequest_idToken m0 else GoogleLoginRequest_idToken m)\<rparr>"

definition User_bytes :: "User \<Rightarrow> bytes" where
  "User_bytes m = concat [
     str_field 10 (User_id m),
     str_field 18 (User_email m),
     str_field 26 (User_displayName m),
     str_field 34 (User_username m),
     str_field 42 (User_pictureUrl m),
     bool_field 48 (User_isAdmin m)]"

definition User_fits :: "User \<Rightarrow> bool" where
  "User_fits m \<longleftrightarrow> length (User_bytes m) < 2 ^ 32"

definition User_merge :: "User \<Rightarrow> User \<Rightarrow> User" where
  "User_merge m0 m = m0\<lparr>
     User_id := (if User_id m = '''' then User_id m0 else User_id m),
     User_email := (if User_email m = '''' then User_email m0 else User_email m),
     User_displayName := (if User_displayName m = '''' then User_displayName m0 else User_displayName m),
     User_username := (if User_username m = '''' then User_username m0 else User_username m),
     User_pictureUrl := (if User_pictureUrl m = '''' then User_pictureUrl m0 else User_pictureUrl m),
     User_isAdmin := (if User_isAdmin m then True else User_isAdmin m0)\<rparr>"

definition SessionResponse_bytes :: "SessionResponse \<Rightarrow> bytes" where
  "SessionResponse_bytes m = concat [
     str_field 10 (SessionResponse_jwt m),
     opt_msg_field 18 User_bytes (SessionResponse_user m)]"

definition SessionResponse_fits :: "SessionResponse \<Rightarrow> bool" where
  "SessionResponse_fits m \<longleftrightarrow> length (SessionResponse_bytes m) < 2 ^ 32"

definition SessionResponse_merge :: "SessionResponse \<Rightarrow> SessionResponse \<Rightarrow> SessionResponse" where
  "SessionResponse_merge m0 m = m0\<lparr>
     SessionResponse_jwt := (if SessionResponse_jwt m = '''' then SessionResponse_jwt m0 else SessionResponse_jwt m),
     SessionResponse_user := (case SessionResponse_user m of None \<Rightarrow> SessionResponse_user m0 | Some v \<Rightarrow> Some v)\<rparr>"

definition UpdateProfileRequest_bytes :: "UpdateProfileRequest \<Rightarrow> bytes" where
  "UpdateProfileRequest_bytes m = concat [
     str_field 10 (UpdateProfileRequest_username m)]"

definition UpdateProfileRequest_fits :: "UpdateProfileRequest \<Rightarrow> bool" where
  "UpdateProfileRequest_fits m \<longleftrightarrow> length (UpdateProfileRequest_bytes m) < 2 ^ 32"

definition UpdateProfileRequest_merge :: "UpdateProfileRequest \<Rightarrow> UpdateProfileRequest \<Rightarrow> UpdateProfileRequest" where
  "UpdateProfileRequest_merge m0 m = m0\<lparr>
     UpdateProfileRequest_username := (if UpdateProfileRequest_username m = '''' then UpdateProfileRequest_username m0 else UpdateProfileRequest_username m)\<rparr>"

definition GetCurrentUserRequest_bytes :: "GetCurrentUserRequest \<Rightarrow> bytes" where
  "GetCurrentUserRequest_bytes m = concat []"

definition GetCurrentUserRequest_fits :: "GetCurrentUserRequest \<Rightarrow> bool" where
  "GetCurrentUserRequest_fits m \<longleftrightarrow> length (GetCurrentUserRequest_bytes m) < 2 ^ 32"

definition GetCurrentUserRequest_merge :: "GetCurrentUserRequest \<Rightarrow> GetCurrentUserRequest \<Rightarrow> GetCurrentUserRequest" where
  "GetCurrentUserRequest_merge m0 m = m0"

definition ListUsersRequest_bytes :: "ListUsersRequest \<Rightarrow> bytes" where
  "ListUsersRequest_bytes m = concat []"

definition ListUsersRequest_fits :: "ListUsersRequest \<Rightarrow> bool" where
  "ListUsersRequest_fits m \<longleftrightarrow> length (ListUsersRequest_bytes m) < 2 ^ 32"

definition ListUsersRequest_merge :: "ListUsersRequest \<Rightarrow> ListUsersRequest \<Rightarrow> ListUsersRequest" where
  "ListUsersRequest_merge m0 m = m0"

definition ListUsersResponse_bytes :: "ListUsersResponse \<Rightarrow> bytes" where
  "ListUsersResponse_bytes m = concat [
     rep_msg_field 10 User_bytes (ListUsersResponse_users m)]"

definition ListUsersResponse_fits :: "ListUsersResponse \<Rightarrow> bool" where
  "ListUsersResponse_fits m \<longleftrightarrow> length (ListUsersResponse_bytes m) < 2 ^ 32"

definition ListUsersResponse_merge :: "ListUsersResponse \<Rightarrow> ListUsersResponse \<Rightarrow> ListUsersResponse" where
  "ListUsersResponse_merge m0 m = m0\<lparr>
     ListUsersResponse_users := ListUsersResponse_users m0 @ ListUsersResponse_users m\<rparr>"

section \<open>The codecs implement the wire form\<close>

context wire_laws
begin

lemma GoogleLoginRequest_parts:
  assumes "GoogleLoginRequest_fits m"
  shows "length (str_field 10 (GoogleLoginRequest_idToken m)) < 2 ^ 32"
  using assms by (simp_all add: GoogleLoginRequest_fits_def GoogleLoginRequest_bytes_def)

lemma GoogleLoginRequest_writes:
  assumes "GoogleLoginRequest_fits m"
  shows "appends buf (GoogleLoginRequest_encode W m) (GoogleLoginRequest_bytes m)"
  unfolding GoogleLoginRequest_encode_def GoogleLoginRequest_bytes_def concat.simps
  by (intro appends_run_Cons appends_run_Nil enc_str_field GoogleLoginRequest_parts [OF assms])

lemma GoogleLoginRequest_reads:
  shows "switch_reads (GoogleLoginRequest_switch W) 10 (rString W) (store GoogleLoginRequest_idToken_update)"
  by (simp_all add: switch_reads_def GoogleLoginRequest_switch_def)

lemma GoogleLoginRequest_good: "good_switch W valid k (GoogleLoginRequest_switch W)"
  unfolding good_switch_def GoogleLoginRequest_switch_def 
  by (auto intro!: good_step_case_read rString_safe rBool_safe )

lemma GoogleLoginRequest_runs:
  assumes "GoogleLoginRequest_fits m"
  shows "runs W valid rest k (GoogleLoginRequest_switch W) (GoogleLoginRequest_bytes m) (\<lambda>m0. GoogleLoginRequest_merge m0 m)"
  unfolding GoogleLoginRequest_bytes_def concat.simps
  by (rule runs_cong,
      (rule runs_append runs_Nil read_str_field
         GoogleLoginRequest_reads GoogleLoginRequest_parts [OF assms]
       | assumption | simp; fail)+,
      simp add: GoogleLoginRequest_merge_def)

end

sublocale wire_laws \<subseteq> GoogleLoginRequest: switch_codec W buf valid rest "GoogleLoginRequest_encode W" "GoogleLoginRequest_switch W"
    createBaseGoogleLoginRequest GoogleLoginRequest_bytes GoogleLoginRequest_fits "\<lambda>m. m" GoogleLoginRequest_merge
proof unfold_locales
  show "GoogleLoginRequest_merge createBaseGoogleLoginRequest m = m" for m
    by (cases m) (auto simp: GoogleLoginRequest_merge_def createBaseGoogleLoginRequest_def split: option.split)
qed (simp_all add: GoogleLoginRequest_writes GoogleLoginRequest_good GoogleLoginRequest_runs, simp add: GoogleLoginRequest_fits_def)

context wire_laws
begin

lemma User_parts:
  assumes "User_fits m"
  shows "length (str_field 10 (User_id m)) < 2 ^ 32"
    and "length (str_field 18 (User_email m)) < 2 ^ 32"
    and "length (str_field 26 (User_displayName m)) < 2 ^ 32"
    and "length (str_field 34 (User_username m)) < 2 ^ 32"
    and "length (str_field 42 (User_pictureUrl m)) < 2 ^ 32"
    and "length (bool_field 48 (User_isAdmin m)) < 2 ^ 32"
  using assms by (simp_all add: User_fits_def User_bytes_def)

lemma User_writes:
  assumes "User_fits m"
  shows "appends buf (User_encode W m) (User_bytes m)"
  unfolding User_encode_def User_bytes_def concat.simps
  by (intro appends_run_Cons appends_run_Nil enc_str_field enc_bool_field User_parts [OF assms])

lemma User_reads:
  shows "switch_reads (User_switch W) 10 (rString W) (store User_id_update)"
    and "switch_reads (User_switch W) 18 (rString W) (store User_email_update)"
    and "switch_reads (User_switch W) 26 (rString W) (store User_displayName_update)"
    and "switch_reads (User_switch W) 34 (rString W) (store User_username_update)"
    and "switch_reads (User_switch W) 42 (rString W) (store User_pictureUrl_update)"
    and "switch_reads (User_switch W) 48 (rBool W) (store User_isAdmin_update)"
  by (simp_all add: switch_reads_def User_switch_def)

lemma User_good: "good_switch W valid k (User_switch W)"
  unfolding good_switch_def User_switch_def 
  by (auto intro!: good_step_case_read rString_safe rBool_safe )

lemma User_runs:
  assumes "User_fits m"
  shows "runs W valid rest k (User_switch W) (User_bytes m) (\<lambda>m0. User_merge m0 m)"
  unfolding User_bytes_def concat.simps
  by (rule runs_cong,
      (rule runs_append runs_Nil read_str_field read_bool_field
         User_reads User_parts [OF assms]
       | assumption | simp; fail)+,
      simp add: User_merge_def)

end

sublocale wire_laws \<subseteq> User: switch_codec W buf valid rest "User_encode W" "User_switch W"
    createBaseUser User_bytes User_fits "\<lambda>m. m" User_merge
proof unfold_locales
  show "User_merge createBaseUser m = m" for m
    by (cases m) (auto simp: User_merge_def createBaseUser_def split: option.split)
qed (simp_all add: User_writes User_good User_runs, simp add: User_fits_def)

context wire_laws
begin

lemma SessionResponse_parts:
  assumes "SessionResponse_fits m"
  shows "length (str_field 10 (SessionResponse_jwt m)) < 2 ^ 32"
    and "length (opt_msg_field 18 User_bytes (SessionResponse_user m)) < 2 ^ 32"
  using assms by (simp_all add: SessionResponse_fits_def SessionResponse_bytes_def)

lemma SessionResponse_user_fits:
  assumes "SessionResponse_fits m" and "SessionResponse_user m = Some v"
  shows "User_fits v"
  using opt_msg_bound [OF SessionResponse_parts(2) [OF assms(1)] assms(2)] by (simp add: User_fits_def)

lemma SessionResponse_writes:
  assumes "SessionResponse_fits m"
  shows "appends buf (SessionResponse_encode W m) (SessionResponse_bytes m)"
  unfolding SessionResponse_encode_def SessionResponse_bytes_def concat.simps
  by (rule appends_run_Cons appends_run_Nil enc_str_field User.enc_opt_sub SessionResponse_parts [OF assms] | erule SessionResponse_user_fits [OF assms])+

lemma SessionResponse_reads:
  shows "switch_reads (SessionResponse_switch W) 10 (rString W) (store SessionResponse_jwt_update)"
    and "switch_reads (SessionResponse_switch W) 18 (read_message W (User_decode W)) (store_some SessionResponse_user_update)"
  by (simp_all add: switch_reads_def SessionResponse_switch_def)

lemma SessionResponse_good: "good_switch W valid k (SessionResponse_switch W)"
  unfolding good_switch_def SessionResponse_switch_def User_decode_def
  by (auto intro!: good_step_case_read rString_safe rBool_safe safe_read_message [OF User.dec_safe])

lemma SessionResponse_runs:
  assumes "SessionResponse_fits m"
  shows "runs W valid rest k (SessionResponse_switch W) (SessionResponse_bytes m) (\<lambda>m0. SessionResponse_merge m0 m)"
  unfolding SessionResponse_bytes_def concat.simps
  by (rule runs_cong,
      (rule runs_append runs_Nil read_str_field User.read_opt_sub
         SessionResponse_reads [unfolded User_decode_def] SessionResponse_parts [OF assms]
       | erule SessionResponse_user_fits [OF assms]
       | assumption | simp; fail)+,
      simp add: SessionResponse_merge_def)

end

sublocale wire_laws \<subseteq> SessionResponse: switch_codec W buf valid rest "SessionResponse_encode W" "SessionResponse_switch W"
    createBaseSessionResponse SessionResponse_bytes SessionResponse_fits "\<lambda>m. m" SessionResponse_merge
proof unfold_locales
  show "SessionResponse_merge createBaseSessionResponse m = m" for m
    by (cases m) (auto simp: SessionResponse_merge_def createBaseSessionResponse_def split: option.split)
qed (simp_all add: SessionResponse_writes SessionResponse_good SessionResponse_runs, simp add: SessionResponse_fits_def)

context wire_laws
begin

lemma UpdateProfileRequest_parts:
  assumes "UpdateProfileRequest_fits m"
  shows "length (str_field 10 (UpdateProfileRequest_username m)) < 2 ^ 32"
  using assms by (simp_all add: UpdateProfileRequest_fits_def UpdateProfileRequest_bytes_def)

lemma UpdateProfileRequest_writes:
  assumes "UpdateProfileRequest_fits m"
  shows "appends buf (UpdateProfileRequest_encode W m) (UpdateProfileRequest_bytes m)"
  unfolding UpdateProfileRequest_encode_def UpdateProfileRequest_bytes_def concat.simps
  by (intro appends_run_Cons appends_run_Nil enc_str_field UpdateProfileRequest_parts [OF assms])

lemma UpdateProfileRequest_reads:
  shows "switch_reads (UpdateProfileRequest_switch W) 10 (rString W) (store UpdateProfileRequest_username_update)"
  by (simp_all add: switch_reads_def UpdateProfileRequest_switch_def)

lemma UpdateProfileRequest_good: "good_switch W valid k (UpdateProfileRequest_switch W)"
  unfolding good_switch_def UpdateProfileRequest_switch_def 
  by (auto intro!: good_step_case_read rString_safe rBool_safe )

lemma UpdateProfileRequest_runs:
  assumes "UpdateProfileRequest_fits m"
  shows "runs W valid rest k (UpdateProfileRequest_switch W) (UpdateProfileRequest_bytes m) (\<lambda>m0. UpdateProfileRequest_merge m0 m)"
  unfolding UpdateProfileRequest_bytes_def concat.simps
  by (rule runs_cong,
      (rule runs_append runs_Nil read_str_field
         UpdateProfileRequest_reads UpdateProfileRequest_parts [OF assms]
       | assumption | simp; fail)+,
      simp add: UpdateProfileRequest_merge_def)

end

sublocale wire_laws \<subseteq> UpdateProfileRequest: switch_codec W buf valid rest "UpdateProfileRequest_encode W" "UpdateProfileRequest_switch W"
    createBaseUpdateProfileRequest UpdateProfileRequest_bytes UpdateProfileRequest_fits "\<lambda>m. m" UpdateProfileRequest_merge
proof unfold_locales
  show "UpdateProfileRequest_merge createBaseUpdateProfileRequest m = m" for m
    by (cases m) (auto simp: UpdateProfileRequest_merge_def createBaseUpdateProfileRequest_def split: option.split)
qed (simp_all add: UpdateProfileRequest_writes UpdateProfileRequest_good UpdateProfileRequest_runs, simp add: UpdateProfileRequest_fits_def)

context wire_laws
begin

lemma GetCurrentUserRequest_writes:
  assumes "GetCurrentUserRequest_fits m"
  shows "appends buf (GetCurrentUserRequest_encode W m) (GetCurrentUserRequest_bytes m)"
  unfolding GetCurrentUserRequest_encode_def GetCurrentUserRequest_bytes_def concat.simps
  by (rule appends_run_Nil)

lemma GetCurrentUserRequest_good: "good_switch W valid k (GetCurrentUserRequest_switch W)"
  by (simp add: good_switch_def GetCurrentUserRequest_switch_def)

lemma GetCurrentUserRequest_runs:
  assumes "GetCurrentUserRequest_fits m"
  shows "runs W valid rest k (GetCurrentUserRequest_switch W) (GetCurrentUserRequest_bytes m) (\<lambda>m0. GetCurrentUserRequest_merge m0 m)"
  by (simp add: GetCurrentUserRequest_bytes_def GetCurrentUserRequest_merge_def runs_Nil)

end

sublocale wire_laws \<subseteq> GetCurrentUserRequest: switch_codec W buf valid rest "GetCurrentUserRequest_encode W" "GetCurrentUserRequest_switch W"
    createBaseGetCurrentUserRequest GetCurrentUserRequest_bytes GetCurrentUserRequest_fits "\<lambda>m. m" GetCurrentUserRequest_merge
proof unfold_locales
  show "GetCurrentUserRequest_merge createBaseGetCurrentUserRequest m = m" for m
    by (cases m) (auto simp: GetCurrentUserRequest_merge_def createBaseGetCurrentUserRequest_def split: option.split)
qed (simp_all add: GetCurrentUserRequest_writes GetCurrentUserRequest_good GetCurrentUserRequest_runs, simp add: GetCurrentUserRequest_fits_def)

context wire_laws
begin

lemma ListUsersRequest_writes:
  assumes "ListUsersRequest_fits m"
  shows "appends buf (ListUsersRequest_encode W m) (ListUsersRequest_bytes m)"
  unfolding ListUsersRequest_encode_def ListUsersRequest_bytes_def concat.simps
  by (rule appends_run_Nil)

lemma ListUsersRequest_good: "good_switch W valid k (ListUsersRequest_switch W)"
  by (simp add: good_switch_def ListUsersRequest_switch_def)

lemma ListUsersRequest_runs:
  assumes "ListUsersRequest_fits m"
  shows "runs W valid rest k (ListUsersRequest_switch W) (ListUsersRequest_bytes m) (\<lambda>m0. ListUsersRequest_merge m0 m)"
  by (simp add: ListUsersRequest_bytes_def ListUsersRequest_merge_def runs_Nil)

end

sublocale wire_laws \<subseteq> ListUsersRequest: switch_codec W buf valid rest "ListUsersRequest_encode W" "ListUsersRequest_switch W"
    createBaseListUsersRequest ListUsersRequest_bytes ListUsersRequest_fits "\<lambda>m. m" ListUsersRequest_merge
proof unfold_locales
  show "ListUsersRequest_merge createBaseListUsersRequest m = m" for m
    by (cases m) (auto simp: ListUsersRequest_merge_def createBaseListUsersRequest_def split: option.split)
qed (simp_all add: ListUsersRequest_writes ListUsersRequest_good ListUsersRequest_runs, simp add: ListUsersRequest_fits_def)

context wire_laws
begin

lemma ListUsersResponse_parts:
  assumes "ListUsersResponse_fits m"
  shows "length (rep_msg_field 10 User_bytes (ListUsersResponse_users m)) < 2 ^ 32"
  using assms by (simp_all add: ListUsersResponse_fits_def ListUsersResponse_bytes_def)

lemma ListUsersResponse_users_fits:
  assumes "ListUsersResponse_fits m" and "v \<in> set (ListUsersResponse_users m)"
  shows "User_fits v"
  using rep_msg_bound [OF ListUsersResponse_parts [OF assms(1)] assms(2)] by (simp add: User_fits_def)

lemma ListUsersResponse_writes:
  assumes "ListUsersResponse_fits m"
  shows "appends buf (ListUsersResponse_encode W m) (ListUsersResponse_bytes m)"
  unfolding ListUsersResponse_encode_def ListUsersResponse_bytes_def concat.simps
  by (rule appends_run_Cons appends_run_Nil User.enc_rep_sub ListUsersResponse_parts [OF assms] | erule ListUsersResponse_users_fits [OF assms])+

lemma ListUsersResponse_reads:
  shows "switch_reads (ListUsersResponse_switch W) 10 (read_message W (User_decode W)) (push ListUsersResponse_users_update)"
  by (simp_all add: switch_reads_def ListUsersResponse_switch_def)

lemma ListUsersResponse_good: "good_switch W valid k (ListUsersResponse_switch W)"
  unfolding good_switch_def ListUsersResponse_switch_def User_decode_def
  by (auto intro!: good_step_case_read rString_safe rBool_safe safe_read_message [OF User.dec_safe])

lemma ListUsersResponse_runs:
  assumes "ListUsersResponse_fits m"
  shows "runs W valid rest k (ListUsersResponse_switch W) (ListUsersResponse_bytes m) (\<lambda>m0. ListUsersResponse_merge m0 m)"
  unfolding ListUsersResponse_bytes_def concat.simps
  by (rule runs_cong,
      (rule runs_append runs_Nil User.read_rep_sub
         ListUsersResponse_reads [unfolded User_decode_def] ListUsersResponse_parts [OF assms]
       | erule ListUsersResponse_users_fits [OF assms]
       | assumption | simp; fail)+,
      simp add: ListUsersResponse_merge_def)

end

sublocale wire_laws \<subseteq> ListUsersResponse: switch_codec W buf valid rest "ListUsersResponse_encode W" "ListUsersResponse_switch W"
    createBaseListUsersResponse ListUsersResponse_bytes ListUsersResponse_fits "\<lambda>m. m" ListUsersResponse_merge
proof unfold_locales
  show "ListUsersResponse_merge createBaseListUsersResponse m = m" for m
    by (cases m) (auto simp: ListUsersResponse_merge_def createBaseListUsersResponse_def split: option.split)
qed (simp_all add: ListUsersResponse_writes ListUsersResponse_good ListUsersResponse_runs, simp add: ListUsersResponse_fits_def)

section \<open>JSON forms read back\<close>

interpretation GoogleLoginRequest_json: json_codec GoogleLoginRequest_toJSON GoogleLoginRequest_fromJSON "\<lambda>m. m"
proof unfold_locales
  show "GoogleLoginRequest_fromJSON (GoogleLoginRequest_toJSON m) = Inr m" for m
    by (cases m) (auto simp: GoogleLoginRequest_fromJSON_def GoogleLoginRequest_toJSON_def json_read_back )
qed (simp add: GoogleLoginRequest_toJSON_def)

interpretation User_json: json_codec User_toJSON User_fromJSON "\<lambda>m. m"
proof unfold_locales
  show "User_fromJSON (User_toJSON m) = Inr m" for m
    by (cases m) (auto simp: User_fromJSON_def User_toJSON_def json_read_back )
qed (simp add: User_toJSON_def)

interpretation SessionResponse_json: json_codec SessionResponse_toJSON SessionResponse_fromJSON "\<lambda>m. m"
proof unfold_locales
  show "SessionResponse_fromJSON (SessionResponse_toJSON m) = Inr m" for m
    by (cases m) (auto simp: SessionResponse_fromJSON_def SessionResponse_toJSON_def json_read_back User_json.json_nested split: option.split)
qed (simp add: SessionResponse_toJSON_def)

interpretation UpdateProfileRequest_json: json_codec UpdateProfileRequest_toJSON UpdateProfileRequest_fromJSON "\<lambda>m. m"
proof unfold_locales
  show "UpdateProfileRequest_fromJSON (UpdateProfileRequest_toJSON m) = Inr m" for m
    by (cases m) (auto simp: UpdateProfileRequest_fromJSON_def UpdateProfileRequest_toJSON_def json_read_back )
qed (simp add: UpdateProfileRequest_toJSON_def)

interpretation GetCurrentUserRequest_json: json_codec GetCurrentUserRequest_toJSON GetCurrentUserRequest_fromJSON "\<lambda>m. m"
proof unfold_locales
  show "GetCurrentUserRequest_fromJSON (GetCurrentUserRequest_toJSON m) = Inr m" for m
    by (cases m) (auto simp: GetCurrentUserRequest_fromJSON_def GetCurrentUserRequest_toJSON_def json_read_back )
qed (simp add: GetCurrentUserRequest_toJSON_def)

interpretation ListUsersRequest_json: json_codec ListUsersRequest_toJSON ListUsersRequest_fromJSON "\<lambda>m. m"
proof unfold_locales
  show "ListUsersRequest_fromJSON (ListUsersRequest_toJSON m) = Inr m" for m
    by (cases m) (auto simp: ListUsersRequest_fromJSON_def ListUsersRequest_toJSON_def json_read_back )
qed (simp add: ListUsersRequest_toJSON_def)

interpretation ListUsersResponse_json: json_codec ListUsersResponse_toJSON ListUsersResponse_fromJSON "\<lambda>m. m"
proof unfold_locales
  show "ListUsersResponse_fromJSON (ListUsersResponse_toJSON m) = Inr m" for m
    by (cases m) (auto simp: ListUsersResponse_fromJSON_def ListUsersResponse_toJSON_def json_read_back User_json.json_nested)
qed (simp add: ListUsersResponse_toJSON_def)

end
