(* ===== verification/Auth_Api.thy ===== *)
theory Auth_Api
  imports Auth_Messages
begin

text \<open>
  \<^verbatim>\<open>web/src/api/auth.ts\<close>: the fetch wrappers around the AuthService endpoints. \<^verbatim>\<open>fetch\<close> is
  an argument of every function: it takes the request and either throws (the network failed)
  or gives a response. A response carries its status and what \<^verbatim>\<open>text()\<close> and \<^verbatim>\<open>json()\<close>
  would give, each of which may throw. The theory also holds the facts on the wrappers that
  the components calling them share.
\<close>

section \<open>Requests and responses\<close>

record request_init =
  init_method :: string
  init_headers :: "(string \<times> string) list option"
  init_body :: "string option"

record http_request =
  req_url :: string
  req_method :: string
  req_headers :: "(string \<times> string) list"
  req_body :: "string option"

record response =
  status :: nat
  text_result :: "string res"
  json_result :: "jsval res"

type_synonym fetch = "http_request \<Rightarrow> response res"

text \<open>\<^verbatim>\<open>Response.ok\<close>: the status is in the range 200 to 299.\<close>

definition response_ok :: "response \<Rightarrow> bool" where
  "response_ok res \<longleftrightarrow> 200 \<le> status res \<and> status res < 300"

section \<open>\<^verbatim>\<open>request\<close>\<close>

text \<open>\<open>kong\<close> is \<^verbatim>\<open>import.meta.env.VITE_KONG_BASE\<close>, which may be \<^verbatim>\<open>undefined\<close>.\<close>

definition API_BASE :: "string option \<Rightarrow> string" where
  "API_BASE kong = nullish kong '''' @ ''/greeter/api''"

text \<open>\<^verbatim>\<open>{ 'Content-Type': ..., ...(init.headers ?? {}) }\<close>, then the conditional assignment.\<close>

definition request_headers :: "request_init \<Rightarrow> string option \<Rightarrow> (string \<times> string) list" where
  "request_headers init jwt =
     (let headers = fold (\<lambda>(k, v) hs. AList.update k v hs) (nullish (init_headers init) [])
                      [(''Content-Type'', ''application/json'')]
      in case jwt of
           None \<Rightarrow> headers
         | Some t \<Rightarrow> if t \<noteq> '''' then AList.update ''Authorization'' (''Bearer '' @ t) headers else headers)"

definition build_request :: "string option \<Rightarrow> string \<Rightarrow> request_init \<Rightarrow> string option \<Rightarrow> http_request" where
  "build_request kong path init jwt =
     \<lparr>req_url = API_BASE kong @ path, req_method = init_method init,
      req_headers = request_headers init jwt, req_body = init_body init\<rparr>"

text \<open>\<^verbatim>\<open>`${res.status}: ${await res.text()}`\<close>\<close>

definition status_error :: "response \<Rightarrow> 'a res" where
  "status_error res = rbind (text_result res) (\<lambda>t. Inl (Error (nat_to_string (status res) @ '': '' @ t)))"

definition read_response :: "response \<Rightarrow> jsval res" where
  "read_response res =
     (if status res = 401 then rbind (text_result res) (\<lambda>t. Inl (AuthError t))
      else if \<not> response_ok res then status_error res
      else json_result res)"

definition request :: "fetch \<Rightarrow> string option \<Rightarrow> string \<Rightarrow> request_init \<Rightarrow> string option \<Rightarrow> jsval res" where
  "request fetch kong path init jwt = rbind (fetch (build_request kong path init jwt)) read_response"

section \<open>The endpoints\<close>

definition login_body :: "string \<Rightarrow> jsval" where
  "login_body idToken = JObj [(''id_token'', JStr idToken)]"

definition loginWithGoogle :: "fetch \<Rightarrow> string option \<Rightarrow> string \<Rightarrow> jsval res" where
  "loginWithGoogle fetch kong idToken =
     request fetch kong ''/auth/login''
       \<lparr>init_method = ''POST'', init_headers = None, init_body = json_stringify (login_body idToken)\<rparr> None"

definition getCurrentUser :: "fetch \<Rightarrow> string option \<Rightarrow> string \<Rightarrow> jsval res" where
  "getCurrentUser fetch kong jwt =
     request fetch kong ''/auth/me''
       \<lparr>init_method = ''GET'', init_headers = None, init_body = None\<rparr> (Some jwt)"

definition profile_body :: "string \<Rightarrow> jsval" where
  "profile_body username = JObj [(''username'', JStr username)]"

definition updateProfile :: "fetch \<Rightarrow> string option \<Rightarrow> string \<Rightarrow> string \<Rightarrow> jsval res" where
  "updateProfile fetch kong jwt username =
     request fetch kong ''/auth/me''
       \<lparr>init_method = ''POST'', init_headers = None, init_body = json_stringify (profile_body username)\<rparr>
       (Some jwt)"

section \<open>Lemmas\<close>

text \<open>
  What the platform promises of \<open>fetch\<close>: the exceptions of \<^verbatim>\<open>fetch\<close>, \<^verbatim>\<open>text\<close> and \<^verbatim>\<open>json\<close>
  are the platform's, never the class \<^verbatim>\<open>AuthError\<close> that this file defines.
\<close>

definition platform_error :: "js_error \<Rightarrow> bool" where
  "platform_error e \<longleftrightarrow> (\<exists>s. e = TypeError s \<or> e = SyntaxError s \<or> e = RangeError s)"

definition platform_answer :: "response res \<Rightarrow> bool" where
  "platform_answer answer \<longleftrightarrow>
     (case answer of
        Inl e \<Rightarrow> platform_error e
      | Inr res \<Rightarrow> (\<forall>e. text_result res = Inl e \<longrightarrow> platform_error e) \<and>
                   (\<forall>e. json_result res = Inl e \<longrightarrow> platform_error e))"

definition platform_fetch :: "fetch \<Rightarrow> bool" where
  "platform_fetch fetch \<longleftrightarrow> (\<forall>req. platform_answer (fetch req))"

lemma response_ok_401: "response_ok res \<Longrightarrow> status res \<noteq> 401"
  by (simp add: response_ok_def)

lemma read_response_AuthError:
  assumes "\<And>e. text_result res = Inl e \<Longrightarrow> platform_error e"
    and "\<And>e. json_result res = Inl e \<Longrightarrow> platform_error e"
  shows "read_response res = Inl (AuthError t) \<longleftrightarrow> status res = 401 \<and> text_result res = Inr t"
  using assms
  by (auto simp: read_response_def status_error_def rbind_eq_Inl platform_error_def)

lemma read_response_Inr:
  "read_response res = Inr v \<longleftrightarrow> response_ok res \<and> json_result res = Inr v"
  by (auto simp: read_response_def status_error_def rbind_eq_Inr response_ok_def)

lemma request_AuthError:
  assumes "platform_answer (fetch (build_request kong path init jwt))"
  shows "request fetch kong path init jwt = Inl (AuthError t) \<longleftrightarrow>
    (\<exists>res. fetch (build_request kong path init jwt) = Inr res \<and> status res = 401 \<and> text_result res = Inr t)"
proof (cases "fetch (build_request kong path init jwt)")
  case (Inl e)
  with assms show ?thesis by (auto simp: platform_answer_def request_def platform_error_def)
next
  case (Inr res)
  with assms read_response_AuthError [of res t] show ?thesis
    by (simp add: platform_answer_def request_def)
qed

text \<open>A request depends on the network only through the answer to the request it sends.\<close>

lemma request_answer: "request fetch kong path init jwt = request (\<lambda>_. fetch (build_request kong path init jwt)) kong path init jwt"
  by (simp add: request_def)

definition me_request :: "string option \<Rightarrow> string \<Rightarrow> http_request" where
  "me_request kong jwt =
     build_request kong ''/auth/me'' \<lparr>init_method = ''GET'', init_headers = None, init_body = None\<rparr> (Some jwt)"

lemma getCurrentUser_answer: "getCurrentUser fetch kong t = getCurrentUser (\<lambda>_. fetch (me_request kong t)) kong t"
  by (simp add: getCurrentUser_def me_request_def request_def)

lemma getCurrentUser_AuthError_iff:
  assumes "platform_answer answer"
  shows "getCurrentUser (\<lambda>_. answer) kong c = Inl (AuthError t) \<longleftrightarrow>
    (\<exists>res. answer = Inr res \<and> status res = 401 \<and> text_result res = Inr t)"
  unfolding getCurrentUser_def using request_AuthError [where fetch = "\<lambda>_. answer"] assms by simp

lemma getCurrentUser_Inr_iff:
  "getCurrentUser (\<lambda>_. answer) kong c = Inr v \<longleftrightarrow>
    (\<exists>res. answer = Inr res \<and> response_ok res \<and> json_result res = Inr v)"
  by (simp add: getCurrentUser_def request_def rbind_eq_Inr read_response_Inr)

lemma request_Inr:
  "request fetch kong path init jwt = Inr v \<longleftrightarrow>
    (\<exists>res. fetch (build_request kong path init jwt) = Inr res \<and> response_ok res \<and> json_result res = Inr v)"
  by (simp add: request_def rbind_eq_Inr read_response_Inr)

text \<open>Assigning a header changes no other and keeps the names of the headers distinct.\<close>

definition other_headers :: "string \<Rightarrow> (string \<times> string) list \<Rightarrow> (string \<times> string) list" where
  "other_headers k hs = [h \<leftarrow> hs. fst h \<noteq> k]"

lemma other_headers_update: "other_headers k (AList.update k v hs) = other_headers k hs"
  by (induction hs) (auto simp: other_headers_def)

lemma map_of_fold_update:
  "map_of (fold (\<lambda>(k, v) hs. AList.update k v hs) kvs hs) = map_of hs ++ map_of (rev kvs)"
  by (induction kvs arbitrary: hs) (auto simp: update_conv' map_add_upd_left map_add_def split: option.split)

lemma distinct_fold_update:
  "distinct (map fst hs) \<Longrightarrow> distinct (map fst (fold (\<lambda>(k, v) hs. AList.update k v hs) kvs hs))"
  by (induction kvs arbitrary: hs) (auto simp: distinct_update)

lemma request_headers_plain:
  "map_of (request_headers init None) =
     [''Content-Type'' \<mapsto> ''application/json''] ++ map_of (rev (nullish (init_headers init) []))"
  by (simp add: request_headers_def map_of_fold_update)

lemma request_headers_token:
  "request_headers init (Some t) =
     (if t = [] then request_headers init None
      else AList.update ''Authorization'' (''Bearer '' @ t) (request_headers init None))"
  by (simp add: request_headers_def)

lemma request_headers_distinct: "distinct (map fst (request_headers init jwt))"
  by (cases jwt) (auto simp: request_headers_def Let_def distinct_update distinct_fold_update)

lemma request_headers_authorization:
  "init_headers init = None \<Longrightarrow> map_of (request_headers init jwt) ''Authorization'' =
    (case jwt of None \<Rightarrow> None | Some t \<Rightarrow> if t = [] then None else Some (''Bearer '' @ t))"
  by (cases jwt) (auto simp: request_headers_token request_headers_plain nullish_def update_conv')

end
