(* ===== verification/Auth_Context.thy ===== *)
theory Auth_Context
  imports Auth_Api
begin

text \<open>
  \<^verbatim>\<open>web/src/auth/AuthContext.tsx\<close> and \<^verbatim>\<open>web/src/auth/AuthBar.tsx\<close>: the life cycle of the
  session token and the strip that shows it. Each callback is a function on the state of
  the provider; the callbacks that wait for the network are the entries of \<open>restoring\<close> and
  \<open>logins\<close>, and the step relation \<open>auth_step\<close> lets any of them continue at any time.
  The values that come out of \<^verbatim>\<open>res.json()\<close> are kept as JavaScript values, because
  the code only asserts their type.
\<close>

section \<open>State\<close>

text \<open>
  A restoration is waiting for \<^verbatim>\<open>getCurrentUser(cached)\<close>, or it has been through
  \<^verbatim>\<open>then\<close> or \<^verbatim>\<open>catch\<close> and its \<^verbatim>\<open>finally\<close> is the next microtask. \<open>mounts\<close> counts the runs of the mount
  effect that are still to come: one in a production build, two in a development build,
  where React's strict mode (\<^verbatim>\<open>main.tsx\<close>) runs every effect twice. \<open>storage\<close> is
  \<^verbatim>\<open>localStorage\<close>.
\<close>

datatype restoration = Fetching string | Settled

record session =
  user :: jsval
  jwt :: jsval
  loading :: bool
  sessionExpired :: bool
  storage :: "string \<rightharpoonup> string"
  mounts :: nat
  restoring :: "restoration list"
  logins :: "string list"

definition STORAGE_KEY :: string where
  "STORAGE_KEY = ''sample_grpc_session_jwt''"

definition initial_session :: "nat \<Rightarrow> (string \<rightharpoonup> string) \<Rightarrow> session" where
  "initial_session n kept =
     \<lparr>user = JNull, jwt = JNull, loading = True, sessionExpired = False, storage = kept,
      mounts = n, restoring = [], logins = []\<rparr>"

section \<open>The provider's callbacks\<close>

text \<open>The body of \<^verbatim>\<open>useEffect\<close>: an absent and an empty token are both falsy.\<close>

definition restore_session :: "session \<Rightarrow> session" where
  "restore_session s =
     (case storage s STORAGE_KEY of
        None \<Rightarrow> s\<lparr>loading := False\<rparr>
      | Some cached \<Rightarrow>
          if cached = '''' then s\<lparr>loading := False\<rparr>
          else s\<lparr>restoring := restoring s @ [Fetching cached]\<rparr>)"

definition restore_then :: "string \<Rightarrow> jsval \<Rightarrow> session \<Rightarrow> session" where
  "restore_then cached u s = s\<lparr>jwt := JStr cached, user := u\<rparr>"

definition restore_catch :: "js_error \<Rightarrow> session \<Rightarrow> session" where
  "restore_catch err s =
     (let s' = (case err of AuthError _ \<Rightarrow> s\<lparr>sessionExpired := True\<rparr> | _ \<Rightarrow> s)
      in s'\<lparr>storage := (storage s')(STORAGE_KEY := None)\<rparr>)"

text \<open>\<^verbatim>\<open>getCurrentUser(cached).then(...).catch(...)\<close>\<close>

definition restore_settle :: "string \<Rightarrow> jsval res \<Rightarrow> session \<Rightarrow> session" where
  "restore_settle cached outcome s =
     (case outcome of Inr u \<Rightarrow> restore_then cached u s | Inl err \<Rightarrow> restore_catch err s)"

definition restore_finally :: "session \<Rightarrow> session" where
  "restore_finally s = s\<lparr>loading := False\<rparr>"

text \<open>
  \<^verbatim>\<open>localStorage.setItem\<close> converts its argument to a string, which may throw; then nothing
  of the rest of \<^verbatim>\<open>signIn\<close> happens.
\<close>

definition signIn :: "jsval \<Rightarrow> jsval \<Rightarrow> session \<Rightarrow> session res" where
  "signIn newJwt newUser s =
     rbind (js_String newJwt) (\<lambda>text.
       Inr (s\<lparr>storage := (storage s)(STORAGE_KEY := Some text), jwt := newJwt, user := newUser,
             sessionExpired := False\<rparr>))"

definition signOut :: "session \<Rightarrow> session" where
  "signOut s = s\<lparr>storage := (storage s)(STORAGE_KEY := None), jwt := JNull, user := JNull\<rparr>"

text \<open>
  \<^verbatim>\<open>useAuth\<close>: outside of every \<^verbatim>\<open>AuthProvider\<close> the context holds its default, \<^verbatim>\<open>undefined\<close>, and the
  hook throws.
\<close>

definition AuthContext_default :: "session option" where
  "AuthContext_default = None"

definition useAuth :: "session option \<Rightarrow> session res" where
  "useAuth ctx =
     (case ctx of
        None \<Rightarrow> Inl (Error ''useAuth must be used within an AuthProvider'')
      | Some s \<Rightarrow> Inr s)"

section \<open>AuthBar\<close>

text \<open>
  What is rendered. The name of a signed-in user is \<^verbatim>\<open>user.username || user.displayName\<close>,
  the badge is present when \<^verbatim>\<open>user.isAdmin\<close> is truthy.
\<close>

datatype view = Waiting | SignedIn jsval bool | SignedOut bool

definition AuthBar :: "session \<Rightarrow> view" where
  "AuthBar s =
     (if loading s then Waiting
      else if js_Boolean (user s) then
        SignedIn (js_or (js_opt_get (user s) ''username'') (js_opt_get (user s) ''displayName''))
                 (js_Boolean (js_opt_get (user s) ''isAdmin''))
      else SignedOut (sessionExpired s))"

text \<open>The component as React calls it, below the context value \<open>ctx\<close>.\<close>

definition render_AuthBar :: "session option \<Rightarrow> view res" where
  "render_AuthBar ctx = rbind (useAuth ctx) (\<lambda>s. Inr (AuthBar s))"

text \<open>
  \<^verbatim>\<open>handleGoogleSuccess\<close> up to its \<^verbatim>\<open>await\<close>, and after it: \<open>outcome\<close> is what
  \<^verbatim>\<open>loginWithGoogle\<close> gave. Every exception of the \<^verbatim>\<open>try\<close> block is only logged.
\<close>

definition google_success :: "string option \<Rightarrow> session \<Rightarrow> session" where
  "google_success credential s =
     (case credential of
        None \<Rightarrow> s
      | Some c \<Rightarrow> if c = '''' then s else s\<lparr>logins := logins s @ [c]\<rparr>)"

definition login_finish :: "jsval res \<Rightarrow> session \<Rightarrow> session" where
  "login_finish outcome s =
     (case rbind outcome (\<lambda>session.
             rbind (js_get session ''jwt'') (\<lambda>newJwt.
               rbind (js_get session ''user'') (\<lambda>newUser. signIn newJwt newUser s))) of
        Inl err \<Rightarrow> s
      | Inr s' \<Rightarrow> s')"

section \<open>Steps\<close>

text \<open>
  The events of the running page. \<open>Me_Reply c answer\<close> is the network's answer (or failure) for
  the pending restoration of the token \<open>c\<close>, \<open>Login_Reply c answer\<close> that for the pending
  exchange of the credential \<open>c\<close>; any answer the platform allows may come. The Google button
  can only be used once it has been rendered, and \<open>loading\<close> never becomes true again; the
  sign-out button is there while a user is shown. \<open>Other_Key\<close> is any other code on the origin
  that uses the storage under a key of its own; writes under the page's key by other pages of
  this application are added by \<open>shared_step\<close> below.
\<close>

datatype auth_event =
    Mount
  | Me_Reply string "response res"
  | Restore_Finally
  | Credential "string option"
  | Login_Reply string "response res"
  | Sign_Out
  | Other_Key string "string option"

inductive auth_step :: "string option \<Rightarrow> session \<Rightarrow> auth_event \<Rightarrow> session \<Rightarrow> bool" for kong where
  step_mount: "mounts s = Suc n \<Longrightarrow>
     auth_step kong s Mount (restore_session (s\<lparr>mounts := n\<rparr>))"
| step_me_reply: "restoring s = xs @ Fetching cached # ys \<Longrightarrow> platform_answer answer \<Longrightarrow>
     auth_step kong s (Me_Reply cached answer)
       (restore_settle cached (getCurrentUser (\<lambda>_. answer) kong cached) (s\<lparr>restoring := xs @ Settled # ys\<rparr>))"
| step_restore_finally: "restoring s = xs @ Settled # ys \<Longrightarrow>
     auth_step kong s Restore_Finally (restore_finally (s\<lparr>restoring := xs @ ys\<rparr>))"
| step_credential: "\<not> loading s \<Longrightarrow>
     auth_step kong s (Credential c) (google_success c s)"
| step_login_reply: "logins s = xs @ c # ys \<Longrightarrow> platform_answer answer \<Longrightarrow>
     auth_step kong s (Login_Reply c answer)
       (login_finish (loginWithGoogle (\<lambda>_. answer) kong c) (s\<lparr>logins := xs @ ys\<rparr>))"
| step_sign_out: "AuthBar s = SignedIn name admin \<Longrightarrow>
     auth_step kong s Sign_Out (signOut s)"
| step_other_key: "k \<noteq> STORAGE_KEY \<Longrightarrow>
     auth_step kong s (Other_Key k v) (s\<lparr>storage := (storage s)(k := v)\<rparr>)"

inductive auth_run :: "string option \<Rightarrow> session \<Rightarrow> auth_event list \<Rightarrow> session \<Rightarrow> bool" for kong where
  run_start: "auth_run kong s [] s"
| run_step: "auth_run kong s es t \<Longrightarrow> auth_step kong t e u \<Longrightarrow> auth_run kong s (es @ [e]) u"

definition reachable :: "string option \<Rightarrow> nat \<Rightarrow> session \<Rightarrow> bool" where
  "reachable kong n s \<longleftrightarrow> (\<exists>kept es. auth_run kong (initial_session n kept) es s)"

inductive_cases me_replyE: "auth_step kong s (Me_Reply cached answer) t"
inductive_cases sign_outE: "auth_step kong s Sign_Out t"

lemmas handler_defs = restore_session_def restore_settle_def restore_then_def restore_catch_def
  restore_finally_def google_success_def signOut_def

section \<open>The invariant of a production page\<close>

text \<open>
  This section is about a page that is alone in writing its key (\<open>auth_step\<close>).
  \<open>session_consistent\<close>: the storage holds exactly the text of the token in the state, and a
  page without a stored token shows nobody. (An empty stored text counts as no token.)
\<close>

definition session_consistent :: "session \<Rightarrow> bool" where
  "session_consistent s \<longleftrightarrow>
     (case storage s STORAGE_KEY of
        None \<Rightarrow> jwt s = JNull \<and> user s = JNull
      | Some t \<Rightarrow> js_String (jwt s) = Inr t \<or> t = '''' \<and> jwt s = JNull \<and> user s = JNull)"

text \<open>The four phases of a page whose mount effect runs once.\<close>

definition unmounted :: "session \<Rightarrow> bool" where
  "unmounted s \<longleftrightarrow> mounts s = 1 \<and> restoring s = [] \<and> loading s \<and> logins s = [] \<and>
     jwt s = JNull \<and> user s = JNull"

definition fetching :: "session \<Rightarrow> bool" where
  "fetching s \<longleftrightarrow> mounts s = 0 \<and> loading s \<and> logins s = [] \<and> jwt s = JNull \<and> user s = JNull \<and>
     (\<exists>c. restoring s = [Fetching c] \<and> storage s STORAGE_KEY = Some c \<and> c \<noteq> '''')"

definition settled :: "session \<Rightarrow> bool" where
  "settled s \<longleftrightarrow> mounts s = 0 \<and> loading s \<and> logins s = [] \<and> restoring s = [Settled] \<and> session_consistent s"

definition ready :: "session \<Rightarrow> bool" where
  "ready s \<longleftrightarrow> mounts s = 0 \<and> \<not> loading s \<and> restoring s = [] \<and> session_consistent s"

definition session_inv :: "session \<Rightarrow> bool" where
  "session_inv s \<longleftrightarrow> unmounted s \<or> fetching s \<or> settled s \<or> ready s"

lemmas phase_defs = unmounted_def fetching_def settled_def ready_def

lemma session_consistent_frame:
  "k \<noteq> STORAGE_KEY \<Longrightarrow> session_consistent (s\<lparr>storage := (storage s)(k := v)\<rparr>) = session_consistent s"
  "session_consistent (s\<lparr>logins := cs\<rparr>) = session_consistent s"
  "session_consistent (s\<lparr>restoring := rs\<rparr>) = session_consistent s"
  "session_consistent (s\<lparr>loading := b\<rparr>) = session_consistent s"
  "session_consistent (s\<lparr>mounts := n\<rparr>) = session_consistent s"
  by (simp_all add: session_consistent_def split: option.split)

lemma login_finish_consistent:
  assumes "session_consistent s"
  shows "session_consistent (login_finish outcome s)"
  using assms
  by (auto simp: login_finish_def signIn_def session_consistent_def rbind_def split: sum.splits option.splits)

lemma login_finish_frame:
  "loading (login_finish outcome s) = loading s"
  "mounts (login_finish outcome s) = mounts s"
  "restoring (login_finish outcome s) = restoring s"
  "logins (login_finish outcome s) = logins s"
  by (auto simp: login_finish_def signIn_def rbind_def split: sum.splits)

lemma singleton_split: "xs @ y # ys = [z] \<longleftrightarrow> xs = [] \<and> y = z \<and> ys = []"
  by (cases xs) auto

lemma auth_step_inv:
  assumes "auth_step kong s e t" and "session_inv s"
  shows "session_inv t"
  using assms(1)
proof cases
  case (step_mount n)
  with assms(2) have s: "unmounted s" by (auto simp: session_inv_def phase_defs)
  with step_mount have n: "n = 0" by (simp add: unmounted_def)
  show ?thesis
  proof (cases "storage s STORAGE_KEY")
    case None
    with s step_mount n show ?thesis
      by (simp add: session_inv_def phase_defs restore_session_def session_consistent_def)
  next
    case (Some c)
    with s step_mount n show ?thesis
      by (cases "c = []") (simp_all add: session_inv_def phase_defs restore_session_def session_consistent_def)
  qed
next
  case (step_me_reply xs cached ys answer)
  with assms(2) have "fetching s" "xs = []" "ys = []"
    by (auto simp: session_inv_def phase_defs singleton_split)
  with step_me_reply have "settled t"
    by (auto simp: phase_defs restore_settle_def restore_then_def restore_catch_def session_consistent_def Let_def
        split: js_error.split sum.split)
  then show ?thesis by (simp add: session_inv_def)
next
  case (step_restore_finally xs ys)
  with assms(2) have "settled s" "xs = []" "ys = []"
    by (auto simp: session_inv_def phase_defs singleton_split)
  with step_restore_finally have "ready t"
    by (simp add: phase_defs restore_finally_def session_consistent_frame)
  then show ?thesis by (simp add: session_inv_def)
next
  case (step_credential c)
  with assms(2) have "ready s" by (auto simp: session_inv_def phase_defs)
  with step_credential have "ready t"
    by (simp add: phase_defs google_success_def session_consistent_frame split: option.split)
  then show ?thesis by (simp add: session_inv_def)
next
  case (step_login_reply xs c ys answer)
  with assms(2) have "ready s" by (auto simp: session_inv_def phase_defs)
  with step_login_reply have "ready t"
    by (simp add: phase_defs login_finish_frame login_finish_consistent session_consistent_frame)
  then show ?thesis by (simp add: session_inv_def)
next
  case (step_sign_out name admin)
  then have "\<not> loading s" by (auto simp: AuthBar_def split: if_splits)
  with assms(2) have "ready s" by (auto simp: session_inv_def phase_defs)
  with step_sign_out have "ready t"
    by (simp add: phase_defs signOut_def session_consistent_def)
  then show ?thesis by (simp add: session_inv_def)
next
  case (step_other_key k v)
  with assms(2) show ?thesis
    by (simp add: session_inv_def phase_defs session_consistent_frame)
qed

lemma auth_run_inv: "auth_run kong s es t \<Longrightarrow> session_inv s \<Longrightarrow> session_inv t"
  by (induction rule: auth_run.induct) (auto intro: auth_step_inv)

lemma initial_inv: "session_inv (initial_session 1 kept)"
  by (simp add: session_inv_def unmounted_def initial_session_def)

lemma reachable_inv: "reachable kong 1 s \<Longrightarrow> session_inv s"
  unfolding reachable_def using auth_run_inv initial_inv by blast

lemma ready_when_loaded: "session_inv s \<Longrightarrow> \<not> loading s \<Longrightarrow> ready s"
  by (auto simp: session_inv_def phase_defs)

section \<open>Runs\<close>

lemma auth_run_append:
  "auth_run kong t fs u \<Longrightarrow> auth_run kong s es t \<Longrightarrow> auth_run kong s (es @ fs) u"
proof (induction rule: auth_run.induct)
  case (run_start t)
  then show ?case by simp
next
  case (run_step t fs u f v)
  then have "auth_run kong s ((es @ fs) @ [f]) v" by (blast intro: auth_run.run_step)
  then show ?case by simp
qed

lemma auth_run_Cons: "auth_step kong s e t \<Longrightarrow> auth_run kong t es u \<Longrightarrow> auth_run kong s (e # es) u"
  using auth_run_append [of kong t es u s "[e]"] run_step [OF run_start, of kong s e t] by simp

lemma reachable_step: "reachable kong n s \<Longrightarrow> auth_step kong s e t \<Longrightarrow> reachable kong n t"
  unfolding reachable_def using run_step by blast

section \<open>Loading a page with a stored token\<close>

definition waiting_page :: "(string \<rightharpoonup> string) \<Rightarrow> string \<Rightarrow> session" where
  "waiting_page kept t =
     \<lparr>user = JNull, jwt = JNull, loading = True, sessionExpired = False, storage = kept,
      mounts = 0, restoring = [Fetching t], logins = []\<rparr>"

lemma page_mount:
  "kept STORAGE_KEY = Some t \<Longrightarrow> t \<noteq> [] \<Longrightarrow> auth_step kong (initial_session 1 kept) Mount (waiting_page kept t)"
  using step_mount [of "initial_session 1 kept" 0 kong]
  by (simp add: initial_session_def restore_session_def waiting_page_def)

lemma settled_run:
  "restoring s = [Settled] \<Longrightarrow> auth_run kong s [Restore_Finally] (s\<lparr>restoring := [], loading := False\<rparr>)"
  using auth_run_Cons [OF step_restore_finally [of s "[]" "[]" kong] run_start]
  by (simp add: restore_finally_def)

lemma waiting_page_reply:
  assumes "platform_answer answer"
  shows "auth_step kong (waiting_page kept t) (Me_Reply t answer)
    (restore_settle t (getCurrentUser (\<lambda>_. answer) kong t) ((waiting_page kept t)\<lparr>restoring := [Settled]\<rparr>))"
  using step_me_reply [of "waiting_page kept t" "[]" t "[]" answer kong] assms
  by (simp add: waiting_page_def)

text \<open>The page after the reply: with the user that came, or without a token.\<close>

definition loaded_page :: "(string \<rightharpoonup> string) \<Rightarrow> string \<Rightarrow> jsval res \<Rightarrow> session" where
  "loaded_page kept t outcome =
     (case outcome of
        Inr u \<Rightarrow> \<lparr>user = u, jwt = JStr t, loading = False, sessionExpired = False, storage = kept,
                 mounts = 0, restoring = [], logins = []\<rparr>
      | Inl err \<Rightarrow> \<lparr>user = JNull, jwt = JNull, loading = False, sessionExpired = (\<exists>msg. err = AuthError msg),
                 storage = kept(STORAGE_KEY := None), mounts = 0, restoring = [], logins = []\<rparr>)"

lemma waiting_page_run:
  assumes "platform_answer answer"
  shows "auth_run kong (waiting_page kept t) [Me_Reply t answer, Restore_Finally]
    (loaded_page kept t (getCurrentUser (\<lambda>_. answer) kong t))"
proof -
  let ?o = "getCurrentUser (\<lambda>_. answer) kong t"
  let ?s = "restore_settle t ?o ((waiting_page kept t)\<lparr>restoring := [Settled]\<rparr>)"
  have "restoring ?s = [Settled]"
    by (simp add: restore_settle_def restore_then_def restore_catch_def Let_def split: sum.split js_error.split)
  from auth_run_Cons [OF waiting_page_reply [OF assms] settled_run [OF this]]
  have run: "auth_run kong (waiting_page kept t) [Me_Reply t answer, Restore_Finally]
      (?s\<lparr>restoring := [], loading := False\<rparr>)" .
  have "?s\<lparr>restoring := [], loading := False\<rparr> = loaded_page kept t ?o"
  proof (cases ?o)
    case (Inl err)
    then show ?thesis
      by (cases err) (simp_all add: restore_settle_def restore_catch_def waiting_page_def loaded_page_def)
  next
    case (Inr u)
    then show ?thesis by (simp add: restore_settle_def restore_then_def waiting_page_def loaded_page_def)
  qed
  with run show ?thesis by simp
qed

section \<open>Several pages of the application\<close>

text \<open>
  All pages of the origin share one \<^verbatim>\<open>localStorage\<close>, and each other page of this application
  signs in and out under the same \<open>STORAGE_KEY\<close>. \<open>Other_Page v\<close> is such a page's write: a token,
  or \<open>None\<close> for a removal. The page does not listen to the storage, so the write changes nothing
  else. In \<open>shared_run\<close> the page's own steps and these writes come in any order.
\<close>

datatype shared_event = Own auth_event | Other_Page "string option"

inductive shared_step :: "string option \<Rightarrow> session \<Rightarrow> shared_event \<Rightarrow> session \<Rightarrow> bool" for kong where
  step_own: "auth_step kong s e t \<Longrightarrow> shared_step kong s (Own e) t"
| step_other_page: "shared_step kong s (Other_Page v) (s\<lparr>storage := (storage s)(STORAGE_KEY := v)\<rparr>)"

inductive shared_run :: "string option \<Rightarrow> session \<Rightarrow> shared_event list \<Rightarrow> session \<Rightarrow> bool" for kong where
  shared_start: "shared_run kong s [] s"
| shared_more: "shared_run kong s es t \<Longrightarrow> shared_step kong t e u \<Longrightarrow> shared_run kong s (es @ [e]) u"

definition shared_reachable :: "string option \<Rightarrow> nat \<Rightarrow> session \<Rightarrow> bool" where
  "shared_reachable kong n s \<longleftrightarrow> (\<exists>kept es. shared_run kong (initial_session n kept) es s)"

inductive_simps shared_own_iff: "shared_step kong s (Own e) t"
inductive_simps shared_other_iff: "shared_step kong s (Other_Page v) t"

text \<open>What the other pages leave under the key, if they write it at all.\<close>

fun after_write :: "shared_event \<Rightarrow> string option \<Rightarrow> string option" where
  "after_write (Own e) old = old"
| "after_write (Other_Page v) old = v"

definition last_write :: "shared_event list \<Rightarrow> string option \<Rightarrow> string option" where
  "last_write es old = fold after_write es old"

text \<open>
  The phases of a page whose mount effect runs once, whatever the storage holds: at most one
  restoration is under way, and none once loading has ended.
\<close>

definition one_restoration :: "session \<Rightarrow> bool" where
  "one_restoration s \<longleftrightarrow>
     (if loading s then logins s = [] \<and> mounts s + length (restoring s) = 1
      else mounts s = 0 \<and> restoring s = [])"

lemma own_one_restoration:
  assumes "auth_step kong s e t" and "one_restoration s"
  shows "one_restoration t"
  using assms
  by (induction rule: auth_step.induct)
    (auto simp: one_restoration_def handler_defs Let_def login_finish_frame AuthBar_def
      split: option.splits sum.splits js_error.splits if_splits)

lemma one_restoration_storage: "one_restoration (s\<lparr>storage := m\<rparr>) = one_restoration s"
  by (simp add: one_restoration_def)

lemma shared_one_restoration: "shared_run kong s es t \<Longrightarrow> one_restoration s \<Longrightarrow> one_restoration t"
proof (induction rule: shared_run.induct)
  case (shared_more s es t e u)
  then show ?case
    by (cases e) (auto simp: shared_own_iff shared_other_iff one_restoration_storage intro: own_one_restoration)
qed

lemma shared_reachable_one: "shared_reachable kong 1 s \<Longrightarrow> one_restoration s"
  unfolding shared_reachable_def
  by (auto simp: one_restoration_def initial_session_def dest!: shared_one_restoration)

lemma auth_run_shared: "auth_run kong s es t \<Longrightarrow> shared_run kong s (map Own es) t"
  by (induction rule: auth_run.induct) (auto intro: shared_start shared_more step_own)

lemma reachable_shared: "reachable kong n s \<Longrightarrow> shared_reachable kong n s"
  unfolding reachable_def shared_reachable_def using auth_run_shared by blast

section \<open>After signing out\<close>

definition signed_out :: "session \<Rightarrow> bool" where
  "signed_out s \<longleftrightarrow> mounts s = 0 \<and> restoring s = [] \<and> logins s = [] \<and> \<not> loading s \<and>
     user s = JNull \<and> jwt s = JNull"

lemma signed_out_step:
  assumes "one_restoration s" and "auth_step kong s Sign_Out t" and "logins s = []"
  shows "signed_out t \<and> storage t STORAGE_KEY = None"
proof -
  from assms(2) obtain name admin where bar: "AuthBar s = SignedIn name admin" and t: "t = signOut s"
    by (rule sign_outE)
  from bar have "\<not> loading s" by (auto simp: AuthBar_def split: if_splits)
  with assms(1,3) t show ?thesis by (simp add: one_restoration_def signed_out_def signOut_def)
qed

text \<open>A signed-out page stays so, does not write its key and shows the same message.\<close>

lemma signed_out_own:
  assumes "auth_step kong s e t" and "signed_out s" and "\<forall>c. e \<noteq> Credential c"
  shows "signed_out t \<and> sessionExpired t = sessionExpired s \<and> storage t STORAGE_KEY = storage s STORAGE_KEY"
  using assms
  by (induction rule: auth_step.induct) (auto simp: signed_out_def AuthBar_def)

lemma signed_out_shared:
  assumes "shared_step kong s e t" and "signed_out s" and "\<forall>c. e \<noteq> Own (Credential c)"
  shows "signed_out t \<and> sessionExpired t = sessionExpired s \<and>
    storage t STORAGE_KEY = after_write e (storage s STORAGE_KEY)"
  using assms signed_out_own [of kong s _ t]
  by (cases e) (auto simp: shared_own_iff shared_other_iff signed_out_def)

lemma signed_out_run:
  "shared_run kong t es u \<Longrightarrow> signed_out t \<Longrightarrow> \<forall>c. Own (Credential c) \<notin> set es \<Longrightarrow>
   signed_out u \<and> sessionExpired u = sessionExpired t \<and>
   storage u STORAGE_KEY = last_write es (storage t STORAGE_KEY)"
proof (induction rule: shared_run.induct)
  case (shared_start s)
  then show ?case by (simp add: last_write_def)
next
  case (shared_more s es t e u)
  then show ?case using signed_out_shared [of kong t e u] by (auto simp: last_write_def)
qed

section \<open>Expiry and the end of loading\<close>

lemma login_finish_storage: "k \<noteq> STORAGE_KEY \<Longrightarrow> storage (login_finish outcome s) k = storage s k"
  by (auto simp: login_finish_def signIn_def rbind_def split: sum.splits)

lemma login_finish_expired: "sessionExpired (login_finish outcome s) \<Longrightarrow> sessionExpired s"
  by (auto simp: login_finish_def signIn_def rbind_def split: sum.splits)

lemma expired_step:
  assumes "auth_step kong s e t" and "\<not> sessionExpired s" and "sessionExpired t"
  shows "\<exists>cached answer msg. e = Me_Reply cached answer \<and> getCurrentUser (\<lambda>_. answer) kong cached = Inl (AuthError msg)"
  using assms
  by (induction rule: auth_step.induct)
    (auto simp: handler_defs Let_def dest: login_finish_expired
      split: option.splits sum.splits js_error.splits if_splits)

lemma loading_cause_step:
  assumes "auth_step kong s e t" and "loading s \<Longrightarrow> 0 < mounts s \<or> restoring s \<noteq> []" and "loading t"
  shows "0 < mounts t \<or> restoring t \<noteq> []"
  using assms
  by (induction rule: auth_step.induct)
    (auto simp: handler_defs Let_def login_finish_frame
      split: option.splits sum.splits js_error.splits if_splits)

lemma loading_cause_run:
  "auth_run kong s es t \<Longrightarrow> (loading s \<Longrightarrow> 0 < mounts s \<or> restoring s \<noteq> []) \<Longrightarrow> loading t \<Longrightarrow>
   0 < mounts t \<or> restoring t \<noteq> []"
proof (induction rule: auth_run.induct)
  case (run_start s)
  then show ?case by blast
next
  case (run_step s es t e u)
  then show ?case using loading_cause_step by blast
qed

lemma loading_cause:
  assumes "reachable kong n s" and "0 < n" and "loading s"
  shows "0 < mounts s \<or> restoring s \<noteq> []"
proof -
  from assms(1) obtain kept es where "auth_run kong (initial_session n kept) es s"
    by (auto simp: reachable_def)
  from loading_cause_run [OF this _ assms(3)] assms(2) show ?thesis
    by (simp add: initial_session_def)
qed

lemma unreachable_platform: "platform_answer (Inl (TypeError msg))"
  by (simp add: platform_answer_def platform_error_def)

lemma restoring_can_end:
  assumes "restoring s \<noteq> []"
  shows "\<exists>es t. length es \<le> 2 \<and> auth_run kong s es t \<and> \<not> loading t"
proof -
  obtain x xs where s: "restoring s = x # xs" using assms by (cases "restoring s") auto
  have fin: "\<exists>t. auth_run kong s' [Restore_Finally] t \<and> \<not> loading t" if "restoring s' = Settled # xs" for s'
    using auth_run_Cons [OF step_restore_finally [of s' "[]" xs kong] run_start] that
    by (auto simp: restore_finally_def)
  show ?thesis
  proof (cases x)
    case (Fetching c)
    let ?fail = "Inl (TypeError []) :: response res"
    let ?s = "restore_catch (TypeError []) (s\<lparr>restoring := Settled # xs\<rparr>)"
    have step: "auth_step kong s (Me_Reply c ?fail) ?s"
      using step_me_reply [of s "[]" c xs ?fail kong] s Fetching unreachable_platform
      by (simp add: getCurrentUser_def request_def restore_settle_def)
    obtain t where "auth_run kong ?s [Restore_Finally] t" "\<not> loading t"
      using fin [of ?s] by (auto simp: restore_catch_def)
    with auth_run_Cons [OF step, of "[Restore_Finally]" t] show ?thesis
      by (intro exI [of _ "[Me_Reply c ?fail, Restore_Finally]"]) auto
  next
    case Settled
    with fin [of s] s show ?thesis
      by (auto intro!: exI [of _ "[Restore_Finally]"])
  qed
qed

lemma loading_can_end:
  assumes "0 < mounts s \<or> restoring s \<noteq> []"
  shows "\<exists>es t. length es \<le> 3 \<and> auth_run kong s es t \<and> \<not> loading t"
proof (cases "restoring s = []")
  case False
  from restoring_can_end [OF this, of kong] obtain es t
    where "length es \<le> 2" "auth_run kong s es t" "\<not> loading t" by blast
  then show ?thesis by (intro exI [of _ es] exI [of _ t]) simp
next
  case True
  with assms obtain n where "mounts s = Suc n" by (cases "mounts s") auto
  then have step: "auth_step kong s Mount (restore_session (s\<lparr>mounts := n\<rparr>))" (is "auth_step kong s Mount ?t")
    by (rule step_mount)
  show ?thesis
  proof (cases "loading ?t")
    case False
    with auth_run_Cons [OF step run_start] show ?thesis
      by (intro exI [of _ "[Mount]"]) auto
  next
    case loads: True
    have "restoring ?t \<noteq> [] \<or> loading ?t = False"
      by (auto simp: restore_session_def split: option.split)
    with loads have "restoring ?t \<noteq> []" by blast
    from restoring_can_end [OF this, of kong] obtain es t
      where "length es \<le> 2" "auth_run kong ?t es t" "\<not> loading t" by blast
    with auth_run_Cons [OF step] show ?thesis
      by (intro exI [of _ "Mount # es"] exI [of _ t]) auto
  qed
qed

end
