(* ===== verification/Greeter_Messages.thy ===== *)
theory Greeter_Messages
  imports Codec
begin

text \<open>
  \<^verbatim>\<open>web/src/generated/greeter.ts\<close>: the two messages of the echo method, modelled as in theory
  \<open>Auth_Messages\<close>.
\<close>

unbundle bit_operations_syntax

section \<open>EchoRequest\<close>

record EchoRequest =
  EchoRequest_message :: string

definition createBaseEchoRequest :: EchoRequest where
  "createBaseEchoRequest = \<lparr>EchoRequest_message = ''''\<rparr>"

definition EchoRequest_encode :: "('w, 'r) wire \<Rightarrow> EchoRequest \<Rightarrow> 'w stmt" where
  "EchoRequest_encode W message = run [
     only_if (EchoRequest_message message \<noteq> '''') (tagged W 10 (wString W (EchoRequest_message message)))]"

definition EchoRequest_switch :: "('w, 'r) wire \<Rightarrow> (EchoRequest, 'r) switch" where
  "EchoRequest_switch W tag message reader =
   (if drop_bit 3 tag = 1 then case_read tag 10 (rString W) (store EchoRequest_message_update) message reader
    else Inr None)"

definition EchoRequest_decode :: "('w, 'r) wire \<Rightarrow> 'r input \<Rightarrow> nat option \<Rightarrow> (EchoRequest \<times> 'r) res" where
  "EchoRequest_decode W = decode_msg W (EchoRequest_switch W) createBaseEchoRequest"

definition EchoRequest_fromJSON :: "jsval \<Rightarrow> EchoRequest res" where
  "EchoRequest_fromJSON object =
     rbind (json_field object ''message'' js_String (Inr '''')) (\<lambda>message.
     Inr \<lparr>EchoRequest_message = message\<rparr>)"

definition EchoRequest_toJSON :: "EchoRequest \<Rightarrow> jsval" where
  "EchoRequest_toJSON message = json_object [
     (''message'', put_if (EchoRequest_message message \<noteq> '''') (JStr (EchoRequest_message message)))]"

record EchoRequest_Partial =
  Partial_EchoRequest_message :: "string option"

definition EchoRequest_fromPartial :: "EchoRequest_Partial \<Rightarrow> EchoRequest" where
  "EchoRequest_fromPartial object = createBaseEchoRequest\<lparr>
     EchoRequest_message := nullish (Partial_EchoRequest_message object) ''''\<rparr>"

definition EchoRequest_create :: "EchoRequest_Partial option \<Rightarrow> EchoRequest" where
  "EchoRequest_create base = EchoRequest_fromPartial (nullish base \<lparr>Partial_EchoRequest_message = None\<rparr>)"

section \<open>EchoReply\<close>

record EchoReply =
  EchoReply_message :: string

definition createBaseEchoReply :: EchoReply where
  "createBaseEchoReply = \<lparr>EchoReply_message = ''''\<rparr>"

definition EchoReply_encode :: "('w, 'r) wire \<Rightarrow> EchoReply \<Rightarrow> 'w stmt" where
  "EchoReply_encode W message = run [
     only_if (EchoReply_message message \<noteq> '''') (tagged W 10 (wString W (EchoReply_message message)))]"

definition EchoReply_switch :: "('w, 'r) wire \<Rightarrow> (EchoReply, 'r) switch" where
  "EchoReply_switch W tag message reader =
   (if drop_bit 3 tag = 1 then case_read tag 10 (rString W) (store EchoReply_message_update) message reader
    else Inr None)"

definition EchoReply_decode :: "('w, 'r) wire \<Rightarrow> 'r input \<Rightarrow> nat option \<Rightarrow> (EchoReply \<times> 'r) res" where
  "EchoReply_decode W = decode_msg W (EchoReply_switch W) createBaseEchoReply"

definition EchoReply_fromJSON :: "jsval \<Rightarrow> EchoReply res" where
  "EchoReply_fromJSON object =
     rbind (json_field object ''message'' js_String (Inr '''')) (\<lambda>message.
     Inr \<lparr>EchoReply_message = message\<rparr>)"

definition EchoReply_toJSON :: "EchoReply \<Rightarrow> jsval" where
  "EchoReply_toJSON message = json_object [
     (''message'', put_if (EchoReply_message message \<noteq> '''') (JStr (EchoReply_message message)))]"

record EchoReply_Partial =
  Partial_EchoReply_message :: "string option"

definition EchoReply_fromPartial :: "EchoReply_Partial \<Rightarrow> EchoReply" where
  "EchoReply_fromPartial object = createBaseEchoReply\<lparr>
     EchoReply_message := nullish (Partial_EchoReply_message object) ''''\<rparr>"

definition EchoReply_create :: "EchoReply_Partial option \<Rightarrow> EchoReply" where
  "EchoReply_create base = EchoReply_fromPartial (nullish base \<lparr>Partial_EchoReply_message = None\<rparr>)"

section \<open>The documented wire form\<close>

text \<open>
  \<open>M_fits\<close> bounds the wire form by what a 32-bit length can say. \<open>M_merge m0 m\<close> is \<open>m0\<close> after
  the fields of \<open>m\<close> have been read into it: a singular field that is present overwrites,
  elements of a repeated field are added at the end.
\<close>

definition EchoRequest_bytes :: "EchoRequest \<Rightarrow> bytes" where
  "EchoRequest_bytes m = concat [
     str_field 10 (EchoRequest_message m)]"

definition EchoRequest_fits :: "EchoRequest \<Rightarrow> bool" where
  "EchoRequest_fits m \<longleftrightarrow> length (EchoRequest_bytes m) < 2 ^ 32"

definition EchoRequest_merge :: "EchoRequest \<Rightarrow> EchoRequest \<Rightarrow> EchoRequest" where
  "EchoRequest_merge m0 m = m0\<lparr>
     EchoRequest_message := (if EchoRequest_message m = '''' then EchoRequest_message m0 else EchoRequest_message m)\<rparr>"

definition EchoReply_bytes :: "EchoReply \<Rightarrow> bytes" where
  "EchoReply_bytes m = concat [
     str_field 10 (EchoReply_message m)]"

definition EchoReply_fits :: "EchoReply \<Rightarrow> bool" where
  "EchoReply_fits m \<longleftrightarrow> length (EchoReply_bytes m) < 2 ^ 32"

definition EchoReply_merge :: "EchoReply \<Rightarrow> EchoReply \<Rightarrow> EchoReply" where
  "EchoReply_merge m0 m = m0\<lparr>
     EchoReply_message := (if EchoReply_message m = '''' then EchoReply_message m0 else EchoReply_message m)\<rparr>"

section \<open>The codecs implement the wire form\<close>

context wire_laws
begin

lemma EchoRequest_parts:
  assumes "EchoRequest_fits m"
  shows "length (str_field 10 (EchoRequest_message m)) < 2 ^ 32"
  using assms by (simp_all add: EchoRequest_fits_def EchoRequest_bytes_def)

lemma EchoRequest_writes:
  assumes "EchoRequest_fits m"
  shows "appends buf (EchoRequest_encode W m) (EchoRequest_bytes m)"
  unfolding EchoRequest_encode_def EchoRequest_bytes_def concat.simps
  by (intro appends_run_Cons appends_run_Nil enc_str_field EchoRequest_parts [OF assms])

lemma EchoRequest_reads:
  shows "switch_reads (EchoRequest_switch W) 10 (rString W) (store EchoRequest_message_update)"
  by (simp_all add: switch_reads_def EchoRequest_switch_def)

lemma EchoRequest_good: "good_switch W valid k (EchoRequest_switch W)"
  unfolding good_switch_def EchoRequest_switch_def 
  by (auto intro!: good_step_case_read rString_safe rBool_safe )

lemma EchoRequest_runs:
  assumes "EchoRequest_fits m"
  shows "runs W valid rest k (EchoRequest_switch W) (EchoRequest_bytes m) (\<lambda>m0. EchoRequest_merge m0 m)"
  unfolding EchoRequest_bytes_def concat.simps
  by (rule runs_cong,
      (rule runs_append runs_Nil read_str_field
         EchoRequest_reads EchoRequest_parts [OF assms]
       | assumption | simp; fail)+,
      simp add: EchoRequest_merge_def)

end

sublocale wire_laws \<subseteq> EchoRequest: switch_codec W buf valid rest "EchoRequest_encode W" "EchoRequest_switch W"
    createBaseEchoRequest EchoRequest_bytes EchoRequest_fits "\<lambda>m. m" EchoRequest_merge
proof unfold_locales
  show "EchoRequest_merge createBaseEchoRequest m = m" for m
    by (cases m) (auto simp: EchoRequest_merge_def createBaseEchoRequest_def split: option.split)
qed (simp_all add: EchoRequest_writes EchoRequest_good EchoRequest_runs, simp add: EchoRequest_fits_def)

context wire_laws
begin

lemma EchoReply_parts:
  assumes "EchoReply_fits m"
  shows "length (str_field 10 (EchoReply_message m)) < 2 ^ 32"
  using assms by (simp_all add: EchoReply_fits_def EchoReply_bytes_def)

lemma EchoReply_writes:
  assumes "EchoReply_fits m"
  shows "appends buf (EchoReply_encode W m) (EchoReply_bytes m)"
  unfolding EchoReply_encode_def EchoReply_bytes_def concat.simps
  by (intro appends_run_Cons appends_run_Nil enc_str_field EchoReply_parts [OF assms])

lemma EchoReply_reads:
  shows "switch_reads (EchoReply_switch W) 10 (rString W) (store EchoReply_message_update)"
  by (simp_all add: switch_reads_def EchoReply_switch_def)

lemma EchoReply_good: "good_switch W valid k (EchoReply_switch W)"
  unfolding good_switch_def EchoReply_switch_def 
  by (auto intro!: good_step_case_read rString_safe rBool_safe )

lemma EchoReply_runs:
  assumes "EchoReply_fits m"
  shows "runs W valid rest k (EchoReply_switch W) (EchoReply_bytes m) (\<lambda>m0. EchoReply_merge m0 m)"
  unfolding EchoReply_bytes_def concat.simps
  by (rule runs_cong,
      (rule runs_append runs_Nil read_str_field
         EchoReply_reads EchoReply_parts [OF assms]
       | assumption | simp; fail)+,
      simp add: EchoReply_merge_def)

end

sublocale wire_laws \<subseteq> EchoReply: switch_codec W buf valid rest "EchoReply_encode W" "EchoReply_switch W"
    createBaseEchoReply EchoReply_bytes EchoReply_fits "\<lambda>m. m" EchoReply_merge
proof unfold_locales
  show "EchoReply_merge createBaseEchoReply m = m" for m
    by (cases m) (auto simp: EchoReply_merge_def createBaseEchoReply_def split: option.split)
qed (simp_all add: EchoReply_writes EchoReply_good EchoReply_runs, simp add: EchoReply_fits_def)

section \<open>JSON forms read back\<close>

interpretation EchoRequest_json: json_codec EchoRequest_toJSON EchoRequest_fromJSON "\<lambda>m. m"
proof unfold_locales
  show "EchoRequest_fromJSON (EchoRequest_toJSON m) = Inr m" for m
    by (cases m) (auto simp: EchoRequest_fromJSON_def EchoRequest_toJSON_def json_read_back )
qed (simp add: EchoRequest_toJSON_def)

interpretation EchoReply_json: json_codec EchoReply_toJSON EchoReply_fromJSON "\<lambda>m. m"
proof unfold_locales
  show "EchoReply_fromJSON (EchoReply_toJSON m) = Inr m" for m
    by (cases m) (auto simp: EchoReply_fromJSON_def EchoReply_toJSON_def json_read_back )
qed (simp add: EchoReply_toJSON_def)

end
