(* ===== verification/App.thy ===== *)
theory App
  imports Auth_Context Greeter_Messages
begin

text \<open>
  \<^verbatim>\<open>web/src/App.tsx\<close>: the echo form. \<open>callEcho\<close> is its request; \<open>call_start\<close> and
  \<open>call_finish\<close> are the handler \<^verbatim>\<open>call\<close> before and after its \<^verbatim>\<open>await\<close>, and \<open>app_step\<close> lets
  typing, clicking and answers from the network come in any order that the rendered
  controls permit.
\<close>

section \<open>The echo request\<close>

definition KONG_BASE :: "string option \<Rightarrow> string" where
  "KONG_BASE kong = nullish kong ''''"

text \<open>The object literal \<^verbatim>\<open>{ message }\<close> of an \<^verbatim>\<open>EchoRequest\<close> as a JavaScript value.\<close>

definition echo_object :: "EchoRequest \<Rightarrow> jsval" where
  "echo_object req = JObj [(''message'', JStr (EchoRequest_message req))]"

definition echo_request :: "string option \<Rightarrow> EchoRequest \<Rightarrow> http_request" where
  "echo_request kong req =
     \<lparr>req_url = KONG_BASE kong @ ''/greeter/api/echo'', req_method = ''POST'',
      req_headers = [(''Content-Type'', ''application/json'')],
      req_body = json_stringify (echo_object req)\<rparr>"

definition callEcho :: "fetch \<Rightarrow> string option \<Rightarrow> EchoRequest \<Rightarrow> jsval res" where
  "callEcho fetch kong req =
     rbind (fetch (echo_request kong req)) (\<lambda>res.
       if \<not> response_ok res then status_error res else json_result res)"

section \<open>The form\<close>

record app =
  app_message :: string
  app_response :: jsval
  app_error :: "string option"
  app_loading :: bool
  app_pending :: "EchoRequest list"

definition initial_app :: app where
  "initial_app =
     \<lparr>app_message = '''', app_response = JNull, app_error = None, app_loading = False, app_pending = []\<rparr>"

text \<open>\<^verbatim>\<open>e instanceof Error ? e.message : String(e)\<close>; every exception of the model is an \<^verbatim>\<open>Error\<close>.\<close>

fun error_message :: "js_error \<Rightarrow> string" where
  "error_message (TypeError m) = m"
| "error_message (RangeError m) = m"
| "error_message (SyntaxError m) = m"
| "error_message (Error m) = m"
| "error_message (AuthError m) = m"
| "error_message Diverge = ''''"

definition call_start :: "app \<Rightarrow> app" where
  "call_start a =
     (if trim (app_message a) = '''' then a
      else a\<lparr>app_loading := True, app_error := None, app_response := JNull,
             app_pending := app_pending a @ [\<lparr>EchoRequest_message = trim (app_message a)\<rparr>]\<rparr>)"

definition call_finish :: "jsval res \<Rightarrow> app \<Rightarrow> app" where
  "call_finish outcome a =
     (case outcome of
        Inr v \<Rightarrow> a\<lparr>app_response := v, app_loading := False\<rparr>
      | Inl e \<Rightarrow> a\<lparr>app_error := Some (error_message e), app_loading := False\<rparr>)"

text \<open>What is shown below the form: the status line, the error, and the reply's \<^verbatim>\<open>message\<close>.\<close>

definition shown_error :: "app \<Rightarrow> string option" where
  "shown_error a = (case app_error a of None \<Rightarrow> None | Some e \<Rightarrow> if e = '''' then None else Some e)"

definition shown_response :: "app \<Rightarrow> jsval option" where
  "shown_response a =
     (if js_Boolean (app_response a) then Some (js_opt_get (app_response a) ''message'') else None)"

definition input_disabled :: "app \<Rightarrow> bool" where
  "input_disabled a = app_loading a"

definition button_disabled :: "app \<Rightarrow> bool" where
  "button_disabled a \<longleftrightarrow> app_loading a \<or> trim (app_message a) = ''''"

section \<open>Steps\<close>

datatype app_event = Type string | Enter | Click | Reply EchoRequest "response res"

text \<open>A disabled control gets no events.\<close>

inductive app_step :: "string option \<Rightarrow> app \<Rightarrow> app_event \<Rightarrow> app \<Rightarrow> bool" for kong where
  step_type: "\<not> input_disabled a \<Longrightarrow> app_step kong a (Type s) (a\<lparr>app_message := s\<rparr>)"
| step_enter: "\<not> input_disabled a \<Longrightarrow> app_step kong a Enter (call_start a)"
| step_click: "\<not> button_disabled a \<Longrightarrow> app_step kong a Click (call_start a)"
| step_reply: "app_pending a = xs @ req # ys \<Longrightarrow> platform_answer answer \<Longrightarrow>
     app_step kong a (Reply req answer)
       (call_finish (callEcho (\<lambda>_. answer) kong req) (a\<lparr>app_pending := xs @ ys\<rparr>))"

inductive app_reachable :: "string option \<Rightarrow> app \<Rightarrow> bool" for kong where
  app_start: "app_reachable kong initial_app"
| app_next: "app_reachable kong a \<Longrightarrow> app_step kong a e b \<Longrightarrow> app_reachable kong b"

inductive_cases replyE: "app_step kong a (Reply req answer) b"
inductive_simps enter_iff: "app_step kong a Enter b"
inductive_simps click_iff: "app_step kong a Click b"

section \<open>Lemmas\<close>

text \<open>
  At most one request is in flight, exactly while the form says so, and then neither an error
  nor a reply is shown; afterwards at most one of the two is there.
\<close>

definition app_inv :: "app \<Rightarrow> bool" where
  "app_inv a \<longleftrightarrow>
     (if app_loading a
      then \<exists>req. app_pending a = [req] \<and> EchoRequest_message req \<noteq> '''' \<and>
             trim (EchoRequest_message req) = EchoRequest_message req \<and>
             app_error a = None \<and> app_response a = JNull
      else app_pending a = [] \<and> (app_error a = None \<or> app_response a = JNull))"

lemma dropWhile_keeps: "y = [] \<or> \<not> P (hd y) \<Longrightarrow> dropWhile P y = y"
  by (cases y) auto

lemma trim_idem: "trim (trim s) = trim s"
proof -
  define x where "x = dropWhile js_space s"
  define y where "y = rev (dropWhile js_space (rev x))"
  have y: "trim s = y" by (simp add: trim_def x_def y_def)
  have "rev x = takeWhile js_space (rev x) @ rev y" by (simp add: y_def)
  then have xy: "x = y @ rev (takeWhile js_space (rev x))"
    by (metis rev_append rev_rev_ident)
  have "\<not> js_space (hd y)" if "y \<noteq> []"
  proof -
    from that xy have "hd y = hd x" and "x \<noteq> []" by (metis hd_append, force)
    then show ?thesis using hd_dropWhile [of js_space s] by (simp add: x_def)
  qed
  then have "dropWhile js_space y = y" by (intro dropWhile_keeps) blast
  moreover have "dropWhile js_space (rev y) = rev y"
    using hd_dropWhile [of js_space "rev x"] by (intro dropWhile_keeps) (auto simp: y_def)
  ultimately have "trim y = y" by (simp add: trim_def)
  then show ?thesis by (simp only: y)
qed

lemma call_start_inv: "app_inv a \<Longrightarrow> \<not> app_loading a \<Longrightarrow> app_inv (call_start a)"
  by (simp add: app_inv_def call_start_def trim_idem)

lemma app_step_inv:
  assumes "app_step kong a e b" and "app_inv a"
  shows "app_inv b"
  using assms
proof (induction rule: app_step.induct)
  case (step_type a s)
  then show ?case by (auto simp: app_inv_def input_disabled_def)
next
  case (step_enter a)
  then show ?case by (simp add: call_start_inv input_disabled_def)
next
  case (step_click a)
  then show ?case by (simp add: call_start_inv button_disabled_def)
next
  case (step_reply a xs req ys answer)
  then have "app_loading a" and "xs = []" and "ys = []"
    by (auto simp: app_inv_def singleton_split split: if_splits)
  with step_reply show ?case
    by (auto simp: app_inv_def call_finish_def split: sum.split)
qed

lemma app_reachable_inv: "app_reachable kong a \<Longrightarrow> app_inv a"
proof (induction rule: app_reachable.induct)
  case app_start
  show ?case by (simp add: app_inv_def initial_app_def)
next
  case (app_next a e b)
  then show ?case by (blast intro: app_step_inv)
qed

text \<open>For a message that is not empty, the object literal is the canonical JSON form.\<close>

lemma echo_object_canonical: "EchoRequest_message req \<noteq> [] \<Longrightarrow> echo_object req = EchoRequest_toJSON req"
  by (simp add: echo_object_def EchoRequest_toJSON_def json_object_def put_if_def js_set_def)

lemma echo_object_read: "EchoRequest_fromJSON (echo_object req) = Inr req"
  by (cases req) (simp add: echo_object_def EchoRequest_fromJSON_def json_field_obj)

end
