(* ===== verification/Http_Messages.thy ===== *)
theory Http_Messages
  imports Codec
begin

text \<open>
  \<^verbatim>\<open>web/src/generated/google/api/http.ts\<close>: the HTTP annotation messages, modelled as in theory
  \<open>Auth_Messages\<close>. \<open>HttpRule\<close> contains itself, so it is a datatype and its operations are
  recursive functions; they end because a nested rule is smaller than the rule it is in.
\<close>

unbundle bit_operations_syntax

section \<open>CustomHttpPattern\<close>

record CustomHttpPattern =
  CustomHttpPattern_kind :: string
  CustomHttpPattern_path :: string

definition createBaseCustomHttpPattern :: CustomHttpPattern where
  "createBaseCustomHttpPattern = \<lparr>CustomHttpPattern_kind = '''', CustomHttpPattern_path = ''''\<rparr>"

definition CustomHttpPattern_encode :: "('w, 'r) wire \<Rightarrow> CustomHttpPattern \<Rightarrow> 'w stmt" where
  "CustomHttpPattern_encode W message = run [
     only_if (CustomHttpPattern_kind message \<noteq> '''') (tagged W 10 (wString W (CustomHttpPattern_kind message))),
     only_if (CustomHttpPattern_path message \<noteq> '''') (tagged W 18 (wString W (CustomHttpPattern_path message)))]"

definition CustomHttpPattern_switch :: "('w, 'r) wire \<Rightarrow> (CustomHttpPattern, 'r) switch" where
  "CustomHttpPattern_switch W tag message reader =
   (if drop_bit 3 tag = 1 then case_read tag 10 (rString W) (store CustomHttpPattern_kind_update) message reader
    else if drop_bit 3 tag = 2 then case_read tag 18 (rString W) (store CustomHttpPattern_path_update) message reader
    else Inr None)"

definition CustomHttpPattern_decode :: "('w, 'r) wire \<Rightarrow> 'r input \<Rightarrow> nat option \<Rightarrow> (CustomHttpPattern \<times> 'r) res" where
  "CustomHttpPattern_decode W = decode_msg W (CustomHttpPattern_switch W) createBaseCustomHttpPattern"

definition CustomHttpPattern_fromJSON :: "jsval \<Rightarrow> CustomHttpPattern res" where
  "CustomHttpPattern_fromJSON object =
     rbind (json_field object ''kind'' js_String (Inr '''')) (\<lambda>kind.
     rbind (json_field object ''path'' js_String (Inr '''')) (\<lambda>path.
     Inr \<lparr>CustomHttpPattern_kind = kind, CustomHttpPattern_path = path\<rparr>))"

definition CustomHttpPattern_toJSON :: "CustomHttpPattern \<Rightarrow> jsval" where
  "CustomHttpPattern_toJSON message = json_object [
     (''kind'', put_if (CustomHttpPattern_kind message \<noteq> '''') (JStr (CustomHttpPattern_kind message))),
     (''path'', put_if (CustomHttpPattern_path message \<noteq> '''') (JStr (CustomHttpPattern_path message)))]"

record CustomHttpPattern_Partial =
  Partial_CustomHttpPattern_kind :: "string option"
  Partial_CustomHttpPattern_path :: "string option"

definition CustomHttpPattern_fromPartial :: "CustomHttpPattern_Partial \<Rightarrow> CustomHttpPattern" where
  "CustomHttpPattern_fromPartial object = createBaseCustomHttpPattern\<lparr>
     CustomHttpPattern_kind := nullish (Partial_CustomHttpPattern_kind object) '''',
     CustomHttpPattern_path := nullish (Partial_CustomHttpPattern_path object) ''''\<rparr>"

definition CustomHttpPattern_create :: "CustomHttpPattern_Partial option \<Rightarrow> CustomHttpPattern" where
  "CustomHttpPattern_create base = CustomHttpPattern_fromPartial (nullish base \<lparr>Partial_CustomHttpPattern_kind = None, Partial_CustomHttpPattern_path = None\<rparr>)"

section \<open>HttpRule\<close>

datatype HttpRule = HttpRule
  (HttpRule_selector: string)
  (HttpRule_get: "string option")
  (HttpRule_put: "string option")
  (HttpRule_post: "string option")
  (HttpRule_delete: "string option")
  (HttpRule_patch: "string option")
  (HttpRule_custom: "CustomHttpPattern option")
  (HttpRule_body: string)
  (HttpRule_responseBody: string)
  (HttpRule_additionalBindings: "HttpRule list")

text \<open>The update functionals, as a record type would have them.\<close>

definition HttpRule_selector_update :: "(string \<Rightarrow> string) \<Rightarrow> HttpRule \<Rightarrow> HttpRule" where
  "HttpRule_selector_update f m = HttpRule (f (HttpRule_selector m)) (HttpRule_get m) (HttpRule_put m) (HttpRule_post m) (HttpRule_delete m) (HttpRule_patch m) (HttpRule_custom m) (HttpRule_body m) (HttpRule_responseBody m) (HttpRule_additionalBindings m)"

definition HttpRule_get_update :: "(string option \<Rightarrow> string option) \<Rightarrow> HttpRule \<Rightarrow> HttpRule" where
  "HttpRule_get_update f m = HttpRule (HttpRule_selector m) (f (HttpRule_get m)) (HttpRule_put m) (HttpRule_post m) (HttpRule_delete m) (HttpRule_patch m) (HttpRule_custom m) (HttpRule_body m) (HttpRule_responseBody m) (HttpRule_additionalBindings m)"

definition HttpRule_put_update :: "(string option \<Rightarrow> string option) \<Rightarrow> HttpRule \<Rightarrow> HttpRule" where
  "HttpRule_put_update f m = HttpRule (HttpRule_selector m) (HttpRule_get m) (f (HttpRule_put m)) (HttpRule_post m) (HttpRule_delete m) (HttpRule_patch m) (HttpRule_custom m) (HttpRule_body m) (HttpRule_responseBody m) (HttpRule_additionalBindings m)"

definition HttpRule_post_update :: "(string option \<Rightarrow> string option) \<Rightarrow> HttpRule \<Rightarrow> HttpRule" where
  "HttpRule_post_update f m = HttpRule (HttpRule_selector m) (HttpRule_get m) (HttpRule_put m) (f (HttpRule_post m)) (HttpRule_delete m) (HttpRule_patch m) (HttpRule_custom m) (HttpRule_body m) (HttpRule_responseBody m) (HttpRule_additionalBindings m)"

definition HttpRule_delete_update :: "(string option \<Rightarrow> string option) \<Rightarrow> HttpRule \<Rightarrow> HttpRule" where
  "HttpRule_delete_update f m = HttpRule (HttpRule_selector m) (HttpRule_get m) (HttpRule_put m) (HttpRule_post m) (f (HttpRule_delete m)) (HttpRule_patch m) (HttpRule_custom m) (HttpRule_body m) (HttpRule_responseBody m) (HttpRule_additionalBindings m)"

definition HttpRule_patch_update :: "(string option \<Rightarrow> string option) \<Rightarrow> HttpRule \<Rightarrow> HttpRule" where
  "HttpRule_patch_update f m = HttpRule (HttpRule_selector m) (HttpRule_get m) (HttpRule_put m) (HttpRule_post m) (HttpRule_delete m) (f (HttpRule_patch m)) (HttpRule_custom m) (HttpRule_body m) (HttpRule_responseBody m) (HttpRule_additionalBindings m)"

definition HttpRule_custom_update :: "(CustomHttpPattern option \<Rightarrow> CustomHttpPattern option) \<Rightarrow> HttpRule \<Rightarrow> HttpRule" where
  "HttpRule_custom_update f m = HttpRule (HttpRule_selector m) (HttpRule_get m) (HttpRule_put m) (HttpRule_post m) (HttpRule_delete m) (HttpRule_patch m) (f (HttpRule_custom m)) (HttpRule_body m) (HttpRule_responseBody m) (HttpRule_additionalBindings m)"

definition HttpRule_body_update :: "(string \<Rightarrow> string) \<Rightarrow> HttpRule \<Rightarrow> HttpRule" where
  "HttpRule_body_update f m = HttpRule (HttpRule_selector m) (HttpRule_get m) (HttpRule_put m) (HttpRule_post m) (HttpRule_delete m) (HttpRule_patch m) (HttpRule_custom m) (f (HttpRule_body m)) (HttpRule_responseBody m) (HttpRule_additionalBindings m)"

definition HttpRule_responseBody_update :: "(string \<Rightarrow> string) \<Rightarrow> HttpRule \<Rightarrow> HttpRule" where
  "HttpRule_responseBody_update f m = HttpRule (HttpRule_selector m) (HttpRule_get m) (HttpRule_put m) (HttpRule_post m) (HttpRule_delete m) (HttpRule_patch m) (HttpRule_custom m) (HttpRule_body m) (f (HttpRule_responseBody m)) (HttpRule_additionalBindings m)"

definition HttpRule_additionalBindings_update :: "(HttpRule list \<Rightarrow> HttpRule list) \<Rightarrow> HttpRule \<Rightarrow> HttpRule" where
  "HttpRule_additionalBindings_update f m = HttpRule (HttpRule_selector m) (HttpRule_get m) (HttpRule_put m) (HttpRule_post m) (HttpRule_delete m) (HttpRule_patch m) (HttpRule_custom m) (HttpRule_body m) (HttpRule_responseBody m) (f (HttpRule_additionalBindings m))"

lemmas HttpRule_update_defs =
  HttpRule_selector_update_def HttpRule_get_update_def HttpRule_put_update_def HttpRule_post_update_def HttpRule_delete_update_def HttpRule_patch_update_def HttpRule_custom_update_def HttpRule_body_update_def HttpRule_responseBody_update_def HttpRule_additionalBindings_update_def

lemma HttpRule_part_size: "v \<in> set (HttpRule_additionalBindings m) \<Longrightarrow> size v < size m"
  by (cases m) (auto simp: less_Suc_eq_le intro: size_list_estimation' trans_le_add1 trans_le_add2)

definition createBaseHttpRule :: HttpRule where
  "createBaseHttpRule = HttpRule '''' None None None None None None '''' '''' []"

function HttpRule_encode :: "('w, 'r) wire \<Rightarrow> HttpRule \<Rightarrow> 'w stmt" where
  "HttpRule_encode W message = run [
     only_if (HttpRule_selector message \<noteq> '''') (tagged W 10 (wString W (HttpRule_selector message))),
     if_set (HttpRule_get message) (\<lambda>v. tagged W 18 (wString W v)),
     if_set (HttpRule_put message) (\<lambda>v. tagged W 26 (wString W v)),
     if_set (HttpRule_post message) (\<lambda>v. tagged W 34 (wString W v)),
     if_set (HttpRule_delete message) (\<lambda>v. tagged W 42 (wString W v)),
     if_set (HttpRule_patch message) (\<lambda>v. tagged W 50 (wString W v)),
     if_set (HttpRule_custom message) (\<lambda>v. sub_message W 66 (CustomHttpPattern_encode W v)),
     only_if (HttpRule_body message \<noteq> '''') (tagged W 58 (wString W (HttpRule_body message))),
     only_if (HttpRule_responseBody message \<noteq> '''') (tagged W 98 (wString W (HttpRule_responseBody message))),
     for_each (HttpRule_additionalBindings message) (\<lambda>v. sub_message W 90 (HttpRule_encode W v))]"
  by pat_completeness auto
termination
  by (relation "measure (\<lambda>(W, m). size m)") (simp_all add: HttpRule_part_size)

declare HttpRule_encode.simps [simp del]

definition HttpRule_switch ::
  "('w, 'r) wire \<Rightarrow> ('r input \<Rightarrow> nat option \<Rightarrow> (HttpRule \<times> 'r) res) \<Rightarrow> (HttpRule, 'r) switch" where
  "HttpRule_switch W decode tag message reader =
   (if drop_bit 3 tag = 1 then case_read tag 10 (rString W) (store HttpRule_selector_update) message reader
    else if drop_bit 3 tag = 2 then case_read tag 18 (rString W) (store_some HttpRule_get_update) message reader
    else if drop_bit 3 tag = 3 then case_read tag 26 (rString W) (store_some HttpRule_put_update) message reader
    else if drop_bit 3 tag = 4 then case_read tag 34 (rString W) (store_some HttpRule_post_update) message reader
    else if drop_bit 3 tag = 5 then case_read tag 42 (rString W) (store_some HttpRule_delete_update) message reader
    else if drop_bit 3 tag = 6 then case_read tag 50 (rString W) (store_some HttpRule_patch_update) message reader
    else if drop_bit 3 tag = 8 then case_read tag 66 (read_message W (CustomHttpPattern_decode W)) (store_some HttpRule_custom_update) message reader
    else if drop_bit 3 tag = 7 then case_read tag 58 (rString W) (store HttpRule_body_update) message reader
    else if drop_bit 3 tag = 12 then case_read tag 98 (rString W) (store HttpRule_responseBody_update) message reader
    else if drop_bit 3 tag = 11 then case_read tag 90 (read_message W decode) (push HttpRule_additionalBindings_update) message reader
    else Inr None)"

definition HttpRule_decode :: "('w, 'r) wire \<Rightarrow> 'r input \<Rightarrow> nat option \<Rightarrow> (HttpRule \<times> 'r) res" where
  "HttpRule_decode W = decode_rec W (HttpRule_switch W) createBaseHttpRule"

function HttpRule_fromJSON :: "jsval \<Rightarrow> HttpRule res" where
  "HttpRule_fromJSON object =
     rbind (json_field object ''selector'' js_String (Inr '''')) (\<lambda>selector.
     rbind (json_field object ''get'' (some_res js_String) (Inr None)) (\<lambda>get'.
     rbind (json_field object ''put'' (some_res js_String) (Inr None)) (\<lambda>put'.
     rbind (json_field object ''post'' (some_res js_String) (Inr None)) (\<lambda>post.
     rbind (json_field object ''delete'' (some_res js_String) (Inr None)) (\<lambda>delete.
     rbind (json_field object ''patch'' (some_res js_String) (Inr None)) (\<lambda>patch.
     rbind (json_field object ''custom'' (some_res CustomHttpPattern_fromJSON) (Inr None)) (\<lambda>custom.
     rbind (json_field object ''body'' js_String (Inr '''')) (\<lambda>body.
     rbind (json_field2 object ''responseBody'' ''response_body'' js_String (Inr '''')) (\<lambda>responseBody.
     rbind (json_array object ''additionalBindings'' HttpRule_fromJSON (json_array object ''additional_bindings'' HttpRule_fromJSON (Inr []))) (\<lambda>additionalBindings.
     Inr (HttpRule selector get' put' post delete patch custom body responseBody additionalBindings)))))))))))"
  by pat_completeness auto
termination
  by (relation "measure size") (simp_all add: js_opt_get_size)

declare HttpRule_fromJSON.simps [simp del]

function HttpRule_toJSON :: "HttpRule \<Rightarrow> jsval" where
  "HttpRule_toJSON message = json_object [
     (''selector'', put_if (HttpRule_selector message \<noteq> '''') (JStr (HttpRule_selector message))),
     (''get'', map_option JStr (HttpRule_get message)),
     (''put'', map_option JStr (HttpRule_put message)),
     (''post'', map_option JStr (HttpRule_post message)),
     (''delete'', map_option JStr (HttpRule_delete message)),
     (''patch'', map_option JStr (HttpRule_patch message)),
     (''custom'', map_option CustomHttpPattern_toJSON (HttpRule_custom message)),
     (''body'', put_if (HttpRule_body message \<noteq> '''') (JStr (HttpRule_body message))),
     (''responseBody'', put_if (HttpRule_responseBody message \<noteq> '''') (JStr (HttpRule_responseBody message))),
     (''additionalBindings'', put_if (HttpRule_additionalBindings message \<noteq> []) (JArr (map HttpRule_toJSON (HttpRule_additionalBindings message))))]"
  by pat_completeness auto
termination
  by (relation "measure size") (simp_all add: HttpRule_part_size)

declare HttpRule_toJSON.simps [simp del]

datatype HttpRule_Partial = HttpRule_Partial
  (Partial_HttpRule_selector: "string option")
  (Partial_HttpRule_get: "string option")
  (Partial_HttpRule_put: "string option")
  (Partial_HttpRule_post: "string option")
  (Partial_HttpRule_delete: "string option")
  (Partial_HttpRule_patch: "string option")
  (Partial_HttpRule_custom: "CustomHttpPattern_Partial option")
  (Partial_HttpRule_body: "string option")
  (Partial_HttpRule_responseBody: "string option")
  (Partial_HttpRule_additionalBindings: "HttpRule_Partial list option")

lemma HttpRule_Partial_part_size:
  "Partial_HttpRule_additionalBindings object = Some vs \<Longrightarrow> v \<in> set vs \<Longrightarrow> size v < size object"
  by (cases object) (auto simp: less_Suc_eq_le intro!: le_SucI intro: size_list_estimation')

function HttpRule_fromPartial :: "HttpRule_Partial \<Rightarrow> HttpRule" where
  "HttpRule_fromPartial object = HttpRule
     (nullish (Partial_HttpRule_selector object) '''')
     (Partial_HttpRule_get object)
     (Partial_HttpRule_put object)
     (Partial_HttpRule_post object)
     (Partial_HttpRule_delete object)
     (Partial_HttpRule_patch object)
     (map_option CustomHttpPattern_fromPartial (Partial_HttpRule_custom object))
     (nullish (Partial_HttpRule_body object) '''')
     (nullish (Partial_HttpRule_responseBody object) '''')
     (nullish (map_option (map HttpRule_fromPartial) (Partial_HttpRule_additionalBindings object)) [])"
  by pat_completeness auto
termination
  by (relation "measure size") (simp_all add: HttpRule_Partial_part_size)

declare HttpRule_fromPartial.simps [simp del]

definition HttpRule_create :: "HttpRule_Partial option \<Rightarrow> HttpRule" where
  "HttpRule_create base = HttpRule_fromPartial (nullish base (HttpRule_Partial None None None None None None None None None None))"

section \<open>Http\<close>

record Http =
  Http_rules :: "HttpRule list"
  Http_fullyDecodeReservedExpansion :: bool

definition createBaseHttp :: Http where
  "createBaseHttp = \<lparr>Http_rules = [], Http_fullyDecodeReservedExpansion = False\<rparr>"

definition Http_encode :: "('w, 'r) wire \<Rightarrow> Http \<Rightarrow> 'w stmt" where
  "Http_encode W message = run [
     for_each (Http_rules message) (\<lambda>v. sub_message W 10 (HttpRule_encode W v)),
     only_if (Http_fullyDecodeReservedExpansion message \<noteq> False) (tagged W 16 (wBool W (Http_fullyDecodeReservedExpansion message)))]"

definition Http_switch :: "('w, 'r) wire \<Rightarrow> (Http, 'r) switch" where
  "Http_switch W tag message reader =
   (if drop_bit 3 tag = 1 then case_read tag 10 (read_message W (HttpRule_decode W)) (push Http_rules_update) message reader
    else if drop_bit 3 tag = 2 then case_read tag 16 (rBool W) (store Http_fullyDecodeReservedExpansion_update) message reader
    else Inr None)"

definition Http_decode :: "('w, 'r) wire \<Rightarrow> 'r input \<Rightarrow> nat option \<Rightarrow> (Http \<times> 'r) res" where
  "Http_decode W = decode_msg W (Http_switch W) createBaseHttp"

definition Http_fromJSON :: "jsval \<Rightarrow> Http res" where
  "Http_fromJSON object =
     rbind (json_array object ''rules'' HttpRule_fromJSON (Inr [])) (\<lambda>rules.
     rbind (json_field2 object ''fullyDecodeReservedExpansion'' ''fully_decode_reserved_expansion'' js_Boolean_res (Inr False)) (\<lambda>fullyDecodeReservedExpansion.
     Inr \<lparr>Http_rules = rules, Http_fullyDecodeReservedExpansion = fullyDecodeReservedExpansion\<rparr>))"

definition Http_toJSON :: "Http \<Rightarrow> jsval" where
  "Http_toJSON message = json_object [
     (''rules'', put_if (Http_rules message \<noteq> []) (JArr (map HttpRule_toJSON (Http_rules message)))),
     (''fullyDecodeReservedExpansion'', put_if (Http_fullyDecodeReservedExpansion message \<noteq> False) (JBool (Http_fullyDecodeReservedExpansion message)))]"

record Http_Partial =
  Partial_Http_rules :: "HttpRule_Partial list option"
  Partial_Http_fullyDecodeReservedExpansion :: "bool option"

definition Http_fromPartial :: "Http_Partial \<Rightarrow> Http" where
  "Http_fromPartial object = createBaseHttp\<lparr>
     Http_rules := nullish (map_option (map HttpRule_fromPartial) (Partial_Http_rules object)) [],
     Http_fullyDecodeReservedExpansion := nullish (Partial_Http_fullyDecodeReservedExpansion object) False\<rparr>"

definition Http_create :: "Http_Partial option \<Rightarrow> Http" where
  "Http_create base = Http_fromPartial (nullish base \<lparr>Partial_Http_rules = None, Partial_Http_fullyDecodeReservedExpansion = None\<rparr>)"

section \<open>The documented wire form\<close>

text \<open>
  \<open>M_fits\<close> bounds the wire form by what a 32-bit length can say. \<open>M_merge m0 m\<close> is \<open>m0\<close> after
  the fields of \<open>m\<close> have been read into it: a singular field that is present overwrites,
  elements of a repeated field are added at the end.
\<close>

definition CustomHttpPattern_bytes :: "CustomHttpPattern \<Rightarrow> bytes" where
  "CustomHttpPattern_bytes m = concat [
     str_field 10 (CustomHttpPattern_kind m),
     str_field 18 (CustomHttpPattern_path m)]"

definition CustomHttpPattern_fits :: "CustomHttpPattern \<Rightarrow> bool" where
  "CustomHttpPattern_fits m \<longleftrightarrow> length (CustomHttpPattern_bytes m) < 2 ^ 32"

definition CustomHttpPattern_merge :: "CustomHttpPattern \<Rightarrow> CustomHttpPattern \<Rightarrow> CustomHttpPattern" where
  "CustomHttpPattern_merge m0 m = m0\<lparr>
     CustomHttpPattern_kind := (if CustomHttpPattern_kind m = '''' then CustomHttpPattern_kind m0 else CustomHttpPattern_kind m),
     CustomHttpPattern_path := (if CustomHttpPattern_path m = '''' then CustomHttpPattern_path m0 else CustomHttpPattern_path m)\<rparr>"

function HttpRule_bytes :: "HttpRule \<Rightarrow> bytes" where
  "HttpRule_bytes m = concat [
     str_field 10 (HttpRule_selector m),
     opt_str_field 18 (HttpRule_get m),
     opt_str_field 26 (HttpRule_put m),
     opt_str_field 34 (HttpRule_post m),
     opt_str_field 42 (HttpRule_delete m),
     opt_str_field 50 (HttpRule_patch m),
     opt_msg_field 66 CustomHttpPattern_bytes (HttpRule_custom m),
     str_field 58 (HttpRule_body m),
     str_field 98 (HttpRule_responseBody m),
     rep_msg_field 90 HttpRule_bytes (HttpRule_additionalBindings m)]"
  by pat_completeness auto
termination
  by (relation "measure size") (simp_all add: HttpRule_part_size)

declare HttpRule_bytes.simps [simp del]

definition HttpRule_fits :: "HttpRule \<Rightarrow> bool" where
  "HttpRule_fits m \<longleftrightarrow> length (HttpRule_bytes m) < 2 ^ 32"

definition HttpRule_merge :: "HttpRule \<Rightarrow> HttpRule \<Rightarrow> HttpRule" where
  "HttpRule_merge m0 m = HttpRule
     ((if HttpRule_selector m = '''' then HttpRule_selector m0 else HttpRule_selector m))
     ((case HttpRule_get m of None \<Rightarrow> HttpRule_get m0 | Some v \<Rightarrow> Some v))
     ((case HttpRule_put m of None \<Rightarrow> HttpRule_put m0 | Some v \<Rightarrow> Some v))
     ((case HttpRule_post m of None \<Rightarrow> HttpRule_post m0 | Some v \<Rightarrow> Some v))
     ((case HttpRule_delete m of None \<Rightarrow> HttpRule_delete m0 | Some v \<Rightarrow> Some v))
     ((case HttpRule_patch m of None \<Rightarrow> HttpRule_patch m0 | Some v \<Rightarrow> Some v))
     ((case HttpRule_custom m of None \<Rightarrow> HttpRule_custom m0 | Some v \<Rightarrow> Some v))
     ((if HttpRule_body m = '''' then HttpRule_body m0 else HttpRule_body m))
     ((if HttpRule_responseBody m = '''' then HttpRule_responseBody m0 else HttpRule_responseBody m))
     (HttpRule_additionalBindings m0 @ HttpRule_additionalBindings m)"

definition Http_bytes :: "Http \<Rightarrow> bytes" where
  "Http_bytes m = concat [
     rep_msg_field 10 HttpRule_bytes (Http_rules m),
     bool_field 16 (Http_fullyDecodeReservedExpansion m)]"

definition Http_fits :: "Http \<Rightarrow> bool" where
  "Http_fits m \<longleftrightarrow> length (Http_bytes m) < 2 ^ 32"

definition Http_merge :: "Http \<Rightarrow> Http \<Rightarrow> Http" where
  "Http_merge m0 m = m0\<lparr>
     Http_rules := Http_rules m0 @ Http_rules m,
     Http_fullyDecodeReservedExpansion := (if Http_fullyDecodeReservedExpansion m then True else Http_fullyDecodeReservedExpansion m0)\<rparr>"

section \<open>The codecs implement the wire form\<close>

context wire_laws
begin

lemma CustomHttpPattern_parts:
  assumes "CustomHttpPattern_fits m"
  shows "length (str_field 10 (CustomHttpPattern_kind m)) < 2 ^ 32"
    and "length (str_field 18 (CustomHttpPattern_path m)) < 2 ^ 32"
  using assms by (simp_all add: CustomHttpPattern_fits_def CustomHttpPattern_bytes_def)

lemma CustomHttpPattern_writes:
  assumes "CustomHttpPattern_fits m"
  shows "appends buf (CustomHttpPattern_encode W m) (CustomHttpPattern_bytes m)"
  unfolding CustomHttpPattern_encode_def CustomHttpPattern_bytes_def concat.simps
  by (intro appends_run_Cons appends_run_Nil enc_str_field CustomHttpPattern_parts [OF assms])

lemma CustomHttpPattern_reads:
  shows "switch_reads (CustomHttpPattern_switch W) 10 (rString W) (store CustomHttpPattern_kind_update)"
    and "switch_reads (CustomHttpPattern_switch W) 18 (rString W) (store CustomHttpPattern_path_update)"
  by (simp_all add: switch_reads_def CustomHttpPattern_switch_def)

lemma CustomHttpPattern_good: "good_switch W valid k (CustomHttpPattern_switch W)"
  unfolding good_switch_def CustomHttpPattern_switch_def 
  by (auto intro!: good_step_case_read rString_safe rBool_safe )

lemma CustomHttpPattern_runs:
  assumes "CustomHttpPattern_fits m"
  shows "runs W valid rest k (CustomHttpPattern_switch W) (CustomHttpPattern_bytes m) (\<lambda>m0. CustomHttpPattern_merge m0 m)"
  unfolding CustomHttpPattern_bytes_def concat.simps
  by (rule runs_cong,
      (rule runs_append runs_Nil read_str_field
         CustomHttpPattern_reads CustomHttpPattern_parts [OF assms]
       | assumption | simp; fail)+,
      simp add: CustomHttpPattern_merge_def)

end

sublocale wire_laws \<subseteq> CustomHttpPattern: switch_codec W buf valid rest "CustomHttpPattern_encode W" "CustomHttpPattern_switch W"
    createBaseCustomHttpPattern CustomHttpPattern_bytes CustomHttpPattern_fits "\<lambda>m. m" CustomHttpPattern_merge
proof unfold_locales
  show "CustomHttpPattern_merge createBaseCustomHttpPattern m = m" for m
    by (cases m) (auto simp: CustomHttpPattern_merge_def createBaseCustomHttpPattern_def split: option.split)
qed (simp_all add: CustomHttpPattern_writes CustomHttpPattern_good CustomHttpPattern_runs, simp add: CustomHttpPattern_fits_def)

context wire_laws
begin

lemma HttpRule_parts:
  assumes "HttpRule_fits m"
  shows "length (str_field 10 (HttpRule_selector m)) < 2 ^ 32"
    and "length (opt_str_field 18 (HttpRule_get m)) < 2 ^ 32"
    and "length (opt_str_field 26 (HttpRule_put m)) < 2 ^ 32"
    and "length (opt_str_field 34 (HttpRule_post m)) < 2 ^ 32"
    and "length (opt_str_field 42 (HttpRule_delete m)) < 2 ^ 32"
    and "length (opt_str_field 50 (HttpRule_patch m)) < 2 ^ 32"
    and "length (opt_msg_field 66 CustomHttpPattern_bytes (HttpRule_custom m)) < 2 ^ 32"
    and "length (str_field 58 (HttpRule_body m)) < 2 ^ 32"
    and "length (str_field 98 (HttpRule_responseBody m)) < 2 ^ 32"
    and "length (rep_msg_field 90 HttpRule_bytes (HttpRule_additionalBindings m)) < 2 ^ 32"
  using assms by (simp_all add: HttpRule_fits_def HttpRule_bytes.simps [of m])

lemma HttpRule_custom_fits:
  assumes "HttpRule_fits m" and "HttpRule_custom m = Some v"
  shows "CustomHttpPattern_fits v"
  using opt_msg_bound [OF HttpRule_parts(7) [OF assms(1)] assms(2)] by (simp add: CustomHttpPattern_fits_def)

lemma HttpRule_additionalBindings_fits:
  assumes "HttpRule_fits m" and "v \<in> set (HttpRule_additionalBindings m)"
  shows "HttpRule_fits v"
  using rep_msg_bound [OF HttpRule_parts(10) [OF assms(1)] assms(2)] by (simp add: HttpRule_fits_def)

lemma HttpRule_writes: "HttpRule_fits m \<Longrightarrow> appends buf (HttpRule_encode W m) (HttpRule_bytes m)"
proof (induction m rule: HttpRule_bytes.induct)
  case (1 m)
  have IH: "appends buf (HttpRule_encode W v) (HttpRule_bytes v)" if "v \<in> set (HttpRule_additionalBindings m)" for v
    using 1 that HttpRule_additionalBindings_fits by blast
  show ?case
    unfolding HttpRule_encode.simps [of W m] HttpRule_bytes.simps [of m] concat.simps
    by (rule appends_run_Cons appends_run_Nil enc_str_field enc_opt_str_field CustomHttpPattern.enc_opt_sub enc_rep_msg_field HttpRule_parts [OF "1.prems"]
        | erule IH HttpRule_custom_fits [OF "1.prems"])+
qed

lemma HttpRule_reads:
  shows "switch_reads (HttpRule_switch W dec) 10 (rString W) (store HttpRule_selector_update)"
    and "switch_reads (HttpRule_switch W dec) 18 (rString W) (store_some HttpRule_get_update)"
    and "switch_reads (HttpRule_switch W dec) 26 (rString W) (store_some HttpRule_put_update)"
    and "switch_reads (HttpRule_switch W dec) 34 (rString W) (store_some HttpRule_post_update)"
    and "switch_reads (HttpRule_switch W dec) 42 (rString W) (store_some HttpRule_delete_update)"
    and "switch_reads (HttpRule_switch W dec) 50 (rString W) (store_some HttpRule_patch_update)"
    and "switch_reads (HttpRule_switch W dec) 66 (read_message W (CustomHttpPattern_decode W)) (store_some HttpRule_custom_update)"
    and "switch_reads (HttpRule_switch W dec) 58 (rString W) (store HttpRule_body_update)"
    and "switch_reads (HttpRule_switch W dec) 98 (rString W) (store HttpRule_responseBody_update)"
    and "switch_reads (HttpRule_switch W dec) 90 (read_message W dec) (push HttpRule_additionalBindings_update)"
  by (simp_all add: switch_reads_def HttpRule_switch_def)

lemma HttpRule_good: "safe_decoder W valid k dec \<Longrightarrow> good_switch W valid k (HttpRule_switch W dec)"
  unfolding good_switch_def HttpRule_switch_def CustomHttpPattern_decode_def
  by (auto intro!: good_step_case_read rString_safe rBool_safe safe_read_message [OF CustomHttpPattern.dec_safe]
      intro: safe_read_message)

lemma HttpRule_runs:
  assumes dec: "\<And>v. HttpRule_fits v \<Longrightarrow> decodes W valid rest k dec (HttpRule_bytes v) v" and fits: "HttpRule_fits m"
  shows "runs W valid rest k (HttpRule_switch W dec) (HttpRule_bytes m) (\<lambda>m0. HttpRule_merge m0 m)"
proof -
  have sub: "decodes W valid rest k dec (HttpRule_bytes v) v" if "v \<in> set (HttpRule_additionalBindings m)" for v
    by (rule dec [OF HttpRule_additionalBindings_fits [OF fits that]])
  show ?thesis
    unfolding HttpRule_bytes.simps [of m] concat.simps
    by (rule runs_cong,
      (rule runs_append runs_Nil read_str_field read_opt_str_field CustomHttpPattern.read_opt_sub read_rep_msg_field
         HttpRule_reads [unfolded CustomHttpPattern_decode_def] HttpRule_parts [OF fits]
       | erule sub HttpRule_custom_fits [OF fits]
       | assumption | simp add: HttpRule_update_defs; fail)+,
      simp add: HttpRule_merge_def HttpRule_update_defs cong: option.case_cong if_cong)
qed

lemma HttpRule_switch_cong:
  assumes "valid r"
    and "\<And>r' len. valid r' \<Longrightarrow> bytes_left W r' \<le> bytes_left W r \<Longrightarrow> dec (Reader r') len = dec' (Reader r') len"
  shows "HttpRule_switch W dec tag m r = HttpRule_switch W dec' tag m r"
  using read_message_cong [of r dec dec', OF assms] by (simp add: HttpRule_switch_def case_read_def)

end

sublocale wire_laws \<subseteq> HttpRule: recursive_codec W buf valid rest "HttpRule_encode W" "HttpRule_switch W"
    createBaseHttpRule HttpRule_bytes HttpRule_fits "\<lambda>m. m" HttpRule_merge
proof unfold_locales
  show "HttpRule_merge createBaseHttpRule m = m" for m
    by (cases m) (auto simp: HttpRule_merge_def createBaseHttpRule_def split: option.split)
qed (auto simp: HttpRule_fits_def intro: HttpRule_writes HttpRule_good HttpRule_runs HttpRule_switch_cong)

context wire_laws
begin

lemma Http_parts:
  assumes "Http_fits m"
  shows "length (rep_msg_field 10 HttpRule_bytes (Http_rules m)) < 2 ^ 32"
    and "length (bool_field 16 (Http_fullyDecodeReservedExpansion m)) < 2 ^ 32"
  using assms by (simp_all add: Http_fits_def Http_bytes_def)

lemma Http_rules_fits:
  assumes "Http_fits m" and "v \<in> set (Http_rules m)"
  shows "HttpRule_fits v"
  using rep_msg_bound [OF Http_parts(1) [OF assms(1)] assms(2)] by (simp add: HttpRule_fits_def)

lemma Http_writes:
  assumes "Http_fits m"
  shows "appends buf (Http_encode W m) (Http_bytes m)"
  unfolding Http_encode_def Http_bytes_def concat.simps
  by (rule appends_run_Cons appends_run_Nil HttpRule.enc_rep_sub enc_bool_field Http_parts [OF assms] | erule Http_rules_fits [OF assms])+

lemma Http_reads:
  shows "switch_reads (Http_switch W) 10 (read_message W (HttpRule_decode W)) (push Http_rules_update)"
    and "switch_reads (Http_switch W) 16 (rBool W) (store Http_fullyDecodeReservedExpansion_update)"
  by (simp_all add: switch_reads_def Http_switch_def)

lemma Http_good: "good_switch W valid k (Http_switch W)"
  unfolding good_switch_def Http_switch_def HttpRule_decode_def
  by (auto intro!: good_step_case_read rString_safe rBool_safe safe_read_message [OF HttpRule.dec_safe])

lemma Http_runs:
  assumes "Http_fits m"
  shows "runs W valid rest k (Http_switch W) (Http_bytes m) (\<lambda>m0. Http_merge m0 m)"
  unfolding Http_bytes_def concat.simps
  by (rule runs_cong,
      (rule runs_append runs_Nil HttpRule.read_rep_sub read_bool_field
         Http_reads [unfolded HttpRule_decode_def] Http_parts [OF assms]
       | erule Http_rules_fits [OF assms]
       | assumption | simp; fail)+,
      simp add: Http_merge_def)

end

sublocale wire_laws \<subseteq> Http: switch_codec W buf valid rest "Http_encode W" "Http_switch W"
    createBaseHttp Http_bytes Http_fits "\<lambda>m. m" Http_merge
proof unfold_locales
  show "Http_merge createBaseHttp m = m" for m
    by (cases m) (auto simp: Http_merge_def createBaseHttp_def split: option.split)
qed (simp_all add: Http_writes Http_good Http_runs, simp add: Http_fits_def)

section \<open>JSON forms read back\<close>

interpretation CustomHttpPattern_json: json_codec CustomHttpPattern_toJSON CustomHttpPattern_fromJSON "\<lambda>m. m"
proof unfold_locales
  show "CustomHttpPattern_fromJSON (CustomHttpPattern_toJSON m) = Inr m" for m
    by (cases m) (auto simp: CustomHttpPattern_fromJSON_def CustomHttpPattern_toJSON_def json_read_back )
qed (simp add: CustomHttpPattern_toJSON_def)

lemma HttpRule_json_roundtrip: "HttpRule_fromJSON (HttpRule_toJSON m) = Inr m"
proof (induction m rule: HttpRule_toJSON.induct)
  case (1 m)
  then have "map_res HttpRule_fromJSON (map HttpRule_toJSON (HttpRule_additionalBindings m)) = Inr (HttpRule_additionalBindings m)"
    using map_res_map_Inr [of "HttpRule_additionalBindings m" HttpRule_fromJSON HttpRule_toJSON "\<lambda>m. m"] by simp
  then show ?case
    by (subst HttpRule_fromJSON.simps, unfold HttpRule_toJSON.simps [of m], cases m)
       (auto simp: json_read_back CustomHttpPattern_json.json_nested split: option.split)
qed

interpretation HttpRule_json: json_codec HttpRule_toJSON HttpRule_fromJSON "\<lambda>m. m"
  by unfold_locales (rule HttpRule_json_roundtrip, simp add: HttpRule_toJSON.simps)

interpretation Http_json: json_codec Http_toJSON Http_fromJSON "\<lambda>m. m"
proof unfold_locales
  show "Http_fromJSON (Http_toJSON m) = Inr m" for m
    by (cases m) (auto simp: Http_fromJSON_def Http_toJSON_def json_read_back HttpRule_json.json_nested)
qed (simp add: Http_toJSON_def)

end
