(* ===== verification/Spec2Isabelle.thy ===== *)
theory Spec2Isabelle
  imports Descriptor_Laws App Http_Messages
begin

text \<open>
  A model of the browser client of this repository, \<^verbatim>\<open>web/src\<close>: a React page that talks to a
  gRPC server through an HTTP gateway, with the message codecs that \<^verbatim>\<open>protoc-gen-ts_proto\<close>
  generated for it.

  \<^bold>\<open>Parts and theories.\<close>
  \<^item> \<open>Prelude\<close>, \<open>JS_Value\<close>: exceptions and results; the JavaScript values, conversions and
    \<^verbatim>\<open>JSON.stringify\<close> that the client uses; the readers of which every generated
    \<^verbatim>\<open>fromJSON\<close> consists.
  \<^item> \<open>Binary64\<close>, \<open>Wire_Format\<close>: the eight bytes of a double, and the wire format as its
    documentation describes it, the specification of the encoders and decoders.
  \<^item> \<open>Wire\<close>: the operations of \<^verbatim>\<open>@bufbuild/protobuf/wire\<close> as a record, and the control
    structures that all generated codecs share (\<open>decode_loop\<close> is the loop of every \<^verbatim>\<open>decode\<close>).
  \<^item> \<open>Wire_Laws\<close>, \<open>Codec\<close>: the library's documented behaviour as the locale \<open>wire_laws\<close>; the
    contracts of a message object as the locales \<open>message_codec\<close>, \<open>switch_codec\<close> and, for a message that
    contains itself, \<open>recursive_codec\<close>.
  \<^item> \<open>Wire_Reference\<close>: an executable reference instance \<open>pb_wire\<close> of the library that satisfies
    \<open>wire_laws\<close>; the witnesses run the codecs on it.
  \<^item> \<open>Auth_Messages\<close>, \<open>Greeter_Messages\<close>, \<open>Http_Messages\<close>: the message objects of
    \<^verbatim>\<open>generated/auth.ts\<close>, \<^verbatim>\<open>generated/greeter.ts\<close> and \<^verbatim>\<open>generated/google/api/http.ts\<close>. For a message
    \<open>M\<close>: the record \<open>M\<close>, \<open>createBaseM\<close>, \<open>M_encode\<close>, \<open>M_switch\<close>, \<open>M_decode\<close>, \<open>M_fromJSON\<close>, \<open>M_toJSON\<close>,
    \<open>M_fromPartial\<close>, \<open>M_create\<close>, named as in the source; \<open>M_bytes\<close> is its wire form, and a sublocale or an
    interpretation proves the contracts.
  \<^item> \<open>Descriptor_Enums\<close>: the enums of \<^verbatim>\<open>generated/google/protobuf/descriptor.ts\<close> under the
    contract \<open>json_enum\<close>. \<open>Base64\<close>, \<open>Descriptor_Runtime\<close>: base 64, and the helper functions of the
    file, with what a JavaScript host promises as the locale \<open>base64_laws\<close>. \<open>Descriptor_Messages\<close>,
    \<open>Descriptor_Options\<close>, \<open>Descriptor_Protos\<close>, \<open>Descriptor_Files\<close>: all its message objects, from feature sets
    over options and fields to files, in the same style as above, with \<open>M_norm\<close> and \<open>M_jnorm\<close> for what the wire and
    the JSON form keep of a message. \<open>DescriptorProto\<close> contains itself.
  \<^item> \<open>Descriptor_Stability\<close>, \<open>Descriptor_Types\<close>, \<open>Descriptor_Laws\<close>: a message that has been read is
    written again as the same bytes; the JSON form agrees with the wire form; decoders return
    typed messages; and these facts for whole sets of files.
  \<^item> \<open>Auth_Api\<close>: \<^verbatim>\<open>api/auth.ts\<close>; \<^verbatim>\<open>fetch\<close> is an argument.
  \<^item> \<open>Auth_Context\<close>: \<^verbatim>\<open>auth/AuthContext.tsx\<close> and \<^verbatim>\<open>auth/AuthBar.tsx\<close>, the session as a
    record, each callback as a function and \<open>auth_step\<close> as the interleaving of callbacks and
    answers from the network, for a page that is alone in writing the session's storage key;
    \<open>shared_step\<close> adds the writes of other pages of the application under that key.
  \<^item> \<open>App\<close>: \<^verbatim>\<open>App.tsx\<close>, the echo form in the same way.

  \<^bold>\<open>What the lemmas show.\<close> Encoders write the documented bytes, and decoders read them back,
  end on every input, step over unknown fields, stop at a zero or end-group tag and return typed
  messages; JSON forms read back; requests and errors of the API client; the session's storage and state agree in
  every reachable state of a production page that alone writes its key (C28), signing out lasts whatever
  other pages write (C30), and what happens otherwise; the echo form has
  one request in flight. The properties are numbered C1, C2, ... below.

  \<^bold>\<open>Bounds and fuel.\<close> The fuel of \<open>decode_loop\<close> and \<open>packed_loop\<close> is the number of bytes left plus one,
  and the nesting depth of \<open>decode_rec\<close> likewise; a tag takes at least one byte, so neither
  runs out (C3, C6, C13), and the lemma \<open>decode_rec_unfold\<close> of theory \<open>Codec\<close> shows that the depth is
  never seen. A message can be written when
  its wire form is shorter than \<open>2 ^ 32\<close> bytes and its numbers are in the range of their fields
  (\<open>M_fits\<close>); \<open>shortest_decimal\<close> tries at most as many digits as the exact decimal has.

  \<^bold>\<open>Not modelled.\<close> Characters above U+00FF, the rounding of numbers to binary beyond
  fifteen digits (a double field is written when its number is the shortest name of a double,
  \<open>double_ok\<close>), the call stack's limit on nesting, React's rendering apart from which element is shown, the development server's
  configuration, and the Go server. Type declarations have no run-time content.
\<close>

section \<open>The codec contracts by name\<close>

text \<open>
  The facts of the locale \<open>wire_laws\<close> that the properties use, for any library that keeps
  the contract.
\<close>

context wire_laws
begin

lemmas User_unknown_law = User.decode_unknown [folded User_decode_def]
  and User_stops_law = User.decode_stops [folded User_decode_def]
  and SessionResponse_roundtrip_law = SessionResponse.roundtrip [folded SessionResponse_decode_def]
  and SessionResponse_total_law = SessionResponse.decode_total [folded SessionResponse_decode_def]
  and SessionResponse_ends_law = SessionResponse.decode_ends [folded SessionResponse_decode_def]
  and SessionResponse_concat_law = SessionResponse.decode_concat [folded SessionResponse_decode_def]
  and ListUsersResponse_roundtrip_law = ListUsersResponse.roundtrip [folded ListUsersResponse_decode_def]
  and ListUsersResponse_concat_law = ListUsersResponse.decode_concat [folded ListUsersResponse_decode_def]
  and HttpRule_roundtrip_law = HttpRule.roundtrip [folded HttpRule_decode_def]
  and HttpRule_total_law = HttpRule.decode_total [folded HttpRule_decode_def]
  and HttpRule_concat_law = HttpRule.decode_concat [folded HttpRule_decode_def]
  and Http_roundtrip_law = Http.roundtrip [folded Http_decode_def]
  and User_roundtrip_law = User.roundtrip [folded User_decode_def]
  and FeatureSetDefaults_roundtrip_law = FeatureSetDefaults.roundtrip [folded FeatureSetDefaults_decode_def]
  and GeneratedCodeInfo_total_law = GeneratedCodeInfo.decode_total [folded GeneratedCodeInfo_decode_def]
  and GeneratedCodeInfo_ends_law = GeneratedCodeInfo.decode_ends [folded GeneratedCodeInfo_decode_def]
  and EchoRequest_roundtrip_law = EchoRequest.roundtrip [folded EchoRequest_decode_def]

end

context wire_laws
begin

lemma Location_packed:
  assumes "list_all int32_ok ps" and "list_all int32_ok ss"
    and "length (packed_field 10 ps @ packed_field 18 ss) < 2 ^ 32"
  shows "\<exists>r. SourceCodeInfo_Location_decode W (Bytes (packed_field 10 ps @ packed_field 18 ss)) None =
    Inr (createBaseSourceCodeInfo_Location\<lparr>SourceCodeInfo_Location_path := ps, SourceCodeInfo_Location_span := ss\<rparr>, r)"
proof -
  have path: "runs W valid rest k (SourceCodeInfo_Location_switch W) (packed_field 10 ps)
      (SourceCodeInfo_Location_path_update (\<lambda>old. old @ ps))" for k
    by (rule read_packed [OF SourceCodeInfo_Location_reads(1)]) (use assms in simp_all)
  have span: "runs W valid rest k (SourceCodeInfo_Location_switch W) (packed_field 18 ss)
      (SourceCodeInfo_Location_span_update (\<lambda>old. old @ ss))" for k
    by (rule read_packed [OF SourceCodeInfo_Location_reads(2)]) (use assms in simp_all)
  from SourceCodeInfo_Location.decode_runs [OF runs_append [OF path span]] show ?thesis
    by (simp add: SourceCodeInfo_Location_decode_def createBaseSourceCodeInfo_Location_def)
qed

lemma Location_unpacked:
  assumes "list_all int32_ok ps" and "list_all int32_ok ss"
  shows "\<exists>r. SourceCodeInfo_Location_decode W (Bytes (unpacked_field 8 ps @ unpacked_field 16 ss)) None =
    Inr (createBaseSourceCodeInfo_Location\<lparr>SourceCodeInfo_Location_path := ps, SourceCodeInfo_Location_span := ss\<rparr>, r)"
proof -
  have path: "runs W valid rest k (SourceCodeInfo_Location_switch W) (unpacked_field 8 ps)
      (SourceCodeInfo_Location_path_update (\<lambda>old. old @ ps))" for k
    by (rule read_unpacked [OF SourceCodeInfo_Location_reads(1)]) (use assms in simp_all)
  have span: "runs W valid rest k (SourceCodeInfo_Location_switch W) (unpacked_field 16 ss)
      (SourceCodeInfo_Location_span_update (\<lambda>old. old @ ss))" for k
    by (rule read_unpacked [OF SourceCodeInfo_Location_reads(2)]) (use assms in simp_all)
  from SourceCodeInfo_Location.decode_runs [OF runs_append [OF path span]] show ?thesis
    by (simp add: SourceCodeInfo_Location_decode_def createBaseSourceCodeInfo_Location_def)
qed

end

lemma semantic_json:
  "enum_json (NInt 0) GeneratedCodeInfo_Annotation_Semantic_value generatedCodeInfo_Annotation_SemanticFromJSON
     generatedCodeInfo_Annotation_SemanticToJSON x =
   (if nullish x (NInt 0) \<in> range (\<lambda>e. NInt (GeneratedCodeInfo_Annotation_Semantic_value e))
    then nullish x (NInt 0) else NInt (- 1))"
proof -
  have "NInt 0 = NInt (GeneratedCodeInfo_Annotation_Semantic_value GeneratedCodeInfo_Annotation_Semantic_NONE)" by simp
  then have "NInt 0 \<in> range (\<lambda>e. NInt (GeneratedCodeInfo_Annotation_Semantic_value e))" by blast
  then show ?thesis
    using generatedCodeInfo_Annotation_Semantic.number_survives_iff generatedCodeInfo_Annotation_Semantic.unknown_lost
    by (auto simp: enum_json_def nullish_def split: option.split)
qed

lemma User_ignores: "t \<notin> {10, 18, 26, 34, 42, 48} \<Longrightarrow> switch_ignores (User_switch W) t"
  by (simp add: switch_ignores_def User_switch_def case_read_def)

section \<open>Example values\<close>

definition ada :: User where
  "ada = \<lparr>User_id = ''u1'', User_email = ''ada@x.org'', User_displayName = ''Ada'', User_username = ''ada'',
     User_pictureUrl = '''', User_isAdmin = True\<rparr>"

definition bob :: User where
  "bob = \<lparr>User_id = ''u2'', User_email = '''', User_displayName = ''Bob'', User_username = '''',
     User_pictureUrl = '''', User_isAdmin = False\<rparr>"

definition ada_session :: SessionResponse where
  "ada_session = \<lparr>SessionResponse_jwt = ''t0'', SessionResponse_user = Some ada\<rparr>"

definition inner_rule :: HttpRule where
  "inner_rule = HttpRule '''' (Some ''/v1/me'') None None None None None '''' '''' []"

definition outer_rule :: HttpRule where
  "outer_rule = HttpRule ''auth.Me'' None None (Some ''/me'') None None
     (Some \<lparr>CustomHttpPattern_kind = ''HEAD'', CustomHttpPattern_path = ''/m''\<rparr>) ''*'' '''' [inner_rule, inner_rule]"

lemma User_length:
  "length (User_bytes m) \<le> 192 + 4 * (length (User_id m) + length (User_email m) + length (User_displayName m)
     + length (User_username m) + length (User_pictureUrl m))"
  using length_str_field [of 10 "User_id m"] length_str_field [of 18 "User_email m"]
    length_str_field [of 26 "User_displayName m"] length_str_field [of 34 "User_username m"]
    length_str_field [of 42 "User_pictureUrl m"] length_bool_field [of 48 "User_isAdmin m"]
  by (simp add: User_bytes_def)

lemma SessionResponse_length:
  "length (SessionResponse_bytes m) \<le> 32 + 4 * length (SessionResponse_jwt m)
     + 2 * (case SessionResponse_user m of None \<Rightarrow> 0 | Some v \<Rightarrow> length (User_bytes v))"
  using length_str_field [of 10 "SessionResponse_jwt m"] length_opt_msg_field [of 18 User_bytes "SessionResponse_user m"]
  by (simp add: SessionResponse_bytes_def)

lemma users_fit: "User_fits ada" "User_fits bob"
  using User_length [of ada] User_length [of bob] by (simp_all add: User_fits_def ada_def bob_def)

lemma session_fits: "SessionResponse_fits ada_session"
  using SessionResponse_length [of ada_session] User_length [of ada]
  by (simp add: SessionResponse_fits_def ada_session_def ada_def)

lemma users_list_fits: "ListUsersResponse_fits \<lparr>ListUsersResponse_users = [ada, bob]\<rparr>"
  using length_rep_msg_field [of 10 User_bytes "[ada, bob]"] User_length [of ada] User_length [of bob]
  by (simp add: ListUsersResponse_fits_def ListUsersResponse_bytes_def ada_def bob_def)

lemma HttpRule_length:
  "length (HttpRule_bytes m) \<le> 600 + 4 * (length (HttpRule_selector m) + length (HttpRule_body m) + length (HttpRule_responseBody m)
     + (\<Sum>x\<leftarrow>[HttpRule_get m, HttpRule_put m, HttpRule_post m, HttpRule_delete m, HttpRule_patch m].
          case x of None \<Rightarrow> 0 | Some s \<Rightarrow> length s))
     + 2 * (case HttpRule_custom m of None \<Rightarrow> 0 | Some v \<Rightarrow> length (CustomHttpPattern_bytes v))
     + (\<Sum>v\<leftarrow>HttpRule_additionalBindings m. 92 + 2 * length (HttpRule_bytes v))"
  using length_str_field [of 10 "HttpRule_selector m"] length_opt_str_field [of 18 "HttpRule_get m"]
    length_opt_str_field [of 26 "HttpRule_put m"] length_opt_str_field [of 34 "HttpRule_post m"]
    length_opt_str_field [of 42 "HttpRule_delete m"] length_opt_str_field [of 50 "HttpRule_patch m"]
    length_opt_msg_field [of 66 CustomHttpPattern_bytes "HttpRule_custom m"]
    length_str_field [of 58 "HttpRule_body m"] length_str_field [of 98 "HttpRule_responseBody m"]
    length_rep_msg_field [of 90 HttpRule_bytes "HttpRule_additionalBindings m"]
  by (simp add: HttpRule_bytes.simps [of m])

lemma rules_fit: "HttpRule_fits inner_rule" "HttpRule_fits outer_rule"
proof -
  have inner: "length (HttpRule_bytes inner_rule) \<le> 1000"
    using HttpRule_length [of inner_rule] by (simp add: inner_rule_def)
  then show "HttpRule_fits inner_rule" by (simp add: HttpRule_fits_def)
  have "length (CustomHttpPattern_bytes \<lparr>CustomHttpPattern_kind = ''HEAD'', CustomHttpPattern_path = ''/m''\<rparr>) \<le> 100"
    using length_str_field [of 10 "''HEAD''"] length_str_field [of 18 "''/m''"]
    by (simp add: CustomHttpPattern_bytes_def)
  with inner show "HttpRule_fits outer_rule"
    using HttpRule_length [of outer_rule] by (simp add: HttpRule_fits_def outer_rule_def)
qed

definition features_2023 :: FeatureSet where
  "features_2023 = createBaseFeatureSet\<lparr>FeatureSet_enumType := Some (NInt 1), FeatureSet_jsonFormat := None\<rparr>"

definition editions_2023 :: FeatureSetDefaults where
  "editions_2023 = \<lparr>FeatureSetDefaults_defaults = [\<lparr>
       FeatureSetDefaults_FeatureSetEditionDefault_edition = Some (NInt 1000),
       FeatureSetDefaults_FeatureSetEditionDefault_overridableFeatures = Some features_2023,
       FeatureSetDefaults_FeatureSetEditionDefault_fixedFeatures = None\<rparr>],
     FeatureSetDefaults_minimumEdition = None, FeatureSetDefaults_maximumEdition = Some (NInt 1000)\<rparr>"

lemma packed_example: "length (packed_field 10 [NInt 4, NInt 300]) + length (packed_field 18 [NInt (- 1)]) < 4294967296"
  using length_msg_bytes [of 10 "concat (map int_payload [NInt 4, NInt 300])"]
    length_msg_bytes [of 18 "concat (map int_payload [NInt (- 1)])"]
  by (simp add: packed_field_def small_int_bytes)

lemma editions_2023_fit: "FeatureSetDefaults_fits editions_2023"
  by (simp add: FeatureSetDefaults_fits_def FeatureSetDefaults_bytes_def editions_2023_def features_2023_def
      FeatureSetDefaults_FeatureSetEditionDefault_fits_def FeatureSetDefaults_FeatureSetEditionDefault_bytes_def
      FeatureSet_fits_def FeatureSet_bytes_def createBaseFeatureSet_def other_field_def opt_msg_field_def rep_msg_field_def
      msg_bytes_def delimited_def tag_bytes_def small_int_bytes varint.simps)

text \<open>Servers that answer every request with one status, and pages of a visitor with the token \<open>t0\<close>.\<close>

definition answer :: "nat \<Rightarrow> fetch" where
  "answer n req = Inr \<lparr>status = n, text_result = Inr ''no'', json_result = Inr (User_toJSON ada)\<rparr>"

lemma answer_platform: "platform_fetch (answer n)" "platform_answer (answer n req)"
  by (simp_all add: platform_fetch_def platform_answer_def answer_def)

definition signed_in_page :: session where
  "signed_in_page =
     \<lparr>user = User_toJSON ada, jwt = JStr ''t0'', loading = False, sessionExpired = False,
      storage = [STORAGE_KEY \<mapsto> ''t0''], mounts = 0, restoring = [], logins = []\<rparr>"

definition signed_out_page :: session where
  "signed_out_page = signOut signed_in_page"

lemma ada_json: "js_Boolean (User_toJSON ada)" "js_opt_get (User_toJSON ada) ''username'' = JStr ''ada''"
    "js_opt_get (User_toJSON ada) ''isAdmin'' = JBool True"
  by (simp_all add: User_toJSON_def ada_def json_object_def put_if_def js_set_def)

lemma signed_in_page_reachable: "reachable kong 1 signed_in_page"
proof -
  have "auth_run kong (initial_session 1 [STORAGE_KEY \<mapsto> ''t0'']) [Mount, Me_Reply ''t0'' (answer 200 req), Restore_Finally]
      (loaded_page [STORAGE_KEY \<mapsto> ''t0''] ''t0'' (getCurrentUser (\<lambda>_. answer 200 req) kong ''t0''))" for req
    by (rule auth_run_Cons [OF page_mount waiting_page_run [OF answer_platform(2)]]) simp_all
  moreover have "getCurrentUser (\<lambda>_. answer 200 req) kong ''t0'' = Inr (User_toJSON ada)" for req
    by (simp add: getCurrentUser_Inr_iff answer_def response_ok_def)
  ultimately show ?thesis by (auto simp: reachable_def loaded_page_def signed_in_page_def)
qed

lemma signed_in_page_sign_out: "auth_step kong signed_in_page Sign_Out signed_out_page"
  unfolding signed_out_page_def
  by (rule step_sign_out [where name = "JStr ''ada''" and admin = True])
    (simp add: AuthBar_def signed_in_page_def ada_json js_or_def)

lemma signed_out_page_reachable: "reachable kong 1 signed_out_page"
  by (rule reachable_step [OF signed_in_page_reachable signed_in_page_sign_out])

lemma signed_out_page_other_write:
  "shared_run kong signed_out_page [Other_Page (Some ''t9'')] (signed_out_page\<lparr>storage := [STORAGE_KEY \<mapsto> ''t9'']\<rparr>)"
  using shared_more [OF shared_start step_other_page [of kong signed_out_page "Some ''t9''"]]
  by (simp add: signed_out_page_def signOut_def signed_in_page_def)

text \<open>The echo form while it waits for the reply to \<open>hi\<close>.\<close>

definition asking :: app where
  "asking = \<lparr>app_message = '' hi '', app_response = JNull, app_error = None, app_loading = True,
     app_pending = [\<lparr>EchoRequest_message = ''hi''\<rparr>]\<rparr>"

lemma asking_reachable: "app_reachable kong asking"
proof -
  have typed: "app_reachable kong (initial_app\<lparr>app_message := '' hi ''\<rparr>)"
    by (rule app_next [OF app_start step_type]) (simp add: initial_app_def input_disabled_def)
  have "call_start (initial_app\<lparr>app_message := '' hi ''\<rparr>) = asking"
    by (simp add: call_start_def initial_app_def asking_def trim_def js_space_def)
  moreover have "app_reachable kong (call_start (initial_app\<lparr>app_message := '' hi ''\<rparr>))"
    by (rule app_next [OF typed step_enter]) (simp add: initial_app_def input_disabled_def)
  ultimately show ?thesis by simp
qed

lemma asking_reply:
  "app_step kong asking (Reply \<lparr>EchoRequest_message = ''hi''\<rparr> (answer n r))
     (call_finish (callEcho (\<lambda>_. answer n r) kong \<lparr>EchoRequest_message = ''hi''\<rparr>) (asking\<lparr>app_pending := []\<rparr>))"
  using step_reply [of asking "[]" "\<lparr>EchoRequest_message = ''hi''\<rparr>" "[]" "answer n r" kong] answer_platform(2)
  by (simp add: asking_def)

section \<open>Codecs on the wire\<close>

text \<open>
  C1. Encoding a session response with a new writer never throws and gives its documented
  wire form, and decoding those bytes gives back the same message, nested user included.
\<close>

theorem SessionResponse_roundtrip:
  assumes "wire_laws W buf valid rest" and "SessionResponse_fits m"
  shows "\<exists>w r. SessionResponse_encode W m (newWriter W) = Inr w \<and> wFinish W w = SessionResponse_bytes m \<and>
           SessionResponse_decode W (Bytes (wFinish W w)) None = Inr (m, r)"
  by (rule wire_laws.SessionResponse_roundtrip_law [OF assms])

theorem SessionResponse_roundtrip_witness:
  "\<exists>w r. SessionResponse_encode pb_wire ada_session (newWriter pb_wire) = Inr w \<and>
     wFinish pb_wire w = SessionResponse_bytes ada_session \<and>
     SessionResponse_decode pb_wire (Bytes (wFinish pb_wire w)) None = Inr (ada_session, r)"
  by (rule SessionResponse_roundtrip [OF pb.wire_laws_axioms session_fits])

text \<open>
  C2. The same for an HTTP rule, whose additional bindings are rules again, to any depth.
\<close>

theorem HttpRule_roundtrip:
  assumes "wire_laws W buf valid rest" and "HttpRule_fits m"
  shows "\<exists>w r. HttpRule_encode W m (newWriter W) = Inr w \<and> wFinish W w = HttpRule_bytes m \<and>
           HttpRule_decode W (Bytes (wFinish W w)) None = Inr (m, r)"
  by (rule wire_laws.HttpRule_roundtrip_law [OF assms])

theorem HttpRule_roundtrip_witness:
  "\<exists>w r. HttpRule_encode pb_wire outer_rule (newWriter pb_wire) = Inr w \<and>
     wFinish pb_wire w = HttpRule_bytes outer_rule \<and>
     HttpRule_decode pb_wire (Bytes (wFinish pb_wire w)) None = Inr (outer_rule, r)"
  by (rule HttpRule_roundtrip [OF pb.wire_laws_axioms rules_fit(2)])

text \<open>
  C3. Decoding an HTTP rule returns or throws for every input, however it is nested and
  whatever length is claimed: neither the loop nor the recursion runs on for ever.
\<close>

theorem HttpRule_decode_ends:
  assumes "wire_laws W buf valid rest"
  shows "HttpRule_decode W (Bytes bs) len \<noteq> Inl Diverge"
  by (rule wire_laws.HttpRule_total_law [OF assms])

theorem HttpRule_decode_ends_witness: "HttpRule_decode pb_wire (Bytes [90, 200, 90, 3, 90]) (Some 77) \<noteq> Inl Diverge"
  by (rule HttpRule_decode_ends [OF pb.wire_laws_axioms])

text \<open>
  C4. Two HTTP rules one after the other decode to one rule. Each field that the second rule has
  replaces that of the first, each that it lacks stays, and the additional bindings of the
  second follow those of the first. The six members of the schema's \<^verbatim>\<open>oneof pattern\<close> are
  independent fields here: a \<^verbatim>\<open>get\<close> of the first rule stays beside a \<^verbatim>\<open>post\<close> of the second.
\<close>

theorem HttpRule_concat:
  assumes "wire_laws W buf valid rest" and "HttpRule_fits a" and "HttpRule_fits b"
  shows "\<exists>m r. HttpRule_decode W (Bytes (HttpRule_bytes a @ HttpRule_bytes b)) None = Inr (m, r) \<and>
    HttpRule_selector m = (if HttpRule_selector b = '''' then HttpRule_selector a else HttpRule_selector b) \<and>
    HttpRule_body m = (if HttpRule_body b = '''' then HttpRule_body a else HttpRule_body b) \<and>
    HttpRule_responseBody m = (if HttpRule_responseBody b = '''' then HttpRule_responseBody a else HttpRule_responseBody b) \<and>
    HttpRule_get m = (if HttpRule_get b = None then HttpRule_get a else HttpRule_get b) \<and>
    HttpRule_put m = (if HttpRule_put b = None then HttpRule_put a else HttpRule_put b) \<and>
    HttpRule_post m = (if HttpRule_post b = None then HttpRule_post a else HttpRule_post b) \<and>
    HttpRule_delete m = (if HttpRule_delete b = None then HttpRule_delete a else HttpRule_delete b) \<and>
    HttpRule_patch m = (if HttpRule_patch b = None then HttpRule_patch a else HttpRule_patch b) \<and>
    HttpRule_custom m = (if HttpRule_custom b = None then HttpRule_custom a else HttpRule_custom b) \<and>
    HttpRule_additionalBindings m = HttpRule_additionalBindings a @ HttpRule_additionalBindings b"
  using wire_laws.HttpRule_concat_law [OF assms]
  by (auto simp: HttpRule_merge_def split: option.splits)

theorem HttpRule_concat_witness:
  "\<exists>m r. HttpRule_decode pb_wire (Bytes (HttpRule_bytes inner_rule @ HttpRule_bytes outer_rule)) None = Inr (m, r) \<and>
    HttpRule_selector m = ''auth.Me'' \<and> HttpRule_get m = Some ''/v1/me'' \<and> HttpRule_post m = Some ''/me'' \<and>
    HttpRule_additionalBindings m = [inner_rule, inner_rule]"
proof -
  have "HttpRule_selector outer_rule = ''auth.Me''" "HttpRule_get outer_rule = None"
      "HttpRule_get inner_rule = Some ''/v1/me''" "HttpRule_post outer_rule = Some ''/me''"
      "HttpRule_additionalBindings inner_rule @ HttpRule_additionalBindings outer_rule = [inner_rule, inner_rule]"
    by (simp_all add: outer_rule_def) (simp_all add: inner_rule_def)
  then show ?thesis
    using HttpRule_concat [OF pb.wire_laws_axioms rules_fit] by auto
qed

text \<open>
  C5. Encoding and decoding a user list keeps every user and their order.
\<close>

theorem ListUsersResponse_roundtrip:
  assumes "wire_laws W buf valid rest" and "ListUsersResponse_fits m"
  shows "\<exists>w r. ListUsersResponse_encode W m (newWriter W) = Inr w \<and>
           wFinish W w = concat (map (\<lambda>u. msg_bytes 10 (User_bytes u)) (ListUsersResponse_users m)) \<and>
           ListUsersResponse_decode W (Bytes (wFinish W w)) None = Inr (m, r)"
  using wire_laws.ListUsersResponse_roundtrip_law [OF assms]
  by (simp add: ListUsersResponse_bytes_def rep_msg_field_def)

theorem ListUsersResponse_roundtrip_witness:
  "\<exists>w r. ListUsersResponse_encode pb_wire \<lparr>ListUsersResponse_users = [ada, bob]\<rparr> (newWriter pb_wire) = Inr w \<and>
     wFinish pb_wire w = concat (map (\<lambda>u. msg_bytes 10 (User_bytes u)) (ListUsersResponse_users \<lparr>ListUsersResponse_users = [ada, bob]\<rparr>)) \<and>
     ListUsersResponse_decode pb_wire (Bytes (wFinish pb_wire w)) None = Inr (\<lparr>ListUsersResponse_users = [ada, bob]\<rparr>, r)"
  by (rule ListUsersResponse_roundtrip [OF pb.wire_laws_axioms users_list_fits])

text \<open>
  C6. Decoding a session response returns or throws for every input and claimed length,
  and the reader it leaves has not gone past the bytes there are.
\<close>

theorem SessionResponse_decode_safe:
  assumes "wire_laws W buf valid rest"
  shows "case SessionResponse_decode W (Bytes bs) len of
           Inl e \<Rightarrow> e \<noteq> Diverge
         | Inr (m, r) \<Rightarrow> rPos W r \<le> length bs"
  using wire_laws.SessionResponse_total_law [OF assms, of bs len]
    wire_laws.SessionResponse_ends_law [OF assms, of bs len]
  by (auto split: sum.split)

theorem SessionResponse_decode_safe_witness:
  "case SessionResponse_decode pb_wire (Bytes [10, 255, 255, 3]) (Some 1000) of
     Inl e \<Rightarrow> e \<noteq> Diverge | Inr (m, r) \<Rightarrow> rPos pb_wire r \<le> length [10, 255, 255, 3 :: 8 word]"
  by (rule SessionResponse_decode_safe [OF pb.wire_laws_axioms])

text \<open>
  C7. A field that this version of \<^verbatim>\<open>User\<close> does not know, and a known field number with
  another wire type, is stepped over: the fields before and after it are read as if it were
  not there.
\<close>

theorem User_decode_unknown_field:
  assumes "wire_laws W buf valid rest" and "User_fits a" and "User_fits b"
    and "t \<notin> {10, 18, 26, 34, 42, 48}" and "t \<noteq> 0" and "skippable (t AND 7) p"
  shows "\<exists>r. User_decode W (Bytes (User_bytes a @ tag_bytes t @ p @ User_bytes b)) None = Inr (User_merge a b, r)"
  by (rule wire_laws.User_unknown_law [OF assms(1,2,3) User_ignores [OF assms(4)] assms(5,6)])

theorem User_decode_unknown_field_witness:
  "\<exists>r. User_decode pb_wire (Bytes (User_bytes bob @ tag_bytes 8 @ varint 300 @ User_bytes ada)) None = Inr (User_merge bob ada, r)"
  by (rule User_decode_unknown_field [OF pb.wire_laws_axioms users_fit(2,1)])
    (auto simp: skippable_def intro!: exI [of _ 300])

text \<open>
  C8. A zero tag or an end-group tag ends a message: what follows is not read.
\<close>

theorem User_decode_stops:
  assumes "wire_laws W buf valid rest" and "User_fits a" and "t AND 7 = 4 \<or> t = 0"
  shows "\<exists>r. User_decode W (Bytes (User_bytes a @ tag_bytes t @ u)) None = Inr (a, r)"
proof -
  have "t \<notin> {10, 18, 26, 34, 42, 48}" using assms(3) by auto
  from wire_laws.User_stops_law [OF assms(1,2) User_ignores [OF this] assms(3)] show ?thesis .
qed

theorem User_decode_stops_witness:
  "\<exists>r. User_decode pb_wire (Bytes (User_bytes ada @ tag_bytes 12 @ [255, 255])) None = Inr (ada, r)"
  by (rule User_decode_stops [OF pb.wire_laws_axioms users_fit(1)]) simp

text \<open>
  C9. Two session responses one after the other decode to one whose token is the last
  non-empty one and whose user, if the second has one, is the second's user as a whole. The
  fields of the two users are not merged one by one.
\<close>

theorem SessionResponse_concat_replaces_user:
  assumes "wire_laws W buf valid rest" and "SessionResponse_fits a" and "SessionResponse_fits b"
    and "SessionResponse_user b = Some v"
  shows "\<exists>m r. SessionResponse_decode W (Bytes (SessionResponse_bytes a @ SessionResponse_bytes b)) None = Inr (m, r) \<and>
    SessionResponse_user m = Some v \<and>
    SessionResponse_jwt m = (if SessionResponse_jwt b = '''' then SessionResponse_jwt a else SessionResponse_jwt b)"
  using wire_laws.SessionResponse_concat_law [OF assms(1,2,3)] assms(4)
  by (auto simp: SessionResponse_merge_def)

theorem SessionResponse_concat_replaces_user_witness:
  "\<exists>m r. SessionResponse_decode pb_wire (Bytes (SessionResponse_bytes ada_session @ SessionResponse_bytes ada_session)) None = Inr (m, r) \<and>
    SessionResponse_user m = Some ada \<and>
    SessionResponse_jwt m = (if SessionResponse_jwt ada_session = '''' then SessionResponse_jwt ada_session else SessionResponse_jwt ada_session)"
  by (rule SessionResponse_concat_replaces_user [OF pb.wire_laws_axioms session_fits session_fits])
    (simp add: ada_session_def)

text \<open>
  A message all of whose fields hold their defaults is written as no bytes at all, and
  the empty input decodes to it.
\<close>

theorem User_default_is_empty:
  assumes "wire_laws W buf valid rest"
  shows "(\<exists>w. User_encode W createBaseUser (newWriter W) = Inr w \<and> wFinish W w = []) \<and>
    (\<exists>r. User_decode W (Bytes []) None = Inr (createBaseUser, r))"
  using wire_laws.User_roundtrip_law [OF assms, of createBaseUser]
  by (auto simp: createBaseUser_def User_fits_def User_bytes_def str_field_def bool_field_def)

theorem User_default_is_empty_witness:
  "(\<exists>w. User_encode pb_wire createBaseUser (newWriter pb_wire) = Inr w \<and> wFinish pb_wire w = []) \<and>
   (\<exists>r. User_decode pb_wire (Bytes []) None = Inr (createBaseUser, r))"
  by (rule User_default_is_empty [OF pb.wire_laws_axioms])

section \<open>Descriptors\<close>

text \<open>
  C10. A set of file descriptors, with every message, field, option and nested message in it, is
  written as its documented bytes and read back as the same set, absent fields holding
  their defaults; what has been read is written again as the same bytes.
\<close>

theorem FileDescriptorSet_roundtrip:
  assumes "wire_laws W buf valid rest" and "FileDescriptorSet_fits m"
  shows "\<exists>w r w'. FileDescriptorSet_encode W m (newWriter W) = Inr w \<and> wFinish W w = FileDescriptorSet_bytes m \<and>
    FileDescriptorSet_decode W (Bytes (wFinish W w)) None = Inr (FileDescriptorSet_norm m, r) \<and>
    FileDescriptorSet_encode W (FileDescriptorSet_norm m) (newWriter W) = Inr w' \<and> wFinish W w' = wFinish W w"
  by (rule wire_laws.FileDescriptorSet_rewrites [OF assms])

theorem FileDescriptorSet_roundtrip_witness:
  "\<exists>w r w'. FileDescriptorSet_encode pb_wire example_set (newWriter pb_wire) = Inr w \<and>
    wFinish pb_wire w = FileDescriptorSet_bytes example_set \<and>
    FileDescriptorSet_decode pb_wire (Bytes (wFinish pb_wire w)) None = Inr (FileDescriptorSet_norm example_set, r) \<and>
    FileDescriptorSet_encode pb_wire (FileDescriptorSet_norm example_set) (newWriter pb_wire) = Inr w' \<and>
    wFinish pb_wire w' = wFinish pb_wire w"
  by (rule FileDescriptorSet_roundtrip [OF pb.wire_laws_axioms example_set_fits])

text \<open>
  C11. Whatever the bytes, a set of file descriptors that decoding returns is well typed in every
  part: all scalar fields are present, 32-bit fields hold 32-bit integers and 64-bit fields
  safe integers; it is its own normal form.
\<close>

theorem FileDescriptorSet_decode_typed:
  assumes "wire_laws W buf valid rest" and "FileDescriptorSet_decode W (Bytes bs) len = Inr (m, r)"
  shows "FileDescriptorSet_typed m \<and> FileDescriptorSet_norm m = m"
  using wire_laws.FileDescriptorSet_typed_law [OF assms] FileDescriptorSet_typed_norm by blast

theorem FileDescriptorSet_decode_typed_witness:
  "FileDescriptorSet_typed (FileDescriptorSet_norm example_set) \<and>
   FileDescriptorSet_norm (FileDescriptorSet_norm example_set) = FileDescriptorSet_norm example_set"
proof -
  obtain bs r where "FileDescriptorSet_decode pb_wire (Bytes bs) None = Inr (FileDescriptorSet_norm example_set, r)"
    using pb.FileDescriptorSet_roundtrip_law [OF example_set_fits] by blast
  then show ?thesis by (rule FileDescriptorSet_decode_typed [OF pb.wire_laws_axioms])
qed

text \<open>
  C12. The JSON form and the wire form of a set of file descriptors read back as the same message,
  whatever host makes the JSON, as long as the enum numbers in it are declared.
\<close>

theorem FileDescriptorSet_json_agrees:
  assumes "wire_laws W buf valid rest" and "base64_laws H"
    and "FileDescriptorSet_fits m" and "FileDescriptorSet_known m"
  shows "\<exists>w r m'. FileDescriptorSet_encode W m (newWriter W) = Inr w \<and>
    FileDescriptorSet_decode W (Bytes (wFinish W w)) None = Inr (m', r) \<and>
    FileDescriptorSet_fromJSON H (FileDescriptorSet_toJSON H m) = Inr m'"
  using wire_laws.FileDescriptorSet_roundtrip_law [OF assms(1,3)] base64_laws.FileDescriptorSet_json_law [OF assms(2,3,4)]
  by blast

theorem FileDescriptorSet_json_agrees_witness:
  "\<exists>w r m'. FileDescriptorSet_encode pb_wire example_set (newWriter pb_wire) = Inr w \<and>
    FileDescriptorSet_decode pb_wire (Bytes (wFinish pb_wire w)) None = Inr (m', r) \<and>
    FileDescriptorSet_fromJSON browser_host (FileDescriptorSet_toJSON browser_host example_set) = Inr m'"
  by (rule FileDescriptorSet_json_agrees [OF pb.wire_laws_axioms browser.base64_laws_axioms example_set_fits example_set_known])

text \<open>
  C13. Decoding a set of file descriptors returns or throws for every input and claimed length,
  however messages nest in it, and never reads past the input.
\<close>

theorem FileDescriptorSet_decode_ends:
  assumes "wire_laws W buf valid rest"
  shows "case FileDescriptorSet_decode W (Bytes bs) len of
           Inl e \<Rightarrow> e \<noteq> Diverge
         | Inr (m, r) \<Rightarrow> rPos W r \<le> length bs"
  using wire_laws.FileDescriptorSet_total_law [OF assms, of bs len]
    wire_laws.FileDescriptorSet_ends_law [OF assms, of bs len]
  by (auto split: sum.split)

theorem FileDescriptorSet_decode_ends_witness:
  "case FileDescriptorSet_decode pb_wire (Bytes [10, 4, 34, 2, 26, 0]) None of
     Inl e \<Rightarrow> e \<noteq> Diverge | Inr (m, r) \<Rightarrow> rPos pb_wire r \<le> length [10, 4, 34, 2, 26, 0 :: 8 word]"
  by (rule FileDescriptorSet_decode_ends [OF pb.wire_laws_axioms])

text \<open>
  C14. Two sets of file descriptors written one after the other are read as one set with the files
  of both, in order.
\<close>

theorem FileDescriptorSet_concat:
  assumes "wire_laws W buf valid rest" and "FileDescriptorSet_fits a" and "FileDescriptorSet_fits b"
  shows "\<exists>m r. FileDescriptorSet_decode W (Bytes (FileDescriptorSet_bytes a @ FileDescriptorSet_bytes b)) None = Inr (m, r) \<and>
    FileDescriptorSet_file m = FileDescriptorSet_file (FileDescriptorSet_norm a) @ FileDescriptorSet_file (FileDescriptorSet_norm b)"
  by (rule wire_laws.FileDescriptorSet_concat_law [OF assms])

theorem FileDescriptorSet_concat_witness:
  "\<exists>m r. FileDescriptorSet_decode pb_wire (Bytes (FileDescriptorSet_bytes example_set @ FileDescriptorSet_bytes example_set)) None = Inr (m, r) \<and>
    FileDescriptorSet_file m =
      FileDescriptorSet_file (FileDescriptorSet_norm example_set) @ FileDescriptorSet_file (FileDescriptorSet_norm example_set)"
  by (rule FileDescriptorSet_concat [OF pb.wire_laws_axioms example_set_fits example_set_fits])

text \<open>
  C15. A set of file descriptors made by \<^verbatim>\<open>create\<close> from a partial one, or from nothing, survives the
  wire unchanged: every field that was left out already holds its default.
\<close>

theorem FileDescriptorSet_create_roundtrip:
  assumes "wire_laws W buf valid rest" and "FileDescriptorSet_fits (FileDescriptorSet_create base)"
  shows "\<exists>w r. FileDescriptorSet_encode W (FileDescriptorSet_create base) (newWriter W) = Inr w \<and>
    FileDescriptorSet_decode W (Bytes (wFinish W w)) None = Inr (FileDescriptorSet_create base, r)"
  by (rule wire_laws.FileDescriptorSet_create_law [OF assms])

theorem FileDescriptorSet_create_roundtrip_witness:
  "\<exists>w r. FileDescriptorSet_encode pb_wire (FileDescriptorSet_create (Some example_partial)) (newWriter pb_wire) = Inr w \<and>
    FileDescriptorSet_decode pb_wire (Bytes (wFinish pb_wire w)) None = Inr (FileDescriptorSet_create (Some example_partial), r)"
  by (rule FileDescriptorSet_create_roundtrip [OF pb.wire_laws_axioms example_partial_fits])

text \<open>
  C16. Every 64-bit value of an option that is not a safe integer of JavaScript is an error, wherever
  it stands and whatever follows: an unsigned value from \<open>2 ^ 53\<close> to \<open>2 ^ 64 - 1\<close>, a signed one from
  \<open>2 ^ 53\<close> to \<open>2 ^ 63 - 1\<close>, and a signed one from \<open>- 2 ^ 63\<close> to \<open>- 2 ^ 53\<close>.
\<close>

theorem UninterpretedOption_unsafe_integer:
  assumes "wire_laws W buf valid rest" and "UninterpretedOption_fits a"
    and "2 ^ 53 \<le> i" and "i < 2 ^ 64"
    and "2 ^ 53 \<le> j" and "j < 2 ^ 63"
    and "- (2 ^ 63) \<le> k" and "k \<le> - (2 ^ 53)"
  shows "UninterpretedOption_decode W (Bytes (UninterpretedOption_bytes a @ tag_bytes 32 @ varint_int i @ u)) None
      = Inl (Error ''Value is larger than Number.MAX_SAFE_INTEGER'') \<and>
    UninterpretedOption_decode W (Bytes (UninterpretedOption_bytes a @ tag_bytes 40 @ varint_int j @ u)) None
      = Inl (Error ''Value is larger than Number.MAX_SAFE_INTEGER'') \<and>
    UninterpretedOption_decode W (Bytes (UninterpretedOption_bytes a @ tag_bytes 40 @ varint_int k @ u)) None
      = Inl (Error ''Value is smaller than Number.MIN_SAFE_INTEGER'')"
  using assms(3-)
  by (intro conjI wire_laws.UninterpretedOption_uint64_throws [OF assms(1,2)]
      wire_laws.UninterpretedOption_int64_throws [OF assms(1,2)]) (simp_all add: longToNumber_eq)

theorem UninterpretedOption_unsafe_integer_witness:
  "UninterpretedOption_decode pb_wire (Bytes (UninterpretedOption_bytes example_option @ tag_bytes 32 @ varint_int 18446744073709551615 @ [])) None
      = Inl (Error ''Value is larger than Number.MAX_SAFE_INTEGER'') \<and>
    UninterpretedOption_decode pb_wire (Bytes (UninterpretedOption_bytes example_option @ tag_bytes 40 @ varint_int 9223372036854775807 @ [])) None
      = Inl (Error ''Value is larger than Number.MAX_SAFE_INTEGER'') \<and>
    UninterpretedOption_decode pb_wire (Bytes (UninterpretedOption_bytes example_option @ tag_bytes 40 @ varint_int (- 9223372036854775808) @ [])) None
      = Inl (Error ''Value is smaller than Number.MIN_SAFE_INTEGER'')"
  by (rule UninterpretedOption_unsafe_integer [OF pb.wire_laws_axioms example_option_fits(1)]) simp_all

text \<open>
  C17. The two branches of the base-64 functions write the same text, that of RFC 4648, and each
  reads what the other wrote: an option that one host writes as JSON is read on any other.
\<close>

theorem UninterpretedOption_json_any_host:
  assumes "base64_laws H" and "base64_laws H'"
  shows "base64FromBytes H b = base64 b \<and> bytesFromBase64 H' (JStr (base64FromBytes H b)) = Inr b \<and>
    UninterpretedOption_fromJSON H' (UninterpretedOption_toJSON H m) = Inr (UninterpretedOption_jnorm m)"
proof -
  have "base64FromBytes H = base64FromBytes H'"
    using base64_laws.base64FromBytes_eq [OF assms(1)] base64_laws.base64FromBytes_eq [OF assms(2)] by (simp add: fun_eq_iff)
  then have "UninterpretedOption_toJSON H m = UninterpretedOption_toJSON H' m"
    by (simp add: UninterpretedOption_toJSON_def)
  then show ?thesis
    using base64_laws.base64FromBytes_eq [OF assms(1)] base64_laws.bytesFromBase64_base64 [OF assms(2)]
      base64_laws.UninterpretedOption_json_law [OF assms(2)]
    by simp
qed

theorem UninterpretedOption_json_any_host_witness:
  "base64FromBytes browser_host [104, 105] = base64 [104, 105] \<and>
    bytesFromBase64 node_host (JStr (base64FromBytes browser_host [104, 105])) = Inr [104, 105] \<and>
    UninterpretedOption_fromJSON node_host (UninterpretedOption_toJSON browser_host example_option)
      = Inr (UninterpretedOption_jnorm example_option)"
  by (rule UninterpretedOption_json_any_host [OF browser.base64_laws_axioms node.base64_laws_axioms])

section \<open>Descriptor messages\<close>

text \<open>
  C18. A source location is read the same whether its lists of numbers are packed or have a tag
  for every element.
\<close>

theorem Location_packed_or_not:
  assumes "wire_laws W buf valid rest" and "list_all int32_ok ps" and "list_all int32_ok ss"
    and "length (packed_field 10 ps @ packed_field 18 ss) < 2 ^ 32"
  shows "\<exists>m r r'. SourceCodeInfo_Location_decode W (Bytes (packed_field 10 ps @ packed_field 18 ss)) None = Inr (m, r) \<and>
    SourceCodeInfo_Location_decode W (Bytes (unpacked_field 8 ps @ unpacked_field 16 ss)) None = Inr (m, r') \<and>
    SourceCodeInfo_Location_path m = ps \<and> SourceCodeInfo_Location_span m = ss"
  using wire_laws.Location_packed [OF assms] wire_laws.Location_unpacked [OF assms(1,2,3)]
  by (fastforce simp: createBaseSourceCodeInfo_Location_def)

theorem Location_packed_or_not_witness:
  "\<exists>m r r'. SourceCodeInfo_Location_decode pb_wire (Bytes (packed_field 10 [NInt 4, NInt 300] @ packed_field 18 [NInt (- 1)])) None = Inr (m, r) \<and>
    SourceCodeInfo_Location_decode pb_wire (Bytes (unpacked_field 8 [NInt 4, NInt 300] @ unpacked_field 16 [NInt (- 1)])) None = Inr (m, r') \<and>
    SourceCodeInfo_Location_path m = [NInt 4, NInt 300] \<and> SourceCodeInfo_Location_span m = [NInt (- 1)]"
  by (rule Location_packed_or_not [OF pb.wire_laws_axioms]) (simp_all add: packed_example)

text \<open>
  Feature-set defaults survive the wire with all the feature sets in them; only an
  \<^verbatim>\<open>undefined\<close> field comes back as its default.
\<close>

theorem FeatureSetDefaults_roundtrip:
  assumes "wire_laws W buf valid rest" and "FeatureSetDefaults_fits m"
  shows "\<exists>w r. FeatureSetDefaults_encode W m (newWriter W) = Inr w \<and>
    FeatureSetDefaults_decode W (Bytes (wFinish W w)) None = Inr (FeatureSetDefaults_norm m, r) \<and>
    FeatureSetDefaults_minimumEdition (FeatureSetDefaults_norm m) = Some (nullish (FeatureSetDefaults_minimumEdition m) (NInt 0)) \<and>
    length (FeatureSetDefaults_defaults (FeatureSetDefaults_norm m)) = length (FeatureSetDefaults_defaults m)"
  using wire_laws.FeatureSetDefaults_roundtrip_law [OF assms] by (auto simp: FeatureSetDefaults_norm_def)

theorem FeatureSetDefaults_roundtrip_witness:
  "\<exists>w r. FeatureSetDefaults_encode pb_wire editions_2023 (newWriter pb_wire) = Inr w \<and>
    FeatureSetDefaults_decode pb_wire (Bytes (wFinish pb_wire w)) None = Inr (FeatureSetDefaults_norm editions_2023, r) \<and>
    FeatureSetDefaults_minimumEdition (FeatureSetDefaults_norm editions_2023) = Some (nullish (FeatureSetDefaults_minimumEdition editions_2023) (NInt 0)) \<and>
    length (FeatureSetDefaults_defaults (FeatureSetDefaults_norm editions_2023)) = length (FeatureSetDefaults_defaults editions_2023)"
  by (rule FeatureSetDefaults_roundtrip [OF pb.wire_laws_axioms editions_2023_fit])

text \<open>
  C19. Generated-code information read back from its JSON form has the same annotations, each
  with its path and offsets rounded, its source file kept, and its semantic kept exactly when
  the enum declares it.
\<close>

theorem GeneratedCodeInfo_json:
  "GeneratedCodeInfo_fromJSON (GeneratedCodeInfo_toJSON m) =
     Inr \<lparr>GeneratedCodeInfo_annotation = map (\<lambda>a. \<lparr>
       GeneratedCodeInfo_Annotation_path = map js_round (GeneratedCodeInfo_Annotation_path a),
       GeneratedCodeInfo_Annotation_sourceFile = Some (nullish (GeneratedCodeInfo_Annotation_sourceFile a) ''''),
       GeneratedCodeInfo_Annotation_begin = Some (js_round (nullish (GeneratedCodeInfo_Annotation_begin a) (NInt 0))),
       GeneratedCodeInfo_Annotation_end = Some (js_round (nullish (GeneratedCodeInfo_Annotation_end a) (NInt 0))),
       GeneratedCodeInfo_Annotation_semantic = Some
         (let n = nullish (GeneratedCodeInfo_Annotation_semantic a) (NInt 0)
          in if n \<in> range (\<lambda>e. NInt (GeneratedCodeInfo_Annotation_Semantic_value e)) then n else NInt (- 1))\<rparr>)
       (GeneratedCodeInfo_annotation m)\<rparr>"
  by (simp add: GeneratedCodeInfo_json.json_roundtrip GeneratedCodeInfo_jnorm_def GeneratedCodeInfo_Annotation_jnorm_def
      semantic_json Let_def)

text \<open>
  Decoding generated-code information returns or throws for every input, within its bytes,
  also when the claimed length of a packed path goes past the end of the input.
\<close>

theorem GeneratedCodeInfo_decode_safe:
  assumes "wire_laws W buf valid rest"
  shows "case GeneratedCodeInfo_decode W (Bytes bs) len of
           Inl e \<Rightarrow> e \<noteq> Diverge
         | Inr (m, r) \<Rightarrow> rPos W r \<le> length bs"
  using wire_laws.GeneratedCodeInfo_total_law [OF assms, of bs len]
    wire_laws.GeneratedCodeInfo_ends_law [OF assms, of bs len]
  by (auto split: sum.split)

theorem GeneratedCodeInfo_decode_safe_witness:
  "case GeneratedCodeInfo_decode pb_wire (Bytes [10, 4, 10, 100, 1, 2]) None of
     Inl e \<Rightarrow> e \<noteq> Diverge | Inr (m, r) \<Rightarrow> rPos pb_wire r \<le> length [10, 4, 10, 100, 1, 2 :: 8 word]"
  by (rule GeneratedCodeInfo_decode_safe [OF pb.wire_laws_axioms])

section \<open>JSON forms\<close>

text \<open>
  C20. The JSON form of a session response reads back as the same message, with and without
  a user, and two different messages never have the same JSON form.
\<close>

theorem SessionResponse_json_faithful:
  "SessionResponse_fromJSON (SessionResponse_toJSON m) = Inr m \<and>
   (SessionResponse_toJSON m = SessionResponse_toJSON m' \<longleftrightarrow> m = m')"
  using SessionResponse_json.json_roundtrip SessionResponse_json.json_inject by blast

text \<open>
  C21. The JSON form of an HTTP annotation reads back as the same message, through every
  level of nested rules.
\<close>

theorem Http_json_roundtrip: "Http_fromJSON (Http_toJSON m) = Inr m"
  by (rule Http_json.json_roundtrip)

text \<open>
  A user is read from snake-case member names exactly as from camel-case ones.
\<close>

theorem User_json_snake_case:
  "User_fromJSON (JObj [(''id'', JStr i), (''email'', JStr e), (''display_name'', JStr d), (''username'', JStr n),
     (''picture_url'', JStr p), (''is_admin'', JBool a)]) =
   User_fromJSON (JObj [(''id'', JStr i), (''email'', JStr e), (''displayName'', JStr d), (''username'', JStr n),
     (''pictureUrl'', JStr p), (''isAdmin'', JBool a)]) \<and>
   User_fromJSON (JObj [(''id'', JStr i), (''email'', JStr e), (''displayName'', JStr d), (''username'', JStr n),
     (''pictureUrl'', JStr p), (''isAdmin'', JBool a)]) =
   Inr \<lparr>User_id = i, User_email = e, User_displayName = d, User_username = n, User_pictureUrl = p, User_isAdmin = a\<rparr>"
  by (simp add: User_fromJSON_def json_field2_def json_field_obj)

text \<open>
  A user list is read up to the first element that cannot be read, and that element's
  exception is the exception of the whole.
\<close>

theorem ListUsersResponse_json_first_error:
  assumes "map_res User_fromJSON good = Inr us" and "User_fromJSON bad = Inl e"
  shows "ListUsersResponse_fromJSON (JObj [(''users'', JArr (good @ bad # later))]) = Inl e"
  using map_res_first_error [OF assms]
  by (simp add: ListUsersResponse_fromJSON_def json_array_def)

theorem ListUsersResponse_json_first_error_witness:
  "ListUsersResponse_fromJSON (JObj [(''users'', JArr ([User_toJSON ada] @ JNull # [JUndefined]))])
     = Inl (TypeError ''Cannot read properties of null'')"
  by (rule ListUsersResponse_json_first_error [where us = "[ada]"])
    (simp add: User_json.json_roundtrip, simp add: User_fromJSON_def json_field_def)

text \<open>
  C22. The body of the login request is one that the generated reader of the server's message
  accepts, and it carries the credential unchanged.
\<close>

theorem login_body_is_GoogleLoginRequest:
  "GoogleLoginRequest_fromJSON (login_body t) = Inr \<lparr>GoogleLoginRequest_idToken = t\<rparr> \<and>
   UpdateProfileRequest_fromJSON (profile_body n) = Inr \<lparr>UpdateProfileRequest_username = n\<rparr>"
  by (simp add: GoogleLoginRequest_fromJSON_def login_body_def UpdateProfileRequest_fromJSON_def profile_body_def
      json_field2_def json_field_obj)

text \<open>
  Completing a partial message that gives every field of a session response yields that
  message; completing nothing yields the base message.
\<close>

theorem SessionResponse_create_complete:
  "SessionResponse_create (Some \<lparr>Partial_SessionResponse_jwt = Some j,
      Partial_SessionResponse_user = Some \<lparr>Partial_User_id = Some i, Partial_User_email = Some e,
        Partial_User_displayName = Some d, Partial_User_username = Some n, Partial_User_pictureUrl = Some p,
        Partial_User_isAdmin = Some a\<rparr>\<rparr>) =
   \<lparr>SessionResponse_jwt = j, SessionResponse_user = Some \<lparr>User_id = i, User_email = e, User_displayName = d,
      User_username = n, User_pictureUrl = p, User_isAdmin = a\<rparr>\<rparr> \<and>
   SessionResponse_create None = createBaseSessionResponse"
  by (simp add: SessionResponse_create_def SessionResponse_fromPartial_def User_fromPartial_def nullish_def
      createBaseSessionResponse_def createBaseUser_def)

section \<open>Enums of descriptors\<close>

text \<open>
  C23. Every declared edition is read back from its JSON name and from its number, and a
  known edition is read from nothing else.
\<close>

theorem edition_json:
  "editionFromJSON (JStr (editionToJSON (NInt (Edition_value e)))) = e \<and>
   editionFromJSON (JNum (NInt (Edition_value e))) = e \<and>
   (e \<noteq> Edition_UNRECOGNIZED \<and> editionFromJSON v = e \<longrightarrow>
      v = JNum (NInt (Edition_value e)) \<or> v = JStr (editionToJSON (NInt (Edition_value e))))"
  using edition.from_name edition.from_number edition.from_iff [of e v] by blast

theorem edition_json_witness:
  "editionFromJSON (JStr (editionToJSON (NInt (Edition_value Edition_EDITION_2023)))) = Edition_EDITION_2023 \<and>
   editionFromJSON (JNum (NInt (Edition_value Edition_EDITION_2023))) = Edition_EDITION_2023 \<and>
   (JStr ''EDITION_2023'' = JNum (NInt (Edition_value Edition_EDITION_2023)) \<or>
    JStr ''EDITION_2023'' = JStr (editionToJSON (NInt (Edition_value Edition_EDITION_2023))))"
  using edition_json [of Edition_EDITION_2023 "JStr ''EDITION_2023''"] by (simp add: editionFromJSON_def)

text \<open>
  C24. A field type number survives a trip through JSON exactly when the enum declares it; any
  other number, which a decoder keeps, comes back as \<open>- 1\<close>.
\<close>

theorem field_type_json_survives:
  "NInt (FieldDescriptorProto_Type_value (fieldDescriptorProto_TypeFromJSON (JStr (fieldDescriptorProto_TypeToJSON n)))) =
     (if n \<in> range (\<lambda>e. NInt (FieldDescriptorProto_Type_value e)) then n else NInt (- 1))"
  using fieldDescriptorProto_Type.number_survives_iff [of n] fieldDescriptorProto_Type.unknown_lost [of n]
  by simp

text \<open>
  The released editions are ordered by time, between the legacy edition and the maximum.
\<close>

theorem editions_time_ordered:
  "sorted_wrt (<) [Edition_EDITION_LEGACY, Edition_EDITION_PROTO2, Edition_EDITION_PROTO3, Edition_EDITION_2023,
     Edition_EDITION_2024, Edition_EDITION_MAX]"
  by (simp add: less_Edition_def)

section \<open>The API client\<close>

text \<open>
  C25. Asking for the current user fails with an authentication error exactly when the server
  answers the request for \<^verbatim>\<open>/auth/me\<close> that carries the token with status 401, and the error
  carries the text of that answer.
\<close>

theorem getCurrentUser_AuthError:
  assumes "platform_fetch fetch" and "t \<noteq> ''''"
  shows "getCurrentUser fetch kong t = Inl (AuthError msg) \<longleftrightarrow>
    (\<exists>res. fetch \<lparr>req_url = API_BASE kong @ ''/auth/me'', req_method = ''GET'',
        req_headers = [(''Content-Type'', ''application/json''), (''Authorization'', ''Bearer '' @ t)],
        req_body = None\<rparr> = Inr res \<and>
      status res = 401 \<and> text_result res = Inr msg)"
proof -
  have "platform_answer (fetch req)" for req using assms(1) by (simp add: platform_fetch_def)
  then show ?thesis
    unfolding getCurrentUser_def using assms(2)
    by (subst request_AuthError) (simp_all add: build_request_def request_headers_def nullish_def)
qed

theorem getCurrentUser_AuthError_witness:
  "getCurrentUser (answer 401) None ''t0'' = Inl (AuthError ''no'') \<longleftrightarrow>
    (\<exists>res. answer 401 \<lparr>req_url = API_BASE None @ ''/auth/me'', req_method = ''GET'',
        req_headers = [(''Content-Type'', ''application/json''), (''Authorization'', ''Bearer '' @ ''t0'')],
        req_body = None\<rparr> = Inr res \<and>
      status res = 401 \<and> text_result res = Inr ''no'')"
  by (rule getCurrentUser_AuthError [OF answer_platform(1)]) simp

text \<open>
  C26. An update of the profile succeeds exactly when the server answers with a status from
  200 to 299 and a body that parses; the value is that body, whatever its shape.
\<close>

theorem updateProfile_success:
  "updateProfile fetch kong t name = Inr v \<longleftrightarrow>
    (\<exists>res. fetch (build_request kong ''/auth/me''
         \<lparr>init_method = ''POST'', init_headers = None, init_body = json_stringify (profile_body name)\<rparr> (Some t)) = Inr res \<and>
       200 \<le> status res \<and> status res < 300 \<and> json_result res = Inr v)"
  by (auto simp: updateProfile_def request_Inr response_ok_def)

text \<open>
  C27. The token goes into the \<^verbatim>\<open>Authorization\<close> header and nowhere else, for every request the
  wrapper can be asked to make. Against the same request without a token: URL, method and body
  are equal; the other headers are equal, with their order; the \<^verbatim>\<open>Authorization\<close> header is
  \<^verbatim>\<open>Bearer\<close> and the token, or unchanged when the token is missing or empty; and no header
  is there twice. Without a token the headers are the caller's own over a JSON content type.
\<close>

theorem request_authorization:
  "req_url (build_request kong path init token) = req_url (build_request kong path init None) \<and>
   req_method (build_request kong path init token) = req_method (build_request kong path init None) \<and>
   req_body (build_request kong path init token) = req_body (build_request kong path init None) \<and>
   [h \<leftarrow> req_headers (build_request kong path init token). fst h \<noteq> ''Authorization''] =
     [h \<leftarrow> req_headers (build_request kong path init None). fst h \<noteq> ''Authorization''] \<and>
   map_of (req_headers (build_request kong path init token)) ''Authorization'' =
     (if nullish token '''' = '''' then map_of (req_headers (build_request kong path init None)) ''Authorization''
      else Some (''Bearer '' @ nullish token '''')) \<and>
   distinct (map fst (req_headers (build_request kong path init token))) \<and>
   map_of (req_headers (build_request kong path init None)) =
     [''Content-Type'' \<mapsto> ''application/json''] ++ map_of (rev (nullish (init_headers init) []))"
proof (cases token)
  case None
  then show ?thesis
    by (simp add: build_request_def nullish_def request_headers_distinct request_headers_plain)
next
  case (Some t)
  then show ?thesis
    using other_headers_update [of "''Authorization''" "''Bearer '' @ t" "request_headers init None"]
    by (simp add: build_request_def nullish_def request_headers_distinct request_headers_plain
        request_headers_token update_conv' distinct_update other_headers_def)
qed

section \<open>The session\<close>

text \<open>
  C28. In a production page that has finished loading, local storage and state agree: nothing
  stored means no token and no user, and otherwise the stored text is that of the token in the
  state (or is empty, with no token and no user).
\<close>

theorem session_storage_agrees:
  assumes "reachable kong 1 s" and "\<not> loading s"
  shows "session_consistent s"
  using ready_when_loaded [OF reachable_inv [OF assms(1)] assms(2)] by (simp add: ready_def)

theorem session_storage_agrees_witness: "session_consistent signed_out_page"
  by (rule session_storage_agrees [OF signed_out_page_reachable]) (simp add: signed_out_page_def signOut_def signed_in_page_def)

text \<open>
  C29. What loading a page does with a stored token: it asks the server once, shows the user it
  gets and keeps the token; or, when the request fails in any way, forgets the token, and says
  that the session has expired only for an authentication error. Loading has ended then.
\<close>

theorem page_load:
  assumes "kept STORAGE_KEY = Some t" and "t \<noteq> ''''" and "platform_fetch fetch"
  shows "auth_run kong (initial_session 1 kept) [Mount, Me_Reply t (fetch (me_request kong t)), Restore_Finally]
    (case getCurrentUser fetch kong t of
       Inr u \<Rightarrow> \<lparr>user = u, jwt = JStr t, loading = False, sessionExpired = False, storage = kept,
                 mounts = 0, restoring = [], logins = []\<rparr>
     | Inl err \<Rightarrow> \<lparr>user = JNull, jwt = JNull, loading = False, sessionExpired = (\<exists>msg. err = AuthError msg),
                 storage = kept(STORAGE_KEY := None), mounts = 0, restoring = [], logins = []\<rparr>)"
proof -
  have "platform_answer (fetch (me_request kong t))" using assms(3) by (simp add: platform_fetch_def)
  from auth_run_Cons [OF page_mount [where kept = kept and t = t and kong = kong, OF assms(1,2)] waiting_page_run [OF this]]
  show ?thesis by (simp add: loaded_page_def flip: getCurrentUser_answer)
qed

theorem page_load_witness:
  "auth_run None (initial_session 1 [STORAGE_KEY \<mapsto> ''t0'']) [Mount, Me_Reply ''t0'' (answer 401 (me_request None ''t0'')), Restore_Finally]
    (case getCurrentUser (answer 401) None ''t0'' of
       Inr u \<Rightarrow> \<lparr>user = u, jwt = JStr ''t0'', loading = False, sessionExpired = False, storage = [STORAGE_KEY \<mapsto> ''t0''],
                 mounts = 0, restoring = [], logins = []\<rparr>
     | Inl err \<Rightarrow> \<lparr>user = JNull, jwt = JNull, loading = False, sessionExpired = (\<exists>msg. err = AuthError msg),
                 storage = [STORAGE_KEY \<mapsto> ''t0''](STORAGE_KEY := None), mounts = 0, restoring = [], logins = []\<rparr>)"
  by (rule page_load [OF _ _ answer_platform(1)]) simp_all

text \<open>
  C30. Signing out of a production page lasts: while no sign-in is under way and no new
  credential arrives, nothing that the page, other code on the origin or other pages of this
  application do brings the user or the token back into the page, and it keeps showing the
  sign-in button. The page itself does not change what is stored again: the stored text is gone,
  unless another page of the application writes that key, and then it is what that page wrote last.
\<close>

theorem sign_out_lasts:
  assumes "shared_reachable kong 1 s" and "auth_step kong s Sign_Out t" and "logins s = []"
    and "shared_run kong t es u" and "\<forall>c. Own (Credential c) \<notin> set es"
  shows "user u = JNull \<and> jwt u = JNull \<and> AuthBar u = SignedOut (sessionExpired t) \<and>
    storage u STORAGE_KEY = last_write es None"
proof -
  from signed_out_step [OF shared_reachable_one [OF assms(1)] assms(2,3)]
  have t: "signed_out t" "storage t STORAGE_KEY = None" by simp_all
  from signed_out_run [OF assms(4) t(1) assms(5)] t(2) show ?thesis
    by (simp add: signed_out_def AuthBar_def)
qed

theorem sign_out_lasts_witness:
  "user (signed_out_page\<lparr>storage := [STORAGE_KEY \<mapsto> ''t9'']\<rparr>) = JNull \<and>
   jwt (signed_out_page\<lparr>storage := [STORAGE_KEY \<mapsto> ''t9'']\<rparr>) = JNull \<and>
   AuthBar (signed_out_page\<lparr>storage := [STORAGE_KEY \<mapsto> ''t9'']\<rparr>) = SignedOut (sessionExpired signed_out_page) \<and>
   storage (signed_out_page\<lparr>storage := [STORAGE_KEY \<mapsto> ''t9'']\<rparr>) STORAGE_KEY = last_write [Other_Page (Some ''t9'')] None"
  by (rule sign_out_lasts [OF reachable_shared [OF signed_in_page_reachable] signed_in_page_sign_out _ signed_out_page_other_write])
    (simp_all add: signed_in_page_def)

text \<open>
  C31. The message that the session has expired is only ever caused by a status 401: a step
  that switches it on is the answer to a pending restoration, and its status is 401.
\<close>

theorem expired_only_after_401:
  assumes "auth_step kong s e t" and "\<not> sessionExpired s" and "sessionExpired t"
  shows "\<exists>cached res. e = Me_Reply cached (Inr res) \<and> Fetching cached \<in> set (restoring s) \<and> status res = 401"
proof -
  obtain cached ans msg where e: "e = Me_Reply cached ans"
    and err: "getCurrentUser (\<lambda>_. ans) kong cached = Inl (AuthError msg)"
    using expired_step [OF assms] by blast
  from assms(1) [unfolded e] obtain xs ys
    where "restoring s = xs @ Fetching cached # ys" and platform: "platform_answer ans"
    by (rule me_replyE)
  moreover obtain res where "ans = Inr res" and "status res = 401"
    using err getCurrentUser_AuthError_iff [OF platform] by auto
  ultimately show ?thesis using e by auto
qed

theorem expired_only_after_401_witness:
  "\<exists>cached res. Me_Reply ''t0'' (answer 401 (me_request None ''t0'')) = Me_Reply cached (Inr res) \<and>
    Fetching cached \<in> set (restoring (waiting_page Map.empty ''t0'')) \<and> status res = 401"
proof (rule expired_only_after_401 [OF waiting_page_reply [OF answer_platform(2)]])
  let ?a = "answer 401 (me_request None ''t0'')"
  show "\<not> sessionExpired (waiting_page Map.empty ''t0'')" by (simp add: waiting_page_def)
  have "getCurrentUser (\<lambda>_. ?a) None ''t0'' = Inl (AuthError ''no'')"
    by (subst getCurrentUser_AuthError_iff [OF answer_platform(2)]) (simp add: answer_def)
  then show "sessionExpired (restore_settle ''t0'' (getCurrentUser (\<lambda>_. ?a) None ''t0'')
      ((waiting_page Map.empty ''t0'')\<lparr>restoring := [Settled]\<rparr>))"
    by (simp add: restore_settle_def restore_catch_def)
qed

text \<open>
  C32. A restoration keeps the stored token only when the server answers with a status from 200
  to 299 and a body that parses. After any other answer, and when the server cannot be
  reached, the token is forgotten.
\<close>

theorem failed_restore_forgets:
  assumes "auth_step kong s (Me_Reply cached ans) t"
  shows "if \<exists>res u. ans = Inr res \<and> response_ok res \<and> json_result res = Inr u
    then storage t = storage s else storage t = (storage s)(STORAGE_KEY := None)"
proof -
  from assms obtain xs ys
    where t: "t = restore_settle cached (getCurrentUser (\<lambda>_. ans) kong cached) (s\<lparr>restoring := xs @ Settled # ys\<rparr>)"
    by (rule me_replyE)
  show ?thesis
  proof (cases "getCurrentUser (\<lambda>_. ans) kong cached")
    case (Inl err)
    then have no: "\<nexists>res u. ans = Inr res \<and> response_ok res \<and> json_result res = Inr u"
      using getCurrentUser_Inr_iff [of ans kong cached] by auto
    from Inl t show ?thesis
      unfolding if_not_P [OF no] by (cases err) (simp_all add: restore_settle_def restore_catch_def)
  next
    case (Inr u)
    then have yes: "\<exists>res u. ans = Inr res \<and> response_ok res \<and> json_result res = Inr u"
      using getCurrentUser_Inr_iff [of ans kong cached u] by auto
    from Inr t show ?thesis unfolding if_P [OF yes] by (simp add: restore_settle_def restore_then_def)
  qed
qed

theorem failed_restore_forgets_witness:
  "if \<exists>res u. answer 500 (me_request None ''t0'') = Inr res \<and> response_ok res \<and> json_result res = Inr u
   then storage (restore_settle ''t0'' (getCurrentUser (\<lambda>_. answer 500 (me_request None ''t0'')) None ''t0'')
      ((waiting_page [STORAGE_KEY \<mapsto> ''t0''] ''t0'')\<lparr>restoring := [Settled]\<rparr>)) = storage (waiting_page [STORAGE_KEY \<mapsto> ''t0''] ''t0'')
   else storage (restore_settle ''t0'' (getCurrentUser (\<lambda>_. answer 500 (me_request None ''t0'')) None ''t0'')
      ((waiting_page [STORAGE_KEY \<mapsto> ''t0''] ''t0'')\<lparr>restoring := [Settled]\<rparr>)) = (storage (waiting_page [STORAGE_KEY \<mapsto> ''t0''] ''t0''))(STORAGE_KEY := None)"
  by (rule failed_restore_forgets [OF waiting_page_reply [OF answer_platform(2)]])

text \<open>
  C33. Loading never gets stuck: from every reachable state in which the page is still loading,
  at most three further steps end it, whether the effects run once or twice.
\<close>

theorem loading_ends:
  assumes "reachable kong n s" and "0 < n" and "loading s"
  shows "\<exists>es t. length es \<le> 3 \<and> auth_run kong s es t \<and> \<not> loading t"
  by (rule loading_can_end [OF loading_cause [OF assms]])

theorem loading_ends_witness:
  "\<exists>es t. length es \<le> 3 \<and> auth_run None (initial_session 1 [STORAGE_KEY \<mapsto> ''t0'']) es t \<and> \<not> loading t"
  by (rule loading_ends [of None 1]) (auto simp: reachable_def initial_session_def intro: run_start)

text \<open>
  C34. The page touches only its own key of the storage: a step that is not other code's
  leaves every other key as it was.
\<close>

theorem storage_key_scoped:
  assumes "auth_step kong s e t" and "k \<noteq> STORAGE_KEY" and "\<forall>v. e \<noteq> Other_Key k v"
  shows "storage t k = storage s k"
  using assms
  by (cases rule: auth_step.cases)
    (auto simp: handler_defs login_finish_storage Let_def split: option.split sum.split js_error.split)

theorem storage_key_scoped_witness:
  "storage (signOut (signed_in_page\<lparr>storage := [''theme'' \<mapsto> ''dark'']\<rparr>)) ''theme'' = storage (signed_in_page\<lparr>storage := [''theme'' \<mapsto> ''dark'']\<rparr>) ''theme''"
  by (rule storage_key_scoped [OF step_sign_out [where kong = None and name = "JStr ''ada''" and admin = True]])
    (simp_all add: signed_in_page_def AuthBar_def STORAGE_KEY_def User_toJSON_def ada_def json_object_def put_if_def js_set_def js_or_def)

text \<open>
  C35. In a development build, where the mount effect runs twice, a sign-out can be undone: the
  second restoration, still on its way, brings the user back although nothing is stored.
\<close>

theorem strict_mode_undoes_sign_out:
  "\<exists>s. auth_run kong (initial_session 2 [STORAGE_KEY \<mapsto> ''t0''])
      [Mount, Mount, Me_Reply ''t0'' (answer 200 (me_request kong ''t0'')), Restore_Finally, Sign_Out, Me_Reply ''t0'' (answer 200 (me_request kong ''t0''))] s \<and>
    AuthBar s = SignedIn (JStr ''ada'') True \<and> storage s STORAGE_KEY = None"
proof -
  define page :: "jsval \<Rightarrow> jsval \<Rightarrow> bool \<Rightarrow> string option \<Rightarrow> nat \<Rightarrow> restoration list \<Rightarrow> session" where
    "page u j l k n rs = \<lparr>user = u, jwt = j, loading = l, sessionExpired = False,
       storage = Map.empty(STORAGE_KEY := k), mounts = n, restoring = rs, logins = []\<rparr>" for u j l k n rs
  let ?A = "User_toJSON ada" and ?T = "JStr ''t0''" and ?F = "Fetching ''t0''"
  have me: "getCurrentUser (\<lambda>_. answer 200 (me_request kong ''t0'')) kong ''t0'' = Inr ?A"
    by (simp add: getCurrentUser_Inr_iff answer_def response_ok_def)
  have mount: "auth_step kong (page JNull JNull True (Some ''t0'') (Suc n) rs) Mount (page JNull JNull True (Some ''t0'') n (rs @ [?F]))" for n rs
    using step_mount [of "page JNull JNull True (Some ''t0'') (Suc n) rs" n kong]
    by (simp add: page_def restore_session_def)
  have reply: "auth_step kong (page u j l k 0 (?F # rs)) (Me_Reply ''t0'' (answer 200 (me_request kong ''t0''))) (page ?A ?T l k 0 (Settled # rs))" for u j l k rs
    using step_me_reply [of "page u j l k 0 (?F # rs)" "[]" "''t0''" rs "answer 200 (me_request kong ''t0'')" kong] answer_platform(2) [of 200 "me_request kong ''t0''"]
    by (simp add: page_def me restore_settle_def restore_then_def)
  have fin: "auth_step kong (page ?A ?T l k 0 (Settled # rs)) Restore_Finally (page ?A ?T False k 0 rs)" for l k rs
    using step_restore_finally [of "page ?A ?T l k 0 (Settled # rs)" "[]" rs kong]
    by (simp add: page_def restore_finally_def)
  have out: "auth_step kong (page ?A ?T False k 0 rs) Sign_Out (page JNull JNull False None 0 rs)" for k rs
    using step_sign_out [of "page ?A ?T False k 0 rs" "JStr ''ada''" True kong]
    by (simp add: page_def AuthBar_def ada_json js_or_def signOut_def)
  have "auth_run kong (page JNull JNull True (Some ''t0'') (Suc (Suc 0)) [])
      [Mount, Mount, Me_Reply ''t0'' (answer 200 (me_request kong ''t0'')), Restore_Finally, Sign_Out, Me_Reply ''t0'' (answer 200 (me_request kong ''t0''))]
      (page ?A ?T False None 0 [Settled])"
    using auth_run_Cons [OF mount [of "Suc 0" "[]", unfolded append_Nil]
      auth_run_Cons [OF mount [of 0 "[?F]", unfolded append_Cons append_Nil] auth_run_Cons [OF reply auth_run_Cons [OF fin
      auth_run_Cons [OF out auth_run_Cons [OF reply run_start]]]]]] by simp
  moreover have "AuthBar (page ?A ?T False None 0 [Settled]) = SignedIn (JStr ''ada'') True"
    by (simp add: page_def AuthBar_def ada_json js_or_def)
  moreover have "storage (page ?A ?T False None 0 [Settled]) STORAGE_KEY = None" by (simp add: page_def)
  moreover have "page JNull JNull True (Some ''t0'') (Suc (Suc 0)) [] = initial_session 2 [STORAGE_KEY \<mapsto> ''t0'']"
    by (simp add: page_def initial_session_def)
  ultimately show ?thesis by metis
qed

text \<open>
  C36. A sign-in that the server answers with the camel-case JSON form of a session response
  stores its token and shows its user, by user name or else by display name, with the badge
  of an administrator.
\<close>

theorem login_shows_user:
  assumes "SessionResponse_user m = Some u" and "SessionResponse_jwt m \<noteq> ''''" and "\<not> loading s"
  shows "let t = login_finish (Inr (SessionResponse_toJSON m)) s
    in storage t = (storage s)(STORAGE_KEY \<mapsto> SessionResponse_jwt m) \<and> jwt t = JStr (SessionResponse_jwt m) \<and>
       user t = User_toJSON u \<and> \<not> sessionExpired t \<and>
       AuthBar t = SignedIn
         (if User_username u \<noteq> '''' then JStr (User_username u)
          else if User_displayName u \<noteq> '''' then JStr (User_displayName u) else JUndefined) (User_isAdmin u)"
proof -
  have "js_get (SessionResponse_toJSON m) ''jwt'' = Inr (JStr (SessionResponse_jwt m))"
    and "js_get (SessionResponse_toJSON m) ''user'' = Inr (User_toJSON u)"
    using assms(1,2) by (simp_all add: SessionResponse_toJSON_def js_get_json_object put_if_def)
  then have t: "login_finish (Inr (SessionResponse_toJSON m)) s =
      s\<lparr>storage := (storage s)(STORAGE_KEY \<mapsto> SessionResponse_jwt m), jwt := JStr (SessionResponse_jwt m),
        user := User_toJSON u, sessionExpired := False\<rparr>"
    by (simp add: login_finish_def signIn_def)
  have "js_opt_get (User_toJSON u) ''username'' = (if User_username u \<noteq> '''' then JStr (User_username u) else JUndefined)"
    and "js_opt_get (User_toJSON u) ''displayName'' = (if User_displayName u \<noteq> '''' then JStr (User_displayName u) else JUndefined)"
    and "js_opt_get (User_toJSON u) ''isAdmin'' = (if User_isAdmin u then JBool True else JUndefined)"
    by (simp_all add: User_toJSON_def js_opt_get_def js_get_json_object put_if_def)
  moreover have "js_Boolean (User_toJSON u)" by (simp add: User_toJSON_def json_object_def)
  ultimately show ?thesis
    using assms(3) by (simp add: t AuthBar_def js_or_def)
qed

theorem login_shows_user_witness:
  "let t = login_finish (Inr (SessionResponse_toJSON ada_session)) signed_out_page
    in storage t = (storage signed_out_page)(STORAGE_KEY \<mapsto> SessionResponse_jwt ada_session) \<and>
       jwt t = JStr (SessionResponse_jwt ada_session) \<and>
       user t = User_toJSON ada \<and> \<not> sessionExpired t \<and>
       AuthBar t = SignedIn
         (if User_username ada \<noteq> '''' then JStr (User_username ada)
          else if User_displayName ada \<noteq> '''' then JStr (User_displayName ada) else JUndefined) (User_isAdmin ada)"
  by (rule login_shows_user) (simp_all add: ada_session_def signed_out_page_def signOut_def signed_in_page_def)

text \<open>
  C37. A sign-in answer without a token is not refused: the text \<^verbatim>\<open>undefined\<close> is stored as the
  token, and the next page load sends it.
\<close>

theorem login_without_token:
  assumes "js_get answer_object ''jwt'' = Inr JUndefined"
    and "js_get answer_object ''user'' = Inr u"
  shows "storage (login_finish (Inr answer_object) s) STORAGE_KEY = Some ''undefined'' \<and>
    restoring (restore_session (initial_session 1 (storage (login_finish (Inr answer_object) s)))) = [Fetching ''undefined''] \<and>
    map_of (req_headers (me_request kong ''undefined'')) ''Authorization'' = Some ''Bearer undefined''"
  using assms
  by (simp add: login_finish_def signIn_def restore_session_def initial_session_def me_request_def
      build_request_def request_headers_authorization)

theorem login_without_token_witness:
  "storage (login_finish (Inr (JObj [(''user'', User_toJSON bob)])) signed_out_page) STORAGE_KEY = Some ''undefined'' \<and>
    restoring (restore_session (initial_session 1 (storage (login_finish (Inr (JObj [(''user'', User_toJSON bob)])) signed_out_page)))) = [Fetching ''undefined''] \<and>
    map_of (req_headers (me_request None ''undefined'')) ''Authorization'' = Some ''Bearer undefined''"
  by (rule login_without_token [where u = "User_toJSON bob"]) simp_all

section \<open>The echo form\<close>

text \<open>
  C38. The form has at most one request in flight, exactly while it says that it is loading,
  and it never shows an error and a reply together.
\<close>

theorem echo_single_flight:
  assumes "app_reachable kong a"
  shows "length (app_pending a) \<le> 1 \<and> (app_pending a \<noteq> [] \<longleftrightarrow> app_loading a) \<and>
    (shown_error a = None \<or> shown_response a = None)"
  using app_reachable_inv [OF assms]
  by (auto simp: app_inv_def shown_error_def shown_response_def split: if_splits)

theorem echo_single_flight_witness:
  "length (app_pending asking) \<le> 1 \<and> (app_pending asking \<noteq> [] \<longleftrightarrow> app_loading asking) \<and>
    (shown_error asking = None \<or> shown_response asking = None)"
  by (rule echo_single_flight [OF asking_reachable])

text \<open>
  C39. Every echo request that is sent carries a message that is neither empty nor padded with
  white space, and its body is the text of the canonical JSON form of the request message.
\<close>

theorem echo_request_canonical:
  assumes "app_reachable kong a" and "req \<in> set (app_pending a)"
  shows "EchoRequest_message req \<noteq> '''' \<and> trim (EchoRequest_message req) = EchoRequest_message req \<and>
    req_body (echo_request kong req) = json_stringify (EchoRequest_toJSON req) \<and>
    EchoRequest_fromJSON (echo_object req) = Inr req"
proof -
  from app_reachable_inv [OF assms(1)] assms(2)
  have "EchoRequest_message req \<noteq> ''''" and "trim (EchoRequest_message req) = EchoRequest_message req"
    by (auto simp: app_inv_def split: if_splits)
  then show ?thesis
    using echo_object_read [of req] by (simp add: echo_request_def echo_object_canonical)
qed

theorem echo_request_canonical_witness:
  "EchoRequest_message \<lparr>EchoRequest_message = ''hi''\<rparr> \<noteq> '''' \<and>
    trim (EchoRequest_message \<lparr>EchoRequest_message = ''hi''\<rparr>) = EchoRequest_message \<lparr>EchoRequest_message = ''hi''\<rparr> \<and>
    req_body (echo_request None \<lparr>EchoRequest_message = ''hi''\<rparr>) = json_stringify (EchoRequest_toJSON \<lparr>EchoRequest_message = ''hi''\<rparr>) \<and>
    EchoRequest_fromJSON (echo_object \<lparr>EchoRequest_message = ''hi''\<rparr>) = Inr \<lparr>EchoRequest_message = ''hi''\<rparr>"
  by (rule echo_request_canonical [OF asking_reachable]) (simp add: asking_def)

text \<open>
  C40. The answer to the request in flight ends the loading state; then either the reply's
  value is there and no error, or the error's message is there and no reply.
\<close>

theorem echo_reply_settles:
  assumes "app_reachable kong a" and "app_step kong a (Reply req ans) b"
  shows "\<not> app_loading b \<and> app_pending b = [] \<and> app_message b = app_message a \<and>
    (case callEcho (\<lambda>_. ans) kong req of
       Inr v \<Rightarrow> app_response b = v \<and> app_error b = None
     | Inl e \<Rightarrow> app_response b = JNull \<and> app_error b = Some (error_message e))"
proof -
  from assms(2) obtain xs ys where pending: "app_pending a = xs @ req # ys"
    and b: "b = call_finish (callEcho (\<lambda>_. ans) kong req) (a\<lparr>app_pending := xs @ ys\<rparr>)"
    by (rule replyE)
  with app_reachable_inv [OF assms(1)] have "xs = []" "ys = []" "app_error a = None" "app_response a = JNull"
    by (auto simp: app_inv_def singleton_split split: if_splits)
  then show ?thesis by (simp add: b call_finish_def split: sum.split)
qed

theorem echo_reply_settles_witness:
  "\<not> app_loading (call_finish (callEcho (\<lambda>_. answer 500 (me_request None ''t0'')) None \<lparr>EchoRequest_message = ''hi''\<rparr>) (asking\<lparr>app_pending := []\<rparr>)) \<and>
    app_pending (call_finish (callEcho (\<lambda>_. answer 500 (me_request None ''t0'')) None \<lparr>EchoRequest_message = ''hi''\<rparr>) (asking\<lparr>app_pending := []\<rparr>)) = [] \<and>
    app_message (call_finish (callEcho (\<lambda>_. answer 500 (me_request None ''t0'')) None \<lparr>EchoRequest_message = ''hi''\<rparr>) (asking\<lparr>app_pending := []\<rparr>)) = app_message asking \<and>
    (case callEcho (\<lambda>_. answer 500 (me_request None ''t0'')) None \<lparr>EchoRequest_message = ''hi''\<rparr> of
       Inr v \<Rightarrow> app_response (call_finish (callEcho (\<lambda>_. answer 500 (me_request None ''t0'')) None \<lparr>EchoRequest_message = ''hi''\<rparr>) (asking\<lparr>app_pending := []\<rparr>)) = v \<and>
         app_error (call_finish (callEcho (\<lambda>_. answer 500 (me_request None ''t0'')) None \<lparr>EchoRequest_message = ''hi''\<rparr>) (asking\<lparr>app_pending := []\<rparr>)) = None
     | Inl e \<Rightarrow> app_response (call_finish (callEcho (\<lambda>_. answer 500 (me_request None ''t0'')) None \<lparr>EchoRequest_message = ''hi''\<rparr>) (asking\<lparr>app_pending := []\<rparr>)) = JNull \<and>
         app_error (call_finish (callEcho (\<lambda>_. answer 500 (me_request None ''t0'')) None \<lparr>EchoRequest_message = ''hi''\<rparr>) (asking\<lparr>app_pending := []\<rparr>)) = Some (error_message e))"
  by (rule echo_reply_settles [OF asking_reachable asking_reply])

text \<open>
  The echo call treats every status outside 200 to 299 alike, 401 included: an error whose
  text is the status, a colon and the body of the answer.
\<close>

theorem callEcho_status_error:
  assumes "fetch (echo_request kong req) = Inr res" and "status res < 200 \<or> 300 \<le> status res"
    and "text_result res = Inr msg"
  shows "callEcho fetch kong req = Inl (Error (nat_to_string (status res) @ '': '' @ msg))"
  using assms by (auto simp: callEcho_def response_ok_def status_error_def)

theorem callEcho_status_error_witness:
  "callEcho (answer 401) None \<lparr>EchoRequest_message = ''hi''\<rparr> =
     Inl (Error (nat_to_string (status \<lparr>status = 401, text_result = Inr ''no'', json_result = Inr (User_toJSON ada)\<rparr>) @ '': '' @ ''no''))"
  by (rule callEcho_status_error) (simp_all add: answer_def)

end
